(* ===== verification/Prelude.thy ===== *)
theory Prelude
  imports Complex_Main "HOL-Library.AList"
begin

text \<open>
  Shared vocabulary of the development. The Python code of the bus uses unbounded integers,
  double floats, insertion-ordered dictionaries, bounded deques and JSON values; this theory
  fixes how each of them is represented and proves the generic facts the components share.

  \<^item> An \<open>int\<close> is an \<open>int\<close> (a counter that only ever grows from 0 is a \<open>nat\<close>); a \<open>float\<close>
    is an exact rational (\<open>rat\<close>): rounding of IEEE doubles is not modelled. A reading of the
    clock (\<open>time.time()\<close>, \<open>datetime.now(UTC)\<close>) is a rational number of seconds and is an
    argument of the operation that reads it.
  \<^item> A \<open>dict\<close> is an association list in insertion order. \<open>d[k] = v\<close> is \<open>AList.update\<close>,
    which overwrites in place or appends at the end, as Python does; \<open>del d[k]\<close> and
    \<open>d.pop(k)\<close> are \<open>AList.delete\<close>; \<open>d.get(k)\<close> is \<open>map_of\<close>.
  \<^item> A \<open>deque(maxlen=n)\<close> is a list whose \<open>append\<close> drops from the front.
  \<^item> A \<open>str\<close> is a list of characters; the character functions below are those of Python
    on ASCII.
\<close>

section \<open>Dictionaries\<close>

type_synonym ('k, 'v) dict = "('k \<times> 'v) list"

abbreviation dget :: "('k, 'v) dict \<Rightarrow> 'k \<Rightarrow> 'v option" where
  "dget d k \<equiv> map_of d k"

abbreviation dset :: "'k \<Rightarrow> 'v \<Rightarrow> ('k, 'v) dict \<Rightarrow> ('k, 'v) dict" where
  "dset k v d \<equiv> AList.update k v d"

abbreviation ddel :: "'k \<Rightarrow> ('k, 'v) dict \<Rightarrow> ('k, 'v) dict" where
  "ddel k d \<equiv> AList.delete k d"

abbreviation dkeys :: "('k, 'v) dict \<Rightarrow> 'k list" where
  "dkeys d \<equiv> map fst d"

abbreviation dvalues :: "('k, 'v) dict \<Rightarrow> 'v list" where
  "dvalues d \<equiv> map snd d"

text \<open>\<open>d.get(k, default)\<close>\<close>

definition dget_default :: "('k, 'v) dict \<Rightarrow> 'k \<Rightarrow> 'v \<Rightarrow> 'v" where
  "dget_default d k v = (case dget d k of None \<Rightarrow> v | Some w \<Rightarrow> w)"

named_theorems dict_simps \<open>lookup after an update or a deletion\<close>

lemma dget_dset [dict_simps]: "dget (dset k v d) k' = (if k' = k then Some v else dget d k')"
  by (simp add: update_conv')

lemma dget_ddel [dict_simps]: "dget (ddel k d) k' = (if k' = k then None else dget d k')"
  by (simp add: delete_conv')

lemma dget_default_dset:
  "dget_default (dset k v d) k' w = (if k' = k then v else dget_default d k' w)"
  by (simp add: dget_default_def dict_simps)

lemma dget_default_ddel:
  "dget_default (ddel k d) k' w = (if k' = k then w else dget_default d k' w)"
  by (simp add: dget_default_def dict_simps)

lemma distinct_dset [dict_simps]: "distinct (dkeys (dset k v d)) = distinct (dkeys d)"
  by (induction d) (auto simp: update_keys)

lemma distinct_ddel: "distinct (dkeys d) \<Longrightarrow> distinct (dkeys (ddel k d))"
  by (simp add: distinct_delete)

lemma dkeys_dset [dict_simps]:
  "dkeys (dset k v d) = (if k \<in> set (dkeys d) then dkeys d else dkeys d @ [k])"
  by (induction d) auto

lemma dkeys_ddel [dict_simps]: "set (dkeys (ddel k d)) = set (dkeys d) - {k}"
  by (auto simp: AList.delete_eq)

lemma dget_in_values: "dget d k = Some v \<Longrightarrow> v \<in> set (dvalues d)"
  by (force dest: map_of_SomeD)

lemma dget_None_keys: "dget d k = None \<longleftrightarrow> k \<notin> set (dkeys d)"
  by (simp add: map_of_eq_None_iff)

lemma dvalues_dset_subset: "set (dvalues (dset k v d)) \<subseteq> insert v (set (dvalues d))"
  by (induction d) auto

lemma length_dset [dict_simps]:
  "length (dset k v d) = (if k \<in> set (dkeys d) then length d else Suc (length d))"
  by (induction d) auto

lemma dget_map_values: "dget (map (\<lambda>(k, v). (k, f v)) d) k = map_option f (dget d k)"
  by (induction d) auto

text \<open>\<open>for k in list(d): if d[k] == v: del d[k]\<close>\<close>

definition ddel_value :: "'v \<Rightarrow> ('k, 'v) dict \<Rightarrow> ('k, 'v) dict" where
  "ddel_value v d = filter (\<lambda>(k, w). w \<noteq> v) d"

lemma dget_filter_value:
  "distinct (dkeys d) \<Longrightarrow>
   dget (filter (\<lambda>(k, w). P w) d) k = (case dget d k of None \<Rightarrow> None | Some w \<Rightarrow> if P w then Some w else None)"
  by (induction d) (auto simp: map_of_eq_None_iff image_iff split: option.splits)

lemma dget_ddel_value:
  "distinct (dkeys d) \<Longrightarrow> dget (ddel_value v d) k = (if dget d k = Some v then None else dget d k)"
  by (auto simp: ddel_value_def dget_filter_value split: option.splits)

lemma distinct_ddel_value: "distinct (dkeys d) \<Longrightarrow> distinct (dkeys (ddel_value v d))"
  by (simp add: ddel_value_def distinct_map_filter)

section \<open>Bounded deques\<close>

definition deque_append :: "nat \<Rightarrow> 'a \<Rightarrow> 'a list \<Rightarrow> 'a list" where
  "deque_append maxlen x xs = (let ys = xs @ [x] in drop (length ys - maxlen) ys)"

lemma length_deque_append [simp]:
  "length (deque_append n x xs) = min n (Suc (length xs))"
  by (simp add: deque_append_def)

lemma deque_append_last [simp]:
  "0 < n \<Longrightarrow> last (deque_append n x xs) = x"
  by (simp add: deque_append_def)

lemma deque_append_member [simp]:
  "0 < n \<Longrightarrow> x \<in> set (deque_append n x xs)"
  by (simp add: deque_append_def)

lemma deque_append_nonempty [simp]:
  "0 < n \<Longrightarrow> deque_append n x xs \<noteq> []"
  by (simp add: deque_append_def)

lemma deque_append_room: "length xs < n \<Longrightarrow> deque_append n x xs = xs @ [x]"
  by (simp add: deque_append_def)

lemma set_deque_append: "set (deque_append n x xs) \<subseteq> insert x (set xs)"
  by (auto simp: deque_append_def dest: in_set_dropD)

section \<open>JSON values\<close>

text \<open>
  \<open>JTime t\<close> stands for \<open>t.isoformat()\<close>: the rendering of an instant is not modelled.
\<close>

datatype json =
  JNull | JBool bool | JInt int | JNum rat | JStr string | JTime rat
| JList "json list" | JObj "(string \<times> json) list"

type_synonym json_dict = "(string, json) dict"

fun jstr_option :: "string option \<Rightarrow> json" where
  "jstr_option None = JNull"
| "jstr_option (Some s) = JStr s"

text \<open>\<open>get_str(d, key, default)\<close> of the type guards\<close>

definition get_str :: "json_dict \<Rightarrow> string \<Rightarrow> string \<Rightarrow> string" where
  "get_str d k dflt = (case dget d k of Some (JStr s) \<Rightarrow> s | _ \<Rightarrow> dflt)"

text \<open>The hash stamped on records and results (\<^verbatim>\<open>src/_compat/constants.py\<close>).\<close>

definition CONSTITUTIONAL_HASH :: string where
  "CONSTITUTIONAL_HASH = ''608508a9bd224290''"

text \<open>
  \<open>round(x, n)\<close>: to the nearest multiple of \<open>10 ^ -n\<close>, to the even one on a tie (the tie is
  decided on the exact value here, on the nearest double in Python).
\<close>

definition py_round :: "nat \<Rightarrow> rat \<Rightarrow> rat" where
  "py_round n x = (let y = x * 10 ^ n; f = \<lfloor>y\<rfloor>; d = y - of_int f
     in of_int (if d < 1 / 2 then f else if 1 / 2 < d then f + 1 else if even f then f else f + 1) / 10 ^ n)"

text \<open>\<open>bool(v)\<close>; and the number Python compares a number or a truth value with.\<close>

fun json_truthy :: "json \<Rightarrow> bool" where
  "json_truthy JNull = False"
| "json_truthy (JBool b) = b"
| "json_truthy (JInt i) = (i \<noteq> 0)"
| "json_truthy (JNum r) = (r \<noteq> 0)"
| "json_truthy (JStr s) = (s \<noteq> [])"
| "json_truthy (JTime t) = True"
| "json_truthy (JList xs) = (xs \<noteq> [])"
| "json_truthy (JObj d) = (d \<noteq> [])"

fun py_num :: "json \<Rightarrow> rat option" where
  "py_num (JInt n) = Some (of_int n)"
| "py_num (JNum r) = Some r"
| "py_num (JBool b) = Some (if b then 1 else 0)"
| "py_num _ = None"

text \<open>Whether a value can be put in a set: hashing a list or a dictionary is a \<open>TypeError\<close>.\<close>

fun hashable :: "json \<Rightarrow> bool" where
  "hashable (JList xs) = False"
| "hashable (JObj d) = False"
| "hashable _ = True"

text \<open>
  \<open>E(v)\<close> for an enumeration: the member with that value (the first one declared, as an alias is not a
  member of its own), if there is one.
\<close>

definition enum_of :: "('a \<Rightarrow> 'v) \<Rightarrow> 'a list \<Rightarrow> 'v \<Rightarrow> 'a option" where
  "enum_of val members v = find (\<lambda>x. val x = v) members"

lemma enum_of_val: "inj val \<Longrightarrow> x \<in> set members \<Longrightarrow> enum_of val members (val x) = Some x"
  unfolding enum_of_def by (induction members) (auto dest: injD)

section \<open>Strings and truth values\<close>

text \<open>\<open>if s:\<close> for an optional string: neither \<open>None\<close> nor the empty string.\<close>

definition truthy_str :: "string option \<Rightarrow> bool" where
  "truthy_str s = (case s of None \<Rightarrow> False | Some t \<Rightarrow> t \<noteq> [])"

definition upper_char :: "char \<Rightarrow> char" where
  "upper_char c = (let n = (of_char c :: nat) in if 97 \<le> n \<and> n \<le> 122 then char_of (n - 32) else c)"

definition lower_char :: "char \<Rightarrow> char" where
  "lower_char c = (let n = (of_char c :: nat) in if 65 \<le> n \<and> n \<le> 90 then char_of (n + 32) else c)"

definition py_upper :: "string \<Rightarrow> string" where
  "py_upper s = map upper_char s"

definition py_lower :: "string \<Rightarrow> string" where
  "py_lower s = map lower_char s"

definition py_isspace :: "char \<Rightarrow> bool" where
  "py_isspace c = (let n = (of_char c :: nat) in (9 \<le> n \<and> n \<le> 13) \<or> (28 \<le> n \<and> n \<le> 32))"

definition py_strip :: "string \<Rightarrow> string" where
  "py_strip s = rev (dropWhile py_isspace (rev (dropWhile py_isspace s)))"

fun py_capitalize :: "string \<Rightarrow> string" where
  "py_capitalize [] = []"
| "py_capitalize (c # cs) = upper_char c # py_lower cs"

text \<open>A string between single quotes: \<open>f"'{s}'"\<close>, or \<open>repr(s)\<close> of one without quotes or backslashes\<close>

definition quoted :: "string \<Rightarrow> string" where
  "quoted s = CHR 0x27 # s @ [CHR 0x27]"

section \<open>Errors as values\<close>

definition is_ok :: "'e + 'a \<Rightarrow> bool" where
  "is_ok r = (case r of Inl _ \<Rightarrow> False | Inr _ \<Rightarrow> True)"

lemma is_ok_simps [simp]: "is_ok (Inr a) = True" "is_ok (Inl e) = False"
  by (simp_all add: is_ok_def)

lemma is_ok_iff: "is_ok r \<longleftrightarrow> (\<exists>a. r = Inr a)"
  by (cases r) auto

text \<open>Sums of weights, used by the voting and quota code.\<close>

lemma sum_list_nonneg_rat: "(\<And>x. x \<in> set xs \<Longrightarrow> 0 \<le> f x) \<Longrightarrow> (0 :: rat) \<le> sum_list (map f xs)"
  by (induction xs) auto

lemma sum_list_filter_le_rat:
  "(\<And>x. x \<in> set xs \<Longrightarrow> (0 :: rat) \<le> f x) \<Longrightarrow> sum_list (map f (filter P xs)) \<le> sum_list (map f xs)"
  by (induction xs) (auto intro: add_increasing)

end
