(* ===== verification/MACI_Models.thy ===== *)
theory MACI_Models
  imports Prelude
begin

text \<open>
  The MACI data model: \<^verbatim>\<open>src/maci/models.py\<close> (roles, actions, the permission and validation
  matrices, configuration), \<^verbatim>\<open>src/_compat/constants.py\<close> (parsing of a role),
  \<^verbatim>\<open>src/maci/utils.py\<close> (the check of the matrices), \<^verbatim>\<open>src/maci/role_matrix_validator.py\<close> and
  the dictionary part of \<^verbatim>\<open>src/maci/config_loader.py\<close>. A Python set of enum members is a
  HOL set, a dictionary of them an association list in the order the source writes it.
\<close>

section \<open>Roles and actions\<close>

datatype maci_role =
  EXECUTIVE | LEGISLATIVE | JUDICIAL | MONITOR | AUDITOR | CONTROLLER | IMPLEMENTER

datatype maci_action =
  PROPOSE | VALIDATE | EXTRACT_RULES | SYNTHESIZE | AUDIT | QUERY | MANAGE_POLICY
| EMERGENCY_COOLDOWN | MONITOR_ACTIVITY | ENFORCE_CONTROL

fun role_value :: "maci_role \<Rightarrow> string" where
  "role_value EXECUTIVE = ''EXECUTIVE''"
| "role_value LEGISLATIVE = ''LEGISLATIVE''"
| "role_value JUDICIAL = ''JUDICIAL''"
| "role_value MONITOR = ''MONITOR''"
| "role_value AUDITOR = ''AUDITOR''"
| "role_value CONTROLLER = ''CONTROLLER''"
| "role_value IMPLEMENTER = ''IMPLEMENTER''"

fun action_value :: "maci_action \<Rightarrow> string" where
  "action_value PROPOSE = ''propose''"
| "action_value VALIDATE = ''validate''"
| "action_value EXTRACT_RULES = ''extract_rules''"
| "action_value SYNTHESIZE = ''synthesize''"
| "action_value AUDIT = ''audit''"
| "action_value QUERY = ''query''"
| "action_value MANAGE_POLICY = ''manage_policy''"
| "action_value EMERGENCY_COOLDOWN = ''emergency_cooldown''"
| "action_value MONITOR_ACTIVITY = ''monitor_activity''"
| "action_value ENFORCE_CONTROL = ''enforce_control''"

definition all_roles :: "maci_role list" where
  "all_roles = [EXECUTIVE, LEGISLATIVE, JUDICIAL, MONITOR, AUDITOR, CONTROLLER, IMPLEMENTER]"

lemma set_all_roles [simp]: "set all_roles = UNIV"
  by (auto simp: all_roles_def intro: maci_role.exhaust)

text \<open>
  \<open>MACIRole(value)\<close>: a member whose value is the string, or, by \<open>_missing_\<close>, one whose value or
  name is the string stripped and in upper case (value and name coincide for every member).
  \<open>None\<close> stands for the \<open>ValueError\<close>.
\<close>

definition role_of_value :: "string \<Rightarrow> maci_role option" where
  "role_of_value s = find (\<lambda>r. role_value r = s) all_roles"

definition role_missing :: "string \<Rightarrow> maci_role option" where
  "role_missing s = (let n = py_upper (py_strip s) in if n \<noteq> [] then role_of_value n else None)"

definition parse_role :: "string \<Rightarrow> maci_role option" where
  "parse_role s = (case role_of_value s of Some r \<Rightarrow> Some r | None \<Rightarrow> role_missing s)"

section \<open>The matrices\<close>

definition ROLE_PERMISSIONS :: "(maci_role, maci_action set) dict" where
  "ROLE_PERMISSIONS =
     [(EXECUTIVE, {PROPOSE, SYNTHESIZE, QUERY}),
      (LEGISLATIVE, {EXTRACT_RULES, SYNTHESIZE, QUERY}),
      (JUDICIAL, {VALIDATE, AUDIT, QUERY, EMERGENCY_COOLDOWN}),
      (MONITOR, {MONITOR_ACTIVITY, QUERY}),
      (AUDITOR, {AUDIT, QUERY}),
      (CONTROLLER, {ENFORCE_CONTROL, QUERY}),
      (IMPLEMENTER, {SYNTHESIZE, QUERY})]"

definition VALIDATION_CONSTRAINTS :: "(maci_role, maci_role set) dict" where
  "VALIDATION_CONSTRAINTS =
     [(JUDICIAL, {EXECUTIVE, LEGISLATIVE, IMPLEMENTER}),
      (AUDITOR, {MONITOR, CONTROLLER, IMPLEMENTER})]"

definition ROLE_HIERARCHY :: "(maci_role, int) dict" where
  "ROLE_HIERARCHY =
     [(JUDICIAL, 100), (AUDITOR, 90), (LEGISLATIVE, 80), (EXECUTIVE, 70),
      (CONTROLLER, 60), (MONITOR, 50), (IMPLEMENTER, 40)]"

definition permitted :: "maci_role \<Rightarrow> maci_action \<Rightarrow> bool" where
  "permitted r a = (a \<in> dget_default ROLE_PERMISSIONS r {})"

definition may_validate :: "maci_role \<Rightarrow> maci_role \<Rightarrow> bool" where
  "may_validate r t = (t \<in> dget_default VALIDATION_CONSTRAINTS r {})"

lemmas maci_matrix_defs =
  permitted_def may_validate_def ROLE_PERMISSIONS_def VALIDATION_CONSTRAINTS_def dget_default_def

text \<open>
  \<open>validate_maci_role_matrix\<close>: the two loops, with the messages they append. An absent or empty
  argument falls back to the module's matrix (\<open>role_permissions or ROLE_PERMISSIONS\<close>).
\<close>

definition or_default :: "('k, 'v) dict option \<Rightarrow> ('k, 'v) dict \<Rightarrow> ('k, 'v) dict" where
  "or_default d dflt = (case d of None \<Rightarrow> dflt | Some m \<Rightarrow> if m = [] then dflt else m)"

definition permission_violations :: "maci_role \<times> maci_action set \<Rightarrow> string list" where
  "permission_violations ra = (case ra of (r, acts) \<Rightarrow>
     (if VALIDATE \<in> acts \<and> PROPOSE \<in> acts
      then [role_value r @ '' has conflicting duties: propose and validate''] else []) @
     (if VALIDATE \<in> acts \<and> SYNTHESIZE \<in> acts
      then [role_value r @ '' has conflicting duties: synthesize and validate''] else []))"

definition constraint_violations ::
  "(maci_role, maci_action set) dict \<Rightarrow> maci_role \<times> maci_role set \<Rightarrow> string list" where
  "constraint_violations perms rt = (case rt of (r, targets) \<Rightarrow>
     (if r \<in> targets then [role_value r @ '' can validate itself''] else []) @
     (let acts = dget_default perms r {} in
      if VALIDATE \<notin> acts \<and> AUDIT \<notin> acts
      then [role_value r @ '' has validation constraints but no validate/audit permission'']
      else []))"

definition validate_maci_role_matrix ::
  "(maci_role, maci_action set) dict option \<Rightarrow> (maci_role, maci_role set) dict option \<Rightarrow> string list"
where
  "validate_maci_role_matrix role_permissions validation_constraints =
     (let permissions = or_default role_permissions ROLE_PERMISSIONS;
          constraints = or_default validation_constraints VALIDATION_CONSTRAINTS
      in concat (map permission_violations permissions) @
         concat (map (constraint_violations permissions) constraints))"

text \<open>\<open>RoleMatrixValidator.validate\<close>: raises in strict mode only.\<close>

definition role_matrix_validator_validate :: "string list \<Rightarrow> bool \<Rightarrow> string list + unit" where
  "role_matrix_validator_validate violations strict_mode =
     (if violations = [] then Inr ()
      else if strict_mode then Inl violations else Inr ())"

text \<open>What the matrix check means: duties are separated.\<close>

definition separated_duties ::
  "(maci_role, maci_action set) dict \<Rightarrow> (maci_role, maci_role set) dict \<Rightarrow> bool" where
  "separated_duties perms cons \<longleftrightarrow>
     (\<forall>(r, acts) \<in> set perms. VALIDATE \<in> acts \<longrightarrow> PROPOSE \<notin> acts \<and> SYNTHESIZE \<notin> acts) \<and>
     (\<forall>(r, ts) \<in> set cons. r \<notin> ts \<and>
        (VALIDATE \<in> dget_default perms r {} \<or> AUDIT \<in> dget_default perms r {}))"

lemma permission_violations_Nil:
  "permission_violations (r, acts) = [] \<longleftrightarrow> (VALIDATE \<in> acts \<longrightarrow> PROPOSE \<notin> acts \<and> SYNTHESIZE \<notin> acts)"
  by (auto simp: permission_violations_def)

lemma constraint_violations_Nil:
  "constraint_violations perms (r, ts) = [] \<longleftrightarrow>
     r \<notin> ts \<and> (VALIDATE \<in> dget_default perms r {} \<or> AUDIT \<in> dget_default perms r {})"
  by (auto simp: constraint_violations_def Let_def)

lemma validate_matrix_Nil_iff:
  "validate_maci_role_matrix p c = [] \<longleftrightarrow>
     separated_duties (or_default p ROLE_PERMISSIONS) (or_default c VALIDATION_CONSTRAINTS)"
  unfolding validate_maci_role_matrix_def separated_duties_def Let_def
  by (auto simp: permission_violations_Nil constraint_violations_Nil)

lemma default_matrix_valid: "validate_maci_role_matrix None None = []"
  unfolding validate_matrix_Nil_iff
  by (simp add: separated_duties_def or_default_def maci_matrix_defs)

lemma permitted_VALIDATE: "permitted r VALIDATE \<longleftrightarrow> r = JUDICIAL"
  by (cases r) (simp_all add: maci_matrix_defs)

lemma permitted_MANAGE_POLICY: "\<not> permitted r MANAGE_POLICY"
  by (cases r) (simp_all add: maci_matrix_defs)

lemma permitted_QUERY: "permitted r QUERY"
  by (cases r) (simp_all add: maci_matrix_defs)

lemma may_validate_irrefl: "\<not> may_validate r r"
  by (cases r) (simp_all add: maci_matrix_defs)

lemma may_validate_JUDICIAL:
  "may_validate JUDICIAL t \<longleftrightarrow> t \<in> {EXECUTIVE, LEGISLATIVE, IMPLEMENTER}"
  by (cases t) (simp_all add: maci_matrix_defs)

section \<open>Role parsing\<close>

lemma role_of_value_role_value [simp]: "role_of_value (role_value r) = Some r"
  by (cases r) (simp_all add: role_of_value_def all_roles_def)

lemma role_of_value_SomeD: "role_of_value s = Some r \<Longrightarrow> s = role_value r"
  by (auto simp: role_of_value_def find_Some_iff)

lemma parse_role_value [simp]: "parse_role (role_value r) = Some r"
  by (simp add: parse_role_def)

section \<open>Configuration\<close>

record maci_agent_role_config =
  rc_agent_id :: string
  rc_role :: maci_role
  rc_capabilities :: "string list"
  rc_metadata :: json_dict

record maci_config =
  cfg_strict_mode :: bool
  cfg_agents :: "maci_agent_role_config list"
  cfg_default_role :: "maci_role option"
  cfg_constitutional_hash :: string

definition get_agent_config :: "maci_config \<Rightarrow> string \<Rightarrow> maci_agent_role_config option" where
  "get_agent_config cfg agent_id = find (\<lambda>a. rc_agent_id a = agent_id) (cfg_agents cfg)"

definition get_role_for_agent :: "maci_config \<Rightarrow> string \<Rightarrow> maci_role option" where
  "get_role_for_agent cfg agent_id =
     (case find (\<lambda>a. rc_agent_id a = agent_id) (cfg_agents cfg) of
        Some a \<Rightarrow> Some (rc_role a)
      | None \<Rightarrow> cfg_default_role cfg)"

text \<open>
  \<open>get_str_list\<close> renders every element with \<open>str\<close>, which is not modelled for values that are
  no strings: \<open>to_str\<close> is a parameter. A dictionary key of a JSON object is always a string, so
  \<open>is_json_dict\<close> is \<open>isinstance(value, dict)\<close>.
\<close>

definition get_str_list :: "(json \<Rightarrow> string) \<Rightarrow> json_dict \<Rightarrow> string \<Rightarrow> string list" where
  "get_str_list to_str d k =
     (case dget d k of
        Some (JList vs) \<Rightarrow> map (\<lambda>v. case v of JStr s \<Rightarrow> s | _ \<Rightarrow> to_str v) vs
      | _ \<Rightarrow> [])"

definition load_agent :: "(json \<Rightarrow> string) \<Rightarrow> json \<Rightarrow> maci_agent_role_config option" where
  "load_agent to_str v =
     (case v of
        JObj a \<Rightarrow>
          (let aid = (if get_str a ''agent_id'' [] \<noteq> [] then get_str a ''agent_id'' []
                      else get_str a ''id'' []);
               role_str = get_str a ''role'' []
           in if aid \<noteq> [] \<and> role_str \<noteq> [] then
                (case parse_role (py_upper role_str) of
                   Some r \<Rightarrow> Some \<lparr>rc_agent_id = aid, rc_role = r,
                     rc_capabilities = get_str_list to_str a ''capabilities'',
                     rc_metadata = (case dget a ''metadata'' of Some (JObj m) \<Rightarrow> m | _ \<Rightarrow> [])\<rparr>
                 | None \<Rightarrow> None)
              else None)
      | _ \<Rightarrow> None)"

definition load_from_dict :: "(json \<Rightarrow> string) \<Rightarrow> string \<Rightarrow> json_dict \<Rightarrow> maci_config" where
  "load_from_dict to_str loader_hash data =
     \<lparr>cfg_strict_mode = (case dget data ''strict_mode'' of Some (JBool b) \<Rightarrow> b | _ \<Rightarrow> True),
      cfg_agents = (case dget data ''agents'' of
                      Some (JList vs) \<Rightarrow> List.map_filter (load_agent to_str) vs
                    | _ \<Rightarrow> []),
      cfg_default_role = (case dget data ''default_role'' of
                            Some (JStr s) \<Rightarrow> if s \<noteq> [] then parse_role (py_upper s) else None
                          | _ \<Rightarrow> None),
      cfg_constitutional_hash = get_str data ''constitutional_hash'' loader_hash\<rparr>"

text \<open>Loading fails closed: strict unless the dictionary says \<open>strict_mode: false\<close>.\<close>

lemma load_from_dict_strict:
  "cfg_strict_mode (load_from_dict to_str h data) \<longleftrightarrow> dget data ''strict_mode'' \<noteq> Some (JBool False)"
  by (auto simp: load_from_dict_def split: option.splits json.splits)

lemma load_agent_nonempty: "load_agent to_str v = Some a \<Longrightarrow> rc_agent_id a \<noteq> []"
  by (auto simp: load_agent_def Let_def split: json.splits if_splits option.splits)

lemma load_from_dict_agents:
  "a \<in> set (cfg_agents (load_from_dict to_str h data)) \<Longrightarrow> rc_agent_id a \<noteq> []"
  by (auto simp: load_from_dict_def List.map_filter_def
           split: option.splits json.splits dest: load_agent_nonempty)

end
