(* ===== verification/Machine.thy ===== *)
theory Machine
  imports Prelude
begin

text \<open>
  The contract every stateful component is checked against. A component is a step function from
  a state and an operation (with its arguments, clock readings included) to the next state and
  the value the call returns; a run is a sequence of calls. The locales state what one step
  promises and lift it, once, to every run. Each component interprets them on its own step.
\<close>

primrec run :: "('s \<Rightarrow> 'e \<Rightarrow> 's \<times> 'o) \<Rightarrow> 's \<Rightarrow> 'e list \<Rightarrow> 's" where
  "run step s [] = s"
| "run step s (e # es) = run step (fst (step s e)) es"

primrec outputs :: "('s \<Rightarrow> 'e \<Rightarrow> 's \<times> 'o) \<Rightarrow> 's \<Rightarrow> 'e list \<Rightarrow> 'o list" where
  "outputs step s [] = []"
| "outputs step s (e # es) = snd (step s e) # outputs step (fst (step s e)) es"

lemma run_append: "run step s (es @ fs) = run step (run step s es) fs"
  by (induction es arbitrary: s) auto

lemma length_outputs [simp]: "length (outputs step s es) = length es"
  by (induction es arbitrary: s) auto

text \<open>An invariant kept by every call; \<open>ok\<close> says which calls a client may make.\<close>

locale machine =
  fixes step :: "'s \<Rightarrow> 'e \<Rightarrow> 's \<times> 'o"
    and ok :: "'e \<Rightarrow> bool"
    and invar :: "'s \<Rightarrow> bool"
  assumes step_invar: "invar s \<Longrightarrow> ok e \<Longrightarrow> invar (fst (step s e))"
begin

lemma run_invar: "invar s \<Longrightarrow> list_all ok es \<Longrightarrow> invar (run step s es)"
  by (induction es arbitrary: s) (auto intro: step_invar)

end

text \<open>Quantities that only grow.\<close>

locale ranked_machine = machine +
  fixes rank :: "'s \<Rightarrow> 'r :: preorder"
  assumes step_rank: "invar s \<Longrightarrow> ok e \<Longrightarrow> rank s \<le> rank (fst (step s e))"
begin

lemma run_rank: "invar s \<Longrightarrow> list_all ok es \<Longrightarrow> rank s \<le> rank (run step s es)"
proof (induction es arbitrary: s)
  case Nil
  then show ?case by simp
next
  case (Cons e es)
  then have "rank s \<le> rank (fst (step s e))"
    by (simp add: step_rank)
  also have "\<dots> \<le> rank (run step (fst (step s e)) es)"
    using Cons by (auto intro: step_invar)
  finally show ?case by simp
qed

end

text \<open>
  Absorbing observations: once \<open>settled\<close> holds of the part of the state at key \<open>k\<close>, no later
  call changes what \<open>view k\<close> shows of it (a decided election, a resolved request).
\<close>

locale settling_machine = machine +
  fixes view :: "'k \<Rightarrow> 's \<Rightarrow> 'v"
    and settled :: "'v \<Rightarrow> bool"
  assumes step_settled:
    "invar s \<Longrightarrow> ok e \<Longrightarrow> settled (view k s) \<Longrightarrow> view k (fst (step s e)) = view k s"
begin

lemma run_settled:
  "invar s \<Longrightarrow> list_all ok es \<Longrightarrow> settled (view k s) \<Longrightarrow> view k (run step s es) = view k s"
proof (induction es arbitrary: s)
  case Nil
  then show ?case by simp
next
  case (Cons e es)
  then have v: "view k (fst (step s e)) = view k s"
    by (simp add: step_settled)
  with Cons.IH [of "fst (step s e)"] Cons.prems
  have "view k (run step (fst (step s e)) es) = view k (fst (step s e))"
    by (simp add: step_invar)
  with v show ?case by simp
qed

end

text \<open>
  A simulation: the detailed step, seen through \<open>abs\<close>, is a step of the specification. The
  specification refuses a move it does not know, so a run of it that ends in \<open>Some\<close> took only
  documented moves.
\<close>

primrec spec_trace :: "('s \<Rightarrow> 'e \<Rightarrow> 's \<times> 'o) \<Rightarrow> ('s \<Rightarrow> 'e \<Rightarrow> 'f) \<Rightarrow> 's \<Rightarrow> 'e list \<Rightarrow> 'f list" where
  "spec_trace step aev s [] = []"
| "spec_trace step aev s (e # es) = aev s e # spec_trace step aev (fst (step s e)) es"

primrec spec_run :: "('a \<Rightarrow> 'f \<Rightarrow> 'a option) \<Rightarrow> 'a \<Rightarrow> 'f list \<Rightarrow> 'a option" where
  "spec_run astep a [] = Some a"
| "spec_run astep a (f # fs) = (case astep a f of None \<Rightarrow> None | Some b \<Rightarrow> spec_run astep b fs)"

locale simulation = machine +
  fixes abs :: "'s \<Rightarrow> 'a"
    and aev :: "'s \<Rightarrow> 'e \<Rightarrow> 'f"
    and astep :: "'a \<Rightarrow> 'f \<Rightarrow> 'a option"
  assumes step_abs: "invar s \<Longrightarrow> ok e \<Longrightarrow> astep (abs s) (aev s e) = Some (abs (fst (step s e)))"
begin

lemma run_abs:
  "invar s \<Longrightarrow> list_all ok es \<Longrightarrow>
   spec_run astep (abs s) (spec_trace step aev s es) = Some (abs (run step s es))"
  by (induction es arbitrary: s) (auto simp: step_abs step_invar)

end

end
