(* ===== verification/MACI_Registry.thy ===== *)
theory MACI_Registry
  imports MACI_Models Machine
begin

text \<open>
  \<^verbatim>\<open>src/maci/registry.py\<close>: agent records and the role registry, with its global tables and
  one pair of tables per session. Every method that takes the lock runs without a suspension
  point inside it, so each is one step. The objects the registry hands out are its own records;
  a caller that mutates one outside the registry is not modelled.
\<close>

section \<open>Records\<close>

record maci_agent_record =
  mr_agent_id :: string
  mr_role :: maci_role
  mr_outputs :: "string list"
  mr_registered_at :: rat
  mr_metadata :: json_dict
  mr_constitutional_hash :: string
  mr_session_id :: "string option"

definition can_perform :: "maci_agent_record \<Rightarrow> maci_action \<Rightarrow> bool" where
  "can_perform r action = (action \<in> dget_default ROLE_PERMISSIONS (mr_role r) {})"

definition can_validate_role :: "maci_agent_record \<Rightarrow> maci_role \<Rightarrow> bool" where
  "can_validate_role r target = (target \<in> dget_default VALIDATION_CONSTRAINTS (mr_role r) {})"

definition add_output :: "string \<Rightarrow> maci_agent_record \<Rightarrow> maci_agent_record" where
  "add_output out r =
     (if out \<notin> set (mr_outputs r) then r\<lparr>mr_outputs := mr_outputs r @ [out]\<rparr> else r)"

definition owns_output :: "maci_agent_record \<Rightarrow> string \<Rightarrow> bool" where
  "owns_output r out = (out \<in> set (mr_outputs r))"

definition validate_role :: "maci_agent_record \<Rightarrow> maci_role \<Rightarrow> bool" where
  "validate_role r role = (mr_role r = role)"

definition has_sufficient_privilege :: "maci_agent_record \<Rightarrow> maci_role \<Rightarrow> bool" where
  "has_sufficient_privilege r required =
     (dget_default ROLE_HIERARCHY (mr_role r) 0 \<ge> dget_default ROLE_HIERARCHY required 0)"

definition agent_audit_dict :: "maci_agent_record \<Rightarrow> json_dict" where
  "agent_audit_dict r =
     [(''agent_id'', JStr (mr_agent_id r)),
      (''role'', JStr (role_value (mr_role r))),
      (''session_id'', jstr_option (mr_session_id r)),
      (''registered_at'', JTime (mr_registered_at r)),
      (''output_count'', JInt (int (length (mr_outputs r)))),
      (''constitutional_hash'', JStr (mr_constitutional_hash r))]"

lemma can_perform_permitted: "can_perform r a = permitted (mr_role r) a"
  by (simp add: can_perform_def permitted_def)

lemma can_validate_role_may: "can_validate_role r t = may_validate (mr_role r) t"
  by (simp add: can_validate_role_def may_validate_def)

lemma add_output_simps [simp]:
  "mr_agent_id (add_output out r) = mr_agent_id r" "mr_role (add_output out r) = mr_role r"
  "mr_session_id (add_output out r) = mr_session_id r"
  "set (mr_outputs (add_output out r)) = insert out (set (mr_outputs r))"
  "distinct (mr_outputs (add_output out r)) = distinct (mr_outputs r)"
  by (auto simp: add_output_def)

section \<open>The registry\<close>

record maci_role_registry =
  reg_agents :: "(string, maci_agent_record) dict"
  reg_out_to_ag :: "(string, string) dict"
  reg_session_out_to_ag :: "(string, (string, string) dict) dict"
  reg_session_agents :: "(string, (string, maci_agent_record) dict) dict"

definition empty_registry :: maci_role_registry where
  "empty_registry = \<lparr>reg_agents = [], reg_out_to_ag = [], reg_session_out_to_ag = [],
     reg_session_agents = []\<rparr>"

definition get_agent :: "maci_role_registry \<Rightarrow> string \<Rightarrow> string option \<Rightarrow> maci_agent_record option" where
  "get_agent reg aid sid =
     (case sid of
        Some s \<Rightarrow> dget (dget_default (reg_session_agents reg) s []) aid
      | None \<Rightarrow> dget (reg_agents reg) aid)"

definition register_agent ::
  "maci_role_registry \<Rightarrow> rat \<Rightarrow> string \<Rightarrow> maci_role \<Rightarrow> json_dict option \<Rightarrow> string option
     \<Rightarrow> maci_role_registry \<times> maci_agent_record" where
  "register_agent reg now aid role meta sid =
     (let rec = \<lparr>mr_agent_id = aid, mr_role = role, mr_outputs = [], mr_registered_at = now,
                 mr_metadata = (case meta of None \<Rightarrow> [] | Some m \<Rightarrow> m),
                 mr_constitutional_hash = CONSTITUTIONAL_HASH, mr_session_id = sid\<rparr>
      in if truthy_str sid then
           (let s = the sid;
                sa = (case dget (reg_session_agents reg) s of
                        None \<Rightarrow> dset s [] (reg_session_agents reg) | Some _ \<Rightarrow> reg_session_agents reg);
                so = (case dget (reg_session_out_to_ag reg) s of
                        None \<Rightarrow> dset s [] (reg_session_out_to_ag reg) | Some _ \<Rightarrow> reg_session_out_to_ag reg)
            in (reg\<lparr>reg_session_agents := dset s (dset aid rec (dget_default sa s [])) sa,
                    reg_session_out_to_ag := so\<rparr>, rec))
         else (reg\<lparr>reg_agents := dset aid rec (reg_agents reg)\<rparr>, rec))"

definition unregister_agent ::
  "maci_role_registry \<Rightarrow> string \<Rightarrow> string option \<Rightarrow> maci_role_registry \<times> maci_agent_record option"
where
  "unregister_agent reg aid sid =
     (case sid of
        Some s \<Rightarrow>
          (case dget (reg_session_agents reg) s of
             None \<Rightarrow> (reg, None)
           | Some sa \<Rightarrow>
               (case dget sa aid of
                  None \<Rightarrow> (reg, None)
                | Some rec \<Rightarrow>
                    (let sa' = ddel aid sa;
                         so' = ddel_value aid (dget_default (reg_session_out_to_ag reg) s []);
                         agents' = (if sa' = [] then ddel s (reg_session_agents reg)
                                    else dset s sa' (reg_session_agents reg));
                         outs' = (if so' = [] then ddel s (reg_session_out_to_ag reg)
                                  else dset s so' (reg_session_out_to_ag reg))
                     in (reg\<lparr>reg_session_agents := agents', reg_session_out_to_ag := outs'\<rparr>, Some rec))))
      | None \<Rightarrow>
          (case dget (reg_agents reg) aid of
             None \<Rightarrow> (reg, None)
           | Some rec \<Rightarrow>
               (reg\<lparr>reg_agents := ddel aid (reg_agents reg),
                    reg_out_to_ag := ddel_value aid (reg_out_to_ag reg)\<rparr>, Some rec)))"

definition get_agents_by_role ::
  "maci_role_registry \<Rightarrow> maci_role \<Rightarrow> string option \<Rightarrow> maci_agent_record list" where
  "get_agents_by_role reg role sid =
     filter (\<lambda>a. mr_role a = role)
       (dvalues (case sid of Some s \<Rightarrow> dget_default (reg_session_agents reg) s []
                           | None \<Rightarrow> reg_agents reg))"

definition get_session_agents ::
  "maci_role_registry \<Rightarrow> string \<Rightarrow> (string, maci_agent_record) dict" where
  "get_session_agents reg s = dget_default (reg_session_agents reg) s []"

definition clear_session :: "maci_role_registry \<Rightarrow> string \<Rightarrow> maci_role_registry \<times> nat" where
  "clear_session reg s =
     (case dget (reg_session_agents reg) s of
        None \<Rightarrow> (reg, 0)
      | Some sa \<Rightarrow>
          (reg\<lparr>reg_session_agents := ddel s (reg_session_agents reg),
               reg_session_out_to_ag := ddel s (reg_session_out_to_ag reg)\<rparr>, length sa))"

text \<open>
  \<open>_get_agent_locked\<close> returns the record itself, which \<open>add_output\<close> then changes in place:
  \<open>put_agent\<close> stores the changed record back in the slot it was read from.
\<close>

definition put_agent ::
  "maci_role_registry \<Rightarrow> string \<Rightarrow> string option \<Rightarrow> maci_agent_record \<Rightarrow> maci_role_registry" where
  "put_agent reg aid sid rec =
     (case sid of
        Some s \<Rightarrow> reg\<lparr>reg_session_agents :=
           dset s (dset aid rec (dget_default (reg_session_agents reg) s [])) (reg_session_agents reg)\<rparr>
      | None \<Rightarrow> reg\<lparr>reg_agents := dset aid rec (reg_agents reg)\<rparr>)"

definition put_producer ::
  "maci_role_registry \<Rightarrow> string \<Rightarrow> string option \<Rightarrow> string \<Rightarrow> maci_role_registry" where
  "put_producer reg out sid aid =
     (case sid of
        Some s \<Rightarrow> reg\<lparr>reg_session_out_to_ag :=
           dset s (dset out aid (dget_default (reg_session_out_to_ag reg) s []))
             (reg_session_out_to_ag reg)\<rparr>
      | None \<Rightarrow> reg\<lparr>reg_out_to_ag := dset out aid (reg_out_to_ag reg)\<rparr>)"

definition record_output ::
  "maci_role_registry \<Rightarrow> string \<Rightarrow> string \<Rightarrow> string option \<Rightarrow> maci_role_registry" where
  "record_output reg aid out sid =
     (case get_agent reg aid sid of
        None \<Rightarrow> reg
      | Some rec \<Rightarrow> put_producer (put_agent reg aid sid (add_output out rec)) out sid aid)"

definition get_output_producer ::
  "maci_role_registry \<Rightarrow> string \<Rightarrow> string option \<Rightarrow> string option" where
  "get_output_producer reg out sid =
     (case sid of
        Some s \<Rightarrow> dget (dget_default (reg_session_out_to_ag reg) s []) out
      | None \<Rightarrow> dget (reg_out_to_ag reg) out)"

definition is_self_output :: "maci_role_registry \<Rightarrow> string \<Rightarrow> string \<Rightarrow> string option \<Rightarrow> bool" where
  "is_self_output reg aid out sid =
     (case get_agent reg aid sid of None \<Rightarrow> False | Some rec \<Rightarrow> owns_output rec out)"

text \<open>
  \<open>batch_record_outputs\<close> looks the record and the table up once. An empty list still creates
  the session's table.
\<close>

definition ensure_session_outs :: "maci_role_registry \<Rightarrow> string option \<Rightarrow> maci_role_registry" where
  "ensure_session_outs reg sid =
     (case sid of
        None \<Rightarrow> reg
      | Some s \<Rightarrow> (case dget (reg_session_out_to_ag reg) s of
            None \<Rightarrow> reg\<lparr>reg_session_out_to_ag := dset s [] (reg_session_out_to_ag reg)\<rparr>
          | Some _ \<Rightarrow> reg))"

primrec batch_outputs ::
  "string \<Rightarrow> string option \<Rightarrow> string list \<Rightarrow> maci_agent_record \<Rightarrow> maci_role_registry \<Rightarrow> maci_role_registry"
where
  "batch_outputs aid sid [] rec reg = reg"
| "batch_outputs aid sid (oid # oids) rec reg =
     (let rec' = (if oid \<notin> set (mr_outputs rec) then rec\<lparr>mr_outputs := mr_outputs rec @ [oid]\<rparr> else rec)
      in batch_outputs aid sid oids rec' (put_producer (put_agent reg aid sid rec') oid sid aid))"

definition batch_record_outputs ::
  "maci_role_registry \<Rightarrow> string \<Rightarrow> string list \<Rightarrow> string option \<Rightarrow> maci_role_registry" where
  "batch_record_outputs reg aid oids sid =
     (case get_agent reg aid sid of
        None \<Rightarrow> reg
      | Some rec \<Rightarrow> batch_outputs aid sid oids rec (ensure_session_outs reg sid))"

text \<open>\<open>apply_maci_config\<close> of the configuration loader: registers every configured agent globally.\<close>

definition config_metadata :: "maci_agent_role_config \<Rightarrow> json_dict" where
  "config_metadata a =
     (let meta = rc_metadata a
      in if rc_capabilities a \<noteq> [] then dset ''capabilities'' (JList (map JStr (rc_capabilities a))) meta
         else meta)"

primrec apply_agents :: "rat \<Rightarrow> maci_role_registry \<Rightarrow> maci_agent_role_config list \<Rightarrow> nat
  \<Rightarrow> maci_role_registry \<times> nat" where
  "apply_agents now reg [] n = (reg, n)"
| "apply_agents now reg (a # as) n =
     apply_agents now
       (fst (register_agent reg now (rc_agent_id a) (rc_role a) (Some (config_metadata a)) None))
       as (Suc n)"

definition apply_maci_config ::
  "rat \<Rightarrow> maci_role_registry \<Rightarrow> maci_config \<Rightarrow> maci_role_registry \<times> nat" where
  "apply_maci_config now reg cfg = apply_agents now reg (cfg_agents cfg) 0"

section \<open>Lookup laws\<close>

named_theorems registry_simps \<open>what each registry operation does to each lookup\<close>

definition slot :: "string option \<Rightarrow> string option" where
  "slot sid = (if truthy_str sid then sid else None)"

lemma slot_None [simp]: "slot None = None" "slot (Some []) = None"
  by (simp_all add: slot_def truthy_str_def)

lemma slot_Some [simp]: "s \<noteq> [] \<Longrightarrow> slot (Some s) = Some s"
  by (simp add: slot_def truthy_str_def)

lemma get_agent_empty [registry_simps]: "get_agent empty_registry a sid = None"
  by (simp add: get_agent_def empty_registry_def dget_default_def split: option.splits)

lemma producer_empty [registry_simps]: "get_output_producer empty_registry out sid = None"
  by (simp add: get_output_producer_def empty_registry_def dget_default_def split: option.splits)

lemma get_agent_put_agent [registry_simps]:
  "get_agent (put_agent reg a sid rec) a' sid' =
     (if a' = a \<and> sid' = sid then Some rec else get_agent reg a' sid')"
  by (cases sid; cases sid')
    (auto simp: get_agent_def put_agent_def dget_default_def dict_simps)

lemma get_agent_put_producer [registry_simps]:
  "get_agent (put_producer reg out sid a) a' sid' = get_agent reg a' sid'"
  by (cases sid; cases sid') (auto simp: get_agent_def put_producer_def)

lemma producer_put_agent [registry_simps]:
  "get_output_producer (put_agent reg a sid rec) out sid' = get_output_producer reg out sid'"
  by (cases sid; cases sid') (auto simp: get_output_producer_def put_agent_def)

lemma producer_put_producer [registry_simps]:
  "get_output_producer (put_producer reg out sid a) out' sid' =
     (if out' = out \<and> sid' = sid then Some a else get_output_producer reg out' sid')"
  by (cases sid; cases sid')
    (auto simp: get_output_producer_def put_producer_def dget_default_def dict_simps)

lemma get_agent_ensure [registry_simps]:
  "get_agent (ensure_session_outs reg sid) a sid' = get_agent reg a sid'"
  by (auto simp: ensure_session_outs_def get_agent_def split: option.splits)

lemma producer_ensure [registry_simps]:
  "get_output_producer (ensure_session_outs reg sid) out sid' = get_output_producer reg out sid'"
  by (auto simp: ensure_session_outs_def get_output_producer_def dget_default_def dict_simps
           split: option.splits)

definition fresh_record ::
  "rat \<Rightarrow> string \<Rightarrow> maci_role \<Rightarrow> json_dict option \<Rightarrow> string option \<Rightarrow> maci_agent_record" where
  "fresh_record now aid role meta sid =
     \<lparr>mr_agent_id = aid, mr_role = role, mr_outputs = [], mr_registered_at = now,
      mr_metadata = (case meta of None \<Rightarrow> [] | Some m \<Rightarrow> m),
      mr_constitutional_hash = CONSTITUTIONAL_HASH, mr_session_id = sid\<rparr>"

lemma fresh_record_simps [simp]:
  "mr_agent_id (fresh_record now a r m sid) = a" "mr_role (fresh_record now a r m sid) = r"
  "mr_outputs (fresh_record now a r m sid) = []"
  by (simp_all add: fresh_record_def)

lemma snd_register_agent [registry_simps]:
  "snd (register_agent reg now a r m sid) = fresh_record now a r m sid"
  by (simp add: register_agent_def fresh_record_def Let_def)

lemma get_agent_register [registry_simps]:
  "get_agent (fst (register_agent reg now a r m sid)) a' sid' =
     (if a' = a \<and> sid' = slot sid then Some (fresh_record now a r m sid) else get_agent reg a' sid')"
  unfolding register_agent_def fresh_record_def [symmetric] Let_def slot_def
  by (cases sid; cases sid')
    (auto simp: get_agent_def dget_default_def dict_simps truthy_str_def split: option.splits)

lemma producer_register [registry_simps]:
  "get_output_producer (fst (register_agent reg now a r m sid)) out sid' = get_output_producer reg out sid'"
  unfolding register_agent_def Let_def
  by (cases sid; cases sid')
    (auto simp: get_output_producer_def dget_default_def dict_simps split: option.splits)

lemma get_agent_clear [registry_simps]:
  "get_agent (fst (clear_session reg s)) a sid = (if sid = Some s then None else get_agent reg a sid)"
  by (cases sid)
    (auto simp: clear_session_def get_agent_def dget_default_def dict_simps split: option.splits)

lemma get_agent_record_output [registry_simps]:
  "get_agent (record_output reg a out sid) a' sid' =
     (if a' = a \<and> sid' = sid then map_option (add_output out) (get_agent reg a sid)
      else get_agent reg a' sid')"
  by (auto simp: record_output_def registry_simps split: option.splits)

lemma producer_record_output [registry_simps]:
  "get_output_producer (record_output reg a out sid) out' sid' =
     (if out' = out \<and> sid' = sid \<and> get_agent reg a sid \<noteq> None then Some a
      else get_output_producer reg out' sid')"
  by (auto simp: record_output_def registry_simps split: option.splits)

section \<open>The registry's invariant\<close>

text \<open>
  Keys are unique (each table is a dictionary), a record sits under its own identifier, and
  every recorded producer is a registered agent of the same scope.
\<close>

definition tables_distinct :: "maci_role_registry \<Rightarrow> bool" where
  "tables_distinct reg \<longleftrightarrow>
     distinct (dkeys (reg_agents reg)) \<and> distinct (dkeys (reg_out_to_ag reg)) \<and>
     (\<forall>s. distinct (dkeys (dget_default (reg_session_agents reg) s []))) \<and>
     (\<forall>s. distinct (dkeys (dget_default (reg_session_out_to_ag reg) s [])))"

definition registry_inv :: "maci_role_registry \<Rightarrow> bool" where
  "registry_inv reg \<longleftrightarrow> tables_distinct reg \<and>
     (\<forall>a sid r. get_agent reg a sid = Some r \<longrightarrow> mr_agent_id r = a \<and> distinct (mr_outputs r)) \<and>
     (\<forall>out sid a. get_output_producer reg out sid = Some a \<longrightarrow> get_agent reg a sid \<noteq> None)"

lemma registry_invI:
  assumes "tables_distinct reg"
    and "\<And>a sid r. get_agent reg a sid = Some r \<Longrightarrow> mr_agent_id r = a \<and> distinct (mr_outputs r)"
    and "\<And>out sid a. get_output_producer reg out sid = Some a \<Longrightarrow> get_agent reg a sid \<noteq> None"
  shows "registry_inv reg"
  using assms unfolding registry_inv_def by blast

lemma registry_invD:
  assumes "registry_inv reg"
  shows "tables_distinct reg"
    and "get_agent reg a sid = Some r \<Longrightarrow> mr_agent_id r = a"
    and "get_agent reg a sid = Some r \<Longrightarrow> distinct (mr_outputs r)"
    and "get_output_producer reg out sid = Some a \<Longrightarrow> get_agent reg a sid \<noteq> None"
  using assms unfolding registry_inv_def by blast+

lemma empty_registry_inv: "registry_inv empty_registry"
  by (rule registry_invI)
    (simp_all add: registry_simps tables_distinct_def, simp_all add: empty_registry_def dget_default_def)

lemma get_agent_unregister:
  assumes "tables_distinct reg"
  shows "get_agent (fst (unregister_agent reg a sid)) a' sid' =
     (if a' = a \<and> sid' = sid then None else get_agent reg a' sid')"
proof (cases sid)
  case None
  then show ?thesis
    by (cases sid') (auto simp: unregister_agent_def get_agent_def dict_simps split: option.splits)
next
  case (Some s)
  have empty: "ddel a sa = [] \<Longrightarrow> a' \<noteq> a \<Longrightarrow> dget sa a' = None" for sa :: "(string, maci_agent_record) dict"
    by (metis dget_ddel map_of.simps(1))
  from Some show ?thesis
    by (cases sid')
      (auto simp: unregister_agent_def get_agent_def dget_default_def Let_def dict_simps
            split: option.splits dest: empty)
qed

lemma producer_unregister:
  assumes "tables_distinct reg"
  shows "get_output_producer (fst (unregister_agent reg a sid)) out sid' =
     (if sid' = sid \<and> get_agent reg a sid \<noteq> None \<and> get_output_producer reg out sid = Some a
      then None else get_output_producer reg out sid')"
proof (cases sid)
  case None
  then show ?thesis
    using assms by (cases sid')
      (auto simp: unregister_agent_def get_output_producer_def get_agent_def tables_distinct_def
          dget_ddel_value split: option.splits)
next
  case (Some s)
  have d: "distinct (dkeys (dget_default (reg_session_out_to_ag reg) s []))"
    using assms by (simp add: tables_distinct_def)
  have empty: "ddel_value a so = [] \<Longrightarrow> dget so out \<noteq> Some a \<Longrightarrow> distinct (dkeys so) \<Longrightarrow> dget so out = None"
    for so :: "(string, string) dict"
    by (metis dget_ddel_value map_of.simps(1))
  have ne: "dget (dget_default (reg_session_out_to_ag reg) s []) out =
      (case dget (reg_session_out_to_ag reg) s of None \<Rightarrow> None | Some d \<Rightarrow> dget d out)"
    by (simp add: dget_default_def split: option.splits)
  show ?thesis
  proof (cases "dget (reg_session_agents reg) s")
    case None
    with Some show ?thesis
      by (auto simp: unregister_agent_def get_agent_def dget_default_def)
  next
    case sa: (Some sa)
    show ?thesis
    proof (cases "dget sa a")
      case None
      with Some sa show ?thesis
        by (auto simp: unregister_agent_def get_agent_def dget_default_def)
    next
      case rec: (Some rec)
      show ?thesis
        using d empty [of "dget_default (reg_session_out_to_ag reg) s []"]
        by (cases sid') (auto simp: unregister_agent_def get_agent_def get_output_producer_def
            dget_default_def Let_def dict_simps dget_ddel_value Some sa rec split: option.splits)
    qed
  qed
qed

lemmas tables_simps = tables_distinct_def dget_default_dset dget_default_ddel dict_simps

lemma tables_put_agent: "tables_distinct reg \<Longrightarrow> tables_distinct (put_agent reg a sid rec)"
  by (cases sid) (auto simp: put_agent_def tables_simps)

lemma tables_put_producer: "tables_distinct reg \<Longrightarrow> tables_distinct (put_producer reg out sid a)"
  by (cases sid) (auto simp: put_producer_def tables_simps)

lemma tables_ensure: "tables_distinct reg \<Longrightarrow> tables_distinct (ensure_session_outs reg sid)"
  by (auto simp: ensure_session_outs_def tables_simps split: option.splits)

lemma tables_register: "tables_distinct reg \<Longrightarrow> tables_distinct (fst (register_agent reg now a r m sid))"
  unfolding register_agent_def Let_def
  by (auto simp: tables_simps split: option.splits)

lemma tables_clear: "tables_distinct reg \<Longrightarrow> tables_distinct (fst (clear_session reg s))"
  by (auto simp: clear_session_def tables_simps split: option.splits)

lemma tables_unregister:
  assumes "tables_distinct reg"
  shows "tables_distinct (fst (unregister_agent reg a sid))"
proof -
  have v: "distinct (dkeys (dget_default (reg_session_agents reg) s []))"
    "distinct (dkeys (dget_default (reg_session_out_to_ag reg) s []))" for s
    using assms by (simp_all add: tables_distinct_def)
  have w: "dget (reg_session_agents reg) s = Some sa \<Longrightarrow> distinct (dkeys sa)" for s sa
    using v(1) [of s] by (simp add: dget_default_def)
  show ?thesis
    using assms v w by (auto simp: unregister_agent_def tables_simps Let_def
        distinct_ddel distinct_ddel_value split: option.splits)
qed

end
