(* ===== verification/MACI_Ledger.thy ===== *)
theory MACI_Ledger
  imports MACI_Registry
begin

text \<open>
  Runs of the MACI role registry: its mutating methods as one operation type, the invariant of
  \<open>MACI_Registry\<close> along every run, and the ledger of outputs, which only grows for an agent as
  long as nobody registers it again, unregisters it or clears its session. The enforcer's
  self-validation check rests on this ledger.
\<close>

datatype registry_op =
  RegisterAgent rat string maci_role "json_dict option" "string option"
| UnregisterAgent string "string option"
| ClearSession string
| RecordOutput string string "string option"
| BatchRecordOutputs string "string list" "string option"

datatype registry_result =
  RAgent "maci_agent_record option" | RCount nat | RNone

fun registry_step :: "maci_role_registry \<Rightarrow> registry_op \<Rightarrow> maci_role_registry \<times> registry_result" where
  "registry_step reg (RegisterAgent now a r m sid) =
     (case register_agent reg now a r m sid of (reg', rec) \<Rightarrow> (reg', RAgent (Some rec)))"
| "registry_step reg (UnregisterAgent a sid) =
     (case unregister_agent reg a sid of (reg', rec) \<Rightarrow> (reg', RAgent rec))"
| "registry_step reg (ClearSession s) =
     (case clear_session reg s of (reg', n) \<Rightarrow> (reg', RCount n))"
| "registry_step reg (RecordOutput a out sid) = (record_output reg a out sid, RNone)"
| "registry_step reg (BatchRecordOutputs a outs sid) = (batch_record_outputs reg a outs sid, RNone)"

lemma fst_registry_step [simp]:
  "fst (registry_step reg (RegisterAgent now a r m sid)) = fst (register_agent reg now a r m sid)"
  "fst (registry_step reg (UnregisterAgent a sid)) = fst (unregister_agent reg a sid)"
  "fst (registry_step reg (ClearSession s)) = fst (clear_session reg s)"
  by (simp_all split: prod.splits)

declare registry_step.simps(1-3) [simp del]

section \<open>Every operation keeps the invariant\<close>

lemma register_agent_inv:
  assumes "registry_inv reg"
  shows "registry_inv (fst (register_agent reg now a r m sid))"
  using registry_invD [OF assms]
  by (intro registry_invI) (auto simp: registry_simps tables_register split: if_splits)

lemma unregister_agent_inv:
  assumes "registry_inv reg"
  shows "registry_inv (fst (unregister_agent reg a sid))"
proof (rule registry_invI)
  note inv = registry_invD [OF assms]
  note look = get_agent_unregister [OF inv(1)] producer_unregister [OF inv(1)]
  show "tables_distinct (fst (unregister_agent reg a sid))"
    by (rule tables_unregister [OF inv(1)])
  show "get_agent (fst (unregister_agent reg a sid)) a' sid' = Some r \<Longrightarrow>
      mr_agent_id r = a' \<and> distinct (mr_outputs r)" for a' sid' r
    using inv by (auto simp: look split: if_splits)
  show "get_output_producer (fst (unregister_agent reg a sid)) out sid' = Some a' \<Longrightarrow>
      get_agent (fst (unregister_agent reg a sid)) a' sid' \<noteq> None" for out sid' a'
    using inv(4) [of out sid' a'] by (auto simp: look split: if_splits)
qed

lemma clear_session_inv:
  assumes "registry_inv reg"
  shows "registry_inv (fst (clear_session reg s))"
proof (rule registry_invI)
  note inv = registry_invD [OF assms]
  show "tables_distinct (fst (clear_session reg s))"
    by (rule tables_clear [OF inv(1)])
  show "get_agent (fst (clear_session reg s)) a sid = Some r \<Longrightarrow>
      mr_agent_id r = a \<and> distinct (mr_outputs r)" for a sid r
    using inv by (auto simp: registry_simps split: if_splits)
  have p: "get_output_producer (fst (clear_session reg s)) out sid = Some a \<Longrightarrow>
      get_output_producer reg out sid = Some a" for out sid a
    by (cases sid) (auto simp: clear_session_def get_output_producer_def dget_default_ddel
        split: option.splits if_splits)
  have q: "get_output_producer (fst (clear_session reg s)) out (Some s) = Some a \<Longrightarrow>
      get_agent reg a (Some s) = None" for out a
    by (auto simp: clear_session_def get_output_producer_def get_agent_def dget_default_def
        dict_simps split: option.splits)
  show "get_output_producer (fst (clear_session reg s)) out sid = Some a \<Longrightarrow>
      get_agent (fst (clear_session reg s)) a sid \<noteq> None" for out sid a
    using inv(4) [of out sid a] p [of out sid a] q [of out a] by (auto simp: registry_simps)
qed

lemma put_output_inv:
  assumes inv: "registry_inv reg" and rec: "mr_agent_id rec = a" "distinct (mr_outputs rec)"
  shows "registry_inv (put_producer (put_agent reg a sid rec) out sid a)"
  using registry_invD [OF inv] rec
  by (intro registry_invI) (auto simp: registry_simps tables_put_agent tables_put_producer split: if_splits)

lemma record_output_inv:
  assumes "registry_inv reg"
  shows "registry_inv (record_output reg a out sid)"
  using registry_invD [OF assms] assms
  by (auto simp: record_output_def intro!: put_output_inv split: option.splits)

lemma ensure_inv: "registry_inv reg \<Longrightarrow> registry_inv (ensure_session_outs reg sid)"
  using registry_invD [of reg]
  by (intro registry_invI) (auto simp: registry_simps tables_ensure)

lemma batch_outputs_Cons:
  "batch_outputs a sid (oid # oids) rec reg =
     batch_outputs a sid oids (add_output oid rec)
       (put_producer (put_agent reg a sid (add_output oid rec)) oid sid a)"
  by (simp add: add_output_def Let_def)

declare batch_outputs.simps(2) [simp del]

lemma batch_outputs_inv:
  "registry_inv reg \<Longrightarrow> mr_agent_id rec = a \<Longrightarrow> distinct (mr_outputs rec) \<Longrightarrow>
   registry_inv (batch_outputs a sid oids rec reg)"
  by (induction oids arbitrary: rec reg) (simp_all add: batch_outputs_Cons put_output_inv)

lemma batch_record_outputs_inv:
  assumes "registry_inv reg"
  shows "registry_inv (batch_record_outputs reg a oids sid)"
  using registry_invD [OF assms] assms
  by (auto simp: batch_record_outputs_def intro!: batch_outputs_inv ensure_inv split: option.splits)

lemma registry_step_inv: "registry_inv reg \<Longrightarrow> registry_inv (fst (registry_step reg e))"
  by (cases e) (auto intro: register_agent_inv unregister_agent_inv clear_session_inv
      record_output_inv batch_record_outputs_inv)

interpretation registry: machine registry_step "\<lambda>_. True" registry_inv
  by unfold_locales (rule registry_step_inv)

section \<open>The ledger of outputs\<close>

definition owned :: "string \<Rightarrow> string option \<Rightarrow> maci_role_registry \<Rightarrow> string set" where
  "owned a sid reg = (case get_agent reg a sid of None \<Rightarrow> {} | Some r \<Rightarrow> set (mr_outputs r))"

fun keeps :: "string \<Rightarrow> string option \<Rightarrow> registry_op \<Rightarrow> bool" where
  "keeps a sid (RegisterAgent _ b _ _ sid') = (\<not> (b = a \<and> slot sid' = sid))"
| "keeps a sid (UnregisterAgent b sid') = (\<not> (b = a \<and> sid' = sid))"
| "keeps a sid (ClearSession s) = (sid \<noteq> Some s)"
| "keeps a sid (RecordOutput _ _ _) = True"
| "keeps a sid (BatchRecordOutputs _ _ _) = True"

lemma get_agent_batch_outputs:
  "get_agent (batch_outputs a sid oids rec reg) a' sid' =
     (if oids \<noteq> [] \<and> a' = a \<and> sid' = sid
      then Some (foldl (\<lambda>r oid. add_output oid r) rec oids)
      else get_agent reg a' sid')"
  by (induction oids arbitrary: rec reg) (auto simp: batch_outputs_Cons registry_simps)

lemma set_outputs_foldl_add:
  "set (mr_outputs (foldl (\<lambda>r oid. add_output oid r) rec oids)) = set (mr_outputs rec) \<union> set oids"
  by (induction oids arbitrary: rec) auto

lemma role_foldl_add [simp]:
  "mr_role (foldl (\<lambda>r oid. add_output oid r) rec oids) = mr_role rec"
  by (induction oids arbitrary: rec) auto

lemma owned_record_output:
  "owned a sid (record_output reg b out sid') =
     (if b = a \<and> sid' = sid \<and> get_agent reg a sid \<noteq> None then insert out (owned a sid reg)
      else owned a sid reg)"
  by (auto simp: owned_def registry_simps split: option.splits)

lemma owned_batch_record_outputs:
  "owned a sid (batch_record_outputs reg b oids sid') =
     (if b = a \<and> sid' = sid \<and> get_agent reg a sid \<noteq> None then set oids \<union> owned a sid reg
      else owned a sid reg)"
  by (auto simp: owned_def batch_record_outputs_def get_agent_batch_outputs set_outputs_foldl_add
      registry_simps split: option.splits)

lemma owned_mono:
  assumes "registry_inv reg" "keeps a sid e"
  shows "owned a sid reg \<subseteq> owned a sid (fst (registry_step reg e))"
proof (cases e)
  case (RegisterAgent now b r m sid')
  with assms show ?thesis by (auto simp: owned_def registry_simps)
next
  case (UnregisterAgent b sid')
  with assms show ?thesis
    by (auto simp: owned_def get_agent_unregister [OF registry_invD(1)])
next
  case (ClearSession s)
  with assms show ?thesis by (auto simp: owned_def registry_simps)
next
  case (RecordOutput b out sid')
  then show ?thesis by (auto simp: owned_record_output)
next
  case (BatchRecordOutputs b oids sid')
  then show ?thesis by (auto simp: owned_batch_record_outputs)
qed

text \<open>The role of a kept agent never changes either: \<open>kept_role\<close> is the role, once there is one.\<close>

definition role_of :: "string \<Rightarrow> string option \<Rightarrow> maci_role_registry \<Rightarrow> maci_role option" where
  "role_of a sid reg = map_option mr_role (get_agent reg a sid)"

lemma role_of_step:
  assumes "registry_inv reg" "keeps a sid e"
  shows "role_of a sid (fst (registry_step reg e)) = role_of a sid reg"
proof (cases e)
  case (RegisterAgent now b r m sid')
  with assms show ?thesis by (auto simp: role_of_def registry_simps)
next
  case (UnregisterAgent b sid')
  with assms show ?thesis
    by (auto simp: role_of_def get_agent_unregister [OF registry_invD(1)])
next
  case (ClearSession s)
  with assms show ?thesis by (auto simp: role_of_def registry_simps)
next
  case (RecordOutput b out sid')
  then show ?thesis
    by (auto simp: role_of_def registry_simps option.map_comp comp_def)
next
  case (BatchRecordOutputs b oids sid')
  then show ?thesis
    by (auto simp: role_of_def batch_record_outputs_def get_agent_batch_outputs registry_simps
        split: option.splits)
qed

interpretation ledger: ranked_machine registry_step "keeps a sid" registry_inv "owned a sid" for a sid
  by unfold_locales (rule registry_step_inv, assumption, rule owned_mono)

interpretation roles: settling_machine registry_step "keeps a sid" registry_inv
  "\<lambda>_ :: unit. role_of a sid" "\<lambda>_. True" for a sid
  by unfold_locales (rule role_of_step)

section \<open>Scopes are isolated\<close>

text \<open>The scope an operation writes to: a session, or the global tables.\<close>

fun op_scope :: "registry_op \<Rightarrow> string option" where
  "op_scope (RegisterAgent _ _ _ _ sid) = slot sid"
| "op_scope (UnregisterAgent _ sid) = sid"
| "op_scope (ClearSession s) = Some s"
| "op_scope (RecordOutput _ _ sid) = sid"
| "op_scope (BatchRecordOutputs _ _ sid) = sid"

definition scope_view ::
  "string option \<Rightarrow> maci_role_registry
     \<Rightarrow> (string \<Rightarrow> maci_agent_record option) \<times> (string \<Rightarrow> string option)" where
  "scope_view sid reg = (\<lambda>a. get_agent reg a sid, \<lambda>out. get_output_producer reg out sid)"

lemma producer_batch_outputs_other:
  "sid' \<noteq> sid \<Longrightarrow>
   get_output_producer (batch_outputs a sid oids rec reg) out sid' = get_output_producer reg out sid'"
  by (induction oids arbitrary: rec reg) (auto simp: batch_outputs_Cons registry_simps)

lemma producer_clear_other:
  "sid \<noteq> Some s \<Longrightarrow> get_output_producer (fst (clear_session reg s)) out sid = get_output_producer reg out sid"
  by (cases sid) (auto simp: clear_session_def get_output_producer_def dget_default_ddel split: option.splits)

lemma scope_view_step:
  assumes inv: "registry_inv reg" and other: "op_scope e \<noteq> sid"
  shows "scope_view sid (fst (registry_step reg e)) = scope_view sid reg"
proof (cases e)
  case (RegisterAgent now b r m sid')
  with other show ?thesis by (auto simp: scope_view_def registry_simps)
next
  case (UnregisterAgent b sid')
  with other show ?thesis
    by (auto simp: scope_view_def get_agent_unregister [OF registry_invD(1) [OF inv]]
        producer_unregister [OF registry_invD(1) [OF inv]])
next
  case (ClearSession s)
  with other show ?thesis by (auto simp: scope_view_def registry_simps producer_clear_other)
next
  case (RecordOutput b out sid')
  with other show ?thesis by (auto simp: scope_view_def registry_simps)
next
  case (BatchRecordOutputs b oids sid')
  with other show ?thesis
    by (auto simp: scope_view_def batch_record_outputs_def get_agent_batch_outputs
        producer_batch_outputs_other registry_simps split: option.splits)
qed

interpretation scopes: settling_machine registry_step "\<lambda>e. op_scope e \<noteq> sid" registry_inv
  "\<lambda>_ :: unit. scope_view sid" "\<lambda>_. True" for sid
  by unfold_locales (rule registry_step_inv, assumption, rule scope_view_step)

end
