(* ===== verification/MACI_Enforcer.thy ===== *)
theory MACI_Enforcer
  imports MACI_Ledger
begin

text \<open>
  \<^verbatim>\<open>src/maci/enforcer.py\<close> and \<^verbatim>\<open>src/maci/strategy.py\<close>: validation of an action against the
  role matrices, with the bounded validation log. A raised exception is the left summand of the
  result; the log it leaves behind is in the returned enforcer. The registry lock is never
  contended here (no call suspends while holding it), so a validation is one step and
  \<open>asyncio.gather\<close> runs the validations of a batch one after another in list order.
  Parameters: \<open>err_str\<close> is \<open>str(exception)\<close>, whose text is composed by the error base class
  outside the repository.
\<close>

section \<open>Results and errors\<close>

record maci_validation_result =
  vr_is_valid :: bool
  vr_violation_type :: "string option"
  vr_error_message :: "string option"
  vr_details :: json_dict
  vr_constitutional_hash :: string
  vr_session_id :: "string option"
  vr_validated_at :: rat

text \<open>The constructor fills what the keyword arguments leave out.\<close>

definition mk_result ::
  "rat \<Rightarrow> bool \<Rightarrow> string option \<Rightarrow> string option \<Rightarrow> string option \<Rightarrow> json_dict \<Rightarrow> maci_validation_result"
where
  "mk_result now valid violation msg sid details =
     \<lparr>vr_is_valid = valid, vr_violation_type = violation, vr_error_message = msg,
      vr_details = details, vr_constitutional_hash = CONSTITUTIONAL_HASH,
      vr_session_id = sid, vr_validated_at = now\<rparr>"

definition result_audit_dict :: "maci_validation_result \<Rightarrow> json_dict" where
  "result_audit_dict r =
     [(''is_valid'', JBool (vr_is_valid r)),
      (''violation_type'', jstr_option (vr_violation_type r)),
      (''error_message'', jstr_option (vr_error_message r)),
      (''session_id'', jstr_option (vr_session_id r)),
      (''validated_at'', JTime (vr_validated_at r)),
      (''constitutional_hash'', JStr (vr_constitutional_hash r)),
      (''details'', JObj (vr_details r))]"

datatype maci_error =
  RoleNotAssigned string string
| RoleViolation string string string "string list"
| SelfValidation string string "string option"
| CrossRoleValidation string string string string string
| MatrixInvalid "string list"

definition MAX_MACI_VALIDATION_HISTORY :: nat where
  "MAX_MACI_VALIDATION_HISTORY = 10000"

record maci_enforcer =
  enf_registry :: maci_role_registry
  enf_strict_mode :: bool
  enf_enable_session_audit :: bool
  enf_log :: "maci_validation_result list"
  enf_matrix_violations :: "string list"

definition mk_enforcer :: "maci_role_registry option \<Rightarrow> bool \<Rightarrow> bool \<Rightarrow> maci_error + maci_enforcer" where
  "mk_enforcer reg strict audit =
     (let violations = validate_maci_role_matrix None None;
          enf = \<lparr>enf_registry = (case reg of None \<Rightarrow> empty_registry | Some r \<Rightarrow> r),
                 enf_strict_mode = strict, enf_enable_session_audit = audit, enf_log = [],
                 enf_matrix_violations = violations\<rparr>
      in if violations \<noteq> [] then
           (case role_matrix_validator_validate violations strict of
              Inl vs \<Rightarrow> Inl (MatrixInvalid vs) | Inr _ \<Rightarrow> Inr enf)
         else Inr enf)"

definition log_result :: "maci_validation_result \<Rightarrow> maci_enforcer \<Rightarrow> maci_enforcer" where
  "log_result r enf = enf\<lparr>enf_log := deque_append MAX_MACI_VALIDATION_HISTORY r (enf_log enf)\<rparr>"

section \<open>Validation\<close>

datatype target_type = TargetAgent | TargetProducer

fun target_type_str :: "target_type \<Rightarrow> string" where
  "target_type_str TargetAgent = ''agent''"
| "target_type_str TargetProducer = ''producer''"

definition verify_target_role_constraint ::
  "maci_enforcer \<Rightarrow> rat \<Rightarrow> maci_agent_record \<Rightarrow> string \<Rightarrow> maci_agent_record option \<Rightarrow> string
     \<Rightarrow> target_type \<Rightarrow> string option \<Rightarrow> string \<Rightarrow> maci_enforcer \<times> (maci_error + unit)" where
  "verify_target_role_constraint enf now rec agent_id target_agent target_id target_type sid opname =
     (case target_agent of
        None \<Rightarrow>
          if enf_strict_mode enf then
            (let enf' = log_result (mk_result now False (Some ''target_not_found'')
                          (Some (py_capitalize (target_type_str target_type) @ '' '' @ target_id @ '' not found''))
                          sid [(''target_'' @ target_type_str target_type @ ''_id'', JStr target_id)]) enf
             in (enf', if target_type = TargetAgent then Inl (RoleNotAssigned target_id opname) else Inr ()))
          else (enf, Inr ())
      | Some t \<Rightarrow>
          if \<not> can_validate_role rec (mr_role t) then
            (log_result (mk_result now False (Some ''cross_role'') None sid
               [(''agent_id'', JStr agent_id), (''agent_role'', JStr (role_value (mr_role rec))),
                (''target_'' @ target_type_str target_type @ ''_id'', JStr (mr_agent_id t)),
                (target_type_str target_type @ ''_role'', JStr (role_value (mr_role t)))]) enf,
             Inl (CrossRoleValidation agent_id (role_value (mr_role rec)) (mr_agent_id t)
                    (role_value (mr_role t)) ''Role constraint violation''))
          else (enf, Inr ()))"

definition check_cross_agent_constraint ::
  "maci_enforcer \<Rightarrow> rat \<Rightarrow> maci_agent_record \<Rightarrow> string \<Rightarrow> string \<Rightarrow> string option
     \<Rightarrow> maci_enforcer \<times> (maci_error + unit)" where
  "check_cross_agent_constraint enf now rec agent_id target_agent_id sid =
     (if agent_id = target_agent_id then
        (log_result (mk_result now False (Some ''self_validation'') None sid
           [(''agent_id'', JStr agent_id), (''action'', JStr (action_value VALIDATE))]) enf,
         Inl (SelfValidation agent_id (action_value VALIDATE) None))
      else
        verify_target_role_constraint enf now rec agent_id
          (get_agent (enf_registry enf) target_agent_id sid) target_agent_id TargetAgent sid
          ''validate_target'')"

definition check_output_ownership_constraint ::
  "maci_enforcer \<Rightarrow> rat \<Rightarrow> maci_agent_record \<Rightarrow> string \<Rightarrow> string \<Rightarrow> string option
     \<Rightarrow> maci_enforcer \<times> (maci_error + unit)" where
  "check_output_ownership_constraint enf now rec agent_id target_output_id sid =
     (let producer_id = get_output_producer (enf_registry enf) target_output_id sid
      in if producer_id = Some agent_id \<or> target_output_id \<in> set (mr_outputs rec) then
           (log_result (mk_result now False (Some ''self_validation'') None sid
              [(''agent_id'', JStr agent_id), (''target_output_id'', JStr target_output_id)]) enf,
            Inl (SelfValidation agent_id ''validate'' (Some target_output_id)))
         else
           verify_target_role_constraint enf now rec agent_id
             (if truthy_str producer_id then get_agent (enf_registry enf) (the producer_id) sid else None)
             target_output_id TargetProducer sid '''')"

text \<open>The roles whose permissions contain the action, in the order of the matrix.\<close>

definition allowed_roles :: "maci_action \<Rightarrow> string list" where
  "allowed_roles action = map (role_value \<circ> fst) (filter (\<lambda>(r, acts). action \<in> acts) ROLE_PERMISSIONS)"

definition validate_action ::
  "maci_enforcer \<Rightarrow> rat \<Rightarrow> string \<Rightarrow> maci_action \<Rightarrow> string option \<Rightarrow> string option \<Rightarrow> string option
     \<Rightarrow> maci_enforcer \<times> (maci_error + maci_validation_result)" where
  "validate_action enf now agent_id action target_output_id target_agent_id sid =
     (case get_agent (enf_registry enf) agent_id sid of
        None \<Rightarrow>
          if enf_strict_mode enf then
            (log_result (mk_result now False (Some ''not_assigned'') None sid
               [(''agent_id'', JStr agent_id), (''action'', JStr (action_value action))]) enf,
             Inl (RoleNotAssigned agent_id (action_value action)))
          else if action \<noteq> QUERY then
            (log_result (mk_result now False (Some ''unregistered_agent_non_query'') None sid
               [(''agent_id'', JStr agent_id), (''action'', JStr (action_value action))]) enf,
             Inl (RoleViolation agent_id ''unregistered'' (action_value action) []))
          else (enf, Inr (mk_result now True None None sid []))
      | Some rec \<Rightarrow>
          if \<not> can_perform rec action then
            (log_result (mk_result now False (Some ''role_violation'') None sid
               [(''agent_id'', JStr agent_id), (''role'', JStr (role_value (mr_role rec))),
                (''action'', JStr (action_value action))]) enf,
             Inl (RoleViolation agent_id (role_value (mr_role rec)) (action_value action)
                    (allowed_roles action)))
          else
            (let (enf1, c1) =
               (if action = VALIDATE \<and> truthy_str target_agent_id
                then check_cross_agent_constraint enf now rec agent_id (the target_agent_id) sid
                else (enf, Inr ()))
             in case c1 of
                  Inl e \<Rightarrow> (enf1, Inl e)
                | Inr _ \<Rightarrow>
                    (let (enf2, c2) =
                       (if action = VALIDATE \<and> truthy_str target_output_id
                        then check_output_ownership_constraint enf1 now rec agent_id
                               (the target_output_id) sid
                        else (enf1, Inr ()))
                     in case c2 of
                          Inl e \<Rightarrow> (enf2, Inl e)
                        | Inr _ \<Rightarrow>
                            (let res = mk_result now True None None sid
                                 [(''agent_id'', JStr agent_id), (''action'', JStr (action_value action)),
                                  (''agent_role'', JStr (role_value (mr_role rec)))]
                             in (log_result res enf2, Inr res)))))"

section \<open>Batches, the log and the session bypass check\<close>

text \<open>A request of a batch; \<open>br_session\<close> distinguishes an absent key from an explicit \<open>None\<close>.\<close>

record batch_request =
  br_agent_id :: string
  br_action :: maci_action
  br_target_output_id :: "string option"
  br_target_agent_id :: "string option"
  br_session :: "string option option"

primrec gather_validations ::
  "maci_enforcer \<Rightarrow> rat \<Rightarrow> string option \<Rightarrow> batch_request list
     \<Rightarrow> maci_enforcer \<times> (maci_error + maci_validation_result) list" where
  "gather_validations enf now sid [] = (enf, [])"
| "gather_validations enf now sid (req # reqs) =
     (let (enf1, r) = validate_action enf now (br_agent_id req) (br_action req)
                        (br_target_output_id req) (br_target_agent_id req)
                        (case br_session req of None \<Rightarrow> sid | Some s \<Rightarrow> s);
          (enf2, rs) = gather_validations enf1 now sid reqs
      in (enf2, r # rs))"

definition process_gathered ::
  "(maci_error \<Rightarrow> string) \<Rightarrow> rat \<Rightarrow> string option \<Rightarrow> (nat \<times> (maci_error + maci_validation_result))
     \<Rightarrow> maci_validation_result" where
  "process_gathered err_str now sid ir =
     (case snd ir of
        Inl e \<Rightarrow> mk_result now False None None sid
                   [(''error'', JStr (err_str e)), (''request_index'', JInt (int (fst ir)))]
      | Inr res \<Rightarrow> res)"

definition batch_validate_actions ::
  "(maci_error \<Rightarrow> string) \<Rightarrow> maci_enforcer \<Rightarrow> rat \<Rightarrow> batch_request list \<Rightarrow> string option
     \<Rightarrow> maci_enforcer \<times> maci_validation_result list" where
  "batch_validate_actions err_str enf now reqs sid =
     (let (enf', rs) = gather_validations enf now sid reqs
      in (enf', map (process_gathered err_str now sid) (List.enumerate 0 rs)))"

definition get_validation_log :: "maci_enforcer \<Rightarrow> string option \<Rightarrow> maci_validation_result list" where
  "get_validation_log enf sid =
     (case sid of None \<Rightarrow> enf_log enf | Some _ \<Rightarrow> filter (\<lambda>r. vr_session_id r = sid) (enf_log enf))"

definition get_audit_log :: "maci_enforcer \<Rightarrow> string option \<Rightarrow> json_dict list" where
  "get_audit_log enf sid = map result_audit_dict (get_validation_log enf sid)"

definition clear_validation_log :: "maci_enforcer \<Rightarrow> string option \<Rightarrow> maci_enforcer \<times> nat" where
  "clear_validation_log enf sid =
     (case sid of
        None \<Rightarrow> (enf\<lparr>enf_log := []\<rparr>, length (enf_log enf))
      | Some _ \<Rightarrow>
          (let kept = filter (\<lambda>r. vr_session_id r \<noteq> sid) (enf_log enf)
           in (enf\<lparr>enf_log := kept\<rparr>, length (enf_log enf) - length kept)))"

text \<open>
  \<open>validate_session_bypass\<close> writes the check's outcome into the details of the result it got.
  That result is the object the validation has just logged (unless the agent is unregistered, in
  which case nothing was logged), so the log's last entry changes with it.
\<close>

definition validate_session_bypass ::
  "(maci_error \<Rightarrow> string) \<Rightarrow> maci_enforcer \<Rightarrow> rat \<Rightarrow> string \<Rightarrow> maci_action \<Rightarrow> string
     \<Rightarrow> maci_enforcer \<times> (maci_error + maci_validation_result)" where
  "validate_session_bypass err_str enf now agent_id action s =
     (let sid = Some s; (enf1, r) = validate_action enf now agent_id action None None sid
      in case r of
           Inr res \<Rightarrow>
             (let res' = res\<lparr>vr_details :=
                dset ''constitutional_hash'' (JStr CONSTITUTIONAL_HASH)
                  (dset ''bypass_check_timestamp'' (JTime now)
                    (dset ''bypass_check'' (JStr ''passed'') (vr_details res)))\<rparr>
              in (if get_agent (enf_registry enf) agent_id sid = None then enf1
                  else enf1\<lparr>enf_log := butlast (enf_log enf1) @ [res']\<rparr>, Inr res'))
         | Inl (SelfValidation a act out) \<Rightarrow> (enf1, Inl (SelfValidation a act out))
         | Inl (MatrixInvalid vs) \<Rightarrow> (enf1, Inl (MatrixInvalid vs))
         | Inl e \<Rightarrow>
             (let res = mk_result now False (Some ''role_violation'') (Some (err_str e)) sid
                  [(''bypass_check'', JStr ''blocked''),
                   (''bypass_check_reason'', JStr ''MACI enforcement cannot be bypassed''),
                   (''original_error'', JStr (err_str e))]
              in (log_result res enf1, Inr res)))"

section \<open>The message validation strategy\<close>

text \<open>
  What \<open>MACIValidationStrategy.validate\<close> reads of a message: the value of its type, its content
  when that is a JSON object, sender and recipient, and the two places a session may come from.
\<close>

record maci_message =
  mm_message_type :: string
  mm_content :: json
  mm_from_agent :: string
  mm_to_agent :: "string option"
  mm_session_id :: "string option"
  mm_session_context :: "string option option"

definition message_action :: "string \<Rightarrow> maci_action option" where
  "message_action mtype = dget
     [(''governance_request'', PROPOSE), (''constitutional_validation'', VALIDATE),
      (''task_request'', SYNTHESIZE), (''query'', QUERY), (''audit_log'', AUDIT)] mtype"

definition message_target_output :: "json \<Rightarrow> string option" where
  "message_target_output content =
     (case content of
        JObj d \<Rightarrow> (case dget d ''target_output_id'' of Some (JStr s) \<Rightarrow> Some s | _ \<Rightarrow> None)
      | _ \<Rightarrow> None)"

definition message_session :: "maci_message \<Rightarrow> string option \<Rightarrow> string option" where
  "message_session msg sid =
     (case sid of
        Some s \<Rightarrow> Some s
      | None \<Rightarrow> (case mm_session_id msg of
                  Some s \<Rightarrow> Some s
                | None \<Rightarrow> (case mm_session_context msg of None \<Rightarrow> None | Some c \<Rightarrow> c)))"

definition strategy_validate ::
  "(maci_error \<Rightarrow> string) \<Rightarrow> maci_enforcer \<Rightarrow> rat \<Rightarrow> maci_message \<Rightarrow> string option
     \<Rightarrow> maci_enforcer \<times> bool \<times> string option" where
  "strategy_validate err_str enf now msg sid =
     (case message_action (mm_message_type msg) of
        None \<Rightarrow> (enf, \<not> enf_strict_mode enf, Some ''Unknown type'')
      | Some act \<Rightarrow>
          (case validate_action enf now (mm_from_agent msg) act (message_target_output (mm_content msg))
                  (mm_to_agent msg) (message_session msg sid) of
             (enf', Inr _) \<Rightarrow> (enf', True, None)
           | (enf', Inl e) \<Rightarrow> (enf', False, Some (err_str e))))"

text \<open>The middleware around a handler \<open>next_handler\<close>, which is any function of the message.\<close>

definition maci_middleware ::
  "(maci_error \<Rightarrow> string) \<Rightarrow> bool \<Rightarrow> maci_enforcer \<Rightarrow> rat \<Rightarrow> maci_message
     \<Rightarrow> (maci_message \<Rightarrow> 'm) \<Rightarrow> maci_enforcer \<times> (maci_error + 'm)" where
  "maci_middleware err_str extract_session enf now msg next_handler =
     (let sid = (if extract_session then message_session msg None else None);
          (enf', ok, error) = strategy_validate err_str enf now msg sid
      in if \<not> ok then
           (enf', Inl (RoleViolation (mm_from_agent msg) ''unknown''
              (mm_message_type msg @ '': '' @ (case error of None \<Rightarrow> ''None'' | Some e \<Rightarrow> e)) []))
         else (enf', Inr (next_handler msg)))"

end
