(* ===== verification/MACI_Theorems.thy ===== *)
theory MACI_Theorems
  imports MACI_Enforcer
begin

text \<open>
  What MACI enforcement guarantees: the decision of \<open>validate_action\<close> is exactly the access rule
  \<open>action_allowed\<close>, nobody validates an output the registry has recorded for them, whatever
  happened to the registry in between, every denial is logged, the log stays within its bound,
  and neither a batch, nor a session, nor the middleware grants more than \<open>validate_action\<close>.
\<close>

section \<open>The access rule\<close>

definition agent_target_ok ::
  "maci_role_registry \<Rightarrow> bool \<Rightarrow> string \<Rightarrow> maci_role \<Rightarrow> string option \<Rightarrow> string option \<Rightarrow> bool" where
  "agent_target_ok reg strict a role tgt sid =
     (truthy_str tgt \<longrightarrow> tgt \<noteq> Some a \<and>
        (case get_agent reg (the tgt) sid of None \<Rightarrow> \<not> strict | Some t \<Rightarrow> may_validate role (mr_role t)))"

definition output_target_ok ::
  "maci_role_registry \<Rightarrow> string \<Rightarrow> maci_agent_record \<Rightarrow> string option \<Rightarrow> string option \<Rightarrow> bool" where
  "output_target_ok reg a rec out sid =
     (truthy_str out \<longrightarrow>
        (let p = get_output_producer reg (the out) sid
         in p \<noteq> Some a \<and> the out \<notin> set (mr_outputs rec) \<and>
            (truthy_str p \<longrightarrow>
               (case get_agent reg (the p) sid of None \<Rightarrow> True | Some t \<Rightarrow> may_validate (mr_role rec) (mr_role t)))))"

definition action_allowed ::
  "maci_role_registry \<Rightarrow> bool \<Rightarrow> string \<Rightarrow> maci_action \<Rightarrow> string option \<Rightarrow> string option \<Rightarrow> string option \<Rightarrow> bool"
where
  "action_allowed reg strict a action out tgt sid =
     (case get_agent reg a sid of
        None \<Rightarrow> \<not> strict \<and> action = QUERY
      | Some rec \<Rightarrow> permitted (mr_role rec) action \<and>
          (action = VALIDATE \<longrightarrow>
             agent_target_ok reg strict a (mr_role rec) tgt sid \<and> output_target_ok reg a rec out sid))"

section \<open>Steps of a validation\<close>

lemma log_result_simps [simp]:
  "enf_registry (log_result r enf) = enf_registry enf"
  "enf_strict_mode (log_result r enf) = enf_strict_mode enf"
  "enf_matrix_violations (log_result r enf) = enf_matrix_violations enf"
  "enf_log (log_result r enf) = deque_append MAX_MACI_VALIDATION_HISTORY r (enf_log enf)"
  by (simp_all add: log_result_def)

lemma history_pos [simp]: "0 < MAX_MACI_VALIDATION_HISTORY"
  by (simp add: MAX_MACI_VALIDATION_HISTORY_def)

definition same_but_log :: "maci_enforcer \<Rightarrow> maci_enforcer \<Rightarrow> bool" where
  "same_but_log enf enf' \<longleftrightarrow> enf_registry enf' = enf_registry enf \<and> enf_strict_mode enf' = enf_strict_mode enf"

lemma same_but_log_simps [simp]:
  "same_but_log enf enf" "same_but_log enf (log_result r enf') = same_but_log enf enf'"
  "same_but_log enf (enf'\<lparr>enf_log := l\<rparr>) = same_but_log enf enf'"
  by (simp_all add: same_but_log_def)

lemma same_but_log_trans: "same_but_log a b \<Longrightarrow> same_but_log b c \<Longrightarrow> same_but_log a c"
  by (simp add: same_but_log_def)

lemmas maci_check_defs =
  verify_target_role_constraint_def check_cross_agent_constraint_def check_output_ownership_constraint_def

lemma verify_frame:
  "same_but_log enf (fst (verify_target_role_constraint enf now rec a t tid ty sid opn))"
  by (simp add: verify_target_role_constraint_def Let_def split: option.splits)

lemma cross_frame: "same_but_log enf (fst (check_cross_agent_constraint enf now rec a t sid))"
  by (simp add: check_cross_agent_constraint_def verify_frame)

lemma output_frame: "same_but_log enf (fst (check_output_ownership_constraint enf now rec a out sid))"
  by (simp add: check_output_ownership_constraint_def Let_def verify_frame)

lemma cross_ok:
  "is_ok (snd (check_cross_agent_constraint enf now rec a t sid)) \<longleftrightarrow>
     t \<noteq> a \<and> (case get_agent (enf_registry enf) t sid of None \<Rightarrow> \<not> enf_strict_mode enf
              | Some r \<Rightarrow> may_validate (mr_role rec) (mr_role r))"
  by (auto simp: maci_check_defs Let_def can_validate_role_may split: option.splits)

lemma output_ok:
  "out \<noteq> [] \<Longrightarrow> is_ok (snd (check_output_ownership_constraint enf now rec a out sid)) \<longleftrightarrow>
     output_target_ok (enf_registry enf) a rec (Some out) sid"
  by (auto simp: maci_check_defs output_target_ok_def Let_def can_validate_role_may truthy_str_def
      split: option.splits)

text \<open>The two checks of \<open>validate_action\<close>, named so that its cases read off.\<close>

definition first_check where
  "first_check enf now rec a action tgt sid =
     (if action = VALIDATE \<and> truthy_str tgt
      then check_cross_agent_constraint enf now rec a (the tgt) sid else (enf, Inr ()))"

definition second_check where
  "second_check enf now rec a action out sid =
     (if action = VALIDATE \<and> truthy_str out
      then check_output_ownership_constraint enf now rec a (the out) sid else (enf, Inr ()))"

lemma check_frames:
  "same_but_log enf (fst (first_check enf now rec a action tgt sid))"
  "same_but_log enf (fst (second_check enf now rec a action out sid))"
  by (simp_all add: first_check_def second_check_def cross_frame output_frame)

lemma first_check_ok:
  "is_ok (snd (first_check enf now rec a action tgt sid)) \<longleftrightarrow>
     (action = VALIDATE \<longrightarrow> agent_target_ok (enf_registry enf) (enf_strict_mode enf) a (mr_role rec) tgt sid)"
  by (cases tgt) (auto simp: first_check_def cross_ok agent_target_ok_def truthy_str_def)

lemma second_check_ok:
  "is_ok (snd (second_check enf now rec a action out sid)) \<longleftrightarrow>
     (action = VALIDATE \<longrightarrow> output_target_ok (enf_registry enf) a rec out sid)"
proof (cases "truthy_str out")
  case True
  then obtain o' where "out = Some o'" "o' \<noteq> []" by (cases out) (auto simp: truthy_str_def)
  then show ?thesis by (simp add: second_check_def output_ok truthy_str_def)
next
  case False
  then show ?thesis by (simp add: second_check_def output_target_ok_def)
qed

lemma validate_action_registered:
  assumes "get_agent (enf_registry enf) a sid = Some rec" and "can_perform rec action"
  shows "validate_action enf now a action out tgt sid =
     (case first_check enf now rec a action tgt sid of
        (enf1, Inl e) \<Rightarrow> (enf1, Inl e)
      | (enf1, Inr _) \<Rightarrow>
          (case second_check enf1 now rec a action out sid of
             (enf2, Inl e) \<Rightarrow> (enf2, Inl e)
           | (enf2, Inr _) \<Rightarrow>
               (let res = mk_result now True None None sid
                    [(''agent_id'', JStr a), (''action'', JStr (action_value action)),
                     (''agent_role'', JStr (role_value (mr_role rec)))]
                in (log_result res enf2, Inr res))))"
  using assms(2)
  unfolding validate_action_def first_check_def [symmetric] second_check_def [symmetric] assms(1) Let_def
  by simp

lemma validate_action_same: "same_but_log enf (fst (validate_action enf now a action out tgt sid))"
proof (cases "\<exists>rec. get_agent (enf_registry enf) a sid = Some rec \<and> can_perform rec action")
  case True
  then obtain rec where r: "get_agent (enf_registry enf) a sid = Some rec" "can_perform rec action"
    by blast
  obtain enf1 c1 where 1: "first_check enf now rec a action tgt sid = (enf1, c1)" by force
  obtain enf2 c2 where 2: "second_check enf1 now rec a action out sid = (enf2, c2)" by force
  have "same_but_log enf enf1" "same_but_log enf1 enf2"
    using check_frames(1) [of enf now rec a action tgt sid] check_frames(2) [of enf1 now rec a action out sid] 1 2
    by simp_all
  then show ?thesis
    by (auto simp: validate_action_registered [OF r] 1 2 Let_def split: sum.splits dest: same_but_log_trans)
next
  case False
  then show ?thesis by (auto simp: validate_action_def split: option.splits)
qed

lemma validate_action_ok_iff:
  "is_ok (snd (validate_action enf now a action out tgt sid)) \<longleftrightarrow>
     action_allowed (enf_registry enf) (enf_strict_mode enf) a action out tgt sid"
proof (cases "\<exists>rec. get_agent (enf_registry enf) a sid = Some rec \<and> can_perform rec action")
  case True
  then obtain rec where r: "get_agent (enf_registry enf) a sid = Some rec" "can_perform rec action"
    by blast
  obtain enf1 c1 where 1: "first_check enf now rec a action tgt sid = (enf1, c1)" by force
  obtain enf2 c2 where 2: "second_check enf1 now rec a action out sid = (enf2, c2)" by force
  have s: "enf_registry enf1 = enf_registry enf"
    using check_frames(1) [of enf now rec a action tgt sid] 1 by (simp add: same_but_log_def)
  have "is_ok c1 \<longleftrightarrow> (action = VALIDATE \<longrightarrow>
      agent_target_ok (enf_registry enf) (enf_strict_mode enf) a (mr_role rec) tgt sid)"
    using first_check_ok [of enf now rec a action tgt sid] 1 by simp
  moreover have "is_ok c2 \<longleftrightarrow> (action = VALIDATE \<longrightarrow> output_target_ok (enf_registry enf) a rec out sid)"
    using second_check_ok [of enf1 now rec a action out sid] 2 s by simp
  ultimately show ?thesis
    using r by (auto simp: validate_action_registered [OF r] 1 2 Let_def action_allowed_def
        can_perform_permitted split: sum.splits)
next
  case False
  then show ?thesis
    by (auto simp: validate_action_def action_allowed_def can_perform_permitted split: option.splits)
qed

text \<open>A denial leaves an invalid entry of the same session at the end of the log.\<close>

definition denial_logged :: "string option \<Rightarrow> maci_enforcer \<Rightarrow> bool" where
  "denial_logged sid enf \<longleftrightarrow> enf_log enf \<noteq> [] \<and> \<not> vr_is_valid (last (enf_log enf)) \<and>
     vr_session_id (last (enf_log enf)) = sid"

lemma denial_logged_log [simp]:
  "denial_logged sid (log_result (mk_result now v ty msg sid' d) enf) \<longleftrightarrow> \<not> v \<and> sid' = sid"
  by (simp add: denial_logged_def mk_result_def)

lemma verify_denied:
  "verify_target_role_constraint enf now rec a t tid ty sid opn = (enf', Inl e) \<Longrightarrow> denial_logged sid enf'"
  by (auto simp: verify_target_role_constraint_def Let_def split: option.splits if_splits)

lemma first_check_denied:
  "first_check enf now rec a action tgt sid = (enf', Inl e) \<Longrightarrow> denial_logged sid enf'"
  by (auto simp: first_check_def check_cross_agent_constraint_def split: if_splits dest: verify_denied)

lemma second_check_denied:
  "second_check enf now rec a action out sid = (enf', Inl e) \<Longrightarrow> denial_logged sid enf'"
  by (auto simp: second_check_def check_output_ownership_constraint_def Let_def split: if_splits
      dest: verify_denied)

lemma validate_action_denied:
  "validate_action enf now a action out tgt sid = (enf', Inl e) \<Longrightarrow> denial_logged sid enf'"
proof (cases "\<exists>rec. get_agent (enf_registry enf) a sid = Some rec \<and> can_perform rec action")
  case True
  moreover assume "validate_action enf now a action out tgt sid = (enf', Inl e)"
  ultimately show ?thesis
    by (auto simp: validate_action_registered Let_def split: prod.splits sum.splits
        dest: first_check_denied second_check_denied)
next
  case False
  moreover assume "validate_action enf now a action out tgt sid = (enf', Inl e)"
  ultimately show ?thesis by (auto simp: validate_action_def split: option.splits if_splits)
qed

text \<open>A grant is a valid result; of a registered agent it is also the last log entry.\<close>

lemma validate_action_granted:
  assumes "validate_action enf now a action out tgt sid = (enf', Inr res)"
  shows "vr_is_valid res \<and> vr_session_id res = sid \<and>
    (get_agent (enf_registry enf) a sid \<noteq> None \<longrightarrow> enf_log enf' \<noteq> [] \<and> last (enf_log enf') = res)"
proof (cases "\<exists>rec. get_agent (enf_registry enf) a sid = Some rec \<and> can_perform rec action")
  case True
  with assms show ?thesis
    by (auto simp: validate_action_registered Let_def mk_result_def split: prod.splits sum.splits)
next
  case False
  with assms show ?thesis by (auto simp: validate_action_def mk_result_def split: option.splits if_splits)
qed

lemma validate_action_granted_valid:
  "snd (validate_action enf now a action out tgt sid) = Inr res \<Longrightarrow> vr_is_valid res"
  using validate_action_granted [of enf now a action out tgt sid] by (metis surjective_pairing)

section \<open>The log's bound\<close>

definition log_bounded :: "maci_enforcer \<Rightarrow> bool" where
  "log_bounded enf \<longleftrightarrow> length (enf_log enf) \<le> MAX_MACI_VALIDATION_HISTORY"

lemma log_bounded_log [simp]: "log_bounded (log_result r enf)"
  by (simp add: log_bounded_def)

lemma log_bounded_verify:
  "log_bounded enf \<Longrightarrow> log_bounded (fst (verify_target_role_constraint enf now rec a t tid ty sid opn))"
  by (simp add: verify_target_role_constraint_def Let_def split: option.splits)

lemma log_bounded_checks:
  "log_bounded enf \<Longrightarrow> log_bounded (fst (first_check enf now rec a action tgt sid))"
  "log_bounded enf \<Longrightarrow> log_bounded (fst (second_check enf now rec a action out sid))"
  by (simp_all add: first_check_def second_check_def check_cross_agent_constraint_def
      check_output_ownership_constraint_def Let_def log_bounded_verify)

lemma log_bounded_validate:
  assumes "log_bounded enf"
  shows "log_bounded (fst (validate_action enf now a action out tgt sid))"
proof (cases "\<exists>rec. get_agent (enf_registry enf) a sid = Some rec \<and> can_perform rec action")
  case True
  then obtain rec where r: "get_agent (enf_registry enf) a sid = Some rec" "can_perform rec action"
    by blast
  obtain enf1 c1 where 1: "first_check enf now rec a action tgt sid = (enf1, c1)" by force
  obtain enf2 c2 where 2: "second_check enf1 now rec a action out sid = (enf2, c2)" by force
  have "log_bounded enf1" "log_bounded enf2"
    using log_bounded_checks(1) [OF assms, of now rec a action tgt sid]
      log_bounded_checks(2) [of enf1 now rec a action out sid] 1 2 by simp_all
  then show ?thesis
    by (auto simp: validate_action_registered [OF r] 1 2 Let_def split: sum.splits)
next
  case False
  with assms show ?thesis by (auto simp: validate_action_def split: option.splits)
qed

lemma gather_simps:
  "gather_validations enf now sid (req # reqs) =
     (let v = validate_action enf now (br_agent_id req) (br_action req) (br_target_output_id req)
                (br_target_agent_id req) (case br_session req of None \<Rightarrow> sid | Some s \<Rightarrow> s);
          g = gather_validations (fst v) now sid reqs
      in (fst g, snd v # snd g))"
  by (simp add: split_def Let_def)

declare gather_validations.simps(2) [simp del]

lemma gather_same: "same_but_log enf (fst (gather_validations enf now sid reqs))"
  by (induction reqs arbitrary: enf)
    (auto simp: gather_simps Let_def intro: same_but_log_trans [OF validate_action_same])

lemma gather_bounded: "log_bounded enf \<Longrightarrow> log_bounded (fst (gather_validations enf now sid reqs))"
  by (induction reqs arbitrary: enf) (auto simp: gather_simps Let_def log_bounded_validate)

lemma length_gather [simp]: "length (snd (gather_validations enf now sid reqs)) = length reqs"
  by (induction reqs arbitrary: enf) (auto simp: gather_simps Let_def)

definition request_session :: "string option \<Rightarrow> batch_request \<Rightarrow> string option" where
  "request_session sid req = (case br_session req of None \<Rightarrow> sid | Some s \<Rightarrow> s)"

lemma gather_nth:
  "i < length reqs \<Longrightarrow>
   is_ok (snd (gather_validations enf now sid reqs) ! i) \<longleftrightarrow>
     action_allowed (enf_registry enf) (enf_strict_mode enf) (br_agent_id (reqs ! i)) (br_action (reqs ! i))
       (br_target_output_id (reqs ! i)) (br_target_agent_id (reqs ! i)) (request_session sid (reqs ! i))"
proof (induction reqs arbitrary: enf i)
  case Nil
  then show ?case by simp
next
  case (Cons req reqs)
  note same = validate_action_same [of enf now "br_agent_id req" "br_action req" "br_target_output_id req"
      "br_target_agent_id req" "case br_session req of None \<Rightarrow> sid | Some s \<Rightarrow> s"]
  from same show ?case
    using Cons.prems by (cases i)
      (simp_all add: gather_simps Let_def validate_action_ok_iff request_session_def same_but_log_def
        Cons.IH)
qed

lemma gather_granted_valid:
  "i < length reqs \<Longrightarrow> snd (gather_validations enf now sid reqs) ! i = Inr res \<Longrightarrow> vr_is_valid res"
proof (induction reqs arbitrary: enf i)
  case Nil
  then show ?case by simp
next
  case (Cons req reqs)
  then show ?case
    by (cases i) (auto simp: gather_simps Let_def dest: validate_action_granted_valid)
qed

section \<open>Properties\<close>

text \<open>C2: The decision of \<open>validate_action\<close> is exactly the documented access rule: an unregistered
  agent may only query, and only outside strict mode; a registered agent needs the permission of
  its role; validation also needs a target agent other than itself whose role it may validate,
  and an output it has not produced.\<close>

theorem validate_action_decides:
  "is_ok (snd (validate_action enf now a action out tgt sid)) =
     action_allowed (enf_registry enf) (enf_strict_mode enf) a action out tgt sid"
  by (rule validate_action_ok_iff)

text \<open>C1: No self-validation. Once an output of an agent is recorded, then whatever the registry does
  afterwards short of re-registering, unregistering or clearing that agent, the agent's attempt to
  validate the output is denied, and the denial is in the log.\<close>

theorem no_self_validation:
  assumes inv: "registry_inv reg" and reg: "get_agent reg a sid \<noteq> None" and out: "out \<noteq> []"
    and kept: "list_all (keeps a sid) es"
    and enf: "enf_registry enf = run registry_step (record_output reg a out sid) es"
  shows "\<not> is_ok (snd (validate_action enf now a VALIDATE (Some out) tgt sid)) \<and>
    denial_logged sid (fst (validate_action enf now a VALIDATE (Some out) tgt sid))"
proof -
  have inv': "registry_inv (record_output reg a out sid)"
    by (rule record_output_inv [OF inv])
  have "out \<in> owned a sid (record_output reg a out sid)"
    using reg by (simp add: owned_record_output)
  with ledger.run_rank [OF inv' kept] have "out \<in> owned a sid (enf_registry enf)"
    by (auto simp: enf)
  then have "\<not> action_allowed (enf_registry enf) (enf_strict_mode enf) a VALIDATE (Some out) tgt sid"
    using out by (auto simp: owned_def action_allowed_def output_target_ok_def truthy_str_def Let_def
        split: option.splits)
  then have no: "\<not> is_ok (snd (validate_action enf now a VALIDATE (Some out) tgt sid))"
    by (simp add: validate_action_ok_iff)
  then obtain enf' e where "validate_action enf now a VALIDATE (Some out) tgt sid = (enf', Inl e)"
    by (metis is_ok_iff surjective_pairing sum.exhaust)
  with no show ?thesis by (auto dest: validate_action_denied)
qed

text \<open>Separation of powers: a granted validation comes from a judicial agent, and a target agent
  that is registered in the same scope is executive, legislative or implementer (never judicial,
  never the validator itself); in strict mode the target must be registered.\<close>

theorem validation_needs_judge:
  assumes "validate_action enf now a VALIDATE out tgt sid = (enf', Inr res)"
  shows "role_of a sid (enf_registry enf) = Some JUDICIAL \<and>
    (truthy_str tgt \<longrightarrow> tgt \<noteq> Some a \<and>
       role_of (the tgt) sid (enf_registry enf) \<in>
         Some ` {EXECUTIVE, LEGISLATIVE, IMPLEMENTER} \<union> (if enf_strict_mode enf then {} else {None}))"
proof -
  have "action_allowed (enf_registry enf) (enf_strict_mode enf) a VALIDATE out tgt sid"
    using assms validate_action_ok_iff [of enf now a VALIDATE out tgt sid] by simp
  then obtain rec where rec: "get_agent (enf_registry enf) a sid = Some rec" "mr_role rec = JUDICIAL"
    and tgt: "agent_target_ok (enf_registry enf) (enf_strict_mode enf) a JUDICIAL tgt sid"
    by (auto simp: action_allowed_def permitted_VALIDATE split: option.splits)
  have "role_of (the tgt) sid (enf_registry enf) \<in>
       Some ` {EXECUTIVE, LEGISLATIVE, IMPLEMENTER} \<union> (if enf_strict_mode enf then {} else {None})"
    if "truthy_str tgt"
    using that tgt
    by (auto simp: agent_target_ok_def role_of_def may_validate_JUDICIAL split: option.splits)
  with rec tgt show ?thesis by (auto simp: role_of_def agent_target_ok_def)
qed

text \<open>A small registry for the witnesses: a judge and an executive, in the global scope.\<close>

definition demo_registry :: maci_role_registry where
  "demo_registry =
     fst (register_agent (fst (register_agent empty_registry 0 ''judge'' JUDICIAL None None))
           1 ''exec'' EXECUTIVE None None)"

definition demo_enforcer :: "bool \<Rightarrow> maci_role_registry \<Rightarrow> maci_enforcer" where
  "demo_enforcer strict reg =
     \<lparr>enf_registry = reg, enf_strict_mode = strict, enf_enable_session_audit = True,
      enf_log = [], enf_matrix_violations = []\<rparr>"

lemma demo_registry_inv: "registry_inv demo_registry"
  by (simp add: demo_registry_def register_agent_inv empty_registry_inv)

lemma demo_lookup:
  "get_agent demo_registry ''judge'' None = Some (fresh_record 0 ''judge'' JUDICIAL None None)"
  "get_agent demo_registry ''exec'' None = Some (fresh_record 1 ''exec'' EXECUTIVE None None)"
  "get_output_producer demo_registry out None = None"
  by (simp_all add: demo_registry_def registry_simps)

theorem no_self_validation_witness:
  "\<not> is_ok (snd (validate_action
       (demo_enforcer True (run registry_step (record_output demo_registry ''judge'' ''o1'' None)
          [UnregisterAgent ''exec'' None])) 2 ''judge'' VALIDATE (Some ''o1'') None None))"
proof -
  have k: "list_all (keeps ''judge'' None) [UnregisterAgent ''exec'' None]" by simp
  have r: "get_agent demo_registry ''judge'' None \<noteq> None" by (simp add: demo_lookup)
  show ?thesis
    using no_self_validation [OF demo_registry_inv r _ k, of "''o1''"
        "demo_enforcer True (run registry_step (record_output demo_registry ''judge'' ''o1'' None)
          [UnregisterAgent ''exec'' None])" 2 None]
    by (simp add: demo_enforcer_def)
qed

theorem validation_needs_judge_witness:
  "\<exists>enf' res. validate_action (demo_enforcer True demo_registry) 2 ''judge'' VALIDATE None (Some ''exec'') None
     = (enf', Inr res) \<and> role_of ''judge'' None demo_registry = Some JUDICIAL"
proof -
  have "is_ok (snd (validate_action (demo_enforcer True demo_registry) 2 ''judge'' VALIDATE None (Some ''exec'') None))"
    by (simp add: validate_action_ok_iff action_allowed_def demo_enforcer_def demo_lookup permitted_VALIDATE
        agent_target_ok_def output_target_ok_def truthy_str_def may_validate_JUDICIAL)
  then obtain enf' res where
    v: "validate_action (demo_enforcer True demo_registry) 2 ''judge'' VALIDATE None (Some ''exec'') None = (enf', Inr res)"
    by (metis is_ok_iff surjective_pairing)
  from validation_needs_judge [OF v] v show ?thesis by (auto simp: demo_enforcer_def)
qed

text \<open>No action is granted silently and none is refused silently: a denial leaves an invalid entry
  of the caller's session at the end of the log, the registry and the mode are untouched, and the
  log never exceeds its bound.\<close>

theorem denial_is_logged:
  assumes "log_bounded enf" and "validate_action enf now a action out tgt sid = (enf', Inl e)"
  shows "denial_logged sid enf' \<and> log_bounded enf' \<and> same_but_log enf enf'"
  using validate_action_denied [OF assms(2)] log_bounded_validate [OF assms(1), of now a action out tgt sid]
    validate_action_same [of enf now a action out tgt sid] assms(2) by simp

theorem denial_is_logged_witness:
  "denial_logged None (fst (validate_action (demo_enforcer True demo_registry) 2 ''exec'' AUDIT None None None))"
proof -
  let ?enf = "demo_enforcer True demo_registry"
  have b: "log_bounded ?enf" by (simp add: log_bounded_def demo_enforcer_def)
  have "\<not> is_ok (snd (validate_action ?enf 2 ''exec'' AUDIT None None None))"
    by (simp add: validate_action_ok_iff action_allowed_def demo_enforcer_def demo_lookup maci_matrix_defs)
  then obtain enf' e where v: "validate_action ?enf 2 ''exec'' AUDIT None None None = (enf', Inl e)"
    by (metis is_ok_iff surjective_pairing sum.exhaust)
  from denial_is_logged [OF b v] v show ?thesis by simp
qed

text \<open>In strict mode a judge may validate an output that nobody is recorded to have produced: the
  missing producer is logged as a failed validation, and the same call then logs and returns a
  valid result.\<close>

theorem unknown_output_is_validated:
  assumes rec: "get_agent (enf_registry enf) a sid = Some rec" "mr_role rec = JUDICIAL"
    and strict: "enf_strict_mode enf"
    and out: "out \<noteq> []" "get_output_producer (enf_registry enf) out sid = None" "out \<notin> set (mr_outputs rec)"
    and room: "length (enf_log enf) + 2 \<le> MAX_MACI_VALIDATION_HISTORY"
  shows "\<exists>enf' bad res. validate_action enf now a VALIDATE (Some out) None sid = (enf', Inr res) \<and>
     vr_is_valid res \<and> enf_log enf' = enf_log enf @ [bad, res] \<and>
     \<not> vr_is_valid bad \<and> vr_violation_type bad = Some ''target_not_found''"
proof -
  have perm: "can_perform rec VALIDATE"
    using rec(2) by (simp add: can_perform_permitted permitted_VALIDATE)
  show ?thesis
    unfolding validate_action_registered [OF rec(1) perm]
    using out strict room
    by (simp add: first_check_def second_check_def check_output_ownership_constraint_def truthy_str_def
        verify_target_role_constraint_def Let_def mk_result_def deque_append_room)
qed

theorem unknown_output_is_validated_witness:
  "\<exists>enf' bad res. validate_action (demo_enforcer True demo_registry) 2 ''judge'' VALIDATE (Some ''o9'') None None
     = (enf', Inr res) \<and> vr_is_valid res \<and> \<not> vr_is_valid bad \<and> enf_log enf' = [bad, res]"
  using unknown_output_is_validated [of "demo_enforcer True demo_registry" "''judge''" None
      "fresh_record 0 ''judge'' JUDICIAL None None" "''o9''" 2]
  by (auto simp: demo_enforcer_def demo_lookup MAX_MACI_VALIDATION_HISTORY_def)

text \<open>A batch decides every request as \<open>validate_action\<close> would on the registry the batch started
  from, under the request's own session where it names one: one result per request, valid exactly
  when the access rule allows it, so no request of a batch can profit from another.\<close>

theorem batch_decides_each:
  assumes "i < length reqs"
  shows "length (snd (batch_validate_actions err_str enf now reqs sid)) = length reqs \<and>
    (vr_is_valid (snd (batch_validate_actions err_str enf now reqs sid) ! i) \<longleftrightarrow>
       action_allowed (enf_registry enf) (enf_strict_mode enf) (br_agent_id (reqs ! i)) (br_action (reqs ! i))
         (br_target_output_id (reqs ! i)) (br_target_agent_id (reqs ! i)) (request_session sid (reqs ! i)))"
proof -
  let ?rs = "snd (gather_validations enf now sid reqs)"
  have eq: "snd (batch_validate_actions err_str enf now reqs sid) =
      map (process_gathered err_str now sid) (List.enumerate 0 ?rs)"
    by (simp add: batch_validate_actions_def split_def Let_def)
  have "vr_is_valid (process_gathered err_str now sid (i, ?rs ! i)) \<longleftrightarrow> is_ok (?rs ! i)"
    using gather_granted_valid [OF assms, of enf now sid]
    by (cases "?rs ! i") (auto simp: process_gathered_def mk_result_def)
  then show ?thesis
    using assms gather_nth [OF assms, of enf now sid] by (simp add: eq nth_enumerate_eq)
qed

definition demo_requests :: "batch_request list" where
  "demo_requests =
     [\<lparr>br_agent_id = ''exec'', br_action = VALIDATE, br_target_output_id = None, br_target_agent_id = None,
       br_session = None\<rparr>,
      \<lparr>br_agent_id = ''judge'', br_action = VALIDATE, br_target_output_id = None, br_target_agent_id = Some ''exec'',
       br_session = None\<rparr>]"

theorem batch_decides_each_witness:
  "vr_is_valid (snd (batch_validate_actions (\<lambda>_. []) (demo_enforcer True demo_registry) 2 demo_requests None) ! 1)"
  using batch_decides_each [of 1 demo_requests "\<lambda>_. []" "demo_enforcer True demo_registry" 2 None]
  by (simp add: demo_requests_def action_allowed_def demo_enforcer_def demo_lookup permitted_VALIDATE
      agent_target_ok_def output_target_ok_def truthy_str_def may_validate_JUDICIAL request_session_def)

lemma no_target_no_self_validation:
  "snd (validate_action enf now a action None None sid) \<noteq> Inl (SelfValidation x y z) \<and>
   snd (validate_action enf now a action None None sid) \<noteq> Inl (MatrixInvalid vs)"
proof (cases "\<exists>rec. get_agent (enf_registry enf) a sid = Some rec \<and> can_perform rec action")
  case True
  then show ?thesis
    by (auto simp: validate_action_registered first_check_def second_check_def truthy_str_def Let_def)
next
  case False
  then show ?thesis by (auto simp: validate_action_def split: option.splits)
qed

text \<open>The session bypass check grants nothing that \<open>validate_action\<close> does not grant: it always
  returns a result (the self-validation error it would re-raise cannot arise, because it passes no
  target), valid exactly when the access rule allows the action in that session.\<close>

theorem bypass_never_escalates:
  "\<exists>enf' res. validate_session_bypass err_str enf now a action s = (enf', Inr res) \<and>
     vr_is_valid res = action_allowed (enf_registry enf) (enf_strict_mode enf) a action None None (Some s)"
proof -
  obtain enf1 r where v: "validate_action enf now a action None None (Some s) = (enf1, r)" by force
  note ok = validate_action_ok_iff [of enf now a action None None "Some s", unfolded v, simplified]
  note nt = no_target_no_self_validation [of enf now a action "Some s", unfolded v, simplified]
  show ?thesis
  proof (cases r)
    case (Inr res)
    then show ?thesis
      using ok validate_action_granted [OF v [unfolded Inr]]
      by (auto simp: validate_session_bypass_def v Let_def)
  next
    case (Inl e)
    then show ?thesis
      using ok nt by (cases e) (auto simp: validate_session_bypass_def v Let_def mk_result_def)
  qed
qed

lemma message_session_idem: "message_session msg (message_session msg None) = message_session msg None"
  by (simp add: message_session_def split: option.splits)

lemma strategy_validate_ok:
  "fst (snd (strategy_validate err_str enf now msg sid)) \<longleftrightarrow>
     (case message_action (mm_message_type msg) of
        None \<Rightarrow> \<not> enf_strict_mode enf
      | Some act \<Rightarrow> action_allowed (enf_registry enf) (enf_strict_mode enf) (mm_from_agent msg) act
          (message_target_output (mm_content msg)) (mm_to_agent msg) (message_session msg sid))"
  unfolding strategy_validate_def
  using validate_action_ok_iff [of enf now "mm_from_agent msg" _ "message_target_output (mm_content msg)"
      "mm_to_agent msg" "message_session msg sid", symmetric]
  by (auto split: option.splits prod.splits sum.splits)

text \<open>The middleware hands a message on only when the strategy accepts it, which needs a message type
  mapped to an action the sender is allowed in the message's session, or, outside strict mode, an
  unknown type; and its flag \<open>extract_session\<close> changes nothing, because the strategy looks the
  session up in the message again when it gets none.\<close>

theorem middleware_gate:
  "maci_middleware err_str False enf now msg next_handler = maci_middleware err_str True enf now msg next_handler \<and>
   is_ok (snd (maci_middleware err_str x enf now msg next_handler)) =
     (case message_action (mm_message_type msg) of
        None \<Rightarrow> \<not> enf_strict_mode enf
      | Some act \<Rightarrow> action_allowed (enf_registry enf) (enf_strict_mode enf) (mm_from_agent msg) act
          (message_target_output (mm_content msg)) (mm_to_agent msg) (message_session msg None))"
proof -
  have same: "strategy_validate err_str enf now msg (message_session msg None) =
      strategy_validate err_str enf now msg None"
    unfolding strategy_validate_def message_session_idem by (rule refl)
  have "is_ok (snd (maci_middleware err_str x enf now msg next_handler)) \<longleftrightarrow>
      fst (snd (strategy_validate err_str enf now msg None))"
    by (cases x) (auto simp: maci_middleware_def same Let_def split: prod.splits)
  then show ?thesis
    by (auto simp: maci_middleware_def same strategy_validate_ok)
qed

text \<open>Sessions are isolated: whatever is registered, unregistered, recorded or cleared in other
  scopes (the global tables included), no lookup of an agent or of a producer in this scope
  changes.\<close>

theorem sessions_are_isolated:
  assumes "registry_inv reg" and "list_all (\<lambda>e. op_scope e \<noteq> sid) es"
  shows "get_agent (run registry_step reg es) a sid = get_agent reg a sid \<and>
    get_output_producer (run registry_step reg es) out sid = get_output_producer reg out sid"
  using scopes.run_settled [OF assms] by (simp add: scope_view_def fun_eq_iff)

theorem sessions_are_isolated_witness:
  "get_agent (run registry_step demo_registry [RegisterAgent 3 ''judge'' EXECUTIVE None (Some ''s1''), ClearSession ''s1''])
     ''judge'' None = get_agent demo_registry ''judge'' None"
proof -
  have "list_all (\<lambda>e. op_scope e \<noteq> None)
      [RegisterAgent 3 ''judge'' EXECUTIVE None (Some ''s1''), ClearSession ''s1'']"
    by simp
  from sessions_are_isolated [OF demo_registry_inv this] show ?thesis by blast
qed

text \<open>Referential integrity: in every reachable registry the recorded producer of an output is an
  agent registered in the same scope, records sit under their own identifier and list no output
  twice.\<close>

theorem registry_integrity:
  "registry_inv (run registry_step empty_registry es)"
  by (rule registry.run_invar [OF empty_registry_inv]) (simp add: list_all_iff)

text \<open>The matrix check reports nothing exactly when duties are separated (no role that validates may
  propose or synthesize, no role validates itself, every validator may validate or audit), the
  shipped matrices pass it, and so building an enforcer never fails.\<close>

theorem matrix_check_complete:
  "(validate_maci_role_matrix p c = []) =
     separated_duties (or_default p ROLE_PERMISSIONS) (or_default c VALIDATION_CONSTRAINTS) \<and>
   separated_duties ROLE_PERMISSIONS VALIDATION_CONSTRAINTS \<and> is_ok (mk_enforcer reg strict audit)"
  using default_matrix_valid validate_matrix_Nil_iff [of None None]
  by (simp add: validate_matrix_Nil_iff mk_enforcer_def or_default_def)

text \<open>The action \<open>MANAGE_POLICY\<close> is granted to nobody, in any mode, although the action's
  documentation reserves it for controllers.\<close>

theorem manage_policy_is_unreachable:
  "\<not> is_ok (snd (validate_action enf now a MANAGE_POLICY out tgt sid))"
  by (auto simp: validate_action_ok_iff action_allowed_def permitted_MANAGE_POLICY split: option.splits)

end
