(* ===== verification/Circuit_Config.thy ===== *)
theory Circuit_Config
  imports Prelude
begin

text \<open>
  \<^verbatim>\<open>src/circuit_breaker/enums.py\<close> and \<^verbatim>\<open>src/circuit_breaker/config.py\<close>: circuit states, fallback
  strategies, severities, and the configuration of each service. The unified settings object is
  not part of the repository: it is a parameter that maps an attribute name to its value, if it
  has that attribute.
\<close>

datatype circuit_state = CLOSED | OPEN | HALF_OPEN

datatype fallback_strategy = FAIL_CLOSED | CACHED_VALUE | QUEUE_FOR_RETRY | BYPASS | DEFAULT_VALUE

datatype service_severity = SevCRITICAL | SevHIGH | SevMEDIUM | SevLOW

fun circuit_state_value :: "circuit_state \<Rightarrow> string" where
  "circuit_state_value CLOSED = ''closed''"
| "circuit_state_value OPEN = ''open''"
| "circuit_state_value HALF_OPEN = ''half_open''"

fun fallback_value :: "fallback_strategy \<Rightarrow> string" where
  "fallback_value FAIL_CLOSED = ''fail_closed''"
| "fallback_value CACHED_VALUE = ''cached_value''"
| "fallback_value QUEUE_FOR_RETRY = ''queue_for_retry''"
| "fallback_value BYPASS = ''bypass''"
| "fallback_value DEFAULT_VALUE = ''default_value''"

fun severity_value :: "service_severity \<Rightarrow> string" where
  "severity_value SevCRITICAL = ''critical''"
| "severity_value SevHIGH = ''high''"
| "severity_value SevMEDIUM = ''medium''"
| "severity_value SevLOW = ''low''"

record service_circuit_config =
  sc_name :: string
  sc_failure_threshold :: int
  sc_timeout_seconds :: rat
  sc_half_open_requests :: int
  sc_fallback_strategy :: fallback_strategy
  sc_fallback_ttl_seconds :: int
  sc_fallback_max_queue_size :: int
  sc_fallback_retry_interval_seconds :: int
  sc_severity :: service_severity
  sc_description :: string
  sc_constitutional_hash :: string

text \<open>The dataclass with its defaults.\<close>

definition mk_config :: "string \<Rightarrow> int \<Rightarrow> rat \<Rightarrow> service_circuit_config" where
  "mk_config name threshold timeout =
     \<lparr>sc_name = name, sc_failure_threshold = threshold, sc_timeout_seconds = timeout,
      sc_half_open_requests = 3, sc_fallback_strategy = FAIL_CLOSED, sc_fallback_ttl_seconds = 300,
      sc_fallback_max_queue_size = 10000, sc_fallback_retry_interval_seconds = 300,
      sc_severity = SevMEDIUM, sc_description = [],
      sc_constitutional_hash = CONSTITUTIONAL_HASH\<rparr>"

definition SERVICE_CIRCUIT_CONFIGS :: "(string, service_circuit_config) dict" where
  "SERVICE_CIRCUIT_CONFIGS =
     [(''policy_registry'', (mk_config ''policy_registry'' 3 10)
         \<lparr>sc_half_open_requests := 3, sc_fallback_strategy := CACHED_VALUE, sc_fallback_ttl_seconds := 300,
          sc_severity := SevHIGH,
          sc_description := ''Policy Registry Service - uses cached policies on failure''\<rparr>),
      (''opa_evaluator'', (mk_config ''opa_evaluator'' 5 5)
         \<lparr>sc_half_open_requests := 3, sc_fallback_strategy := FAIL_CLOSED, sc_severity := SevCRITICAL,
          sc_description := ''OPA Policy Evaluator - constitutional validation cannot be skipped''\<rparr>),
      (''blockchain_anchor'', (mk_config ''blockchain_anchor'' 10 60)
         \<lparr>sc_half_open_requests := 5, sc_fallback_strategy := QUEUE_FOR_RETRY,
          sc_fallback_max_queue_size := 10000, sc_fallback_retry_interval_seconds := 300,
          sc_severity := SevHIGH,
          sc_description := ''Blockchain Anchor Service - queues governance decisions for retry''\<rparr>),
      (''redis_cache'', (mk_config ''redis_cache'' 3 1)
         \<lparr>sc_half_open_requests := 5, sc_fallback_strategy := BYPASS, sc_severity := SevLOW,
          sc_description := ''Redis Cache - bypasses cache on failure (graceful degradation)''\<rparr>),
      (''kafka_producer'', (mk_config ''kafka_producer'' 5 30)
         \<lparr>sc_half_open_requests := 3, sc_fallback_strategy := QUEUE_FOR_RETRY,
          sc_fallback_max_queue_size := 10000, sc_fallback_retry_interval_seconds := 300,
          sc_severity := SevHIGH,
          sc_description := ''Kafka Producer - queues messages for retry on failure''\<rparr>),
      (''audit_service'', (mk_config ''audit_service'' 5 30)
         \<lparr>sc_half_open_requests := 3, sc_fallback_strategy := QUEUE_FOR_RETRY,
          sc_fallback_max_queue_size := 5000, sc_severity := SevHIGH,
          sc_description := ''Audit Service - queues audit logs for retry''\<rparr>),
      (''deliberation_layer'', (mk_config ''deliberation_layer'' 7 45)
         \<lparr>sc_half_open_requests := 3, sc_fallback_strategy := FAIL_CLOSED, sc_severity := SevCRITICAL,
          sc_description := ''Deliberation Layer - AI inference for high-impact decisions''\<rparr>)]"

text \<open>
  The attributes \<open>get_service_config\<close> reads, per service, with the field each overrides. All of
  them are read before the service is looked up: one missing attribute raises
  \<open>AttributeError\<close>, which sends every service to the static configuration.
\<close>

datatype override_field = FThreshold | FTimeout | FTtl | FMaxQueue | FRetryInterval

definition config_mapping :: "(string, (override_field, string) dict) dict" where
  "config_mapping =
     [(''policy_registry'', [(FThreshold, ''policy_registry_failure_threshold''),
         (FTimeout, ''policy_registry_timeout_seconds''), (FTtl, ''policy_registry_fallback_ttl_seconds'')]),
      (''opa_evaluator'', [(FThreshold, ''opa_evaluator_failure_threshold''),
         (FTimeout, ''opa_evaluator_timeout_seconds'')]),
      (''blockchain_anchor'', [(FThreshold, ''blockchain_anchor_failure_threshold''),
         (FTimeout, ''blockchain_anchor_timeout_seconds''), (FMaxQueue, ''blockchain_anchor_max_queue_size''),
         (FRetryInterval, ''blockchain_anchor_retry_interval_seconds'')]),
      (''redis_cache'', [(FThreshold, ''redis_cache_failure_threshold''),
         (FTimeout, ''redis_cache_timeout_seconds'')]),
      (''kafka_producer'', [(FThreshold, ''kafka_producer_failure_threshold''),
         (FTimeout, ''kafka_producer_timeout_seconds''), (FMaxQueue, ''kafka_producer_max_queue_size'')]),
      (''audit_service'', [(FThreshold, ''audit_service_failure_threshold''),
         (FTimeout, ''audit_service_timeout_seconds''), (FMaxQueue, ''audit_service_max_queue_size'')]),
      (''deliberation_layer'', [(FThreshold, ''deliberation_layer_failure_threshold''),
         (FTimeout, ''deliberation_layer_timeout_seconds'')])]"

text \<open>\<open>int(x)\<close> truncates towards zero.\<close>

definition py_int :: "rat \<Rightarrow> int" where
  "py_int r = (if 0 \<le> r then floor r else ceiling r)"

definition read_attributes ::
  "(string \<Rightarrow> rat option) \<Rightarrow> (override_field, string) dict \<Rightarrow> (override_field, rat) dict option" where
  "read_attributes settings attrs =
     (if list_all (\<lambda>(f, a). settings a \<noteq> None) attrs
      then Some (map (\<lambda>(f, a). (f, the (settings a))) attrs) else None)"

definition apply_overrides ::
  "service_circuit_config \<Rightarrow> (override_field, rat) dict \<Rightarrow> service_circuit_config" where
  "apply_overrides base env =
     \<lparr>sc_name = sc_name base,
      sc_failure_threshold = py_int (dget_default env FThreshold (of_int (sc_failure_threshold base))),
      sc_timeout_seconds = dget_default env FTimeout (sc_timeout_seconds base),
      sc_half_open_requests = sc_half_open_requests base,
      sc_fallback_strategy = sc_fallback_strategy base,
      sc_fallback_ttl_seconds = py_int (dget_default env FTtl (of_int (sc_fallback_ttl_seconds base))),
      sc_fallback_max_queue_size =
        py_int (dget_default env FMaxQueue (of_int (sc_fallback_max_queue_size base))),
      sc_fallback_retry_interval_seconds =
        py_int (dget_default env FRetryInterval (of_int (sc_fallback_retry_interval_seconds base))),
      sc_severity = sc_severity base, sc_description = sc_description base,
      sc_constitutional_hash = CONSTITUTIONAL_HASH\<rparr>"

definition static_config :: "string \<Rightarrow> service_circuit_config" where
  "static_config name =
     (case dget SERVICE_CIRCUIT_CONFIGS name of
        Some c \<Rightarrow> c
      | None \<Rightarrow> (mk_config name 5 30)
          \<lparr>sc_half_open_requests := 3, sc_fallback_strategy := FAIL_CLOSED, sc_severity := SevMEDIUM,
           sc_description := ''Auto-configured circuit breaker for '' @ name\<rparr>)"

definition get_service_config ::
  "(string \<Rightarrow> rat option) option \<Rightarrow> string \<Rightarrow> bool \<Rightarrow> service_circuit_config" where
  "get_service_config unified name use_unified_config =
     (case unified of
        Some settings \<Rightarrow>
          if use_unified_config \<and> list_all (\<lambda>(s, attrs). read_attributes settings attrs \<noteq> None) config_mapping
          then (case dget config_mapping name of
                  Some attrs \<Rightarrow>
                    (case (dget SERVICE_CIRCUIT_CONFIGS name, read_attributes settings attrs) of
                       (Some base, Some env) \<Rightarrow> apply_overrides base env
                     | _ \<Rightarrow> static_config name)
                | None \<Rightarrow> static_config name)
          else static_config name
      | None \<Rightarrow> static_config name)"

text \<open>Severity and strategy of a service never depend on the settings: a critical service fails closed.\<close>

lemma apply_overrides_keeps [simp]:
  "sc_fallback_strategy (apply_overrides base env) = sc_fallback_strategy base"
  "sc_severity (apply_overrides base env) = sc_severity base"
  "sc_half_open_requests (apply_overrides base env) = sc_half_open_requests base"
  by (simp_all add: apply_overrides_def)

lemma static_config_critical:
  "sc_severity (static_config name) = SevCRITICAL \<Longrightarrow> sc_fallback_strategy (static_config name) = FAIL_CLOSED"
  by (auto simp: static_config_def SERVICE_CIRCUIT_CONFIGS_def mk_config_def split: option.splits if_splits)

lemma get_service_config_strategy:
  "sc_fallback_strategy (get_service_config unified name u) = sc_fallback_strategy (static_config name) \<and>
   sc_severity (get_service_config unified name u) = sc_severity (static_config name) \<and>
   sc_half_open_requests (get_service_config unified name u) = sc_half_open_requests (static_config name)"
  by (auto simp: get_service_config_def static_config_def [of name] split: option.splits)

lemma static_half_open_pos: "0 < sc_half_open_requests (static_config name)"
  by (auto simp: static_config_def SERVICE_CIRCUIT_CONFIGS_def mk_config_def split: option.splits if_splits)

lemma static_threshold_pos: "0 < sc_failure_threshold (static_config name)"
  by (auto simp: static_config_def SERVICE_CIRCUIT_CONFIGS_def mk_config_def split: option.splits if_splits)

end
