(* ===== verification/Circuit_Breaker.thy ===== *)
theory Circuit_Breaker
  imports Circuit_Config Machine
begin

text \<open>
  \<^verbatim>\<open>src/circuit_breaker/breaker.py\<close>: the service circuit breaker. Each method holds the lock
  without suspending, so it is one step; the clock it reads is its argument \<open>now\<close>. The Prometheus
  counters and the log lines are not modelled (a library and pure output); the breaker's own
  metrics are. Cached values and request arguments are JSON values.
\<close>

record circuit_breaker_metrics =
  bm_total_calls :: nat
  bm_successful_calls :: nat
  bm_failed_calls :: nat
  bm_rejected_calls :: nat
  bm_state_changes :: nat
  bm_last_failure_time :: "rat option"
  bm_last_success_time :: "rat option"
  bm_last_state_change_time :: "rat option"
  bm_fallback_used_count :: nat
  bm_queue_size :: nat

definition empty_metrics :: circuit_breaker_metrics where
  "empty_metrics = \<lparr>bm_total_calls = 0, bm_successful_calls = 0, bm_failed_calls = 0,
     bm_rejected_calls = 0, bm_state_changes = 0, bm_last_failure_time = None,
     bm_last_success_time = None, bm_last_state_change_time = None, bm_fallback_used_count = 0,
     bm_queue_size = 0\<rparr>"

record queued_request =
  qr_id :: string
  qr_args :: "json list"
  qr_kwargs :: json_dict
  qr_queued_at :: rat
  qr_retry_count :: nat
  qr_max_retries :: nat

record breaker =
  cb_config :: service_circuit_config
  cb_state :: circuit_state
  cb_consecutive_failures :: int
  cb_last_failure_time :: "rat option"
  cb_last_state_change :: rat
  cb_half_open_successes :: int
  cb_metrics :: circuit_breaker_metrics
  cb_fallback_cache :: json_dict
  cb_cache_timestamps :: "(string, rat) dict"
  cb_retry_queue :: "queued_request list"

definition mk_breaker :: "service_circuit_config \<Rightarrow> rat \<Rightarrow> breaker" where
  "mk_breaker config now =
     \<lparr>cb_config = config, cb_state = CLOSED, cb_consecutive_failures = 0,
      cb_last_failure_time = None, cb_last_state_change = now, cb_half_open_successes = 0,
      cb_metrics = empty_metrics, cb_fallback_cache = [], cb_cache_timestamps = [],
      cb_retry_queue = []\<rparr>"

definition transition_to :: "circuit_state \<Rightarrow> rat \<Rightarrow> breaker \<Rightarrow> breaker" where
  "transition_to new_state now cb =
     (let cb1 = cb\<lparr>cb_state := new_state, cb_last_state_change := now,
                   cb_metrics := (cb_metrics cb)\<lparr>bm_state_changes := Suc (bm_state_changes (cb_metrics cb)),
                                                bm_last_state_change_time := Some now\<rparr>\<rparr>;
          cb2 = (if new_state = HALF_OPEN then cb1\<lparr>cb_half_open_successes := 0\<rparr> else cb1)
      in if new_state = CLOSED then cb2\<lparr>cb_consecutive_failures := 0\<rparr> else cb2)"

definition check_timeout_expiry :: "rat \<Rightarrow> breaker \<Rightarrow> bool" where
  "check_timeout_expiry now cb =
     (if cb_state cb \<noteq> OPEN then False
      else now - cb_last_state_change cb \<ge> sc_timeout_seconds (cb_config cb))"

definition can_execute :: "rat \<Rightarrow> breaker \<Rightarrow> breaker \<times> bool" where
  "can_execute now cb =
     (case cb_state cb of
        CLOSED \<Rightarrow> (cb, True)
      | OPEN \<Rightarrow> if check_timeout_expiry now cb then (transition_to HALF_OPEN now cb, True) else (cb, False)
      | HALF_OPEN \<Rightarrow> (cb, cb_half_open_successes cb < sc_half_open_requests (cb_config cb)))"

definition record_success :: "rat \<Rightarrow> breaker \<Rightarrow> breaker" where
  "record_success now cb =
     (let m = cb_metrics cb;
          cb1 = cb\<lparr>cb_metrics := m\<lparr>bm_total_calls := Suc (bm_total_calls m),
                                  bm_successful_calls := Suc (bm_successful_calls m),
                                  bm_last_success_time := Some now\<rparr>\<rparr>
      in case cb_state cb1 of
           HALF_OPEN \<Rightarrow>
             (let cb2 = cb1\<lparr>cb_half_open_successes := cb_half_open_successes cb1 + 1\<rparr>
              in if cb_half_open_successes cb2 \<ge> sc_half_open_requests (cb_config cb2)
                 then transition_to CLOSED now cb2 else cb2)
         | CLOSED \<Rightarrow> cb1\<lparr>cb_consecutive_failures := 0\<rparr>
         | OPEN \<Rightarrow> cb1)"

definition record_failure :: "rat \<Rightarrow> breaker \<Rightarrow> breaker" where
  "record_failure now cb =
     (let m = cb_metrics cb;
          cb1 = cb\<lparr>cb_metrics := m\<lparr>bm_total_calls := Suc (bm_total_calls m),
                                  bm_failed_calls := Suc (bm_failed_calls m),
                                  bm_last_failure_time := Some now\<rparr>,
                   cb_consecutive_failures := cb_consecutive_failures cb + 1,
                   cb_last_failure_time := Some now\<rparr>
      in case cb_state cb1 of
           HALF_OPEN \<Rightarrow> transition_to OPEN now cb1
         | CLOSED \<Rightarrow>
             (if cb_consecutive_failures cb1 \<ge> sc_failure_threshold (cb_config cb1)
              then transition_to OPEN now cb1 else cb1)
         | OPEN \<Rightarrow> cb1)"

definition record_rejection :: "breaker \<Rightarrow> breaker" where
  "record_rejection cb =
     (let m = cb_metrics cb
      in cb\<lparr>cb_metrics := m\<lparr>bm_total_calls := Suc (bm_total_calls m),
                           bm_rejected_calls := Suc (bm_rejected_calls m)\<rparr>\<rparr>)"

definition set_cached_fallback :: "rat \<Rightarrow> string \<Rightarrow> json \<Rightarrow> breaker \<Rightarrow> breaker" where
  "set_cached_fallback now key v cb =
     cb\<lparr>cb_fallback_cache := dset key v (cb_fallback_cache cb),
        cb_cache_timestamps := dset key now (cb_cache_timestamps cb)\<rparr>"

definition get_cached_fallback :: "rat \<Rightarrow> string \<Rightarrow> breaker \<Rightarrow> breaker \<times> json option" where
  "get_cached_fallback now key cb =
     (case dget (cb_fallback_cache cb) key of
        None \<Rightarrow> (cb, None)
      | Some v \<Rightarrow>
          if now - dget_default (cb_cache_timestamps cb) key 0 > of_int (sc_fallback_ttl_seconds (cb_config cb))
          then (cb\<lparr>cb_fallback_cache := ddel key (cb_fallback_cache cb),
                   cb_cache_timestamps := ddel key (cb_cache_timestamps cb)\<rparr>, None)
          else (cb\<lparr>cb_metrics := (cb_metrics cb)
                  \<lparr>bm_fallback_used_count := Suc (bm_fallback_used_count (cb_metrics cb))\<rparr>\<rparr>, Some v))"

text \<open>The queue is a \<open>deque(maxlen=fallback_max_queue_size)\<close>; a negative bound is refused by it.\<close>

definition queue_bound :: "breaker \<Rightarrow> nat" where
  "queue_bound cb = nat (sc_fallback_max_queue_size (cb_config cb))"

definition queue_for_retry ::
  "rat \<Rightarrow> string \<Rightarrow> json list \<Rightarrow> json_dict \<Rightarrow> breaker \<Rightarrow> breaker \<times> bool" where
  "queue_for_retry now request_id args kwargs cb =
     (if int (length (cb_retry_queue cb)) \<ge> sc_fallback_max_queue_size (cb_config cb) then (cb, False)
      else (let q = deque_append (queue_bound cb)
                      \<lparr>qr_id = request_id, qr_args = args, qr_kwargs = kwargs, qr_queued_at = now,
                       qr_retry_count = 0, qr_max_retries = 3\<rparr> (cb_retry_queue cb)
            in (cb\<lparr>cb_retry_queue := q, cb_metrics := (cb_metrics cb)\<lparr>bm_queue_size := length q\<rparr>\<rparr>, True)))"

definition get_queue_size :: "breaker \<Rightarrow> nat" where
  "get_queue_size cb = length (cb_retry_queue cb)"

text \<open>
  \<open>process_retry_queue\<close>: the loop over the queue. \<open>handler n r\<close> says whether the \<open>n\<close>-th call of
  the handler in this pass, on request \<open>r\<close>, returns (it raises otherwise): an arbitrary function, so
  every sequence of outcomes is covered. The state of the loop is the queue, the results so far,
  the identifiers processed and the number of calls made.
\<close>

function retry_loop ::
  "nat \<Rightarrow> (nat \<Rightarrow> queued_request \<Rightarrow> bool) \<Rightarrow> queued_request list \<Rightarrow> (string, bool) dict \<Rightarrow> string list
     \<Rightarrow> nat \<Rightarrow> (string, bool) dict \<times> string list \<times> nat" where
  "retry_loop bound handler [] results processed n = (results, processed, n)"
| "retry_loop bound handler (r # q) results processed n =
     (if qr_retry_count r \<ge> qr_max_retries r then
        retry_loop bound handler q (dset (qr_id r) False results) processed n
      else if handler n r then
        retry_loop bound handler q (dset (qr_id r) True results) (processed @ [qr_id r]) (Suc n)
      else
        (let r' = r\<lparr>qr_retry_count := Suc (qr_retry_count r)\<rparr>;
             q' = (if qr_retry_count r' < qr_max_retries r' \<and> length q < bound then q @ [r'] else q)
         in retry_loop bound handler q' (dset (qr_id r) False results) processed (Suc n)))"
  by pat_completeness auto

text \<open>The calls a request may still cost, and one unit for taking it off the queue.\<close>

definition retry_work :: "queued_request list \<Rightarrow> nat" where
  "retry_work q = sum_list (map (\<lambda>r. Suc (qr_max_retries r - qr_retry_count r)) q)"

lemma retry_work_simps [simp]:
  "retry_work [] = 0" "retry_work (r # q) = Suc (qr_max_retries r - qr_retry_count r) + retry_work q"
  "retry_work (q @ q') = retry_work q + retry_work q'"
  by (simp_all add: retry_work_def)

termination retry_loop
  by (relation "measure (\<lambda>(bound, handler, q, results, processed, n). retry_work q)")
    (auto simp: Let_def)

definition process_retry_queue ::
  "(nat \<Rightarrow> queued_request \<Rightarrow> bool) \<Rightarrow> breaker \<Rightarrow> breaker \<times> (string, bool) dict" where
  "process_retry_queue handler cb =
     (let (results, processed, n) =
        retry_loop (nat (sc_fallback_max_queue_size (cb_config cb))) handler (cb_retry_queue cb) [] [] 0
      in (cb\<lparr>cb_retry_queue := [], cb_metrics := (cb_metrics cb)\<lparr>bm_queue_size := 0\<rparr>\<rparr>, results))"

definition reset :: "rat \<Rightarrow> breaker \<Rightarrow> breaker" where
  "reset now cb =
     cb\<lparr>cb_state := CLOSED, cb_consecutive_failures := 0, cb_last_failure_time := None,
        cb_last_state_change := now, cb_half_open_successes := 0, cb_metrics := empty_metrics\<rparr>"

definition get_status :: "breaker \<Rightarrow> json_dict" where
  "get_status cb = (let c = cb_config cb; m = cb_metrics cb in
     [(''name'', JStr (sc_name c)),
      (''state'', JStr (circuit_state_value (cb_state cb))),
      (''consecutive_failures'', JInt (cb_consecutive_failures cb)),
      (''failure_threshold'', JInt (sc_failure_threshold c)),
      (''timeout_seconds'', JNum (sc_timeout_seconds c)),
      (''half_open_requests'', JInt (sc_half_open_requests c)),
      (''half_open_successes'', JInt (cb_half_open_successes cb)),
      (''fallback_strategy'', JStr (fallback_value (sc_fallback_strategy c))),
      (''severity'', JStr (severity_value (sc_severity c))),
      (''metrics'', JObj
        [(''total_calls'', JInt (int (bm_total_calls m))),
         (''successful_calls'', JInt (int (bm_successful_calls m))),
         (''failed_calls'', JInt (int (bm_failed_calls m))),
         (''rejected_calls'', JInt (int (bm_rejected_calls m))),
         (''state_changes'', JInt (int (bm_state_changes m))),
         (''fallback_used_count'', JInt (int (bm_fallback_used_count m))),
         (''queue_size'', JInt (int (bm_queue_size m)))]),
      (''last_failure_time'',
        (case bm_last_failure_time m of None \<Rightarrow> JNull | Some t \<Rightarrow> if t = 0 then JNull else JTime t)),
      (''last_state_change_time'', JTime (cb_last_state_change cb)),
      (''description'', JStr (sc_description c)),
      (''constitutional_hash'', JStr CONSTITUTIONAL_HASH)])"

end
