(* ===== verification/Circuit_Automaton.thy ===== *)
theory Circuit_Automaton
  imports Circuit_Config Machine
begin

text \<open>
  The abstract specification both circuit breakers are checked against: the states and the
  transitions the documentation of \<^verbatim>\<open>src/circuit_breaker/breaker.py\<close> lists, \<open>Stay\<close> for a call that
  changes no state, and the administrative reset. \<open>spec_step\<close> refuses every other move.
\<close>

datatype spec_event = Stay | Trip | Probe | Recover | Relapse | AdminReset

fun spec_step :: "circuit_state \<Rightarrow> spec_event \<Rightarrow> circuit_state option" where
  "spec_step st Stay = Some st"
| "spec_step CLOSED Trip = Some OPEN"
| "spec_step OPEN Probe = Some HALF_OPEN"
| "spec_step HALF_OPEN Recover = Some CLOSED"
| "spec_step HALF_OPEN Relapse = Some OPEN"
| "spec_step st AdminReset = Some CLOSED"
| "spec_step _ _ = None"

end
