(* ===== verification/Circuit_Breaker_Theorems.thy ===== *)
theory Circuit_Breaker_Theorems
  imports Circuit_Breaker Circuit_Automaton
begin

text \<open>
  Runs of the service circuit breaker: its invariant, the automaton of the module's
  documentation as the abstract specification every run refines, fail-fast while open, the trip
  and recovery counts, the conservation of the call counters, the fallback cache and the retry
  queue.
\<close>

section \<open>The breaker as a machine\<close>

datatype breaker_op =
  CanExecute rat | RecordSuccess rat | RecordFailure rat | RecordRejection
| SetCached rat string json | GetCached rat string
| QueueForRetry rat string "json list" json_dict
| ProcessRetryQueue "nat \<Rightarrow> queued_request \<Rightarrow> bool" | Reset rat

datatype breaker_result =
  BBool bool | BValue "json option" | BResults "(string, bool) dict" | BNone

fun breaker_step :: "breaker \<Rightarrow> breaker_op \<Rightarrow> breaker \<times> breaker_result" where
  "breaker_step cb (CanExecute now) = (case can_execute now cb of (cb', b) \<Rightarrow> (cb', BBool b))"
| "breaker_step cb (RecordSuccess now) = (record_success now cb, BNone)"
| "breaker_step cb (RecordFailure now) = (record_failure now cb, BNone)"
| "breaker_step cb RecordRejection = (record_rejection cb, BNone)"
| "breaker_step cb (SetCached now k v) = (set_cached_fallback now k v cb, BNone)"
| "breaker_step cb (GetCached now k) = (case get_cached_fallback now k cb of (cb', v) \<Rightarrow> (cb', BValue v))"
| "breaker_step cb (QueueForRetry now i as kw) =
     (case queue_for_retry now i as kw cb of (cb', b) \<Rightarrow> (cb', BBool b))"
| "breaker_step cb (ProcessRetryQueue h) = (case process_retry_queue h cb of (cb', r) \<Rightarrow> (cb', BResults r))"
| "breaker_step cb (Reset now) = (reset now cb, BNone)"

lemma fst_breaker_step [simp]:
  "fst (breaker_step cb (CanExecute now)) = fst (can_execute now cb)"
  "fst (breaker_step cb (GetCached now k)) = fst (get_cached_fallback now k cb)"
  "fst (breaker_step cb (QueueForRetry now i as kw)) = fst (queue_for_retry now i as kw cb)"
  "fst (breaker_step cb (ProcessRetryQueue h)) = fst (process_retry_queue h cb)"
  by (simp_all split: prod.splits)

declare breaker_step.simps(1,6,7,8) [simp del]

text \<open>What each operation does to the fields, for every case at once.\<close>

named_theorems breaker_simps \<open>fields after an operation\<close>

lemma transition_fields [breaker_simps]:
  "cb_state (transition_to st now cb) = st"
  "cb_config (transition_to st now cb) = cb_config cb"
  "cb_last_state_change (transition_to st now cb) = now"
  "cb_consecutive_failures (transition_to st now cb) = (if st = CLOSED then 0 else cb_consecutive_failures cb)"
  "cb_half_open_successes (transition_to st now cb) = (if st = HALF_OPEN then 0 else cb_half_open_successes cb)"
  "cb_retry_queue (transition_to st now cb) = cb_retry_queue cb"
  "cb_fallback_cache (transition_to st now cb) = cb_fallback_cache cb"
  "cb_cache_timestamps (transition_to st now cb) = cb_cache_timestamps cb"
  "bm_total_calls (cb_metrics (transition_to st now cb)) = bm_total_calls (cb_metrics cb)"
  "bm_successful_calls (cb_metrics (transition_to st now cb)) = bm_successful_calls (cb_metrics cb)"
  "bm_failed_calls (cb_metrics (transition_to st now cb)) = bm_failed_calls (cb_metrics cb)"
  "bm_rejected_calls (cb_metrics (transition_to st now cb)) = bm_rejected_calls (cb_metrics cb)"
  "bm_state_changes (cb_metrics (transition_to st now cb)) = Suc (bm_state_changes (cb_metrics cb))"
  by (simp_all add: transition_to_def Let_def)

lemmas breaker_op_defs =
  can_execute_def record_success_def record_failure_def record_rejection_def set_cached_fallback_def
  get_cached_fallback_def queue_for_retry_def process_retry_queue_def reset_def

definition positive_config :: "service_circuit_config \<Rightarrow> bool" where
  "positive_config c \<longleftrightarrow> 0 < sc_failure_threshold c \<and> 0 < sc_half_open_requests c"

definition counters_agree :: "breaker \<Rightarrow> bool" where
  "counters_agree cb \<longleftrightarrow> bm_total_calls (cb_metrics cb) =
     bm_successful_calls (cb_metrics cb) + bm_failed_calls (cb_metrics cb) + bm_rejected_calls (cb_metrics cb)"

definition breaker_inv :: "breaker \<Rightarrow> bool" where
  "breaker_inv cb \<longleftrightarrow> positive_config (cb_config cb) \<and> counters_agree cb \<and>
     0 \<le> cb_consecutive_failures cb \<and> 0 \<le> cb_half_open_successes cb \<and>
     (cb_state cb = CLOSED \<longrightarrow> cb_consecutive_failures cb < sc_failure_threshold (cb_config cb)) \<and>
     (cb_state cb = HALF_OPEN \<longrightarrow> cb_half_open_successes cb < sc_half_open_requests (cb_config cb)) \<and>
     int (length (cb_retry_queue cb)) \<le> max 0 (sc_fallback_max_queue_size (cb_config cb)) \<and>
     set (dkeys (cb_cache_timestamps cb)) = set (dkeys (cb_fallback_cache cb))"

lemma mk_breaker_inv: "positive_config c \<Longrightarrow> breaker_inv (mk_breaker c now)"
  by (simp add: breaker_inv_def mk_breaker_def counters_agree_def empty_metrics_def positive_config_def)

lemma can_execute_inv: "breaker_inv cb \<Longrightarrow> breaker_inv (fst (can_execute now cb))"
  by (auto simp: can_execute_def breaker_inv_def counters_agree_def positive_config_def breaker_simps
      split: circuit_state.splits)

lemma record_success_inv: "breaker_inv cb \<Longrightarrow> breaker_inv (record_success now cb)"
  by (auto simp: record_success_def Let_def breaker_inv_def counters_agree_def positive_config_def breaker_simps
      split: circuit_state.splits)

lemma record_failure_inv: "breaker_inv cb \<Longrightarrow> breaker_inv (record_failure now cb)"
  by (auto simp: record_failure_def Let_def breaker_inv_def counters_agree_def positive_config_def breaker_simps
      split: circuit_state.splits)

lemma record_rejection_inv: "breaker_inv cb \<Longrightarrow> breaker_inv (record_rejection cb)"
  by (simp add: record_rejection_def Let_def breaker_inv_def counters_agree_def)

lemma cache_inv:
  "breaker_inv cb \<Longrightarrow> breaker_inv (set_cached_fallback now k v cb)"
  "breaker_inv cb \<Longrightarrow> breaker_inv (fst (get_cached_fallback now k cb))"
  by (auto simp: set_cached_fallback_def get_cached_fallback_def breaker_inv_def counters_agree_def
      dom_update dict_simps simp del: set_map split: option.splits)

lemma queue_inv: "breaker_inv cb \<Longrightarrow> breaker_inv (fst (queue_for_retry now i as kw cb))"
  by (auto simp: queue_for_retry_def Let_def breaker_inv_def counters_agree_def queue_bound_def)

lemma process_inv: "breaker_inv cb \<Longrightarrow> breaker_inv (fst (process_retry_queue h cb))"
  by (auto simp: process_retry_queue_def breaker_inv_def counters_agree_def Let_def split: prod.splits)

lemma reset_inv: "breaker_inv cb \<Longrightarrow> breaker_inv (reset now cb)"
  by (simp add: reset_def breaker_inv_def counters_agree_def empty_metrics_def positive_config_def)

lemma breaker_step_inv: "breaker_inv cb \<Longrightarrow> breaker_inv (fst (breaker_step cb e))"
  by (cases e) (simp_all add: can_execute_inv record_success_inv record_failure_inv record_rejection_inv
      cache_inv queue_inv process_inv reset_inv)

interpretation breaker: machine breaker_step "\<lambda>_. True" breaker_inv
  by unfold_locales (rule breaker_step_inv)

lemma config_step [simp]: "cb_config (fst (breaker_step cb e)) = cb_config cb"
  by (cases e) (auto simp: breaker_op_defs Let_def breaker_simps split: circuit_state.splits option.splits prod.splits)

section \<open>The documented automaton\<close>

text \<open>The move each call makes, read off the state it finds.\<close>

fun spec_event_of :: "breaker \<Rightarrow> breaker_op \<Rightarrow> spec_event" where
  "spec_event_of cb (CanExecute now) = (if check_timeout_expiry now cb then Probe else Stay)"
| "spec_event_of cb (RecordSuccess now) =
     (if cb_state cb = HALF_OPEN \<and> cb_half_open_successes cb + 1 \<ge> sc_half_open_requests (cb_config cb)
      then Recover else Stay)"
| "spec_event_of cb (RecordFailure now) =
     (if cb_state cb = HALF_OPEN then Relapse
      else if cb_state cb = CLOSED \<and> cb_consecutive_failures cb + 1 \<ge> sc_failure_threshold (cb_config cb)
      then Trip else Stay)"
| "spec_event_of cb (Reset now) = AdminReset"
| "spec_event_of cb _ = Stay"

lemma spec_simulates: "spec_step (cb_state cb) (spec_event_of cb e) = Some (cb_state (fst (breaker_step cb e)))"
  by (cases e; cases "cb_state cb")
    (auto simp: breaker_op_defs check_timeout_expiry_def Let_def breaker_simps
      split: option.splits prod.splits)

interpretation automaton: simulation breaker_step "\<lambda>_. True" "\<lambda>_. True" cb_state spec_event_of spec_step
  by unfold_locales (simp_all add: spec_simulates)

section \<open>Fail fast while open\<close>

fun op_time :: "breaker_op \<Rightarrow> rat option" where
  "op_time (CanExecute now) = Some now"
| "op_time (RecordSuccess now) = Some now"
| "op_time (RecordFailure now) = Some now"
| "op_time (SetCached now _ _) = Some now"
| "op_time (GetCached now _) = Some now"
| "op_time (QueueForRetry now _ _ _) = Some now"
| "op_time (Reset now) = Some now"
| "op_time _ = None"

text \<open>Operations before an instant, other than the administrative reset.\<close>

fun before :: "rat \<Rightarrow> breaker_op \<Rightarrow> bool" where
  "before t (Reset _) = False"
| "before t e = (case op_time e of None \<Rightarrow> True | Some now \<Rightarrow> now < t)"

definition open_view :: "rat \<Rightarrow> breaker \<Rightarrow> circuit_state \<times> bool" where
  "open_view t cb = (cb_state cb, cb_last_state_change cb + sc_timeout_seconds (cb_config cb) = t)"

lemma open_view_step:
  assumes "before t e" and "open_view t cb = (OPEN, True)"
  shows "open_view t (fst (breaker_step cb e)) = open_view t cb"
  using assms
  by (cases e) (auto simp: open_view_def breaker_op_defs check_timeout_expiry_def Let_def
      split: option.splits prod.splits)

interpretation open_breaker: settling_machine breaker_step "before t" "\<lambda>_. True"
  "\<lambda>_ :: unit. open_view t" "\<lambda>v. v = (OPEN, True)" for t
  by unfold_locales (simp, rule open_view_step)

lemma open_rejects:
  "open_view t cb = (OPEN, True) \<Longrightarrow> now < t \<Longrightarrow> snd (can_execute now cb) = False"
  by (auto simp: open_view_def can_execute_def check_timeout_expiry_def)

section \<open>Counting\<close>

lemma run_failures_closed:
  "breaker_inv cb \<Longrightarrow> cb_state cb = CLOSED \<Longrightarrow>
   cb_state (run breaker_step cb (map RecordFailure ts)) =
     (if cb_consecutive_failures cb + int (length ts) \<ge> sc_failure_threshold (cb_config cb) then OPEN else CLOSED)"
proof (induction ts arbitrary: cb)
  case Nil
  then show ?case by (simp add: breaker_inv_def)
next
  case (Cons now ts)
  let ?cb' = "record_failure now cb"
  have inv': "breaker_inv ?cb'" by (rule record_failure_inv [OF Cons.prems(1)])
  have stays: "cb_state (run breaker_step cb2 (map RecordFailure ts')) = OPEN" if "cb_state cb2 = OPEN" for cb2 ts'
    using that by (induction ts' arbitrary: cb2) (simp_all add: record_failure_def Let_def)
  show ?case
  proof (cases "cb_consecutive_failures cb + 1 \<ge> sc_failure_threshold (cb_config cb)")
    case True
    with Cons.prems have "cb_state ?cb' = OPEN" by (simp add: record_failure_def Let_def breaker_simps)
    with True show ?thesis by (simp add: stays)
  next
    case False
    with Cons.prems have "cb_state ?cb' = CLOSED" "cb_consecutive_failures ?cb' = cb_consecutive_failures cb + 1"
      "cb_config ?cb' = cb_config cb"
      by (simp_all add: record_failure_def Let_def)
    with Cons.IH [OF inv'] show ?thesis by (simp add: algebra_simps)
  qed
qed

lemma run_successes_half_open:
  "breaker_inv cb \<Longrightarrow> cb_state cb = HALF_OPEN \<Longrightarrow>
   cb_state (run breaker_step cb (map RecordSuccess ts)) =
     (if cb_half_open_successes cb + int (length ts) \<ge> sc_half_open_requests (cb_config cb) then CLOSED else HALF_OPEN)"
proof (induction ts arbitrary: cb)
  case Nil
  then show ?case by (simp add: breaker_inv_def)
next
  case (Cons now ts)
  let ?cb' = "record_success now cb"
  have inv': "breaker_inv ?cb'" by (rule record_success_inv [OF Cons.prems(1)])
  have stays: "cb_state (run breaker_step cb2 (map RecordSuccess ts')) = CLOSED" if "cb_state cb2 = CLOSED" for cb2 ts'
    using that by (induction ts' arbitrary: cb2) (simp_all add: record_success_def Let_def)
  show ?case
  proof (cases "cb_half_open_successes cb + 1 \<ge> sc_half_open_requests (cb_config cb)")
    case True
    with Cons.prems have "cb_state ?cb' = CLOSED" by (simp add: record_success_def Let_def breaker_simps)
    with True show ?thesis by (simp add: stays)
  next
    case False
    with Cons.prems have "cb_state ?cb' = HALF_OPEN" "cb_half_open_successes ?cb' = cb_half_open_successes cb + 1"
      "cb_config ?cb' = cb_config cb"
      by (simp_all add: record_success_def Let_def)
    with Cons.IH [OF inv'] show ?thesis by (simp add: algebra_simps)
  qed
qed

section \<open>The retry loop\<close>

definition retry_budget :: "queued_request list \<Rightarrow> nat" where
  "retry_budget q = sum_list (map (\<lambda>r. qr_max_retries r - qr_retry_count r) q)"

lemma retry_budget_simps [simp]:
  "retry_budget [] = 0" "retry_budget (r # q) = (qr_max_retries r - qr_retry_count r) + retry_budget q"
  "retry_budget (q @ q') = retry_budget q + retry_budget q'"
  by (simp_all add: retry_budget_def)



section \<open>Properties\<close>

text \<open>C12: The breaker implements the automaton of the module's documentation: for every
  configuration and every sequence of calls from a fresh breaker, the successive states form a run
  of \<open>spec_step\<close>, which only allows CLOSED to OPEN, OPEN to HALF_OPEN, HALF_OPEN to CLOSED, HALF_OPEN
  to OPEN, and the administrative reset, each under the guard \<open>spec_event_of\<close> reads off the state.\<close>

theorem breaker_refines_automaton:
  "spec_run spec_step CLOSED (spec_trace breaker_step spec_event_of (mk_breaker c t0) es) =
     Some (cb_state (run breaker_step (mk_breaker c t0) es))"
  using automaton.run_abs [of es "mk_breaker c t0"]
  by (simp add: mk_breaker_def list_all_iff)

lemma reachable_inv: "positive_config c \<Longrightarrow> breaker_inv (run breaker_step (mk_breaker c t0) es)"
  by (rule breaker.run_invar [OF mk_breaker_inv]) (simp_all add: list_all_iff)

lemma config_run [simp]: "cb_config (run breaker_step cb es) = cb_config cb"
  by (induction es arbitrary: cb) auto

lemma config_mk_breaker [simp]: "cb_config (mk_breaker c t0) = c"
  by (simp add: mk_breaker_def)

text \<open>The metrics account for every call, at every moment of every run: the total is the sum of
  successes, failures and rejections; a closed breaker is below its failure threshold, a half-open
  one below its recovery count, and the retry queue below its bound.\<close>

theorem breaker_counters:
  assumes "0 < sc_failure_threshold c" and "0 < sc_half_open_requests c"
  shows "let cb = run breaker_step (mk_breaker c t0) es; m = cb_metrics cb
    in bm_total_calls m = bm_successful_calls m + bm_failed_calls m + bm_rejected_calls m \<and>
       (cb_state cb = CLOSED \<longrightarrow> cb_consecutive_failures cb < sc_failure_threshold c) \<and>
       (cb_state cb = HALF_OPEN \<longrightarrow> cb_half_open_successes cb < sc_half_open_requests c) \<and>
       int (length (cb_retry_queue cb)) \<le> max 0 (sc_fallback_max_queue_size c)"
  using reachable_inv [of c t0 es] assms
  by (simp add: Let_def breaker_inv_def counters_agree_def positive_config_def)

theorem breaker_counters_witness:
  "let cb = run breaker_step (mk_breaker (static_config ''redis_cache'') 0)
              [RecordFailure 1, RecordRejection, RecordSuccess 2]; m = cb_metrics cb
    in bm_total_calls m = bm_successful_calls m + bm_failed_calls m + bm_rejected_calls m \<and>
       (cb_state cb = CLOSED \<longrightarrow> cb_consecutive_failures cb < sc_failure_threshold (static_config ''redis_cache'')) \<and>
       (cb_state cb = HALF_OPEN \<longrightarrow> cb_half_open_successes cb < sc_half_open_requests (static_config ''redis_cache'')) \<and>
       int (length (cb_retry_queue cb)) \<le> max 0 (sc_fallback_max_queue_size (static_config ''redis_cache''))"
  by (rule breaker_counters [OF static_threshold_pos static_half_open_pos])

text \<open>C13: Fail fast: once the circuit is open, and whatever is called short of an administrative
  reset, it stays open and rejects every request until the configured timeout has elapsed since it
  opened.\<close>

theorem open_circuit_fails_fast:
  assumes "cb_state cb = OPEN"
    and "list_all (before (cb_last_state_change cb + sc_timeout_seconds (cb_config cb))) es"
    and "now < cb_last_state_change cb + sc_timeout_seconds (cb_config cb)"
  shows "cb_state (run breaker_step cb es) = OPEN \<and> snd (can_execute now (run breaker_step cb es)) = False"
proof -
  let ?t = "cb_last_state_change cb + sc_timeout_seconds (cb_config cb)"
  have "open_view ?t (run breaker_step cb es) = open_view ?t cb"
    by (rule open_breaker.run_settled) (use assms in \<open>simp_all add: open_view_def\<close>)
  with assms have "open_view ?t (run breaker_step cb es) = (OPEN, True)"
    by (simp add: open_view_def)
  with open_rejects [OF this assms(3)] show ?thesis
    by (simp add: open_view_def)
qed

definition tripped :: breaker where
  "tripped = (mk_breaker (mk_config ''svc'' 1 30) 0)\<lparr>cb_state := OPEN\<rparr>"

theorem open_circuit_fails_fast_witness:
  "cb_state (run breaker_step tripped [RecordSuccess 5, CanExecute 29]) = OPEN \<and>
   snd (can_execute 29 (run breaker_step tripped [RecordSuccess 5, CanExecute 29])) = False"
  by (rule open_circuit_fails_fast) (simp_all add: tripped_def mk_breaker_def mk_config_def)

text \<open>The circuit trips at the threshold and not before: after a series of failures, and nothing
  else, a fresh breaker is open exactly when there were at least \<open>failure_threshold\<close> of them.\<close>

theorem trips_exactly_at_threshold:
  assumes "0 < sc_failure_threshold c" and "0 < sc_half_open_requests c"
  shows "cb_state (run breaker_step (mk_breaker c t0) (map RecordFailure ts)) =
    (if int (length ts) \<ge> sc_failure_threshold c then OPEN else CLOSED)"
  using run_failures_closed [of "mk_breaker c t0" ts] mk_breaker_inv [of c t0] assms
  by (simp add: mk_breaker_def positive_config_def)

theorem trips_exactly_at_threshold_witness:
  "cb_state (run breaker_step (mk_breaker (static_config ''policy_registry'') 0) (map RecordFailure [1, 2])) =
    (if int (length [1 :: rat, 2]) \<ge> sc_failure_threshold (static_config ''policy_registry'') then OPEN else CLOSED)"
  by (rule trips_exactly_at_threshold [OF static_threshold_pos static_half_open_pos])

text \<open>Recovery: whatever happened before, an open breaker whose timeout has elapsed admits a
  probe, and then closes exactly when \<open>half_open_requests\<close> successes have been recorded in a row; one
  failure on the way opens it again.\<close>

theorem recovers_after_probes:
  assumes "0 < sc_failure_threshold c" and "0 < sc_half_open_requests c"
    and "cb_state (run breaker_step (mk_breaker c t0) es) = OPEN"
    and "sc_timeout_seconds c \<le> now - cb_last_state_change (run breaker_step (mk_breaker c t0) es)"
  shows "(let cb = run breaker_step (mk_breaker c t0) (es @ CanExecute now # map RecordSuccess ts) in
     cb_state cb = (if int (length ts) \<ge> sc_half_open_requests c then CLOSED else HALF_OPEN) \<and>
     (int (length ts) < sc_half_open_requests c \<longrightarrow> cb_state (record_failure t1 cb) = OPEN))"
proof -
  let ?cb = "run breaker_step (mk_breaker c t0) es"
  let ?h = "fst (can_execute now ?cb)"
  have inv: "breaker_inv ?h"
    by (rule can_execute_inv [OF reachable_inv]) (use assms in \<open>simp add: positive_config_def\<close>)
  have h: "cb_state ?h = HALF_OPEN" "cb_half_open_successes ?h = 0" "cb_config ?h = c"
    using assms by (simp_all add: can_execute_def check_timeout_expiry_def breaker_simps)
  have "run breaker_step (mk_breaker c t0) (es @ CanExecute now # map RecordSuccess ts) =
      run breaker_step ?h (map RecordSuccess ts)"
    by (simp add: run_append)
  with run_successes_half_open [OF inv h(1), of ts] h show ?thesis
    by (simp add: Let_def record_failure_def breaker_simps)
qed

theorem recovers_after_probes_witness:
  "(let cb = run breaker_step (mk_breaker (mk_config ''svc'' 2 30) 0)
       ([RecordFailure 1, RecordFailure 2] @ CanExecute 40 # map RecordSuccess [41, 42, 43]) in
     cb_state cb = (if int (length [41 :: rat, 42, 43]) \<ge> sc_half_open_requests (mk_config ''svc'' 2 30) then CLOSED
       else HALF_OPEN) \<and>
     (int (length [41 :: rat, 42, 43]) < sc_half_open_requests (mk_config ''svc'' 2 30) \<longrightarrow>
        cb_state (record_failure 50 cb) = OPEN))"
  by (rule recovers_after_probes)
    (simp_all add: mk_config_def mk_breaker_def record_failure_def transition_to_def Let_def empty_metrics_def)

text \<open>The limit on half-open probes never rejects: in every reachable half-open state
  \<open>can_execute\<close> lets the request through, however many probes are already under way, because it
  compares the limit with the successes recorded, not with the requests admitted.\<close>

theorem half_open_never_rejects:
  assumes "0 < sc_failure_threshold c" and "0 < sc_half_open_requests c"
    and "cb_state (run breaker_step (mk_breaker c t0) es) = HALF_OPEN"
  shows "can_execute now (run breaker_step (mk_breaker c t0) es) = (run breaker_step (mk_breaker c t0) es, True)"
  using reachable_inv [of c t0 es] assms
  by (simp add: can_execute_def breaker_inv_def positive_config_def)

theorem half_open_never_rejects_witness:
  "can_execute 42 (run breaker_step (mk_breaker (mk_config ''svc'' 1 30) 0)
     (RecordFailure 1 # replicate 5 (CanExecute 41))) =
   (run breaker_step (mk_breaker (mk_config ''svc'' 1 30) 0) (RecordFailure 1 # replicate 5 (CanExecute 41)), True)"
  by (rule half_open_never_rejects)
    (simp_all add: mk_config_def mk_breaker_def record_failure_def transition_to_def Let_def empty_metrics_def
      can_execute_def check_timeout_expiry_def numeral_eq_Suc)


text \<open>The fallback cache: a cached value is served, and counted as a fallback, until its
  time-to-live has passed; after that it is gone for good, and other keys are not touched.\<close>

theorem fallback_cache_ttl:
  "(case get_cached_fallback now k (set_cached_fallback t0 k v cb) of (cb', r) \<Rightarrow>
      (if now - t0 \<le> of_int (sc_fallback_ttl_seconds (cb_config cb))
       then r = Some v \<and> bm_fallback_used_count (cb_metrics cb') = Suc (bm_fallback_used_count (cb_metrics cb))
       else r = None \<and> dget (cb_fallback_cache cb') k = None) \<and>
      (k' = k \<or> dget (cb_fallback_cache cb') k' = dget (cb_fallback_cache cb) k'))"
  by (auto simp: get_cached_fallback_def set_cached_fallback_def dict_simps dget_default_def)

end
