(* ===== verification/Circuit_Registry.thy ===== *)
theory Circuit_Registry
  imports Circuit_Breaker_Theorems
begin

text \<open>
  \<^verbatim>\<open>src/circuit_breaker/registry.py\<close>: the registry of service circuit breakers. The breakers it
  hands out are shared objects: a call on the breaker of a service is \<open>CallBreaker\<close>, a step of the
  registry. The unified settings are a parameter, as in \<open>get_service_config\<close>.
\<close>

record circuit_registry =
  cr_circuits :: "(string, breaker) dict"
  cr_initialized :: bool

definition empty_circuit_registry :: circuit_registry where
  "empty_circuit_registry = \<lparr>cr_circuits = [], cr_initialized = False\<rparr>"

definition get_or_create ::
  "(string \<Rightarrow> rat option) option \<Rightarrow> rat \<Rightarrow> string \<Rightarrow> service_circuit_config option \<Rightarrow> circuit_registry
     \<Rightarrow> circuit_registry \<times> breaker" where
  "get_or_create unified now name config reg =
     (case dget (cr_circuits reg) name of
        Some cb \<Rightarrow> (reg, cb)
      | None \<Rightarrow>
          (let cb = mk_breaker (case config of Some c \<Rightarrow> c | None \<Rightarrow> get_service_config unified name True) now
           in (reg\<lparr>cr_circuits := dset name cb (cr_circuits reg)\<rparr>, cb)))"

definition get_circuit :: "string \<Rightarrow> circuit_registry \<Rightarrow> breaker option" where
  "get_circuit name reg = dget (cr_circuits reg) name"

definition get_all_states :: "circuit_registry \<Rightarrow> (string, json_dict) dict" where
  "get_all_states reg = map (\<lambda>(name, cb). (name, get_status cb)) (cr_circuits reg)"

definition reset_circuit :: "rat \<Rightarrow> string \<Rightarrow> circuit_registry \<Rightarrow> circuit_registry \<times> bool" where
  "reset_circuit now name reg =
     (case dget (cr_circuits reg) name of
        Some cb \<Rightarrow> (reg\<lparr>cr_circuits := dset name (reset now cb) (cr_circuits reg)\<rparr>, True)
      | None \<Rightarrow> (reg, False))"

definition reset_all :: "rat \<Rightarrow> circuit_registry \<Rightarrow> circuit_registry" where
  "reset_all now reg = reg\<lparr>cr_circuits := map (\<lambda>(name, cb). (name, reset now cb)) (cr_circuits reg)\<rparr>"

definition initialize_default_circuits ::
  "(string \<Rightarrow> rat option) option \<Rightarrow> rat \<Rightarrow> circuit_registry \<Rightarrow> circuit_registry" where
  "initialize_default_circuits unified now reg =
     (if cr_initialized reg then reg
      else (fold (\<lambda>(name, config) r. fst (get_or_create unified now name (Some config) r))
              SERVICE_CIRCUIT_CONFIGS reg)\<lparr>cr_initialized := True\<rparr>)"

record health_summary =
  hs_status :: string
  hs_health_score :: rat
  hs_total_circuits :: nat
  hs_closed :: nat
  hs_half_open :: nat
  hs_open :: nat
  hs_critical_services_open :: "string list"
  hs_timestamp :: rat

definition count_state :: "circuit_state \<Rightarrow> circuit_registry \<Rightarrow> nat" where
  "count_state st reg = length (filter (\<lambda>cb. cb_state cb = st) (dvalues (cr_circuits reg)))"

definition critical_open :: "circuit_registry \<Rightarrow> string list" where
  "critical_open reg =
     map fst (filter (\<lambda>(name, cb). cb_state cb = OPEN \<and> sc_severity (cb_config cb) = SevCRITICAL)
                (cr_circuits reg))"

definition circuit_score :: "circuit_registry \<Rightarrow> rat" where
  "circuit_score reg =
     (if length (cr_circuits reg) = 0 then 1
      else (of_nat (count_state CLOSED reg) + of_nat (count_state HALF_OPEN reg) * (1 / 2))
             / of_nat (length (cr_circuits reg)))"

definition get_health_summary :: "rat \<Rightarrow> circuit_registry \<Rightarrow> health_summary" where
  "get_health_summary now reg =
     \<lparr>hs_status =
        (if critical_open reg \<noteq> [] then ''critical''
         else if circuit_score reg \<ge> 7 / 10 then ''healthy''
         else if circuit_score reg \<ge> 1 / 2 then ''degraded''
         else ''critical''),
      hs_health_score = py_round 3 (circuit_score reg),
      hs_total_circuits = length (cr_circuits reg),
      hs_closed = count_state CLOSED reg,
      hs_half_open = count_state HALF_OPEN reg,
      hs_open = count_state OPEN reg,
      hs_critical_services_open = critical_open reg,
      hs_timestamp = now\<rparr>"

section \<open>The registry as a machine\<close>

datatype circuit_registry_op =
  GetOrCreate rat string "service_circuit_config option"
| CallBreaker string breaker_op
| ResetCircuit rat string | ResetAll rat | InitDefaults rat

text \<open>The result of a call is not observed here: the steps are about the state.\<close>

fun circuit_registry_step ::
  "(string \<Rightarrow> rat option) option \<Rightarrow> circuit_registry \<Rightarrow> circuit_registry_op \<Rightarrow> circuit_registry \<times> unit" where
  "circuit_registry_step u reg (GetOrCreate now name c) = (fst (get_or_create u now name c reg), ())"
| "circuit_registry_step u reg (CallBreaker name e) =
     ((case dget (cr_circuits reg) name of
         None \<Rightarrow> reg
       | Some cb \<Rightarrow> reg\<lparr>cr_circuits := dset name (fst (breaker_step cb e)) (cr_circuits reg)\<rparr>), ())"
| "circuit_registry_step u reg (ResetCircuit now name) = (fst (reset_circuit now name reg), ())"
| "circuit_registry_step u reg (ResetAll now) = (reset_all now reg, ())"
| "circuit_registry_step u reg (InitDefaults now) = (initialize_default_circuits u now reg, ())"

text \<open>A client passes configurations with positive thresholds; the configuration the registry looks up
  itself is the repository's, whose thresholds are positive unless the settings override them.\<close>

fun config_given :: "(string \<Rightarrow> rat option) option \<Rightarrow> circuit_registry_op \<Rightarrow> bool" where
  "config_given u (GetOrCreate now name (Some c)) = positive_config c"
| "config_given u (GetOrCreate now name None) = positive_config (get_service_config u name True)"
| "config_given u _ = True"

definition circuit_registry_inv :: "circuit_registry \<Rightarrow> bool" where
  "circuit_registry_inv reg \<longleftrightarrow>
     distinct (dkeys (cr_circuits reg)) \<and> list_all breaker_inv (dvalues (cr_circuits reg))"

lemma dset_values_inv: "list_all P (dvalues d) \<Longrightarrow> P v \<Longrightarrow> list_all P (dvalues (dset k v d))"
  unfolding list_all_iff using dvalues_dset_subset [of k v d] by blast

lemma get_value_inv: "list_all P (dvalues d) \<Longrightarrow> dget d k = Some v \<Longrightarrow> P v"
  by (meson dget_in_values list_all_iff)

lemma get_or_create_inv:
  "circuit_registry_inv reg \<Longrightarrow> config_given u (GetOrCreate now name c) \<Longrightarrow>
   circuit_registry_inv (fst (get_or_create u now name c reg))"
  by (cases c) (auto simp: get_or_create_def circuit_registry_inv_def Let_def dict_simps
      intro!: dset_values_inv mk_breaker_inv split: option.splits simp del: set_map)

lemma get_or_create_lookup:
  "dget (cr_circuits (fst (get_or_create u now name c reg))) n =
     (if n = name \<and> dget (cr_circuits reg) name = None
      then Some (mk_breaker (case c of Some c \<Rightarrow> c | None \<Rightarrow> get_service_config u name True) now)
      else dget (cr_circuits reg) n)"
  by (auto simp: get_or_create_def Let_def dict_simps split: option.splits)

lemma get_or_create_initialized [simp]:
  "cr_initialized (fst (get_or_create u now name c reg)) = cr_initialized reg"
  by (auto simp: get_or_create_def Let_def split: option.splits)

text \<open>Creating a list of circuits, in any order: what exists already is kept.\<close>

definition create_circuits ::
  "(string \<Rightarrow> rat option) option \<Rightarrow> rat \<Rightarrow> (string, service_circuit_config) dict \<Rightarrow> circuit_registry \<Rightarrow> circuit_registry"
where
  "create_circuits u now cs reg =
     fold (\<lambda>(name, config) r. fst (get_or_create u now name (Some config) r)) cs reg"

lemma create_circuits_simps [simp]:
  "create_circuits u now [] reg = reg"
  "create_circuits u now ((n, c) # cs) reg = create_circuits u now cs (fst (get_or_create u now n (Some c) reg))"
  by (simp_all add: create_circuits_def)

lemma create_circuits_inv:
  "circuit_registry_inv reg \<Longrightarrow> list_all positive_config (dvalues cs) \<Longrightarrow>
   circuit_registry_inv (create_circuits u now cs reg)"
  by (induction cs arbitrary: reg) (auto simp: get_or_create_inv)

lemma create_circuits_lookup:
  "distinct (dkeys cs) \<Longrightarrow>
   dget (cr_circuits (create_circuits u now cs reg)) n =
     (case dget (cr_circuits reg) n of
        Some cb \<Rightarrow> Some cb
      | None \<Rightarrow> map_option (\<lambda>c. mk_breaker c now) (dget cs n))"
proof (induction cs arbitrary: reg)
  case Nil
  then show ?case by (simp split: option.splits)
next
  case (Cons nc cs)
  then show ?case
    by (cases nc)
      (auto simp: get_or_create_lookup map_of_eq_None_iff simp del: map_of_eq_None_iff split: option.splits)
qed

lemma service_configs_facts:
  "distinct (dkeys SERVICE_CIRCUIT_CONFIGS)" "list_all positive_config (dvalues SERVICE_CIRCUIT_CONFIGS)"
  by (simp_all add: SERVICE_CIRCUIT_CONFIGS_def mk_config_def positive_config_def)

lemma initialize_default_circuits_eq:
  "initialize_default_circuits u now reg =
     (if cr_initialized reg then reg
      else (create_circuits u now SERVICE_CIRCUIT_CONFIGS reg)\<lparr>cr_initialized := True\<rparr>)"
  by (simp add: initialize_default_circuits_def create_circuits_def)

lemma circuit_registry_step_inv:
  "circuit_registry_inv reg \<Longrightarrow> config_given u e \<Longrightarrow> circuit_registry_inv (fst (circuit_registry_step u reg e))"
proof (cases e)
  case (CallBreaker name e')
  then show "circuit_registry_inv reg \<Longrightarrow> ?thesis"
    by (auto simp: circuit_registry_inv_def dict_simps intro!: dset_values_inv breaker_step_inv
        dest: get_value_inv split: option.splits simp del: set_map)
next
  case (ResetCircuit now name)
  then show "circuit_registry_inv reg \<Longrightarrow> ?thesis"
    by (auto simp: circuit_registry_inv_def reset_circuit_def dict_simps intro!: dset_values_inv reset_inv
        dest: get_value_inv split: option.splits simp del: set_map)
next
  case (ResetAll now)
  then show "circuit_registry_inv reg \<Longrightarrow> ?thesis"
    by (auto simp: circuit_registry_inv_def reset_all_def list_all_iff comp_def case_prod_beta intro!: reset_inv)
next
  case (InitDefaults now)
  then show "circuit_registry_inv reg \<Longrightarrow> ?thesis"
    using create_circuits_inv [of reg SERVICE_CIRCUIT_CONFIGS u now] service_configs_facts
    by (simp add: initialize_default_circuits_eq circuit_registry_inv_def)
qed (use get_or_create_inv in auto)

definition circuit_config_view :: "string \<Rightarrow> circuit_registry \<Rightarrow> service_circuit_config option" where
  "circuit_config_view name reg = map_option cb_config (dget (cr_circuits reg) name)"

lemma reset_config [simp]: "cb_config (reset now cb) = cb_config cb"
  by (simp add: reset_def)

lemma circuit_registry_step_view:
  "circuit_config_view name reg \<noteq> None \<Longrightarrow>
   circuit_config_view name (fst (circuit_registry_step u reg e)) = circuit_config_view name reg"
  by (cases e)
    (auto simp: circuit_config_view_def get_or_create_lookup reset_circuit_def reset_all_def dict_simps
      dget_map_values initialize_default_circuits_eq create_circuits_lookup service_configs_facts
      option.map_comp comp_def split: option.splits)

interpretation circuits: settling_machine "circuit_registry_step u" "config_given u" circuit_registry_inv
  circuit_config_view "\<lambda>v. v \<noteq> None" for u
  by unfold_locales (rule circuit_registry_step_inv, assumption, assumption, rule circuit_registry_step_view)

section \<open>Properties\<close>

text \<open>A circuit, once created, is never replaced: whatever is called on the registry and on its
  breakers, the service keeps a breaker with the configuration it was created with, and asking for it
  again, with any other configuration, returns that breaker and changes nothing.\<close>

theorem circuit_is_created_once:
  assumes "circuit_registry_inv reg" and "list_all (config_given u) es"
    and "dget (cr_circuits reg) name = Some cb"
  shows "\<exists>cb'. get_circuit name (run (circuit_registry_step u) reg es) = Some cb' \<and> cb_config cb' = cb_config cb \<and>
     get_or_create u now name c (run (circuit_registry_step u) reg es) =
       (run (circuit_registry_step u) reg es, cb')"
proof -
  have "circuit_config_view name (run (circuit_registry_step u) reg es) = Some (cb_config cb)"
    using circuits.run_settled [OF assms(1,2), of name] assms(3) by (simp add: circuit_config_view_def)
  then show ?thesis
    by (auto simp: circuit_config_view_def get_circuit_def get_or_create_def)
qed

definition one_circuit :: circuit_registry where
  "one_circuit = fst (get_or_create None 0 ''svc'' (Some (mk_config ''svc'' 2 30)) empty_circuit_registry)"

theorem circuit_is_created_once_witness:
  "\<exists>cb'. get_circuit ''svc'' (run (circuit_registry_step None) one_circuit
       [CallBreaker ''svc'' (RecordFailure 1), ResetAll 2, InitDefaults 3]) = Some cb' \<and>
     cb_config cb' = cb_config (mk_breaker (mk_config ''svc'' 2 30) 0) \<and>
     get_or_create None 9 ''svc'' None (run (circuit_registry_step None) one_circuit
       [CallBreaker ''svc'' (RecordFailure 1), ResetAll 2, InitDefaults 3]) =
     (run (circuit_registry_step None) one_circuit
       [CallBreaker ''svc'' (RecordFailure 1), ResetAll 2, InitDefaults 3], cb')"
  by (rule circuit_is_created_once)
    (simp_all add: one_circuit_def get_or_create_def empty_circuit_registry_def Let_def circuit_registry_inv_def
      mk_breaker_inv positive_config_def mk_config_def)

text \<open>Initialisation: after \<open>initialize_default_circuits\<close> on a fresh registry every configured
  service has a closed breaker with its configuration, and there is no other circuit.\<close>

theorem default_circuits:
  "get_circuit name (initialize_default_circuits u now empty_circuit_registry) =
     map_option (\<lambda>c. mk_breaker c now) (dget SERVICE_CIRCUIT_CONFIGS name)"
  by (simp add: get_circuit_def initialize_default_circuits_eq create_circuits_lookup service_configs_facts
      empty_circuit_registry_def)

text \<open>The health summary accounts for every circuit and never hides an open critical service:
  the three counts sum to the total, the score lies between 0 and 1, and the status is critical exactly
  when a critical service is open or fewer than half of the circuits, half-open ones counted half, are
  closed.\<close>

theorem health_summary_sound:
  "let h = get_health_summary now reg
   in hs_closed h + hs_half_open h + hs_open h = hs_total_circuits h \<and>
      0 \<le> circuit_score reg \<and> circuit_score reg \<le> 1 \<and>
      set (hs_critical_services_open h) =
        {name. \<exists>cb. (name, cb) \<in> set (cr_circuits reg) \<and> cb_state cb = OPEN \<and> sc_severity (cb_config cb) = SevCRITICAL} \<and>
      (hs_status h = ''critical'') =
        (if hs_critical_services_open h = []
         then 2 * count_state CLOSED reg + count_state HALF_OPEN reg < length (cr_circuits reg) else True)"
proof -
  have partition: "length (filter (\<lambda>cb. cb_state cb = CLOSED) cbs) + length (filter (\<lambda>cb. cb_state cb = HALF_OPEN) cbs)
      + length (filter (\<lambda>cb. cb_state cb = OPEN) cbs) = length cbs" for cbs
    by (induction cbs) (auto split: circuit_state.splits intro: circuit_state.exhaust)
  have total: "count_state CLOSED reg + count_state HALF_OPEN reg + count_state OPEN reg = length (cr_circuits reg)"
    using partition [of "dvalues (cr_circuits reg)"] by (simp add: count_state_def)
  let ?n = "of_nat (length (cr_circuits reg)) :: rat"
  let ?s = "of_nat (count_state CLOSED reg) + of_nat (count_state HALF_OPEN reg) / 2 :: rat"
  have le: "?s \<le> ?n"
    unfolding total [symmetric] by simp
  have half: "(?s / ?n < 1 / 2) = (2 * count_state CLOSED reg + count_state HALF_OPEN reg < length (cr_circuits reg))"
    if "cr_circuits reg \<noteq> []"
  proof -
    have "(?s / ?n < 1 / 2) = (2 * ?s < ?n)"
      using that by (simp add: divide_less_eq field_simps)
    also have "\<dots> = (of_nat (2 * count_state CLOSED reg + count_state HALF_OPEN reg) < ?n)"
      by simp
    also have "\<dots> = (2 * count_state CLOSED reg + count_state HALF_OPEN reg < length (cr_circuits reg))"
      by (rule of_nat_less_iff)
    finally show ?thesis .
  qed
  have score: "0 \<le> circuit_score reg" "circuit_score reg \<le> 1"
    using le by (auto simp: circuit_score_def divide_le_eq_1)
  have critical: "(circuit_score reg < 1 / 2) =
      (2 * count_state CLOSED reg + count_state HALF_OPEN reg < length (cr_circuits reg))"
    using half by (cases "cr_circuits reg") (simp_all add: circuit_score_def count_state_def)
  show ?thesis
    using total score critical
    by (auto simp: get_health_summary_def Let_def critical_open_def filter_empty_conv image_iff)
qed

end
