(* ===== verification/Batch_Breaker.thy ===== *)
theory Batch_Breaker
  imports Circuit_Automaton
begin

text \<open>
  \<^verbatim>\<open>src/circuit_breaker/batch.py\<close>: the rate-based circuit breaker of batch processing, with its
  machine, its refinement of the same automaton as the service breaker, and the facts about its
  rates. Every method holds the lock without suspending, so it is one step.
\<close>

record batch_config =
  bc_failure_threshold :: rat
  bc_minimum_requests :: int
  bc_cooldown_period :: rat
  bc_success_threshold :: rat

definition default_batch_config :: batch_config where
  "default_batch_config = \<lparr>bc_failure_threshold = 1 / 2, bc_minimum_requests = 10,
     bc_cooldown_period = 30, bc_success_threshold = 1 / 2\<rparr>"

record batch_breaker =
  bb_config :: batch_config
  bb_state :: circuit_state
  bb_failure_count :: nat
  bb_success_count :: nat
  bb_total_requests :: nat
  bb_last_failure_time :: "rat option"
  bb_half_open_success_count :: nat

definition mk_batch_breaker :: "batch_config \<Rightarrow> batch_breaker" where
  "mk_batch_breaker config = \<lparr>bb_config = config, bb_state = CLOSED, bb_failure_count = 0,
     bb_success_count = 0, bb_total_requests = 0, bb_last_failure_time = None,
     bb_half_open_success_count = 0\<rparr>"

text \<open>The last failure counts only when it is truthy: not at the epoch itself.\<close>

definition cooled_down :: "rat \<Rightarrow> batch_breaker \<Rightarrow> bool" where
  "cooled_down now b =
     (case bb_last_failure_time b of
        None \<Rightarrow> False
      | Some t \<Rightarrow> t \<noteq> 0 \<and> now - t \<ge> bc_cooldown_period (bb_config b))"

definition allow_request :: "rat \<Rightarrow> batch_breaker \<Rightarrow> batch_breaker \<times> bool" where
  "allow_request now b =
     (case bb_state b of
        CLOSED \<Rightarrow> (b, True)
      | OPEN \<Rightarrow>
          if cooled_down now b then (b\<lparr>bb_state := HALF_OPEN, bb_half_open_success_count := 0\<rparr>, True)
          else (b, False)
      | HALF_OPEN \<Rightarrow> (b, True))"

definition batch_record_success :: "batch_breaker \<Rightarrow> batch_breaker" where
  "batch_record_success b =
     (let b1 = b\<lparr>bb_total_requests := Suc (bb_total_requests b), bb_success_count := Suc (bb_success_count b)\<rparr>
      in if bb_state b1 = HALF_OPEN then
           (let b2 = b1\<lparr>bb_half_open_success_count := Suc (bb_half_open_success_count b1)\<rparr>;
                total_half_open_requests = bb_half_open_success_count b2;
                success_rate = (if total_half_open_requests > 0
                                then of_nat (bb_half_open_success_count b2) / of_nat total_half_open_requests else 0)
            in if success_rate \<ge> bc_success_threshold (bb_config b2)
               then b2\<lparr>bb_state := CLOSED, bb_failure_count := 0, bb_success_count := 0, bb_total_requests := 0\<rparr>
               else b2)
         else b1)"

definition failure_rate :: "batch_breaker \<Rightarrow> rat" where
  "failure_rate b = of_nat (bb_failure_count b) / of_nat (bb_total_requests b)"

definition batch_record_failure :: "rat \<Rightarrow> batch_breaker \<Rightarrow> batch_breaker" where
  "batch_record_failure now b =
     (let b1 = b\<lparr>bb_total_requests := Suc (bb_total_requests b), bb_failure_count := Suc (bb_failure_count b),
                 bb_last_failure_time := Some now\<rparr>
      in case bb_state b1 of
           HALF_OPEN \<Rightarrow> b1\<lparr>bb_state := OPEN\<rparr>
         | CLOSED \<Rightarrow>
             (if int (bb_total_requests b1) \<ge> bc_minimum_requests (bb_config b1)
                \<and> failure_rate b1 \<ge> bc_failure_threshold (bb_config b1)
              then b1\<lparr>bb_state := OPEN\<rparr> else b1)
         | OPEN \<Rightarrow> b1)"

record batch_statistics =
  bs_state :: circuit_state
  bs_total_requests :: nat
  bs_success_count :: nat
  bs_failure_count :: nat
  bs_failure_rate :: rat
  bs_last_failure_time :: "rat option"
  bs_half_open_success_count :: nat

definition get_statistics :: "batch_breaker \<Rightarrow> batch_statistics" where
  "get_statistics b = \<lparr>bs_state = bb_state b, bs_total_requests = bb_total_requests b,
     bs_success_count = bb_success_count b, bs_failure_count = bb_failure_count b,
     bs_failure_rate = (if bb_total_requests b > 0 then failure_rate b else 0),
     bs_last_failure_time = bb_last_failure_time b,
     bs_half_open_success_count = bb_half_open_success_count b\<rparr>"

definition batch_reset :: "batch_breaker \<Rightarrow> batch_breaker" where
  "batch_reset b = b\<lparr>bb_state := CLOSED, bb_failure_count := 0, bb_success_count := 0,
     bb_total_requests := 0, bb_last_failure_time := None, bb_half_open_success_count := 0\<rparr>"

section \<open>The breaker as a machine\<close>

datatype batch_op = AllowRequest rat | BatchSuccess | BatchFailure rat | BatchReset

fun batch_step :: "batch_breaker \<Rightarrow> batch_op \<Rightarrow> batch_breaker \<times> bool" where
  "batch_step b (AllowRequest now) = allow_request now b"
| "batch_step b BatchSuccess = (batch_record_success b, True)"
| "batch_step b (BatchFailure now) = (batch_record_failure now b, True)"
| "batch_step b BatchReset = (batch_reset b, True)"

fun batch_event_of :: "batch_breaker \<Rightarrow> batch_op \<Rightarrow> spec_event" where
  "batch_event_of b (AllowRequest now) = (if bb_state b = OPEN \<and> cooled_down now b then Probe else Stay)"
| "batch_event_of b BatchSuccess =
     (if bb_state b = HALF_OPEN \<and> bc_success_threshold (bb_config b) \<le> 1 then Recover else Stay)"
| "batch_event_of b (BatchFailure now) =
     (if bb_state b = HALF_OPEN then Relapse
      else if bb_state b = CLOSED
        \<and> int (Suc (bb_total_requests b)) \<ge> bc_minimum_requests (bb_config b)
        \<and> of_nat (Suc (bb_failure_count b)) \<ge>
            bc_failure_threshold (bb_config b) * of_nat (Suc (bb_total_requests b))
      then Trip else Stay)"
| "batch_event_of b BatchReset = AdminReset"

lemmas batch_op_defs = allow_request_def batch_record_success_def batch_record_failure_def batch_reset_def

lemma batch_simulates:
  "spec_step (bb_state b) (batch_event_of b e) = Some (bb_state (fst (batch_step b e)))"
  by (cases e; cases "bb_state b")
    (simp_all add: batch_op_defs failure_rate_def Let_def pos_le_divide_eq del: of_nat_Suc)

definition batch_inv :: "batch_breaker \<Rightarrow> bool" where
  "batch_inv b \<longleftrightarrow> bb_total_requests b = bb_success_count b + bb_failure_count b \<and>
     (bb_state b \<noteq> CLOSED \<longrightarrow> bb_last_failure_time b \<noteq> None)"

lemma batch_step_inv: "batch_inv b \<Longrightarrow> batch_inv (fst (batch_step b e))"
  by (cases e; cases "bb_state b") (auto simp: batch_op_defs batch_inv_def Let_def)

interpretation batch: simulation batch_step "\<lambda>_. True" batch_inv bb_state batch_event_of spec_step
  by unfold_locales (simp_all add: batch_step_inv batch_simulates)

lemma mk_batch_inv: "batch_inv (mk_batch_breaker c)"
  by (simp add: batch_inv_def mk_batch_breaker_def)

section \<open>Properties\<close>

text \<open>The batch breaker implements the same automaton as the service breaker, with a rate guard on
  the trip, and its counters always add up.\<close>

theorem batch_breaker_refines_automaton:
  "spec_run spec_step CLOSED (spec_trace batch_step batch_event_of (mk_batch_breaker c) es) =
     Some (bb_state (run batch_step (mk_batch_breaker c) es)) \<and>
   bb_total_requests (run batch_step (mk_batch_breaker c) es) =
     bb_success_count (run batch_step (mk_batch_breaker c) es)
       + bb_failure_count (run batch_step (mk_batch_breaker c) es)"
  using batch.run_abs [OF mk_batch_inv, of es c] batch.run_invar [OF mk_batch_inv, of es c]
  by (simp add: mk_batch_breaker_def list_all_iff batch_inv_def)

lemma batch_record_success_simps [simp]:
  "bb_config (batch_record_success b) = bb_config b"
  "bb_state (batch_record_success b) =
     (if bb_state b = HALF_OPEN \<and> bc_success_threshold (bb_config b) \<le> 1 then CLOSED else bb_state b)"
  by (simp_all add: batch_record_success_def Let_def)

text \<open>The success threshold of the batch breaker has no effect: the rate it is compared with is
  always 1, so a half-open breaker closes at its first success when the threshold is at most 1, and is
  never closed by any number of successes when it is above.\<close>

theorem success_threshold_is_inert:
  "bb_state (run batch_step b (replicate (Suc n) BatchSuccess)) =
    (if bb_state b = HALF_OPEN \<and> bc_success_threshold (bb_config b) \<le> 1 then CLOSED else bb_state b)"
proof (induction n arbitrary: b)
  case 0
  then show ?case by simp
next
  case (Suc n)
  then show ?case
    by (subst replicate_Suc) (simp del: replicate_Suc)
qed

end
