(* ===== verification/Multi_Approver.thy ===== *)
theory Multi_Approver
  imports Machine
begin

text \<open>
  \<^verbatim>\<open>src/deliberation_layer/multi_approver.py\<close> and \<^verbatim>\<open>src/validators/approvals.py\<close>: approvers,
  approval policies, approval requests and the multi-approver workflow engine. The notification
  channels and the audit callback receive values and change no state of the engine, so they are left
  out; what their suspension can do to a decision in progress is modelled by the two halves of
  \<open>submit_decision\<close> (\<open>begin_decision\<close>, \<open>finish_decision\<close>). Instants are in seconds, \<open>hours\<close> as in
  the source; \<open>str(uuid4())\<close> is an argument.
\<close>

section \<open>Data\<close>

datatype approval_status = PENDING | APPROVED | REJECTED | ESCALATED | TIMEOUT | CANCELLED

fun approval_status_value :: "approval_status \<Rightarrow> string" where
  "approval_status_value PENDING = ''pending''"
| "approval_status_value APPROVED = ''approved''"
| "approval_status_value REJECTED = ''rejected''"
| "approval_status_value ESCALATED = ''escalated''"
| "approval_status_value TIMEOUT = ''timeout''"
| "approval_status_value CANCELLED = ''cancelled''"

datatype approver_role =
  SECURITY_TEAM | COMPLIANCE_TEAM | PLATFORM_ADMIN | TENANT_ADMIN | POLICY_OWNER | ENGINEERING_LEAD | ON_CALL

datatype escalation_level = LEVEL_1 | LEVEL_2 | LEVEL_3 | EXECUTIVE

fun escalation_value :: "escalation_level \<Rightarrow> nat" where
  "escalation_value LEVEL_1 = 1"
| "escalation_value LEVEL_2 = 2"
| "escalation_value LEVEL_3 = 3"
| "escalation_value EXECUTIVE = 4"

record approver =
  ap_id :: string
  ap_name :: string
  ap_email :: string
  ap_roles :: "approver_role list"
  ap_slack_id :: "string option"
  ap_teams_id :: "string option"
  ap_timezone :: string
  ap_is_active :: bool

definition has_role :: "approver \<Rightarrow> approver_role \<Rightarrow> bool" where
  "has_role a role = (role \<in> set (ap_roles a))"

record approval_decision =
  ad_approver_id :: string
  ad_approver_name :: string
  ad_decision :: approval_status
  ad_reasoning :: string
  ad_timestamp :: rat
  ad_metadata :: json_dict

definition decision_to_dict :: "approval_decision \<Rightarrow> json_dict" where
  "decision_to_dict d =
     [(''approver_id'', JStr (ad_approver_id d)), (''approver_name'', JStr (ad_approver_name d)),
      (''decision'', JStr (approval_status_value (ad_decision d))), (''reasoning'', JStr (ad_reasoning d)),
      (''timestamp'', JTime (ad_timestamp d)), (''metadata'', JObj (ad_metadata d))]"

record approval_policy =
  po_name :: string
  po_required_roles :: "approver_role list"
  po_min_approvers :: int
  po_require_all_roles :: bool
  po_timeout_hours :: rat
  po_escalation_hours :: rat
  po_allow_self_approval :: bool
  po_require_reasoning :: bool
  po_auto_approve_low_risk :: bool
  po_risk_threshold :: rat

text \<open>The dataclass with its defaults.\<close>

definition mk_policy :: "string \<Rightarrow> approver_role list \<Rightarrow> approval_policy" where
  "mk_policy name roles =
     \<lparr>po_name = name, po_required_roles = roles, po_min_approvers = 1, po_require_all_roles = False,
      po_timeout_hours = 24, po_escalation_hours = 4, po_allow_self_approval = False,
      po_require_reasoning = True, po_auto_approve_low_risk = False, po_risk_threshold = 1 / 2\<rparr>"

section \<open>Are the requirements of a policy met?\<close>

text \<open>The reason texts, with the values they show; the roles missing are a Python set, in no order.\<close>

datatype reason =
  NoReason | AllRequirementsMet | NeedApprovers int nat | SelfApprovalNotAllowed
| MissingRoles "approver_role set" | NoApproverWithRole "approver_role list"

definition approved_decisions :: "approval_decision list \<Rightarrow> approval_decision list" where
  "approved_decisions ds = filter (\<lambda>d. ad_decision d = APPROVED) ds"

subsection \<open>\<open>ApprovalPolicy.validate_approvers\<close>\<close>

definition check_minimum_approvers :: "approval_policy \<Rightarrow> approval_decision list \<Rightarrow> bool \<times> reason" where
  "check_minimum_approvers p ds =
     (if int (length ds) < po_min_approvers p then (False, NeedApprovers (po_min_approvers p) (length ds))
      else (True, NoReason))"

definition check_self_approval :: "approval_policy \<Rightarrow> approval_decision list \<Rightarrow> string \<Rightarrow> bool \<times> reason" where
  "check_self_approval p ds requester =
     (if \<not> po_allow_self_approval p \<and> list_ex (\<lambda>d. ad_approver_id d = requester) ds
      then (False, SelfApprovalNotAllowed) else (True, NoReason))"

primrec approved_roles :: "(string, approver) dict \<Rightarrow> approval_decision list \<Rightarrow> approver_role set" where
  "approved_roles approvers [] = {}"
| "approved_roles approvers (d # ds) =
     (case dget approvers (ad_approver_id d) of None \<Rightarrow> {} | Some a \<Rightarrow> set (ap_roles a)) \<union> approved_roles approvers ds"

definition check_all_roles_required ::
  "approval_policy \<Rightarrow> approval_decision list \<Rightarrow> (string, approver) dict \<Rightarrow> bool \<times> reason" where
  "check_all_roles_required p ds approvers =
     (let missing = set (po_required_roles p) - approved_roles approvers ds
      in if missing \<noteq> {} then (False, MissingRoles missing) else (True, NoReason))"

definition check_any_role_required ::
  "approval_policy \<Rightarrow> approval_decision list \<Rightarrow> (string, approver) dict \<Rightarrow> bool \<times> reason" where
  "check_any_role_required p ds approvers =
     (if po_required_roles p = [] then (True, NoReason)
      else if list_ex (\<lambda>d. case dget approvers (ad_approver_id d) of None \<Rightarrow> False
                            | Some a \<Rightarrow> list_ex (\<lambda>r. r \<in> set (po_required_roles p)) (ap_roles a)) ds
      then (True, NoReason)
      else (False, NoApproverWithRole (po_required_roles p)))"

definition check_required_roles ::
  "approval_policy \<Rightarrow> approval_decision list \<Rightarrow> (string, approver) dict \<Rightarrow> bool \<times> reason" where
  "check_required_roles p ds approvers =
     (if po_require_all_roles p then check_all_roles_required p ds approvers
      else check_any_role_required p ds approvers)"

definition validate_approvers ::
  "approval_policy \<Rightarrow> approval_decision list \<Rightarrow> (string, approver) dict \<Rightarrow> string \<Rightarrow> bool \<times> reason" where
  "validate_approvers p decisions approvers requester =
     (let ds = approved_decisions decisions; m = check_minimum_approvers p ds
      in if \<not> fst m then m
         else let s = check_self_approval p ds requester
         in if \<not> fst s then s
         else let r = check_required_roles p ds approvers
         in if \<not> fst r then r else (True, AllRequirementsMet))"

subsection \<open>\<open>ApprovalRequirementsValidator.validate_approvals\<close>, the one the engine uses\<close>

definition validate_approvals ::
  "approval_policy \<Rightarrow> approval_decision list \<Rightarrow> (string, approver) dict \<Rightarrow> string \<Rightarrow> bool \<times> reason" where
  "validate_approvals p decisions approvers requester =
     (let ds = filter (\<lambda>d. approval_status_value (ad_decision d) = ''approved'') decisions
      in if int (length ds) < po_min_approvers p then (False, NeedApprovers (po_min_approvers p) (length ds))
         else if \<not> po_allow_self_approval p \<and> list_ex (\<lambda>d. ad_approver_id d = requester) ds
         then (False, SelfApprovalNotAllowed)
         else if po_required_roles p = [] then (True, AllRequirementsMet)
         else let roles = approved_roles approvers ds
         in if po_require_all_roles p then
              (let missing = set (po_required_roles p) - roles
               in if missing \<noteq> {} then (False, MissingRoles missing) else (True, AllRequirementsMet))
            else if list_ex (\<lambda>r. r \<in> roles) (po_required_roles p) then (True, AllRequirementsMet)
            else (False, NoApproverWithRole (po_required_roles p)))"

section \<open>Requests\<close>

record approval_request =
  rq_id :: string
  rq_request_type :: string
  rq_requester_id :: string
  rq_requester_name :: string
  rq_tenant_id :: string
  rq_title :: string
  rq_description :: string
  rq_risk_score :: rat
  rq_policy :: approval_policy
  rq_payload :: json_dict
  rq_status :: approval_status
  rq_decisions :: "approval_decision list"
  rq_escalation_level :: escalation_level
  rq_created_at :: rat
  rq_updated_at :: rat
  rq_deadline :: "rat option"
  rq_constitutional_hash :: string
  rq_metadata :: json_dict

text \<open>What a caller of \<open>create_request\<close> supplies.\<close>

record request_fields =
  rf_request_type :: string
  rf_requester_id :: string
  rf_requester_name :: string
  rf_tenant_id :: string
  rf_title :: string
  rf_description :: string
  rf_risk_score :: rat
  rf_payload :: json_dict
  rf_metadata :: "json_dict option"

text \<open>The constructor with \<open>__post_init__\<close>; the hash is the default, so its check passes.\<close>

definition mk_request ::
  "rat \<Rightarrow> string \<Rightarrow> request_fields \<Rightarrow> approval_policy \<Rightarrow> approval_status \<Rightarrow> approval_request" where
  "mk_request now rid f p status =
     \<lparr>rq_id = rid, rq_request_type = rf_request_type f, rq_requester_id = rf_requester_id f,
      rq_requester_name = rf_requester_name f, rq_tenant_id = rf_tenant_id f, rq_title = rf_title f,
      rq_description = rf_description f, rq_risk_score = rf_risk_score f, rq_policy = p,
      rq_payload = rf_payload f, rq_status = status, rq_decisions = [], rq_escalation_level = LEVEL_1,
      rq_created_at = now, rq_updated_at = now, rq_deadline = Some (now + po_timeout_hours p * 3600),
      rq_constitutional_hash = CONSTITUTIONAL_HASH,
      rq_metadata = (case rf_metadata f of None \<Rightarrow> [] | Some m \<Rightarrow> m)\<rparr>"

text \<open>The digest (\<open>fast_hash\<close> or SHA-256 of the JSON text) is a parameter, applied to the sorted object.\<close>

definition compute_hash :: "(json \<Rightarrow> string) \<Rightarrow> approval_request \<Rightarrow> string" where
  "compute_hash digest r = digest (JObj
     [(''constitutional_hash'', JStr (rq_constitutional_hash r)), (''created_at'', JTime (rq_created_at r)),
      (''id'', JStr (rq_id r)), (''request_type'', JStr (rq_request_type r)),
      (''requester_id'', JStr (rq_requester_id r)), (''risk_score'', JNum (rq_risk_score r)),
      (''title'', JStr (rq_title r))])"

definition request_to_dict :: "(json \<Rightarrow> string) \<Rightarrow> approval_request \<Rightarrow> json_dict" where
  "request_to_dict digest r =
     [(''id'', JStr (rq_id r)), (''request_type'', JStr (rq_request_type r)),
      (''requester_id'', JStr (rq_requester_id r)), (''requester_name'', JStr (rq_requester_name r)),
      (''tenant_id'', JStr (rq_tenant_id r)), (''title'', JStr (rq_title r)),
      (''description'', JStr (rq_description r)), (''risk_score'', JNum (rq_risk_score r)),
      (''status'', JStr (approval_status_value (rq_status r))),
      (''decisions'', JList (map (\<lambda>d. JObj (decision_to_dict d)) (rq_decisions r))),
      (''escalation_level'', JInt (int (escalation_value (rq_escalation_level r)))),
      (''created_at'', JTime (rq_created_at r)), (''updated_at'', JTime (rq_updated_at r)),
      (''deadline'', (case rq_deadline r of None \<Rightarrow> JNull | Some t \<Rightarrow> JTime t)),
      (''constitutional_hash'', JStr (rq_constitutional_hash r)),
      (''request_hash'', JStr (compute_hash digest r))]"

section \<open>The engine\<close>

record workflow_engine =
  me_requests :: "(string, approval_request) dict"
  me_approvers :: "(string, approver) dict"
  me_policies :: "(string, approval_policy) dict"
  me_running :: bool

definition DEFAULT_POLICIES :: "(string, approval_policy) dict" where
  "DEFAULT_POLICIES =
     [(''high_risk_action'',
        (mk_policy ''High Risk Action'' [SECURITY_TEAM, COMPLIANCE_TEAM])
          \<lparr>po_min_approvers := 2, po_require_all_roles := True, po_timeout_hours := 24,
           po_escalation_hours := 4, po_risk_threshold := 8 / 10\<rparr>),
      (''policy_change'',
        (mk_policy ''Policy Change'' [POLICY_OWNER, PLATFORM_ADMIN])
          \<lparr>po_min_approvers := 2, po_require_all_roles := True, po_timeout_hours := 48,
           po_escalation_hours := 8, po_risk_threshold := 5 / 10\<rparr>),
      (''critical_deployment'',
        (mk_policy ''Critical Deployment'' [ENGINEERING_LEAD, SECURITY_TEAM, ON_CALL])
          \<lparr>po_min_approvers := 3, po_require_all_roles := True, po_timeout_hours := 4,
           po_escalation_hours := 1, po_risk_threshold := 9 / 10\<rparr>),
      (''standard_request'',
        (mk_policy ''Standard Request'' [TENANT_ADMIN])
          \<lparr>po_min_approvers := 1, po_require_all_roles := False, po_timeout_hours := 72,
           po_escalation_hours := 24, po_auto_approve_low_risk := True, po_risk_threshold := 3 / 10\<rparr>)]"

definition mk_engine :: workflow_engine where
  "mk_engine = \<lparr>me_requests = [], me_approvers = [], me_policies = DEFAULT_POLICIES, me_running = False\<rparr>"

definition start_engine :: "workflow_engine \<Rightarrow> workflow_engine" where
  "start_engine e = e\<lparr>me_running := True\<rparr>"

definition stop_engine :: "workflow_engine \<Rightarrow> workflow_engine" where
  "stop_engine e = e\<lparr>me_running := False\<rparr>"

definition register_approver :: "approver \<Rightarrow> workflow_engine \<Rightarrow> workflow_engine" where
  "register_approver a e = e\<lparr>me_approvers := dset (ap_id a) a (me_approvers e)\<rparr>"

definition register_policy :: "string \<Rightarrow> approval_policy \<Rightarrow> workflow_engine \<Rightarrow> workflow_engine" where
  "register_policy pid p e = e\<lparr>me_policies := dset pid p (me_policies e)\<rparr>"

definition select_policy_for_risk :: "rat \<Rightarrow> string" where
  "select_policy_for_risk s =
     (if s \<ge> 9 / 10 then ''critical_deployment''
      else if s \<ge> 7 / 10 then ''high_risk_action''
      else if s \<ge> 1 / 2 then ''policy_change''
      else ''standard_request'')"

definition get_eligible_approvers :: "approval_policy \<Rightarrow> workflow_engine \<Rightarrow> approver list" where
  "get_eligible_approvers p e =
     filter (\<lambda>a. ap_is_active a \<and> list_ex (\<lambda>r. r \<in> set (po_required_roles p)) (ap_roles a))
       (dvalues (me_approvers e))"

definition put_request :: "approval_request \<Rightarrow> workflow_engine \<Rightarrow> workflow_engine" where
  "put_request r e = e\<lparr>me_requests := dset (rq_id r) r (me_requests e)\<rparr>"

text \<open>\<open>Inl pid\<close> is \<open>ValueError("Unknown policy: pid")\<close>.\<close>

definition create_request ::
  "rat \<Rightarrow> string \<Rightarrow> request_fields \<Rightarrow> string option \<Rightarrow> workflow_engine
     \<Rightarrow> workflow_engine \<times> (string + approval_request)" where
  "create_request now rid f policy_id e =
     (let pid = (case policy_id of None \<Rightarrow> select_policy_for_risk (rf_risk_score f) | Some p \<Rightarrow> p)
      in case dget (me_policies e) pid of
           None \<Rightarrow> (e, Inl pid)
         | Some p \<Rightarrow>
             (let r = mk_request now rid f p
                        (if po_auto_approve_low_risk p \<and> rf_risk_score f < po_risk_threshold p
                         then APPROVED else PENDING)
              in (put_request r e, Inr r)))"

text \<open>What \<open>submit_decision\<close> answers: the first component is success.\<close>

datatype decision_message =
  RequestNotFound | RequestNotPending approval_status | ApproverNotRegistered | AlreadyDecided
| ReasoningRequired | NoMessage | RequestRejected | RequestApproved | DecisionRecorded reason

definition validate_decision_submission ::
  "string \<Rightarrow> string \<Rightarrow> string \<Rightarrow> workflow_engine \<Rightarrow> bool \<times> decision_message" where
  "validate_decision_submission rid aid reasoning e =
     (case dget (me_requests e) rid of
        None \<Rightarrow> (False, RequestNotFound)
      | Some r \<Rightarrow>
          if rq_status r \<noteq> PENDING then (False, RequestNotPending (rq_status r))
          else (case dget (me_approvers e) aid of
             None \<Rightarrow> (False, ApproverNotRegistered)
           | Some a \<Rightarrow>
               if list_ex (\<lambda>d. ad_approver_id d = aid) (rq_decisions r) then (False, AlreadyDecided)
               else if po_require_reasoning (rq_policy r) \<and> py_strip reasoning = [] then (False, ReasoningRequired)
               else (True, NoMessage)))"

definition create_approval_decision ::
  "rat \<Rightarrow> approver \<Rightarrow> approval_status \<Rightarrow> string \<Rightarrow> json_dict option \<Rightarrow> approval_decision" where
  "create_approval_decision now a decision reasoning metadata =
     \<lparr>ad_approver_id = ap_id a, ad_approver_name = ap_name a, ad_decision = decision,
      ad_reasoning = reasoning, ad_timestamp = now,
      ad_metadata = (case metadata of None \<Rightarrow> [] | Some m \<Rightarrow> m)\<rparr>"

definition record_decision :: "rat \<Rightarrow> approval_decision \<Rightarrow> approval_request \<Rightarrow> approval_request" where
  "record_decision now d r = r\<lparr>rq_decisions := rq_decisions r @ [d], rq_updated_at := now\<rparr>"

definition process_decision_result ::
  "(string, approver) dict \<Rightarrow> approval_status \<Rightarrow> approval_request \<Rightarrow> approval_request \<times> bool \<times> decision_message"
where
  "process_decision_result approvers decision r =
     (if decision = REJECTED then (r\<lparr>rq_status := REJECTED\<rparr>, True, RequestRejected)
      else case validate_approvals (rq_policy r) (rq_decisions r) approvers (rq_requester_id r) of
             (is_valid, why) \<Rightarrow>
               if is_valid then (r\<lparr>rq_status := APPROVED\<rparr>, True, RequestApproved)
               else (r, True, DecisionRecorded why))"

text \<open>
  The two halves of \<open>submit_decision\<close>. Between them the engine awaits the notification channels, so
  other calls may run if a channel suspends. The second half works on the request object as it is
  then, and on the decision the first half was given.
\<close>

definition begin_decision ::
  "rat \<Rightarrow> string \<Rightarrow> string \<Rightarrow> approval_status \<Rightarrow> string \<Rightarrow> json_dict option \<Rightarrow> workflow_engine
     \<Rightarrow> workflow_engine \<times> bool \<times> decision_message" where
  "begin_decision now rid aid decision reasoning metadata e =
     (case validate_decision_submission rid aid reasoning e of
        (False, msg) \<Rightarrow> (e, False, msg)
      | (True, msg) \<Rightarrow>
          (case (dget (me_requests e) rid, dget (me_approvers e) aid) of
             (Some r, Some a) \<Rightarrow>
               (put_request (record_decision now (create_approval_decision now a decision reasoning metadata) r) e,
                True, msg)
           | _ \<Rightarrow> (e, False, msg)))"

definition finish_decision ::
  "string \<Rightarrow> approval_status \<Rightarrow> workflow_engine \<Rightarrow> workflow_engine \<times> bool \<times> decision_message" where
  "finish_decision rid decision e =
     (case dget (me_requests e) rid of
        None \<Rightarrow> (e, False, RequestNotFound)
      | Some r \<Rightarrow>
          (case process_decision_result (me_approvers e) decision r of
             (r', ok, msg) \<Rightarrow> (put_request r' e, ok, msg)))"

definition submit_decision ::
  "rat \<Rightarrow> string \<Rightarrow> string \<Rightarrow> approval_status \<Rightarrow> string \<Rightarrow> json_dict option \<Rightarrow> workflow_engine
     \<Rightarrow> workflow_engine \<times> bool \<times> decision_message" where
  "submit_decision now rid aid decision reasoning metadata e =
     (case begin_decision now rid aid decision reasoning metadata e of
        (e', False, msg) \<Rightarrow> (e', False, msg)
      | (e', True, msg) \<Rightarrow> finish_decision rid decision e')"

definition cancel_request :: "rat \<Rightarrow> string \<Rightarrow> string \<Rightarrow> workflow_engine \<Rightarrow> workflow_engine \<times> bool" where
  "cancel_request now rid why e =
     (case dget (me_requests e) rid of
        None \<Rightarrow> (e, False)
      | Some r \<Rightarrow>
          if rq_status r \<noteq> PENDING then (e, False)
          else (put_request (r\<lparr>rq_status := CANCELLED, rq_updated_at := now,
                   rq_metadata := dset ''cancellation_reason'' (JStr why) (rq_metadata r)\<rparr>) e, True))"

definition get_request :: "string \<Rightarrow> workflow_engine \<Rightarrow> approval_request option" where
  "get_request rid e = dget (me_requests e) rid"

text \<open>\<open>sorted(..., reverse=True)\<close> keeps the order of equal keys.\<close>

definition get_pending_requests ::
  "string option \<Rightarrow> string option \<Rightarrow> workflow_engine \<Rightarrow> approval_request list" where
  "get_pending_requests tenant_id approver_id e =
     (let rs = filter (\<lambda>r. rq_status r = PENDING) (dvalues (me_requests e));
          rs = (if truthy_str tenant_id then filter (\<lambda>r. Some (rq_tenant_id r) = tenant_id) rs else rs);
          rs = (if truthy_str approver_id then
                  (case dget (me_approvers e) (the approver_id) of
                     None \<Rightarrow> rs
                   | Some a \<Rightarrow>
                       filter (\<lambda>r. list_ex (\<lambda>role. role \<in> set (po_required_roles (rq_policy r))) (ap_roles a)
                                 \<and> \<not> list_ex (\<lambda>d. Some (ad_approver_id d) = approver_id) (rq_decisions r)) rs)
                else rs)
      in rev (sort_key rq_created_at (rev rs)))"

definition ALL_STATUSES :: "approval_status list" where
  "ALL_STATUSES = [PENDING, APPROVED, REJECTED, ESCALATED, TIMEOUT, CANCELLED]"

record engine_stats =
  es_total_requests :: nat
  es_by_status :: "(string, nat) dict"
  es_registered_approvers :: nat
  es_registered_policies :: nat

definition get_stats :: "workflow_engine \<Rightarrow> engine_stats" where
  "get_stats e =
     \<lparr>es_total_requests = length (me_requests e),
      es_by_status = map (\<lambda>s. (approval_status_value s,
                          length (filter (\<lambda>r. rq_status r = s) (dvalues (me_requests e))))) ALL_STATUSES,
      es_registered_approvers = length (me_approvers e),
      es_registered_policies = length (me_policies e)\<rparr>"

definition check_and_handle_timeout :: "rat \<Rightarrow> approval_request \<Rightarrow> approval_request \<times> bool" where
  "check_and_handle_timeout now r =
     (case rq_deadline r of
        None \<Rightarrow> (r, False)
      | Some t \<Rightarrow> if now > t then (r\<lparr>rq_status := TIMEOUT\<rparr>, True) else (r, False))"

definition calculate_escalation_level :: "rat \<Rightarrow> approval_request \<Rightarrow> escalation_level option" where
  "calculate_escalation_level now r =
     (let hours = (now - rq_created_at r) / 3600; h = po_escalation_hours (rq_policy r)
      in map_option snd (find (\<lambda>(threshold, _). hours \<ge> threshold)
           [(h * 3, EXECUTIVE), (h * 2, LEVEL_3), (h, LEVEL_2)]))"

definition check_and_handle_escalation :: "rat \<Rightarrow> approval_request \<Rightarrow> approval_request" where
  "check_and_handle_escalation now r =
     (case calculate_escalation_level now r of
        None \<Rightarrow> r
      | Some l \<Rightarrow>
          if escalation_value l > escalation_value (rq_escalation_level r)
          then r\<lparr>rq_escalation_level := l\<rparr> else r)"

definition process_pending_request :: "rat \<Rightarrow> approval_request \<Rightarrow> approval_request" where
  "process_pending_request now r =
     (if rq_status r \<noteq> PENDING then r
      else case check_and_handle_timeout now r of
             (r', True) \<Rightarrow> r'
           | (r', False) \<Rightarrow> check_and_handle_escalation now r')"

text \<open>One pass of the escalation loop.\<close>

definition process_pending_requests :: "rat \<Rightarrow> workflow_engine \<Rightarrow> workflow_engine" where
  "process_pending_requests now e =
     e\<lparr>me_requests := map (\<lambda>(rid, r). (rid, process_pending_request now r)) (me_requests e)\<rparr>"

text \<open>The convenience singleton.\<close>

definition get_workflow_engine :: "workflow_engine option \<Rightarrow> workflow_engine option" where
  "get_workflow_engine g = g"

definition initialize_workflow_engine :: "workflow_engine option \<Rightarrow> workflow_engine option \<times> workflow_engine" where
  "initialize_workflow_engine g = (let e = start_engine mk_engine in (Some e, e))"

definition shutdown_workflow_engine :: "workflow_engine option \<Rightarrow> workflow_engine option" where
  "shutdown_workflow_engine g = (case g of None \<Rightarrow> None | Some e \<Rightarrow> None)"

end
