(* ===== verification/Multi_Approver_Theorems.thy ===== *)
theory Multi_Approver_Theorems
  imports Multi_Approver
begin

text \<open>
  What the multi-approver engine guarantees: the two validators agree and mean what the policy says,
  an approved request has the approvals its policy asks for on every run, a decided request stays
  decided; and what it does not: an approval by the requester blocks the request for ever, and a
  decision whose notifications are suspended can overturn a later one.
\<close>

section \<open>The validators\<close>

lemma approved_value: "(approval_status_value s = ''approved'') = (s = APPROVED)"
  by (cases s) auto

lemma in_approved_roles:
  "r \<in> approved_roles approvers ds \<longleftrightarrow>
     (\<exists>d \<in> set ds. \<exists>a. dget approvers (ad_approver_id d) = Some a \<and> r \<in> set (ap_roles a))"
  by (induction ds) (auto split: option.splits)

text \<open>The requirements in the words of the policy.\<close>

definition role_approved :: "(string, approver) dict \<Rightarrow> approval_decision list \<Rightarrow> approver_role \<Rightarrow> bool" where
  "role_approved approvers ds role =
     list_ex (\<lambda>d. ad_decision d = APPROVED \<and>
        (case dget approvers (ad_approver_id d) of None \<Rightarrow> False | Some a \<Rightarrow> has_role a role)) ds"

definition policy_met ::
  "approval_policy \<Rightarrow> approval_decision list \<Rightarrow> (string, approver) dict \<Rightarrow> string \<Rightarrow> bool" where
  "policy_met p ds approvers requester \<longleftrightarrow>
     po_min_approvers p \<le> int (length (approved_decisions ds)) \<and>
     (po_allow_self_approval p \<or> requester \<notin> ad_approver_id ` set (approved_decisions ds)) \<and>
     (if po_require_all_roles p then list_all (role_approved approvers ds) (po_required_roles p)
      else po_required_roles p = [] \<or> list_ex (role_approved approvers ds) (po_required_roles p))"

lemma approved_decisions_alt:
  "filter (\<lambda>d. approval_status_value (ad_decision d) = ''approved'') ds = approved_decisions ds"
  by (simp add: approved_decisions_def approved_value)

lemma role_approved_iff: "role_approved approvers ds r \<longleftrightarrow> r \<in> approved_roles approvers (approved_decisions ds)"
  by (force simp: role_approved_def list_ex_iff in_approved_roles approved_decisions_def has_role_def
      split: option.splits)

lemma validate_approvals_iff:
  "fst (validate_approvals p ds approvers requester) = policy_met p ds approvers requester"
  unfolding validate_approvals_def approved_decisions_alt Let_def policy_met_def
  by (cases "po_required_roles p") (auto simp: list_ex_iff list_all_iff role_approved_iff image_iff)

lemma validate_approvals_reason:
  "policy_met p ds approvers requester \<Longrightarrow>
   validate_approvals p ds approvers requester = (True, AllRequirementsMet)"
  unfolding validate_approvals_def approved_decisions_alt Let_def policy_met_def
  by (auto simp: list_ex_iff list_all_iff role_approved_iff image_iff split: if_splits)

lemma any_role_eq:
  "list_ex (\<lambda>d. case dget approvers (ad_approver_id d) of None \<Rightarrow> False
              | Some a \<Rightarrow> list_ex (\<lambda>r. r \<in> set rs) (ap_roles a)) ds
   = list_ex (\<lambda>r. r \<in> approved_roles approvers ds) rs"
  by (force simp: list_ex_iff in_approved_roles split: option.splits)

section \<open>The engine as a machine\<close>

datatype engine_op =
  RegisterApprover approver | RegisterPolicy string approval_policy
| CreateRequest rat string request_fields "string option"
| SubmitDecision rat string string approval_status string "json_dict option"
| CancelRequest rat string string | ProcessPending rat | StartEngine | StopEngine

fun engine_step :: "workflow_engine \<Rightarrow> engine_op \<Rightarrow> workflow_engine \<times> unit" where
  "engine_step e (RegisterApprover a) = (register_approver a e, ())"
| "engine_step e (RegisterPolicy pid p) = (register_policy pid p e, ())"
| "engine_step e (CreateRequest now rid f pid) = (fst (create_request now rid f pid e), ())"
| "engine_step e (SubmitDecision now rid aid d why md) = (fst (submit_decision now rid aid d why md e), ())"
| "engine_step e (CancelRequest now rid why) = (fst (cancel_request now rid why e), ())"
| "engine_step e (ProcessPending now) = (process_pending_requests now e, ())"
| "engine_step e StartEngine = (start_engine e, ())"
| "engine_step e StopEngine = (stop_engine e, ())"

definition auto_approved :: "approval_request \<Rightarrow> bool" where
  "auto_approved r \<longleftrightarrow> po_auto_approve_low_risk (rq_policy r) \<and> rq_risk_score r < po_risk_threshold (rq_policy r) \<and>
     rq_decisions r = []"

definition enough_approvals :: "approval_request \<Rightarrow> bool" where
  "enough_approvals r \<longleftrightarrow>
     po_min_approvers (rq_policy r) \<le> int (length (approved_decisions (rq_decisions r))) \<and>
     (po_allow_self_approval (rq_policy r)
        \<or> rq_requester_id r \<notin> ad_approver_id ` set (approved_decisions (rq_decisions r)))"

definition nobody_rejected :: "approval_request \<Rightarrow> bool" where
  "nobody_rejected r \<longleftrightarrow> list_all (\<lambda>d. ad_decision d \<noteq> REJECTED) (rq_decisions r)"

definition request_inv :: "approval_request \<Rightarrow> bool" where
  "request_inv r \<longleftrightarrow> distinct (map ad_approver_id (rq_decisions r)) \<and>
     (po_require_reasoning (rq_policy r) \<longrightarrow> list_all (\<lambda>d. py_strip (ad_reasoning d) \<noteq> []) (rq_decisions r)) \<and>
     rq_status r \<noteq> ESCALATED \<and>
     (rq_status r = REJECTED) = (\<not> nobody_rejected r) \<and>
     (rq_status r = APPROVED \<longrightarrow> auto_approved r \<or> enough_approvals r)"

definition engine_inv :: "workflow_engine \<Rightarrow> bool" where
  "engine_inv e \<longleftrightarrow>
     (\<forall>rid r. dget (me_requests e) rid = Some r \<longrightarrow> rq_id r = rid \<and> request_inv r) \<and>
     (\<forall>aid a. dget (me_approvers e) aid = Some a \<longrightarrow> ap_id a = aid)"

lemma put_request_fields [simp]:
  "dget (me_requests (put_request r e)) rid = (if rid = rq_id r then Some r else dget (me_requests e) rid)"
  "me_approvers (put_request r e) = me_approvers e"
  "me_policies (put_request r e) = me_policies e"
  by (simp_all add: put_request_def dict_simps)

lemma put_request_inv: "engine_inv e \<Longrightarrow> request_inv r \<Longrightarrow> engine_inv (put_request r e)"
  by (simp add: engine_inv_def)

lemma engine_inv_request: "engine_inv e \<Longrightarrow> dget (me_requests e) rid = Some r \<Longrightarrow> rq_id r = rid \<and> request_inv r"
  by (simp add: engine_inv_def)

lemma mk_request_inv:
  "request_inv (mk_request now rid f p PENDING)"
  "po_auto_approve_low_risk p \<Longrightarrow> rf_risk_score f < po_risk_threshold p \<Longrightarrow>
   request_inv (mk_request now rid f p APPROVED)"
  by (simp_all add: request_inv_def mk_request_def auto_approved_def nobody_rejected_def)

lemma create_request_inv: "engine_inv e \<Longrightarrow> engine_inv (fst (create_request now rid f pid e))"
  by (auto simp: create_request_def Let_def intro!: put_request_inv mk_request_inv split: option.splits)

lemma validate_decision_submission_True:
  "fst (validate_decision_submission rid aid why e) \<longleftrightarrow>
     (\<exists>r a. dget (me_requests e) rid = Some r \<and> dget (me_approvers e) aid = Some a \<and> rq_status r = PENDING \<and>
        aid \<notin> ad_approver_id ` set (rq_decisions r) \<and>
        (po_require_reasoning (rq_policy r) \<longrightarrow> py_strip why \<noteq> []))"
  by (auto simp: validate_decision_submission_def list_ex_iff split: option.splits)

lemma process_decision_result_eq:
  "process_decision_result approvers d r =
     (if d = REJECTED then (r\<lparr>rq_status := REJECTED\<rparr>, True, RequestRejected)
      else if policy_met (rq_policy r) (rq_decisions r) approvers (rq_requester_id r)
      then (r\<lparr>rq_status := APPROVED\<rparr>, True, RequestApproved)
      else (r, True, DecisionRecorded (snd (validate_approvals (rq_policy r) (rq_decisions r) approvers (rq_requester_id r)))))"
  using validate_approvals_iff [of "rq_policy r" "rq_decisions r" approvers "rq_requester_id r"]
  by (auto simp: process_decision_result_def split: prod.splits)

lemma judged_request_inv:
  assumes "request_inv r" "rq_status r = PENDING" "ad_approver_id dec \<notin> ad_approver_id ` set (rq_decisions r)"
    and "po_require_reasoning (rq_policy r) \<longrightarrow> py_strip (ad_reasoning dec) \<noteq> []"
  shows "request_inv (fst (process_decision_result approvers (ad_decision dec) (record_decision now dec r)))"
  using assms
  by (auto simp: process_decision_result_eq request_inv_def record_decision_def nobody_rejected_def
      policy_met_def enough_approvals_def)

lemma put_put [simp]: "rq_id r' = rq_id r \<Longrightarrow> put_request r' (put_request r e) = put_request r' e"
  by (simp add: put_request_def update_conv' AList.update_swap)

lemma process_decision_result_fields [simp]:
  "rq_id (fst (process_decision_result approvers d r)) = rq_id r"
  "rq_policy (fst (process_decision_result approvers d r)) = rq_policy r"
  "rq_requester_id (fst (process_decision_result approvers d r)) = rq_requester_id r"
  "rq_decisions (fst (process_decision_result approvers d r)) = rq_decisions r"
  by (simp_all add: process_decision_result_eq)

text \<open>A submission: refused without effect, or recorded and judged at once.\<close>

lemma submit_refused:
  assumes "\<not> fst (validate_decision_submission rid aid why e)"
  shows "submit_decision now rid aid d why md e = (e, validate_decision_submission rid aid why e)"
proof -
  obtain msg where "validate_decision_submission rid aid why e = (False, msg)"
    using assms by (metis prod.collapse)
  then show ?thesis
    by (simp add: submit_decision_def begin_decision_def)
qed

definition judged ::
  "workflow_engine \<Rightarrow> rat \<Rightarrow> approval_request \<Rightarrow> approver \<Rightarrow> approval_status \<Rightarrow> string \<Rightarrow> json_dict option
     \<Rightarrow> approval_request \<times> bool \<times> decision_message" where
  "judged e now r a d why md =
     process_decision_result (me_approvers e) d (record_decision now (create_approval_decision now a d why md) r)"

lemma submit_accepted:
  assumes "engine_inv e" and "fst (validate_decision_submission rid aid why e)"
  obtains r a where "dget (me_requests e) rid = Some r" "dget (me_approvers e) aid = Some a"
    "rq_id r = rid" "request_inv r" "ap_id a = aid" "rq_status r = PENDING"
    "aid \<notin> ad_approver_id ` set (rq_decisions r)"
    "po_require_reasoning (rq_policy r) \<longrightarrow> py_strip why \<noteq> []"
    "submit_decision now rid aid d why md e = (put_request (fst (judged e now r a d why md)) e, snd (judged e now r a d why md))"
proof -
  obtain r a where ra: "dget (me_requests e) rid = Some r" "dget (me_approvers e) aid = Some a"
    and ok: "rq_status r = PENDING" "aid \<notin> ad_approver_id ` set (rq_decisions r)"
      "po_require_reasoning (rq_policy r) \<longrightarrow> py_strip why \<noteq> []"
    using assms(2) by (auto simp: validate_decision_submission_True)
  have r: "rq_id r = rid" "request_inv r" and a: "ap_id a = aid"
    using assms(1) ra by (auto simp: engine_inv_def)
  obtain msg where v: "validate_decision_submission rid aid why e = (True, msg)"
    using assms(2) by (metis prod.collapse)
  have id: "rq_id (record_decision now dec r) = rid" for dec
    using r(1) by (simp add: record_decision_def)
  obtain r' ok' msg' where P: "judged e now r a d why md = (r', ok', msg')"
    by (metis prod.collapse)
  then have "rq_id r' = rid"
    using process_decision_result_fields(1) [of "me_approvers e" d
        "record_decision now (create_approval_decision now a d why md) r"]
    by (simp add: judged_def id)
  with P have "submit_decision now rid aid d why md e =
      (put_request (fst (judged e now r a d why md)) e, snd (judged e now r a d why md))"
    by (simp add: v submit_decision_def begin_decision_def finish_decision_def ra id judged_def)
  with that ra r a ok show thesis by blast
qed

lemma judged_fields [simp]:
  "rq_id (fst (judged e now r a d why md)) = rq_id r"
  "rq_policy (fst (judged e now r a d why md)) = rq_policy r"
  "rq_requester_id (fst (judged e now r a d why md)) = rq_requester_id r"
  "rq_decisions (fst (judged e now r a d why md)) = rq_decisions r @ [create_approval_decision now a d why md]"
  by (simp_all add: judged_def record_decision_def)

lemma submit_decision_inv:
  assumes inv: "engine_inv e"
  shows "engine_inv (fst (submit_decision now rid aid d why md e))"
proof (cases "fst (validate_decision_submission rid aid why e)")
  case False
  with inv show ?thesis by (simp add: submit_refused)
next
  case True
  with inv show ?thesis
  proof (rule submit_accepted [of _ _ _ _ now d md])
    fix r :: approval_request and a :: approver
    assume *: "ap_id a = aid" "request_inv r" "rq_status r = PENDING" "aid \<notin> ad_approver_id ` set (rq_decisions r)"
      "po_require_reasoning (rq_policy r) \<longrightarrow> py_strip why \<noteq> []"
    then have "request_inv (fst (judged e now r a d why md))"
      using judged_request_inv [of r "create_approval_decision now a d why md" "me_approvers e" now]
      by (simp add: judged_def create_approval_decision_def)
    moreover assume "submit_decision now rid aid d why md e =
      (put_request (fst (judged e now r a d why md)) e, snd (judged e now r a d why md))"
    ultimately show ?thesis
      using inv by (simp add: put_request_inv)
  qed
qed

lemma request_inv_closed:
  assumes "request_inv r" "rq_status r = PENDING" "rq_status r' \<in> {PENDING, CANCELLED, TIMEOUT}"
    and "rq_policy r' = rq_policy r" "rq_decisions r' = rq_decisions r"
  shows "request_inv r'"
  using assms by (auto simp: request_inv_def nobody_rejected_def)

lemma cancel_request_inv: "engine_inv e \<Longrightarrow> engine_inv (fst (cancel_request now rid why e))"
  by (auto simp: cancel_request_def dest: engine_inv_request intro!: put_request_inv
      intro: request_inv_closed split: option.splits)

lemma process_pending_request_fields [simp]:
  "rq_id (process_pending_request now r) = rq_id r"
  "rq_policy (process_pending_request now r) = rq_policy r"
  "rq_requester_id (process_pending_request now r) = rq_requester_id r"
  "rq_decisions (process_pending_request now r) = rq_decisions r"
  "rq_status (process_pending_request now r) =
     (if rq_status r = PENDING \<and> (\<exists>t. rq_deadline r = Some t \<and> t < now) then TIMEOUT else rq_status r)"
  by (auto simp: process_pending_request_def check_and_handle_timeout_def check_and_handle_escalation_def
      split: option.splits)

lemma process_pending_requests_lookup [simp]:
  "dget (me_requests (process_pending_requests now e)) rid =
     map_option (process_pending_request now) (dget (me_requests e) rid)"
  by (simp add: process_pending_requests_def dget_map_values)

lemma process_pending_request_decided: "rq_status r \<noteq> PENDING \<Longrightarrow> process_pending_request now r = r"
  by (simp add: process_pending_request_def)

lemma process_pending_request_inv: "request_inv r \<Longrightarrow> request_inv (process_pending_request now r)"
  by (cases "rq_status r = PENDING")
    (simp_all add: request_inv_closed [of r] process_pending_request_decided)

lemma process_pending_inv:
  assumes "engine_inv e"
  shows "engine_inv (process_pending_requests now e)"
proof -
  have "me_approvers (process_pending_requests now e) = me_approvers e"
    by (simp add: process_pending_requests_def)
  with assms show ?thesis
    by (auto simp: engine_inv_def process_pending_request_inv)
qed

lemma engine_step_inv: "engine_inv e \<Longrightarrow> engine_inv (fst (engine_step e op))"
  by (cases op)
    (auto simp: create_request_inv submit_decision_inv cancel_request_inv process_pending_inv,
     auto simp: engine_inv_def register_approver_def register_policy_def start_engine_def stop_engine_def dict_simps)

interpretation engine: machine engine_step "\<lambda>_. True" engine_inv
  by unfold_locales (rule engine_step_inv)

lemma mk_engine_inv: "engine_inv mk_engine"
  by (simp add: engine_inv_def mk_engine_def)

lemma reachable_engine: "engine_inv (run engine_step mk_engine ops)"
  by (rule engine.run_invar [OF mk_engine_inv]) (simp add: list_all_iff)

section \<open>Settled requests\<close>

text \<open>Calls that do not create a request under the given identifier (\<open>uuid4\<close> never repeats one).\<close>

fun not_creating :: "string \<Rightarrow> engine_op \<Rightarrow> bool" where
  "not_creating rid (CreateRequest now rid' f pid) = (rid' \<noteq> rid)"
| "not_creating rid _ = True"

definition decided :: "approval_request option \<Rightarrow> bool" where
  "decided v = (case v of None \<Rightarrow> False | Some r \<Rightarrow> rq_status r \<noteq> PENDING)"

lemma submit_decision_other:
  assumes "engine_inv e"
  shows "rid' \<noteq> rid \<Longrightarrow> dget (me_requests (fst (submit_decision now rid aid d why md e))) rid' = dget (me_requests e) rid'"
  by (cases "fst (validate_decision_submission rid aid why e)")
    (auto simp: submit_refused elim!: submit_accepted [OF assms, of rid aid why now d md])

lemma engine_step_decided:
  assumes "engine_inv e" "not_creating rid op" "decided (get_request rid e)"
  shows "get_request rid (fst (engine_step e op)) = get_request rid e"
proof -
  obtain r where r: "dget (me_requests e) rid = Some r" "rq_status r \<noteq> PENDING"
    using assms(3) by (auto simp: decided_def get_request_def split: option.splits)
  show ?thesis
  proof (cases op)
    case (SubmitDecision now rid' aid d why md)
    show ?thesis
    proof (cases "rid' = rid")
      case True
      with r have "\<not> fst (validate_decision_submission rid' aid why e)"
        by (simp add: validate_decision_submission_True)
      then show ?thesis by (simp add: SubmitDecision submit_refused)
    next
      case False
      then show ?thesis
        using submit_decision_other [OF assms(1), of rid rid'] by (simp add: SubmitDecision get_request_def)
    qed
  next
    case (CreateRequest now rid' f pid)
    with assms(2) show ?thesis
      by (auto simp: get_request_def create_request_def Let_def mk_request_def split: option.splits)
  next
    case (CancelRequest now rid' why)
    with r engine_inv_request [OF assms(1)] show ?thesis
      by (auto simp: get_request_def cancel_request_def split: option.splits)
  qed (use r in \<open>simp_all add: get_request_def register_approver_def register_policy_def start_engine_def
         stop_engine_def process_pending_request_decided\<close>)
qed

interpretation requests: settling_machine engine_step "not_creating rid" engine_inv
  "\<lambda>_ :: unit. get_request rid" decided for rid
  by unfold_locales (rule engine_step_inv, assumption, rule engine_step_decided)

text \<open>A request its requester has approved, under a policy without self-approval.\<close>

definition self_approved :: "approval_request option \<Rightarrow> bool" where
  "self_approved v = (case v of None \<Rightarrow> False | Some r \<Rightarrow>
     \<not> po_allow_self_approval (rq_policy r) \<and> rq_status r \<noteq> APPROVED \<and>
     rq_requester_id r \<in> ad_approver_id ` set (approved_decisions (rq_decisions r)))"

lemma judged_self_approved:
  "self_approved (Some r) \<Longrightarrow> self_approved (Some (fst (judged e now r a d why md)))"
  by (auto simp: self_approved_def judged_def process_decision_result_eq policy_met_def record_decision_def
      approved_decisions_def)

lemma engine_step_self_approved:
  assumes "engine_inv e" "not_creating rid op" "self_approved (get_request rid e)"
  shows "self_approved (get_request rid (fst (engine_step e op)))"
proof -
  obtain r where r: "dget (me_requests e) rid = Some r" "self_approved (Some r)"
    using assms(3) by (auto simp: self_approved_def get_request_def split: option.splits)
  note id = engine_inv_request [OF assms(1)]
  show ?thesis
  proof (cases op)
    case (SubmitDecision now rid' aid d why md)
    show ?thesis
    proof (cases "fst (validate_decision_submission rid' aid why e) \<and> rid' = rid")
      case True
      then have ok: "fst (validate_decision_submission rid' aid why e)" and rid: "rid' = rid"
        by blast+
      show ?thesis
        by (rule submit_accepted [OF assms(1) ok, of now d md])
          (use r in \<open>simp add: SubmitDecision rid get_request_def judged_self_approved\<close>)
    next
      case False
      then show ?thesis
        using assms(3) submit_decision_other [OF assms(1), of rid rid']
        by (auto simp: SubmitDecision get_request_def submit_refused)
    qed
  next
    case (CreateRequest now rid' f pid)
    with assms(2,3) show ?thesis
      by (auto simp: get_request_def create_request_def Let_def mk_request_def split: option.splits)
  next
    case (CancelRequest now rid' why)
    with r id show ?thesis
      by (auto simp: get_request_def cancel_request_def self_approved_def split: option.splits)
  qed (use r in \<open>simp_all add: get_request_def register_approver_def register_policy_def start_engine_def
         stop_engine_def self_approved_def\<close>)
qed

interpretation blocked_request: settling_machine engine_step "not_creating rid" engine_inv
  "\<lambda>_ :: unit. \<lambda>e. self_approved (get_request rid e)" "\<lambda>b. b" for rid
  by unfold_locales (rule engine_step_inv, assumption, simp add: engine_step_self_approved)

section \<open>Properties\<close>

text \<open>C9: The two implementations of the approval requirements, the policy's own and the independent
  validator the engine uses, return the same verdict and the same reason on every input, and the
  verdict is what the policy says: enough approvals, none by the requester unless allowed, and the
  required roles covered by registered approvers.\<close>

theorem approval_validators_agree:
  "validate_approvals p ds approvers requester = validate_approvers p ds approvers requester \<and>
   fst (validate_approvals p ds approvers requester) = policy_met p ds approvers requester"
proof -
  have "validate_approvals p ds approvers requester = validate_approvers p ds approvers requester"
    unfolding validate_approvals_def validate_approvers_def approved_decisions_alt Let_def
      check_minimum_approvers_def check_self_approval_def check_required_roles_def
      check_all_roles_required_def check_any_role_required_def any_role_eq
    by simp
  then show ?thesis by (simp add: validate_approvals_iff [symmetric])
qed

text \<open>C3: No request is approved without the approvals its policy asks for: in every state the engine
  can reach, an approved request was either low-risk under an auto-approving policy, or carries at
  least \<open>min_approvers\<close> approvals by pairwise distinct approvers, none of them the requester unless the
  policy allows it, nobody rejected it, and every decision has its reasoning where the policy requires
  one.\<close>

theorem approved_request_is_justified:
  assumes "get_request rid (run engine_step mk_engine ops) = Some r" and "rq_status r = APPROVED"
  shows "nobody_rejected r \<and> distinct (map ad_approver_id (rq_decisions r)) \<and>
    (auto_approved r \<or>
       po_min_approvers (rq_policy r) \<le> int (length (approved_decisions (rq_decisions r))) \<and>
       (po_allow_self_approval (rq_policy r)
          \<or> rq_requester_id r \<notin> ad_approver_id ` set (approved_decisions (rq_decisions r)))) \<and>
    (po_require_reasoning (rq_policy r) \<longrightarrow> list_all (\<lambda>d. py_strip (ad_reasoning d) \<noteq> []) (rq_decisions r))"
  using engine_inv_request [OF reachable_engine, of ops rid r] assms
  by (simp add: get_request_def request_inv_def enough_approvals_def)

definition sample_approver :: "string \<Rightarrow> approver_role \<Rightarrow> approver" where
  "sample_approver i role = \<lparr>ap_id = i, ap_name = i, ap_email = i, ap_roles = [role], ap_slack_id = None,
     ap_teams_id = None, ap_timezone = ''UTC'', ap_is_active = True\<rparr>"

definition sample_fields :: request_fields where
  "sample_fields = \<lparr>rf_request_type = ''deploy'', rf_requester_id = ''ada'', rf_requester_name = ''Ada'',
     rf_tenant_id = ''t'', rf_title = ''release'', rf_description = [], rf_risk_score = 4 / 10,
     rf_payload = [], rf_metadata = None\<rparr>"

definition sample_run :: "engine_op list" where
  "sample_run =
     [RegisterApprover (sample_approver ''bob'' TENANT_ADMIN), RegisterApprover (sample_approver ''ada'' TENANT_ADMIN),
      CreateRequest 0 ''r'' sample_fields None]"

lemma sample_run_result:
  "run engine_step mk_engine sample_run =
     \<lparr>me_requests = [(''r'', mk_request 0 ''r'' sample_fields (snd (DEFAULT_POLICIES ! 3)) PENDING)],
      me_approvers = [(''bob'', sample_approver ''bob'' TENANT_ADMIN), (''ada'', sample_approver ''ada'' TENANT_ADMIN)],
      me_policies = DEFAULT_POLICIES, me_running = False\<rparr>"
  by (simp add: sample_run_def mk_engine_def register_approver_def create_request_def sample_approver_def
      select_policy_for_risk_def sample_fields_def DEFAULT_POLICIES_def mk_policy_def put_request_def mk_request_def Let_def)

lemmas sample_simps =
  sample_run_result run_append submit_decision_def begin_decision_def finish_decision_def
  validate_decision_submission_def process_decision_result_def validate_approvals_def put_request_def
  record_decision_def create_approval_decision_def mk_request_def sample_approver_def sample_fields_def
  DEFAULT_POLICIES_def mk_policy_def get_request_def py_strip_def py_isspace_def Let_def

theorem approved_request_is_justified_witness:
  "\<exists>r. nobody_rejected r \<and> distinct (map ad_approver_id (rq_decisions r)) \<and>
    (auto_approved r \<or>
       po_min_approvers (rq_policy r) \<le> int (length (approved_decisions (rq_decisions r))) \<and>
       (po_allow_self_approval (rq_policy r)
          \<or> rq_requester_id r \<notin> ad_approver_id ` set (approved_decisions (rq_decisions r)))) \<and>
    (po_require_reasoning (rq_policy r) \<longrightarrow> list_all (\<lambda>d. py_strip (ad_reasoning d) \<noteq> []) (rq_decisions r))"
proof -
  let ?ops = "sample_run @ [SubmitDecision 1 ''r'' ''bob'' APPROVED ''fine'' None]"
  have "map_option rq_status (get_request ''r'' (run engine_step mk_engine ?ops)) = Some APPROVED"
    by (simp add: sample_simps)
  then obtain r where "get_request ''r'' (run engine_step mk_engine ?ops) = Some r" "rq_status r = APPROVED"
    by auto
  from approved_request_is_justified [OF this] show ?thesis by (rule exI)
qed

text \<open>C8: The verdict on a decision, on every branch, in every reachable state: a submission is accepted
  exactly when the request is pending, the approver registered, has not decided before and gives a
  reason where one is required; a refused one changes nothing; an accepted one is appended to the
  request, which becomes rejected if it rejects, else approved exactly when its policy is now met, else
  stays pending.\<close>

theorem submit_decision_decides:
  "let e = run engine_step mk_engine ops; (e', ok, msg) = submit_decision now rid aid d why md e
   in (if \<exists>r a. get_request rid e = Some r \<and> rq_status r = PENDING \<and> dget (me_approvers e) aid = Some a \<and>
          aid \<notin> ad_approver_id ` set (rq_decisions r) \<and> (if po_require_reasoning (rq_policy r) then py_strip why \<noteq> [] else True)
       then ok \<and> (\<exists>r dec r'. get_request rid e = Some r \<and> get_request rid e' = Some r' \<and>
          ad_approver_id dec = aid \<and> ad_decision dec = d \<and> rq_decisions r' = rq_decisions r @ [dec] \<and>
          rq_status r' = (if d = REJECTED then REJECTED
             else if policy_met (rq_policy r) (rq_decisions r @ [dec]) (me_approvers e) (rq_requester_id r)
             then APPROVED else PENDING))
       else \<not> ok \<and> e' = e)"
proof -
  let ?e = "run engine_step mk_engine ops"
  have cond: "(\<exists>r a. get_request rid ?e = Some r \<and> rq_status r = PENDING \<and> dget (me_approvers ?e) aid = Some a \<and>
      aid \<notin> ad_approver_id ` set (rq_decisions r) \<and> (if po_require_reasoning (rq_policy r) then py_strip why \<noteq> [] else True))
      = fst (validate_decision_submission rid aid why ?e)"
    by (auto simp: validate_decision_submission_True get_request_def)
  show ?thesis
  proof (cases "fst (validate_decision_submission rid aid why ?e)")
    case False
    then show ?thesis
      unfolding Let_def cond by (simp add: submit_refused split_beta)
  next
    case True
    show ?thesis
      unfolding Let_def cond
    proof (rule submit_accepted [OF reachable_engine True, of now d md])
      fix r :: approval_request and a :: approver
      assume r: "dget (me_requests ?e) rid = Some r" "rq_id r = rid" "ap_id a = aid" "rq_status r = PENDING"
        and s: "submit_decision now rid aid d why md ?e =
          (put_request (fst (judged ?e now r a d why md)) ?e, snd (judged ?e now r a d why md))"
      let ?dec = "create_approval_decision now a d why md"
      have "ad_approver_id ?dec = aid \<and> ad_decision ?dec = d"
        using r by (simp add: create_approval_decision_def)
      moreover have "fst (snd (judged ?e now r a d why md))"
        by (simp add: judged_def process_decision_result_eq)
      moreover have "rq_status (fst (judged ?e now r a d why md)) = (if d = REJECTED then REJECTED
          else if policy_met (rq_policy r) (rq_decisions r @ [?dec]) (me_approvers ?e) (rq_requester_id r)
          then APPROVED else PENDING)"
        using r by (simp add: judged_def process_decision_result_eq record_decision_def)
      ultimately show "case submit_decision now rid aid d why md ?e of (e', ok, msg) \<Rightarrow>
          if fst (validate_decision_submission rid aid why ?e)
          then ok \<and> (\<exists>r dec r'. get_request rid ?e = Some r \<and> get_request rid e' = Some r' \<and>
            ad_approver_id dec = aid \<and> ad_decision dec = d \<and> rq_decisions r' = rq_decisions r @ [dec] \<and>
            rq_status r' = (if d = REJECTED then REJECTED
               else if policy_met (rq_policy r) (rq_decisions r @ [dec]) (me_approvers ?e) (rq_requester_id r)
               then APPROVED else PENDING))
          else \<not> ok \<and> e' = ?e"
        using True r s by (auto simp: get_request_def split_beta)
    qed
  qed
qed

text \<open>A decided request is final: once it is approved, rejected, timed out or cancelled, no later
  call, escalation pass included, changes anything of it.\<close>

theorem decided_request_is_final:
  assumes "get_request rid (run engine_step mk_engine ops) = Some r" and "rq_status r \<noteq> PENDING"
    and "list_all (not_creating rid) later"
  shows "get_request rid (run engine_step mk_engine (ops @ later)) = Some r"
  using requests.run_settled [OF reachable_engine assms(3), of ops] assms(1,2)
  by (simp add: run_append decided_def)

theorem decided_request_is_final_witness:
  "\<exists>r. get_request ''r'' (run engine_step mk_engine ((sample_run @ [CancelRequest 1 ''r'' ''no''])
        @ [SubmitDecision 2 ''r'' ''bob'' APPROVED ''fine'' None, ProcessPending 999999])) = Some r"
proof -
  let ?ops = "sample_run @ [CancelRequest 1 ''r'' ''no'']"
  have "map_option rq_status (get_request ''r'' (run engine_step mk_engine ?ops)) = Some CANCELLED"
    by (simp add: sample_simps cancel_request_def)
  then obtain r where r: "get_request ''r'' (run engine_step mk_engine ?ops) = Some r" "rq_status r \<noteq> PENDING"
    by auto
  show ?thesis
    by (rule exI, rule decided_request_is_final [OF r]) simp
qed

text \<open>C15: An approval by the requester blocks the request for ever: under a policy without
  self-approval, once the requester's own approval is recorded on a request that is not approved, no
  later calls, whoever approves, can get it approved, because the recorded decision can neither be
  withdrawn nor is it left out of the count.\<close>

theorem self_approval_blocks:
  assumes "self_approved (get_request rid (run engine_step mk_engine ops))"
    and "list_all (not_creating rid) later"
  shows "\<exists>r. get_request rid (run engine_step mk_engine (ops @ later)) = Some r \<and> rq_status r \<noteq> APPROVED"
  using blocked_request.run_settled [OF reachable_engine assms(2), of ops] assms(1)
  by (auto simp: run_append self_approved_def split: option.splits)

theorem self_approval_blocks_witness:
  "\<exists>r. get_request ''r'' (run engine_step mk_engine
        ((sample_run @ [SubmitDecision 1 ''r'' ''ada'' APPROVED ''mine'' None])
           @ [SubmitDecision 2 ''r'' ''bob'' APPROVED ''fine'' None])) = Some r \<and> rq_status r \<noteq> APPROVED"
  by (rule self_approval_blocks)
    (simp_all add: sample_simps self_approved_def approved_decisions_def)

text \<open>A suspended approval overturns a later verdict: the second half of \<open>submit_decision\<close> does not
  look at the status again, so if the policy is met when it runs, the request ends approved even if it
  has been rejected, cancelled or timed out while the notifications were being sent.\<close>

theorem suspended_approval_overturns:
  assumes "get_request rid e = Some r" and "rq_id r = rid" and "d \<noteq> REJECTED"
    and "policy_met (rq_policy r) (rq_decisions r) (me_approvers e) (rq_requester_id r)"
  shows "snd (finish_decision rid d e) = (True, RequestApproved) \<and>
    map_option rq_status (get_request rid (fst (finish_decision rid d e))) = Some APPROVED"
  using assms by (simp add: finish_decision_def get_request_def process_decision_result_eq)

definition suspended_state :: workflow_engine where
  "suspended_state =
     (let e = run engine_step mk_engine sample_run;
          e1 = fst (begin_decision 1 ''r'' ''bob'' APPROVED ''fine'' None e);
          e2 = fst (cancel_request 2 ''r'' ''withdrawn'' e1)
      in e2)"

theorem suspended_approval_overturns_witness:
  "map_option rq_status (get_request ''r'' suspended_state) = Some CANCELLED \<and>
   map_option rq_status (get_request ''r'' (fst (finish_decision ''r'' APPROVED suspended_state))) = Some APPROVED"
proof -
  have s: "get_request ''r'' suspended_state = Some r \<Longrightarrow>
      rq_id r = ''r'' \<and> rq_status r = CANCELLED \<and>
      policy_met (rq_policy r) (rq_decisions r) (me_approvers suspended_state) (rq_requester_id r)" for r
    by (auto simp: suspended_state_def sample_simps cancel_request_def policy_met_def approved_decisions_def
        role_approved_def has_role_def)
  obtain r where r: "get_request ''r'' suspended_state = Some r"
    by (simp add: suspended_state_def sample_simps cancel_request_def)
  from s [OF r] suspended_approval_overturns [OF r, of APPROVED] r show ?thesis by simp
qed

definition level_for :: "rat \<Rightarrow> rat \<Rightarrow> escalation_level" where
  "level_for h interval = (if h \<ge> 3 * interval then EXECUTIVE else if h \<ge> 2 * interval then LEVEL_3
     else if h \<ge> interval then LEVEL_2 else LEVEL_1)"

lemma check_and_handle_escalation_eq:
  "check_and_handle_escalation now r =
     (let l = level_for ((now - rq_created_at r) / 3600) (po_escalation_hours (rq_policy r))
      in if escalation_value (rq_escalation_level r) < escalation_value l then r\<lparr>rq_escalation_level := l\<rparr> else r)"
proof -
  have c: "calculate_escalation_level now r =
      (let l = level_for ((now - rq_created_at r) / 3600) (po_escalation_hours (rq_policy r))
       in if l = LEVEL_1 then None else Some l)"
    unfolding calculate_escalation_level_def level_for_def Let_def by (simp add: mult.commute)
  show ?thesis
    unfolding check_and_handle_escalation_def c Let_def
    by (cases "rq_escalation_level r") auto
qed

text \<open>A pass of the escalation loop times out exactly the pending requests whose deadline has
  passed, leaves every decided request alone, and never lowers an escalation level: a pending request
  that stays pending is at least at the level its age calls for.\<close>

theorem escalation_pass:
  "get_request rid (process_pending_requests now e) =
     map_option (\<lambda>r. if rq_status r \<noteq> PENDING then r
          else if \<exists>t. rq_deadline r = Some t \<and> t < now then r\<lparr>rq_status := TIMEOUT\<rparr>
          else (let l = level_for ((now - rq_created_at r) / 3600) (po_escalation_hours (rq_policy r))
                in if escalation_value (rq_escalation_level r) < escalation_value l
                   then r\<lparr>rq_escalation_level := l\<rparr> else r)) (get_request rid e)"
proof -
  have "process_pending_request now r =
      (if rq_status r \<noteq> PENDING then r
       else if \<exists>t. rq_deadline r = Some t \<and> t < now then r\<lparr>rq_status := TIMEOUT\<rparr>
       else check_and_handle_escalation now r)" for r
    by (cases "rq_deadline r") (simp_all add: process_pending_request_def check_and_handle_timeout_def)
  then show ?thesis
    unfolding get_request_def process_pending_requests_lookup check_and_handle_escalation_eq by presburger
qed

end
