(* ===== verification/Voting.thy ===== *)
theory Voting
  imports Machine
begin

text \<open>
  \<^verbatim>\<open>src/deliberation_layer/voting_service.py\<close>: elections with weighted votes. The service is
  modelled with its in-memory store (\<open>force_in_memory\<close>, or no election store to be had); the Redis
  store and the event bus are not modelled. Since publishing to the bus suspends \<open>cast_vote\<close> between
  the eligibility check and the storing of the vote, these two halves are also separate operations.
  Default timeout (from the settings, if any), election identifier and clock are arguments.
\<close>

section \<open>Data\<close>

datatype voting_strategy = QUORUM | UNANIMOUS | SUPER_MAJORITY

fun strategy_value :: "voting_strategy \<Rightarrow> string" where
  "strategy_value QUORUM = ''quorum''"
| "strategy_value UNANIMOUS = ''unanimous''"
| "strategy_value SUPER_MAJORITY = ''super-majority''"

definition parse_strategy :: "string \<Rightarrow> voting_strategy option" where
  "parse_strategy s = find (\<lambda>x. strategy_value x = s) [QUORUM, UNANIMOUS, SUPER_MAJORITY]"

record vote =
  vt_agent_id :: string
  vt_decision :: string
  vt_reason :: "string option"
  vt_timestamp :: rat

record election =
  el_election_id :: string
  el_message_id :: string
  el_tenant_id :: string
  el_strategy :: string
  el_participants :: "string list"
  el_participant_weights :: "(string, rat) dict"
  el_votes :: "(string, vote) dict"
  el_status :: string
  el_created_at :: rat
  el_expires_at :: rat
  el_adaptive_quorum :: json_dict
  el_required_approval_weight :: "rat option"
  el_result :: "string option"
  el_resolved_at :: "rat option"

record voting_service =
  vs_default_strategy :: voting_strategy
  vs_elections :: "(string, election) dict"

definition mk_voting_service :: "voting_strategy \<Rightarrow> voting_service" where
  "mk_voting_service s = \<lparr>vs_default_strategy = s, vs_elections = []\<rparr>"

section \<open>Creating an election\<close>

text \<open>\<open>isinstance(x, (int, float))\<close>, which a boolean passes too.\<close>

fun json_number :: "json option \<Rightarrow> rat option" where
  "json_number (Some (JInt i)) = Some (of_int i)"
| "json_number (Some (JNum r)) = Some r"
| "json_number (Some (JBool b)) = Some (if b then 1 else 0)"
| "json_number _ = None"

definition create_election ::
  "rat \<Rightarrow> string \<Rightarrow> rat option \<Rightarrow> string \<Rightarrow> string option \<Rightarrow> string list \<Rightarrow> rat option
     \<Rightarrow> (string, rat) dict option \<Rightarrow> json_dict option \<Rightarrow> voting_service \<Rightarrow> voting_service" where
  "create_election now eid settings_timeout message_id tenant_id participants timeout weights quorum svc =
     (let timeout = (case timeout of Some t \<Rightarrow> t
                     | None \<Rightarrow> (case settings_timeout of Some t \<Rightarrow> t | None \<Rightarrow> 300));
          ws = (case weights of None \<Rightarrow> [] | Some w \<Rightarrow> w);
          el = \<lparr>el_election_id = eid, el_message_id = message_id,
                el_tenant_id = (if truthy_str tenant_id then the tenant_id else ''default''),
                el_strategy = strategy_value (vs_default_strategy svc), el_participants = participants,
                el_participant_weights = fold (\<lambda>p d. dset p (dget_default ws p 1) d) participants [],
                el_votes = [], el_status = ''OPEN'', el_created_at = now, el_expires_at = now + timeout,
                el_adaptive_quorum = (case quorum of None \<Rightarrow> [] | Some q \<Rightarrow> q),
                el_required_approval_weight =
                  (case quorum of None \<Rightarrow> None | Some q \<Rightarrow> json_number (dget q ''required_votes'')),
                el_result = None, el_resolved_at = None\<rparr>
      in svc\<lparr>vs_elections := dset eid el (vs_elections svc)\<rparr>)"

section \<open>Resolution\<close>

definition get_voting_strategy :: "voting_strategy \<Rightarrow> election \<Rightarrow> voting_strategy" where
  "get_voting_strategy dflt el = (case parse_strategy (el_strategy el) of None \<Rightarrow> dflt | Some s \<Rightarrow> s)"

definition weight_of :: "election \<Rightarrow> string \<Rightarrow> rat" where
  "weight_of el agent = dget_default (el_participant_weights el) agent 1"

definition weight_for :: "string \<Rightarrow> election \<Rightarrow> rat" where
  "weight_for decision el =
     sum_list (map (\<lambda>v. weight_of el (vt_agent_id v))
       (filter (\<lambda>v. vt_decision v = decision) (dvalues (el_votes el))))"

definition calculate_vote_weights :: "election \<Rightarrow> rat \<times> rat \<times> rat" where
  "calculate_vote_weights el =
     (weight_for ''APPROVE'' el, weight_for ''DENY'' el, sum_list (map (weight_of el) (el_participants el)))"

definition check_quorum_resolution :: "rat \<Rightarrow> rat \<Rightarrow> rat \<Rightarrow> rat option \<Rightarrow> bool \<times> string" where
  "check_quorum_resolution approvals denials all_weight required =
     (let approval_threshold = (case required of Some r \<Rightarrow> r | None \<Rightarrow> all_weight / 2)
      in if approvals > all_weight / 2 \<and> required = None then (True, ''APPROVE'')
         else if required \<noteq> None \<and> approvals \<ge> approval_threshold then (True, ''APPROVE'')
         else if required \<noteq> None \<and> all_weight - denials < approval_threshold then (True, ''DENY'')
         else if denials \<ge> all_weight / 2 then (True, ''DENY'')
         else (False, ''DENY''))"

definition check_unanimous_resolution :: "rat \<Rightarrow> rat \<Rightarrow> rat \<Rightarrow> bool \<times> string" where
  "check_unanimous_resolution approvals denials all_weight =
     (if approvals \<ge> all_weight then (True, ''APPROVE'')
      else if denials > 0 then (True, ''DENY'') else (False, ''DENY''))"

definition check_super_majority_resolution :: "rat \<Rightarrow> rat \<Rightarrow> rat \<Rightarrow> bool \<times> string" where
  "check_super_majority_resolution approvals denials all_weight =
     (if approvals \<ge> all_weight * 2 / 3 then (True, ''APPROVE'')
      else if denials > all_weight / 3 then (True, ''DENY'') else (False, ''DENY''))"

definition evaluate_strategy_resolution ::
  "voting_strategy \<Rightarrow> rat \<times> rat \<times> rat \<Rightarrow> rat option \<Rightarrow> bool \<times> string" where
  "evaluate_strategy_resolution s weights required =
     (case weights of (approvals, denials, all_weight) \<Rightarrow>
        (case s of
           QUORUM \<Rightarrow> check_quorum_resolution approvals denials all_weight required
         | UNANIMOUS \<Rightarrow> check_unanimous_resolution approvals denials all_weight
         | SUPER_MAJORITY \<Rightarrow> check_super_majority_resolution approvals denials all_weight))"

definition evaluate_election :: "voting_strategy \<Rightarrow> election \<Rightarrow> bool \<times> string" where
  "evaluate_election dflt el =
     evaluate_strategy_resolution (get_voting_strategy dflt el) (calculate_vote_weights el)
       (el_required_approval_weight el)"

definition finalize_election_result :: "rat \<Rightarrow> string \<Rightarrow> election \<Rightarrow> election" where
  "finalize_election_result now decision el =
     el\<lparr>el_status := ''CLOSED'', el_result := Some decision, el_resolved_at := Some now\<rparr>"

definition check_resolution :: "rat \<Rightarrow> string \<Rightarrow> voting_service \<Rightarrow> voting_service" where
  "check_resolution now eid svc =
     (case dget (vs_elections svc) eid of
        None \<Rightarrow> svc
      | Some el \<Rightarrow>
          (case evaluate_election (vs_default_strategy svc) el of
             (resolved, decision) \<Rightarrow>
               if resolved
               then svc\<lparr>vs_elections := dset eid (finalize_election_result now decision el) (vs_elections svc)\<rparr>
               else svc))"

section \<open>Voting\<close>

definition validate_vote_eligibility :: "string \<Rightarrow> vote \<Rightarrow> voting_service \<Rightarrow> election option" where
  "validate_vote_eligibility eid v svc =
     (case dget (vs_elections svc) eid of
        None \<Rightarrow> None
      | Some el \<Rightarrow>
          if el_status el \<noteq> ''OPEN'' then None
          else if vt_agent_id v \<notin> set (el_participants el) then None
          else Some el)"

definition store_vote :: "string \<Rightarrow> vote \<Rightarrow> voting_service \<Rightarrow> voting_service" where
  "store_vote eid v svc =
     (case dget (vs_elections svc) eid of
        None \<Rightarrow> svc
      | Some el \<Rightarrow>
          svc\<lparr>vs_elections := dset eid (el\<lparr>el_votes := dset (vt_agent_id v) v (el_votes el)\<rparr>) (vs_elections svc)\<rparr>)"

text \<open>What \<open>cast_vote\<close> does once the vote event is published.\<close>

definition finish_vote :: "rat \<Rightarrow> string \<Rightarrow> vote \<Rightarrow> voting_service \<Rightarrow> voting_service" where
  "finish_vote now eid v svc = check_resolution now eid (store_vote eid v svc)"

definition cast_vote :: "rat \<Rightarrow> string \<Rightarrow> vote \<Rightarrow> voting_service \<Rightarrow> voting_service \<times> bool" where
  "cast_vote now eid v svc =
     (case validate_vote_eligibility eid v svc of
        None \<Rightarrow> (svc, False)
      | Some el \<Rightarrow> (finish_vote now eid v svc, True))"

section \<open>Results\<close>

definition mark_election_expired :: "string \<Rightarrow> voting_service \<Rightarrow> voting_service" where
  "mark_election_expired eid svc =
     (case dget (vs_elections svc) eid of
        None \<Rightarrow> svc
      | Some el \<Rightarrow> svc\<lparr>vs_elections := dset eid (el\<lparr>el_status := ''EXPIRED''\<rparr>) (vs_elections svc)\<rparr>)"

definition check_and_update_expiration ::
  "rat \<Rightarrow> string \<Rightarrow> election \<Rightarrow> voting_service \<Rightarrow> voting_service \<times> string" where
  "check_and_update_expiration now eid el svc =
     (if el_status el \<noteq> ''OPEN'' then (svc, el_status el)
      else if now > el_expires_at el then (mark_election_expired eid svc, ''EXPIRED'')
      else (svc, el_status el))"

definition get_closed_election_result ::
  "rat \<Rightarrow> string \<Rightarrow> election \<Rightarrow> voting_service \<Rightarrow> voting_service \<times> string option" where
  "get_closed_election_result now eid el svc =
     (if truthy_str (el_result el) then (svc, el_result el)
      else (let svc' = check_resolution now eid svc
            in (svc', (case dget (vs_elections svc') eid of None \<Rightarrow> None | Some el' \<Rightarrow> el_result el'))))"

definition get_result_by_status ::
  "rat \<Rightarrow> string \<Rightarrow> election \<Rightarrow> string \<Rightarrow> voting_service \<Rightarrow> voting_service \<times> string option" where
  "get_result_by_status now eid el status svc =
     (if status = ''EXPIRED'' then (svc, Some ''DENY'')
      else if status = ''CLOSED'' then get_closed_election_result now eid el svc
      else (svc, None))"

definition get_result :: "rat \<Rightarrow> string \<Rightarrow> voting_service \<Rightarrow> voting_service \<times> string option" where
  "get_result now eid svc =
     (case dget (vs_elections svc) eid of
        None \<Rightarrow> (svc, None)
      | Some el \<Rightarrow>
          (case check_and_update_expiration now eid el svc of
             (svc', status) \<Rightarrow> get_result_by_status now eid el status svc'))"

section \<open>The service as a machine\<close>

datatype voting_op =
  CreateElection rat string "rat option" string "string option" "string list" "rat option"
    "(string, rat) dict option" "json_dict option"
| CastVote rat string vote
| GetResult rat string

fun voting_step :: "voting_service \<Rightarrow> voting_op \<Rightarrow> voting_service \<times> string option" where
  "voting_step svc (CreateElection now eid st mid tid ps timeout ws q) =
     (create_election now eid st mid tid ps timeout ws q svc, Some eid)"
| "voting_step svc (CastVote now eid v) = (fst (cast_vote now eid v svc), None)"
| "voting_step svc (GetResult now eid) = get_result now eid svc"

text \<open>An election: votes only by participants, each under its own name; open without a result, closed with
  the result the votes call for.\<close>

definition election_inv :: "voting_strategy \<Rightarrow> election \<Rightarrow> bool" where
  "election_inv dflt el \<longleftrightarrow>
     distinct (dkeys (el_votes el)) \<and>
     (\<forall>a v. dget (el_votes el) a = Some v \<longrightarrow> vt_agent_id v = a \<and> a \<in> set (el_participants el)) \<and>
     el_status el \<in> {''OPEN'', ''CLOSED'', ''EXPIRED''} \<and>
     (el_status el = ''CLOSED'' \<longrightarrow> (\<exists>d. el_result el = Some d \<and> evaluate_election dflt el = (True, d)))"

definition voting_inv :: "voting_service \<Rightarrow> bool" where
  "voting_inv svc \<longleftrightarrow>
     (\<forall>eid el. dget (vs_elections svc) eid = Some el \<longrightarrow> election_inv (vs_default_strategy svc) el)"

lemma evaluate_election_cong:
  "el_strategy el' = el_strategy el \<Longrightarrow> el_votes el' = el_votes el \<Longrightarrow>
   el_participants el' = el_participants el \<Longrightarrow> el_participant_weights el' = el_participant_weights el \<Longrightarrow>
   el_required_approval_weight el' = el_required_approval_weight el \<Longrightarrow>
   evaluate_election dflt el' = evaluate_election dflt el"
  by (simp add: evaluate_election_def get_voting_strategy_def calculate_vote_weights_def weight_for_def weight_of_def [abs_def])

lemma evaluate_election_simps [simp]:
  "evaluate_election dflt (el\<lparr>el_status := s\<rparr>) = evaluate_election dflt el"
  "evaluate_election dflt (finalize_election_result now d el) = evaluate_election dflt el"
  by (rule evaluate_election_cong; simp add: finalize_election_result_def)+

lemma create_election_inv: "voting_inv svc \<Longrightarrow> voting_inv (create_election now eid st mid tid ps timeout ws q svc)"
  by (auto simp: create_election_def Let_def voting_inv_def election_inv_def dict_simps)

text \<open>A cast vote, in one equation.\<close>

definition with_vote :: "vote \<Rightarrow> election \<Rightarrow> election" where
  "with_vote v el = el\<lparr>el_votes := dset (vt_agent_id v) v (el_votes el)\<rparr>"

definition resolve :: "voting_strategy \<Rightarrow> rat \<Rightarrow> election \<Rightarrow> election" where
  "resolve dflt now el =
     (if fst (evaluate_election dflt el) then finalize_election_result now (snd (evaluate_election dflt el)) el else el)"

lemma finish_vote_lookup:
  "dget (vs_elections (finish_vote now eid v svc)) eid' =
     (if eid' = eid then map_option (\<lambda>el. resolve (vs_default_strategy svc) now (with_vote v el)) (dget (vs_elections svc) eid)
      else dget (vs_elections svc) eid')"
  by (auto simp: finish_vote_def check_resolution_def store_vote_def with_vote_def resolve_def dict_simps
      split: option.splits prod.splits)

lemma finish_vote_strategy [simp]: "vs_default_strategy (finish_vote now eid v svc) = vs_default_strategy svc"
  by (auto simp: finish_vote_def check_resolution_def store_vote_def split: option.splits prod.splits)

lemma resolve_inv:
  "distinct (dkeys (el_votes el)) \<Longrightarrow>
   (\<forall>a v. dget (el_votes el) a = Some v \<longrightarrow> vt_agent_id v = a \<and> a \<in> set (el_participants el)) \<Longrightarrow>
   el_status el = ''OPEN'' \<Longrightarrow> election_inv dflt (resolve dflt now el)"
  using evaluate_election_simps(2) [of dflt now "snd (evaluate_election dflt el)" el]
  by (cases "evaluate_election dflt el") (auto simp: election_inv_def resolve_def finalize_election_result_def)

lemma cast_vote_inv:
  assumes "voting_inv svc"
  shows "voting_inv (fst (cast_vote now eid v svc))"
proof (cases "validate_vote_eligibility eid v svc")
  case None
  with assms show ?thesis by (simp add: cast_vote_def)
next
  case (Some el)
  then have el: "dget (vs_elections svc) eid = Some el" "el_status el = ''OPEN''" "vt_agent_id v \<in> set (el_participants el)"
    by (auto simp: validate_vote_eligibility_def split: option.splits if_splits)
  with assms have inv: "election_inv (vs_default_strategy svc) el" by (simp add: voting_inv_def)
  have "election_inv (vs_default_strategy svc) (resolve (vs_default_strategy svc) now (with_vote v el))"
    by (rule resolve_inv)
      (use inv el in \<open>auto simp: election_inv_def with_vote_def dict_simps simp del: set_map\<close>)
  with Some el assms show ?thesis
    by (auto simp: cast_vote_def voting_inv_def finish_vote_lookup)
qed

lemma mark_expired_inv:
  "voting_inv svc \<Longrightarrow> voting_inv (mark_election_expired eid svc)"
  by (auto simp: mark_election_expired_def voting_inv_def election_inv_def dict_simps split: option.splits)

lemma get_result_inv:
  assumes "voting_inv svc"
  shows "voting_inv (fst (get_result now eid svc))"
proof (cases "dget (vs_elections svc) eid")
  case None
  with assms show ?thesis by (simp add: get_result_def)
next
  case (Some el)
  with assms have "election_inv (vs_default_strategy svc) el" by (simp add: voting_inv_def)
  with Some assms mark_expired_inv [OF assms, of eid] show ?thesis
    by (auto simp: get_result_def check_and_update_expiration_def get_result_by_status_def election_inv_def
        get_closed_election_result_def evaluate_election_def evaluate_strategy_resolution_def
        check_quorum_resolution_def check_unanimous_resolution_def check_super_majority_resolution_def
        truthy_str_def Let_def split: prod.splits voting_strategy.splits if_splits)
qed

lemma voting_step_inv: "voting_inv svc \<Longrightarrow> voting_inv (fst (voting_step svc op))"
  by (cases op) (simp_all add: create_election_inv cast_vote_inv get_result_inv)

lemma mk_voting_inv: "voting_inv (mk_voting_service s)"
  by (simp add: voting_inv_def mk_voting_service_def)

text \<open>Calls that do not create an election under the given identifier (\<open>uuid4\<close> never repeats one).\<close>

fun not_electing :: "string \<Rightarrow> voting_op \<Rightarrow> bool" where
  "not_electing eid (CreateElection now eid' st mid tid ps timeout ws q) = (eid' \<noteq> eid)"
| "not_electing eid _ = True"

definition ended :: "election option \<Rightarrow> bool" where
  "ended v = (case v of None \<Rightarrow> False | Some el \<Rightarrow> el_status el \<noteq> ''OPEN'')"

definition get_election :: "string \<Rightarrow> voting_service \<Rightarrow> election option" where
  "get_election eid svc = dget (vs_elections svc) eid"

lemma voting_step_ended:
  assumes "voting_inv svc" "not_electing eid op" "ended (get_election eid svc)"
  shows "get_election eid (fst (voting_step svc op)) = get_election eid svc"
proof (cases op)
  case (CreateElection now eid' st mid tid ps timeout ws q)
  with assms(2) show ?thesis by (simp add: get_election_def create_election_def Let_def dict_simps)
next
  case (CastVote now eid' v)
  with assms(3) show ?thesis
    by (auto simp: get_election_def cast_vote_def finish_vote_lookup validate_vote_eligibility_def ended_def
        split: option.splits)
next
  case (GetResult now eid')
  have "election_inv (vs_default_strategy svc) el" if "dget (vs_elections svc) eid' = Some el" for el
    using assms(1) that by (simp add: voting_inv_def)
  with assms(3) GetResult show ?thesis
    by (auto simp: get_election_def ended_def get_result_def check_and_update_expiration_def get_result_by_status_def
        get_closed_election_result_def election_inv_def evaluate_election_def evaluate_strategy_resolution_def
        check_quorum_resolution_def check_unanimous_resolution_def check_super_majority_resolution_def truthy_str_def
        mark_election_expired_def dict_simps Let_def
        split: option.splits prod.splits voting_strategy.splits if_splits)
qed

interpretation elections: settling_machine voting_step "not_electing eid" voting_inv
  "\<lambda>_ :: unit. get_election eid" ended for eid
  by unfold_locales (rule voting_step_inv, assumption, rule voting_step_ended)

lemma voting_step_strategy: "vs_default_strategy (fst (voting_step svc op)) = vs_default_strategy svc"
  by (cases op)
    (auto simp: create_election_def cast_vote_def get_result_def check_and_update_expiration_def Let_def
      get_result_by_status_def get_closed_election_result_def check_resolution_def mark_election_expired_def
      split: option.splits prod.splits if_splits)

lemma reachable_strategy [simp]:
  "vs_default_strategy (run voting_step svc ops) = vs_default_strategy svc"
  by (induction ops arbitrary: svc) (simp_all add: voting_step_strategy)

interpretation voting: machine voting_step "\<lambda>_. True" voting_inv
  by unfold_locales (rule voting_step_inv)

lemma reachable_voting: "voting_inv (run voting_step (mk_voting_service s) ops)"
  by (rule voting.run_invar [OF mk_voting_inv]) (simp add: list_all_iff)

lemma reachable_election:
  "get_election eid (run voting_step (mk_voting_service s) ops) = Some el \<Longrightarrow> election_inv s el"
  using reachable_voting [of s ops] by (simp add: voting_inv_def get_election_def mk_voting_service_def)

end
