(* ===== verification/Voting_Theorems.thy ===== *)
theory Voting_Theorems
  imports Voting
begin

text \<open>
  What an election guarantees: only participants vote and each has one vote, a closed election has the
  result its votes call for, closing early is safe while the weights are non-negative, an ended election
  is final; and what it does not: the expiry is only noticed by \<open>get_result\<close>, and a vote suspended in
  the event bus can rewrite a result.
\<close>

section \<open>When votes justify a result\<close>

definition all_weight :: "election \<Rightarrow> rat" where
  "all_weight el = sum_list (map (weight_of el) (el_participants el))"

definition justifies :: "voting_strategy \<Rightarrow> election \<Rightarrow> string \<Rightarrow> bool" where
  "justifies s el d =
     (let approvals = weight_for ''APPROVE'' el; denials = weight_for ''DENY'' el; everyone = all_weight el
      in if d = ''APPROVE'' then
           (case s of
              QUORUM \<Rightarrow> (case el_required_approval_weight el of None \<Rightarrow> approvals > everyone / 2 | Some r \<Rightarrow> approvals \<ge> r)
            | UNANIMOUS \<Rightarrow> approvals \<ge> everyone
            | SUPER_MAJORITY \<Rightarrow> approvals \<ge> everyone * 2 / 3)
         else d = ''DENY'' \<and>
           (case s of
              QUORUM \<Rightarrow> denials \<ge> everyone / 2 \<or>
                (case el_required_approval_weight el of None \<Rightarrow> False | Some r \<Rightarrow> everyone - denials < r)
            | UNANIMOUS \<Rightarrow> denials > 0
            | SUPER_MAJORITY \<Rightarrow> denials > everyone / 3))"

lemma evaluate_justifies:
  "evaluate_election dflt el = (True, d) \<Longrightarrow> justifies (get_voting_strategy dflt el) el d"
  by (cases "get_voting_strategy dflt el"; cases "el_required_approval_weight el")
    (auto simp: evaluate_election_def evaluate_strategy_resolution_def calculate_vote_weights_def justifies_def
      check_quorum_resolution_def check_unanimous_resolution_def check_super_majority_resolution_def
      all_weight_def Let_def split: if_splits)

section \<open>Weights\<close>



definition valid_ballots :: "election \<Rightarrow> bool" where
  "valid_ballots el \<longleftrightarrow> distinct (dkeys (el_votes el)) \<and>
     (\<forall>a v. dget (el_votes el) a = Some v \<longrightarrow> vt_agent_id v = a \<and> a \<in> set (el_participants el))"


lemma ballot_names:
  assumes "valid_ballots el"
  shows "map vt_agent_id (dvalues (el_votes el)) = dkeys (el_votes el)"
    "set (dkeys (el_votes el)) \<subseteq> set (el_participants el)"
proof -
  have v: "vt_agent_id v = a \<and> a \<in> set (el_participants el)" if "(a, v) \<in> set (el_votes el)" for a v
    using assms that by (auto simp: valid_ballots_def)
  show "map vt_agent_id (dvalues (el_votes el)) = dkeys (el_votes el)"
    using v by (auto simp: case_prod_beta)
  show "set (dkeys (el_votes el)) \<subseteq> set (el_participants el)"
    using v by auto
qed



text \<open>The same election with further votes.\<close>

definition more_votes :: "(string, vote) dict \<Rightarrow> election \<Rightarrow> election" where
  "more_votes vs el = el\<lparr>el_votes := el_votes el @ vs\<rparr>"



section \<open>Properties\<close>

text \<open>C10: A closed election has the result its votes call for: in every reachable state each recorded
  vote is a participant's own and the only one under that name, an election is open, closed or expired,
  and a closed one carries a result, which the weights of the recorded votes justify under the strategy
  of the service.\<close>

theorem closed_election_is_justified:
  assumes "get_election eid (run voting_step (mk_voting_service s) ops) = Some el"
  shows "distinct (dkeys (el_votes el)) \<and>
    set (map vt_agent_id (dvalues (el_votes el))) \<subseteq> set (el_participants el) \<and>
    el_status el \<in> {''OPEN'', ''CLOSED'', ''EXPIRED''} \<and>
    (if el_status el = ''CLOSED''
     then \<exists>d. el_result el = Some d \<and> justifies (get_voting_strategy s el) el d else True)"
proof -
  have inv: "election_inv s el" by (rule reachable_election [OF assms])
  then have "valid_ballots el" by (simp add: election_inv_def valid_ballots_def)
  with inv ballot_names [of el] show ?thesis
    by (auto simp: election_inv_def intro: evaluate_justifies)
qed

definition ballot :: "string \<Rightarrow> string \<Rightarrow> vote" where
  "ballot a d = \<lparr>vt_agent_id = a, vt_decision = d, vt_reason = None, vt_timestamp = 0\<rparr>"

definition sample_votes :: "voting_op list" where
  "sample_votes =
     [CreateElection 0 ''e'' None ''m'' None [''a'', ''b'', ''c''] None None None,
      CastVote 1 ''e'' (ballot ''a'' ''APPROVE''), CastVote 2 ''e'' (ballot ''b'' ''APPROVE'')]"

lemmas voting_eval =
  sample_votes_def mk_voting_service_def create_election_def Let_def truthy_str_def dget_default_def
  cast_vote_def validate_vote_eligibility_def finish_vote_def store_vote_def check_resolution_def
  evaluate_election_def get_voting_strategy_def parse_strategy_def evaluate_strategy_resolution_def
  calculate_vote_weights_def weight_for_def weight_of_def check_quorum_resolution_def
  finalize_election_result_def ballot_def get_election_def

lemma sample_closed:
  "map_option (\<lambda>el. (el_status el, el_result el)) (get_election ''e'' (run voting_step (mk_voting_service QUORUM) sample_votes))
     = Some (''CLOSED'', Some ''APPROVE'')"
  by (simp add: voting_eval)

theorem closed_election_is_justified_witness:
  "\<exists>el. el_status el = ''CLOSED'' \<and> distinct (dkeys (el_votes el)) \<and>
    set (map vt_agent_id (dvalues (el_votes el))) \<subseteq> set (el_participants el) \<and>
    el_status el \<in> {''OPEN'', ''CLOSED'', ''EXPIRED''} \<and>
    (if el_status el = ''CLOSED''
     then \<exists>d. el_result el = Some d \<and> justifies (get_voting_strategy QUORUM el) el d else True)"
proof -
  obtain el where el: "get_election ''e'' (run voting_step (mk_voting_service QUORUM) sample_votes) = Some el"
    "el_status el = ''CLOSED''"
    using sample_closed by auto
  from closed_election_is_justified [OF el(1)] el(2) show ?thesis by blast
qed


definition two_of_three :: election where
  "two_of_three = \<lparr>el_election_id = ''e'', el_message_id = ''m'', el_tenant_id = ''t'', el_strategy = ''quorum'',
     el_participants = [''a'', ''b'', ''c''], el_participant_weights = [(''a'', 1), (''b'', 1), (''c'', 1)],
     el_votes = [(''a'', ballot ''a'' ''APPROVE''), (''b'', ballot ''b'' ''APPROVE'')], el_status = ''OPEN'',
     el_created_at = 0, el_expires_at = 300, el_adaptive_quorum = [], el_required_approval_weight = None,
     el_result = None, el_resolved_at = None\<rparr>"


text \<open>A required approval weight of at most half of all weight breaks this: a quorum election is then
  denied as soon as half of the weight denies, although the participants still to vote could reach the
  required weight.\<close>

theorem low_requirement_denied_early:
  assumes "get_voting_strategy dflt el = QUORUM" and "el_required_approval_weight el = Some r"
    and "weight_for ''APPROVE'' el < r" and "all_weight el / 2 \<le> weight_for ''DENY'' el"
  shows "evaluate_election dflt el = (True, ''DENY'')"
  using assms
  by (simp add: evaluate_election_def evaluate_strategy_resolution_def calculate_vote_weights_def
      check_quorum_resolution_def all_weight_def Let_def)

definition low_requirement :: election where
  "low_requirement = two_of_three\<lparr>el_participants := [''a'', ''b'', ''c'', ''d''],
     el_votes := [(''a'', ballot ''a'' ''DENY''), (''b'', ballot ''b'' ''DENY'')],
     el_required_approval_weight := Some 2\<rparr>"

theorem low_requirement_denied_early_witness:
  "evaluate_election QUORUM low_requirement = (True, ''DENY'') \<and>
   weight_for ''APPROVE'' (more_votes [(''c'', ballot ''c'' ''APPROVE''), (''d'', ballot ''d'' ''APPROVE'')] low_requirement) = 2"
proof -
  have "evaluate_election QUORUM low_requirement = (True, ''DENY'')"
    by (rule low_requirement_denied_early [of _ _ 2])
      (simp_all add: low_requirement_def two_of_three_def voting_eval all_weight_def)
  then show ?thesis
    by (simp add: low_requirement_def two_of_three_def more_votes_def weight_for_def weight_of_def ballot_def
        dget_default_def)
qed

text \<open>An ended election is final: once it is closed or expired, no vote and no query changes anything
  of it.\<close>

theorem ended_election_is_final:
  assumes "get_election eid (run voting_step (mk_voting_service s) ops) = Some el" and "el_status el \<noteq> ''OPEN''"
    and "list_all (not_electing eid) later"
  shows "get_election eid (run voting_step (mk_voting_service s) (ops @ later)) = Some el"
  using elections.run_settled [OF reachable_voting assms(3), of s ops] assms(1,2)
  by (simp add: run_append ended_def)

theorem ended_election_is_final_witness:
  "\<exists>el. get_election ''e'' (run voting_step (mk_voting_service QUORUM)
       (sample_votes @ [CastVote 3 ''e'' (ballot ''c'' ''DENY''), GetResult 999 ''e''])) = Some el \<and>
     el_result el = Some ''APPROVE''"
proof -
  obtain el where el: "get_election ''e'' (run voting_step (mk_voting_service QUORUM) sample_votes) = Some el"
    "el_status el = ''CLOSED''" "el_result el = Some ''APPROVE''"
    using sample_closed by auto
  have "get_election ''e'' (run voting_step (mk_voting_service QUORUM)
       (sample_votes @ [CastVote 3 ''e'' (ballot ''c'' ''DENY''), GetResult 999 ''e''])) = Some el"
    by (rule ended_election_is_final [OF el(1)]) (simp_all add: el(2))
  with el(3) show ?thesis by blast
qed

text \<open>The expiry is only noticed by \<open>get_result\<close>: a vote is accepted exactly when the election exists,
  is open and lists the voter, at whatever instant; so a late vote can still close an election that a
  query at the same instant would have expired and denied.\<close>

theorem expiry_not_checked_when_voting:
  "snd (cast_vote now eid v svc) =
     (\<exists>el. get_election eid svc = Some el \<and> el_status el = ''OPEN'' \<and> vt_agent_id v \<in> set (el_participants el)) \<and>
   (case get_election eid svc of
      None \<Rightarrow> snd (get_result now eid svc) = None
    | Some el \<Rightarrow> (if el_status el = ''OPEN'' \<and> el_expires_at el < now
                  then snd (get_result now eid svc) = Some ''DENY'' else True))"
  by (auto simp: cast_vote_def validate_vote_eligibility_def get_election_def get_result_def
      check_and_update_expiration_def get_result_by_status_def split: option.splits)

text \<open>A suspended vote rewrites a result: the second half of \<open>cast_vote\<close> does not look at the status
  again, so when it runs on an election that has ended meanwhile, the vote is stored all the same, and if
  the votes then resolve the election its status and result are overwritten.\<close>

theorem suspended_vote_rewrites:
  assumes "get_election eid svc = Some el"
    and "evaluate_election (vs_default_strategy svc) (with_vote v el) = (True, d)"
  shows "\<exists>el'. get_election eid (finish_vote now eid v svc) = Some el' \<and> el_result el' = Some d \<and>
    el_status el' = ''CLOSED'' \<and> el_votes el' = dset (vt_agent_id v) v (el_votes el)"
  using assms
  by (simp add: get_election_def finish_vote_lookup resolve_def finalize_election_result_def with_vote_def)

definition overtaken :: voting_service where
  "overtaken = finish_vote 3 ''e'' (ballot ''b'' ''DENY'') (run voting_step (mk_voting_service QUORUM) sample_votes)"

theorem suspended_vote_rewrites_witness:
  "map_option el_result (get_election ''e'' overtaken) = Some (Some ''APPROVE'') \<and>
   map_option el_result (get_election ''e'' (finish_vote 4 ''e'' (ballot ''c'' ''DENY'') overtaken)) = Some (Some ''DENY'')"
proof -
  have s: "vs_default_strategy overtaken = QUORUM"
    by (simp add: overtaken_def mk_voting_service_def)
  obtain el where el: "get_election ''e'' overtaken = Some el"
    "el_result el = Some ''APPROVE''"
    "evaluate_election QUORUM (with_vote (ballot ''c'' ''DENY'') el) = (True, ''DENY'')"
    by (simp add: overtaken_def voting_eval with_vote_def)
  show ?thesis
    using suspended_vote_rewrites [OF el(1), of "ballot ''c'' ''DENY''" "''DENY''" 4] el s by auto
qed

end
