(* ===== verification/Workflow_Store.thy ===== *)
theory Workflow_Store
  imports Machine
begin

text \<open>
  \<^verbatim>\<open>src/persistence/models.py\<close> and the workflow part of \<^verbatim>\<open>src/persistence/repository.py\<close>: workflow
  instances, steps, events, compensations, checkpoints, and the in-memory repository. A UUID is a
  number; who creates one takes the next number not used yet. The flywheel records the repository
  also keeps (decision events, snapshots, candidates, runs, evidence) are not modelled.

  The interface the executor and the replay engine rely on is the locale \<open>event_log\<close>: what the log of
  an instance is after an event has been saved.
\<close>

section \<open>Records\<close>

type_synonym uuid = nat

datatype workflow_status = WPENDING | WRUNNING | WCOMPLETED | WFAILED | WCANCELLED | WCOMPENSATING | WCOMPENSATED

datatype step_status =
  SPENDING | SEXECUTING | SCOMPLETED | SFAILED | SSKIPPED | SCOMPENSATING | SCOMPENSATED | SCOMPENSATION_FAILED

datatype step_type = ACTIVITY | DECISION | COMPENSATION | CHECKPOINT | WAIT

datatype event_type =
  WORKFLOW_STARTED | WORKFLOW_COMPLETED | WORKFLOW_FAILED | WORKFLOW_CANCELLED
| STEP_STARTED | STEP_COMPLETED | STEP_FAILED
| COMPENSATION_STARTED | COMPENSATION_COMPLETED | COMPENSATION_FAILED
| CHECKPOINT_CREATED | CHECKPOINT_RESTORED | TIMER_FIRED | SIGNAL_RECEIVED

record workflow_instance =
  wi_id :: uuid
  wi_workflow_type :: string
  wi_workflow_id :: string
  wi_tenant_id :: string
  wi_status :: workflow_status
  wi_input :: "json_dict option"
  wi_output :: "json option"
  wi_error :: "string option"
  wi_started_at :: "rat option"
  wi_completed_at :: "rat option"
  wi_constitutional_hash :: string
  wi_created_at :: rat
  wi_updated_at :: rat

record workflow_step =
  ws_id :: uuid
  ws_workflow_instance_id :: uuid
  ws_step_name :: string
  ws_step_type :: step_type
  ws_status :: step_status
  ws_input :: "json_dict option"
  ws_output :: "json option"
  ws_error :: "string option"
  ws_idempotency_key :: "string option"
  ws_attempt_count :: nat
  ws_started_at :: "rat option"
  ws_completed_at :: "rat option"
  ws_created_at :: rat

record workflow_event =
  we_workflow_instance_id :: uuid
  we_event_type :: event_type
  we_event_data :: json_dict
  we_sequence_number :: nat
  we_timestamp :: rat

record workflow_compensation =
  wc_id :: uuid
  wc_workflow_instance_id :: uuid
  wc_step_id :: uuid
  wc_compensation_name :: string
  wc_status :: step_status
  wc_input :: "json_dict option"
  wc_output :: "json option"
  wc_error :: "string option"
  wc_executed_at :: "rat option"
  wc_created_at :: rat

text \<open>The state of a checkpoint: the input of the workflow and the stack of compensations.\<close>

record checkpoint_data =
  cd_workflow_instance_id :: uuid
  cd_checkpoint_id :: uuid
  cd_step_index :: nat
  cd_workflow_input :: "json_dict option"
  cd_compensation_stack :: "workflow_compensation list"
  cd_created_at :: rat

section \<open>The in-memory repository\<close>

record repository =
  wr_workflows :: "(uuid, workflow_instance) dict"
  wr_steps :: "(uuid, workflow_step) dict"
  wr_events :: "(uuid, workflow_event list) dict"
  wr_compensations :: "(uuid, workflow_compensation list) dict"
  wr_checkpoints :: "(uuid, checkpoint_data list) dict"

definition empty_repository :: repository where
  "empty_repository = \<lparr>wr_workflows = [], wr_steps = [], wr_events = [], wr_compensations = [], wr_checkpoints = []\<rparr>"

definition save_workflow :: "workflow_instance \<Rightarrow> repository \<Rightarrow> repository" where
  "save_workflow i r = r\<lparr>wr_workflows := dset (wi_id i) i (wr_workflows r)\<rparr>"

definition get_workflow :: "repository \<Rightarrow> uuid \<Rightarrow> workflow_instance option" where
  "get_workflow r i = dget (wr_workflows r) i"

definition get_workflow_by_business_id :: "repository \<Rightarrow> string \<Rightarrow> string \<Rightarrow> workflow_instance option" where
  "get_workflow_by_business_id r workflow_id tenant_id =
     find (\<lambda>wf. wi_workflow_id wf = workflow_id \<and> wi_tenant_id wf = tenant_id) (dvalues (wr_workflows r))"

definition save_step :: "workflow_step \<Rightarrow> repository \<Rightarrow> repository" where
  "save_step s r = r\<lparr>wr_steps := dset (ws_id s) s (wr_steps r)\<rparr>"

definition get_step_by_idempotency_key :: "repository \<Rightarrow> uuid \<Rightarrow> string \<Rightarrow> workflow_step option" where
  "get_step_by_idempotency_key r i key =
     find (\<lambda>s. ws_workflow_instance_id s = i \<and> ws_idempotency_key s = Some key) (dvalues (wr_steps r))"

definition get_steps :: "repository \<Rightarrow> uuid \<Rightarrow> workflow_step list" where
  "get_steps r i = sort_key ws_created_at (filter (\<lambda>s. ws_workflow_instance_id s = i) (dvalues (wr_steps r)))"

definition save_event :: "workflow_event \<Rightarrow> repository \<Rightarrow> repository" where
  "save_event e r =
     (let i = we_workflow_instance_id e
      in r\<lparr>wr_events := dset i (dget_default (wr_events r) i [] @ [e]) (wr_events r)\<rparr>)"

definition get_events :: "repository \<Rightarrow> uuid \<Rightarrow> workflow_event list" where
  "get_events r i = sort_key we_sequence_number (dget_default (wr_events r) i [])"

definition get_next_sequence :: "repository \<Rightarrow> uuid \<Rightarrow> nat" where
  "get_next_sequence r i =
     (let es = dget_default (wr_events r) i []
      in if es = [] then 1 else Max (set (map we_sequence_number es)) + 1)"

text \<open>\<open>idx\<close> is the first position holding a compensation equal to the one found by its identifier.\<close>

fun replace_first :: "('a \<Rightarrow> bool) \<Rightarrow> 'a \<Rightarrow> 'a list \<Rightarrow> 'a list" where
  "replace_first P y [] = []"
| "replace_first P y (x # xs) = (if P x then y # xs else x # replace_first P y xs)"

definition save_compensation :: "workflow_compensation \<Rightarrow> repository \<Rightarrow> repository" where
  "save_compensation c r =
     (let i = wc_workflow_instance_id c; cs = dget_default (wr_compensations r) i []
      in r\<lparr>wr_compensations :=
             dset i (if list_ex (\<lambda>d. wc_id d = wc_id c) cs then replace_first (\<lambda>d. wc_id d = wc_id c) c cs
                     else cs @ [c]) (wr_compensations r)\<rparr>)"

definition get_compensations :: "repository \<Rightarrow> uuid \<Rightarrow> workflow_compensation list" where
  "get_compensations r i = dget_default (wr_compensations r) i []"

text \<open>
  \<open>get_compensations\<close> returns the list of the repository itself, so \<open>compensations.reverse()\<close> reverses
  the stored list (a fresh empty list when there is none).
\<close>

definition reverse_compensations :: "uuid \<Rightarrow> repository \<Rightarrow> repository" where
  "reverse_compensations i r =
     (case dget (wr_compensations r) i of
        None \<Rightarrow> r
      | Some cs \<Rightarrow> r\<lparr>wr_compensations := dset i (rev cs) (wr_compensations r)\<rparr>)"

definition save_checkpoint :: "checkpoint_data \<Rightarrow> repository \<Rightarrow> repository" where
  "save_checkpoint c r =
     (let i = cd_workflow_instance_id c
      in r\<lparr>wr_checkpoints := dset i (dget_default (wr_checkpoints r) i [] @ [c]) (wr_checkpoints r)\<rparr>)"

text \<open>\<open>max(checkpoints, key=...)\<close>: the first of the greatest.\<close>

definition get_latest_checkpoint :: "repository \<Rightarrow> uuid \<Rightarrow> checkpoint_data option" where
  "get_latest_checkpoint r i =
     (case dget_default (wr_checkpoints r) i [] of
        [] \<Rightarrow> None
      | c # cs \<Rightarrow> Some (fold (\<lambda>d best. if cd_created_at best < cd_created_at d then d else best) cs c))"

definition list_workflows :: "repository \<Rightarrow> string \<Rightarrow> workflow_status option \<Rightarrow> nat \<Rightarrow> workflow_instance list" where
  "list_workflows r tenant_id status limit =
     take limit (rev (sort_key wi_created_at (rev
       (filter (\<lambda>wf. wi_tenant_id wf = tenant_id \<and> (status = None \<or> Some (wi_status wf) = status))
         (dvalues (wr_workflows r))))))"

lemmas repository_defs =
  save_workflow_def get_workflow_def save_step_def save_event_def get_events_def get_next_sequence_def
  save_compensation_def get_compensations_def reverse_compensations_def save_checkpoint_def

section \<open>The event log as an interface\<close>

text \<open>The log of an instance is numbered from 1 without a gap.\<close>

definition numbered :: "workflow_event list \<Rightarrow> bool" where
  "numbered es = (map we_sequence_number es = [1..<Suc (length es)])"

text \<open>
  What a client that appends with the next free number relies on: such a save appends to the log of
  its instance and touches no other, and the next free number is above every number used and is
  the successor of the last one.
\<close>

locale event_log =
  fixes save :: "workflow_event \<Rightarrow> 'r \<Rightarrow> 'r"
    and events :: "'r \<Rightarrow> uuid \<Rightarrow> workflow_event list"
    and next_number :: "'r \<Rightarrow> uuid \<Rightarrow> nat"
  assumes save_appends:
      "we_sequence_number e = next_number r (we_workflow_instance_id e) \<Longrightarrow>
       events (save e r) i = (if i = we_workflow_instance_id e then events r i @ [e] else events r i)"
    and next_first: "events r i = [] \<Longrightarrow> next_number r i = 1"
    and next_above: "events r i \<noteq> [] \<Longrightarrow> next_number r i = Suc (Max (set (map we_sequence_number (events r i))))"
begin

lemma next_numbered:
  assumes "numbered (events r i)"
  shows "next_number r i = Suc (length (events r i))"
proof (cases "events r i = []")
  case True
  then show ?thesis by (simp add: next_first)
next
  case False
  then have "set (map we_sequence_number (events r i)) = {1..length (events r i)}"
    using assms by (simp add: numbered_def atLeastLessThanSuc_atLeastAtMost del: set_map upt_Suc)
  moreover from False have "Max {1..length (events r i)} = length (events r i)"
    by (intro Max_eqI) (auto simp: Suc_le_eq)
  ultimately show ?thesis
    using next_above [OF False] by simp
qed

lemma append_numbered:
  assumes "numbered (events r i)" and "we_sequence_number e = next_number r (we_workflow_instance_id e)"
  shows "numbered (events (save e r) i)"
  using assms next_numbered [OF assms(1)]
  by (cases "i = we_workflow_instance_id e") (simp_all add: numbered_def save_appends)

end

lemma insort_key_last: "f x \<le> f y \<Longrightarrow> insort_key f x (xs @ [y]) = insort_key f x xs @ [y]"
  by (induction xs) auto

lemma sort_key_append_last: "\<forall>x \<in> set xs. f x \<le> f y \<Longrightarrow> sort_key f (xs @ [y]) = sort_key f xs @ [y]"
  by (induction xs) (auto simp: insort_key_last)

lemma set_get_events: "set (get_events r i) = set (dget_default (wr_events r) i [])"
  by (simp add: get_events_def)

lemma get_events_Nil: "get_events r i = [] \<longleftrightarrow> dget_default (wr_events r) i [] = []"
  by (metis set_empty set_get_events)

lemma get_events_save:
  assumes "we_sequence_number e = get_next_sequence r (we_workflow_instance_id e)"
  shows "get_events (save_event e r) i =
    (if i = we_workflow_instance_id e then get_events r i @ [e] else get_events r i)"
proof -
  let ?es = "dget_default (wr_events r) (we_workflow_instance_id e) []"
  have "\<forall>x \<in> set ?es. we_sequence_number x \<le> we_sequence_number e"
    using assms by (auto simp: get_next_sequence_def Let_def intro!: le_SucI Max_ge)
  then show ?thesis
    by (simp add: get_events_def save_event_def Let_def dget_default_def dict_simps sort_key_append_last)
qed

interpretation elog: event_log save_event get_events get_next_sequence
proof
  show "get_events r i = [] \<Longrightarrow> get_next_sequence r i = 1" for r i
    by (simp add: get_events_Nil get_next_sequence_def)
  show "get_events r i \<noteq> [] \<Longrightarrow>
      get_next_sequence r i = Suc (Max (set (map we_sequence_number (get_events r i))))" for r i
    by (simp add: get_events_Nil get_next_sequence_def set_get_events Let_def)
qed (rule get_events_save)

end
