(* ===== verification/Workflow_Executor.thy ===== *)
theory Workflow_Executor
  imports Workflow_Store
begin

text \<open>
  \<^verbatim>\<open>src/persistence/executor.py\<close>: the durable workflow executor on the in-memory repository. What the
  repository's code does not contain is an argument (\<open>environment\<close>): the activities and compensations
  (each call may take time, return, raise, and let another task cancel the workflow meanwhile), the
  digest of an idempotency key, the text of a timeout, and the step cache of \<open>src.core.shared\<close>, which
  is absent in standalone mode (\<^verbatim>\<open>src/_compat/cache/__init__.py\<close> then exports a plain function that has no
  \<open>get_step_result\<close>). A workflow is a program of activity calls whose continuation sees the
  result or the exception, so it may branch on it and catch it. Metrics and tracing are left out.

  The in-memory repository stores the instance object itself, so the executor, its context and a
  concurrent \<open>cancel_workflow\<close> share it: the model always reads the instance from the repository.
\<close>

section \<open>The outside world\<close>

text \<open>
  \<open>OpError\<close> is an exception of \<open>_WORKFLOW_EXECUTOR_OPERATION_ERRORS\<close>, \<open>TaskCancelled\<close> is
  \<open>asyncio.CancelledError\<close>, \<open>OtherError\<close> any other exception (\<open>ZeroDivisionError\<close>, say).
\<close>

datatype wf_error = OpError string | TaskCancelled string | OtherError string

fun error_text :: "wf_error \<Rightarrow> string" where
  "error_text (OpError s) = s"
| "error_text (TaskCancelled s) = s"
| "error_text (OtherError s) = s"

datatype activity_result = Returns json | TimesOut | Raises wf_error

text \<open>How long a call takes, the reason if the workflow is cancelled meanwhile, and how it ends.\<close>

record activity_outcome =
  ao_duration :: rat
  ao_cancelled :: "string option"
  ao_result :: activity_result

datatype compensation_result = CReturns json | CRaises string

text \<open>The step cache, if there is one: a state and its three operations.\<close>

record 'c step_cache =
  ca_get :: "'c \<Rightarrow> string \<Rightarrow> string \<Rightarrow> json option"
  ca_set :: "string \<Rightarrow> string \<Rightarrow> json \<Rightarrow> 'c \<Rightarrow> 'c"
  ca_invalidate :: "string \<Rightarrow> 'c \<Rightarrow> 'c"

record 'c environment =
  en_activity :: "string \<Rightarrow> json_dict \<Rightarrow> nat \<Rightarrow> activity_outcome"
  en_compensation :: "string \<Rightarrow> json_dict \<Rightarrow> nat \<Rightarrow> compensation_result"
  en_digest :: "string list \<Rightarrow> string"
  en_timeout_text :: "string \<Rightarrow> rat option \<Rightarrow> string"
  en_cache :: "'c step_cache option"

text \<open>The calls that leave the executor, in order.\<close>

datatype external_call = ActivityCall string json_dict | CompensationCall string json_dict

record 'c world =
  ex_repo :: repository
  ex_cache :: 'c
  ex_now :: rat
  ex_next :: uuid
  ex_trace :: "external_call list"

section \<open>Workflows\<close>

record activity_call =
  ac_step_name :: string
  ac_activity :: string
  ac_input :: "json_dict option"
  ac_compensation :: "string option"
  ac_idempotency_key :: "string option"
  ac_timeout :: "rat option"

text \<open>The body of a workflow function, as the calls it makes.\<close>

datatype program =
  Finish json
| Throw wf_error
| Activity activity_call "wf_error + json \<Rightarrow> program"

record executor =
  de_constitutional_hash :: string
  de_max_retries :: int
  de_retry_delay :: rat
  de_workflows :: "(string, json_dict option \<Rightarrow> program) dict"

definition mk_executor :: executor where
  "mk_executor = \<lparr>de_constitutional_hash = CONSTITUTIONAL_HASH, de_max_retries = 3, de_retry_delay = 1,
     de_workflows = []\<rparr>"

definition register_workflow :: "string \<Rightarrow> (json_dict option \<Rightarrow> program) \<Rightarrow> executor \<Rightarrow> executor" where
  "register_workflow name f ex = ex\<lparr>de_workflows := dset name f (de_workflows ex)\<rparr>"

text \<open>\<open>WorkflowContext\<close>: the instance is the one stored under \<open>cx_id\<close>; handlers by compensation name.\<close>

record wf_context =
  cx_id :: uuid
  cx_workflow_id :: string
  cx_compensation_stack :: "workflow_compensation list"
  cx_compensation_handlers :: "(string, string) dict"

definition get_idempotency_key :: "'c environment \<Rightarrow> wf_context \<Rightarrow> string \<Rightarrow> string list \<Rightarrow> string" where
  "get_idempotency_key env cx step_name args = en_digest env (cx_workflow_id cx # step_name # args)"

fun coerce_json_dict :: "json \<Rightarrow> json" where
  "coerce_json_dict (JObj d) = JObj d"
| "coerce_json_dict v = JObj [(''result'', v)]"

definition json_of_input :: "json_dict option \<Rightarrow> json" where
  "json_of_input v = (case v of None \<Rightarrow> JNull | Some d \<Rightarrow> JObj d)"

definition input_or_empty :: "json_dict option \<Rightarrow> json_dict" where
  "input_or_empty v = (case v of None \<Rightarrow> [] | Some d \<Rightarrow> d)"

section \<open>Steps on the world\<close>

definition on_repo :: "(repository \<Rightarrow> repository) \<Rightarrow> 'c world \<Rightarrow> 'c world" where
  "on_repo f w = w\<lparr>ex_repo := f (ex_repo w)\<rparr>"

definition record_event :: "uuid \<Rightarrow> event_type \<Rightarrow> json_dict \<Rightarrow> 'c world \<Rightarrow> 'c world" where
  "record_event i ty data w =
     on_repo (save_event
       \<lparr>we_workflow_instance_id = i, we_event_type = ty, we_event_data = data,
        we_sequence_number = get_next_sequence (ex_repo w) i, we_timestamp = ex_now w\<rparr>) w"

text \<open>Mutating the shared instance object and saving it.\<close>

definition update_instance :: "uuid \<Rightarrow> (workflow_instance \<Rightarrow> workflow_instance) \<Rightarrow> 'c world \<Rightarrow> 'c world" where
  "update_instance i f w =
     (case get_workflow (ex_repo w) i of None \<Rightarrow> w | Some inst \<Rightarrow> on_repo (save_workflow (f inst)) w)"

definition create_instance ::
  "executor \<Rightarrow> string \<Rightarrow> string \<Rightarrow> string \<Rightarrow> json_dict option \<Rightarrow> 'c world
     \<Rightarrow> 'c world \<times> (wf_error + workflow_instance)" where
  "create_instance ex workflow_type workflow_id tenant_id input_data w =
     (let inst = \<lparr>wi_id = ex_next w, wi_workflow_type = workflow_type, wi_workflow_id = workflow_id,
                  wi_tenant_id = tenant_id, wi_status = WPENDING, wi_input = input_data, wi_output = None,
                  wi_error = None, wi_started_at = None, wi_completed_at = None,
                  wi_constitutional_hash = de_constitutional_hash ex,
                  wi_created_at = ex_now w, wi_updated_at = ex_now w\<rparr>;
          w1 = on_repo (save_workflow inst) (w\<lparr>ex_next := Suc (ex_next w)\<rparr>);
          w2 = record_event (wi_id inst) WORKFLOW_STARTED
                 [(''workflow_type'', JStr workflow_type), (''input'', json_of_input input_data)] w1
      in (w2, Inr inst))"

definition start_workflow ::
  "executor \<Rightarrow> string \<Rightarrow> string \<Rightarrow> string \<Rightarrow> json_dict option \<Rightarrow> 'c world
     \<Rightarrow> 'c world \<times> (wf_error + workflow_instance)" where
  "start_workflow ex workflow_type workflow_id tenant_id input_data w =
     (if dget (de_workflows ex) workflow_type = None
      then (w, Inl (OpError (''Unknown workflow type: '' @ workflow_type)))
      else case get_workflow_by_business_id (ex_repo w) workflow_id tenant_id of
             Some existing \<Rightarrow>
               if wi_status existing = WPENDING \<or> wi_status existing = WRUNNING then (w, Inr existing)
               else create_instance ex workflow_type workflow_id tenant_id input_data w
           | None \<Rightarrow> create_instance ex workflow_type workflow_id tenant_id input_data w)"

definition get_workflow_status :: "string \<Rightarrow> string \<Rightarrow> 'c world \<Rightarrow> workflow_instance option" where
  "get_workflow_status workflow_id tenant_id w = get_workflow_by_business_id (ex_repo w) workflow_id tenant_id"

definition cancel_workflow ::
  "string \<Rightarrow> string \<Rightarrow> string \<Rightarrow> 'c world \<Rightarrow> 'c world \<times> workflow_instance option" where
  "cancel_workflow workflow_id tenant_id why w =
     (case get_workflow_by_business_id (ex_repo w) workflow_id tenant_id of
        None \<Rightarrow> (w, None)
      | Some inst \<Rightarrow>
          if wi_status inst \<noteq> WPENDING \<and> wi_status inst \<noteq> WRUNNING then (w, Some inst)
          else (let inst' = inst\<lparr>wi_status := WCANCELLED, wi_error := Some why, wi_completed_at := Some (ex_now w)\<rparr>;
                    w1 = on_repo (save_workflow inst') w
                in (record_event (wi_id inst) WORKFLOW_CANCELLED [(''reason'', JStr why)] w1, Some inst')))"

section \<open>Activities\<close>

definition register_compensation ::
  "uuid \<Rightarrow> string \<Rightarrow> string \<Rightarrow> json_dict option \<Rightarrow> 'c world \<times> wf_context \<Rightarrow> 'c world \<times> wf_context" where
  "register_compensation step_id name handler input_data wc =
     (case wc of (w, cx) \<Rightarrow>
        (let cmp = \<lparr>wc_id = ex_next w, wc_workflow_instance_id = cx_id cx, wc_step_id = step_id,
                     wc_compensation_name = name, wc_status = SPENDING, wc_input = input_data, wc_output = None,
                     wc_error = None, wc_executed_at = None, wc_created_at = ex_now w\<rparr>
         in (on_repo (save_compensation cmp) (w\<lparr>ex_next := Suc (ex_next w)\<rparr>),
             cx\<lparr>cx_compensation_stack := cx_compensation_stack cx @ [cmp],
                cx_compensation_handlers := dset name handler (cx_compensation_handlers cx)\<rparr>)))"

text \<open>
  \<open>_get_cached_step_result\<close>: \<open>Inl\<close> is the \<open>AttributeError\<close> of a missing cache, \<open>Inr (Some v)\<close> a result
  found. A cached value counts only when it is truthy.
\<close>

definition no_cache :: wf_error where
  "no_cache = OpError ''AttributeError: step cache''"

fun is_obj :: "json option \<Rightarrow> bool" where
  "is_obj (Some (JObj d)) = True"
| "is_obj _ = False"

definition json_or_null :: "json option \<Rightarrow> json" where
  "json_or_null v = (case v of None \<Rightarrow> JNull | Some x \<Rightarrow> x)"

definition get_cached_step_result ::
  "'c environment \<Rightarrow> wf_context \<Rightarrow> string \<Rightarrow> 'c world \<Rightarrow> 'c world \<times> (wf_error + json option)" where
  "get_cached_step_result env cx key w =
     (case en_cache env of
        None \<Rightarrow> (w, Inl no_cache)
      | Some ops \<Rightarrow>
          (let cached = ca_get ops (ex_cache w) (cx_workflow_id cx) key
           in if cached \<noteq> None \<and> json_truthy (the cached) then (w, Inr cached)
              else case get_step_by_idempotency_key (ex_repo w) (cx_id cx) key of
                     Some existing \<Rightarrow>
                       if ws_status existing = SCOMPLETED then
                         ((if is_obj (ws_output existing)
                           then w\<lparr>ex_cache := ca_set ops (cx_workflow_id cx) key (the (ws_output existing)) (ex_cache w)\<rparr>
                           else w),
                          Inr (Some (json_or_null (ws_output existing))))
                       else (w, Inr None)
                   | None \<Rightarrow> (w, Inr None)))"

definition complete_step ::
  "'c environment \<Rightarrow> wf_context \<Rightarrow> workflow_step \<Rightarrow> json \<Rightarrow> string \<Rightarrow> 'c world \<Rightarrow> 'c world" where
  "complete_step env cx s result key w =
     (let out = coerce_json_dict result;
          w1 = on_repo (save_step (s\<lparr>ws_status := SCOMPLETED, ws_output := Some out, ws_completed_at := Some (ex_now w)\<rparr>)) w;
          w2 = (case en_cache env of None \<Rightarrow> w1
                | Some ops \<Rightarrow> w1\<lparr>ex_cache := ca_set ops (cx_workflow_id cx) key out (ex_cache w1)\<rparr>)
      in record_event (cx_id cx) STEP_COMPLETED [(''step_name'', JStr (ws_step_name s)), (''output'', out)] w2)"

definition fail_step :: "wf_context \<Rightarrow> workflow_step \<Rightarrow> wf_error \<Rightarrow> 'c world \<Rightarrow> 'c world" where
  "fail_step cx s err w =
     (let w1 = on_repo (save_step (s\<lparr>ws_status := SFAILED, ws_error := Some (error_text err),
                                    ws_completed_at := Some (ex_now w)\<rparr>)) w
      in record_event (cx_id cx) STEP_FAILED
           [(''step_name'', JStr (ws_step_name s)), (''error'', JStr (error_text err))] w1)"

definition is_cancelled :: "wf_context \<Rightarrow> 'c world \<Rightarrow> bool" where
  "is_cancelled cx w = (case get_workflow (ex_repo w) (cx_id cx) of None \<Rightarrow> False
                        | Some inst \<Rightarrow> wi_status inst = WCANCELLED)"

text \<open>Awaiting an activity: it takes its time, and another task may cancel the workflow meanwhile.\<close>

definition call_activity ::
  "'c environment \<Rightarrow> wf_context \<Rightarrow> string \<Rightarrow> json_dict option \<Rightarrow> 'c world \<Rightarrow> 'c world \<times> activity_result" where
  "call_activity env cx activity input_data w =
     (let arg = input_or_empty input_data;
          oc = en_activity env activity arg (length (ex_trace w));
          w1 = w\<lparr>ex_now := ex_now w + ao_duration oc, ex_trace := ex_trace w @ [ActivityCall activity arg]\<rparr>;
          w2 = (case (ao_cancelled oc, get_workflow (ex_repo w1) (cx_id cx)) of
                  (Some why, Some inst) \<Rightarrow> fst (cancel_workflow (wi_workflow_id inst) (wi_tenant_id inst) why w1)
                | _ \<Rightarrow> w1)
      in (w2, ao_result oc))"

text \<open>How one attempt ends: done, to be retried, given up (cancelled), or by an exception nobody catches.\<close>

datatype attempt_result = Done json | Retry wf_error | GiveUp wf_error | Escapes wf_error

definition run_attempt ::
  "'c environment \<Rightarrow> wf_context \<Rightarrow> activity_call \<Rightarrow> string \<Rightarrow> nat \<Rightarrow> 'c world \<times> workflow_step
     \<Rightarrow> ('c world \<times> workflow_step) \<times> attempt_result" where
  "run_attempt env cx c key attempt ws =
     (case ws of (w, s) \<Rightarrow>
        if is_cancelled cx w
        then ((w, s), GiveUp (TaskCancelled (''Workflow '' @ cx_workflow_id cx @ '' was cancelled'')))
        else
          (let s1 = s\<lparr>ws_status := SEXECUTING, ws_attempt_count := Suc attempt, ws_started_at := Some (ex_now w)\<rparr>;
               w1 = record_event (cx_id cx) STEP_STARTED
                      [(''step_name'', JStr (ac_step_name c)), (''attempt'', JInt (int (Suc attempt)))]
                      (on_repo (save_step s1) w)
           in case call_activity env cx (ac_activity c) (ac_input c) w1 of
                (w2, Returns v) \<Rightarrow>
                  if is_cancelled cx w2
                  then ((w2, s1), GiveUp (TaskCancelled
                         (''Workflow '' @ cx_workflow_id cx @ '' was cancelled during step '' @ ac_step_name c)))
                  else ((complete_step env cx s1 v key w2, s1), Done v)
              | (w2, TimesOut) \<Rightarrow>
                  ((w2, s1), Retry (OpError (en_timeout_text env (ac_step_name c) (ac_timeout c))))
              | (w2, Raises (OpError e)) \<Rightarrow> ((w2, s1), Retry (OpError e))
              | (w2, Raises (TaskCancelled e)) \<Rightarrow> ((w2, s1), GiveUp (TaskCancelled e))
              | (w2, Raises (OtherError e)) \<Rightarrow> ((w2, s1), Escapes (OtherError e))))"

text \<open>
  \<open>_run_activity_with_retry\<close>: \<open>left\<close> attempts from the number \<open>attempt\<close> on, with the last error. A failed
  attempt sleeps \<open>retry_delay * 2 ^ attempt\<close> unless it was the last one.
\<close>

datatype loop_result = LDone json | LFailed "wf_error option" | LEscapes wf_error

primrec run_activity_with_retry ::
  "executor \<Rightarrow> 'c environment \<Rightarrow> wf_context \<Rightarrow> activity_call \<Rightarrow> string \<Rightarrow> nat \<Rightarrow> nat \<Rightarrow> wf_error option
     \<Rightarrow> 'c world \<times> workflow_step \<Rightarrow> ('c world \<times> workflow_step) \<times> loop_result" where
  "run_activity_with_retry ex env cx c key 0 attempt last_error ws = (ws, LFailed last_error)"
| "run_activity_with_retry ex env cx c key (Suc left) attempt last_error ws =
     (case run_attempt env cx c key attempt ws of
        (ws1, Done v) \<Rightarrow> (ws1, LDone v)
      | (ws1, GiveUp e) \<Rightarrow> (ws1, LFailed (Some e))
      | (ws1, Escapes e) \<Rightarrow> (ws1, LEscapes e)
      | ((w1, s1), Retry e) \<Rightarrow>
          run_activity_with_retry ex env cx c key left (Suc attempt) (Some e)
            ((if left = 0 then w1 else w1\<lparr>ex_now := ex_now w1 + de_retry_delay ex * 2 ^ attempt\<rparr>), s1))"

definition activity_key :: "'c environment \<Rightarrow> wf_context \<Rightarrow> activity_call \<Rightarrow> string" where
  "activity_key env cx c =
     (if truthy_str (ac_idempotency_key c) then the (ac_idempotency_key c)
      else get_idempotency_key env cx (ac_step_name c) [])"

text \<open>A new step is saved, and its compensation registered, before the first attempt.\<close>

definition new_step :: "wf_context \<Rightarrow> activity_call \<Rightarrow> string \<Rightarrow> 'c world \<Rightarrow> workflow_step" where
  "new_step cx c key w =
     \<lparr>ws_id = ex_next w, ws_workflow_instance_id = cx_id cx, ws_step_name = ac_step_name c,
      ws_step_type = ACTIVITY, ws_status = SPENDING, ws_input = ac_input c, ws_output = None,
      ws_error = None, ws_idempotency_key = Some key, ws_attempt_count = 0,
      ws_started_at = None, ws_completed_at = None, ws_created_at = ex_now w\<rparr>"

definition begin_activity ::
  "activity_call \<Rightarrow> string \<Rightarrow> 'c world \<times> wf_context \<Rightarrow> ('c world \<times> wf_context) \<times> workflow_step" where
  "begin_activity c key wc =
     (case wc of (w, cx) \<Rightarrow>
        (let s = new_step cx c key w;
             w1 = on_repo (save_step s) (w\<lparr>ex_next := Suc (ex_next w)\<rparr>)
         in ((case ac_compensation c of
                None \<Rightarrow> (w1, cx)
              | Some h \<Rightarrow> register_compensation (ws_id s) (''compensate_'' @ ac_step_name c) h (ac_input c) (w1, cx)),
             s)))"

definition end_activity ::
  "wf_context \<Rightarrow> activity_call \<Rightarrow> ('c world \<times> workflow_step) \<times> loop_result
     \<Rightarrow> ('c world \<times> wf_context) \<times> (wf_error + json)" where
  "end_activity cx c r =
     (case r of
        ((w, s), LDone v) \<Rightarrow> ((w, cx), Inr v)
      | ((w, s), LFailed None) \<Rightarrow>
          ((w, cx), Inl (OpError (''Step '' @ ac_step_name c @ '' failed without an exception'')))
      | ((w, s), LFailed (Some e)) \<Rightarrow> ((fail_step cx s e w, cx), Inl e)
      | ((w, s), LEscapes e) \<Rightarrow> ((w, cx), Inl e))"

definition execute_activity ::
  "executor \<Rightarrow> 'c environment \<Rightarrow> activity_call \<Rightarrow> 'c world \<times> wf_context
     \<Rightarrow> ('c world \<times> wf_context) \<times> (wf_error + json)" where
  "execute_activity ex env c wc =
     (case wc of (w, cx) \<Rightarrow>
        (case get_cached_step_result env cx (activity_key env cx c) w of
           (w0, Inl e) \<Rightarrow> ((w0, cx), Inl e)
         | (w0, Inr (Some v)) \<Rightarrow> ((w0, cx), Inr v)
         | (w0, Inr None) \<Rightarrow>
             (case begin_activity c (activity_key env cx c) (w0, cx) of
                ((w2, cx2), s) \<Rightarrow>
                  end_activity cx2 c
                    (run_activity_with_retry ex env cx2 c (activity_key env cx c)
                       (nat (de_max_retries ex + 1)) 0 None (w2, s)))))"

section \<open>Compensation\<close>

text \<open>One pending compensation: its handler is called, if the context knows it.\<close>

definition run_compensation :: "'c environment \<Rightarrow> wf_context \<Rightarrow> workflow_compensation \<Rightarrow> 'c world \<Rightarrow> 'c world" where
  "run_compensation env cx cmp w =
     (let nm = wc_compensation_name cmp;
          w1 = record_event (cx_id cx) COMPENSATION_STARTED [(''compensation_name'', JStr nm)] w;
          c1 = cmp\<lparr>wc_status := SCOMPENSATING, wc_executed_at := Some (ex_now w)\<rparr>;
          w2 = on_repo (save_compensation c1) w1;
          arg = input_or_empty (wc_input cmp)
      in case dget (cx_compensation_handlers cx) nm of
           None \<Rightarrow>
             record_event (cx_id cx) COMPENSATION_COMPLETED [(''compensation_name'', JStr nm)]
               (on_repo (save_compensation (c1\<lparr>wc_status := SCOMPENSATED\<rparr>)) w2)
         | Some h \<Rightarrow>
             (let w3 = w2\<lparr>ex_trace := ex_trace w2 @ [CompensationCall h arg]\<rparr>
              in case en_compensation env h arg (length (ex_trace w2)) of
                   CReturns v \<Rightarrow>
                     record_event (cx_id cx) COMPENSATION_COMPLETED [(''compensation_name'', JStr nm)]
                       (on_repo (save_compensation
                          (c1\<lparr>wc_status := SCOMPENSATED, wc_output := Some (coerce_json_dict v)\<rparr>)) w3)
                 | CRaises e \<Rightarrow>
                     record_event (cx_id cx) COMPENSATION_FAILED
                       [(''compensation_name'', JStr nm), (''error'', JStr e)]
                       (on_repo (save_compensation
                          (c1\<lparr>wc_status := SCOMPENSATION_FAILED, wc_error := Some e\<rparr>)) w3)))"

primrec compensation_loop ::
  "'c environment \<Rightarrow> wf_context \<Rightarrow> workflow_compensation list \<Rightarrow> 'c world \<Rightarrow> 'c world" where
  "compensation_loop env cx [] w = w"
| "compensation_loop env cx (cmp # cmps) w =
     compensation_loop env cx cmps
       (if wc_status cmp \<noteq> SPENDING then w else run_compensation env cx cmp w)"

text \<open>Without a step cache the invalidation raises before any compensation has run.\<close>

definition run_compensations :: "'c environment \<Rightarrow> wf_context \<Rightarrow> 'c world \<Rightarrow> 'c world \<times> (wf_error + unit)" where
  "run_compensations env cx w =
     (let w1 = update_instance (cx_id cx) (\<lambda>i. i\<lparr>wi_status := WCOMPENSATING\<rparr>) w in
      case en_cache env of
        None \<Rightarrow> (w1, Inl no_cache)
      | Some ops \<Rightarrow>
          (let w2 = on_repo (reverse_compensations (cx_id cx))
                      (w1\<lparr>ex_cache := ca_invalidate ops (cx_workflow_id cx) (ex_cache w1)\<rparr>);
               w3 = compensation_loop env cx (get_compensations (ex_repo w2) (cx_id cx)) w2
           in (update_instance (cx_id cx) (\<lambda>i. i\<lparr>wi_status := WCOMPENSATED\<rparr>) w3, Inr ())))"

section \<open>Executing a workflow\<close>

primrec run_program ::
  "executor \<Rightarrow> 'c environment \<Rightarrow> program \<Rightarrow> 'c world \<times> wf_context \<Rightarrow> ('c world \<times> wf_context) \<times> (wf_error + json)" where
  "run_program ex env (Finish v) wc = (wc, Inr v)"
| "run_program ex env (Throw e) wc = (wc, Inl e)"
| "run_program ex env (Activity c k) wc =
     (case execute_activity ex env c wc of (wc1, r) \<Rightarrow> run_program ex env (k r) wc1)"

definition finalize_workflow_success :: "wf_context \<Rightarrow> json \<Rightarrow> 'c world \<Rightarrow> 'c world" where
  "finalize_workflow_success cx result w =
     (let out = coerce_json_dict result
      in record_event (cx_id cx) WORKFLOW_COMPLETED [(''output'', out)]
           (update_instance (cx_id cx)
              (\<lambda>i. i\<lparr>wi_status := WCOMPLETED, wi_output := Some out, wi_completed_at := Some (ex_now w)\<rparr>) w))"

definition finalize_workflow_cancelled :: "wf_context \<Rightarrow> string \<Rightarrow> 'c world \<Rightarrow> 'c world" where
  "finalize_workflow_cancelled cx e w =
     update_instance (cx_id cx)
       (\<lambda>i. i\<lparr>wi_status := WCANCELLED, wi_error := Some e, wi_completed_at := Some (ex_now w)\<rparr>) w"

definition finalize_workflow_failed ::
  "'c environment \<Rightarrow> wf_context \<Rightarrow> string \<Rightarrow> 'c world \<Rightarrow> 'c world \<times> (wf_error + unit)" where
  "finalize_workflow_failed env cx e w =
     (case run_compensations env cx (record_event (cx_id cx) WORKFLOW_FAILED [(''error'', JStr e)] w) of
        (w1, Inl err) \<Rightarrow> (w1, Inl err)
      | (w1, Inr u) \<Rightarrow>
          (update_instance (cx_id cx)
             (\<lambda>i. i\<lparr>wi_status := WFAILED, wi_error := Some e, wi_completed_at := Some (ex_now w1)\<rparr>) w1, Inr ()))"

definition stored :: "uuid \<Rightarrow> workflow_instance \<Rightarrow> 'c world \<Rightarrow> workflow_instance" where
  "stored i dflt w = (case get_workflow (ex_repo w) i of None \<Rightarrow> dflt | Some inst \<Rightarrow> inst)"

definition execute_workflow ::
  "executor \<Rightarrow> 'c environment \<Rightarrow> workflow_instance \<Rightarrow> 'c world \<Rightarrow> 'c world \<times> (wf_error + workflow_instance)" where
  "execute_workflow ex env inst w =
     (if wi_constitutional_hash inst \<noteq> de_constitutional_hash ex
      then (w, Inl (OpError (''Constitutional hash mismatch: expected '' @ de_constitutional_hash ex
                             @ '', got '' @ wi_constitutional_hash inst)))
      else case dget (de_workflows ex) (wi_workflow_type inst) of
        None \<Rightarrow> (w, Inl (OpError (''Unknown workflow type: '' @ wi_workflow_type inst)))
      | Some f \<Rightarrow>
          (let inst1 = inst\<lparr>wi_status := WRUNNING, wi_started_at := Some (ex_now w)\<rparr>;
               w1 = on_repo (save_workflow inst1) w;
               cx = \<lparr>cx_id = wi_id inst, cx_workflow_id = wi_workflow_id inst, cx_compensation_stack = [],
                     cx_compensation_handlers = []\<rparr>
           in case run_program ex env (f (wi_input inst)) (w1, cx) of
                ((w2, cx2), Inr v) \<Rightarrow>
                  (let w3 = finalize_workflow_success cx2 v w2 in (w3, Inr (stored (wi_id inst) inst1 w3)))
              | ((w2, cx2), Inl (TaskCancelled e)) \<Rightarrow>
                  (let w3 = finalize_workflow_cancelled cx2 e w2 in (w3, Inr (stored (wi_id inst) inst1 w3)))
              | ((w2, cx2), Inl (OpError e)) \<Rightarrow>
                  (case finalize_workflow_failed env cx2 e w2 of
                     (w3, Inl err) \<Rightarrow> (w3, Inl err)
                   | (w3, Inr u) \<Rightarrow> (w3, Inr (stored (wi_id inst) inst1 w3)))
              | ((w2, cx2), Inl (OtherError e)) \<Rightarrow> (w2, Inl (OtherError e))))"

definition resume_workflow ::
  "executor \<Rightarrow> 'c environment \<Rightarrow> string \<Rightarrow> string \<Rightarrow> 'c world \<Rightarrow> 'c world \<times> (wf_error + workflow_instance)" where
  "resume_workflow ex env workflow_id tenant_id w =
     (case get_workflow_by_business_id (ex_repo w) workflow_id tenant_id of
        None \<Rightarrow> (w, Inl (OpError (''Workflow not found: '' @ workflow_id)))
      | Some inst \<Rightarrow>
          if wi_status inst = WCOMPLETED \<or> wi_status inst = WCANCELLED then (w, Inr inst)
          else execute_workflow ex env inst w)"

definition create_checkpoint :: "wf_context \<Rightarrow> nat \<Rightarrow> 'c world \<Rightarrow> 'c world \<times> checkpoint_data" where
  "create_checkpoint cx step_index w =
     (let cp = \<lparr>cd_workflow_instance_id = cx_id cx, cd_checkpoint_id = ex_next w, cd_step_index = step_index,
                cd_workflow_input = (case get_workflow (ex_repo w) (cx_id cx) of None \<Rightarrow> None | Some i \<Rightarrow> wi_input i),
                cd_compensation_stack = cx_compensation_stack cx, cd_created_at = ex_now w\<rparr>;
          w1 = on_repo (save_checkpoint cp) (w\<lparr>ex_next := Suc (ex_next w)\<rparr>)
      in (record_event (cx_id cx) CHECKPOINT_CREATED
            [(''checkpoint_id'', JInt (int (cd_checkpoint_id cp))), (''step_index'', JInt (int step_index))] w1, cp))"

end
