(* ===== verification/Workflow_Replay.thy ===== *)
theory Workflow_Replay
  imports Workflow_Executor
begin

text \<open>
  \<^verbatim>\<open>src/persistence/replay.py\<close>: reconstructing a workflow instance from its events. The text of a UUID
  is a parameter (\<open>show_id\<close>). The models are declared with \<open>use_enum_values\<close>, so the type of a stored event is
  the plain string of the enumeration.
\<close>

datatype replay_error = NoEvents uuid | MissingStart | AttributeError string

definition json_str_or :: "string \<Rightarrow> json option \<Rightarrow> string" where
  "json_str_or dflt v = (case v of Some (JStr s) \<Rightarrow> s | _ \<Rightarrow> dflt)"

fun json_dict_opt :: "json option \<Rightarrow> json_dict option" where
  "json_dict_opt (Some (JObj d)) = Some d"
| "json_dict_opt _ = None"

fun json_str_opt :: "json option \<Rightarrow> string option" where
  "json_str_opt (Some (JStr s)) = Some s"
| "json_str_opt _ = None"

definition apply_event ::
  "(uuid \<Rightarrow> string) \<Rightarrow> rat \<Rightarrow> uuid \<Rightarrow> workflow_event \<Rightarrow> workflow_instance option \<Rightarrow> workflow_instance option" where
  "apply_event show_id now i e inst =
     (let d = we_event_data e in
      case we_event_type e of
        WORKFLOW_STARTED \<Rightarrow>
          Some \<lparr>wi_id = i, wi_workflow_type = json_str_or [] (dget d ''workflow_type''),
                wi_workflow_id = json_str_or (show_id i) (dget d ''workflow_id''),
                wi_tenant_id = json_str_or ''default'' (dget d ''tenant_id''), wi_status = WRUNNING,
                wi_input = json_dict_opt (dget d ''input''), wi_output = None, wi_error = None,
                wi_started_at = None, wi_completed_at = None, wi_constitutional_hash = CONSTITUTIONAL_HASH,
                wi_created_at = now, wi_updated_at = now\<rparr>
      | WORKFLOW_COMPLETED \<Rightarrow>
          map_option (\<lambda>x. x\<lparr>wi_status := WCOMPLETED, wi_output := dget d ''output''\<rparr>) inst
      | WORKFLOW_FAILED \<Rightarrow>
          map_option (\<lambda>x. x\<lparr>wi_status := WFAILED, wi_error := json_str_opt (dget d ''error'')\<rparr>) inst
      | WORKFLOW_CANCELLED \<Rightarrow>
          map_option (\<lambda>x. x\<lparr>wi_status := WCANCELLED, wi_error := json_str_opt (dget d ''reason'')\<rparr>) inst
      | _ \<Rightarrow> inst)"

definition reconstruct_from_events ::
  "(uuid \<Rightarrow> string) \<Rightarrow> rat \<Rightarrow> uuid \<Rightarrow> workflow_event list \<Rightarrow> replay_error + workflow_instance" where
  "reconstruct_from_events show_id now i es =
     (case fold (apply_event show_id now i) es None of None \<Rightarrow> Inl MissingStart | Some inst \<Rightarrow> Inr inst)"

text \<open>A bound of 0 is falsy and so means no bound.\<close>

definition replay_workflow ::
  "(uuid \<Rightarrow> string) \<Rightarrow> rat \<Rightarrow> repository \<Rightarrow> uuid \<Rightarrow> nat option \<Rightarrow> replay_error + workflow_instance" where
  "replay_workflow show_id now r i up_to =
     (let es = get_events r i;
          es = (case up_to of None \<Rightarrow> es
                | Some n \<Rightarrow> if n = 0 then es else filter (\<lambda>e. we_sequence_number e \<le> n) es)
      in if es = [] then Inl (NoEvents i) else reconstruct_from_events show_id now i es)"

text \<open>Equality of Python dictionaries does not look at the order of the keys.\<close>

definition same_dict :: "json_dict \<Rightarrow> json_dict \<Rightarrow> bool" where
  "same_dict d e = list_all (\<lambda>k. dget d k = dget e k) (dkeys d @ dkeys e)"

definition verify_determinism ::
  "(uuid \<Rightarrow> string) \<Rightarrow> rat \<Rightarrow> repository \<Rightarrow> uuid \<Rightarrow> json_dict \<Rightarrow> replay_error + bool" where
  "verify_determinism show_id now r i expected =
     (case replay_workflow show_id now r i None of
        Inl e \<Rightarrow> Inl e
      | Inr inst \<Rightarrow> Inr (case wi_output inst of Some (JObj d) \<Rightarrow> same_dict d expected | _ \<Rightarrow> False))"

record timeline_entry =
  te_sequence :: nat
  te_timestamp :: rat
  te_type :: string
  te_data :: json_dict

text \<open>\<open>event.event_type.value\<close>: the stored type is a plain string, which has no attribute \<open>value\<close>.\<close>

definition event_type_value :: "workflow_event \<Rightarrow> replay_error + string" where
  "event_type_value e = Inl (AttributeError ''value'')"

fun timeline_loop :: "workflow_event list \<Rightarrow> timeline_entry list \<Rightarrow> replay_error + timeline_entry list" where
  "timeline_loop [] timeline = Inr timeline"
| "timeline_loop (e # es) timeline =
     (case event_type_value e of
        Inl err \<Rightarrow> Inl err
      | Inr ty \<Rightarrow> timeline_loop es (timeline @ [\<lparr>te_sequence = we_sequence_number e,
          te_timestamp = we_timestamp e, te_type = ty, te_data = we_event_data e\<rparr>]))"

definition get_replay_timeline :: "repository \<Rightarrow> uuid \<Rightarrow> replay_error + timeline_entry list" where
  "get_replay_timeline r i = timeline_loop (get_events r i) []"

end
