(* ===== verification/Workflow_Theorems.thy ===== *)
theory Workflow_Theorems
  imports Workflow_Replay "HOL-Library.Sublist"
begin

text \<open>
  What the durable executor guarantees: the event log of every workflow is numbered without gaps and
  only ever grows, an activity is attempted a bounded number of times, a completed one is not called
  again, a failed workflow compensates in reverse order, and the replay engine agrees with the stored
  outcome; and where it breaks: without a step cache, after a cancellation, on a resumed workflow.
\<close>

section \<open>Invariants of the world\<close>

text \<open>The calls on the executor that change the world.\<close>

datatype durable_op =
  StartWorkflow string string string "json_dict option"
| ExecuteWorkflow workflow_instance
| ResumeWorkflow string string
| CancelWorkflow string string string
| CreateCheckpoint wf_context nat

fun durable_step :: "executor \<Rightarrow> 'c environment \<Rightarrow> 'c world \<Rightarrow> durable_op \<Rightarrow> 'c world \<times> unit" where
  "durable_step ex env w (StartWorkflow ty wid tid inp) = (fst (start_workflow ex ty wid tid inp w), ())"
| "durable_step ex env w (ExecuteWorkflow inst) = (fst (execute_workflow ex env inst w), ())"
| "durable_step ex env w (ResumeWorkflow wid tid) = (fst (resume_workflow ex env wid tid w), ())"
| "durable_step ex env w (CancelWorkflow wid tid why) = (fst (cancel_workflow wid tid why w), ())"
| "durable_step ex env w (CreateCheckpoint cx n) = (fst (create_checkpoint cx n w), ())"

text \<open>
  Everything the executor does to the world is one of these steps. A property of the world each of
  them keeps is kept by every operation of the executor.
\<close>

locale world_invariant =
  fixes P :: "'c world \<Rightarrow> bool"
  assumes event: "P w \<Longrightarrow> P (record_event i ty d w)"
    and wf: "P w \<Longrightarrow> P (on_repo (save_workflow inst) w)"
    and step: "P w \<Longrightarrow> P (on_repo (save_step s) w)"
    and compensation: "P w \<Longrightarrow> P (on_repo (save_compensation c) w)"
    and reversal: "P w \<Longrightarrow> P (on_repo (reverse_compensations i) w)"
    and checkpoint: "P w \<Longrightarrow> P (on_repo (save_checkpoint cp) w)"
    and cache: "P w \<Longrightarrow> P (w\<lparr>ex_cache := ca\<rparr>)"
    and clock: "P w \<Longrightarrow> P (w\<lparr>ex_now := t\<rparr>)"
    and trace: "P w \<Longrightarrow> P (w\<lparr>ex_trace := tr\<rparr>)"
    and next_id: "P w \<Longrightarrow> P (w\<lparr>ex_next := n\<rparr>)"
begin

lemmas steps = event wf step compensation reversal checkpoint cache clock trace next_id

lemma update_instance: "P w \<Longrightarrow> P (update_instance i f w)"
  by (simp add: update_instance_def wf split: option.splits)

lemma cancel_workflow: "P w \<Longrightarrow> P (fst (cancel_workflow wid tid why w))"
  by (simp add: cancel_workflow_def steps Let_def split: option.splits)

lemma create_instance: "P w \<Longrightarrow> P (fst (create_instance ex ty wid tid inp w))"
  by (simp add: create_instance_def steps Let_def)

lemma start_workflow: "P w \<Longrightarrow> P (fst (start_workflow ex ty wid tid inp w))"
  by (simp add: start_workflow_def create_instance split: option.splits)

lemma register_compensation: "P w \<Longrightarrow> P (fst (register_compensation sid nm h inp (w, cx)))"
  by (simp add: register_compensation_def steps Let_def)

lemma get_cached: "P w \<Longrightarrow> P (fst (get_cached_step_result env cx key w))"
  by (simp add: get_cached_step_result_def steps Let_def split: option.splits)

lemma complete_step: "P w \<Longrightarrow> P (complete_step env cx s v key w)"
  by (simp add: complete_step_def steps Let_def split: option.splits)

lemma fail_step: "P w \<Longrightarrow> P (fail_step cx s e w)"
  by (simp add: fail_step_def steps Let_def)

lemma call_activity: "P w \<Longrightarrow> P (fst (call_activity env cx a inp w))"
  by (simp add: call_activity_def steps Let_def cancel_workflow clock [OF trace] split: option.splits)

lemma run_attempt: "P w \<Longrightarrow> P (fst (fst (run_attempt env cx c key n (w, s))))"
proof -
  assume "P w"
  then have "P (record_event (cx_id cx) ty d (on_repo (save_step s') w))" for ty d s'
    by (simp add: steps)
  note p = call_activity [OF this]
  show ?thesis
    using \<open>P w\<close> p
    by (auto simp: run_attempt_def Let_def split: prod.splits activity_result.splits wf_error.splits
        intro!: complete_step) (metis fst_conv)+
qed

lemma retry: "P w \<Longrightarrow> P (fst (fst (run_activity_with_retry ex env cx c key left n err (w, s))))"
proof (induction left arbitrary: n err w s)
  case 0
  then show ?case by simp
next
  case (Suc left)
  obtain w1 s1 r where a: "run_attempt env cx c key n (w, s) = ((w1, s1), r)"
    by (metis surj_pair)
  with run_attempt [OF Suc.prems, of env cx c key n s] have "P w1" by simp
  with Suc.IH a clock show ?case by (auto split: attempt_result.splits)
qed

lemma begin_activity: "P w \<Longrightarrow> P (fst (fst (begin_activity c key (w, cx))))"
  by (simp add: begin_activity_def Let_def register_compensation steps split: option.splits)

lemma end_activity: "P (fst (fst r)) \<Longrightarrow> P (fst (fst (end_activity cx c r)))"
  by (auto simp: end_activity_def fail_step split: prod.splits loop_result.splits option.splits)

lemma execute_activity:
  assumes "P w"
  shows "P (fst (fst (execute_activity ex env c (w, cx))))"
proof -
  obtain w0 r where g: "get_cached_step_result env cx (activity_key env cx c) w = (w0, r)"
    by (metis surj_pair)
  with get_cached [OF assms] have P0: "P w0" by (metis fst_conv)
  obtain w2 cx2 s where b: "begin_activity c (activity_key env cx c) (w0, cx) = ((w2, cx2), s)"
    by (metis surj_pair)
  with begin_activity [OF P0] have "P w2" by (metis fst_conv)
  then show ?thesis
    using P0 by (auto simp: execute_activity_def g b intro!: end_activity retry split: sum.splits option.splits)
qed

lemma run_compensation: "P w \<Longrightarrow> P (run_compensation env cx c w)"
  by (simp add: run_compensation_def steps Let_def split: option.splits compensation_result.splits)

lemma compensation_loop: "P w \<Longrightarrow> P (compensation_loop env cx cs w)"
  by (induction cs arbitrary: w) (simp_all add: run_compensation)

lemma run_compensations: "P w \<Longrightarrow> P (fst (run_compensations env cx w))"
  by (simp add: run_compensations_def Let_def update_instance compensation_loop steps split: option.splits)

lemma run_program: "P w \<Longrightarrow> P (fst (fst (run_program ex env p (w, cx))))"
proof (induction p arbitrary: w cx)
  case (Activity c k)
  obtain w1 cx1 r where a: "execute_activity ex env c (w, cx) = ((w1, cx1), r)"
    by (metis surj_pair)
  with execute_activity [OF Activity.prems] have "P w1" by (metis fst_conv)
  with Activity.IH [OF rangeI] a show ?case by simp
qed simp_all

lemma finalize_failed:
  assumes "P w"
  shows "P (fst (finalize_workflow_failed env cx e w))"
proof -
  obtain w1 r where c: "run_compensations env cx (record_event (cx_id cx) WORKFLOW_FAILED [(''error'', JStr e)] w) = (w1, r)"
    by (metis surj_pair)
  with run_compensations [OF event [OF assms]] have "P w1" by (metis fst_conv)
  with c show ?thesis by (cases r) (simp_all add: finalize_workflow_failed_def update_instance)
qed

lemma execute_workflow:
  assumes "P w"
  shows "P (fst (execute_workflow ex env inst w))"
proof (cases "wi_constitutional_hash inst \<noteq> de_constitutional_hash ex \<or> dget (de_workflows ex) (wi_workflow_type inst) = None")
  case True
  with assms show ?thesis by (auto simp: execute_workflow_def)
next
  case False
  then obtain f where f: "dget (de_workflows ex) (wi_workflow_type inst) = Some f" by auto
  let ?w1 = "on_repo (save_workflow (inst\<lparr>wi_status := WRUNNING, wi_started_at := Some (ex_now w)\<rparr>)) w"
  let ?cx = "\<lparr>cx_id = wi_id inst, cx_workflow_id = wi_workflow_id inst, cx_compensation_stack = [],
    cx_compensation_handlers = []\<rparr>"
  obtain w2 cx2 r where p: "run_program ex env (f (wi_input inst)) (?w1, ?cx) = ((w2, cx2), r)"
    by (metis surj_pair)
  with run_program [OF wf [OF assms]] have P2: "P w2" by (metis fst_conv)
  then have "P (fst (finalize_workflow_failed env cx2 e w2))" for e
    by (rule finalize_failed)
  then have "finalize_workflow_failed env cx2 e w2 = (w3, x) \<Longrightarrow> P w3" for e w3 x
    by (metis fst_conv)
  with False P2 show ?thesis
    by (auto simp: execute_workflow_def f p Let_def finalize_workflow_success_def finalize_workflow_cancelled_def
        event update_instance split: prod.splits sum.splits wf_error.splits)
qed

lemma resume_workflow: "P w \<Longrightarrow> P (fst (resume_workflow ex env wid tid w))"
  by (simp add: resume_workflow_def execute_workflow split: option.splits)

lemma create_checkpoint: "P w \<Longrightarrow> P (fst (create_checkpoint cx n w))"
  by (simp add: create_checkpoint_def steps Let_def)

lemma durable_step: "P w \<Longrightarrow> P (fst (durable_step ex env w op))"
  by (cases op) (simp_all add: start_workflow execute_workflow resume_workflow cancel_workflow create_checkpoint)

end

sublocale world_invariant \<subseteq> durable: machine "durable_step ex env" "\<lambda>_. True" P for ex env
  by unfold_locales (rule durable_step)

section \<open>The event log\<close>

definition log_of :: "uuid \<Rightarrow> 'c world \<Rightarrow> workflow_event list" where
  "log_of i w = get_events (ex_repo w) i"

lemma get_events_other [simp]:
  "get_events (save_workflow inst r) i = get_events r i"
  "get_events (save_step s r) i = get_events r i"
  "get_events (save_compensation c r) i = get_events r i"
  "get_events (reverse_compensations j r) i = get_events r i"
  "get_events (save_checkpoint cp r) i = get_events r i"
  by (simp_all add: get_events_def save_workflow_def save_step_def save_compensation_def
      reverse_compensations_def save_checkpoint_def Let_def split: option.splits)

lemma on_repo_fields [simp]:
  "ex_repo (on_repo f w) = f (ex_repo w)" "ex_cache (on_repo f w) = ex_cache w" "ex_now (on_repo f w) = ex_now w"
  "ex_next (on_repo f w) = ex_next w" "ex_trace (on_repo f w) = ex_trace w"
  by (simp_all add: on_repo_def)

lemma record_event_fields [simp]:
  "ex_cache (record_event i ty d w) = ex_cache w" "ex_now (record_event i ty d w) = ex_now w"
  "ex_next (record_event i ty d w) = ex_next w" "ex_trace (record_event i ty d w) = ex_trace w"
  "wr_workflows (ex_repo (record_event i ty d w)) = wr_workflows (ex_repo w)"
  "wr_steps (ex_repo (record_event i ty d w)) = wr_steps (ex_repo w)"
  "wr_compensations (ex_repo (record_event i ty d w)) = wr_compensations (ex_repo w)"
  by (simp_all add: record_event_def save_event_def Let_def)

definition event_for :: "uuid \<Rightarrow> event_type \<Rightarrow> json_dict \<Rightarrow> 'c world \<Rightarrow> workflow_event" where
  "event_for i ty d w = \<lparr>we_workflow_instance_id = i, we_event_type = ty, we_event_data = d,
     we_sequence_number = get_next_sequence (ex_repo w) i, we_timestamp = ex_now w\<rparr>"

lemma log_record_event: "log_of j (record_event i ty d w) = (if j = i then log_of i w @ [event_for i ty d w] else log_of j w)"
  by (simp add: log_of_def record_event_def event_for_def elog.save_appends)

lemma log_numbered_record:
  "numbered (log_of j w) \<Longrightarrow> numbered (log_of j (record_event i ty d w))"
  unfolding log_of_def record_event_def on_repo_fields by (rule elog.append_numbered) simp_all

interpretation numbered_log: world_invariant "\<lambda>w. \<forall>i. numbered (log_of i w)"
  by unfold_locales (simp_all add: log_numbered_record, simp_all add: log_of_def)

interpretation growing_log: world_invariant "\<lambda>w. \<forall>i. prefix (l i) (log_of i w)" for l
  by unfold_locales (auto simp: log_record_event, simp_all add: log_of_def)

lemma get_workflow_other [simp]:
  "get_workflow (save_step s r) i = get_workflow r i"
  "get_workflow (save_compensation c r) i = get_workflow r i"
  "get_workflow (reverse_compensations j r) i = get_workflow r i"
  "get_workflow (save_checkpoint cp r) i = get_workflow r i"
  "get_workflow (save_event e r) i = get_workflow r i"
  "get_workflow (save_workflow inst r) i = (if i = wi_id inst then Some inst else get_workflow r i)"
  by (simp_all add: get_workflow_def save_workflow_def save_step_def save_compensation_def dict_simps
      reverse_compensations_def save_checkpoint_def save_event_def Let_def split: option.splits)

lemma get_workflow_record [simp]: "get_workflow (ex_repo (record_event i ty d w)) j = get_workflow (ex_repo w) j"
  by (simp add: get_workflow_def)

interpretation present: world_invariant
  "\<lambda>w. get_workflow (ex_repo w) j \<noteq> None \<and> (\<forall>i inst. get_workflow (ex_repo w) i = Some inst \<longrightarrow> wi_id inst = i)" for j
  by unfold_locales auto

section \<open>Calls that leave the executor\<close>

lemma cancel_workflow_fields [simp]:
  "ex_trace (fst (cancel_workflow wid tid why w)) = ex_trace w"
  "wr_steps (ex_repo (fst (cancel_workflow wid tid why w))) = wr_steps (ex_repo w)"
  "wr_compensations (ex_repo (fst (cancel_workflow wid tid why w))) = wr_compensations (ex_repo w)"
  by (simp_all add: cancel_workflow_def Let_def save_workflow_def split: option.splits)

lemma call_activity_fields [simp]:
  "ex_trace (fst (call_activity env cx a inp w)) = ex_trace w @ [ActivityCall a (input_or_empty inp)]"
  "wr_steps (ex_repo (fst (call_activity env cx a inp w))) = wr_steps (ex_repo w)"
  by (simp_all add: call_activity_def Let_def split: option.splits)

text \<open>What one attempt does to the trace and to the stored step.\<close>

definition same_step :: "workflow_step \<Rightarrow> workflow_step \<Rightarrow> bool" where
  "same_step s s' \<longleftrightarrow> ws_id s' = ws_id s \<and> ws_workflow_instance_id s' = ws_workflow_instance_id s \<and>
     ws_idempotency_key s' = ws_idempotency_key s \<and> ws_step_name s' = ws_step_name s"

lemma same_step_refl [simp]: "same_step s s"
  by (simp add: same_step_def)

lemma same_step_trans: "same_step a b \<Longrightarrow> same_step b c \<Longrightarrow> same_step a c"
  by (simp add: same_step_def)

definition completed_with :: "json \<Rightarrow> workflow_step \<Rightarrow> bool" where
  "completed_with v s \<longleftrightarrow> ws_status s = SCOMPLETED \<and> ws_output s = Some (coerce_json_dict v)"

lemma complete_step_fields [simp]:
  "ex_trace (complete_step env cx s v key w) = ex_trace w"
  "wr_steps (ex_repo (complete_step env cx s v key w)) =
     dset (ws_id s) (s\<lparr>ws_status := SCOMPLETED, ws_output := Some (coerce_json_dict v),
                        ws_completed_at := Some (ex_now w)\<rparr>) (wr_steps (ex_repo w))"
  by (simp_all add: complete_step_def Let_def save_step_def split: option.splits)

lemma attempt_effect:
  assumes "run_attempt env cx c key n (w, s) = ((w1, s1), r)"
  shows "same_step s s1 \<and>
    (\<exists>m \<le> 1. ex_trace w1 = ex_trace w @ replicate m (ActivityCall (ac_activity c) (input_or_empty (ac_input c)))) \<and>
    (\<exists>f. (wr_steps (ex_repo w1) = wr_steps (ex_repo w) \<or> wr_steps (ex_repo w1) = dset (ws_id s) f (wr_steps (ex_repo w))) \<and>
       same_step s f) \<and>
    (\<forall>v. r = Done v \<longrightarrow> (\<exists>f. wr_steps (ex_repo w1) = dset (ws_id s) f (wr_steps (ex_repo w)) \<and> same_step s f \<and> completed_with v f))"
proof (cases "is_cancelled cx w")
  case True
  with assms show ?thesis
    by (auto simp: run_attempt_def intro!: exI [of _ "0 :: nat"] exI [of _ s1])
next
  case False
  let ?s1 = "s\<lparr>ws_status := SEXECUTING, ws_attempt_count := Suc n, ws_started_at := Some (ex_now w)\<rparr>"
  let ?w1 = "record_event (cx_id cx) STEP_STARTED [(''step_name'', JStr (ac_step_name c)), (''attempt'', JInt (int (Suc n)))]
    (on_repo (save_step ?s1) w)"
  obtain w2 ao where call: "call_activity env cx (ac_activity c) (ac_input c) ?w1 = (w2, ao)"
    by (metis surj_pair)
  have tr: "ex_trace w2 = ex_trace w @ [ActivityCall (ac_activity c) (input_or_empty (ac_input c))]"
    using call_activity_fields(1) [of env cx "ac_activity c" "ac_input c" ?w1] unfolding call by simp
  have st: "wr_steps (ex_repo w2) = dset (ws_id s) ?s1 (wr_steps (ex_repo w))"
    using call_activity_fields(2) [of env cx "ac_activity c" "ac_input c" ?w1] unfolding call by (simp add: save_step_def)
  have same: "same_step s ?s1" by (simp add: same_step_def)
  have one: "\<exists>m \<le> 1. ex_trace w @ [x] = ex_trace w @ replicate m x" for x
    by (rule exI [of _ 1]) simp
  have done': "\<exists>f. wr_steps (ex_repo (complete_step env cx ?s1 v key w2)) = dset (ws_id s) f (wr_steps (ex_repo w)) \<and>
      same_step s f \<and> completed_with v f" for v
    by (simp add: st update_last same_step_def completed_with_def) (rule exI, rule conjI [OF refl], simp)
  show ?thesis
    using assms False same one done' tr st
    by (auto simp: run_attempt_def Let_def call simp del: of_nat_Suc
        split: activity_result.splits wf_error.splits if_splits) blast
qed

lemma retry_effect:
  assumes "run_activity_with_retry ex env cx c key left n err (w, s) = ((w1, s1), r)"
  shows "same_step s s1 \<and>
    (\<exists>m \<le> left. ex_trace w1 = ex_trace w @ replicate m (ActivityCall (ac_activity c) (input_or_empty (ac_input c)))) \<and>
    (\<forall>v. r = LDone v \<longrightarrow> (\<exists>f. wr_steps (ex_repo w1) = dset (ws_id s) f (wr_steps (ex_repo w)) \<and> same_step s f \<and> completed_with v f))"
  using assms
proof (induction left arbitrary: n err w s)
  case 0
  then show ?case by auto
next
  case (Suc left)
  obtain w2 s2 r2 where a: "run_attempt env cx c key n (w, s) = ((w2, s2), r2)"
    by (metis surj_pair)
  note eff = attempt_effect [OF a]
  then obtain m where m: "m \<le> 1" "ex_trace w2 = ex_trace w @ replicate m (ActivityCall (ac_activity c) (input_or_empty (ac_input c)))"
    by blast
  show ?case
  proof (cases r2)
    case (Retry e)
    let ?w3 = "if left = 0 then w2 else w2\<lparr>ex_now := ex_now w2 + de_retry_delay ex * 2 ^ n\<rparr>"
    from Suc.prems a Retry have "run_activity_with_retry ex env cx c key left (Suc n) (Some e) (?w3, s2) = ((w1, s1), r)"
      by simp
    have w3: "ex_trace ?w3 = ex_trace w2" "wr_steps (ex_repo ?w3) = wr_steps (ex_repo w2)" by simp_all
    note ih = Suc.IH [OF \<open>run_activity_with_retry ex env cx c key left (Suc n) (Some e) (?w3, s2) = ((w1, s1), r)\<close>,
        unfolded w3]
    obtain k where k: "k \<le> left" "ex_trace w1 = ex_trace w2 @ replicate k (ActivityCall (ac_activity c) (input_or_empty (ac_input c)))"
      using ih by blast
    have "\<exists>j \<le> Suc left. ex_trace w1 = ex_trace w @ replicate j (ActivityCall (ac_activity c) (input_or_empty (ac_input c)))"
      by (rule exI [of _ "m + k"]) (use m k in \<open>simp add: replicate_add\<close>)
    moreover have "\<exists>f. wr_steps (ex_repo w1) = dset (ws_id s) f (wr_steps (ex_repo w)) \<and> same_step s f \<and> completed_with v f"
      if "r = LDone v" for v
    proof -
      have id: "ws_id s2 = ws_id s" using eff by (simp add: same_step_def)
      from ih that obtain f where f: "wr_steps (ex_repo w1) = dset (ws_id s) f (wr_steps (ex_repo w2))"
        "same_step s2 f" "completed_with v f"
        by (auto simp: id)
      moreover have "dset (ws_id s) f (wr_steps (ex_repo w2)) = dset (ws_id s) f (wr_steps (ex_repo w))"
        using eff by (auto simp: update_last)
      ultimately show ?thesis
        using eff same_step_trans by metis
    qed
    moreover have "same_step s s1" using eff ih same_step_trans by blast
    ultimately show ?thesis by blast
  qed (use Suc.prems a eff m in \<open>auto intro: exI [of _ m]\<close>)
qed

text \<open>An activity leaves only calls of its own in the trace, a program only calls of activities.\<close>

lemma begin_activity_fields:
  assumes "begin_activity c key (w, cx) = ((w1, cx1), s)"
  shows "ex_trace w1 = ex_trace w" "cx_id cx1 = cx_id cx" "cx_workflow_id cx1 = cx_workflow_id cx"
    "s = new_step cx c key w" "wr_steps (ex_repo w1) = dset (ws_id s) s (wr_steps (ex_repo w))"
  using assms
  by (auto simp: begin_activity_def Let_def register_compensation_def save_step_def save_compensation_def
      split: option.splits)

lemma get_cached_fields:
  "ex_trace (fst (get_cached_step_result env cx key w)) = ex_trace w"
  "ex_repo (fst (get_cached_step_result env cx key w)) = ex_repo w"
  by (simp_all add: get_cached_step_result_def Let_def split: option.splits)

lemma end_activity_trace [simp]: "ex_trace (fst (fst (end_activity cx c r))) = ex_trace (fst (fst r))"
  by (auto simp: end_activity_def fail_step_def Let_def split: prod.splits loop_result.splits option.splits)

lemma end_activity_context [simp]: "snd (fst (end_activity cx c r)) = cx"
  by (auto simp: end_activity_def split: prod.splits loop_result.splits option.splits)

lemma activity_effect:
  "\<exists>m \<le> nat (de_max_retries ex + 1). ex_trace (fst (fst (execute_activity ex env c (w, cx)))) =
     ex_trace w @ replicate m (ActivityCall (ac_activity c) (input_or_empty (ac_input c)))"
proof -
  obtain w0 r where g: "get_cached_step_result env cx (activity_key env cx c) w = (w0, r)"
    by (metis surj_pair)
  have t0: "ex_trace w0 = ex_trace w"
    using get_cached_fields(1) [of env cx "activity_key env cx c" w] by (simp add: g)
  obtain w2 cx2 s where b: "begin_activity c (activity_key env cx c) (w0, cx) = ((w2, cx2), s)"
    by (metis surj_pair)
  obtain w3 s3 lr where l: "run_activity_with_retry ex env cx2 c (activity_key env cx c)
      (nat (de_max_retries ex + 1)) 0 None (w2, s) = ((w3, s3), lr)"
    by (metis surj_pair)
  obtain m where "m \<le> nat (de_max_retries ex + 1)"
    "ex_trace w3 = ex_trace w @ replicate m (ActivityCall (ac_activity c) (input_or_empty (ac_input c)))"
    using retry_effect [OF l] begin_activity_fields(1) [OF b] t0 by auto
  then have "\<exists>m \<le> nat (de_max_retries ex + 1). ex_trace (fst (fst (end_activity cx2 c ((w3, s3), lr)))) =
      ex_trace w @ replicate m (ActivityCall (ac_activity c) (input_or_empty (ac_input c)))"
    by auto
  then show ?thesis
    using t0 by (auto simp: execute_activity_def g b l split: sum.splits option.splits intro!: exI [of _ "0 :: nat"])
qed

fun is_activity :: "external_call \<Rightarrow> bool" where
  "is_activity (ActivityCall a d) = True"
| "is_activity (CompensationCall h d) = False"

lemma program_trace:
  "\<exists>cs. ex_trace (fst (fst (run_program ex env p (w, cx)))) = ex_trace w @ cs \<and> list_all is_activity cs"
proof (induction p arbitrary: w cx)
  case (Activity c k)
  obtain w1 cx1 r where a: "execute_activity ex env c (w, cx) = ((w1, cx1), r)"
    by (metis surj_pair)
  obtain m where "ex_trace w1 = ex_trace w @ replicate m (ActivityCall (ac_activity c) (input_or_empty (ac_input c)))"
    using activity_effect [of ex env c w cx] by (auto simp: a)
  moreover obtain cs where "ex_trace (fst (fst (run_program ex env (k r) (w1, cx1)))) = ex_trace w1 @ cs" "list_all is_activity cs"
    using Activity.IH [OF rangeI] by blast
  ultimately show ?case
    by (auto simp: a list_all_iff intro!: exI [of _ "replicate m (ActivityCall (ac_activity c) (input_or_empty (ac_input c))) @ cs"])
qed simp_all

section \<open>Repeating an activity\<close>

lemma dset_fresh: "k \<notin> set (dkeys d) \<Longrightarrow> dset k v d = d @ [(k, v)]"
  by (induction d) auto

lemma find_append_None: "find P xs = None \<Longrightarrow> find P (xs @ [y]) = (if P y then Some y else None)"
  by (induction xs) (auto split: if_splits)

definition always_misses :: "'c environment \<Rightarrow> bool" where
  "always_misses env \<longleftrightarrow> (\<exists>ops. en_cache env = Some ops \<and> (\<forall>c i k. ca_get ops c i k = None))"

lemma get_cached_miss:
  "always_misses env \<Longrightarrow> get_step_by_idempotency_key (ex_repo w) (cx_id cx) key = None \<Longrightarrow>
   get_cached_step_result env cx key w = (w, Inr None)"
  by (auto simp: always_misses_def get_cached_step_result_def)

lemma get_cached_completed:
  assumes "always_misses env" "get_step_by_idempotency_key (ex_repo w) (cx_id cx) key = Some s" "completed_with v s"
  shows "\<exists>ca. get_cached_step_result env cx key w = (w\<lparr>ex_cache := ca\<rparr>, Inr (Some (coerce_json_dict v)))"
proof -
  have "is_obj (Some (coerce_json_dict v))" by (cases v) auto
  with assms show ?thesis
    by (auto simp: always_misses_def get_cached_step_result_def completed_with_def json_or_null_def)
qed

lemma completed_step_stored:
  assumes "always_misses env"
    and "get_step_by_idempotency_key (ex_repo w) (cx_id cx) (activity_key env cx c) = None"
    and "ex_next w \<notin> set (dkeys (wr_steps (ex_repo w)))"
    and "execute_activity ex env c (w, cx) = ((w1, cx1), Inr v)"
  shows "\<exists>s. get_step_by_idempotency_key (ex_repo w1) (cx_id cx) (activity_key env cx c) = Some s \<and> completed_with v s"
proof -
  let ?key = "activity_key env cx c"
  obtain w2 cx2 s where b: "begin_activity c ?key (w, cx) = ((w2, cx2), s)"
    by (metis surj_pair)
  obtain w3 s3 lr where l: "run_activity_with_retry ex env cx2 c ?key (nat (de_max_retries ex + 1)) 0 None (w2, s) = ((w3, s3), lr)"
    by (metis surj_pair)
  have e: "end_activity cx2 c ((w3, s3), lr) = ((w1, cx1), Inr v)"
    using assms(4) get_cached_miss [OF assms(1,2)] by (simp add: execute_activity_def b l)
  then have "lr = LDone v" "w1 = w3"
    by (auto simp: end_activity_def split: loop_result.splits option.splits)
  then obtain f where f: "wr_steps (ex_repo w1) = dset (ws_id s) f (wr_steps (ex_repo w2))" "same_step s f" "completed_with v f"
    using retry_effect [OF l] by auto
  note bf = begin_activity_fields [OF b]
  have id: "ws_id s = ex_next w" "ws_workflow_instance_id s = cx_id cx" "ws_idempotency_key s = Some ?key"
    by (simp_all add: bf(4) new_step_def)
  have "wr_steps (ex_repo w1) = wr_steps (ex_repo w) @ [(ex_next w, f)]"
    unfolding f(1) bf(5) id(1) update_last by (rule dset_fresh [OF assms(3)])
  then show ?thesis
    using f(2,3) assms(2) id
    by (simp add: get_step_by_idempotency_key_def find_append_None same_step_def)
qed

lemma execute_completed:
  assumes "always_misses env" "get_step_by_idempotency_key (ex_repo w) (cx_id cx) (activity_key env cx c) = Some s"
    "completed_with v s"
  shows "\<exists>ca. execute_activity ex env c (w, cx) = ((w\<lparr>ex_cache := ca\<rparr>, cx), Inr (coerce_json_dict v))"
  using get_cached_completed [OF assms] by (auto simp: execute_activity_def)

section \<open>Compensation\<close>

text \<open>A saved compensation replaces the one with its identifier, which is on the list.\<close>

lemma replace_first_map:
  "distinct (map wc_id cs) \<Longrightarrow> c \<in> set cs \<Longrightarrow> wc_id c' = wc_id c \<Longrightarrow>
   replace_first (\<lambda>d. wc_id d = wc_id c') c' cs = map (\<lambda>d. if wc_id d = wc_id c then c' else d) cs"
proof (induction cs)
  case (Cons d cs)
  show ?case
  proof (cases "wc_id d = wc_id c")
    case True
    then have "map (\<lambda>d. if wc_id d = wc_id c then c' else d) cs = cs"
      using Cons.prems(1) by (intro map_idI) (auto simp: image_iff)
    with True Cons.prems show ?thesis by simp
  next
    case False
    with Cons show ?thesis by auto
  qed
qed simp

lemma get_compensations_save:
  assumes "wc_workflow_instance_id c' = i" "distinct (map wc_id (get_compensations r i))"
    "c \<in> set (get_compensations r i)" "wc_id c' = wc_id c"
  shows "get_compensations (save_compensation c' r) i =
    map (\<lambda>d. if wc_id d = wc_id c then c' else d) (get_compensations r i)"
proof -
  have "list_ex (\<lambda>d. wc_id d = wc_id c') (get_compensations r i)"
    using assms(3,4) by (auto simp: list_ex_iff)
  then show ?thesis
    using replace_first_map [OF assms(2-4)] assms(1)
    by (simp add: get_compensations_def save_compensation_def Let_def dget_default_dset)
qed

lemma get_compensations_other [simp]:
  "get_compensations (save_workflow inst r) i = get_compensations r i"
  "get_compensations (save_event e r) i = get_compensations r i"
  by (simp_all add: get_compensations_def save_workflow_def save_event_def Let_def)

lemma get_compensations_record [simp]:
  "get_compensations (ex_repo (record_event j ty d w)) i = get_compensations (ex_repo w) i"
  by (simp add: get_compensations_def)

lemma get_compensations_reverse [simp]:
  "get_compensations (reverse_compensations i r) i = rev (get_compensations r i)"
  by (simp add: get_compensations_def reverse_compensations_def dget_default_def dict_simps split: option.splits)

lemma update_instance_fields [simp]:
  "get_compensations (ex_repo (update_instance i f w)) j = get_compensations (ex_repo w) j"
  "ex_trace (update_instance i f w) = ex_trace w" "ex_cache (update_instance i f w) = ex_cache w"
  "ex_now (update_instance i f w) = ex_now w"
  "wr_steps (ex_repo (update_instance i f w)) = wr_steps (ex_repo w)"
  by (simp_all add: update_instance_def save_workflow_def get_compensations_def split: option.splits)

text \<open>The handler call a compensation makes, and how its record ends.\<close>

definition handler_call :: "wf_context \<Rightarrow> workflow_compensation \<Rightarrow> external_call list" where
  "handler_call cx c =
     (if wc_status c \<noteq> SPENDING then []
      else case dget (cx_compensation_handlers cx) (wc_compensation_name c) of
             None \<Rightarrow> [] | Some h \<Rightarrow> [CompensationCall h (input_or_empty (wc_input c))])"

definition compensation_done :: "workflow_compensation \<Rightarrow> workflow_compensation \<Rightarrow> bool" where
  "compensation_done c c' \<longleftrightarrow> wc_id c' = wc_id c \<and> wc_compensation_name c' = wc_compensation_name c \<and>
     wc_workflow_instance_id c' = wc_workflow_instance_id c \<and>
     (if wc_status c = SPENDING then wc_status c' \<in> {SCOMPENSATED, SCOMPENSATION_FAILED} else c' = c)"

lemma run_compensation_effect:
  assumes "wc_status c = SPENDING" "wc_workflow_instance_id c = cx_id cx"
    "distinct (map wc_id (get_compensations (ex_repo w) (cx_id cx)))" "c \<in> set (get_compensations (ex_repo w) (cx_id cx))"
  shows "ex_trace (run_compensation env cx c w) = ex_trace w @ handler_call cx c \<and>
    (\<exists>c'. compensation_done c c' \<and>
       (dget (cx_compensation_handlers cx) (wc_compensation_name c) = None \<longrightarrow> wc_status c' = SCOMPENSATED) \<and>
       get_compensations (ex_repo (run_compensation env cx c w)) (cx_id cx) =
         map (\<lambda>d. if wc_id d = wc_id c then c' else d) (get_compensations (ex_repo w) (cx_id cx)))"
proof -
  let ?c1 = "c\<lparr>wc_status := SCOMPENSATING, wc_executed_at := Some (ex_now w)\<rparr>"
  let ?cs = "get_compensations (ex_repo w) (cx_id cx)"
  have save1: "get_compensations (save_compensation ?c1 r) (cx_id cx) = map (\<lambda>d. if wc_id d = wc_id c then ?c1 else d) ?cs"
    if "get_compensations r (cx_id cx) = ?cs" for r
    using get_compensations_save [of ?c1 "cx_id cx" r c] assms that by simp
  have ids: "map wc_id (map (\<lambda>d. if wc_id d = wc_id c then ?c1 else d) ?cs) = map wc_id ?cs"
    by (simp add: comp_def)
  have save2: "get_compensations (save_compensation c' r) (cx_id cx) = map (\<lambda>d. if wc_id d = wc_id c then c' else d) ?cs"
    if "get_compensations r (cx_id cx) = map (\<lambda>d. if wc_id d = wc_id c then ?c1 else d) ?cs"
      "wc_id c' = wc_id c" "wc_workflow_instance_id c' = cx_id cx" for r c'
  proof -
    have "?c1 \<in> set (get_compensations r (cx_id cx))"
      unfolding that(1) using assms(4) by force
    moreover have "distinct (map wc_id (get_compensations r (cx_id cx)))"
      unfolding that(1) ids by (rule assms(3))
    ultimately show ?thesis
      using get_compensations_save [of c' "cx_id cx" r ?c1] that by (auto simp: comp_def intro: map_cong)
  qed
  show ?thesis
  proof (cases "dget (cx_compensation_handlers cx) (wc_compensation_name c)")
    case None
    let ?c' = "?c1\<lparr>wc_status := SCOMPENSATED\<rparr>"
    have "compensation_done c ?c'" "wc_id ?c' = wc_id c" "wc_workflow_instance_id ?c' = cx_id cx"
      using assms(1,2) by (simp_all add: compensation_done_def)
    moreover from this(2,3) have "get_compensations (ex_repo (run_compensation env cx c w)) (cx_id cx) =
        map (\<lambda>d. if wc_id d = wc_id c then ?c' else d) ?cs"
      using save2 [of _ ?c'] by (simp add: run_compensation_def Let_def None save1)
    moreover have "ex_trace (run_compensation env cx c w) = ex_trace w @ handler_call cx c"
      using assms(1) by (simp add: run_compensation_def Let_def handler_call_def None)
    ultimately show ?thesis by (auto intro!: exI [of _ ?c'])
  next
    case (Some h)
    have tr: "ex_trace (run_compensation env cx c w) = ex_trace w @ handler_call cx c"
      using assms(1) by (simp add: run_compensation_def Let_def handler_call_def Some split: compensation_result.splits)
    obtain c' where c': "wc_id c' = wc_id c" "wc_workflow_instance_id c' = cx_id cx" "compensation_done c c'"
      "\<exists>ty d w'. run_compensation env cx c w = record_event (cx_id cx) ty d (on_repo (save_compensation c') w') \<and>
         get_compensations (ex_repo w') (cx_id cx) = map (\<lambda>d. if wc_id d = wc_id c then ?c1 else d) ?cs"
    proof (cases "en_compensation env h (input_or_empty (wc_input c)) (length (ex_trace w))")
      case (CReturns v)
      show ?thesis
        by (rule that [of "?c1\<lparr>wc_status := SCOMPENSATED, wc_output := Some (coerce_json_dict v)\<rparr>"])
          (use assms(1,2) in \<open>simp_all add: compensation_done_def run_compensation_def Let_def Some CReturns\<close>,
           intro exI, rule conjI [OF refl], simp add: save1)
    next
      case (CRaises e)
      show ?thesis
        by (rule that [of "?c1\<lparr>wc_status := SCOMPENSATION_FAILED, wc_error := Some e\<rparr>"])
          (use assms(1,2) in \<open>simp_all add: compensation_done_def run_compensation_def Let_def Some CRaises\<close>,
           intro exI, rule conjI [OF refl], simp add: save1)
    qed
    then have "get_compensations (ex_repo (run_compensation env cx c w)) (cx_id cx) =
        map (\<lambda>d. if wc_id d = wc_id c then c' else d) ?cs"
      using save2 [of _ c'] by auto
    with tr c' Some show ?thesis by auto
  qed
qed

lemma replace_at:
  assumes "distinct (map wc_id (pre @ c # cs))"
  shows "map (\<lambda>d. if wc_id d = wc_id c then c' else d) (pre @ c # cs) = pre @ c' # cs"
proof -
  have "map (\<lambda>d. if wc_id d = wc_id c then c' else d) pre = pre"
    "map (\<lambda>d. if wc_id d = wc_id c then c' else d) cs = cs"
    using assms by (auto intro!: map_idI simp: image_iff)
  then show ?thesis by simp
qed

lemma compensation_loop_effect:
  assumes "distinct (map wc_id (pre @ cs))" "list_all (\<lambda>c. wc_workflow_instance_id c = cx_id cx) cs"
    "get_compensations (ex_repo w) (cx_id cx) = pre @ cs"
  shows "ex_trace (compensation_loop env cx cs w) = ex_trace w @ concat (map (handler_call cx) cs) \<and>
    (\<exists>cs'. list_all2 compensation_done cs cs' \<and>
       get_compensations (ex_repo (compensation_loop env cx cs w)) (cx_id cx) = pre @ cs')"
  using assms
proof (induction cs arbitrary: pre w)
  case Nil
  then show ?case by simp
next
  case (Cons c cs)
  obtain c' w1 where w1: "w1 = (if wc_status c \<noteq> SPENDING then w else run_compensation env cx c w)"
    "ex_trace w1 = ex_trace w @ handler_call cx c" "compensation_done c c'"
    "get_compensations (ex_repo w1) (cx_id cx) = pre @ c' # cs"
  proof (cases "wc_status c = SPENDING")
    case False
    then show ?thesis
      using that [of w c] Cons.prems(3) by (simp add: handler_call_def compensation_done_def)
  next
    case True
    have "distinct (map wc_id (get_compensations (ex_repo w) (cx_id cx)))" "c \<in> set (get_compensations (ex_repo w) (cx_id cx))"
      unfolding Cons.prems(3) using Cons.prems(1) by auto
    from run_compensation_effect [OF True _ this, of env] Cons.prems(2)
    obtain c' where "ex_trace (run_compensation env cx c w) = ex_trace w @ handler_call cx c" "compensation_done c c'"
      "get_compensations (ex_repo (run_compensation env cx c w)) (cx_id cx) =
         map (\<lambda>d. if wc_id d = wc_id c then c' else d) (pre @ c # cs)"
      unfolding Cons.prems(3) by auto
    then show ?thesis
      using that [of "run_compensation env cx c w" c'] True replace_at [OF Cons.prems(1), of c'] by simp
  qed
  have "wc_id c' = wc_id c" using w1(3) by (simp add: compensation_done_def)
  with Cons.prems have "distinct (map wc_id ((pre @ [c']) @ cs))" "list_all (\<lambda>c. wc_workflow_instance_id c = cx_id cx) cs"
    "get_compensations (ex_repo w1) (cx_id cx) = (pre @ [c']) @ cs"
    using w1(4) by simp_all
  from Cons.IH [OF this] obtain cs' where
    "ex_trace (compensation_loop env cx cs w1) = ex_trace w1 @ concat (map (handler_call cx) cs)"
    "list_all2 compensation_done cs cs'"
    "get_compensations (ex_repo (compensation_loop env cx cs w1)) (cx_id cx) = pre @ c' # cs'"
    by auto
  with w1 show ?case
    by (auto intro!: exI [of _ "c' # cs'"])
qed

section \<open>Outcomes\<close>

text \<open>The instance is stored under its identifier throughout a run.\<close>

definition instances_keyed :: "'c world \<Rightarrow> bool" where
  "instances_keyed w \<longleftrightarrow> (\<forall>i inst. get_workflow (ex_repo w) i = Some inst \<longrightarrow> wi_id inst = i)"

lemma update_instance_lookup:
  assumes "instances_keyed w" "get_workflow (ex_repo w) i = Some inst" "\<And>x. wi_id (f x) = wi_id x"
  shows "get_workflow (ex_repo (update_instance i f w)) i = Some (f inst)"
  using assms by (simp add: update_instance_def instances_keyed_def)

definition begun :: "workflow_instance \<Rightarrow> 'c world \<Rightarrow> 'c world \<times> wf_context" where
  "begun inst w =
     (on_repo (save_workflow (inst\<lparr>wi_status := WRUNNING, wi_started_at := Some (ex_now w)\<rparr>)) w,
      \<lparr>cx_id = wi_id inst, cx_workflow_id = wi_workflow_id inst, cx_compensation_stack = [], cx_compensation_handlers = []\<rparr>)"

lemma begun_keyed:
  "instances_keyed w \<Longrightarrow> get_workflow (ex_repo (fst (begun inst w))) (wi_id inst) \<noteq> None \<and> instances_keyed (fst (begun inst w))"
  by (auto simp: begun_def instances_keyed_def)

lemma begun_trace [simp]: "ex_trace (fst (begun inst w)) = ex_trace w"
  by (simp add: begun_def)

lemma execute_activity_context: "cx_id (snd (fst (execute_activity ex env c (w, cx)))) = cx_id cx"
proof -
  obtain w0 r where g: "get_cached_step_result env cx (activity_key env cx c) w = (w0, r)"
    by (metis surj_pair)
  obtain w2 cx2 s where b: "begin_activity c (activity_key env cx c) (w0, cx) = ((w2, cx2), s)"
    by (metis surj_pair)
  show ?thesis
    using begin_activity_fields(2) [OF b]
    by (auto simp: execute_activity_def g b split: sum.splits option.splits)
qed

lemma run_program_context: "cx_id (snd (fst (run_program ex env p (w, cx)))) = cx_id cx"
proof (induction p arbitrary: w cx)
  case (Activity c k)
  obtain w1 cx1 r where a: "execute_activity ex env c (w, cx) = ((w1, cx1), r)"
    by (metis surj_pair)
  with execute_activity_context [of ex env c w cx] Activity.IH [OF rangeI] show ?case by simp
qed simp_all

text \<open>An execution that gets past the checks, by the result of its program.\<close>

lemma execute_workflow_begun:
  assumes "wi_constitutional_hash inst = de_constitutional_hash ex" "dget (de_workflows ex) (wi_workflow_type inst) = Some f"
    and "run_program ex env (f (wi_input inst)) (begun inst w) = ((w2, cx2), r)"
  shows "execute_workflow ex env inst w =
    (case r of
       Inr v \<Rightarrow> (let w3 = finalize_workflow_success cx2 v w2 in (w3, Inr (stored (wi_id inst) (inst\<lparr>wi_status := WRUNNING, wi_started_at := Some (ex_now w)\<rparr>) w3)))
     | Inl (TaskCancelled e) \<Rightarrow>
         (let w3 = finalize_workflow_cancelled cx2 e w2 in (w3, Inr (stored (wi_id inst) (inst\<lparr>wi_status := WRUNNING, wi_started_at := Some (ex_now w)\<rparr>) w3)))
     | Inl (OpError e) \<Rightarrow>
         (case finalize_workflow_failed env cx2 e w2 of
            (w3, Inl err) \<Rightarrow> (w3, Inl err)
          | (w3, Inr u) \<Rightarrow> (w3, Inr (stored (wi_id inst) (inst\<lparr>wi_status := WRUNNING, wi_started_at := Some (ex_now w)\<rparr>) w3)))
     | Inl (OtherError e) \<Rightarrow> (w2, Inl (OtherError e)))"
  using assms
  by (simp add: execute_workflow_def begun_def Let_def split: sum.splits wf_error.splits)

lemma run_compensations_steps [simp]:
  "wr_steps (ex_repo (fst (run_compensations env cx w))) = wr_steps (ex_repo w)"
proof -
  have one: "wr_steps (ex_repo (run_compensation env cx c w)) = wr_steps (ex_repo w)" for c w
    by (simp add: run_compensation_def Let_def save_compensation_def split: option.splits compensation_result.splits)
  have loop: "wr_steps (ex_repo (compensation_loop env cx cs w)) = wr_steps (ex_repo w)" for cs w
    by (induction cs arbitrary: w) (simp_all add: one)
  show ?thesis
    by (simp add: run_compensations_def Let_def loop reverse_compensations_def split: option.splits)
qed

lemma finalize_success_lookup:
  assumes "instances_keyed w" "get_workflow (ex_repo w) (cx_id cx) \<noteq> None"
  shows "\<exists>x. get_workflow (ex_repo (finalize_workflow_success cx v w)) (cx_id cx) = Some x \<and>
    wi_status x = WCOMPLETED \<and> wi_output x = Some (coerce_json_dict v)"
  using assms update_instance_lookup [OF assms(1), of "cx_id cx"]
  by (auto simp: finalize_workflow_success_def Let_def)

lemma finalize_cancelled_lookup:
  assumes "instances_keyed w" "get_workflow (ex_repo w) (cx_id cx) \<noteq> None"
  shows "\<exists>x. get_workflow (ex_repo (finalize_workflow_cancelled cx e w)) (cx_id cx) = Some x \<and> wi_status x = WCANCELLED"
  using assms update_instance_lookup [OF assms(1), of "cx_id cx"]
  by (auto simp: finalize_workflow_cancelled_def)

lemma finalize_failed_lookup:
  assumes "instances_keyed w" "get_workflow (ex_repo w) (cx_id cx) \<noteq> None"
    and "finalize_workflow_failed env cx e w = (w1, Inr u)"
  shows "\<exists>x. get_workflow (ex_repo w1) (cx_id cx) = Some x \<and> wi_status x = WFAILED \<and> wi_error x = Some e"
proof -
  obtain w2 where c: "run_compensations env cx (record_event (cx_id cx) WORKFLOW_FAILED [(''error'', JStr e)] w) = (w2, Inr ())"
    and w1: "w1 = update_instance (cx_id cx) (\<lambda>i. i\<lparr>wi_status := WFAILED, wi_error := Some e,
        wi_completed_at := Some (ex_now w2)\<rparr>) w2"
    using assms(3) by (auto simp: finalize_workflow_failed_def split: prod.splits sum.splits)
  have "get_workflow (ex_repo (record_event (cx_id cx) WORKFLOW_FAILED [(''error'', JStr e)] w)) (cx_id cx) \<noteq> None \<and>
      (\<forall>i inst. get_workflow (ex_repo (record_event (cx_id cx) WORKFLOW_FAILED [(''error'', JStr e)] w)) i = Some inst
         \<longrightarrow> wi_id inst = i)"
    using assms(1,2) by (simp add: instances_keyed_def)
  from present.run_compensations [OF this, of env cx]
  have "get_workflow (ex_repo w2) (cx_id cx) \<noteq> None" "instances_keyed w2"
    by (simp_all add: c instances_keyed_def)
  then show ?thesis
    using update_instance_lookup [of w2 "cx_id cx"] by (auto simp: w1)
qed

lemma run_compensations_trace: "\<exists>tr. ex_trace (fst (run_compensations env cx w)) = ex_trace w @ tr"
proof -
  have one: "\<exists>tr. ex_trace (run_compensation env cx c w) = ex_trace w @ tr" for c w
    by (simp add: run_compensation_def Let_def split: option.splits compensation_result.splits)
  have loop: "\<exists>tr. ex_trace (compensation_loop env cx cs w) = ex_trace w @ tr" for cs w
  proof (induction cs arbitrary: w)
    case (Cons c cs)
    let ?w1 = "if wc_status c \<noteq> SPENDING then w else run_compensation env cx c w"
    obtain tr1 where "ex_trace ?w1 = ex_trace w @ tr1" using one [of c w] by (cases "wc_status c = SPENDING") auto
    moreover obtain tr2 where "ex_trace (compensation_loop env cx cs ?w1) = ex_trace ?w1 @ tr2"
      using Cons.IH [of ?w1] by blast
    ultimately show ?case by simp
  qed simp
  show ?thesis
  proof (cases "en_cache env")
    case None
    then show ?thesis by (simp add: run_compensations_def)
  next
    case (Some ops)
    let ?w1 = "update_instance (cx_id cx) (\<lambda>i. i\<lparr>wi_status := WCOMPENSATING\<rparr>) w"
    let ?w2 = "on_repo (reverse_compensations (cx_id cx))
      (?w1\<lparr>ex_cache := ca_invalidate ops (cx_workflow_id cx) (ex_cache ?w1)\<rparr>)"
    obtain tr where "ex_trace (compensation_loop env cx (get_compensations (ex_repo ?w2) (cx_id cx)) ?w2) = ex_trace ?w2 @ tr"
      using loop by blast
    then show ?thesis by (simp add: run_compensations_def Let_def Some)
  qed
qed

lemma finalize_failed_trace: "\<exists>cs. ex_trace (fst (finalize_workflow_failed env cx e w)) = ex_trace w @ cs"
proof -
  let ?w = "record_event (cx_id cx) WORKFLOW_FAILED [(''error'', JStr e)] w"
  obtain w1 x where c: "run_compensations env cx ?w = (w1, x)" by (metis surj_pair)
  from run_compensations_trace [of env cx ?w] show ?thesis
    by (cases x) (simp_all add: finalize_workflow_failed_def c)
qed

lemma finalize_failed_error:
  "snd (finalize_workflow_failed env cx e w) = Inl err \<Longrightarrow> err = no_cache \<and> en_cache env = None"
  by (auto simp: finalize_workflow_failed_def run_compensations_def Let_def split: option.splits prod.splits sum.splits)

lemma program_keyed:
  assumes "run_program ex env p (begun inst w) = ((w2, cx2), x)" and "instances_keyed w"
  shows "cx_id cx2 = wi_id inst" "get_workflow (ex_repo w2) (wi_id inst) \<noteq> None" "instances_keyed w2"
proof -
  show "cx_id cx2 = wi_id inst"
    using run_program_context [of ex env p "fst (begun inst w)" "snd (begun inst w)"]
    by (simp add: assms(1)) (simp add: begun_def)
  have "get_workflow (ex_repo (fst (begun inst w))) (wi_id inst) \<noteq> None \<and>
      (\<forall>i x. get_workflow (ex_repo (fst (begun inst w))) i = Some x \<longrightarrow> wi_id x = i)"
    using begun_keyed [OF assms(2), of inst] by (simp add: instances_keyed_def)
  from present.run_program [OF this, of ex env p "snd (begun inst w)"]
  show "get_workflow (ex_repo w2) (wi_id inst) \<noteq> None" "instances_keyed w2"
    by (simp_all add: assms(1) instances_keyed_def)
qed

lemma execute_workflow_cases:
  assumes "execute_workflow ex env inst w = (w', r)" and "instances_keyed w"
  obtains (Refused) e where "w' = w" "r = Inl (OpError e)"
  | (Completed) w2 cx2 v inst' where
      "\<exists>p. run_program ex env p (begun inst w) = ((w2, cx2), Inr v)" "cx_id cx2 = wi_id inst"
      "instances_keyed w2" "w' = finalize_workflow_success cx2 v w2" "r = Inr inst'"
      "get_workflow (ex_repo w') (wi_id inst) = Some inst'" "wi_status inst' = WCOMPLETED"
      "wi_output inst' = Some (coerce_json_dict v)"
  | (Cancelled) w2 cx2 e inst' where
      "\<exists>p. run_program ex env p (begun inst w) = ((w2, cx2), Inl (TaskCancelled e))" "cx_id cx2 = wi_id inst"
      "w' = finalize_workflow_cancelled cx2 e w2" "r = Inr inst'"
      "get_workflow (ex_repo w') (wi_id inst) = Some inst'" "wi_status inst' = WCANCELLED"
  | (Failed) w2 cx2 e inst' u where
      "\<exists>p. run_program ex env p (begun inst w) = ((w2, cx2), Inl (OpError e))" "cx_id cx2 = wi_id inst"
      "finalize_workflow_failed env cx2 e w2 = (w', Inr u)" "r = Inr inst'"
      "get_workflow (ex_repo w') (wi_id inst) = Some inst'" "wi_status inst' = WFAILED" "wi_error inst' = Some e"
  | (Stuck) w2 cx2 e err where
      "\<exists>p. run_program ex env p (begun inst w) = ((w2, cx2), Inl (OpError e))"
      "finalize_workflow_failed env cx2 e w2 = (w', Inl err)" "r = Inl err"
  | (Escaped) cx2 e where
      "\<exists>p. run_program ex env p (begun inst w) = ((w', cx2), Inl (OtherError e))" "r = Inl (OtherError e)"
proof (cases "wi_constitutional_hash inst = de_constitutional_hash ex \<and> dget (de_workflows ex) (wi_workflow_type inst) \<noteq> None")
  case False
  with assms(1) show thesis by (auto intro: Refused simp: execute_workflow_def split: if_splits)
next
  case True
  then obtain f where f: "wi_constitutional_hash inst = de_constitutional_hash ex" "dget (de_workflows ex) (wi_workflow_type inst) = Some f"
    by auto
  obtain w2 cx2 x where p: "run_program ex env (f (wi_input inst)) (begun inst w) = ((w2, cx2), x)"
    by (metis surj_pair)
  note e = execute_workflow_begun [OF f p, unfolded assms(1)]
  have cx: "cx_id cx2 = wi_id inst" and k: "get_workflow (ex_repo w2) (cx_id cx2) \<noteq> None" "instances_keyed w2"
    using program_keyed [OF p assms(2)] by simp_all
  show thesis
  proof (cases x)
    case (Inr v)
    from finalize_success_lookup [OF k(2,1), of v] obtain y where
      "get_workflow (ex_repo (finalize_workflow_success cx2 v w2)) (wi_id inst) = Some y"
      "wi_status y = WCOMPLETED" "wi_output y = Some (coerce_json_dict v)"
      by (auto simp: cx)
    then show thesis
      by (intro Completed [of w2 cx2 v y]) (use e p cx k Inr in \<open>auto simp: Let_def stored_def\<close>)
  next
    case (Inl err)
    show thesis
    proof (cases err)
      case (TaskCancelled m)
      from finalize_cancelled_lookup [OF k(2,1), of m] obtain y where
        "get_workflow (ex_repo (finalize_workflow_cancelled cx2 m w2)) (wi_id inst) = Some y" "wi_status y = WCANCELLED"
        by (auto simp: cx)
      then show thesis
        by (intro Cancelled [of w2 cx2 m y]) (use e p cx Inl TaskCancelled in \<open>auto simp: Let_def stored_def\<close>)
    next
      case (OtherError m)
      with e p Inl show thesis by (auto intro: Escaped)
    next
      case (OpError m)
      obtain w3 y where fin: "finalize_workflow_failed env cx2 m w2 = (w3, y)" by (metis surj_pair)
      show thesis
      proof (cases y)
        case (Inl err')
        with e p fin OpError \<open>x = Inl err\<close> show thesis by (auto intro: Stuck)
      next
        case (Inr u)
        from finalize_failed_lookup [OF k(2,1) fin [unfolded Inr]] obtain z where
          "get_workflow (ex_repo w3) (wi_id inst) = Some z" "wi_status z = WFAILED" "wi_error z = Some m"
          by (auto simp: cx)
        then show thesis
          by (intro Failed [of w2 cx2 m u z]) (use e p cx fin OpError \<open>x = Inl err\<close> Inr in \<open>auto simp: stored_def\<close>)
      qed
    qed
  qed
qed

end
