(* ===== verification/Workflow_Properties.thy ===== *)
theory Workflow_Properties
  imports Workflow_Theorems
begin

text \<open>
  The properties of durable workflows, over the lemmas of \<open>Workflow_Theorems\<close>, and the agreement of the
  replay engine with the executor.
\<close>

section \<open>Replay\<close>

definition replayed :: "(uuid \<Rightarrow> string) \<Rightarrow> rat \<Rightarrow> uuid \<Rightarrow> 'c world \<Rightarrow> workflow_instance option" where
  "replayed show_id now i w = fold (apply_event show_id now i) (log_of i w) None"

lemma replayed_record:
  "replayed show_id now i (record_event j ty d w) =
     (if i = j then apply_event show_id now i (event_for j ty d w) (replayed show_id now i w)
      else replayed show_id now i w)"
  by (simp add: replayed_def log_record_event)

lemma log_of_other [simp]:
  "log_of i (on_repo (save_workflow inst) w) = log_of i w"
  "log_of i (on_repo (save_step s) w) = log_of i w"
  "log_of i (on_repo (save_compensation c) w) = log_of i w"
  "log_of i (on_repo (reverse_compensations j) w) = log_of i w"
  "log_of i (on_repo (save_checkpoint cp) w) = log_of i w"
  "log_of i (w\<lparr>ex_cache := ca\<rparr>) = log_of i w" "log_of i (w\<lparr>ex_now := t\<rparr>) = log_of i w"
  "log_of i (w\<lparr>ex_trace := tr\<rparr>) = log_of i w" "log_of i (w\<lparr>ex_next := n\<rparr>) = log_of i w"
  "log_of i (update_instance j f w) = log_of i w"
  by (simp_all add: log_of_def update_instance_def split: option.splits)

lemma replayed_cong: "log_of i w = log_of i w' \<Longrightarrow> replayed show_id now i w = replayed show_id now i w'"
  by (simp add: replayed_def)

lemma replayed_other [simp]:
  "replayed show_id now i (on_repo (save_workflow inst) w) = replayed show_id now i w"
  "replayed show_id now i (on_repo (save_step s) w) = replayed show_id now i w"
  "replayed show_id now i (on_repo (save_compensation c) w) = replayed show_id now i w"
  "replayed show_id now i (on_repo (reverse_compensations j) w) = replayed show_id now i w"
  "replayed show_id now i (on_repo (save_checkpoint cp) w) = replayed show_id now i w"
  "replayed show_id now i (w\<lparr>ex_cache := ca\<rparr>) = replayed show_id now i w"
  "replayed show_id now i (w\<lparr>ex_now := t\<rparr>) = replayed show_id now i w"
  "replayed show_id now i (w\<lparr>ex_trace := tr\<rparr>) = replayed show_id now i w"
  "replayed show_id now i (w\<lparr>ex_next := n\<rparr>) = replayed show_id now i w"
  "replayed show_id now i (update_instance j f w) = replayed show_id now i w"
  by (rule replayed_cong, simp)+

lemma apply_event_Some: "\<exists>y. apply_event show_id now i e (Some x) = Some y"
  by (cases "we_event_type e") (simp_all add: apply_event_def Let_def)

lemma event_for_fields [simp]:
  "we_event_type (event_for i ty d w) = ty" "we_event_data (event_for i ty d w) = d"
  by (simp_all add: event_for_def)

interpretation started: world_invariant "\<lambda>w. replayed show_id now i w \<noteq> None" for show_id now i
proof
  fix w :: "'a world" and j ty d
  assume "replayed show_id now i w \<noteq> None"
  then show "replayed show_id now i (record_event j ty d w) \<noteq> None"
    using apply_event_Some [of show_id now i "event_for j ty d w"] by (auto simp: replayed_record)
qed simp_all

lemma apply_start: "we_event_type e = WORKFLOW_STARTED \<Longrightarrow> \<exists>y. apply_event show_id now i e x = Some y"
  by (simp add: apply_event_def Let_def)

lemma started_replayed:
  assumes "e \<in> set (log_of i w)" "we_event_type e = WORKFLOW_STARTED"
  shows "replayed show_id now i w \<noteq> None"
proof -
  have keep: "fold (apply_event show_id now i) es (Some x) \<noteq> None" for es x
  proof (induction es arbitrary: x)
    case (Cons e es)
    with apply_event_Some [of show_id now i e x] show ?case by auto
  qed simp
  have "fold (apply_event show_id now i) es x \<noteq> None" if "e \<in> set es" for es x
    using that
  proof (induction es arbitrary: x)
    case (Cons e' es)
    then show ?case
      using keep apply_start [OF assms(2), of show_id now i x] by (cases "e = e'") auto
  qed simp
  with assms(1) show ?thesis by (simp add: replayed_def)
qed

lemma replayed_run_compensation [simp]:
  "replayed show_id now i (run_compensation env cx c w) = replayed show_id now i w"
  by (simp add: run_compensation_def Let_def replayed_record apply_event_def
      split: option.splits compensation_result.splits)

lemma replayed_loop [simp]: "replayed show_id now i (compensation_loop env cx cs w) = replayed show_id now i w"
  by (induction cs arbitrary: w) simp_all

lemma replayed_run_compensations [simp]:
  "replayed show_id now i (fst (run_compensations env cx w)) = replayed show_id now i w"
  by (simp add: run_compensations_def Let_def split: option.splits)

lemma replay_workflow_eq:
  "replay_workflow show_id now (ex_repo w) i None =
     (if log_of i w = [] then Inl (NoEvents i)
      else case replayed show_id now i w of None \<Rightarrow> Inl MissingStart | Some x \<Rightarrow> Inr x)"
  by (simp add: replay_workflow_def reconstruct_from_events_def replayed_def log_of_def Let_def)

lemma replayed_nonempty: "replayed show_id now i w \<noteq> None \<Longrightarrow> log_of i w \<noteq> []"
  by (auto simp: replayed_def)

section \<open>Properties\<close>

definition fresh_world :: "'c \<Rightarrow> rat \<Rightarrow> 'c world" where
  "fresh_world ca now = \<lparr>ex_repo = empty_repository, ex_cache = ca, ex_now = now, ex_next = 0, ex_trace = []\<rparr>"

text \<open>C16: The event log is durable: on every run of the executor, with whatever activities and cancellations,
  the log of each workflow is numbered 1, 2, 3, ... without a gap, and what has been logged is never
  changed or removed by anything that happens later.\<close>

theorem event_log_integrity:
  "numbered (log_of i (run (durable_step ex env) (fresh_world ca now) ops)) \<and>
   prefix (log_of i (run (durable_step ex env) (fresh_world ca now) ops))
     (log_of i (run (durable_step ex env) (fresh_world ca now) (ops @ later)))"
proof -
  have "\<forall>i. numbered (log_of i (fresh_world ca now))"
    by (simp add: fresh_world_def log_of_def get_events_def empty_repository_def dget_default_def numbered_def)
  from numbered_log.durable.run_invar [OF this, of ops ex env]
  have "numbered (log_of i (run (durable_step ex env) (fresh_world ca now) ops))"
    by (simp add: list_all_iff)
  moreover let ?w = "run (durable_step ex env) (fresh_world ca now) ops"
  have "\<forall>i. prefix (log_of i ?w) (log_of i ?w)" by simp
  from growing_log.durable.run_invar [OF this, of later ex env]
  have "prefix (log_of i ?w) (log_of i (run (durable_step ex env) (fresh_world ca now) (ops @ later)))"
    by (simp add: list_all_iff run_append)
  ultimately show ?thesis by blast
qed

text \<open>Retries are bounded: whatever the activity does, executing it calls it at most
  \<open>max_retries + 1\<close> times, with the same input, and calls nothing else.\<close>

theorem activity_attempts_bounded:
  "\<exists>m \<le> nat (de_max_retries ex + 1). ex_trace (fst (fst (execute_activity ex env c (w, cx)))) =
     ex_trace w @ replicate m (ActivityCall (ac_activity c) (input_or_empty (ac_input c)))"
  by (rule activity_effect)


definition demo_env :: "(nat \<Rightarrow> activity_result) \<Rightarrow> unit environment" where
  "demo_env f = \<lparr>en_activity = \<lambda>a d n. \<lparr>ao_duration = 1, ao_cancelled = None, ao_result = f n\<rparr>,
     en_compensation = \<lambda>h d n. CReturns JNull, en_digest = \<lambda>ks. concat ks, en_timeout_text = \<lambda>s t. s,
     en_cache = Some \<lparr>ca_get = \<lambda>c i k. None, ca_set = \<lambda>i k v c. c, ca_invalidate = \<lambda>i c. c\<rparr>\<rparr>"

definition demo_call :: activity_call where
  "demo_call = \<lparr>ac_step_name = ''pay'', ac_activity = ''charge'', ac_input = None, ac_compensation = Some ''refund'',
     ac_idempotency_key = None, ac_timeout = None\<rparr>"

definition demo_context :: wf_context where
  "demo_context = \<lparr>cx_id = 0, cx_workflow_id = ''order'', cx_compensation_stack = [], cx_compensation_handlers = []\<rparr>"

lemma demo_misses: "always_misses (demo_env f)"
  by (simp add: always_misses_def demo_env_def)

lemmas demo_simps =
  execute_activity_def activity_key_def get_idempotency_key_def get_cached_step_result_def demo_env_def demo_call_def
  demo_context_def fresh_world_def truthy_str_def begin_activity_def register_compensation_def new_step_def
  end_activity_def run_attempt_def is_cancelled_def call_activity_def complete_step_def Let_def mk_executor_def
  empty_repository_def get_step_by_idempotency_key_def get_workflow_def numeral_eq_Suc

lemma demo_result:
  "snd (execute_activity mk_executor (demo_env (\<lambda>n. Returns (JInt 5))) demo_call (fresh_world () 0, demo_context)) = Inr (JInt 5)"
  by (simp add: demo_simps on_repo_def save_step_def save_compensation_def record_event_def save_event_def)


text \<open>A workflow that fails undoes its steps in reverse: the compensations still pending are run in the
  reverse order of their registration, each handler once with the input registered with it, and
  afterwards none of them is pending. A compensation whose handler the context does not know (one
  registered by an earlier run) is not called at all, and yet ends as compensated.\<close>

theorem compensations_run_in_reverse:
  assumes "en_cache env = Some ops"
    and "distinct (map wc_id (get_compensations (ex_repo w) (cx_id cx)))"
    and "list_all (\<lambda>c. wc_workflow_instance_id c = cx_id cx) (get_compensations (ex_repo w) (cx_id cx))"
  shows "let cs = get_compensations (ex_repo w) (cx_id cx); w' = fst (run_compensations env cx w)
    in ex_trace w' = ex_trace w @ concat (map (handler_call cx) (rev cs)) \<and>
       list_all2 compensation_done (rev cs) (get_compensations (ex_repo w') (cx_id cx))"
proof -
  let ?cs = "get_compensations (ex_repo w) (cx_id cx)"
  let ?w1 = "update_instance (cx_id cx) (\<lambda>i. i\<lparr>wi_status := WCOMPENSATING\<rparr>) w"
  let ?w2 = "on_repo (reverse_compensations (cx_id cx))
    (?w1\<lparr>ex_cache := ca_invalidate ops (cx_workflow_id cx) (ex_cache ?w1)\<rparr>)"
  have "get_compensations (ex_repo ?w2) (cx_id cx) = [] @ rev ?cs" by simp
  from compensation_loop_effect [OF _ _ this, of env] assms(2,3) show ?thesis
    by (auto simp: run_compensations_def Let_def assms(1) rev_map [symmetric] list_all_iff)
qed

definition pending :: "uuid \<Rightarrow> string \<Rightarrow> workflow_compensation" where
  "pending i nm = \<lparr>wc_id = i, wc_workflow_instance_id = 0, wc_step_id = i, wc_compensation_name = nm,
     wc_status = SPENDING, wc_input = None, wc_output = None, wc_error = None, wc_executed_at = None, wc_created_at = 0\<rparr>"

definition two_compensations :: "unit world" where
  "two_compensations = (fresh_world () 0)\<lparr>ex_repo := empty_repository
     \<lparr>wr_compensations := [(0, [pending 1 ''a'', pending 2 ''b''])]\<rparr>\<rparr>"

theorem compensations_run_in_reverse_witness:
  "ex_trace (fst (run_compensations (demo_env (\<lambda>n. TimesOut))
     (demo_context\<lparr>cx_compensation_handlers := [(''a'', ''undo_a''), (''b'', ''undo_b'')]\<rparr>) two_compensations)) =
   [CompensationCall ''undo_b'' [], CompensationCall ''undo_a'' []]"
proof -
  let ?env = "demo_env (\<lambda>n. TimesOut)"
  let ?cx = "demo_context\<lparr>cx_compensation_handlers := [(''a'', ''undo_a''), (''b'', ''undo_b'')]\<rparr>"
  obtain ops where "en_cache ?env = Some ops" by (simp add: demo_env_def)
  from compensations_run_in_reverse [OF this, of two_compensations ?cx] show ?thesis
    by (simp add: Let_def two_compensations_def demo_context_def get_compensations_def dget_default_def pending_def
        handler_call_def input_or_empty_def fresh_world_def)
qed

text \<open>Only a failure compensates: an execution that returns leaves the instance stored as completed,
  cancelled or failed, and unless it failed, no compensation has run; nor has one when an exception
  escapes that is not an operation error. So a cancelled workflow, and one stopped by such an
  exception, keeps the effects of its steps.\<close>

theorem only_failure_compensates:
  assumes "execute_workflow ex env inst w = (w', r)" and "instances_keyed w"
  shows "\<exists>cs. ex_trace w' = ex_trace w @ cs \<and>
    (case r of
       Inr inst' \<Rightarrow> get_workflow (ex_repo w') (wi_id inst) = Some inst' \<and>
         wi_status inst' \<in> {WCOMPLETED, WCANCELLED, WFAILED} \<and> (wi_status inst' = WFAILED \<or> list_all is_activity cs)
     | Inl e \<Rightarrow> (case e of OtherError m \<Rightarrow> list_all is_activity cs | _ \<Rightarrow> True))"
  using assms
proof (cases rule: execute_workflow_cases)
  case (Refused e)
  then show ?thesis by simp
next
  case (Completed w2 cx2 v inst')
  then obtain p where p: "run_program ex env p (begun inst w) = ((w2, cx2), Inr v)" by blast
  from Completed program_trace [of ex env p "fst (begun inst w)" "snd (begun inst w)"] show ?thesis
    by (auto simp: p finalize_workflow_success_def Let_def)
next
  case (Cancelled w2 cx2 e inst')
  then obtain p where p: "run_program ex env p (begun inst w) = ((w2, cx2), Inl (TaskCancelled e))" by blast
  from Cancelled program_trace [of ex env p "fst (begun inst w)" "snd (begun inst w)"] show ?thesis
    by (auto simp: p finalize_workflow_cancelled_def)
next
  case (Escaped cx2 e)
  then obtain p where p: "run_program ex env p (begun inst w) = ((w', cx2), Inl (OtherError e))" by blast
  from Escaped program_trace [of ex env p "fst (begun inst w)" "snd (begun inst w)"] show ?thesis
    by (auto simp: p)
next
  case (Failed w2 cx2 e inst' u)
  then obtain p where p: "run_program ex env p (begun inst w) = ((w2, cx2), Inl (OpError e))" by blast
  have "\<exists>cs. ex_trace w2 = ex_trace w @ cs"
    using program_trace [of ex env p "fst (begun inst w)" "snd (begun inst w)"] by (auto simp: p)
  moreover have "\<exists>cs. ex_trace w' = ex_trace w2 @ cs"
    using finalize_failed_trace [of env cx2 e w2] Failed by simp
  ultimately show ?thesis using Failed by auto
next
  case (Stuck w2 cx2 e err)
  then obtain p where p: "run_program ex env p (begun inst w) = ((w2, cx2), Inl (OpError e))" by blast
  have "\<exists>cs. ex_trace w2 = ex_trace w @ cs"
    using program_trace [of ex env p "fst (begun inst w)" "snd (begun inst w)"] by (auto simp: p)
  moreover have "\<exists>cs. ex_trace w' = ex_trace w2 @ cs" "err = no_cache"
    using finalize_failed_trace [of env cx2 e w2] finalize_failed_error [of env cx2 e w2] Stuck by auto
  ultimately show ?thesis using Stuck by (auto simp: no_cache_def)
qed


definition demo_instance :: workflow_instance where
  "demo_instance = \<lparr>wi_id = 0, wi_workflow_type = ''order'', wi_workflow_id = ''order'', wi_tenant_id = ''t'',
     wi_status = WPENDING, wi_input = None, wi_output = None, wi_error = None, wi_started_at = None,
     wi_completed_at = None, wi_constitutional_hash = CONSTITUTIONAL_HASH, wi_created_at = 0, wi_updated_at = 0\<rparr>"

definition demo_executor :: "program \<Rightarrow> executor" where
  "demo_executor p = register_workflow ''order'' (\<lambda>_. p) mk_executor"

definition cancelling_env :: "unit environment" where
  "cancelling_env = (demo_env (\<lambda>n. Returns (JInt 5)))
     \<lparr>en_activity := \<lambda>a d n. \<lparr>ao_duration = 1, ao_cancelled = Some ''enough'', ao_result = Returns (JInt 5)\<rparr>\<rparr>"

definition pay :: program where
  "pay = Activity demo_call (\<lambda>r. case r of Inl e \<Rightarrow> Throw e | Inr v \<Rightarrow> Finish v)"

lemma fresh_keyed: "instances_keyed (fresh_world () 0)"
  by (simp add: instances_keyed_def fresh_world_def empty_repository_def get_workflow_def)

lemma cancelled_call:
  "snd (execute_activity (demo_executor pay) cancelling_env demo_call (begun demo_instance (fresh_world () 0))) =
     Inl (TaskCancelled (''Workflow '' @ ''order'' @ '' was cancelled during step '' @ ''pay''))"
  by (simp add: demo_simps on_repo_def save_step_def save_compensation_def record_event_def save_event_def
      demo_executor_def register_workflow_def demo_instance_def cancelling_env_def begun_def dict_simps
      save_workflow_def cancel_workflow_def get_workflow_by_business_id_def del: append.simps)

lemma cancelling_run:
  "\<exists>w' inst'. execute_workflow (demo_executor pay) cancelling_env demo_instance (fresh_world () 0) = (w', Inr inst') \<and>
     wi_status inst' = WCANCELLED"
proof -
  let ?ex = "demo_executor pay"
  let ?m = "''Workflow '' @ ''order'' @ '' was cancelled during step '' @ ''pay''"
  obtain w1 cx1 where "execute_activity ?ex cancelling_env demo_call (begun demo_instance (fresh_world () 0)) =
      ((w1, cx1), Inl (TaskCancelled ?m))"
    using cancelled_call by (metis surj_pair snd_conv)
  then have p: "run_program ?ex cancelling_env pay (begun demo_instance (fresh_world () 0)) = ((w1, cx1), Inl (TaskCancelled ?m))"
    by (simp add: pay_def)
  have f: "wi_constitutional_hash demo_instance = de_constitutional_hash ?ex"
    "dget (de_workflows ?ex) (wi_workflow_type demo_instance) = Some (\<lambda>_. pay)"
    by (simp_all add: demo_instance_def demo_executor_def register_workflow_def mk_executor_def dict_simps)
  from finalize_cancelled_lookup [of w1 cx1 ?m] program_keyed [OF p fresh_keyed] obtain y where
    "get_workflow (ex_repo (finalize_workflow_cancelled cx1 ?m w1)) (wi_id demo_instance) = Some y" "wi_status y = WCANCELLED"
    by auto
  then show ?thesis
    unfolding execute_workflow_begun [OF f p] by (simp add: Let_def stored_def)
qed

theorem only_failure_compensates_witness:
  "\<exists>w' inst'. execute_workflow (demo_executor pay) cancelling_env demo_instance (fresh_world () 0) = (w', Inr inst') \<and>
     wi_status inst' = WCANCELLED \<and> list_all is_activity (ex_trace w')"
proof -
  obtain w' inst' where e: "execute_workflow (demo_executor pay) cancelling_env demo_instance (fresh_world () 0) = (w', Inr inst')"
    "wi_status inst' = WCANCELLED"
    using cancelling_run by blast
  from only_failure_compensates [OF e(1) fresh_keyed] e show ?thesis
    by (auto simp: fresh_world_def)
qed


text \<open>C37: Replay agrees with the executor: when an execution of a started workflow returns it completed or
  failed, rebuilding the workflow from its event log gives the same status, and the same output or
  error as the stored instance.\<close>

theorem replay_agrees:
  assumes "execute_workflow ex env inst w = (w', Inr inst')" and "instances_keyed w"
    and "list_ex (\<lambda>e. we_event_type e = WORKFLOW_STARTED) (log_of (wi_id inst) w)"
    and "wi_status inst' \<noteq> WCANCELLED"
  shows "\<exists>x. replay_workflow show_id now (ex_repo w') (wi_id inst) None = Inr x \<and> wi_status x = wi_status inst' \<and>
    (if wi_status inst' = WCOMPLETED then wi_output x = wi_output inst' else wi_error x = wi_error inst')"
proof -
  have "replayed show_id now (wi_id inst) (fst (begun inst w)) \<noteq> None"
    using assms(3) started_replayed [of _ "wi_id inst" w show_id now] by (auto simp: list_ex_iff begun_def)
  then have prog: "replayed show_id now (wi_id inst) w2 \<noteq> None"
    if "run_program ex env p (begun inst w) = ((w2, cx2), r)" for p w2 cx2 r
    using started.run_program [of show_id now "wi_id inst" "fst (begun inst w)" ex env p "snd (begun inst w)"] that
    by simp
  have replay: ?thesis
    if "replayed show_id now (wi_id inst) w' = Some x" "wi_status x = wi_status inst'"
      "if wi_status inst' = WCOMPLETED then wi_output x = wi_output inst' else wi_error x = wi_error inst'" for x
    using that replayed_nonempty [of show_id now "wi_id inst" w'] by (simp add: replay_workflow_eq)
  from assms(1,2) show ?thesis
  proof (cases rule: execute_workflow_cases)
    case (Completed w2 cx2 v y)
    then obtain p where "run_program ex env p (begun inst w) = ((w2, cx2), Inr v)" by blast
    from prog [OF this] obtain x where "replayed show_id now (wi_id inst) w2 = Some x" by auto
    then have "replayed show_id now (wi_id inst) w' =
        Some (x\<lparr>wi_status := WCOMPLETED, wi_output := Some (coerce_json_dict v)\<rparr>)"
      using Completed by (simp add: finalize_workflow_success_def Let_def replayed_record apply_event_def)
    from replay [OF this] Completed show ?thesis by simp
  next
    case (Failed w2 cx2 e y u)
    then obtain p where "run_program ex env p (begun inst w) = ((w2, cx2), Inl (OpError e))" by blast
    from prog [OF this] obtain x where x: "replayed show_id now (wi_id inst) w2 = Some x" by auto
    let ?w = "record_event (cx_id cx2) WORKFLOW_FAILED [(''error'', JStr e)] w2"
    obtain w3 where c: "run_compensations env cx2 ?w = (w3, Inr ())"
      and w3: "replayed show_id now (wi_id inst) w' = replayed show_id now (wi_id inst) w3"
      using Failed by (auto simp: finalize_workflow_failed_def split: prod.splits sum.splits)
    from c have "replayed show_id now (wi_id inst) w3 = replayed show_id now (wi_id inst) ?w"
      by (metis fst_conv replayed_run_compensations)
    with x w3 Failed
    have "replayed show_id now (wi_id inst) w' = Some (x\<lparr>wi_status := WFAILED, wi_error := Some e\<rparr>)"
      by (simp add: replayed_record apply_event_def)
    from replay [OF this] Failed show ?thesis by simp
  qed (use assms(4) in auto)
qed

definition started_world :: "unit world" where
  "started_world = fst (start_workflow (demo_executor (Finish (JInt 7))) ''order'' ''order'' ''t'' None (fresh_world () 0))"

lemma started_facts:
  "instances_keyed started_world" "list_ex (\<lambda>e. we_event_type e = WORKFLOW_STARTED) (log_of 0 started_world)"
proof -
  have *: "started_world = fst (create_instance (demo_executor (Finish (JInt 7))) ''order'' ''order'' ''t'' None (fresh_world () 0))"
    by (simp add: started_world_def start_workflow_def demo_executor_def register_workflow_def dict_simps
        get_workflow_by_business_id_def fresh_world_def empty_repository_def)
  show "instances_keyed started_world"
    using fresh_keyed by (simp add: * create_instance_def Let_def instances_keyed_def)
  show "list_ex (\<lambda>e. we_event_type e = WORKFLOW_STARTED) (log_of 0 started_world)"
    by (simp add: * create_instance_def Let_def log_record_event fresh_world_def)
qed

theorem replay_agrees_witness:
  "\<exists>w' x. fst (execute_workflow (demo_executor (Finish (JInt 7))) (demo_env (\<lambda>n. TimesOut)) demo_instance started_world) = w' \<and>
     replay_workflow (\<lambda>i. ''id'') 0 (ex_repo w') 0 None = Inr x \<and> wi_output x = Some (JObj [(''result'', JInt 7)])"
proof -
  let ?ex = "demo_executor (Finish (JInt 7))" and ?env = "demo_env (\<lambda>n. TimesOut)"
  have f: "wi_constitutional_hash demo_instance = de_constitutional_hash ?ex"
    "dget (de_workflows ?ex) (wi_workflow_type demo_instance) = Some (\<lambda>_. Finish (JInt 7))"
    by (simp_all add: demo_instance_def demo_executor_def register_workflow_def mk_executor_def dict_simps)
  obtain w2 cx2 where p: "run_program ?ex ?env (Finish (JInt 7)) (begun demo_instance started_world) = ((w2, cx2), Inr (JInt 7))"
    by (cases "begun demo_instance started_world") simp
  from finalize_success_lookup [of w2 cx2 "JInt 7"] program_keyed [OF p started_facts(1)] obtain y where
    y: "get_workflow (ex_repo (finalize_workflow_success cx2 (JInt 7) w2)) (wi_id demo_instance) = Some y"
    "wi_status y = WCOMPLETED" "wi_output y = Some (JObj [(''result'', JInt 7)])"
    by auto
  have e: "execute_workflow ?ex ?env demo_instance started_world = (finalize_workflow_success cx2 (JInt 7) w2, Inr y)"
    unfolding execute_workflow_begun [OF f p] using y by (simp add: Let_def stored_def)
  have i: "wi_id demo_instance = 0" by (simp add: demo_instance_def)
  from replay_agrees [OF e started_facts(1), of "\<lambda>i. ''id''" 0] started_facts(2) y show ?thesis
    by (auto simp: i e)
qed

text \<open>Replay does not know whose workflow it is: right after a new workflow has been started, replaying
  it gives back its type and input, but the text of its UUID for the business identifier and
  \<open>default\<close> for the tenant, because the start event carries neither.\<close>

theorem replay_loses_identity:
  assumes "dget (de_workflows ex) ty \<noteq> None" and "get_workflow_by_business_id (ex_repo w) wid tid = None"
    and "log_of (ex_next w) w = []"
  shows "\<exists>w' inst x. start_workflow ex ty wid tid inp w = (w', Inr inst) \<and>
    wi_workflow_id inst = wid \<and> wi_tenant_id inst = tid \<and>
    replay_workflow show_id now (ex_repo w') (wi_id inst) None = Inr x \<and>
    wi_workflow_type x = ty \<and> wi_input x = inp \<and>
    wi_workflow_id x = show_id (wi_id inst) \<and> wi_tenant_id x = ''default''"
proof -
  have "log_of (ex_next w) (on_repo (save_workflow inst) (w\<lparr>ex_next := n\<rparr>)) = []" for inst n
    using assms(3) by simp
  then show ?thesis
    using assms(1,2)
    by (auto simp: start_workflow_def create_instance_def Let_def replay_workflow_eq log_record_event replayed_def
        apply_event_def json_str_or_def json_of_input_def split: option.splits)
qed


theorem replay_loses_identity_witness:
  "\<exists>w' inst x. start_workflow (demo_executor pay) ''order'' ''order-17'' ''acme'' None (fresh_world () 0) = (w', Inr inst) \<and>
     wi_tenant_id inst = ''acme'' \<and> replay_workflow (\<lambda>i. ''uuid'') 0 (ex_repo w') (wi_id inst) None = Inr x \<and>
     wi_workflow_id x = ''uuid'' \<and> wi_tenant_id x = ''default''"
proof -
  have "dget (de_workflows (demo_executor pay)) ''order'' \<noteq> None"
    "get_workflow_by_business_id (ex_repo (fresh_world () 0)) ''order-17'' ''acme'' = None"
    "log_of (ex_next (fresh_world () 0)) (fresh_world () 0) = []"
    by (simp_all add: demo_executor_def register_workflow_def dict_simps fresh_world_def empty_repository_def
        get_workflow_by_business_id_def log_of_def get_events_def dget_default_def)
  from replay_loses_identity [OF this, of None "\<lambda>i. ''uuid''" 0] show ?thesis by auto
qed

text \<open>What was undone is not done again: after the compensations of a failed workflow have run, a step that
  had completed is still found by its key, so resuming the workflow returns its old result
  without calling the activity, although its effect has been compensated.\<close>

theorem compensated_step_is_reused:
  assumes "always_misses env"
    and "get_step_by_idempotency_key (ex_repo w) (cx_id cx) (activity_key env cx c) = None"
    and "ex_next w \<notin> set (dkeys (wr_steps (ex_repo w)))"
    and "execute_activity ex env c (w, cx) = ((w1, cx1), Inr v)"
    and "cx_id cx2 = cx_id cx" and "activity_key env cx2 c = activity_key env cx c"
  shows "let w2 = fst (finalize_workflow_failed env cx1 e w1) in
    \<exists>ca. execute_activity ex env c (w2, cx2) = ((w2\<lparr>ex_cache := ca\<rparr>, cx2), Inr (coerce_json_dict v))"
proof -
  let ?w2 = "fst (finalize_workflow_failed env cx1 e w1)"
  obtain s where s: "get_step_by_idempotency_key (ex_repo w1) (cx_id cx2) (activity_key env cx2 c) = Some s" "completed_with v s"
    using completed_step_stored [OF assms(1-4)] assms(5,6) by auto
  have "wr_steps (ex_repo ?w2) = wr_steps (ex_repo w1)"
    using run_compensations_steps [of env cx1 "record_event (cx_id cx1) WORKFLOW_FAILED [(''error'', JStr e)] w1"]
    by (auto simp: finalize_workflow_failed_def save_event_def record_event_def on_repo_def Let_def
        simp del: run_compensations_steps split: prod.splits sum.splits)
  with s(1) have "get_step_by_idempotency_key (ex_repo ?w2) (cx_id cx2) (activity_key env cx2 c) = Some s"
    by (simp add: get_step_by_idempotency_key_def)
  from execute_completed [OF assms(1) this s(2)] show ?thesis
    unfolding Let_def .
qed

theorem compensated_step_is_reused_witness:
  "\<exists>w1 cx1. execute_activity mk_executor (demo_env (\<lambda>n. Returns (JInt 5))) demo_call (fresh_world () 0, demo_context) =
       ((w1, cx1), Inr (JInt 5)) \<and>
     snd (execute_activity mk_executor (demo_env (\<lambda>n. Returns (JInt 5))) demo_call
       (fst (finalize_workflow_failed (demo_env (\<lambda>n. Returns (JInt 5))) cx1 ''boom'' w1), demo_context)) =
     Inr (JObj [(''result'', JInt 5)])"
proof -
  let ?env = "demo_env (\<lambda>n. Returns (JInt 5))"
  obtain w1 cx1 where e: "execute_activity mk_executor ?env demo_call (fresh_world () 0, demo_context) = ((w1, cx1), Inr (JInt 5))"
    using demo_result by (metis surj_pair snd_conv)
  have "let w2 = fst (finalize_workflow_failed ?env cx1 ''boom'' w1) in
      \<exists>ca. execute_activity mk_executor ?env demo_call (w2, demo_context) =
        ((w2\<lparr>ex_cache := ca\<rparr>, demo_context), Inr (coerce_json_dict (JInt 5)))"
    by (rule compensated_step_is_reused [OF demo_misses _ _ e refl refl])
      (simp_all add: fresh_world_def empty_repository_def get_step_by_idempotency_key_def)
  with e show ?thesis
    by (intro exI [of _ w1] exI [of _ cx1]) (auto simp: Let_def)
qed

text \<open>Without a step cache nothing runs: in standalone mode the look-up before the first activity raises,
  and the invalidation before the compensations raises again; so a workflow that starts with an
  activity and lets its errors through ends with that error and no call made, stored as compensating.\<close>

theorem standalone_workflow_stuck:
  assumes "en_cache env = None" and "wi_constitutional_hash inst = de_constitutional_hash ex"
    and "dget (de_workflows ex) (wi_workflow_type inst) = Some (\<lambda>inp. Activity (c inp) (k inp))"
    and "\<And>inp e. k inp (Inl e) = Throw e" and "instances_keyed w"
  shows "\<exists>w' inst'. execute_workflow ex env inst w = (w', Inl no_cache) \<and> ex_trace w' = ex_trace w \<and>
    get_workflow (ex_repo w') (wi_id inst) = Some inst' \<and> wi_status inst' = WCOMPENSATING"
proof -
  let ?a = "Activity (c (wi_input inst)) (k (wi_input inst))"
  have p: "run_program ex env ?a (begun inst w) = ((fst (begun inst w), snd (begun inst w)), Inl no_cache)"
    by (simp add: begun_def execute_activity_def get_cached_step_result_def assms(1,4))
  note e = execute_workflow_begun [OF assms(2,3), of env w, OF p]
  note q = program_keyed [OF p assms(5)]
  have "get_workflow (ex_repo (record_event i ty d (fst (begun inst w)))) (wi_id inst) \<noteq> None \<and>
      instances_keyed (record_event i ty d (fst (begun inst w)))" for i ty d
    using q(2,3) by (simp add: instances_keyed_def)
  then obtain y where "get_workflow (ex_repo (record_event (wi_id inst) WORKFLOW_FAILED
      [(''error'', JStr ''AttributeError: step cache'')] (fst (begun inst w)))) (wi_id inst) = Some y"
    "instances_keyed (record_event (wi_id inst) WORKFLOW_FAILED
      [(''error'', JStr ''AttributeError: step cache'')] (fst (begun inst w)))"
    by blast
  from update_instance_lookup [OF this(2,1), of "\<lambda>i. i\<lparr>wi_status := WCOMPENSATING\<rparr>"] show ?thesis
    unfolding e by (simp add: no_cache_def finalize_workflow_failed_def run_compensations_def assms(1) q(1))
qed

theorem standalone_workflow_stuck_witness:
  "\<exists>w' inst'. execute_workflow (demo_executor pay) ((demo_env (\<lambda>n. Returns JNull))\<lparr>en_cache := None\<rparr>) demo_instance
       (fresh_world () 0) = (w', Inl no_cache) \<and> ex_trace w' = [] \<and>
     get_workflow (ex_repo w') 0 = Some inst' \<and> wi_status inst' = WCOMPENSATING"
proof -
  have "dget (de_workflows (demo_executor pay)) (wi_workflow_type demo_instance) =
      Some (\<lambda>_. Activity demo_call (\<lambda>r. case r of Inl e \<Rightarrow> Throw e | Inr v \<Rightarrow> Finish v))"
    by (simp add: demo_instance_def demo_executor_def register_workflow_def dict_simps pay_def)
  from standalone_workflow_stuck [OF _ _ this _ fresh_keyed, of "(demo_env (\<lambda>n. Returns JNull))\<lparr>en_cache := None\<rparr>"]
  show ?thesis
    by (simp add: demo_instance_def demo_executor_def register_workflow_def mk_executor_def fresh_world_def)
qed

lemma timeline_raises:
  "get_replay_timeline r i = (if get_events r i = [] then Inr [] else Inl (AttributeError ''value''))"
  by (cases "get_events r i") (simp_all add: get_replay_timeline_def event_type_value_def)

end
