(* ===== verification/IFC_Labels.thy ===== *)
theory IFC_Labels
  imports Prelude
begin

text \<open>
  \<^verbatim>\<open>src/ifc/labels.py\<close>: the labels of information flow control. The two enumerations are \<open>IntEnum\<close>s,
  ordered by their values; a label pairs a confidentiality with an integrity. The flow check makes
  labels an order and the conservative merge its least upper bound, so the labels are an instance of
  the semilattices of the library. The module's function \<open>taint_merge\<close> is \<open>merge_labels\<close> here; the method of
  the same name is \<open>taint_merge\<close>.
\<close>

section \<open>Levels\<close>

datatype confidentiality = PUBLIC | INTERNAL | CONFIDENTIAL | SECRET

datatype integrity = UNTRUSTED | LOW | MEDIUM | HIGH | TRUSTED

fun confidentiality_value :: "confidentiality \<Rightarrow> int" where
  "confidentiality_value PUBLIC = 0"
| "confidentiality_value INTERNAL = 1"
| "confidentiality_value CONFIDENTIAL = 2"
| "confidentiality_value SECRET = 3"

fun integrity_value :: "integrity \<Rightarrow> int" where
  "integrity_value UNTRUSTED = 0"
| "integrity_value LOW = 1"
| "integrity_value MEDIUM = 2"
| "integrity_value HIGH = 3"
| "integrity_value TRUSTED = 4"

lemma confidentiality_value_inject [simp]: "confidentiality_value x = confidentiality_value y \<longleftrightarrow> x = y"
  by (cases x; cases y) simp_all

lemma integrity_value_inject [simp]: "integrity_value x = integrity_value y \<longleftrightarrow> x = y"
  by (cases x; cases y) simp_all

instantiation confidentiality :: linorder
begin

definition less_eq_confidentiality :: "confidentiality \<Rightarrow> confidentiality \<Rightarrow> bool" where
  "less_eq_confidentiality x y = (confidentiality_value x \<le> confidentiality_value y)"

definition less_confidentiality :: "confidentiality \<Rightarrow> confidentiality \<Rightarrow> bool" where
  "less_confidentiality x y = (confidentiality_value x < confidentiality_value y)"

instance
  by standard (auto simp: less_eq_confidentiality_def less_confidentiality_def)

end

instantiation integrity :: linorder
begin

definition less_eq_integrity :: "integrity \<Rightarrow> integrity \<Rightarrow> bool" where
  "less_eq_integrity x y = (integrity_value x \<le> integrity_value y)"

definition less_integrity :: "integrity \<Rightarrow> integrity \<Rightarrow> bool" where
  "less_integrity x y = (integrity_value x < integrity_value y)"

instance
  by standard (auto simp: less_eq_integrity_def less_integrity_def)

end

section \<open>Labels\<close>

datatype ifc_label = IFCLabel (lb_confidentiality: confidentiality) (lb_integrity: integrity)

definition default_label :: ifc_label where
  "default_label = IFCLabel PUBLIC MEDIUM"

definition taint_merge :: "ifc_label \<Rightarrow> ifc_label \<Rightarrow> ifc_label" where
  "taint_merge a b =
     IFCLabel (max (lb_confidentiality a) (lb_confidentiality b)) (min (lb_integrity a) (lb_integrity b))"

definition can_flow_to :: "ifc_label \<Rightarrow> ifc_label \<Rightarrow> bool" where
  "can_flow_to a target =
     (lb_confidentiality a \<le> lb_confidentiality target \<and> lb_integrity target \<le> lb_integrity a)"

definition merge_labels :: "ifc_label list \<Rightarrow> ifc_label" where
  "merge_labels ls = (case ls of [] \<Rightarrow> default_label | l # rest \<Rightarrow> fold (\<lambda>b a. taint_merge a b) rest l)"

definition label_to_dict :: "ifc_label \<Rightarrow> json_dict" where
  "label_to_dict l =
     [(''confidentiality'', JInt (confidentiality_value (lb_confidentiality l))),
      (''integrity'', JInt (integrity_value (lb_integrity l)))]"

text \<open>\<open>Confidentiality(n)\<close> and \<open>Integrity(n)\<close>; \<open>None\<close> is the \<open>ValueError\<close> of an unknown value.\<close>

definition confidentiality_of :: "rat \<Rightarrow> confidentiality option" where
  "confidentiality_of = enum_of (\<lambda>c. of_int (confidentiality_value c)) [PUBLIC, INTERNAL, CONFIDENTIAL, SECRET]"

definition integrity_of :: "rat \<Rightarrow> integrity option" where
  "integrity_of = enum_of (\<lambda>i. of_int (integrity_value i)) [UNTRUSTED, LOW, MEDIUM, HIGH, TRUSTED]"

definition level_entry :: "(rat \<Rightarrow> 'a option) \<Rightarrow> json_dict \<Rightarrow> string \<Rightarrow> 'a option" where
  "level_entry level d k = Option.bind (Option.bind (dget d k) py_num) level"

text \<open>\<open>None\<close> is the \<open>KeyError\<close> of a missing key or the \<open>ValueError\<close> of an unknown value.\<close>

definition label_from_dict :: "json_dict \<Rightarrow> ifc_label option" where
  "label_from_dict d =
     (case (level_entry confidentiality_of d ''confidentiality'', level_entry integrity_of d ''integrity'') of
        (Some c, Some i) \<Rightarrow> Some (IFCLabel c i)
      | _ \<Rightarrow> None)"

text \<open>\<open>IFCViolation\<close> with its two properties.\<close>

record ifc_violation =
  iv_source_label :: ifc_label
  iv_target_label :: ifc_label
  iv_policy :: string
  iv_detail :: string

definition is_confidentiality_violation :: "ifc_violation \<Rightarrow> bool" where
  "is_confidentiality_violation v = (lb_confidentiality (iv_source_label v) > lb_confidentiality (iv_target_label v))"

definition is_integrity_violation :: "ifc_violation \<Rightarrow> bool" where
  "is_integrity_violation v = (lb_integrity (iv_source_label v) < lb_integrity (iv_target_label v))"

definition violation_to_dict :: "ifc_violation \<Rightarrow> json_dict" where
  "violation_to_dict v =
     [(''source_label'', JObj (label_to_dict (iv_source_label v))),
      (''target_label'', JObj (label_to_dict (iv_target_label v))),
      (''policy'', JStr (iv_policy v)), (''detail'', JStr (iv_detail v))]"

section \<open>The lattice of labels\<close>

instantiation ifc_label :: semilattice_sup
begin

definition less_eq_ifc_label :: "ifc_label \<Rightarrow> ifc_label \<Rightarrow> bool" where
  "less_eq_ifc_label a b = can_flow_to a b"

definition less_ifc_label :: "ifc_label \<Rightarrow> ifc_label \<Rightarrow> bool" where
  "less_ifc_label a b = (can_flow_to a b \<and> \<not> can_flow_to b a)"

definition sup_ifc_label :: "ifc_label \<Rightarrow> ifc_label \<Rightarrow> ifc_label" where
  "sup_ifc_label a b = taint_merge a b"

instance
proof
  fix a b c :: ifc_label
  show "a \<le> b \<Longrightarrow> b \<le> a \<Longrightarrow> a = b"
    by (cases a; cases b) (auto simp: less_eq_ifc_label_def can_flow_to_def)
qed (auto simp: less_eq_ifc_label_def less_ifc_label_def sup_ifc_label_def can_flow_to_def taint_merge_def)

end

lemma fold_merge_flow:
  "can_flow_to (fold (\<lambda>b a. taint_merge a b) ls l) t \<longleftrightarrow> can_flow_to l t \<and> list_all (\<lambda>x. can_flow_to x t) ls"
proof (induction ls arbitrary: l)
  case (Cons x ls)
  have "can_flow_to (taint_merge l x) t \<longleftrightarrow> can_flow_to l t \<and> can_flow_to x t"
    using le_sup_iff [of l x t] by (simp add: less_eq_ifc_label_def sup_ifc_label_def)
  with Cons show ?case by auto
qed simp

lemma label_round_trip [simp]: "label_from_dict (label_to_dict l) = Some l"
proof -
  have "confidentiality_of (of_int (confidentiality_value c)) = Some c" for c
    by (cases c) (simp_all add: confidentiality_of_def enum_of_def)
  moreover have "integrity_of (of_int (integrity_value i)) = Some i" for i
    by (cases i) (simp_all add: integrity_of_def enum_of_def)
  ultimately show ?thesis
    by (simp add: label_from_dict_def label_to_dict_def level_entry_def)
qed

section \<open>Properties\<close>

text \<open>Taint never washes out: whatever labels are merged, in whatever order and however often each, the
  result may flow to a target exactly when every one of them may; so two merges of the same set of
  labels are equal.\<close>

theorem merged_taint_flows_iff_all:
  "if ls = [] then merge_labels ls = default_label
   else (can_flow_to (merge_labels ls) t \<longleftrightarrow> list_all (\<lambda>l. can_flow_to l t) ls) \<and>
        (if set ls = set ls' then merge_labels ls = merge_labels ls' else True)"
proof -
  have flow: "can_flow_to (merge_labels xs) u \<longleftrightarrow> list_all (\<lambda>l. can_flow_to l u) xs" if "xs \<noteq> []" for xs u
    using that by (cases xs) (simp_all add: merge_labels_def fold_merge_flow)
  have eq: "merge_labels ls = merge_labels ls'" if "set ls = set ls'" "ls \<noteq> []"
  proof -
    from that have "ls' \<noteq> []" by auto
    with flow that have "merge_labels ls \<le> u \<longleftrightarrow> merge_labels ls' \<le> u" for u
      by (simp add: less_eq_ifc_label_def list_all_iff)
    then show ?thesis by (metis order.antisym order.refl)
  qed
  show ?thesis
    using flow eq by (cases "ls = []") (simp_all add: merge_labels_def)
qed

text \<open>A blocked flow is a violation of confidentiality, of integrity, or of both.\<close>

lemma violation_kinds:
  "(\<not> can_flow_to (iv_source_label v) (iv_target_label v)) \<longleftrightarrow> is_confidentiality_violation v \<or> is_integrity_violation v"
  by (auto simp: can_flow_to_def is_confidentiality_violation_def is_integrity_violation_def)

end
