(* ===== verification/Agent_Message.thy ===== *)
theory Agent_Message
  imports IFC_Labels
begin

text \<open>
  \<^verbatim>\<open>src/core_models.py\<close> and the enumerations of \<^verbatim>\<open>src/enums.py\<close>: the message of the bus, its cached dictionary
  form, and the way back from a dictionary. Python does not check the annotations of a dataclass, so
  a field that \<open>from_dict\<close> passes on as it finds it is a \<open>json\<close> here, \<open>JNull\<close> for \<open>None\<close>; the fields it converts
  have their own types. The session context is a pydantic model, kept as the dictionary of its
  fields; validating such a dictionary, parsing an ISO date that this code has not written, and
  \<open>str\<close> and \<open>int\<close> of foreign values are arguments (\<open>message_io\<close>).
\<close>

section \<open>Enumerations\<close>

datatype message_type =
  COMMAND | QUERY_MESSAGE | RESPONSE | EVENT | NOTIFICATION | HEARTBEAT | GOVERNANCE_REQUEST | GOVERNANCE_RESPONSE
| CONSTITUTIONAL_VALIDATION | TASK_REQUEST | TASK_RESPONSE | BOUNTY_SUBMISSION | PAYMENT_REQUEST | AUDIT_LOG

fun message_type_value :: "message_type \<Rightarrow> string" where
  "message_type_value COMMAND = ''command''"
| "message_type_value QUERY_MESSAGE = ''query''"
| "message_type_value RESPONSE = ''response''"
| "message_type_value EVENT = ''event''"
| "message_type_value NOTIFICATION = ''notification''"
| "message_type_value HEARTBEAT = ''heartbeat''"
| "message_type_value GOVERNANCE_REQUEST = ''governance_request''"
| "message_type_value GOVERNANCE_RESPONSE = ''governance_response''"
| "message_type_value CONSTITUTIONAL_VALIDATION = ''constitutional_validation''"
| "message_type_value TASK_REQUEST = ''task_request''"
| "message_type_value TASK_RESPONSE = ''task_response''"
| "message_type_value BOUNTY_SUBMISSION = ''bounty_submission''"
| "message_type_value PAYMENT_REQUEST = ''payment_request''"
| "message_type_value AUDIT_LOG = ''audit_log''"

definition message_types :: "message_type list" where
  "message_types = [COMMAND, QUERY_MESSAGE, RESPONSE, EVENT, NOTIFICATION, HEARTBEAT, GOVERNANCE_REQUEST,
     GOVERNANCE_RESPONSE, CONSTITUTIONAL_VALIDATION, TASK_REQUEST, TASK_RESPONSE, BOUNTY_SUBMISSION,
     PAYMENT_REQUEST, AUDIT_LOG]"

text \<open>\<open>NORMAL\<close> and \<open>MEDIUM\<close> are one member of the enumeration.\<close>

datatype priority = PRIORITY_LOW | PRIORITY_NORMAL | PRIORITY_HIGH | PRIORITY_CRITICAL

fun priority_value :: "priority \<Rightarrow> int" where
  "priority_value PRIORITY_LOW = 0"
| "priority_value PRIORITY_NORMAL = 1"
| "priority_value PRIORITY_HIGH = 2"
| "priority_value PRIORITY_CRITICAL = 3"

datatype message_status =
  MSG_PENDING | MSG_PROCESSING | MSG_DELIVERED | MSG_FAILED | MSG_EXPIRED | MSG_PENDING_DELIBERATION | MSG_VALIDATED

fun message_status_value :: "message_status \<Rightarrow> string" where
  "message_status_value MSG_PENDING = ''pending''"
| "message_status_value MSG_PROCESSING = ''processing''"
| "message_status_value MSG_DELIVERED = ''delivered''"
| "message_status_value MSG_FAILED = ''failed''"
| "message_status_value MSG_EXPIRED = ''expired''"
| "message_status_value MSG_PENDING_DELIBERATION = ''pending_deliberation''"
| "message_status_value MSG_VALIDATED = ''validated''"

datatype autonomy_tier = ADVISORY | HUMAN_APPROVED | BOUNDED | UNRESTRICTED

fun autonomy_tier_value :: "autonomy_tier \<Rightarrow> string" where
  "autonomy_tier_value ADVISORY = ''advisory''"
| "autonomy_tier_value HUMAN_APPROVED = ''human_approved''"
| "autonomy_tier_value BOUNDED = ''bounded''"
| "autonomy_tier_value UNRESTRICTED = ''unrestricted''"

definition message_type_of :: "string \<Rightarrow> message_type option" where
  "message_type_of = enum_of message_type_value message_types"

definition priority_of :: "rat \<Rightarrow> priority option" where
  "priority_of = enum_of (\<lambda>p. of_int (priority_value p)) [PRIORITY_LOW, PRIORITY_NORMAL, PRIORITY_HIGH, PRIORITY_CRITICAL]"

definition message_status_of :: "string \<Rightarrow> message_status option" where
  "message_status_of = enum_of message_status_value
     [MSG_PENDING, MSG_PROCESSING, MSG_DELIVERED, MSG_FAILED, MSG_EXPIRED, MSG_PENDING_DELIBERATION, MSG_VALIDATED]"

definition autonomy_tier_of :: "string \<Rightarrow> autonomy_tier option" where
  "autonomy_tier_of = enum_of autonomy_tier_value [ADVISORY, HUMAN_APPROVED, BOUNDED, UNRESTRICTED]"

section \<open>Messages\<close>

record routing_context =
  rc_source_agent_id :: string
  rc_target_agent_id :: string
  rc_routing_key :: string
  rc_routing_tags :: "json list"
  rc_retry_count :: int
  rc_max_retries :: int
  rc_timeout_ms :: int
  rc_constitutional_hash :: string

text \<open>\<open>__post_init__\<close>: a routing context without a source or a target is refused.\<close>

definition routing_valid :: "routing_context \<Rightarrow> bool" where
  "routing_valid r = (rc_source_agent_id r \<noteq> [] \<and> rc_target_agent_id r \<noteq> [])"

definition routing_to_dict :: "routing_context \<Rightarrow> json_dict" where
  "routing_to_dict r =
     [(''source_agent_id'', JStr (rc_source_agent_id r)), (''target_agent_id'', JStr (rc_target_agent_id r)),
      (''routing_key'', JStr (rc_routing_key r)), (''routing_tags'', JList (rc_routing_tags r)),
      (''retry_count'', JInt (rc_retry_count r)), (''max_retries'', JInt (rc_max_retries r)),
      (''timeout_ms'', JInt (rc_timeout_ms r)), (''constitutional_hash'', JStr (rc_constitutional_hash r))]"

text \<open>
  A value of a dictionary in memory: one that JSON can express, or the dump of a pydantic model, which
  holds dates and enumeration members as Python objects.
\<close>

datatype pyval = PJson json | PModel json_dict

type_synonym pydict = "(string, pyval) dict"

record agent_message =
  am_message_id :: json
  am_conversation_id :: json
  am_content :: json
  am_payload :: json
  am_from_agent :: json
  am_to_agent :: json
  am_sender_id :: json
  am_message_type :: message_type
  am_routing :: "routing_context option"
  am_headers :: json
  am_tenant_id :: json
  am_security_context :: json
  am_priority :: priority
  am_status :: message_status
  am_autonomy_tier :: autonomy_tier
  am_constitutional_hash :: json
  am_constitutional_validated :: bool
  am_metadata :: json
  am_session_id :: json
  am_session_context :: "json_dict option"
  am_pqc_signature :: json
  am_pqc_public_key :: json
  am_pqc_algorithm :: json
  am_payload_hmac :: json
  am_requested_tool :: json
  am_schema_version :: json
  am_created_at :: rat
  am_updated_at :: rat
  am_expires_at :: "rat option"
  am_impact_score :: json
  am_ifc_label :: "ifc_label option"
  am_performance_metrics :: json
  am_cached_dict :: "pydict option"

definition invalidate_cache :: "agent_message \<Rightarrow> agent_message" where
  "invalidate_cache m = m\<lparr>am_cached_dict := None\<rparr>"

section \<open>To a dictionary\<close>

definition dict_or_null :: "json_dict option \<Rightarrow> json" where
  "dict_or_null d = (case d of None \<Rightarrow> JNull | Some x \<Rightarrow> JObj x)"

definition dict_of_fields :: "agent_message \<Rightarrow> pydict" where
  "dict_of_fields m =
     [(''message_id'', PJson (am_message_id m)),
      (''conversation_id'', PJson (am_conversation_id m)),
      (''content'', PJson (am_content m)),
      (''from_agent'', PJson (am_from_agent m)),
      (''to_agent'', PJson (am_to_agent m)),
      (''message_type'', PJson (JStr (message_type_value (am_message_type m)))),
      (''tenant_id'', PJson (am_tenant_id m)),
      (''priority'', PJson (JInt (priority_value (am_priority m)))),
      (''status'', PJson (JStr (message_status_value (am_status m)))),
      (''autonomy_tier'', PJson (JStr (autonomy_tier_value (am_autonomy_tier m)))),
      (''constitutional_hash'', PJson (am_constitutional_hash m)),
      (''constitutional_validated'', PJson (JBool (am_constitutional_validated m))),
      (''metadata'', PJson (am_metadata m)),
      (''session_id'', PJson (am_session_id m)),
      (''session_context'', (case am_session_context m of None \<Rightarrow> PJson JNull | Some d \<Rightarrow> PModel d)),
      (''pqc_signature'', PJson (am_pqc_signature m)),
      (''pqc_public_key'', PJson (am_pqc_public_key m)),
      (''pqc_algorithm'', PJson (am_pqc_algorithm m)),
      (''schema_version'', PJson (am_schema_version m)),
      (''payload_hmac'', PJson (am_payload_hmac m)),
      (''requested_tool'', PJson (am_requested_tool m)),
      (''created_at'', PJson (JTime (am_created_at m))),
      (''updated_at'', PJson (JTime (am_updated_at m))),
      (''ifc_label'', PJson (dict_or_null (map_option label_to_dict (am_ifc_label m))))]"

text \<open>\<open>to_dict\<close> fills the cache the first time; what it returns is a copy.\<close>

definition to_dict :: "agent_message \<Rightarrow> agent_message \<times> pydict" where
  "to_dict m =
     (case am_cached_dict m of
        Some d \<Rightarrow> (m, d)
      | None \<Rightarrow> (m\<lparr>am_cached_dict := Some (dict_of_fields m)\<rparr>, dict_of_fields m))"

definition raw_fields :: "agent_message \<Rightarrow> pydict" where
  "raw_fields m =
     [(''payload'', PJson (am_payload m)),
      (''routing'', PJson (dict_or_null (map_option routing_to_dict (am_routing m)))),
      (''sender_id'', PJson (am_sender_id m)),
      (''headers'', PJson (am_headers m)),
      (''security_context'', PJson (am_security_context m)),
      (''metadata'', PJson (am_metadata m)),
      (''expires_at'', PJson (case am_expires_at m of None \<Rightarrow> JNull | Some t \<Rightarrow> JTime t)),
      (''impact_score'', PJson (am_impact_score m)),
      (''performance_metrics'', PJson (am_performance_metrics m)),
      (''pqc_signature'', PJson (am_pqc_signature m)),
      (''pqc_public_key'', PJson (am_pqc_public_key m)),
      (''pqc_algorithm'', PJson (am_pqc_algorithm m)),
      (''schema_version'', PJson (am_schema_version m))]"

definition to_dict_raw :: "agent_message \<Rightarrow> agent_message \<times> pydict" where
  "to_dict_raw m =
     (case to_dict m of (m1, d) \<Rightarrow> (m1, fold (\<lambda>(k, v) acc. dset k v acc) (raw_fields m1) d))"

text \<open>\<open>json.loads(json.dumps(d))\<close>: \<open>None\<close> is the \<open>TypeError\<close> of an object that is not JSON.\<close>

fun pjson :: "pyval \<Rightarrow> json" where
  "pjson (PJson v) = v"
| "pjson (PModel d) = JObj d"

fun is_json :: "pyval \<Rightarrow> bool" where
  "is_json (PJson v) = True"
| "is_json (PModel d) = False"

definition json_of_dict :: "pydict \<Rightarrow> json_dict option" where
  "json_of_dict d = (if list_all (\<lambda>(k, v). is_json v) d then Some (map (\<lambda>(k, v). (k, pjson v)) d) else None)"

section \<open>From a dictionary\<close>

text \<open>The exceptions that leave \<open>from_dict\<close>, with the key they are about; a \<open>KeyError\<close> counts as a \<open>ValueError\<close>.\<close>

datatype message_error = ValueError string | TypeError string

abbreviation (input) andThen :: "'e + 'a \<Rightarrow> ('a \<Rightarrow> 'e + 'b) \<Rightarrow> 'e + 'b" where
  "andThen r f \<equiv> case_sum Inl f r"

record message_io =
  mi_validate_session :: "json \<Rightarrow> json_dict option"
  mi_fromisoformat :: "string \<Rightarrow> rat option"
  mi_str :: "json \<Rightarrow> string"
  mi_int :: "json \<Rightarrow> message_error + int"

definition py_str :: "message_io \<Rightarrow> json \<Rightarrow> string" where
  "py_str io v = (case v of JStr s \<Rightarrow> s | _ \<Rightarrow> mi_str io v)"

definition py_int :: "message_io \<Rightarrow> json \<Rightarrow> message_error + int" where
  "py_int io v = (case v of JInt n \<Rightarrow> Inr n | _ \<Rightarrow> mi_int io v)"

fun py_list :: "json \<Rightarrow> message_error + json list" where
  "py_list (JList xs) = Inr xs"
| "py_list (JStr s) = Inr (map (\<lambda>c. JStr [c]) s)"
| "py_list (JObj d) = Inr (map (\<lambda>(k, v). JStr k) d)"
| "py_list _ = Inl (TypeError ''routing_tags'')"

definition parse_routing :: "message_io \<Rightarrow> json_dict \<Rightarrow> message_error + routing_context option" where
  "parse_routing io data =
     (case dget_default data ''routing'' JNull of
        JObj r \<Rightarrow>
          andThen (py_list (dget_default r ''routing_tags'' (JList []))) (\<lambda>tags.
          andThen (py_int io (dget_default r ''retry_count'' (JInt 0))) (\<lambda>rtc.
          andThen (py_int io (dget_default r ''max_retries'' (JInt 3))) (\<lambda>mx.
          andThen (py_int io (dget_default r ''timeout_ms'' (JInt 5000))) (\<lambda>tm.
            (let rc = \<lparr>rc_source_agent_id = py_str io (dget_default r ''source_agent_id'' (JStr [])),
                       rc_target_agent_id = py_str io (dget_default r ''target_agent_id'' (JStr [])),
                       rc_routing_key = py_str io (dget_default r ''routing_key'' (JStr [])),
                       rc_routing_tags = tags, rc_retry_count = rtc, rc_max_retries = mx, rc_timeout_ms = tm,
                       rc_constitutional_hash =
                         py_str io (dget_default r ''constitutional_hash'' (JStr CONSTITUTIONAL_HASH))\<rparr>
             in if routing_valid rc then Inr (Some rc) else Inl (ValueError ''routing''))))))
      | _ \<Rightarrow> Inr None)"

definition parse_datetime :: "message_io \<Rightarrow> json \<Rightarrow> message_error + rat option" where
  "parse_datetime io raw =
     (case raw of
        JTime t \<Rightarrow> Inr (Some t)
      | JStr s \<Rightarrow> if s = [] then Inr None
                  else (case mi_fromisoformat io s of None \<Rightarrow> Inl (ValueError ''datetime'') | Some t \<Rightarrow> Inr (Some t))
      | _ \<Rightarrow> Inr None)"

text \<open>\<open>E(data.get(key, default))\<close> for an enumeration of strings.\<close>

definition str_enum :: "(string \<Rightarrow> 'a option) \<Rightarrow> json_dict \<Rightarrow> string \<Rightarrow> string \<Rightarrow> message_error + 'a" where
  "str_enum member data key dflt =
     (case dget_default data key (JStr dflt) of
        JStr s \<Rightarrow> (case member s of None \<Rightarrow> Inl (ValueError key) | Some x \<Rightarrow> Inr x)
      | _ \<Rightarrow> Inl (ValueError key))"

definition parse_priority :: "json_dict \<Rightarrow> message_error + priority" where
  "parse_priority data =
     (case Option.bind (py_num (dget_default data ''priority'' (JInt 1))) priority_of of
        None \<Rightarrow> Inl (ValueError ''priority'') | Some p \<Rightarrow> Inr p)"

definition parse_autonomy_tier :: "json \<Rightarrow> message_error + autonomy_tier option" where
  "parse_autonomy_tier raw =
     (if raw = JNull \<or> raw = JStr [] then Inr None
      else case raw of
             JStr s \<Rightarrow> (case autonomy_tier_of s of None \<Rightarrow> Inl (ValueError ''autonomy_tier'') | Some t \<Rightarrow> Inr (Some t))
           | _ \<Rightarrow> Inl (ValueError ''autonomy_tier''))"

definition parse_label :: "json_dict \<Rightarrow> message_error + ifc_label option" where
  "parse_label data =
     (case dget_default data ''ifc_label'' JNull of
        JNull \<Rightarrow> Inr None
      | JObj d \<Rightarrow> (case label_from_dict d of None \<Rightarrow> Inl (ValueError ''ifc_label'') | Some l \<Rightarrow> Inr (Some l))
      | _ \<Rightarrow> Inl (TypeError ''ifc_label''))"

definition parse_session :: "message_io \<Rightarrow> json_dict \<Rightarrow> json_dict option" where
  "parse_session io data =
     (let raw = dget_default data ''session_context'' JNull
      in if json_truthy raw then mi_validate_session io raw else None)"

text \<open>The two identifiers are the ones drawn for the defaults, \<open>now\<close> the time the defaults read.\<close>

definition from_dict ::
  "message_io \<Rightarrow> string \<Rightarrow> string \<Rightarrow> rat \<Rightarrow> json_dict \<Rightarrow> message_error + agent_message" where
  "from_dict io new_id new_conversation now data =
     (let field = (\<lambda>key dflt. dget_default data key dflt) in
      andThen (parse_routing io data) (\<lambda>routing.
      andThen (str_enum message_type_of data ''message_type'' ''command'') (\<lambda>mtype.
      andThen (parse_priority data) (\<lambda>prio.
      andThen (str_enum message_status_of data ''status'' ''pending'') (\<lambda>status.
      andThen (parse_autonomy_tier (field ''autonomy_tier'' JNull)) (\<lambda>tier.
      andThen (parse_label data) (\<lambda>lbl.
      andThen (parse_datetime io (field ''created_at'' JNull)) (\<lambda>created.
      andThen (parse_datetime io (field ''updated_at'' JNull)) (\<lambda>updated.
      andThen (parse_datetime io (field ''expires_at'' JNull)) (\<lambda>expires.
      Inr \<lparr>am_message_id = field ''message_id'' (JStr new_id),
           am_conversation_id = field ''conversation_id'' (JStr new_conversation),
           am_content = field ''content'' (JObj []),
           am_payload = field ''payload'' (JObj []),
           am_from_agent = field ''from_agent'' (JStr []),
           am_to_agent = field ''to_agent'' (JStr []),
           am_sender_id = field ''sender_id'' (JStr []),
           am_message_type = mtype,
           am_routing = routing,
           am_headers = field ''headers'' (JObj []),
           am_tenant_id = field ''tenant_id'' (JStr ''default''),
           am_security_context = field ''security_context'' (JObj []),
           am_priority = prio,
           am_status = status,
           am_autonomy_tier = (case tier of None \<Rightarrow> BOUNDED | Some t \<Rightarrow> t),
           am_constitutional_hash = field ''constitutional_hash'' (JStr CONSTITUTIONAL_HASH),
           am_constitutional_validated = json_truthy (field ''constitutional_validated'' (JBool False)),
           am_metadata = field ''metadata'' (JObj []),
           am_session_id = field ''session_id'' JNull,
           am_session_context = parse_session io data,
           am_pqc_signature = field ''pqc_signature'' JNull,
           am_pqc_public_key = field ''pqc_public_key'' JNull,
           am_pqc_algorithm = field ''pqc_algorithm'' JNull,
           am_payload_hmac = field ''payload_hmac'' JNull,
           am_requested_tool = field ''requested_tool'' JNull,
           am_schema_version = field ''schema_version'' (JStr ''1.3.0''),
           am_created_at = (case created of None \<Rightarrow> now | Some t \<Rightarrow> t),
           am_updated_at = (case updated of None \<Rightarrow> now | Some t \<Rightarrow> t),
           am_expires_at = expires,
           am_impact_score = field ''impact_score'' JNull,
           am_ifc_label = lbl,
           am_performance_metrics = field ''performance_metrics'' (JObj []),
           am_cached_dict = None\<rparr>))))))))))"

end
