(* ===== verification/Deliberation_Queue.thy ===== *)
theory Deliberation_Queue
  imports Machine Agent_Message
begin

text \<open>
  \<^verbatim>\<open>src/deliberation_layer/deliberation_queue.py\<close> and the manager of human reviews that works on its tasks,
  \<^verbatim>\<open>src/deliberation_layer/hitl_manager.py\<close>. A queue holds its tasks, the monitors that watch for their timeouts,
  the saves it has scheduled, and the file it persists to (\<open>None\<close>: missing or not JSON). An operation is
  atomic between two suspensions; the coroutines that run on their own are operations too: one tick
  of a monitor, one background save. The task identifier (a fresh UUID) and the clock are arguments.
  The partition locks, the notification sent for a review and the audit ledger are left out.
\<close>

section \<open>Data\<close>

datatype deliberation_status = DPENDING | DUNDER_REVIEW | DAPPROVED | DREJECTED | DTIMED_OUT | DCONSENSUS_REACHED

fun deliberation_status_value :: "deliberation_status \<Rightarrow> string" where
  "deliberation_status_value DPENDING = ''pending''"
| "deliberation_status_value DUNDER_REVIEW = ''under_review''"
| "deliberation_status_value DAPPROVED = ''approved''"
| "deliberation_status_value DREJECTED = ''rejected''"
| "deliberation_status_value DTIMED_OUT = ''timed_out''"
| "deliberation_status_value DCONSENSUS_REACHED = ''consensus_reached''"

definition deliberation_status_of :: "string \<Rightarrow> deliberation_status option" where
  "deliberation_status_of = enum_of deliberation_status_value
     [DPENDING, DUNDER_REVIEW, DAPPROVED, DREJECTED, DTIMED_OUT, DCONSENSUS_REACHED]"

datatype vote_type = VAPPROVE | VREJECT | VABSTAIN

record agent_vote =
  av_agent_id :: string
  av_vote :: vote_type
  av_reasoning :: string
  av_confidence_score :: rat
  av_timestamp :: rat

record deliberation_task =
  dt_task_id :: string
  dt_message :: "agent_message option"
  dt_status :: deliberation_status
  dt_required_votes :: int
  dt_consensus_threshold :: rat
  dt_timeout_seconds :: int
  dt_current_votes :: "agent_vote list"
  dt_metadata :: json
  dt_created_at :: rat
  dt_updated_at :: rat
  dt_human_reviewer :: "string option"
  dt_human_decision :: "deliberation_status option"
  dt_human_reasoning :: "string option"

definition is_complete :: "deliberation_task \<Rightarrow> bool" where
  "is_complete t = (dt_status t \<in> {DAPPROVED, DREJECTED, DTIMED_OUT})"

definition voting_deadline :: "deliberation_task \<Rightarrow> rat" where
  "voting_deadline t = dt_created_at t + of_int (dt_timeout_seconds t)"

record queue_stats =
  qs_total_queued :: nat
  qs_approved :: nat
  qs_rejected :: nat
  qs_timed_out :: nat
  qs_consensus_reached :: nat
  qs_avg_processing_time :: rat

text \<open>\<open>dq_monitors\<close>: the time each running monitor has waited; \<open>dq_bg_saves\<close>: the saves not run yet.\<close>

record deliberation_queue =
  dq_tasks :: "(string, deliberation_task) dict"
  dq_monitors :: "(string, rat) dict"
  dq_bg_saves :: nat
  dq_persistence_path :: "string option"
  dq_file :: "json option"
  dq_consensus_threshold :: rat
  dq_default_timeout :: int
  dq_stats :: queue_stats
  dq_shutdown :: bool

section \<open>Persistence\<close>

text \<open>\<open>to_dict_raw\<close> fills the cache of each message on the way.\<close>

definition task_record :: "deliberation_task \<Rightarrow> deliberation_task \<times> (pydict \<times> json \<times> json \<times> json)" where
  "task_record t =
     (let (msg, d) = (case dt_message t of None \<Rightarrow> (None, [])
                      | Some m \<Rightarrow> (case to_dict_raw m of (m1, d) \<Rightarrow> (Some m1, d)))
      in (t\<lparr>dt_message := msg\<rparr>,
          (d, JStr (deliberation_status_value (dt_status t)), dt_metadata t, JTime (dt_created_at t))))"

definition record_json :: "pydict \<times> json \<times> json \<times> json \<Rightarrow> json option" where
  "record_json r =
     (case r of (d, status, metadata, created) \<Rightarrow>
        map_option (\<lambda>msg. JObj [(''message'', JObj msg), (''status'', status), (''metadata'', metadata),
                                (''created_at'', created)]) (json_of_dict d))"

text \<open>\<open>json.dumps(storage)\<close>: one message that is not JSON and nothing is written.\<close>

fun storage_json :: "(string \<times> (pydict \<times> json \<times> json \<times> json)) list \<Rightarrow> json_dict option" where
  "storage_json [] = Some []"
| "storage_json ((tid, r) # rest) =
     (case (record_json r, storage_json rest) of
        (Some v, Some vs) \<Rightarrow> Some ((tid, v) # vs)
      | _ \<Rightarrow> None)"

definition save_tasks :: "deliberation_queue \<Rightarrow> deliberation_queue" where
  "save_tasks q =
     (if \<not> truthy_str (dq_persistence_path q) then q
      else let q1 = q\<lparr>dq_tasks := map (\<lambda>(tid, t). (tid, fst (task_record t))) (dq_tasks q)\<rparr>
           in case storage_json (map (\<lambda>(tid, t). (tid, snd (task_record t))) (dq_tasks q)) of
                None \<Rightarrow> q1
              | Some d \<Rightarrow> q1\<lparr>dq_file := Some (JObj d)\<rparr>)"

definition schedule_save :: "deliberation_queue \<Rightarrow> deliberation_queue" where
  "schedule_save q = (if truthy_str (dq_persistence_path q) then q\<lparr>dq_bg_saves := Suc (dq_bg_saves q)\<rparr> else q)"

definition run_background_save :: "deliberation_queue \<Rightarrow> deliberation_queue" where
  "run_background_save q =
     (if dq_bg_saves q = 0 then q else save_tasks (q\<lparr>dq_bg_saves := dq_bg_saves q - 1\<rparr>))"

text \<open>
  \<open>_load_tasks\<close>: a task is rebuilt from its message, status, metadata and creation time; everything else
  is the default of \<open>DeliberationTask\<close>. \<open>ids\<close> draws the identifiers a message without one gets. The first
  \<open>ValueError\<close> ends the loading quietly; a \<open>TypeError\<close> leaves the constructor.
\<close>

definition DEFAULT_REQUIRED_VOTES :: int where
  "DEFAULT_REQUIRED_VOTES = 3"

definition DEFAULT_CONSENSUS_THRESHOLD :: rat where
  "DEFAULT_CONSENSUS_THRESHOLD = 66 / 100"

definition DEFAULT_DELIBERATION_TIMEOUT_SECONDS :: int where
  "DEFAULT_DELIBERATION_TIMEOUT_SECONDS = 300"

definition default_task :: "string \<Rightarrow> agent_message \<Rightarrow> deliberation_status \<Rightarrow> json \<Rightarrow> rat \<Rightarrow> rat \<Rightarrow> deliberation_task" where
  "default_task tid msg status metadata created now =
     \<lparr>dt_task_id = tid, dt_message = Some msg, dt_status = status, dt_required_votes = DEFAULT_REQUIRED_VOTES,
      dt_consensus_threshold = DEFAULT_CONSENSUS_THRESHOLD,
      dt_timeout_seconds = DEFAULT_DELIBERATION_TIMEOUT_SECONDS, dt_current_votes = [], dt_metadata = metadata,
      dt_created_at = created, dt_updated_at = now, dt_human_reviewer = None, dt_human_decision = None,
      dt_human_reasoning = None\<rparr>"

fun lower_json :: "json \<Rightarrow> message_error + deliberation_status" where
  "lower_json (JStr s) =
     (case deliberation_status_of (py_lower s) of None \<Rightarrow> Inl (ValueError ''status'') | Some x \<Rightarrow> Inr x)"
| "lower_json _ = Inl (ValueError ''status'')"

fun parse_created :: "message_io \<Rightarrow> json \<Rightarrow> message_error + rat" where
  "parse_created io (JTime t) = Inr t"
| "parse_created io (JStr s) =
     (case mi_fromisoformat io s of None \<Rightarrow> Inl (ValueError ''created_at'') | Some t \<Rightarrow> Inr t)"
| "parse_created io _ = Inl (TypeError ''created_at'')"

definition entry :: "json_dict \<Rightarrow> string \<Rightarrow> message_error + json" where
  "entry d k = (case dget d k of None \<Rightarrow> Inl (ValueError k) | Some v \<Rightarrow> Inr v)"

fun as_dict :: "json \<Rightarrow> message_error + json_dict" where
  "as_dict (JObj d) = Inr d"
| "as_dict _ = Inl (TypeError ''dict'')"

definition load_task ::
  "message_io \<Rightarrow> (string \<Rightarrow> string \<times> string) \<Rightarrow> rat \<Rightarrow> string \<Rightarrow> json \<Rightarrow> message_error + deliberation_task" where
  "load_task io ids now tid tdata =
     andThen (as_dict tdata) (\<lambda>d.
     andThen (entry d ''message'') (\<lambda>m.
     andThen (as_dict m) (\<lambda>md.
     andThen (from_dict io (fst (ids tid)) (snd (ids tid)) now md) (\<lambda>msg.
     andThen (entry d ''status'') (\<lambda>s.
     andThen (lower_json s) (\<lambda>status.
     andThen (entry d ''created_at'') (\<lambda>c.
     andThen (parse_created io c) (\<lambda>created.
       Inr (default_task tid msg status (dget_default d ''metadata'' (JObj [])) created now)))))))))"

fun load_loop ::
  "message_io \<Rightarrow> (string \<Rightarrow> string \<times> string) \<Rightarrow> rat \<Rightarrow> (string \<times> json) list \<Rightarrow> (string, deliberation_task) dict
     \<Rightarrow> message_error + (string, deliberation_task) dict" where
  "load_loop io ids now [] tasks = Inr tasks"
| "load_loop io ids now ((tid, tdata) # rest) tasks =
     (case load_task io ids now tid tdata of
        Inl (ValueError k) \<Rightarrow> Inr tasks
      | Inl (TypeError k) \<Rightarrow> Inl (TypeError k)
      | Inr t \<Rightarrow> load_loop io ids now rest (dset tid t tasks))"

definition load_tasks ::
  "message_io \<Rightarrow> (string \<Rightarrow> string \<times> string) \<Rightarrow> rat \<Rightarrow> deliberation_queue \<Rightarrow> message_error + deliberation_queue" where
  "load_tasks io ids now q =
     (case dq_file q of
        None \<Rightarrow> Inr q
      | Some (JObj d) \<Rightarrow>
          (case load_loop io ids now d (dq_tasks q) of
             Inl e \<Rightarrow> Inl e
           | Inr tasks \<Rightarrow> Inr (q\<lparr>dq_tasks := tasks\<rparr>))
      | Some v \<Rightarrow> Inl (TypeError ''items''))"

text \<open>A new queue, reading the file it persists to.\<close>

definition mk_queue ::
  "message_io \<Rightarrow> (string \<Rightarrow> string \<times> string) \<Rightarrow> rat \<Rightarrow> string option \<Rightarrow> json option \<Rightarrow> rat \<Rightarrow> int
     \<Rightarrow> message_error + deliberation_queue" where
  "mk_queue io ids now path file threshold timeout =
     (let q = \<lparr>dq_tasks = [], dq_monitors = [], dq_bg_saves = 0, dq_persistence_path = path, dq_file = file,
               dq_consensus_threshold = threshold, dq_default_timeout = timeout,
               dq_stats = \<lparr>qs_total_queued = 0, qs_approved = 0, qs_rejected = 0, qs_timed_out = 0,
                           qs_consensus_reached = 0, qs_avg_processing_time = 0\<rparr>,
               dq_shutdown = False\<rparr>
      in if truthy_str path then load_tasks io ids now q else Inr q)"

section \<open>Operations\<close>

definition put_task :: "deliberation_task \<Rightarrow> deliberation_queue \<Rightarrow> deliberation_queue" where
  "put_task t q = q\<lparr>dq_tasks := dset (dt_task_id t) t (dq_tasks q)\<rparr>"

definition on_stats :: "(queue_stats \<Rightarrow> queue_stats) \<Rightarrow> deliberation_queue \<Rightarrow> deliberation_queue" where
  "on_stats f q = q\<lparr>dq_stats := f (dq_stats q)\<rparr>"

definition enqueue_for_deliberation ::
  "string \<Rightarrow> agent_message \<Rightarrow> bool \<Rightarrow> bool \<Rightarrow> int option \<Rightarrow> rat \<Rightarrow> deliberation_queue \<Rightarrow> deliberation_queue \<times> string" where
  "enqueue_for_deliberation tid message requires_human_review requires_multi_agent_vote timeout_seconds now q =
     (let timeout = (case timeout_seconds of None \<Rightarrow> dq_default_timeout q
                     | Some n \<Rightarrow> if n = 0 then dq_default_timeout q else n);
          t = \<lparr>dt_task_id = tid, dt_message = Some message, dt_status = DPENDING,
               dt_required_votes = (if requires_multi_agent_vote then 5 else 0),
               dt_consensus_threshold = dq_consensus_threshold q, dt_timeout_seconds = timeout,
               dt_current_votes = [],
               dt_metadata = JObj [(''requires_human'', JBool requires_human_review),
                                   (''requires_vote'', JBool requires_multi_agent_vote)],
               dt_created_at = now, dt_updated_at = now, dt_human_reviewer = None, dt_human_decision = None,
               dt_human_reasoning = None\<rparr>;
          q1 = on_stats (\<lambda>s. s\<lparr>qs_total_queued := Suc (qs_total_queued s)\<rparr>) (put_task t q)
      in (schedule_save (q1\<lparr>dq_monitors := dset tid 0 (dq_monitors q1)\<rparr>), tid))"

text \<open>
  \<open>_monitor_task\<close>: one tick waits for the check interval. It ends when the queue shuts down, when the task
  is found complete after the wait, or by timing the task out.
\<close>

definition check_interval :: "deliberation_task \<Rightarrow> rat" where
  "check_interval t = min 1 (of_int (dt_timeout_seconds t) / 10)"

definition end_monitor :: "string \<Rightarrow> deliberation_queue \<Rightarrow> deliberation_queue" where
  "end_monitor tid q = q\<lparr>dq_monitors := ddel tid (dq_monitors q)\<rparr>"

definition time_out :: "deliberation_task \<Rightarrow> deliberation_queue \<Rightarrow> deliberation_queue" where
  "time_out t q =
     (if is_complete t then q
      else save_tasks (on_stats (\<lambda>s. s\<lparr>qs_timed_out := Suc (qs_timed_out s)\<rparr>)
             (put_task (t\<lparr>dt_status := DTIMED_OUT\<rparr>) q)))"

definition monitor_tick :: "string \<Rightarrow> deliberation_queue \<Rightarrow> deliberation_queue" where
  "monitor_tick tid q =
     (case (dget (dq_monitors q) tid, dget (dq_tasks q) tid) of
        (Some elapsed, Some t) \<Rightarrow>
          if \<not> elapsed < of_int (dt_timeout_seconds t) then end_monitor tid (time_out t q)
          else if dq_shutdown q then end_monitor tid q
          else let elapsed1 = elapsed + check_interval t in
            if is_complete t then end_monitor tid q
            else if elapsed1 < of_int (dt_timeout_seconds t)
            then q\<lparr>dq_monitors := dset tid elapsed1 (dq_monitors q)\<rparr>
            else end_monitor tid (time_out t q)
      | (Some elapsed, None) \<Rightarrow> end_monitor tid q
      | _ \<Rightarrow> q)"

definition stop :: "deliberation_queue \<Rightarrow> deliberation_queue" where
  "stop q = q\<lparr>dq_shutdown := True, dq_monitors := []\<rparr>"

text \<open>A status given as a string is looked up by its lower case; one that names none is ignored.\<close>

fun status_argument :: "string + deliberation_status \<Rightarrow> deliberation_status option" where
  "status_argument (Inl s) = deliberation_status_of (py_lower s)"
| "status_argument (Inr x) = Some x"

definition update_status :: "string \<Rightarrow> string + deliberation_status \<Rightarrow> deliberation_queue \<Rightarrow> deliberation_queue" where
  "update_status tid status q =
     (case dget (dq_tasks q) tid of
        None \<Rightarrow> q
      | Some t \<Rightarrow>
          save_tasks (case status_argument status of None \<Rightarrow> q | Some s \<Rightarrow> put_task (t\<lparr>dt_status := s\<rparr>) q))"

definition get_pending_tasks :: "deliberation_queue \<Rightarrow> deliberation_task list" where
  "get_pending_tasks q = filter (\<lambda>t. dt_status t = DPENDING) (dvalues (dq_tasks q))"

definition get_task :: "deliberation_queue \<Rightarrow> string \<Rightarrow> deliberation_task option" where
  "get_task q tid = dget (dq_tasks q) tid"

record item_details =
  id_item_id :: string
  id_message_id :: json
  id_status :: string
  id_created_at :: rat
  id_updated_at :: rat
  id_votes :: nat

definition get_item_details :: "deliberation_queue \<Rightarrow> string \<Rightarrow> item_details option" where
  "get_item_details q tid =
     map_option (\<lambda>t. \<lparr>id_item_id = dt_task_id t,
        id_message_id = (case dt_message t of None \<Rightarrow> JNull | Some m \<Rightarrow> am_message_id m),
        id_status = deliberation_status_value (dt_status t), id_created_at = dt_created_at t,
        id_updated_at = dt_updated_at t, id_votes = length (dt_current_votes t)\<rparr>) (get_task q tid)"

record queue_status =
  qu_queue_size :: nat
  qu_items :: "string list"
  qu_stats :: queue_stats
  qu_processing_count :: nat

definition get_queue_status :: "deliberation_queue \<Rightarrow> queue_status" where
  "get_queue_status q = \<lparr>qu_queue_size = length (dq_tasks q), qu_items = dkeys (dq_tasks q), qu_stats = dq_stats q,
     qu_processing_count = length (dq_monitors q)\<rparr>"

definition check_consensus :: "deliberation_task \<Rightarrow> bool" where
  "check_consensus t =
     (if dt_required_votes t = 0 \<or> int (length (dt_current_votes t)) < dt_required_votes t then False
      else let approvals = length (filter (\<lambda>v. av_vote v = VAPPROVE) (dt_current_votes t))
           in of_nat approvals / of_nat (length (dt_current_votes t)) \<ge> dt_consensus_threshold t)"

definition submit_agent_vote ::
  "string \<Rightarrow> string \<Rightarrow> vote_type \<Rightarrow> string \<Rightarrow> rat \<Rightarrow> rat \<Rightarrow> deliberation_queue \<Rightarrow> deliberation_queue \<times> bool" where
  "submit_agent_vote item_id agent_id vote reasoning confidence now q =
     (case dget (dq_tasks q) item_id of
        None \<Rightarrow> (q, False)
      | Some t \<Rightarrow>
          if is_complete t then (q, False)
          else
            (let new_vote = \<lparr>av_agent_id = agent_id, av_vote = vote, av_reasoning = reasoning,
                             av_confidence_score = confidence, av_timestamp = now\<rparr>;
                 t1 = t\<lparr>dt_current_votes := filter (\<lambda>v. av_agent_id v \<noteq> agent_id) (dt_current_votes t) @ [new_vote]\<rparr>;
                 q1 = (if check_consensus t1
                       then on_stats (\<lambda>s. s\<lparr>qs_approved := Suc (qs_approved s)\<rparr>)
                              (put_task (t1\<lparr>dt_status := DAPPROVED\<rparr>) q)
                       else put_task t1 q)
             in (schedule_save q1, True)))"

definition submit_human_decision ::
  "string \<Rightarrow> string \<Rightarrow> deliberation_status \<Rightarrow> string \<Rightarrow> deliberation_queue \<Rightarrow> deliberation_queue \<times> bool" where
  "submit_human_decision item_id reviewer decision reasoning q =
     (case dget (dq_tasks q) item_id of
        None \<Rightarrow> (q, False)
      | Some t \<Rightarrow>
          if is_complete t then (q, False)
          else if dt_status t \<noteq> DUNDER_REVIEW then (q, False)
          else
            (let t1 = t\<lparr>dt_human_reviewer := Some reviewer, dt_human_decision := Some decision,
                        dt_human_reasoning := Some reasoning, dt_status := decision\<rparr>;
                 q1 = on_stats (\<lambda>s. if decision = DAPPROVED then s\<lparr>qs_approved := Suc (qs_approved s)\<rparr>
                                    else s\<lparr>qs_rejected := Suc (qs_rejected s)\<rparr>) (put_task t1 q)
             in (schedule_save q1, True)))"

text \<open>The status of the message is set without invalidating its cached dictionary.\<close>

definition resolve_task :: "string \<Rightarrow> bool \<Rightarrow> deliberation_queue \<Rightarrow> deliberation_queue" where
  "resolve_task tid approved q =
     (let q1 = update_status tid (Inr (if approved then DAPPROVED else DREJECTED)) q
      in case dget (dq_tasks q1) tid of
           None \<Rightarrow> q1
         | Some t \<Rightarrow>
             (case dt_message t of
                None \<Rightarrow> q1
              | Some m \<Rightarrow>
                  put_task (t\<lparr>dt_message := Some (m\<lparr>am_status := if approved then MSG_PENDING else MSG_FAILED\<rparr>)\<rparr>) q1))"

section \<open>Human reviews\<close>

text \<open>The notification reads the message, so a task without one raises before its status is set.\<close>

definition request_approval :: "string \<Rightarrow> deliberation_queue \<Rightarrow> deliberation_queue" where
  "request_approval item_id q =
     (case dget (dq_tasks q) item_id of
        None \<Rightarrow> q
      | Some t \<Rightarrow> if dt_message t = None then q else put_task (t\<lparr>dt_status := DUNDER_REVIEW\<rparr>) q)"

definition process_approval ::
  "string \<Rightarrow> string \<Rightarrow> string \<Rightarrow> string \<Rightarrow> deliberation_queue \<Rightarrow> deliberation_queue \<times> bool" where
  "process_approval item_id reviewer_id decision reasoning q =
     submit_human_decision item_id reviewer_id (if decision = ''approve'' then DAPPROVED else DREJECTED) reasoning q"

section \<open>Operations as steps\<close>

datatype queue_op =
  Enqueue string agent_message bool bool "int option" rat
| AgentVote string string vote_type string rat rat
| HumanDecision string string deliberation_status string
| RequestApproval string
| ProcessApproval string string string string
| UpdateStatus string "string + deliberation_status"
| ResolveTask string bool
| MonitorTick string
| BackgroundSave
| Stop

fun queue_step :: "deliberation_queue \<Rightarrow> queue_op \<Rightarrow> deliberation_queue \<times> bool" where
  "queue_step q (Enqueue tid m h v to now) = (fst (enqueue_for_deliberation tid m h v to now q), True)"
| "queue_step q (AgentVote tid a v r c now) = submit_agent_vote tid a v r c now q"
| "queue_step q (HumanDecision tid r d why) = submit_human_decision tid r d why q"
| "queue_step q (RequestApproval tid) = (request_approval tid q, True)"
| "queue_step q (ProcessApproval tid r d why) = process_approval tid r d why q"
| "queue_step q (UpdateStatus tid s) = (update_status tid s q, True)"
| "queue_step q (ResolveTask tid b) = (resolve_task tid b q, True)"
| "queue_step q (MonitorTick tid) = (monitor_tick tid q, True)"
| "queue_step q BackgroundSave = (run_background_save q, True)"
| "queue_step q Stop = (stop q, True)"

end
