(* ===== verification/Agent_Message_Theorems.thy ===== *)
theory Agent_Message_Theorems
  imports Agent_Message
begin

text \<open>
  A message survives the way to JSON and back, unless it carries a session context, which JSON cannot
  express; and a message whose dictionary has been cached keeps its old status on the way.
\<close>

section \<open>Lookups\<close>

lemma dget_fold_dset:
  "dget (fold (\<lambda>(k, v) acc. dset k v acc) kvs d) k = (case dget (rev kvs) k of None \<Rightarrow> dget d k | Some v \<Rightarrow> Some v)"
  by (induction kvs arbitrary: d) (auto simp: dict_simps map_add_Some_iff split: option.splits)

lemma dget_rev: "distinct (dkeys d) \<Longrightarrow> dget (rev d) k = dget d k"
proof (induction d)
  case (Cons kv d)
  obtain a v where kv: "kv = (a, v)" by (cases kv)
  with Cons have "dget (rev d) k = dget d k" "a \<notin> set (dkeys d)" by simp_all
  then show ?case
    using dget_None_keys [of d a] by (auto simp: kv map_add_def split: option.splits)
qed simp

lemma values_dset: "list_all (\<lambda>(k, v). P v) d \<Longrightarrow> P v \<Longrightarrow> list_all (\<lambda>(k, v). P v) (dset k v d)"
  by (induction d) auto

lemma values_fold_dset:
  "list_all (\<lambda>(k, v). P v) d \<Longrightarrow> list_all (\<lambda>(k, v). P v) kvs \<Longrightarrow>
   list_all (\<lambda>(k, v). P v) (fold (\<lambda>(k, v) acc. dset k v acc) kvs d)"
proof (induction kvs arbitrary: d)
  case (Cons kv kvs)
  obtain k v where kv: "kv = (k, v)" by (cases kv)
  with Cons.IH [OF values_dset [OF Cons.prems(1)], of v k] Cons.prems(2) show ?case by simp
qed simp

lemma dget_json: "json_of_dict d = Some e \<Longrightarrow> dget e k = map_option pjson (dget d k)"
  by (auto simp: json_of_dict_def dget_map_values split: if_splits)

text \<open>What a dictionary made by \<open>to_dict_raw\<close> holds, by key: the raw fields first, then the cached ones.\<close>

lemma raw_lookup:
  "dget (snd (to_dict_raw m)) k =
     (case dget (raw_fields m) k of
        None \<Rightarrow> dget (snd (to_dict m)) k
      | Some v \<Rightarrow> Some v)"
proof -
  have "raw_fields (fst (to_dict m)) = raw_fields m"
    by (simp add: to_dict_def raw_fields_def split: option.splits)
  moreover have "distinct (dkeys (raw_fields m))" by (simp add: raw_fields_def)
  then have "dget (rev (raw_fields m)) k = dget (raw_fields m) k"
    by (rule dget_rev)
  moreover obtain a b where ab: "to_dict m = (a, b)" by (metis surj_pair)
  ultimately show ?thesis
    unfolding to_dict_raw_def ab prod.case fst_conv snd_conv dget_fold_dset by simp
qed

lemma raw_is_json:
  assumes "am_cached_dict m = None \<or> am_cached_dict m = Some (dict_of_fields m)" "am_session_context m = None"
  shows "json_of_dict (snd (to_dict_raw m)) \<noteq> None"
proof -
  have d: "snd (to_dict m) = dict_of_fields m" "raw_fields (fst (to_dict m)) = raw_fields m"
    using assms(1) by (auto simp: to_dict_def raw_fields_def split: option.splits)
  have "list_all (\<lambda>(k, v). is_json v) (dict_of_fields m)" "list_all (\<lambda>(k, v). is_json v) (raw_fields m)"
    by (simp_all add: dict_of_fields_def raw_fields_def assms(2))
  from values_fold_dset [OF this] d show ?thesis
    by (cases "to_dict m") (simp add: to_dict_raw_def json_of_dict_def)
qed

section \<open>Enumerations\<close>

lemma enum_round_trips [simp]:
  "message_type_of (message_type_value t) = Some t"
  "priority_of (of_int (priority_value p)) = Some p"
  "message_status_of (message_status_value s) = Some s"
  "autonomy_tier_of (autonomy_tier_value a) = Some a"
  by (cases t, simp_all add: message_type_of_def message_types_def enum_of_def)
    (cases p, simp_all add: priority_of_def enum_of_def,
     cases s, simp_all add: message_status_of_def enum_of_def,
     cases a, simp_all add: autonomy_tier_of_def enum_of_def)

lemma autonomy_tier_value_nonempty [simp]: "autonomy_tier_value a \<noteq> []"
  by (cases a) simp_all


section \<open>Properties\<close>

lemma loaded_field:
  assumes "json_of_dict (snd (to_dict_raw m)) = Some e" "snd (to_dict m) = d"
  shows "dget e k = map_option pjson (case dget (raw_fields m) k of None \<Rightarrow> dget d k | Some v \<Rightarrow> Some v)"
  using dget_json [OF assms(1)] raw_lookup [of m k] unfolding assms(2) by simp

lemma routing_round_trip:
  "routing_valid r \<Longrightarrow> dget e ''routing'' = Some (JObj (routing_to_dict r)) \<Longrightarrow> parse_routing io e = Inr (Some r)"
  by (simp add: parse_routing_def dget_default_def routing_to_dict_def py_int_def py_str_def Let_def routing_valid_def)

lemma message_round_trip_lemma:
  assumes "am_session_context m = None" and "am_cached_dict m = None \<or> am_cached_dict m = Some (dict_of_fields m)"
    and "case am_routing m of None \<Rightarrow> True | Some r \<Rightarrow> routing_valid r"
  shows "\<exists>e. json_of_dict (snd (to_dict_raw m)) = Some e \<and> from_dict io i c now e = Inr (invalidate_cache m)"
proof -
  obtain e where e: "json_of_dict (snd (to_dict_raw m)) = Some e"
    using raw_is_json [OF assms(2,1)] by auto
  have "snd (to_dict m) = dict_of_fields m"
    using assms(2) by (auto simp: to_dict_def)
  note look = loaded_field [OF e this]
  have routing: "parse_routing io e = Inr (am_routing m)"
  proof (cases "am_routing m")
    case None
    then show ?thesis
      by (simp add: parse_routing_def dget_default_def look raw_fields_def dict_or_null_def)
  next
    case (Some r)
    with assms(3) have "routing_valid r" by simp
    moreover have "dget e ''routing'' = Some (JObj (routing_to_dict r))"
      by (simp add: look raw_fields_def dict_or_null_def Some)
    ultimately show ?thesis unfolding Some by (rule routing_round_trip)
  qed
  have enums: "str_enum message_type_of e ''message_type'' x = Inr (am_message_type m)"
    "str_enum message_status_of e ''status'' y = Inr (am_status m)"
    "parse_priority e = Inr (am_priority m)"
    "parse_autonomy_tier (dget_default e ''autonomy_tier'' JNull) = Inr (Some (am_autonomy_tier m))" for x y
    by (simp_all add: str_enum_def parse_priority_def parse_autonomy_tier_def dget_default_def look raw_fields_def dict_of_fields_def)
  have lbl: "parse_label e = Inr (am_ifc_label m)"
    by (simp add: parse_label_def dget_default_def look raw_fields_def dict_of_fields_def dict_or_null_def split: option.splits)
  have times: "parse_datetime io (dget_default e ''created_at'' JNull) = Inr (Some (am_created_at m))"
    "parse_datetime io (dget_default e ''updated_at'' JNull) = Inr (Some (am_updated_at m))"
    "parse_datetime io (dget_default e ''expires_at'' JNull) = Inr (am_expires_at m)"
    by (simp_all add: parse_datetime_def dget_default_def look raw_fields_def dict_of_fields_def split: option.splits)
  have session: "parse_session io e = am_session_context m"
    by (simp add: parse_session_def dget_default_def look raw_fields_def dict_of_fields_def assms(1))
  have "from_dict io i c now e = Inr (invalidate_cache m)"
    unfolding from_dict_def Let_def routing enums lbl times session
    by (simp add: dget_default_def look raw_fields_def dict_of_fields_def invalidate_cache_def)
  with e show ?thesis by blast
qed


text \<open>A message survives the way through JSON: serialised with all its fields and read back it is the same
  message, whatever the defaults drawn meanwhile, if it carries no session context, its routing is
  valid, and its cached dictionary, if any, is up to date.\<close>

theorem message_round_trip:
  assumes "am_session_context m = None" and "am_cached_dict m = None \<or> am_cached_dict m = Some (dict_of_fields m)"
    and "case am_routing m of None \<Rightarrow> True | Some r \<Rightarrow> routing_valid r"
  shows "\<exists>e. json_of_dict (snd (to_dict_raw m)) = Some e \<and> from_dict io i c now e = Inr (invalidate_cache m)"
  using assms by (rule message_round_trip_lemma)

definition demo_message :: agent_message where
  "demo_message = \<lparr>am_message_id = JStr ''m'', am_conversation_id = JStr ''c'', am_content = JObj [],
     am_payload = JObj [], am_from_agent = JStr ''a'', am_to_agent = JStr ''b'', am_sender_id = JStr [],
     am_message_type = COMMAND,
     am_routing = Some \<lparr>rc_source_agent_id = ''a'', rc_target_agent_id = ''b'', rc_routing_key = [],
       rc_routing_tags = [], rc_retry_count = 0, rc_max_retries = 3, rc_timeout_ms = 5000,
       rc_constitutional_hash = CONSTITUTIONAL_HASH\<rparr>,
     am_headers = JObj [], am_tenant_id = JStr ''t'', am_security_context = JObj [], am_priority = PRIORITY_HIGH,
     am_status = MSG_PENDING, am_autonomy_tier = BOUNDED, am_constitutional_hash = JStr CONSTITUTIONAL_HASH,
     am_constitutional_validated = False, am_metadata = JObj [], am_session_id = JNull, am_session_context = None,
     am_pqc_signature = JNull, am_pqc_public_key = JNull, am_pqc_algorithm = JNull, am_payload_hmac = JNull,
     am_requested_tool = JNull, am_schema_version = JStr ''1.3.0'', am_created_at = 7, am_updated_at = 7,
     am_expires_at = Some 9, am_impact_score = JNull, am_ifc_label = Some (IFCLabel SECRET TRUSTED),
     am_performance_metrics = JObj [], am_cached_dict = None\<rparr>"

definition no_io :: message_io where
  "no_io = \<lparr>mi_validate_session = \<lambda>v. None, mi_fromisoformat = \<lambda>s. None, mi_str = \<lambda>v. [], mi_int = \<lambda>v. Inl (TypeError [])\<rparr>"

theorem message_round_trip_witness:
  "\<exists>e. json_of_dict (snd (to_dict_raw demo_message)) = Some e \<and> from_dict no_io ''x'' ''y'' 0 e = Inr demo_message"
  using message_round_trip [of demo_message no_io "''x''" "''y''" 0]
  by (simp add: demo_message_def routing_valid_def invalidate_cache_def)

text \<open>A cached message is serialised with its old status: once \<open>to_dict\<close> has been called, setting the status and
  serialising again writes the status of the first call, and reading it back gives that one.\<close>

theorem stale_status_is_serialised:
  assumes "am_session_context m = None" and "am_cached_dict m = None"
    and "case am_routing m of None \<Rightarrow> True | Some r \<Rightarrow> routing_valid r"
  shows "\<exists>e. json_of_dict (snd (to_dict_raw ((fst (to_dict m))\<lparr>am_status := s\<rparr>))) = Some e \<and>
    from_dict io i c now e = Inr m"
proof -
  let ?m = "m\<lparr>am_cached_dict := Some (dict_of_fields m)\<rparr>"
  have same: "dict_of_fields ?m = dict_of_fields m" "raw_fields (?m\<lparr>am_status := s\<rparr>) = raw_fields ?m"
    "am_cached_dict ?m = Some (dict_of_fields m)"
    by (simp_all add: dict_of_fields_def raw_fields_def)
  then have "snd (to_dict_raw ((fst (to_dict m))\<lparr>am_status := s\<rparr>)) = snd (to_dict_raw ?m)"
    using assms(2) by (simp add: to_dict_raw_def to_dict_def)
  moreover have "invalidate_cache ?m = m"
    using assms(2) by (cases m) (simp add: invalidate_cache_def)
  moreover have "\<exists>e. json_of_dict (snd (to_dict_raw ?m)) = Some e \<and> from_dict io i c now e = Inr (invalidate_cache ?m)"
    by (rule message_round_trip_lemma) (use assms(1,3) same in simp_all)
  ultimately show ?thesis by simp
qed

theorem stale_status_is_serialised_witness:
  "\<exists>e. json_of_dict (snd (to_dict_raw ((fst (to_dict demo_message))\<lparr>am_status := MSG_FAILED\<rparr>))) = Some e \<and>
     from_dict no_io ''x'' ''y'' 0 e = Inr demo_message \<and> am_status demo_message = MSG_PENDING"
  using stale_status_is_serialised [of demo_message MSG_FAILED no_io "''x''" "''y''" 0]
  by (simp add: demo_message_def routing_valid_def)

text \<open>A message with a session context cannot be written as JSON at all.\<close>

lemma session_context_not_json:
  assumes "am_session_context m = Some sc" "am_cached_dict m = None"
  shows "json_of_dict (snd (to_dict_raw m)) = None"
proof -
  have "dget (snd (to_dict_raw m)) ''session_context'' = Some (PModel sc)"
    using assms by (simp add: raw_lookup to_dict_def raw_fields_def dict_of_fields_def)
  then have "(''session_context'', PModel sc) \<in> set (snd (to_dict_raw m))"
    by (rule map_of_SomeD)
  then show ?thesis
    by (force simp: json_of_dict_def list_all_iff)
qed

end
