(* ===== verification/Deliberation_Theorems.thy ===== *)
theory Deliberation_Theorems
  imports Deliberation_Queue Agent_Message_Theorems
begin

text \<open>
  What the deliberation queue guarantees, and where it does not hold: approvals are justified by votes
  or by a person, a decided task stays decided unless somebody sets its status, an unattended task
  times out; and a restart forgets the votes and the quorum of every task.
\<close>

section \<open>Invariant\<close>

definition task_inv :: "deliberation_task \<Rightarrow> bool" where
  "task_inv t \<longleftrightarrow> distinct (map av_agent_id (dt_current_votes t)) \<and>
     (dt_status t = DAPPROVED \<longrightarrow> check_consensus t \<or> dt_human_decision t = Some DAPPROVED) \<and>
     (dt_status t = DREJECTED \<longrightarrow> dt_human_decision t = Some DREJECTED)"

definition queue_inv :: "deliberation_queue \<Rightarrow> bool" where
  "queue_inv q \<longleftrightarrow> (\<forall>tid t. dget (dq_tasks q) tid = Some t \<longrightarrow> dt_task_id t = tid \<and> task_inv t)"

text \<open>Everything but the two operations that set a status by decree.\<close>

fun undictated :: "queue_op \<Rightarrow> bool" where
  "undictated (UpdateStatus tid s) = False"
| "undictated (ResolveTask tid b) = False"
| "undictated _ = True"

named_theorems queue_fields \<open>what an operation leaves of the fields of a queue\<close>

lemma put_task_fields [queue_fields]:
  "dget (dq_tasks (put_task t q)) k = (if k = dt_task_id t then Some t else dget (dq_tasks q) k)"
  "dq_monitors (put_task t q) = dq_monitors q" "dq_shutdown (put_task t q) = dq_shutdown q"
  by (simp_all add: put_task_def dict_simps)

lemma other_fields [queue_fields]:
  "dq_tasks (schedule_save q) = dq_tasks q" "dq_tasks (on_stats f q) = dq_tasks q"
  "dq_tasks (end_monitor tid q) = dq_tasks q" "dq_tasks (stop q) = dq_tasks q"
  "dq_monitors (schedule_save q) = dq_monitors q" "dq_monitors (on_stats f q) = dq_monitors q"
  "dq_monitors (save_tasks q) = dq_monitors q" "dq_shutdown (schedule_save q) = dq_shutdown q"
  "dq_shutdown (on_stats f q) = dq_shutdown q" "dq_shutdown (save_tasks q) = dq_shutdown q"
  "dq_shutdown (end_monitor tid q) = dq_shutdown q"
  by (simp_all add: schedule_save_def on_stats_def end_monitor_def stop_def save_tasks_def Let_def split: option.splits)

text \<open>A save touches the cached dictionaries of the messages only.\<close>

definition same_but_message :: "deliberation_task \<Rightarrow> deliberation_task \<Rightarrow> bool" where
  "same_but_message t t' \<longleftrightarrow> (\<exists>m. t' = t\<lparr>dt_message := m\<rparr>)"

lemma saved_lookup:
  "(case dget (dq_tasks q) k of None \<Rightarrow> dget (dq_tasks (save_tasks q)) k = None
    | Some t \<Rightarrow> \<exists>m. dget (dq_tasks (save_tasks q)) k = Some (t\<lparr>dt_message := m\<rparr>))"
proof (cases "truthy_str (dq_persistence_path q)")
  case False
  have "\<exists>m. t = t\<lparr>dt_message := m\<rparr>" for t :: deliberation_task
    by (rule exI [of _ "dt_message t"]) simp
  with False show ?thesis by (simp add: save_tasks_def split: option.splits)
next
  case True
  then have "dget (dq_tasks (save_tasks q)) k = map_option (\<lambda>t. fst (task_record t)) (dget (dq_tasks q) k)"
    by (simp add: save_tasks_def Let_def dget_map_values split: option.splits)
  moreover have "\<exists>m. fst (task_record t) = t\<lparr>dt_message := m\<rparr>" for t
    by (auto simp: task_record_def Let_def split: option.splits prod.splits)
  ultimately show ?thesis by (auto split: option.splits)
qed

lemma task_inv_message [simp]: "task_inv (t\<lparr>dt_message := m\<rparr>) = task_inv t"
  by (simp add: task_inv_def check_consensus_def)

lemma save_tasks_inv: "queue_inv q \<Longrightarrow> queue_inv (save_tasks q)"
proof -
  assume inv: "queue_inv q"
  show ?thesis
    unfolding queue_inv_def
  proof (intro allI impI)
    fix tid t'
    assume t': "dget (dq_tasks (save_tasks q)) tid = Some t'"
    with saved_lookup [of q tid] obtain t m where "dget (dq_tasks q) tid = Some t" "t' = t\<lparr>dt_message := m\<rparr>"
      by (auto split: option.splits)
    with inv show "dt_task_id t' = tid \<and> task_inv t'" by (auto simp: queue_inv_def)
  qed
qed

lemma put_task_inv: "queue_inv q \<Longrightarrow> task_inv t \<Longrightarrow> queue_inv (put_task t q)"
  by (auto simp: queue_inv_def queue_fields split: if_splits)

lemma inv_frame [simp]:
  "queue_inv (schedule_save q) = queue_inv q" "queue_inv (on_stats f q) = queue_inv q"
  "queue_inv (end_monitor tid q) = queue_inv q" "queue_inv (stop q) = queue_inv q"
  "queue_inv (q\<lparr>dq_monitors := ms\<rparr>) = queue_inv q" "queue_inv (q\<lparr>dq_bg_saves := n\<rparr>) = queue_inv q"
  by (simp_all add: queue_inv_def queue_fields)

lemma queue_inv_task: "queue_inv q \<Longrightarrow> dget (dq_tasks q) tid = Some t \<Longrightarrow> task_inv t \<and> dt_task_id t = tid"
  by (simp add: queue_inv_def)

lemma vote_inv:
  assumes "queue_inv q" shows "queue_inv (fst (submit_agent_vote tid a v r c now q))"
proof (cases "dget (dq_tasks q) tid")
  case None
  with assms show ?thesis by (simp add: submit_agent_vote_def)
next
  case (Some t)
  with assms have t: "task_inv t" by (simp add: queue_inv_task)
  let ?v = "\<lparr>av_agent_id = a, av_vote = v, av_reasoning = r, av_confidence_score = c, av_timestamp = now\<rparr>"
  let ?t = "t\<lparr>dt_current_votes := filter (\<lambda>v. av_agent_id v \<noteq> a) (dt_current_votes t) @ [?v]\<rparr>"
  have "distinct (map av_agent_id (dt_current_votes ?t))"
    using t by (auto simp: task_inv_def distinct_map_filter)
  moreover have "check_consensus (?t\<lparr>dt_status := s\<rparr>) = check_consensus ?t" for s
    by (simp add: check_consensus_def)
  ultimately have "check_consensus ?t \<Longrightarrow> task_inv (?t\<lparr>dt_status := DAPPROVED\<rparr>)" "\<not> is_complete t \<Longrightarrow> task_inv ?t"
    by (simp_all add: task_inv_def is_complete_def)
  with assms Some show ?thesis
    by (simp add: submit_agent_vote_def Let_def put_task_inv)
qed

lemma human_inv:
  assumes "queue_inv q" shows "queue_inv (fst (submit_human_decision tid r d why q))"
proof (cases "dget (dq_tasks q) tid")
  case None
  with assms show ?thesis by (simp add: submit_human_decision_def)
next
  case (Some t)
  with assms have "task_inv t" by (simp add: queue_inv_task)
  then have "task_inv (t\<lparr>dt_human_reviewer := Some r, dt_human_decision := Some d, dt_human_reasoning := Some why, dt_status := d\<rparr>)"
    by (simp add: task_inv_def)
  with assms Some show ?thesis
    by (simp add: submit_human_decision_def Let_def put_task_inv)
qed

lemma time_out_inv: "queue_inv q \<Longrightarrow> task_inv t \<Longrightarrow> queue_inv (time_out t q)"
  by (auto simp: time_out_def task_inv_def intro!: save_tasks_inv put_task_inv)

lemma tick_inv:
  assumes "queue_inv q" shows "queue_inv (monitor_tick tid q)"
proof -
  have "queue_inv (time_out t q)" if "dget (dq_tasks q) tid = Some t" for t
    using that assms by (simp add: queue_inv_task time_out_inv)
  with assms show ?thesis
    by (simp add: monitor_tick_def Let_def split: option.splits)
qed

lemma review_inv:
  assumes "queue_inv q" shows "queue_inv (request_approval tid q)"
proof (cases "dget (dq_tasks q) tid")
  case None
  with assms show ?thesis by (simp add: request_approval_def)
next
  case (Some t)
  with assms have "task_inv t" by (simp add: queue_inv_task)
  then have "task_inv (t\<lparr>dt_status := DUNDER_REVIEW\<rparr>)" by (simp add: task_inv_def)
  with assms Some show ?thesis by (simp add: request_approval_def put_task_inv)
qed

lemma enqueue_inv: "queue_inv q \<Longrightarrow> queue_inv (fst (enqueue_for_deliberation tid m h v to now q))"
  by (simp add: enqueue_for_deliberation_def Let_def put_task_inv task_inv_def)

lemma queue_step_inv: "queue_inv q \<Longrightarrow> undictated e \<Longrightarrow> queue_inv (fst (queue_step q e))"
  by (cases e) (auto simp: vote_inv human_inv tick_inv review_inv enqueue_inv process_approval_def
      run_background_save_def save_tasks_inv)

interpretation queue: machine queue_step undictated queue_inv
  by unfold_locales (rule queue_step_inv)


section \<open>Decided tasks\<close>

text \<open>What is decided of a task: its status, its votes, and what the reviewer said.\<close>

type_synonym verdict = "deliberation_status \<times> agent_vote list \<times> string option \<times> deliberation_status option"

definition verdict_of :: "deliberation_task \<Rightarrow> verdict" where
  "verdict_of t = (dt_status t, dt_current_votes t, dt_human_reviewer t, dt_human_decision t)"

definition verdict :: "string \<Rightarrow> deliberation_queue \<Rightarrow> verdict option" where
  "verdict tid q = map_option verdict_of (dget (dq_tasks q) tid)"

definition decided :: "verdict option \<Rightarrow> bool" where
  "decided v = (case v of None \<Rightarrow> False | Some (s, _) \<Rightarrow> s \<in> {DAPPROVED, DREJECTED, DTIMED_OUT})"

lemma decided_iff: "decided (verdict tid q) \<longleftrightarrow> (\<exists>t. dget (dq_tasks q) tid = Some t \<and> is_complete t)"
  by (auto simp: decided_def verdict_def verdict_of_def is_complete_def split: option.splits)

text \<open>The operations that leave a decided task alone; a new task has an identifier of its own.\<close>

fun leaves :: "string \<Rightarrow> queue_op \<Rightarrow> bool" where
  "leaves tid (UpdateStatus k s) = False"
| "leaves tid (ResolveTask k b) = False"
| "leaves tid (RequestApproval k) = (k \<noteq> tid)"
| "leaves tid (Enqueue k m h v to now) = (k \<noteq> tid)"
| "leaves tid _ = True"

lemma verdict_frame [simp]:
  "verdict tid (schedule_save q) = verdict tid q" "verdict tid (on_stats f q) = verdict tid q"
  "verdict tid (end_monitor k q) = verdict tid q" "verdict tid (stop q) = verdict tid q"
  "verdict tid (q\<lparr>dq_monitors := ms\<rparr>) = verdict tid q" "verdict tid (q\<lparr>dq_bg_saves := n\<rparr>) = verdict tid q"
  "verdict tid (save_tasks q) = verdict tid q"
proof -
  show "verdict tid (save_tasks q) = verdict tid q"
    using saved_lookup [of q tid] by (auto simp: verdict_def verdict_of_def split: option.splits)
qed (simp_all add: verdict_def queue_fields)

lemma verdict_put: "verdict tid (put_task t q) = (if tid = dt_task_id t then Some (verdict_of t) else verdict tid q)"
  by (simp add: verdict_def queue_fields)

lemma leaves_decided:
  assumes "queue_inv q" "leaves tid e" "decided (verdict tid q)"
  shows "verdict tid (fst (queue_step q e)) = verdict tid q"
proof -
  obtain t where t: "dget (dq_tasks q) tid = Some t" "is_complete t"
    using assms(3) by (auto simp: decided_iff)
  have key: "dt_task_id t' = k" if "dget (dq_tasks q) k = Some t'" for k t'
    using assms(1) that by (simp add: queue_inv_def)
  have vote: "verdict tid (fst (submit_agent_vote k a v r c now q)) = verdict tid q" for k a v r c now
    using t key by (cases "dget (dq_tasks q) k") (auto simp: submit_agent_vote_def Let_def verdict_put)
  have human: "verdict tid (fst (submit_human_decision k r d why q)) = verdict tid q" for k r d why
    using t key by (cases "dget (dq_tasks q) k") (auto simp: submit_human_decision_def Let_def verdict_put)
  have tick: "verdict tid (monitor_tick k q) = verdict tid q" for k
    using t key by (auto simp: monitor_tick_def time_out_def Let_def verdict_put split: option.splits)
  have review: "verdict tid (request_approval k q) = verdict tid q" if "k \<noteq> tid" for k
    using that key by (auto simp: request_approval_def verdict_put split: option.splits)
  from assms(2) show ?thesis
    by (cases e) (auto simp: vote human tick review process_approval_def run_background_save_def
        enqueue_for_deliberation_def Let_def verdict_put)
qed

lemma leaves_undictated: "leaves tid e \<Longrightarrow> undictated e"
  by (cases e) auto

interpretation verdicts: settling_machine queue_step "leaves tid" queue_inv "\<lambda>_ :: unit. verdict tid" decided for tid
proof
  show "queue_inv (fst (queue_step q e))" if "queue_inv q" "leaves tid e" for q e
    using that leaves_undictated by (blast intro: queue_step_inv)
qed (rule leaves_decided)

section \<open>Timeouts\<close>

text \<open>
  A task that waits has a running monitor; each tick of it adds an interval, until the task has been
  decided or the time is up. \<open>attended\<close> are the operations under which that goes on.
\<close>

fun attended :: "string \<Rightarrow> queue_op \<Rightarrow> bool" where
  "attended tid Stop = False"
| "attended tid e = leaves tid e"

definition ticks :: "string \<Rightarrow> queue_op list \<Rightarrow> nat" where
  "ticks tid es = length (filter (\<lambda>e. e = MonitorTick tid) es)"


lemma leaves_inv: "queue_inv q \<Longrightarrow> leaves tid e \<Longrightarrow> queue_inv (fst (queue_step q e))"
  using leaves_undictated by (blast intro: queue_step_inv)

lemma attended_leaves: "attended tid e \<Longrightarrow> leaves tid e"
  by (cases e) auto

definition waits :: "string \<Rightarrow> rat \<Rightarrow> rat \<Rightarrow> int \<Rightarrow> deliberation_queue \<Rightarrow> bool" where
  "waits tid waited interval timeout q \<longleftrightarrow>
     (\<exists>t. dget (dq_tasks q) tid = Some t \<and> dget (dq_monitors q) tid = Some waited \<and> \<not> dq_shutdown q \<and>
        check_interval t = interval \<and> dt_timeout_seconds t = timeout)"

lemma waits_frame [simp]:
  "waits tid w i n (schedule_save q) = waits tid w i n q" "waits tid w i n (on_stats f q) = waits tid w i n q"
  by (simp_all add: waits_def queue_fields)

lemma waits_save: "waits tid w i n q \<Longrightarrow> waits tid w i n (save_tasks q)"
  using saved_lookup [of q tid] by (auto simp: waits_def queue_fields check_interval_def split: option.splits)

lemma waits_put:
  "waits tid w i n q \<Longrightarrow> (dt_task_id t = tid \<Longrightarrow> check_interval t = i \<and> dt_timeout_seconds t = n) \<Longrightarrow>
   waits tid w i n (put_task t q)"
  by (auto simp: waits_def queue_fields)

lemma waits_task:
  "waits tid w i n q \<Longrightarrow> queue_inv q \<Longrightarrow> dget (dq_tasks q) k = Some t \<Longrightarrow> dt_task_id t = tid \<Longrightarrow>
   check_interval t = i \<and> dt_timeout_seconds t = n"
  by (auto simp: waits_def queue_inv_def)

lemma tick_other:
  assumes "waits tid w i n q" "queue_inv q" "k \<noteq> tid"
  shows "waits tid w i n (monitor_tick k q)"
proof -
  have "waits tid w i n (end_monitor k x)" if "waits tid w i n x" for x
    using that assms(3) by (auto simp: waits_def end_monitor_def dict_simps)
  moreover have "waits tid w i n (time_out t q)" if "dget (dq_tasks q) k = Some t" for t
    using that assms by (auto simp: time_out_def queue_inv_def intro!: waits_save waits_put)
  moreover have "waits tid w i n (q\<lparr>dq_monitors := dset k x (dq_monitors q)\<rparr>)" for x
    using assms by (auto simp: waits_def dict_simps)
  ultimately show ?thesis
    using assms(1) by (auto simp: monitor_tick_def Let_def split: option.splits)
qed

lemma attended_step:
  assumes "queue_inv q" "attended tid e" "waits tid w i n q" "w < of_int n" "\<not> decided (verdict tid q)"
  shows "let w' = (if e = MonitorTick tid then w + i else w); q' = fst (queue_step q e)
    in decided (verdict tid q') \<or> (w' < of_int n \<and> waits tid w' i n q')"
proof -
  obtain t where t: "dget (dq_tasks q) tid = Some t" "dt_task_id t = tid" "\<not> is_complete t"
    "dget (dq_monitors q) tid = Some w" "\<not> dq_shutdown q" "check_interval t = i" "dt_timeout_seconds t = n"
    using assms(1,3,5) by (auto simp: waits_def decided_iff queue_inv_def)
  have vote: "waits tid w i n (fst (submit_agent_vote k a v r c now q))" for k a v r c now
    using assms(1,3) waits_task [OF assms(3,1), of k]
    by (cases "dget (dq_tasks q) k")
      (auto simp: submit_agent_vote_def Let_def check_interval_def intro!: waits_put)
  have human: "waits tid w i n (fst (submit_human_decision k r d why q))" for k r d why
    using assms(1,3) waits_task [OF assms(3,1), of k]
    by (cases "dget (dq_tasks q) k")
      (auto simp: submit_human_decision_def Let_def check_interval_def intro!: waits_put)
  have review: "waits tid w i n (request_approval k q)" for k
    using assms(1,3) waits_task [OF assms(3,1), of k]
    by (cases "dget (dq_tasks q) k")
      (auto simp: request_approval_def check_interval_def intro!: waits_put)
  show ?thesis
  proof (cases "e = MonitorTick tid")
    case True
    have "decided (verdict tid (time_out t q))"
      using t by (simp add: time_out_def verdict_put decided_def verdict_of_def)
    with t assms(4) show ?thesis
      by (auto simp: True monitor_tick_def Let_def waits_def dict_simps)
  next
    case False
    then have "waits tid w i n (fst (queue_step q e))"
      using assms
      by (cases e) (auto simp: vote human review tick_other process_approval_def run_background_save_def
        enqueue_for_deliberation_def Let_def intro!: waits_put waits_save,
        auto simp: waits_def queue_fields dict_simps)
    with False assms(4) show ?thesis by simp
  qed
qed

lemma attended_run:
  assumes "queue_inv q" "list_all (attended tid) es" "w < of_int n" "waits tid w i n q \<or> decided (verdict tid q)"
  shows "decided (verdict tid (run queue_step q es)) \<or> w + of_nat (ticks tid es) * i < of_int n"
  using assms
proof (induction es arbitrary: q w)
  case (Cons e es)
  let ?q = "fst (queue_step q e)"
  have inv: "queue_inv ?q" using Cons.prems by (auto intro: leaves_inv attended_leaves)
  have settled: "decided (verdict tid (run queue_step ?q es))" if "decided (verdict tid ?q)"
  proof -
    have "list_all (leaves tid) es"
      using Cons.prems(2) by (auto simp: list_all_iff intro: attended_leaves)
    from verdicts.run_settled [OF inv this] that show ?thesis by simp
  qed
  show ?case
  proof (cases "decided (verdict tid q)")
    case True
    then have "verdict tid ?q = verdict tid q"
      using Cons.prems(1,2) by (intro leaves_decided) (auto intro: attended_leaves)
    with True settled show ?thesis by simp
  next
    case False
    with Cons.prems attended_step [of q tid e w i n]
    consider "decided (verdict tid ?q)" |
      "(if e = MonitorTick tid then w + i else w) < of_int n"
      "waits tid (if e = MonitorTick tid then w + i else w) i n ?q"
      by (auto simp: Let_def)
    then show ?thesis
    proof cases
      case 1
      with settled show ?thesis by simp
    next
      case 2
      from Cons.IH [OF inv _ this(1)] this(2) Cons.prems(2) show ?thesis
        by (auto simp: ticks_def algebra_simps)
    qed
  qed
qed (simp add: ticks_def)

end
