(* ===== verification/Deliberation_Properties.thy ===== *)
theory Deliberation_Properties
  imports Deliberation_Theorems
begin

text \<open>The properties of the deliberation queue and of its persistence.\<close>

section \<open>Deciding\<close>

text \<open>C38: Who approved what: as long as nobody sets a status by decree, an approved task was approved by a
  reviewer, or by at least as many distinct agents as it requires, a sufficient share of them in favour;
  and a rejected one was rejected by a reviewer. So however many agents vote against a task, their
  votes alone never reject it.\<close>

theorem queue_decision_is_justified:
  assumes "mk_queue io ids now path None threshold timeout = Inr q" and "list_all undictated ops"
    and "dget (dq_tasks (run queue_step q ops)) tid = Some t"
  shows "(if dt_status t = DAPPROVED
          then dt_human_decision t = Some DAPPROVED \<or>
            (distinct (map av_agent_id (dt_current_votes t)) \<and>
             dt_required_votes t \<le> int (length (dt_current_votes t)) \<and>
             dt_consensus_threshold t * of_nat (length (dt_current_votes t))
               \<le> of_nat (length (filter (\<lambda>v. av_vote v = VAPPROVE) (dt_current_votes t))))
          else True) \<and>
         (if dt_status t = DREJECTED then dt_human_decision t = Some DREJECTED else True)"
proof -
  have "queue_inv q"
    using assms(1) by (auto simp: mk_queue_def load_tasks_def Let_def queue_inv_def split: if_splits)
  from queue.run_invar [OF this assms(2)] assms(3) have t: "task_inv t"
    by (simp add: queue_inv_def)
  have "dt_required_votes t \<le> int (length (dt_current_votes t)) \<and>
      dt_consensus_threshold t * of_nat (length (dt_current_votes t))
        \<le> of_nat (length (filter (\<lambda>v. av_vote v = VAPPROVE) (dt_current_votes t)))" if "check_consensus t"
  proof (cases "dt_current_votes t = []")
    case True
    with that show ?thesis by (auto simp: check_consensus_def Let_def split: if_splits)
  next
    case False
    then have "(0 :: rat) < of_nat (length (dt_current_votes t))" by simp
    with that show ?thesis
      by (auto simp: check_consensus_def Let_def pos_le_divide_eq split: if_splits)
  qed
  with t show ?thesis by (auto simp: task_inv_def)
qed

definition demo_queue :: deliberation_queue where
  "demo_queue = \<lparr>dq_tasks = [], dq_monitors = [], dq_bg_saves = 0, dq_persistence_path = None, dq_file = None,
     dq_consensus_threshold = 66 / 100, dq_default_timeout = 300,
     dq_stats = \<lparr>qs_total_queued = 0, qs_approved = 0, qs_rejected = 0, qs_timed_out = 0,
                 qs_consensus_reached = 0, qs_avg_processing_time = 0\<rparr>, dq_shutdown = False\<rparr>"

lemma demo_queue_new: "mk_queue no_io ids 0 None None (66 / 100) 300 = Inr demo_queue"
  by (simp add: mk_queue_def demo_queue_def truthy_str_def)

definition five_votes :: "queue_op list" where
  "five_votes = Enqueue ''t'' demo_message False True None 0 #
     map (\<lambda>(a, v). AgentVote ''t'' a v [] 1 0)
       [(''a'', VAPPROVE), (''b'', VAPPROVE), (''c'', VREJECT), (''d'', VAPPROVE), (''e'', VAPPROVE)]"

lemma five_votes_approve:
  "map_option dt_status (dget (dq_tasks (run queue_step demo_queue five_votes)) ''t'') = Some DAPPROVED \<and>
   map_option dt_human_decision (dget (dq_tasks (run queue_step demo_queue five_votes)) ''t'') = Some None"
  by (simp add: five_votes_def demo_queue_def enqueue_for_deliberation_def submit_agent_vote_def put_task_def
      on_stats_def schedule_save_def truthy_str_def Let_def is_complete_def check_consensus_def)

theorem queue_decision_is_justified_witness:
  "\<exists>t. dget (dq_tasks (run queue_step demo_queue five_votes)) ''t'' = Some t \<and> dt_status t = DAPPROVED \<and>
     distinct (map av_agent_id (dt_current_votes t)) \<and> dt_required_votes t \<le> int (length (dt_current_votes t))"
proof -
  obtain t where t: "dget (dq_tasks (run queue_step demo_queue five_votes)) ''t'' = Some t"
    "dt_status t = DAPPROVED" "dt_human_decision t = None"
    using five_votes_approve by auto
  have "list_all undictated five_votes" by (simp add: five_votes_def)
  from queue_decision_is_justified [OF demo_queue_new this t(1)] t show ?thesis by simp
qed

text \<open>A decided task stays decided: once a task has been approved, rejected or timed out, its status, its
  votes and its review never change again, whatever is voted, reviewed, enqueued, saved or timed out
  later, unless somebody sets its status or puts it under review.\<close>

theorem decided_task_is_final:
  assumes "mk_queue io ids now path None threshold timeout = Inr q" and "list_all undictated ops"
    and "decided (verdict tid (run queue_step q ops))" and "list_all (leaves tid) later"
  shows "verdict tid (run queue_step q (ops @ later)) = verdict tid (run queue_step q ops)"
proof -
  have "queue_inv q"
    using assms(1) by (auto simp: mk_queue_def load_tasks_def Let_def queue_inv_def split: if_splits)
  from verdicts.run_settled [OF queue.run_invar [OF this assms(2)] assms(4)] assms(3) show ?thesis
    by (simp add: run_append)
qed

theorem decided_task_is_final_witness:
  "verdict ''t'' (run queue_step demo_queue (five_votes @ [HumanDecision ''t'' ''bob'' DREJECTED []])) =
   verdict ''t'' (run queue_step demo_queue five_votes)"
proof -
  have "list_all undictated five_votes" by (simp add: five_votes_def)
  moreover have "decided (verdict ''t'' (run queue_step demo_queue five_votes))"
    using five_votes_approve by (auto simp: decided_iff is_complete_def)
  ultimately show ?thesis
    by (rule decided_task_is_final [OF demo_queue_new]) simp
qed

text \<open>A review reopens what was decided: the manager of human reviews puts a task under review without
  looking at its status, so a task that had been approved, rejected or timed out is open again and
  the reviewer's decision replaces the one that stood.\<close>

theorem review_reopens_decided:
  assumes "dget (dq_tasks q) tid = Some t" and "dt_task_id t = tid" and "dt_message t = Some m"
  shows "case process_approval tid reviewer decision why (request_approval tid q) of
    (q', ok) \<Rightarrow> ok \<and> map_option dt_status (get_task q' tid) =
      Some (if decision = ''approve'' then DAPPROVED else DREJECTED)"
  using assms
  by (simp add: request_approval_def process_approval_def submit_human_decision_def is_complete_def Let_def
      get_task_def queue_fields)

theorem review_reopens_decided_witness:
  "let q = run queue_step demo_queue five_votes in
   map_option dt_status (get_task q ''t'') = Some DAPPROVED \<and>
   map_option dt_status (get_task (fst (process_approval ''t'' ''bob'' ''reject'' [] (request_approval ''t'' q))) ''t'') =
     Some DREJECTED"
proof -
  let ?q = "run queue_step demo_queue five_votes"
  have "map_option dt_message (dget (dq_tasks ?q) ''t'') = Some (Some demo_message)"
    "map_option dt_task_id (dget (dq_tasks ?q) ''t'') = Some ''t''"
    by (simp_all add: five_votes_def demo_queue_def enqueue_for_deliberation_def submit_agent_vote_def put_task_def
      on_stats_def schedule_save_def truthy_str_def Let_def is_complete_def check_consensus_def)
  then obtain t where "dget (dq_tasks ?q) ''t'' = Some t" "dt_task_id t = ''t''" "dt_message t = Some demo_message"
    by auto
  from review_reopens_decided [OF this, of "''reject''" "''bob''" "[]"] five_votes_approve show ?thesis
    by (auto simp: get_task_def Let_def split: prod.splits)
qed

text \<open>Nothing waits for ever: a task just enqueued with a positive timeout has been decided, at the latest by
  timing out, when its monitor has ticked often enough for the intervals to add up to the timeout,
  whatever is voted, reviewed, saved or enqueued in between.\<close>

theorem enqueued_task_times_out:
  assumes "mk_queue io ids now0 path None threshold dflt = Inr q" and "list_all undictated ops"
    and "\<not> dq_shutdown (run queue_step q ops)" and "0 < timeout"
    and "list_all (attended tid) later"
    and "of_int timeout \<le> of_nat (ticks tid later) * min 1 (of_int timeout / (10 :: rat))"
  shows "decided (verdict tid (run queue_step q (ops @ Enqueue tid m h v (Some timeout) now # later)))"
proof -
  let ?q = "run queue_step q ops" and ?e = "Enqueue tid m h v (Some timeout) now"
  have "queue_inv q"
    using assms(1) by (auto simp: mk_queue_def load_tasks_def Let_def queue_inv_def split: if_splits)
  then have inv: "queue_inv (fst (queue_step ?q ?e))"
    using queue.run_invar [OF _ assms(2)] queue_step_inv [of ?q ?e] by simp
  have "waits tid 0 (min 1 (of_int timeout / 10)) timeout (fst (queue_step ?q ?e))"
    using assms(3,4)
    by (auto simp: enqueue_for_deliberation_def Let_def waits_def queue_fields dict_simps check_interval_def)
  with attended_run [OF inv assms(5), of 0 timeout "min 1 (of_int timeout / 10)"] assms(4,6)
  show ?thesis by (simp add: run_append)
qed

theorem enqueued_task_times_out_witness:
  "decided (verdict ''t'' (run queue_step demo_queue
     ([] @ Enqueue ''t'' demo_message False False (Some 2) 0 # replicate 10 (MonitorTick ''t''))))"
  by (rule enqueued_task_times_out [OF demo_queue_new])
    (simp_all add: demo_queue_def ticks_def list_all_iff)


section \<open>Persistence\<close>



lemma status_round_trip [simp]: "deliberation_status_of (py_lower (deliberation_status_value s)) = Some s"
  by (cases s) (simp_all add: deliberation_status_of_def enum_of_def py_lower_def lower_char_def Let_def)




definition persistent_queue :: deliberation_queue where
  "persistent_queue = demo_queue\<lparr>dq_persistence_path := Some ''tasks.json''\<rparr>"


text \<open>One message with a session context stops all saving: it cannot be written as JSON, the error is
  logged, and the file keeps what it held, for every task of the queue.\<close>

theorem session_message_stops_saving:
  assumes "dget (dq_tasks q) tid = Some t" and "dt_message t = Some m"
    and "am_session_context m = Some sc" and "am_cached_dict m = None"
  shows "dq_file (save_tasks q) = dq_file q"
proof -
  have one: "record_json (snd (task_record t)) = None"
  proof -
    obtain m1 d where d: "to_dict_raw m = (m1, d)" by (metis surj_pair)
    with session_context_not_json [OF assms(3,4)] show ?thesis
      by (simp add: task_record_def assms(2) Let_def record_json_def)
  qed
  have "storage_json (map (\<lambda>(tid, t). (tid, snd (task_record t))) ts) = None" if "(tid, t) \<in> set ts" for ts
    using that
  proof (induction ts)
    case (Cons kt ts)
    then show ?case using one by (cases kt) (auto split: option.splits)
  qed simp
  from this [OF map_of_SomeD [OF assms(1)]] show ?thesis
    by (simp add: save_tasks_def Let_def)
qed

theorem session_message_stops_saving_witness:
  "dq_file (save_tasks (fst (enqueue_for_deliberation ''t'' (demo_message\<lparr>am_session_context := Some []\<rparr>)
      True False None 5 persistent_queue))) = None"
proof -
  let ?m = "demo_message\<lparr>am_session_context := Some []\<rparr>"
  let ?q = "fst (enqueue_for_deliberation ''t'' ?m True False None 5 persistent_queue)"
  have "map_option dt_message (dget (dq_tasks ?q) ''t'') = Some (Some ?m)" "dq_file ?q = None"
    by (simp_all add: enqueue_for_deliberation_def persistent_queue_def demo_queue_def Let_def put_task_def on_stats_def
        schedule_save_def truthy_str_def)
  then obtain t where "dget (dq_tasks ?q) ''t'' = Some t" "dt_message t = Some ?m" by auto
  from session_message_stops_saving [OF this, of "[]"] \<open>dq_file ?q = None\<close> show ?thesis
    by (simp add: demo_message_def)
qed

end
