(* ===== verification/Prov_Labels.thy ===== *)
theory Prov_Labels
  imports Prelude
begin

text \<open>
  \<^verbatim>\<open>src/prov/labels.py\<close>: the W3C PROV labels stamped on decisions of the pipeline. The fields of the frozen
  dataclasses are not checked by Python, so \<open>from_dict\<close> keeps whatever value the dictionary holds: a
  field is a \<open>json\<close> value, a string wherever the factories of the module build it. A timestamp is the
  string \<open>_utc_now_iso\<close> returned. \<open>from_dict\<close> gives \<open>None\<close> where Python raises (\<open>KeyError\<close> for a missing key,
  \<open>TypeError\<close> for an entry that is not a dictionary).
\<close>

section \<open>Constants\<close>

definition PROV_SCHEMA_VERSION :: string where
  "PROV_SCHEMA_VERSION = ''1.0.0''"

definition SERVICE_AGENT_ID :: string where
  "SERVICE_AGENT_ID = ''acgs:agent/enhanced-agent-bus''"

definition SERVICE_AGENT_LABEL :: string where
  "SERVICE_AGENT_LABEL = ''ACGS-2 Enhanced Agent Bus''"

definition ENTITY_TYPE_MAP :: "(string, string) dict" where
  "ENTITY_TYPE_MAP =
     [(''security_scan'', ''acgs:SecurityScanResult''),
      (''constitutional_validation'', ''acgs:ConstitutionalValidationResult''),
      (''maci_enforcement'', ''acgs:MACIValidationResult''),
      (''impact_scoring'', ''acgs:ImpactScore''),
      (''hitl_review'', ''acgs:HITLDecision''),
      (''temporal_policy'', ''acgs:TemporalPolicyDecision''),
      (''tool_privilege'', ''acgs:ToolPrivilegeDecision''),
      (''strategy'', ''acgs:GovernanceDecision''),
      (''ifc_check'', ''acgs:IFCFlowDecision'')]"

definition ACTIVITY_TYPE_MAP :: "(string, string) dict" where
  "ACTIVITY_TYPE_MAP =
     [(''security_scan'', ''acgs:SecurityScanning''),
      (''constitutional_validation'', ''acgs:ConstitutionalValidation''),
      (''maci_enforcement'', ''acgs:MACIEnforcement''),
      (''impact_scoring'', ''acgs:ImpactScoring''),
      (''hitl_review'', ''acgs:HITLReview''),
      (''temporal_policy'', ''acgs:TemporalPolicyEvaluation''),
      (''tool_privilege'', ''acgs:ToolPrivilegeEvaluation''),
      (''strategy'', ''acgs:GovernanceStrategyExecution''),
      (''ifc_check'', ''acgs:IFCFlowCheck'')]"

section \<open>Agents, activities, entities and labels\<close>

record prov_agent =
  pa_id :: json
  pa_type :: json
  pa_label :: json

definition agent_to_dict :: "prov_agent \<Rightarrow> json_dict" where
  "agent_to_dict a = [(''id'', pa_id a), (''type'', pa_type a), (''label'', pa_label a)]"

definition agent_from_dict :: "json_dict \<Rightarrow> prov_agent option" where
  "agent_from_dict d =
     (case (dget d ''id'', dget d ''type'', dget d ''label'') of
        (Some i, Some t, Some l) \<Rightarrow> Some \<lparr>pa_id = i, pa_type = t, pa_label = l\<rparr>
      | _ \<Rightarrow> None)"

record prov_activity =
  pv_id :: json
  pv_type :: json
  pv_label :: json
  pv_started_at_time :: json
  pv_ended_at_time :: json
  pv_was_associated_with :: json

definition activity_to_dict :: "prov_activity \<Rightarrow> json_dict" where
  "activity_to_dict a =
     [(''id'', pv_id a), (''type'', pv_type a), (''label'', pv_label a),
      (''started_at_time'', pv_started_at_time a), (''ended_at_time'', pv_ended_at_time a),
      (''was_associated_with'', pv_was_associated_with a)]"

definition activity_from_dict :: "json_dict \<Rightarrow> prov_activity option" where
  "activity_from_dict d =
     (case (dget d ''id'', dget d ''type'', dget d ''label'', dget d ''started_at_time'',
            dget d ''ended_at_time'', dget d ''was_associated_with'') of
        (Some i, Some t, Some l, Some s, Some e, Some w) \<Rightarrow>
          Some \<lparr>pv_id = i, pv_type = t, pv_label = l, pv_started_at_time = s, pv_ended_at_time = e,
                pv_was_associated_with = w\<rparr>
      | _ \<Rightarrow> None)"

record prov_entity =
  pe_id :: json
  pe_type :: json
  pe_label :: json
  pe_generated_at_time :: json
  pe_was_generated_by :: json
  pe_was_attributed_to :: json

definition entity_to_dict :: "prov_entity \<Rightarrow> json_dict" where
  "entity_to_dict e =
     [(''id'', pe_id e), (''type'', pe_type e), (''label'', pe_label e),
      (''generated_at_time'', pe_generated_at_time e), (''was_generated_by'', pe_was_generated_by e),
      (''was_attributed_to'', pe_was_attributed_to e)]"

definition entity_from_dict :: "json_dict \<Rightarrow> prov_entity option" where
  "entity_from_dict d =
     (case (dget d ''id'', dget d ''type'', dget d ''label'', dget d ''generated_at_time'',
            dget d ''was_generated_by'', dget d ''was_attributed_to'') of
        (Some i, Some t, Some l, Some g, Some w, Some a) \<Rightarrow>
          Some \<lparr>pe_id = i, pe_type = t, pe_label = l, pe_generated_at_time = g,
                pe_was_generated_by = w, pe_was_attributed_to = a\<rparr>
      | _ \<Rightarrow> None)"

record prov_label =
  pl_entity :: prov_entity
  pl_activity :: prov_activity
  pl_agent :: prov_agent
  pl_constitutional_hash :: json
  pl_schema_version :: json

definition prov_label_to_dict :: "prov_label \<Rightarrow> json_dict" where
  "prov_label_to_dict l =
     [(''entity'', JObj (entity_to_dict (pl_entity l))),
      (''activity'', JObj (activity_to_dict (pl_activity l))),
      (''agent'', JObj (agent_to_dict (pl_agent l))),
      (''constitutional_hash'', pl_constitutional_hash l),
      (''schema_version'', pl_schema_version l)]"

definition sub_dict :: "json_dict \<Rightarrow> string \<Rightarrow> json_dict option" where
  "sub_dict d k = (case dget d k of Some (JObj e) \<Rightarrow> Some e | _ \<Rightarrow> None)"

definition prov_label_from_dict :: "json_dict \<Rightarrow> prov_label option" where
  "prov_label_from_dict d =
     (case (Option.bind (sub_dict d ''entity'') entity_from_dict,
            Option.bind (sub_dict d ''activity'') activity_from_dict,
            Option.bind (sub_dict d ''agent'') agent_from_dict) of
        (Some e, Some a, Some g) \<Rightarrow>
          Some \<lparr>pl_entity = e, pl_activity = a, pl_agent = g,
                pl_constitutional_hash = dget_default d ''constitutional_hash'' (JStr CONSTITUTIONAL_HASH),
                pl_schema_version = dget_default d ''schema_version'' (JStr PROV_SCHEMA_VERSION)\<rparr>
      | _ \<Rightarrow> None)"

text \<open>\<open>ProvLineage\<close>: the list of labels of one message.\<close>

type_synonym prov_lineage = "prov_label list"

definition lineage_append :: "prov_label \<Rightarrow> prov_lineage \<Rightarrow> prov_lineage" where
  "lineage_append l ls = ls @ [l]"

definition lineage_to_dict :: "prov_lineage \<Rightarrow> json_dict list" where
  "lineage_to_dict ls = map prov_label_to_dict ls"

fun lineage_from_dict :: "json_dict list \<Rightarrow> prov_lineage option" where
  "lineage_from_dict [] = Some []"
| "lineage_from_dict (d # ds) =
     (case prov_label_from_dict d of
        None \<Rightarrow> None
      | Some l \<Rightarrow> map_option (\<lambda>ls. l # ls) (lineage_from_dict ds))"

section \<open>Factories\<close>

definition safe_time :: "string \<Rightarrow> string" where
  "safe_time t = map (\<lambda>c. if c = CHR '':'' \<or> c = CHR ''.'' then CHR ''-'' else c) t"

definition make_prov_id :: "string \<Rightarrow> string \<Rightarrow> string \<Rightarrow> string" where
  "make_prov_id stage suffix issued_at =
     ''acgs:'' @ stage @ ''/'' @ suffix @ ''/'' @ safe_time issued_at"

definition make_service_agent :: prov_agent where
  "make_service_agent =
     \<lparr>pa_id = JStr SERVICE_AGENT_ID, pa_type = JStr ''prov:SoftwareAgent'', pa_label = JStr SERVICE_AGENT_LABEL\<rparr>"

definition make_tool_activity :: "string \<Rightarrow> string \<Rightarrow> string \<Rightarrow> prov_activity" where
  "make_tool_activity stage started_at ended_at =
     \<lparr>pv_id = JStr (make_prov_id stage ''activity'' started_at),
      pv_type = JStr (dget_default ACTIVITY_TYPE_MAP stage (''acgs:'' @ stage)),
      pv_label = JStr (''Execute '' @ stage),
      pv_started_at_time = JStr started_at,
      pv_ended_at_time = JStr ended_at,
      pv_was_associated_with = JStr SERVICE_AGENT_ID\<rparr>"

definition make_tool_entity :: "string \<Rightarrow> json \<Rightarrow> string \<Rightarrow> prov_entity" where
  "make_tool_entity stage activity_id generated_at =
     \<lparr>pe_id = JStr (make_prov_id stage ''entity'' generated_at),
      pe_type = JStr (dget_default ENTITY_TYPE_MAP stage (''acgs:'' @ stage @ ''Result'')),
      pe_label = JStr (''Output of '' @ stage),
      pe_generated_at_time = JStr generated_at,
      pe_was_generated_by = activity_id,
      pe_was_attributed_to = JStr SERVICE_AGENT_ID\<rparr>"

text \<open>\<open>now\<close> is the time read when no end is given.\<close>

definition build_prov_label :: "string \<Rightarrow> string \<Rightarrow> string \<Rightarrow> string option \<Rightarrow> prov_label" where
  "build_prov_label now stage started_at ended_at =
     (let ended = (case ended_at of None \<Rightarrow> now | Some t \<Rightarrow> t);
          activity = make_tool_activity stage started_at ended
      in \<lparr>pl_entity = make_tool_entity stage (pv_id activity) ended,
          pl_activity = activity,
          pl_agent = make_service_agent,
          pl_constitutional_hash = JStr CONSTITUTIONAL_HASH,
          pl_schema_version = JStr PROV_SCHEMA_VERSION\<rparr>)"

section \<open>Round trips and links\<close>

lemma agent_round_trip [simp]: "agent_from_dict (agent_to_dict a) = Some a"
  by (simp add: agent_from_dict_def agent_to_dict_def)

lemma activity_round_trip [simp]: "activity_from_dict (activity_to_dict a) = Some a"
  by (simp add: activity_from_dict_def activity_to_dict_def)

lemma entity_round_trip [simp]: "entity_from_dict (entity_to_dict e) = Some e"
  by (simp add: entity_from_dict_def entity_to_dict_def)

lemma prov_label_round_trip [simp]: "prov_label_from_dict (prov_label_to_dict l) = Some l"
  by (simp add: prov_label_from_dict_def prov_label_to_dict_def sub_dict_def dget_default_def)

lemma lineage_round_trip [simp]: "lineage_from_dict (lineage_to_dict ls) = Some ls"
  by (induction ls) (simp_all add: lineage_to_dict_def)

text \<open>A label the factory builds is linked the way PROV asks: the entity was generated by the activity,
  and both name the agent.\<close>

definition well_linked :: "prov_label \<Rightarrow> bool" where
  "well_linked l =
     (pe_was_generated_by (pl_entity l) = pv_id (pl_activity l) \<and>
      pe_was_attributed_to (pl_entity l) = pa_id (pl_agent l) \<and>
      pv_was_associated_with (pl_activity l) = pa_id (pl_agent l) \<and>
      pe_generated_at_time (pl_entity l) = pv_ended_at_time (pl_activity l))"

lemma built_label_linked [simp]: "well_linked (build_prov_label now stage s e)"
  by (simp add: well_linked_def build_prov_label_def make_tool_entity_def make_tool_activity_def
        make_service_agent_def Let_def)

lemma safe_time_chars: "CHR '':'' \<notin> set (safe_time t) \<and> CHR ''.'' \<notin> set (safe_time t)"
  by (auto simp: safe_time_def)

text \<open>The identifiers say which stage ended when and nothing else: two messages that finish the same stage
  at the same reading of the clock get entities of one identifier.\<close>

lemma entity_ids_collide:
  "pe_id (pl_entity (build_prov_label n1 stage s1 (Some e))) = pe_id (pl_entity (build_prov_label n2 stage s2 (Some e)))"
  by (simp add: build_prov_label_def make_tool_entity_def Let_def)

end
