(* ===== verification/Pipeline_Context.thy ===== *)
theory Pipeline_Context
  imports Agent_Message Prov_Labels
begin

text \<open>
  \<^verbatim>\<open>src/validators.py\<close> (the result of a validation) and \<^verbatim>\<open>src/pipeline/context.py\<close> (the metrics and the context
  that every middleware of the pipeline reads and writes). Python passes one mutable context along the
  chain; here it is a record that each step returns updated. The session is the dictionary of its
  fields, of a governance decision only the impact level is kept (the one field the pipeline reads), and
  a MACI result is the dictionary of its attributes.
\<close>

section \<open>Validation results\<close>

record validation_result =
  vr_is_valid :: bool
  vr_errors :: "string list"
  vr_warnings :: "string list"
  vr_metadata :: json_dict
  vr_decision :: string
  vr_status :: message_status
  vr_constitutional_hash :: string
  vr_pqc_metadata :: "json_dict option"

definition new_result :: validation_result where
  "new_result = \<lparr>vr_is_valid = True, vr_errors = [], vr_warnings = [], vr_metadata = [],
     vr_decision = ''ALLOW'', vr_status = MSG_VALIDATED, vr_constitutional_hash = CONSTITUTIONAL_HASH,
     vr_pqc_metadata = None\<rparr>"

definition add_error :: "string \<Rightarrow> validation_result \<Rightarrow> validation_result" where
  "add_error e r = r\<lparr>vr_errors := vr_errors r @ [e], vr_is_valid := False\<rparr>"

definition add_warning :: "string \<Rightarrow> validation_result \<Rightarrow> validation_result" where
  "add_warning w r = r\<lparr>vr_warnings := vr_warnings r @ [w]\<rparr>"

definition merge_result :: "validation_result \<Rightarrow> validation_result \<Rightarrow> validation_result" where
  "merge_result other r =
     r\<lparr>vr_errors := vr_errors r @ vr_errors other, vr_warnings := vr_warnings r @ vr_warnings other,
       vr_is_valid := (if \<not> vr_is_valid other then False else vr_is_valid r)\<rparr>"

text \<open>\<open>now\<close> is the timestamp of the dictionary. An object is true, so a present \<open>pqc_metadata\<close> is included.\<close>

definition result_to_dict :: "rat \<Rightarrow> validation_result \<Rightarrow> json_dict" where
  "result_to_dict now r =
     [(''is_valid'', JBool (vr_is_valid r)),
      (''errors'', JList (map JStr (vr_errors r))),
      (''warnings'', JList (map JStr (vr_warnings r))),
      (''metadata'', JObj (vr_metadata r)),
      (''decision'', JStr (vr_decision r)),
      (''constitutional_hash'', JStr (vr_constitutional_hash r)),
      (''timestamp'', JTime now)] @
     (case vr_pqc_metadata r of None \<Rightarrow> [] | Some d \<Rightarrow> [(''pqc_metadata'', JObj d)])"

text \<open>
  \<open>validate_constitutional_hash\<close>: the value may be no string at all; the comparison is \<open>compare_digest\<close> of
  the two encodings, equal exactly when the strings are.
\<close>

definition validate_constitutional_hash :: "json \<Rightarrow> validation_result" where
  "validate_constitutional_hash v =
     (case v of
        JStr h \<Rightarrow>
          if h = CONSTITUTIONAL_HASH then new_result
          else add_error (''Constitutional hash mismatch (provided: '' @
                          (if 8 < length h then take 8 h @ ''...'' else h) @ '')'') new_result
      | _ \<Rightarrow> add_error ''Constitutional hash must be a string'' new_result)"

definition validate_message_content :: "json \<Rightarrow> validation_result" where
  "validate_message_content v =
     (case v of
        JObj d \<Rightarrow>
          (case dget d ''action'' of
             None \<Rightarrow> new_result
           | Some a \<Rightarrow> if json_truthy a then new_result else add_warning ''Empty action field'' new_result)
      | _ \<Rightarrow> add_error ''Content must be a dictionary'' new_result)"

text \<open>\<open>verify\<close> stands for \<open>verify_payload\<close>, the HMAC of the payload.\<close>

definition validate_payload_integrity :: "(json \<Rightarrow> json \<Rightarrow> bool) \<Rightarrow> agent_message \<Rightarrow> validation_result" where
  "validate_payload_integrity verify m =
     (if am_payload_hmac m = JNull
      then add_warning ''Message has no payload_hmac - integrity not verified (AA05)'' new_result
      else if \<not> verify (am_payload m) (am_payload_hmac m)
      then add_error ''Payload HMAC verification failed - possible message tampering (AA05)'' new_result
      else new_result)"

lemmas result_defs = new_result_def add_error_def add_warning_def merge_result_def

lemma add_error_invalid [simp]: "\<not> vr_is_valid (add_error e r)"
  by (simp add: add_error_def)

text \<open>Merging never turns an invalid result into a valid one, and loses no error of either side.\<close>

lemma merge_validity [simp]: "vr_is_valid (merge_result q r) \<longleftrightarrow> vr_is_valid q \<and> vr_is_valid r"
  by (simp add: merge_result_def)

lemma merge_all:
  "vr_is_valid (fold merge_result rs r) \<longleftrightarrow> vr_is_valid r \<and> list_all vr_is_valid rs"
  "vr_errors (fold merge_result rs r) = vr_errors r @ concat (map vr_errors rs)"
  by (induction rs arbitrary: r) (auto simp: merge_result_def)

text \<open>An error is what makes a result invalid: the validators keep the two together.\<close>

definition coherent_result :: "validation_result \<Rightarrow> bool" where
  "coherent_result r = (vr_is_valid r \<longleftrightarrow> vr_errors r = [])"

lemma coherent_results [simp]:
  "coherent_result new_result"
  "coherent_result (add_error e r)"
  "coherent_result (add_warning w r) = coherent_result r"
  by (simp_all add: coherent_result_def result_defs)

lemma coherent_merge: "coherent_result q \<Longrightarrow> coherent_result r \<Longrightarrow> coherent_result (merge_result q r)"
  by (auto simp: coherent_result_def merge_result_def)

lemma coherent_validators:
  "coherent_result (validate_constitutional_hash v)"
  "coherent_result (validate_message_content v)"
  "coherent_result (validate_payload_integrity verify m)"
  by (simp_all add: validate_constitutional_hash_def validate_message_content_def
      validate_payload_integrity_def split: json.split option.split)

lemma hash_accepted_iff:
  "vr_is_valid (validate_constitutional_hash v) \<longleftrightarrow> v = JStr CONSTITUTIONAL_HASH"
  by (auto simp: validate_constitutional_hash_def new_result_def split: json.split)

section \<open>Metrics\<close>

record pipeline_metrics =
  pm_session_resolution_time_ms :: rat
  pm_security_scan_time_ms :: rat
  pm_verification_time_ms :: rat
  pm_strategy_time_ms :: rat
  pm_total_time_ms :: rat
  pm_cache_hits :: nat
  pm_cache_misses :: nat
  pm_sessions_resolved :: nat
  pm_sessions_not_found :: nat
  pm_sessions_errors :: nat

definition new_metrics :: pipeline_metrics where
  "new_metrics = \<lparr>pm_session_resolution_time_ms = 0, pm_security_scan_time_ms = 0, pm_verification_time_ms = 0,
     pm_strategy_time_ms = 0, pm_total_time_ms = 0, pm_cache_hits = 0, pm_cache_misses = 0,
     pm_sessions_resolved = 0, pm_sessions_not_found = 0, pm_sessions_errors = 0\<rparr>"

definition record_session_resolved :: "rat \<Rightarrow> pipeline_metrics \<Rightarrow> pipeline_metrics" where
  "record_session_resolved d m =
     m\<lparr>pm_sessions_resolved := pm_sessions_resolved m + 1,
       pm_session_resolution_time_ms := pm_session_resolution_time_ms m + d\<rparr>"

definition record_session_not_found :: "pipeline_metrics \<Rightarrow> pipeline_metrics" where
  "record_session_not_found m = m\<lparr>pm_sessions_not_found := pm_sessions_not_found m + 1\<rparr>"

definition record_session_error :: "pipeline_metrics \<Rightarrow> pipeline_metrics" where
  "record_session_error m = m\<lparr>pm_sessions_errors := pm_sessions_errors m + 1\<rparr>"

definition record_cache_hit :: "pipeline_metrics \<Rightarrow> pipeline_metrics" where
  "record_cache_hit m = m\<lparr>pm_cache_hits := pm_cache_hits m + 1\<rparr>"

definition record_cache_miss :: "pipeline_metrics \<Rightarrow> pipeline_metrics" where
  "record_cache_miss m = m\<lparr>pm_cache_misses := pm_cache_misses m + 1\<rparr>"

definition record_security_scan :: "rat \<Rightarrow> pipeline_metrics \<Rightarrow> pipeline_metrics" where
  "record_security_scan d m = m\<lparr>pm_security_scan_time_ms := pm_security_scan_time_ms m + d\<rparr>"

definition record_verification :: "rat \<Rightarrow> pipeline_metrics \<Rightarrow> pipeline_metrics" where
  "record_verification d m = m\<lparr>pm_verification_time_ms := pm_verification_time_ms m + d\<rparr>"

definition record_strategy :: "rat \<Rightarrow> pipeline_metrics \<Rightarrow> pipeline_metrics" where
  "record_strategy d m = m\<lparr>pm_strategy_time_ms := pm_strategy_time_ms m + d\<rparr>"

definition finalize_metrics :: "rat \<Rightarrow> rat \<Rightarrow> pipeline_metrics \<Rightarrow> pipeline_metrics" where
  "finalize_metrics now start m = m\<lparr>pm_total_time_ms := (now - start) * 1000\<rparr>"

definition rate :: "nat \<Rightarrow> nat \<Rightarrow> rat" where
  "rate part whole = (if 0 < whole then py_round 4 (of_nat part / of_nat whole) else 0)"

definition metrics_to_dict :: "pipeline_metrics \<Rightarrow> json_dict" where
  "metrics_to_dict m =
     (let sessions = pm_sessions_resolved m + pm_sessions_not_found m + pm_sessions_errors m;
          cache = pm_cache_hits m + pm_cache_misses m
      in [(''timing_ms'', JObj
             [(''session_resolution'', JNum (py_round 2 (pm_session_resolution_time_ms m))),
              (''security_scan'', JNum (py_round 2 (pm_security_scan_time_ms m))),
              (''verification'', JNum (py_round 2 (pm_verification_time_ms m))),
              (''strategy'', JNum (py_round 2 (pm_strategy_time_ms m))),
              (''total'', JNum (py_round 2 (pm_total_time_ms m)))]),
          (''counters'', JObj
             [(''sessions_resolved'', JInt (int (pm_sessions_resolved m))),
              (''sessions_not_found'', JInt (int (pm_sessions_not_found m))),
              (''sessions_errors'', JInt (int (pm_sessions_errors m))),
              (''cache_hits'', JInt (int (pm_cache_hits m))),
              (''cache_misses'', JInt (int (pm_cache_misses m)))]),
          (''rates'', JObj
             [(''cache_hit_rate'', JNum (rate (pm_cache_hits m) cache)),
              (''session_resolution_rate'', JNum (rate (pm_sessions_resolved m) sessions))])])"

section \<open>The context\<close>

datatype impact_level = IMPACT_NEGLIGIBLE | IMPACT_LOW | IMPACT_MEDIUM | IMPACT_HIGH | IMPACT_CRITICAL

record pipeline_context =
  pc_message :: agent_message
  pc_session :: "json_dict option"
  pc_session_id :: "string option"
  pc_cache_key :: "string option"
  pc_cache_hit :: bool
  pc_security_passed :: bool
  pc_security_result :: "json_dict option"
  pc_verification_results :: "(string, validation_result) dict"
  pc_strategy_result :: "validation_result option"
  pc_early_result :: "validation_result option"
  pc_tenant_id :: "string option"
  pc_tenant_validated :: bool
  pc_tenant_errors :: "string list"
  pc_constitutional_hash :: string
  pc_message_constitutional_hash :: "string option"
  pc_constitutional_validated :: bool
  pc_maci_role :: "string option"
  pc_maci_action :: "string option"
  pc_maci_enforced :: bool
  pc_maci_result :: "json_dict option"
  pc_governance_decision :: "impact_level option"
  pc_governance_allowed :: bool
  pc_governance_reasoning :: "string option"
  pc_impact_score :: rat
  pc_start_time :: rat
  pc_middleware_path :: "string list"
  pc_metrics :: pipeline_metrics
  pc_ifc_label :: ifc_label
  pc_ifc_violations :: "ifc_violation list"
  pc_action_history :: "json list"
  pc_prov_lineage :: prov_lineage
  pc_orchestration_result :: "json_dict option"
  pc_orchestrator_used :: bool

text \<open>The constructor with \<open>__post_init__\<close>: the label of the message, when it has one. \<open>start\<close> is the clock.\<close>

definition new_context :: "rat \<Rightarrow> agent_message \<Rightarrow> pipeline_context" where
  "new_context start m =
     \<lparr>pc_message = m, pc_session = None, pc_session_id = None, pc_cache_key = None, pc_cache_hit = False,
      pc_security_passed = False, pc_security_result = None, pc_verification_results = [],
      pc_strategy_result = None, pc_early_result = None, pc_tenant_id = None, pc_tenant_validated = False,
      pc_tenant_errors = [], pc_constitutional_hash = CONSTITUTIONAL_HASH,
      pc_message_constitutional_hash = None, pc_constitutional_validated = False, pc_maci_role = None,
      pc_maci_action = None, pc_maci_enforced = False, pc_maci_result = None, pc_governance_decision = None,
      pc_governance_allowed = True, pc_governance_reasoning = None, pc_impact_score = 0, pc_start_time = start,
      pc_middleware_path = [], pc_metrics = new_metrics,
      pc_ifc_label = (case am_ifc_label m of None \<Rightarrow> IFCLabel PUBLIC MEDIUM | Some l \<Rightarrow> l),
      pc_ifc_violations = [], pc_action_history = [], pc_prov_lineage = [], pc_orchestration_result = None,
      pc_orchestrator_used = False\<rparr>"

definition record_ifc_violation :: "ifc_violation \<Rightarrow> pipeline_context \<Rightarrow> pipeline_context" where
  "record_ifc_violation v c = c\<lparr>pc_ifc_violations := pc_ifc_violations c @ [v]\<rparr>"

definition record_prov_label :: "prov_label \<Rightarrow> pipeline_context \<Rightarrow> pipeline_context" where
  "record_prov_label l c = c\<lparr>pc_prov_lineage := lineage_append l (pc_prov_lineage c)\<rparr>"

definition add_middleware :: "string \<Rightarrow> pipeline_context \<Rightarrow> pipeline_context" where
  "add_middleware n c = c\<lparr>pc_middleware_path := pc_middleware_path c @ [n]\<rparr>"

definition set_early_result :: "validation_result \<Rightarrow> pipeline_context \<Rightarrow> pipeline_context" where
  "set_early_result r c = c\<lparr>pc_early_result := Some r\<rparr>"

definition finalize_context :: "rat \<Rightarrow> pipeline_context \<Rightarrow> pipeline_context" where
  "finalize_context now c = c\<lparr>pc_metrics := finalize_metrics now (pc_start_time c) (pc_metrics c)\<rparr>"

definition verification_summary :: "(string, validation_result) dict \<Rightarrow> json_dict" where
  "verification_summary rs =
     map (\<lambda>(n, r). (n, JObj [(''is_valid'', JBool (vr_is_valid r)), (''errors'', JList (map JStr (vr_errors r)))])) rs"

definition result_metadata :: "pipeline_context \<Rightarrow> json_dict" where
  "result_metadata c =
     [(''pipeline_version'', JStr ''2.0.0''),
      (''middleware_path'', JList (map JStr (pc_middleware_path c))),
      (''metrics'', JObj (metrics_to_dict (pc_metrics c))),
      (''cache_hit'', JBool (pc_cache_hit c)),
      (''session_resolved'', JBool (pc_session c \<noteq> None)),
      (''security_scan'', JStr (if pc_security_passed c then ''PASSED'' else ''BLOCKED'')),
      (''verification'', JObj (verification_summary (pc_verification_results c))),
      (''ifc_label'', JObj (label_to_dict (pc_ifc_label c))),
      (''ifc_violations_count'', JInt (int (length (pc_ifc_violations c)))),
      (''action_history'', JList (pc_action_history c)),
      (''prov_lineage'', JList (map JObj (lineage_to_dict (pc_prov_lineage c)))),
      (''prov_lineage_length'', JInt (int (length (pc_prov_lineage c)))),
      (''orchestration_result'', dict_or_null (pc_orchestration_result c)),
      (''orchestrator_used'', JBool (pc_orchestrator_used c))]"

definition to_validation_result :: "pipeline_context \<Rightarrow> validation_result" where
  "to_validation_result c =
     (case pc_strategy_result c of
        Some r \<Rightarrow> r\<lparr>vr_metadata := fold (\<lambda>(k, v) d. dset k v d) (result_metadata c) (vr_metadata r)\<rparr>
      | None \<Rightarrow>
          new_result\<lparr>vr_is_valid := False, vr_errors := [''No strategy result produced''],
            vr_metadata :=
              [(''pipeline_version'', JStr ''2.0.0''),
               (''middleware_path'', JList (map JStr (pc_middleware_path c))),
               (''metrics'', JObj (metrics_to_dict (pc_metrics c)))]\<rparr>)"

lemma to_validation_result_valid:
  "vr_is_valid (to_validation_result c) \<longleftrightarrow> (\<exists>r. pc_strategy_result c = Some r \<and> vr_is_valid r)"
  by (simp add: to_validation_result_def split: option.split)

text \<open>The fields of the decision are those of the strategy: the context adds metadata only.\<close>

lemma to_validation_result_decision:
  "pc_strategy_result c = Some r \<Longrightarrow>
   vr_is_valid (to_validation_result c) = vr_is_valid r \<and> vr_errors (to_validation_result c) = vr_errors r \<and>
   vr_decision (to_validation_result c) = vr_decision r"
  by (simp add: to_validation_result_def)

section \<open>Exceptions and steps\<close>

text \<open>
  The class of an exception that crosses the pipeline, as far as its handlers tell classes apart, and its
  message. \<open>asyncio.TimeoutError\<close> is the built-in \<open>TimeoutError\<close>; that one and \<open>ConnectionError\<close> are subclasses
  of \<open>OSError\<close>.
\<close>

datatype exn_class =
  RuntimeErr | ValueErr | TypeErr | KeyErr | AttributeErr | TimeoutErr | ConnectionErr | OSErr
| SecurityErr | OtherErr string

type_synonym pipeline_exn = "exn_class \<times> string"

text \<open>
  A step of the pipeline reads the clocks: the first component of the state counts the readings. It
  raises or returns the context.
\<close>

type_synonym pstate = "nat \<times> pipeline_context"

type_synonym presult = "pipeline_exn + pstate"

text \<open>\<open>x in s\<close> for a set of strings.\<close>

definition tool_in :: "json \<Rightarrow> string set \<Rightarrow> bool" where
  "tool_in v T = (case v of JStr s \<Rightarrow> s \<in> T | _ \<Rightarrow> False)"

definition unhashable_error :: pipeline_exn where
  "unhashable_error = (TypeErr, ''unhashable type'')"

lemma tool_in_JStr [simp]: "tool_in (JStr s) T \<longleftrightarrow> s \<in> T"
  by (simp add: tool_in_def)

lemma tool_in_mono: "tool_in v S \<Longrightarrow> S \<subseteq> T \<Longrightarrow> tool_in v T"
  by (auto simp: tool_in_def split: json.splits)

lemma tool_in_diff [simp]: "tool_in v (S - T) \<longleftrightarrow> tool_in v S \<and> \<not> tool_in v T"
  by (auto simp: tool_in_def split: json.splits)

lemma tool_in_Int [simp]: "tool_in v (S \<inter> T) \<longleftrightarrow> tool_in v S \<and> tool_in v T"
  by (auto simp: tool_in_def split: json.splits)

lemma tool_in_Un [simp]: "tool_in v (S \<union> T) \<longleftrightarrow> tool_in v S \<or> tool_in v T"
  by (auto simp: tool_in_def split: json.splits)

end
