(* ===== verification/Tool_Privilege.thy ===== *)
theory Tool_Privilege
  imports Pipeline_Context MACI_Models
begin

text \<open>
  \<^verbatim>\<open>src/middlewares/tool_privilege.py\<close> and \<^verbatim>\<open>src/middlewares/tool_privilege_policy.py\<close>: which role may call which
  tool. A frozenset of tool names is a set of strings; a policy names its guards, and a guard is a function
  of the context. \<open>repr\<close> (the text of a value in a message) is an argument; where a message of the code has
  a long dash, the text here has a hyphen.
\<close>

section \<open>Policies\<close>

definition CONSTITUTIONAL_MUTATION_TOOLS :: "string set" where
  "CONSTITUTIONAL_MUTATION_TOOLS =
     {''modify_constitutional_hash'', ''rotate_constitutional_hash'', ''update_constitutional_hash'',
      ''set_constitutional_hash'', ''override_constitutional_hash''}"

record tool_call_policy =
  tp_role :: maci_role
  tp_allowed_tools :: "string set"
  tp_denied_tools :: "string set"
  tp_guards :: "(string \<times> (pipeline_context \<Rightarrow> bool)) list"
  tp_deny_fallback :: string

definition requires_constitutional_validation :: "string \<times> (pipeline_context \<Rightarrow> bool)" where
  "requires_constitutional_validation = (''_requires_constitutional_validation'', pc_constitutional_validated)"

definition executive_policy :: tool_call_policy where
  "executive_policy = \<lparr>tp_role = EXECUTIVE,
     tp_allowed_tools = {''propose_message'', ''synthesize_response'', ''read_policy'', ''read_context'',
        ''read_audit'', ''query_knowledge''},
     tp_denied_tools = CONSTITUTIONAL_MUTATION_TOOLS \<union> {''execute_action'', ''validate_message'', ''write_audit''},
     tp_guards = [requires_constitutional_validation],
     tp_deny_fallback = ''reject_with_reason''\<rparr>"

definition legislative_policy :: tool_call_policy where
  "legislative_policy = \<lparr>tp_role = LEGISLATIVE,
     tp_allowed_tools = {''extract_rules'', ''synthesize_policy'', ''read_policy'', ''read_context'',
        ''read_audit'', ''query_knowledge''},
     tp_denied_tools = CONSTITUTIONAL_MUTATION_TOOLS \<union> {''execute_action'', ''validate_message'', ''write_audit''},
     tp_guards = [requires_constitutional_validation],
     tp_deny_fallback = ''reject_with_reason''\<rparr>"

definition judicial_policy :: tool_call_policy where
  "judicial_policy = \<lparr>tp_role = JUDICIAL,
     tp_allowed_tools = {''validate_message'', ''audit_decision'', ''query_knowledge'', ''read_policy'',
        ''read_context'', ''read_audit'', ''emergency_cooldown''},
     tp_denied_tools = CONSTITUTIONAL_MUTATION_TOOLS \<union>
        {''propose_message'', ''execute_action'', ''apply_policy_change''},
     tp_guards = [requires_constitutional_validation],
     tp_deny_fallback = ''route_to_hitl''\<rparr>"

definition monitor_policy :: tool_call_policy where
  "monitor_policy = \<lparr>tp_role = MONITOR,
     tp_allowed_tools = {''monitor_activity'', ''query_knowledge'', ''read_context'', ''read_audit''},
     tp_denied_tools = CONSTITUTIONAL_MUTATION_TOOLS \<union>
        {''execute_action'', ''write_audit'', ''modify_policy'', ''validate_message''},
     tp_guards = [],
     tp_deny_fallback = ''block''\<rparr>"

definition auditor_policy :: tool_call_policy where
  "auditor_policy = \<lparr>tp_role = AUDITOR,
     tp_allowed_tools = {''audit_decision'', ''read_audit'', ''query_knowledge'', ''read_policy'', ''read_context''},
     tp_denied_tools = CONSTITUTIONAL_MUTATION_TOOLS \<union> {''execute_action'', ''modify_policy'', ''propose_message''},
     tp_guards = [requires_constitutional_validation],
     tp_deny_fallback = ''block''\<rparr>"

definition controller_policy :: tool_call_policy where
  "controller_policy = \<lparr>tp_role = CONTROLLER,
     tp_allowed_tools = {''enforce_control'', ''query_knowledge'', ''read_policy'', ''read_context''},
     tp_denied_tools = CONSTITUTIONAL_MUTATION_TOOLS \<union> {''execute_action'', ''write_audit'', ''propose_message''},
     tp_guards = [requires_constitutional_validation],
     tp_deny_fallback = ''route_to_hitl''\<rparr>"

definition implementer_policy :: tool_call_policy where
  "implementer_policy = \<lparr>tp_role = IMPLEMENTER,
     tp_allowed_tools = {''synthesize_response'', ''query_knowledge'', ''read_context'', ''read_policy''},
     tp_denied_tools = CONSTITUTIONAL_MUTATION_TOOLS \<union>
        {''execute_action'', ''validate_message'', ''write_audit'', ''modify_policy''},
     tp_guards = [requires_constitutional_validation],
     tp_deny_fallback = ''block''\<rparr>"

definition MACI_TOOL_POLICIES :: "(maci_role, tool_call_policy) dict" where
  "MACI_TOOL_POLICIES =
     [(EXECUTIVE, executive_policy), (LEGISLATIVE, legislative_policy), (JUDICIAL, judicial_policy),
      (MONITOR, monitor_policy), (AUDITOR, auditor_policy), (CONTROLLER, controller_policy),
      (IMPLEMENTER, implementer_policy)]"

lemmas role_policy_defs =
  executive_policy_def legislative_policy_def judicial_policy_def monitor_policy_def auditor_policy_def
  controller_policy_def implementer_policy_def

section \<open>Allowlists of MCP tools\<close>

definition MCP_TOOL_CATALOG :: "string set" where
  "MCP_TOOL_CATALOG =
     {''neural_load_domains'', ''neural_train'', ''neural_status'', ''neural_patterns'', ''neural_dependencies'',
      ''neural_optimize'', ''hitl_request_approval'', ''hitl_check_status'', ''exa_governance_search'',
      ''exa_competitor_monitor'', ''exa_constitutional_papers'', ''validate_constitutional_compliance'',
      ''get_active_principles'', ''query_governance_precedents'', ''submit_governance_request'',
      ''get_governance_metrics''}"

definition DEFAULT_MCP_ALLOWLISTS :: "(maci_role, string set) dict" where
  "DEFAULT_MCP_ALLOWLISTS =
     [(EXECUTIVE,
         {''neural_load_domains'', ''neural_status'', ''neural_patterns'', ''neural_dependencies'',
          ''hitl_request_approval'', ''hitl_check_status'', ''get_active_principles'',
          ''query_governance_precedents'', ''get_governance_metrics''}),
      (LEGISLATIVE,
         {''neural_status'', ''neural_patterns'', ''neural_dependencies'', ''get_active_principles'',
          ''query_governance_precedents'', ''get_governance_metrics'', ''exa_governance_search'',
          ''exa_constitutional_papers''}),
      (JUDICIAL,
         {''neural_status'', ''neural_patterns'', ''validate_constitutional_compliance'',
          ''get_active_principles'', ''query_governance_precedents'', ''hitl_check_status'',
          ''get_governance_metrics''}),
      (MONITOR,
         {''neural_status'', ''neural_patterns'', ''hitl_check_status'', ''get_governance_metrics''}),
      (AUDITOR,
         {''neural_status'', ''neural_patterns'', ''neural_dependencies'',
          ''validate_constitutional_compliance'', ''get_active_principles'', ''query_governance_precedents'',
          ''get_governance_metrics'', ''exa_governance_search'', ''exa_constitutional_papers''}),
      (CONTROLLER,
         {''neural_status'', ''neural_patterns'', ''validate_constitutional_compliance'',
          ''get_active_principles'', ''get_governance_metrics''}),
      (IMPLEMENTER,
         {''neural_load_domains'', ''neural_train'', ''neural_status'', ''neural_patterns'',
          ''neural_dependencies'', ''neural_optimize'', ''submit_governance_request'',
          ''get_governance_metrics''})]"

text \<open>\<open>ToolAllowlistPolicy\<close> is its only field: the names allowed for each value of a role.\<close>

type_synonym tool_allowlist_policy = "(string, string list) dict"

definition get_allowlist :: "tool_allowlist_policy \<Rightarrow> maci_role \<Rightarrow> string set" where
  "get_allowlist p r = set (dget_default p (role_value r) [])"

definition resolve_effective_allowlist ::
  "maci_role \<Rightarrow> tool_allowlist_policy option \<Rightarrow> (string, string list) dict option \<Rightarrow> string set" where
  "resolve_effective_allowlist r system_policy tenant_overrides =
     (let system_tools = (case system_policy of
             Some p \<Rightarrow> get_allowlist p r
           | None \<Rightarrow> dget_default DEFAULT_MCP_ALLOWLISTS r {});
          effective = (case tenant_overrides of
             None \<Rightarrow> system_tools
           | Some ov \<Rightarrow> (case dget ov (role_value r) of
                None \<Rightarrow> system_tools
              | Some ts \<Rightarrow> system_tools \<inter> set ts))
      in effective - CONSTITUTIONAL_MUTATION_TOOLS)"

section \<open>The enforcer\<close>

record privilege_decision =
  pd_permitted :: bool
  pd_reason :: string
  pd_fallback :: string

definition deny :: "string \<Rightarrow> string \<Rightarrow> privilege_decision" where
  "deny reason fallback = \<lparr>pd_permitted = False, pd_reason = reason, pd_fallback = fallback\<rparr>"

definition permit :: "string \<Rightarrow> string \<Rightarrow> privilege_decision" where
  "permit reason fallback = \<lparr>pd_permitted = True, pd_reason = reason, pd_fallback = fallback\<rparr>"

text \<open>
  \<open>check\<close> for a tool that can be hashed, in the order of the code: the mutation tools, the policy of the
  role, its deny list, its guards (the first that fails), the MCP allowlist, the allowlist of the policy.
\<close>

definition check_tool ::
  "(json \<Rightarrow> string) \<Rightarrow> (maci_role, tool_call_policy) dict \<Rightarrow> json \<Rightarrow> maci_role \<Rightarrow> pipeline_context \<Rightarrow>
   string set option \<Rightarrow> privilege_decision" where
  "check_tool repr policies tool r c mcp =
     (if tool_in tool CONSTITUTIONAL_MUTATION_TOOLS
      then deny (''constitutional_immutability_violation: role='' @ role_value r @ '' attempted tool='' @ repr tool @
                 ''; constitutional hash '' @ CONSTITUTIONAL_HASH @ '' is immutable'') ''block_with_p1_alert''
      else case dget policies r of
        None \<Rightarrow> deny (''unknown_maci_role:<MACIRole.'' @ role_value r @ '': '' @ repr (JStr (role_value r)) @
                      ''> - no policy registered; defaulting to deny'') ''block''
      | Some p \<Rightarrow>
          if tool_in tool (tp_denied_tools p)
          then deny (''role_denied: role='' @ role_value r @ '' tool='' @ repr tool @ '' is in explicit deny list'')
                 (tp_deny_fallback p)
          else case find (\<lambda>(name, guard). \<not> guard c) (tp_guards p) of
            Some (name, guard) \<Rightarrow>
              deny (''guard_failed: role='' @ role_value r @ '' tool='' @ repr tool @ '' guard='' @
                    repr (JStr name) @ '' returned False'') (tp_deny_fallback p)
          | None \<Rightarrow>
              if mcp \<noteq> None \<and> \<not> tool_in tool (tp_allowed_tools p) \<and> tool_in tool (the mcp)
              then permit (''mcp_permitted: role='' @ role_value r @ '' tool='' @ repr tool) (tp_deny_fallback p)
              else if tool_in tool (tp_allowed_tools p)
              then permit (''permitted: role='' @ role_value r @ '' tool='' @ repr tool) (tp_deny_fallback p)
              else deny (''not_in_allowlist: role='' @ role_value r @ '' tool='' @ repr tool @
                         '' is not in the role's allowed_tools set'') (tp_deny_fallback p))"

definition privilege_check ::
  "(json \<Rightarrow> string) \<Rightarrow> (maci_role, tool_call_policy) dict \<Rightarrow> json \<Rightarrow> maci_role \<Rightarrow> pipeline_context \<Rightarrow>
   string set option \<Rightarrow> pipeline_exn + privilege_decision" where
  "privilege_check repr policies tool r c mcp =
     (if hashable tool then Inr (check_tool repr policies tool r c mcp) else Inl unhashable_error)"

section \<open>The middleware\<close>

definition block_result :: "string \<Rightarrow> validation_result" where
  "block_result e = add_error e (new_result\<lparr>vr_is_valid := False\<rparr>)"

definition denial_metadata :: "privilege_decision \<Rightarrow> json \<Rightarrow> string \<Rightarrow> json_dict" where
  "denial_metadata d tool role =
     [(''tool_privilege_fallback'', JStr (pd_fallback d)), (''tool_name'', tool), (''maci_role'', JStr role)] @
     (if pd_fallback d = ''block_with_p1_alert''
      then [(''alert_level'', JStr ''P1''), (''alert_reason'', JStr ''constitutional_immutability_violation'')]
      else []) @
     (if pd_fallback d = ''route_to_hitl'' then [(''route_to_hitl'', JBool True)] else [])"

text \<open>
  \<open>process\<close>. No field of the context is called \<open>tenant_tool_allowlist_overrides\<close>, so the \<open>getattr\<close> of it gives
  \<open>None\<close> and the allowlist is the default of the role.
\<close>

definition tool_privilege_process ::
  "(json \<Rightarrow> string) \<Rightarrow> (maci_role, tool_call_policy) dict \<Rightarrow> (pstate \<Rightarrow> presult) \<Rightarrow> pstate \<Rightarrow> presult" where
  "tool_privilege_process repr policies call_next s =
     (let n = fst s; c = add_middleware ''ToolPrivilegeMiddleware'' (snd s); tool = am_requested_tool (pc_message c)
      in if \<not> json_truthy tool then call_next (n, c)
         else case pc_maci_role c of
           None \<Rightarrow> Inr (n, set_early_result
             (block_result ''tool_privilege: maci_role unresolved - fail-closed block'') c)
         | Some role_str \<Rightarrow>
             if role_str = []
             then Inr (n, set_early_result
               (block_result ''tool_privilege: maci_role unresolved - fail-closed block'') c)
             else case parse_role role_str of
               None \<Rightarrow> Inr (n, set_early_result
                 (block_result (''tool_privilege: unrecognised role '' @ repr (JStr role_str))) c)
             | Some r \<Rightarrow>
                 (case privilege_check repr policies tool r c (Some (resolve_effective_allowlist r None None)) of
                    Inl e \<Rightarrow> Inl e
                  | Inr d \<Rightarrow>
                      if \<not> pd_permitted d
                      then Inr (n, set_early_result
                        ((block_result (pd_reason d))\<lparr>vr_metadata := denial_metadata d tool role_str\<rparr>) c)
                      else call_next (n, c)))"

section \<open>What the check decides\<close>

lemmas decision_defs = deny_def permit_def

lemma guards_find_None: "find (\<lambda>(name, guard). \<not> guard c) gs = None \<longleftrightarrow> list_all (\<lambda>(name, guard). guard c) gs"
  by (induction gs) auto

lemma check_tool_permits:
  "pd_permitted (check_tool repr policies tool r c mcp) \<longleftrightarrow>
   \<not> tool_in tool CONSTITUTIONAL_MUTATION_TOOLS \<and>
   (case dget policies r of
      None \<Rightarrow> False
    | Some p \<Rightarrow> \<not> tool_in tool (tp_denied_tools p) \<and> list_all (\<lambda>(name, guard). guard c) (tp_guards p) \<and>
        (tool_in tool (tp_allowed_tools p) \<or> (case mcp of None \<Rightarrow> False | Some m \<Rightarrow> tool_in tool m)))"
  unfolding guards_find_None [symmetric]
  by (auto simp: check_tool_def decision_defs split: option.splits)

text \<open>The effective allowlist only ever shrinks: an override cannot add a tool, and no mutation tool survives
  whatever the configuration says.\<close>

lemma effective_allowlist_subset:
  "resolve_effective_allowlist r sp (Some ov) \<subseteq> resolve_effective_allowlist r sp None"
  by (auto simp: resolve_effective_allowlist_def Let_def split: option.splits)

lemma effective_allowlist_no_mutation:
  "resolve_effective_allowlist r sp ov \<inter> CONSTITUTIONAL_MUTATION_TOOLS = {}"
  by (auto simp: resolve_effective_allowlist_def Let_def)

lemma effective_override:
  "dget ov (role_value r) = Some ts \<Longrightarrow>
   resolve_effective_allowlist r sp (Some ov) = resolve_effective_allowlist r sp None \<inter> set ts"
  by (auto simp: resolve_effective_allowlist_def Let_def)

lemma block_result_invalid [simp]: "\<not> vr_is_valid (block_result e)"
  by (simp add: block_result_def)

end
