(* ===== verification/Security_Scan.thy ===== *)
theory Security_Scan
  imports Prelude
begin

text \<open>
  The scanners of \<^verbatim>\<open>src/middlewares/security.py\<close>: the search for the injection patterns and the two heuristics of
  the guardrails client. A scanned text is the list of its code points. The patterns use literals,
  groups of alternatives and \<open>.*\<close>, and are compiled with \<open>re.IGNORECASE\<close>: two characters match when
  they fold to the same one, where Python folds, beside A to Z, the Kelvin sign, the long s and the two
  Turkish letters i to the letters of the patterns.
\<close>

section \<open>Patterns\<close>

datatype rx_item = Lit "nat list" | Alternatives "nat list list" | AnyStar

type_synonym regex = "rx_item list"

definition codes :: "string \<Rightarrow> nat list" where
  "codes s = map of_char s"

definition fold_case :: "nat \<Rightarrow> nat" where
  "fold_case n =
     (if 65 \<le> n \<and> n \<le> 90 then n + 32
      else if n = 0x212A then 107
      else if n = 0x17F then 115
      else if n = 0x130 \<or> n = 0x131 then 105
      else n)"

definition PROMPT_INJECTION_PATTERNS :: "regex list" where
  "PROMPT_INJECTION_PATTERNS =
     [[Lit (codes ''ignore ''), Alternatives [codes ''all '', []], Lit (codes ''previous instructions'')],
      [Lit (codes ''system prompt ''), Alternatives [codes ''leak'', codes ''override'', codes ''manipulation'']],
      [Lit (codes ''do anything now'')],
      [Lit (codes ''jailbreak'')],
      [Lit (codes ''persona ''), Alternatives [codes ''adoption'', codes ''override'']],
      [Lit (codes ''(note to self: ''), AnyStar, Lit (codes '')'')],
      [Lit (codes ''[INST]''), AnyStar, Lit (codes ''[/INST]'')],
      [Lit (codes ''<s>''), AnyStar, Lit (codes ''ignore''), AnyStar, Lit (codes ''</s>'')],
      [Lit (codes ''<<SYS>>''), AnyStar, Lit (codes ''<<SYS>>'')]]"

section \<open>Matching\<close>

fun match_literal :: "nat list \<Rightarrow> nat list \<Rightarrow> nat list option" where
  "match_literal [] s = Some s"
| "match_literal (p # ps) [] = None"
| "match_literal (p # ps) (c # cs) = (if fold_case c = fold_case p then match_literal ps cs else None)"

fun skip_any :: "(nat list \<Rightarrow> bool) \<Rightarrow> nat list \<Rightarrow> bool" where
  "skip_any k [] = k []"
| "skip_any k (c # cs) = (k (c # cs) \<or> (c \<noteq> 10 \<and> skip_any k cs))"

definition after_literal :: "nat list \<Rightarrow> (nat list \<Rightarrow> bool) \<Rightarrow> nat list \<Rightarrow> bool" where
  "after_literal l k s = (case match_literal l s of None \<Rightarrow> False | Some t \<Rightarrow> k t)"

fun match_here :: "regex \<Rightarrow> nat list \<Rightarrow> bool" where
  "match_here [] s = True"
| "match_here (Lit l # r) s = after_literal l (match_here r) s"
| "match_here (Alternatives ls # r) s = list_ex (\<lambda>l. after_literal l (match_here r) s) ls"
| "match_here (AnyStar # r) s = skip_any (match_here r) s"

fun search_regex :: "regex \<Rightarrow> nat list \<Rightarrow> bool" where
  "search_regex r [] = match_here r []"
| "search_regex r (c # cs) = (match_here r (c # cs) \<or> search_regex r cs)"

definition regex_scan :: "nat list \<Rightarrow> bool" where
  "regex_scan content = list_ex (\<lambda>r. search_regex r content) PROMPT_INJECTION_PATTERNS"

section \<open>The guardrails client\<close>

record guardrails_config =
  ag_model :: string
  ag_threshold :: rat
  ag_max_tokens :: int
  ag_timeout_ms :: int
  ag_fallback_to_regex :: bool

definition default_guardrails :: guardrails_config where
  "default_guardrails = \<lparr>ag_model = ''acgs-prompt-guard-v1'', ag_threshold = 85 / 100, ag_max_tokens = 512,
     ag_timeout_ms = 50, ag_fallback_to_regex = True\<rparr>"

record guardrails_result =
  gs_is_injection :: bool
  gs_score :: rat
  gs_detection_method :: "string option"

definition is_base64_char :: "nat \<Rightarrow> bool" where
  "is_base64_char n = ((65 \<le> n \<and> n \<le> 90) \<or> (97 \<le> n \<and> n \<le> 122) \<or> (48 \<le> n \<and> n \<le> 57) \<or> n \<in> {43, 47, 61})"

definition looks_like_base64 :: "nat list \<Rightarrow> bool" where
  "looks_like_base64 content =
     (if length content < 8 then False
      else list_all is_base64_char (filter (\<lambda>c. c \<noteq> 32) content) \<and>
           ((61 \<in> set content \<or> (8 \<le> length content \<and> length content mod 4 = 0)) \<and> 8 \<le> length content))"

definition has_unicode_homoglyphs :: "nat list \<Rightarrow> bool" where
  "has_unicode_homoglyphs content =
     list_ex (\<lambda>c. list_ex (\<lambda>(lo, hi). lo \<le> c \<and> c \<le> hi) [(0x400, 0x4FF), (0x370, 0x3FF)]) content"

definition classify_content :: "nat list \<Rightarrow> guardrails_result" where
  "classify_content content =
     (if looks_like_base64 content
      then \<lparr>gs_is_injection = True, gs_score = 92 / 100, gs_detection_method = Some ''base64_heuristic''\<rparr>
      else if has_unicode_homoglyphs content
      then \<lparr>gs_is_injection = True, gs_score = 88 / 100, gs_detection_method = Some ''unicode_homoglyph''\<rparr>
      else \<lparr>gs_is_injection = False, gs_score = 1 / 10, gs_detection_method = None\<rparr>)"

record security_threat =
  th_threat_type :: string
  th_confidence :: rat
  th_description :: string

text \<open>\<open>AIGuardrails.scan\<close> and \<open>RegexGuardrails.scan\<close> (their metadata repeat the score and the patterns).\<close>

definition ai_guardrails_scan :: "nat list \<Rightarrow> security_threat option" where
  "ai_guardrails_scan content =
     (let r = classify_content content
      in if gs_is_injection r
         then Some \<lparr>th_threat_type = ''prompt_injection'', th_confidence = gs_score r,
                    th_description = ''Detected via '' @ (case gs_detection_method r of None \<Rightarrow> ''None'' | Some m \<Rightarrow> m)\<rparr>
         else None)"

definition regex_guardrails_scan :: "nat list \<Rightarrow> security_threat option" where
  "regex_guardrails_scan content =
     (if regex_scan content
      then Some \<lparr>th_threat_type = ''prompt_injection'', th_confidence = 85 / 100,
                 th_description = ''Detected via regex pattern matching''\<rparr>
      else None)"

section \<open>What a search finds\<close>

text \<open>A match is an occurrence: the text read so far spells a word of the pattern, character by character.\<close>

inductive spells :: "regex \<Rightarrow> nat list \<Rightarrow> bool" where
  spells_nil: "spells [] []"
| spells_lit: "map fold_case w = map fold_case l \<Longrightarrow> spells r v \<Longrightarrow> spells (Lit l # r) (w @ v)"
| spells_alt: "l \<in> set ls \<Longrightarrow> map fold_case w = map fold_case l \<Longrightarrow> spells r v \<Longrightarrow> spells (Alternatives ls # r) (w @ v)"
| spells_any: "10 \<notin> set w \<Longrightarrow> spells r v \<Longrightarrow> spells (AnyStar # r) (w @ v)"

inductive_simps spells_simps:
  "spells [] s" "spells (Lit l # r) s" "spells (Alternatives ls # r) s" "spells (AnyStar # r) s"

lemma match_literal_iff:
  "match_literal l s = Some t \<longleftrightarrow> (\<exists>w. s = w @ t \<and> map fold_case w = map fold_case l)"
proof (induction l s rule: match_literal.induct)
  case (3 p ps c cs)
  show ?case
  proof
    assume "match_literal (p # ps) (c # cs) = Some t"
    with 3 show "\<exists>w. c # cs = w @ t \<and> map fold_case w = map fold_case (p # ps)"
      by (metis append_Cons list.map(2) match_literal.simps(3) option.distinct(1))
  next
    assume "\<exists>w. c # cs = w @ t \<and> map fold_case w = map fold_case (p # ps)"
    then obtain w where w: "c # cs = w @ t" "map fold_case w = map fold_case (p # ps)" by blast
    then obtain v where "w = c # v" by (cases w) auto
    with w 3 show "match_literal (p # ps) (c # cs) = Some t" by auto
  qed
qed auto

lemma after_literal_iff:
  "after_literal l k s \<longleftrightarrow> (\<exists>w t. s = w @ t \<and> map fold_case w = map fold_case l \<and> k t)"
proof -
  have "after_literal l k s \<longleftrightarrow> (\<exists>t. match_literal l s = Some t \<and> k t)"
    by (simp add: after_literal_def split: option.split)
  then show ?thesis unfolding match_literal_iff by blast
qed

lemma skip_any_iff: "skip_any k s \<longleftrightarrow> (\<exists>w t. s = w @ t \<and> 10 \<notin> set w \<and> k t)"
proof (induction s)
  case (Cons c cs)
  have "skip_any k (c # cs) \<longleftrightarrow> k (c # cs) \<or> (c \<noteq> 10 \<and> (\<exists>w t. cs = w @ t \<and> 10 \<notin> set w \<and> k t))"
    using Cons.IH by simp
  also have "\<dots> \<longleftrightarrow> (\<exists>w t. c # cs = w @ t \<and> 10 \<notin> set w \<and> k t)"
    (is "?L \<longleftrightarrow> ?R")
  proof
    assume ?L
    then show ?R
    proof
      assume "k (c # cs)"
      then show ?R by (intro exI [of _ "[]"] exI [of _ "c # cs"]) simp
    next
      assume "c \<noteq> 10 \<and> (\<exists>w t. cs = w @ t \<and> 10 \<notin> set w \<and> k t)"
      then obtain w t where "c \<noteq> 10" "cs = w @ t" "10 \<notin> set w" "k t" by blast
      then show ?R by (intro exI [of _ "c # w"] exI [of _ t]) simp
    qed
  next
    assume ?R
    then obtain w t where "c # cs = w @ t" "10 \<notin> set w" "k t" by blast
    then show ?L by (cases w) auto
  qed
  finally show ?case .
qed auto

lemma split_assoc:
  "(\<exists>w u. s = w @ u \<and> P w \<and> (\<exists>v t. u = v @ t \<and> Q v)) \<longleftrightarrow> (\<exists>x t. s = x @ t \<and> (\<exists>w v. x = w @ v \<and> P w \<and> Q v))"
    (is "?L \<longleftrightarrow> ?R")
proof
  assume ?L
  then obtain w v t where "s = (w @ v) @ t" "P w" "Q v" by auto
  then show ?R by blast
next
  assume ?R
  then obtain w v t where "s = w @ (v @ t)" "P w" "Q v" by auto
  then show ?L by blast
qed

lemma match_here_iff: "match_here r s \<longleftrightarrow> (\<exists>w t. s = w @ t \<and> spells r w)"
proof (induction r s rule: match_here.induct)
  case (1 s)
  show ?case by (simp add: spells_simps)
next
  case (2 l r s)
  then show ?case
    by (simp only: match_here.simps after_literal_iff spells_simps split_assoc)
next
  case (3 ls r s)
  have "match_here (Alternatives ls # r) s \<longleftrightarrow>
        (\<exists>l\<in>set ls. \<exists>w u. s = w @ u \<and> map fold_case w = map fold_case l \<and> (\<exists>v t. u = v @ t \<and> spells r v))"
    using 3 by (simp add: after_literal_iff list_ex_iff)
  also have "\<dots> \<longleftrightarrow> (\<exists>w t. s = w @ t \<and> spells (Alternatives ls # r) w)"
    unfolding split_assoc spells_simps by blast
  finally show ?case .
next
  case (4 r s)
  then show ?case
    by (simp only: match_here.simps skip_any_iff spells_simps split_assoc)
qed

lemma search_regex_iff: "search_regex r s \<longleftrightarrow> (\<exists>a w b. s = a @ w @ b \<and> spells r w)"
proof (induction s)
  case Nil
  show ?case by (simp add: match_here_iff)
next
  case (Cons c cs)
  have "c # cs = a @ w @ b \<Longrightarrow> (c # cs = w @ b) \<or> (\<exists>a'. cs = a' @ w @ b)" for a w b
    by (cases a) auto
  then have "(\<exists>a w b. c # cs = a @ w @ b \<and> spells r w) \<longleftrightarrow>
        (\<exists>w b. c # cs = w @ b \<and> spells r w) \<or> (\<exists>a w b. cs = a @ w @ b \<and> spells r w)"
    by (metis append_Nil append_Cons)
  with Cons.IH show ?case by (simp add: match_here_iff)
qed

text \<open>The scan finds exactly the texts with an occurrence of a pattern, so no context around it hides it.\<close>

lemma regex_scan_iff:
  "regex_scan content \<longleftrightarrow> (\<exists>r a w b. r \<in> set PROMPT_INJECTION_PATTERNS \<and> content = a @ w @ b \<and> spells r w)"
  unfolding regex_scan_def list_ex_iff search_regex_iff by blast

lemma regex_scan_padding: "regex_scan s \<Longrightarrow> regex_scan (a @ s @ b)"
  unfolding regex_scan_iff by (metis append_assoc)

text \<open>The base64 heuristic wants every character but the blanks in the alphabet, and nothing else of a text
  whose length is a multiple of four: a plain greeting is taken for an encoded payload.\<close>

lemma greeting_is_base64: "looks_like_base64 (codes ''good day'')"
  by code_simp

lemma greeting_is_injection:
  "gs_is_injection (classify_content (codes ''good day'')) \<and> 85 / 100 < gs_score (classify_content (codes ''good day''))"
  by (simp add: classify_content_def greeting_is_base64)

text \<open>A dictionary is scanned as its Python text, which has braces, so the heuristic never fires on one.\<close>

lemma braces_never_base64: "123 \<in> set content \<Longrightarrow> \<not> looks_like_base64 content"
  by (auto simp: looks_like_base64_def list_all_iff is_base64_char_def)

end
