(* ===== verification/Pipeline.thy ===== *)
theory Pipeline
  imports Tool_Privilege Security_Scan
begin

text \<open>
  The message pipeline: \<^verbatim>\<open>src/pipeline/middleware.py\<close>, the middlewares of \<^verbatim>\<open>src/middlewares/\<close> (security, tool
  privilege, temporal policy, information flow, provenance, orchestration) and \<^verbatim>\<open>src/pipeline/router.py\<close>.

  A middleware does its work before and after it calls the next one, so it is a function of the rest of
  the chain (\<open>call_next\<close>) and of the state; a chain is the composition \<open>build_chain\<close> links. What the pipeline
  asks of others is an argument (\<open>pipeline_env\<close>): the clocks, Python's \<open>str\<close> and \<open>repr\<close> of a value, the policy
  agent, the orchestrator. \<open>CustomMiddleware\<close> stands for a subclass of \<open>BaseMiddleware\<close> that is not in the
  repository. Logging is left out, and so is the semaphore, which only delays.
\<close>

section \<open>Environment and middlewares\<close>

record pipeline_env =
  en_perf :: "nat \<Rightarrow> rat"
  en_time :: "nat \<Rightarrow> rat"
  en_iso :: "nat \<Rightarrow> string"
  en_str :: "json \<Rightarrow> nat list"
  en_repr :: "json \<Rightarrow> string"
  en_opa :: "json_dict \<Rightarrow> json list \<Rightarrow> string \<Rightarrow> pipeline_exn + json_dict"
  en_orchestrate :: "string \<Rightarrow> json_dict \<Rightarrow> pipeline_exn + json_dict"

record middleware_config =
  mc_enabled :: bool
  mc_timeout_ms :: int
  mc_fail_closed :: bool
  mc_metrics_enabled :: bool

definition default_mc :: middleware_config where
  "default_mc = \<lparr>mc_enabled = True, mc_timeout_ms = 1000, mc_fail_closed = True, mc_metrics_enabled = True\<rparr>"

record governance_rule =
  gr_rule_id :: string
  gr_action :: string
  gr_created_at :: rat
  gr_ttl_seconds :: "int option"
  gr_policy_path :: string

datatype middleware =
  SecurityMiddleware middleware_config "guardrails_config option"
| ToolPrivilegeMiddleware middleware_config "(maci_role, tool_call_policy) dict"
| TemporalPolicyMiddleware middleware_config "(string, governance_rule) dict"
| IFCMiddleware middleware_config ifc_label bool
| ProvMiddleware middleware_config
| OrchestratorMiddleware middleware_config
| CustomMiddleware middleware_config string "(pstate \<Rightarrow> presult) \<Rightarrow> pstate \<Rightarrow> presult"

fun mw_config :: "middleware \<Rightarrow> middleware_config" where
  "mw_config (SecurityMiddleware cfg _) = cfg"
| "mw_config (ToolPrivilegeMiddleware cfg _) = cfg"
| "mw_config (TemporalPolicyMiddleware cfg _) = cfg"
| "mw_config (IFCMiddleware cfg _ _) = cfg"
| "mw_config (ProvMiddleware cfg) = cfg"
| "mw_config (OrchestratorMiddleware cfg) = cfg"
| "mw_config (CustomMiddleware cfg _ _) = cfg"

fun mw_name :: "middleware \<Rightarrow> string" where
  "mw_name (SecurityMiddleware _ _) = ''SecurityMiddleware''"
| "mw_name (ToolPrivilegeMiddleware _ _) = ''ToolPrivilegeMiddleware''"
| "mw_name (TemporalPolicyMiddleware _ _) = ''TemporalPolicyMiddleware''"
| "mw_name (IFCMiddleware _ _ _) = ''IFCMiddleware''"
| "mw_name (ProvMiddleware _) = ''ProvMiddleware''"
| "mw_name (OrchestratorMiddleware _) = ''OrchestratorMiddleware''"
| "mw_name (CustomMiddleware _ n _) = n"

section \<open>Security\<close>

definition security_verdict :: "bool \<Rightarrow> json_dict \<Rightarrow> pipeline_context \<Rightarrow> pipeline_context" where
  "security_verdict passed r c = c\<lparr>pc_security_passed := passed, pc_security_result := Some r\<rparr>"

text \<open>
  The two tiers: \<open>Inl\<close> is the \<open>SecurityException\<close>. \<open>classify\<close> cannot fail (no call leaves the process), so
  the handler around it never runs.
\<close>

definition scan_content ::
  "middleware_config \<Rightarrow> guardrails_config option \<Rightarrow> nat list \<Rightarrow> pipeline_context \<Rightarrow> pipeline_exn + pipeline_context" where
  "scan_content cfg guardrails content c =
     (if regex_scan content
      then if mc_fail_closed cfg then Inl (SecurityErr, ''Prompt injection detected'')
           else Inr (security_verdict False
                       [(''blocked'', JBool True), (''detection_method'', JStr ''regex'')] c)
      else case guardrails of
        None \<Rightarrow> Inr (security_verdict True [(''blocked'', JBool False)] c)
      | Some g \<Rightarrow>
          (let r = classify_content content
           in if gs_is_injection r \<and> ag_threshold g < gs_score r
              then if mc_fail_closed cfg
                   then Inl (SecurityErr, ''Prompt injection detected by AI guardrails'')
                   else Inr (security_verdict False
                     [(''blocked'', JBool True),
                      (''detection_method'',
                        JStr (if truthy_str (gs_detection_method r) then the (gs_detection_method r)
                              else ''ai_guardrails'')),
                      (''score'', JNum (gs_score r))] c)
              else Inr (security_verdict True [(''blocked'', JBool False)] c)))"

definition security_process ::
  "pipeline_env \<Rightarrow> middleware_config \<Rightarrow> guardrails_config option \<Rightarrow> (pstate \<Rightarrow> presult) \<Rightarrow> pstate \<Rightarrow> presult" where
  "security_process env cfg guardrails call_next s =
     (let n = fst s; c = snd s
      in case scan_content cfg guardrails (en_str env (am_content (pc_message c))) c of
           Inl e \<Rightarrow> Inl e
         | Inr c1 \<Rightarrow>
             call_next (n + 2, c1\<lparr>pc_metrics :=
               record_security_scan ((en_perf env (n + 1) - en_perf env n) * 1000) (pc_metrics c1)\<rparr>))"

section \<open>Temporal policy\<close>

definition GOVERNED_ACTIONS :: "string set" where
  "GOVERNED_ACTIONS =
     {''modify_policy'', ''apply_policy_change'', ''update_policy'', ''execute_action'',
      ''commit_governance_decision'', ''approve_message'', ''reject_message'', ''deliver_message'',
      ''audit_decision'', ''write_audit'', ''extract_rules''}"

definition is_expired :: "rat \<Rightarrow> governance_rule \<Rightarrow> bool" where
  "is_expired now r =
     (case gr_ttl_seconds r of None \<Rightarrow> False | Some ttl \<Rightarrow> gr_created_at r + of_int ttl < now)"

definition register_governance_rule ::
  "governance_rule \<Rightarrow> (string, governance_rule) dict \<Rightarrow> (string, governance_rule) dict" where
  "register_governance_rule r rules = dset (gr_rule_id r) r rules"

text \<open>The age in the message is rounded to an integer. The result names the rule and its time to live.\<close>

definition enforce_rule :: "(json \<Rightarrow> string) \<Rightarrow> rat \<Rightarrow> governance_rule \<Rightarrow> validation_result" where
  "enforce_rule repr now r =
     (if is_expired now r
      then block_result (''temporal_ttl: rule '' @ repr (JStr (gr_rule_id r)) @ '' expired (ttl='' @
             repr (case gr_ttl_seconds r of None \<Rightarrow> JNull | Some t \<Rightarrow> JInt t) @ ''s, age='' @
             repr (JInt \<lfloor>py_round 0 (now - gr_created_at r)\<rfloor>) @ ''s); fail-closed'')
      else new_result)"

definition first_expired ::
  "rat \<Rightarrow> string \<Rightarrow> (string, governance_rule) dict \<Rightarrow> governance_rule option" where
  "first_expired now action rules = find (\<lambda>r. gr_action r = action \<and> is_expired now r) (dvalues rules)"

definition opa_caught :: "exn_class \<Rightarrow> bool" where
  "opa_caught e = (e \<in> {OSErr, ConnectionErr, TimeoutErr, RuntimeErr, ValueErr})"

definition format_value :: "(json \<Rightarrow> string) \<Rightarrow> json \<Rightarrow> string" where
  "format_value repr v = (case v of JStr s \<Rightarrow> s | _ \<Rightarrow> repr v)"

definition temporal_process ::
  "pipeline_env \<Rightarrow> (string, governance_rule) dict \<Rightarrow> (pstate \<Rightarrow> presult) \<Rightarrow> pstate \<Rightarrow> presult" where
  "temporal_process env rules call_next s =
     (let n = fst s; c = add_middleware ''TemporalPolicyMiddleware'' (snd s);
          action = am_requested_tool (pc_message c)
      in if \<not> json_truthy action then call_next (n, c)
         else if \<not> hashable action then Inl unhashable_error
         else case action of
           JStr a \<Rightarrow>
             if a \<notin> GOVERNED_ACTIONS then call_next (n, c)
             else (case first_expired (en_time env n) a rules of
               Some r \<Rightarrow> Inr (n + 1, set_early_result (enforce_rule (en_repr env) (en_time env n) r) c)
             | None \<Rightarrow>
                 (case en_opa env
                    [(''action'', action), (''impact_score'', JNum (pc_impact_score c)),
                     (''constitutional_hash'', JStr CONSTITUTIONAL_HASH)]
                    (pc_action_history c) ''data.acgs.temporal.allow'' of
                   Inl e \<Rightarrow>
                     if opa_caught (fst e)
                     then Inr (n + 1, set_early_result (block_result
                       (''temporal_policy: OPA unavailable for action='' @ en_repr env action @ ''; fail-closed block'')) c)
                     else Inl e
                 | Inr answer \<Rightarrow>
                     if \<not> json_truthy (dget_default answer ''allowed'' (JBool False))
                     then Inr (n + 1, set_early_result
                       ((block_result (''temporal:'' @ format_value (en_repr env)
                          (dget_default answer ''reason'' (JStr ''temporal ordering violation''))))
                        \<lparr>vr_metadata := [(''temporal_violations'', dget_default answer ''metadata'' (JObj []))]\<rparr>) c)
                     else call_next (n + 1, c\<lparr>pc_action_history := pc_action_history c @ [action]\<rparr>)))
         | _ \<Rightarrow> call_next (n, c))"

section \<open>Information flow\<close>

text \<open>
  The record of a violation is logged with \<open>context.trace_id\<close> before anything else happens to it. The context has
  no such attribute (nor an \<open>add_violation\<close>), so the access raises, whatever \<open>audit_only\<close> and \<open>fail_closed\<close> say.
\<close>

definition ifc_process ::
  "middleware_config \<Rightarrow> ifc_label \<Rightarrow> bool \<Rightarrow> (pstate \<Rightarrow> presult) \<Rightarrow> pstate \<Rightarrow> presult" where
  "ifc_process cfg clearance audit_only call_next s =
     (if \<not> can_flow_to (pc_ifc_label (snd s)) clearance
      then Inl (AttributeErr, ''PipelineContext object has no attribute trace_id'')
      else call_next s)"

section \<open>Provenance\<close>

definition MIDDLEWARE_STAGE_MAP :: "(string, string) dict" where
  "MIDDLEWARE_STAGE_MAP =
     [(''SecurityMiddleware'', ''security_scan''),
      (''ConstitutionalValidationMiddleware'', ''constitutional_validation''),
      (''MACIEnforcementMiddleware'', ''maci_enforcement''),
      (''ImpactScorerMiddleware'', ''impact_scoring''),
      (''HITLMiddleware'', ''hitl_review''),
      (''TemporalPolicyMiddleware'', ''temporal_policy''),
      (''ToolPrivilegeMiddleware'', ''tool_privilege''),
      (''StrategyMiddleware'', ''strategy''),
      (''IFCMiddleware'', ''ifc_check'')]"

definition remove_suffix :: "string \<Rightarrow> string \<Rightarrow> string" where
  "remove_suffix suffix s =
     (if suffix \<noteq> [] \<and> length suffix \<le> length s \<and> drop (length s - length suffix) s = suffix
      then take (length s - length suffix) s else s)"

definition is_upper :: "char \<Rightarrow> bool" where
  "is_upper c = (let n = (of_char c :: nat) in 65 \<le> n \<and> n \<le> 90)"

fun underscore_upper :: "string \<Rightarrow> string" where
  "underscore_upper [] = []"
| "underscore_upper (c # cs) = (if is_upper c then CHR ''_'' # c # underscore_upper cs else c # underscore_upper cs)"

text \<open>An underscore before every capital but one at the start, then lower case.\<close>

definition snake_case :: "string \<Rightarrow> string" where
  "snake_case s = (case s of [] \<Rightarrow> [] | c # cs \<Rightarrow> py_lower (c # underscore_upper cs))"

definition middleware_name_to_stage :: "string \<Rightarrow> string" where
  "middleware_name_to_stage name =
     (case dget MIDDLEWARE_STAGE_MAP name of
        Some s \<Rightarrow> s
      | None \<Rightarrow> (let snake = snake_case (remove_suffix ''Middleware'' name)
                 in if snake \<noteq> [] then snake else ''unknown_stage''))"

definition resolve_stage_name :: "pipeline_context \<Rightarrow> string" where
  "resolve_stage_name c =
     (let path = pc_middleware_path c
      in if length path < 2 then ''unknown_stage'' else middleware_name_to_stage (path ! (length path - 2)))"

definition prov_process :: "pipeline_env \<Rightarrow> (pstate \<Rightarrow> presult) \<Rightarrow> pstate \<Rightarrow> presult" where
  "prov_process env call_next s =
     (let n = fst s; c = add_middleware ''ProvMiddleware'' (snd s)
      in case call_next (n + 1, c) of
           Inl e \<Rightarrow> Inl e
         | Inr s1 \<Rightarrow>
             Inr (fst s1 + 1, record_prov_label
               (build_prov_label (en_iso env (fst s1)) (resolve_stage_name (snd s1)) (en_iso env n)
                  (Some (en_iso env (fst s1)))) (snd s1)))"

section \<open>Orchestration\<close>

definition should_orchestrate :: "pipeline_context \<Rightarrow> bool" where
  "should_orchestrate c =
     (if 8 / 10 \<le> pc_impact_score c then True
      else (case pc_governance_decision c of None \<Rightarrow> False | Some l \<Rightarrow> l \<in> {IMPACT_HIGH, IMPACT_CRITICAL}))"

text \<open>
  The text of \<open>content[:200]\<close>: a string or a list can be sliced; a dictionary, a number or \<open>None\<close> cannot.
  (Python 3.11 hashes no slice, so a dictionary raises \<open>TypeError\<close>; later versions look the slice up and raise
  \<open>KeyError\<close>.)
\<close>

definition slice_200 :: "(json \<Rightarrow> string) \<Rightarrow> json \<Rightarrow> pipeline_exn + string" where
  "slice_200 repr v =
     (case v of
        JStr s \<Rightarrow> Inr (take 200 s)
      | JList xs \<Rightarrow> Inr (repr (JList (take 200 xs)))
      | JObj d \<Rightarrow> Inl (TypeErr, ''unhashable type: slice'')
      | _ \<Rightarrow> Inl (TypeErr, ''object is not subscriptable''))"

definition orchestration_context :: "pipeline_context \<Rightarrow> json_dict" where
  "orchestration_context c =
     [(''impact_score'', JNum (pc_impact_score c)),
      (''middleware_path'', JList (map JStr (pc_middleware_path c))),
      (''governance_allowed'', JBool (pc_governance_allowed c)),
      (''steps'', JList [JStr ''assess_risk'', JStr ''apply_policy'', JStr ''produce_decision''])]"

definition orchestrator_process :: "pipeline_env \<Rightarrow> (pstate \<Rightarrow> presult) \<Rightarrow> pstate \<Rightarrow> presult" where
  "orchestrator_process env call_next s =
     (let n = fst s; c = add_middleware ''OrchestratorMiddleware'' (snd s)
      in if \<not> should_orchestrate c then call_next (n, c)
         else case call_next (n, c) of
           Inl e \<Rightarrow> Inl e
         | Inr (n1, c1) \<Rightarrow>
             (case slice_200 (en_repr env) (am_content (pc_message c1)) of
                Inl e \<Rightarrow> Inl e
              | Inr t \<Rightarrow>
                  (case en_orchestrate env (''Deliberate governance decision for message: '' @ t)
                          (orchestration_context c1) of
                     Inl e \<Rightarrow> if opa_caught (fst e) then Inr (n1, c1) else Inl e
                   | Inr r \<Rightarrow> Inr (n1, c1\<lparr>pc_orchestration_result := Some r, pc_orchestrator_used := True\<rparr>))))"

section \<open>The chain\<close>

fun run_middleware :: "pipeline_env \<Rightarrow> middleware \<Rightarrow> (pstate \<Rightarrow> presult) \<Rightarrow> pstate \<Rightarrow> presult" where
  "run_middleware env (SecurityMiddleware cfg g) k s = security_process env cfg g k s"
| "run_middleware env (ToolPrivilegeMiddleware cfg ps) k s = tool_privilege_process (en_repr env) ps k s"
| "run_middleware env (TemporalPolicyMiddleware cfg rules) k s = temporal_process env rules k s"
| "run_middleware env (IFCMiddleware cfg clearance audit) k s = ifc_process cfg clearance audit k s"
| "run_middleware env (ProvMiddleware cfg) k s = prov_process env k s"
| "run_middleware env (OrchestratorMiddleware cfg) k s = orchestrator_process env k s"
| "run_middleware env (CustomMiddleware cfg name f) k s = f k s"

text \<open>\<open>_call_next\<close>: the next middleware runs when there is one and it is enabled.\<close>

definition next_enabled :: "middleware list \<Rightarrow> bool" where
  "next_enabled ms = (case ms of [] \<Rightarrow> False | m # _ \<Rightarrow> mc_enabled (mw_config m))"

fun run_chain :: "pipeline_env \<Rightarrow> middleware list \<Rightarrow> pstate \<Rightarrow> presult" where
  "run_chain env [] s = Inr s"
| "run_chain env (m # ms) s =
     run_middleware env m (\<lambda>t. if next_enabled ms then run_chain env ms t else Inr t) s"

definition call_next :: "pipeline_env \<Rightarrow> middleware list \<Rightarrow> pstate \<Rightarrow> presult" where
  "call_next env ms s = (if next_enabled ms then run_chain env ms s else Inr s)"

lemma run_chain_Cons: "run_chain env (m # ms) s = run_middleware env m (call_next env ms) s"
  by (simp add: call_next_def [abs_def])

section \<open>The router\<close>

record pipeline_config =
  pg_middlewares :: "middleware list"
  pg_max_concurrent :: int
  pg_metrics_enabled :: bool
  pg_version :: string
  pg_use_default_middlewares :: bool

definition default_middlewares :: "middleware list" where
  "default_middlewares =
     [SecurityMiddleware default_mc None,
      ToolPrivilegeMiddleware (default_mc\<lparr>mc_timeout_ms := 10\<rparr>) MACI_TOOL_POLICIES,
      TemporalPolicyMiddleware (default_mc\<lparr>mc_timeout_ms := 50\<rparr>) []]"

text \<open>\<open>__post_init__\<close> of the configuration, and \<open>validate\<close>: \<open>Some\<close> is the message of the \<open>ValueError\<close>.\<close>

definition init_config :: "pipeline_config \<Rightarrow> pipeline_config" where
  "init_config g =
     (if pg_middlewares g = [] \<and> pg_use_default_middlewares g
      then g\<lparr>pg_middlewares := default_middlewares\<rparr> else g)"

definition config_error :: "pipeline_config \<Rightarrow> string option" where
  "config_error g =
     (if pg_max_concurrent g < 1 then Some ''max_concurrent must be >= 1''
      else if pg_middlewares g = [] then Some ''At least one middleware is required''
      else None)"

record pipeline_router =
  ro_config :: pipeline_config
  ro_processed :: nat
  ro_failed :: nat
  ro_total_latency_ms :: rat

definition new_router :: "pipeline_config \<Rightarrow> pipeline_exn + pipeline_router" where
  "new_router g =
     (case config_error g of
        Some e \<Rightarrow> Inl (ValueErr, e)
      | None \<Rightarrow> Inr \<lparr>ro_config = g, ro_processed = 0, ro_failed = 0, ro_total_latency_ms = 0\<rparr>)"

definition PIPELINE_PROCESSING_ERRORS :: "exn_class set" where
  "PIPELINE_PROCESSING_ERRORS = {RuntimeErr, ValueErr, TypeErr, KeyErr, AttributeErr, TimeoutErr}"

text \<open>\<open>process\<close>: the result or the exception, and the router with its counters. The environment is the one of
  this message: its clocks start at reading 0.\<close>

definition route_message ::
  "pipeline_env \<Rightarrow> pipeline_router \<Rightarrow> agent_message \<Rightarrow> pipeline_router \<times> (pipeline_exn + validation_result)" where
  "route_message env ro m =
     (case run_chain env (pg_middlewares (ro_config ro)) (1, new_context (en_perf env 0) m) of
        Inl e \<Rightarrow>
          (if fst e \<in> PIPELINE_PROCESSING_ERRORS then ro\<lparr>ro_failed := ro_failed ro + 1\<rparr> else ro, Inl e)
      | Inr (n, c) \<Rightarrow>
          (let c1 = finalize_context (en_perf env n) c
           in case pc_early_result c1 of
                Some r \<Rightarrow> (ro\<lparr>ro_processed := ro_processed ro + 1\<rparr>, Inr r)
              | None \<Rightarrow>
                  (ro\<lparr>ro_processed := ro_processed ro + 1,
                      ro_total_latency_ms := ro_total_latency_ms ro + pm_total_time_ms (pc_metrics c1)\<rparr>,
                   Inr (to_validation_result c1))))"

fun exn_name :: "exn_class \<Rightarrow> string" where
  "exn_name RuntimeErr = ''RuntimeError''"
| "exn_name ValueErr = ''ValueError''"
| "exn_name TypeErr = ''TypeError''"
| "exn_name KeyErr = ''KeyError''"
| "exn_name AttributeErr = ''AttributeError''"
| "exn_name TimeoutErr = ''TimeoutError''"
| "exn_name ConnectionErr = ''ConnectionError''"
| "exn_name OSErr = ''OSError''"
| "exn_name SecurityErr = ''SecurityException''"
| "exn_name (OtherErr n) = n"

definition failed_result :: "pipeline_exn \<Rightarrow> validation_result" where
  "failed_result e =
     new_result\<lparr>vr_is_valid := False, vr_errors := [snd e], vr_metadata := [(''error_type'', JStr (exn_name (fst e)))]\<rparr>"

text \<open>The tasks of a batch, one after the other; each message comes with its environment.\<close>

fun route_all ::
  "pipeline_router \<Rightarrow> (pipeline_env \<times> agent_message) list \<Rightarrow>
   pipeline_router \<times> (pipeline_exn + validation_result) list" where
  "route_all ro [] = (ro, [])"
| "route_all ro ((env, m) # ms) =
     (case route_message env ro m of (ro1, r) \<Rightarrow> (case route_all ro1 ms of (ro2, rs) \<Rightarrow> (ro2, r # rs)))"

definition process_batch ::
  "pipeline_router \<Rightarrow> (pipeline_env \<times> agent_message) list \<Rightarrow> pipeline_router \<times> validation_result list" where
  "process_batch ro ms =
     (case route_all ro ms of (ro1, rs) \<Rightarrow> (ro1, map (case_sum failed_result id) rs))"

definition router_metrics :: "pipeline_router \<Rightarrow> json_dict" where
  "router_metrics ro =
     [(''processed'', JInt (int (ro_processed ro))),
      (''failed'', JInt (int (ro_failed ro))),
      (''avg_latency_ms'',
        JNum (if 0 < ro_processed ro then ro_total_latency_ms ro / of_nat (ro_processed ro) else 0)),
      (''pipeline_version'', JStr (pg_version (ro_config ro))),
      (''middleware_count'', JInt (int (length (pg_middlewares (ro_config ro))))),
      (''active_middlewares'',
        JInt (int (length (filter (\<lambda>m. mc_enabled (mw_config m)) (pg_middlewares (ro_config ro))))))]"

definition middleware_info :: "pipeline_router \<Rightarrow> json_dict list" where
  "middleware_info ro =
     map (\<lambda>m. [(''name'', JStr (mw_name m)), (''enabled'', JBool (mc_enabled (mw_config m))),
               (''timeout_ms'', JInt (mc_timeout_ms (mw_config m))),
               (''fail_closed'', JBool (mc_fail_closed (mw_config m)))])
       (pg_middlewares (ro_config ro))"

end
