(* ===== verification/Pipeline_Theorems.thy ===== *)
theory Pipeline_Theorems
  imports Pipeline
begin

text \<open>
  What a chain of middlewares guarantees. A middleware calls the rest of the chain and goes on with its
  answer, so a chain is verified like a program: \<open>chain_contract\<close> is the rule that carries an assertion
  \<open>P\<close> on the context down to a gate and an assertion \<open>Q\<close> back up to the router. Its interpretations give
  one gate after the other; the properties of the pipeline rest on them.
\<close>

section \<open>Chains\<close>

fun is_custom :: "middleware \<Rightarrow> bool" where
  "is_custom (CustomMiddleware _ _ _) = True"
| "is_custom _ = False"

abbreviation all_enabled :: "middleware list \<Rightarrow> bool" where
  "all_enabled ms \<equiv> list_all (\<lambda>m. mc_enabled (mw_config m)) ms"

abbreviation no_custom :: "middleware list \<Rightarrow> bool" where
  "no_custom ms \<equiv> list_all (\<lambda>m. \<not> is_custom m) ms"

lemma call_next_simps [simp]:
  "call_next env [] s = Inr s"
  "call_next env (m # ms) s = (if mc_enabled (mw_config m) then run_chain env (m # ms) s else Inr s)"
  by (simp_all add: call_next_def next_enabled_def)

declare run_chain.simps(2) [simp del]

lemma run_chain_step [simp]: "run_chain env (m # ms) = run_middleware env m (call_next env ms)"
  by (rule ext) (simp only: run_chain_Cons)

lemma call_next_enabled: "all_enabled ms \<Longrightarrow> call_next env ms = run_chain env ms"
  by (rule ext) (cases ms; simp del: run_chain_step)

text \<open>An invalid early result: what every refusal of a middleware leaves in the context.\<close>

definition refused :: "pipeline_context \<Rightarrow> bool" where
  "refused c = (case pc_early_result c of None \<Rightarrow> False | Some r \<Rightarrow> \<not> vr_is_valid r)"

lemma enforce_rule_invalid: "is_expired now r \<Longrightarrow> \<not> vr_is_valid (enforce_rule repr now r)"
  by (simp add: enforce_rule_def)

lemma first_expired_Some: "first_expired now a rules = Some r \<Longrightarrow> is_expired now r"
  unfolding first_expired_def by (auto simp: find_Some_iff)

lemma run_middleware_eqs:
  "run_middleware env (SecurityMiddleware cfg g) k = security_process env cfg g k"
  "run_middleware env (ToolPrivilegeMiddleware cfg ps) k = tool_privilege_process (en_repr env) ps k"
  "run_middleware env (TemporalPolicyMiddleware cfg rules) k = temporal_process env rules k"
  "run_middleware env (IFCMiddleware cfg clearance audit) k = ifc_process cfg clearance audit k"
  "run_middleware env (ProvMiddleware cfg) k = prov_process env k"
  "run_middleware env (OrchestratorMiddleware cfg) k = orchestrator_process env k"
  by (rule ext, simp)+

section \<open>The contract\<close>

text \<open>From a context with \<open>P\<close>, the step raises or ends in a context with \<open>Q\<close>.\<close>

definition achieves :: "(pipeline_context \<Rightarrow> bool) \<Rightarrow> (pipeline_context \<Rightarrow> bool) \<Rightarrow> (pstate \<Rightarrow> presult) \<Rightarrow> bool" where
  "achieves P Q k = (\<forall>t. P (snd t) \<longrightarrow> (case k t of Inl e \<Rightarrow> True | Inr u \<Rightarrow> Q (snd u)))"

lemma achievesI: "(\<And>n c u. P c \<Longrightarrow> k (n, c) = Inr u \<Longrightarrow> Q (snd u)) \<Longrightarrow> achieves P Q k"
  by (auto simp: achieves_def split: sum.split)

lemma achievesD: "achieves P Q k \<Longrightarrow> k (n, c) = Inr u \<Longrightarrow> P c \<Longrightarrow> Q (snd u)"
  unfolding achieves_def by (metis snd_conv sum.case(2))

lemma achievesE: "achieves P Q k \<Longrightarrow> k (n, c) = Inr (n', d) \<Longrightarrow> P c \<Longrightarrow> Q d"
  by (metis achievesD snd_conv)

locale chain_contract =
  fixes P :: "pipeline_context \<Rightarrow> bool" and Q :: "pipeline_context \<Rightarrow> bool"
  assumes pre_path: "P c \<Longrightarrow> P (add_middleware n c)"
    and pre_security: "P c \<Longrightarrow> P (security_verdict b r c)"
    and pre_metrics: "P c \<Longrightarrow> P (c\<lparr>pc_metrics := x\<rparr>)"
    and pre_history: "P c \<Longrightarrow> P (c\<lparr>pc_action_history := h\<rparr>)"
    and refusal: "P c \<Longrightarrow> \<not> vr_is_valid e \<Longrightarrow> Q (set_early_result e c)"
    and post_label: "Q c \<Longrightarrow> Q (record_prov_label l c)"
    and post_orchestration: "Q c \<Longrightarrow> Q (c\<lparr>pc_orchestration_result := r', pc_orchestrator_used := True\<rparr>)"
begin

lemma scan_keeps: "scan_content cfg g x c = Inr d \<Longrightarrow> P c \<Longrightarrow> P d"
  unfolding scan_content_def Let_def by (auto split: if_splits option.splits intro: pre_security)

lemma security_achieves: "achieves P Q k \<Longrightarrow> achieves P Q (security_process env cfg g k)"
  by (rule achievesI, unfold security_process_def Let_def)
     (fastforce split: sum.splits elim: achievesE intro: scan_keeps pre_metrics)

lemma tool_privilege_achieves: "achieves P Q k \<Longrightarrow> achieves P Q (tool_privilege_process repr ps k)"
  by (rule achievesI, unfold tool_privilege_process_def Let_def)
     (auto split: if_splits option.splits sum.splits elim: achievesE intro!: refusal intro: pre_path)

lemma ifc_achieves: "achieves P Q k \<Longrightarrow> achieves P Q (ifc_process cfg cl a k)"
  by (rule achievesI, unfold ifc_process_def) (auto split: if_splits elim: achievesE)

lemma prov_achieves: "achieves P Q k \<Longrightarrow> achieves P Q (prov_process env k)"
  by (rule achievesI, unfold prov_process_def Let_def)
     (auto split: sum.splits intro!: post_label dest: achievesE intro: pre_path)

lemma orchestrator_achieves: "achieves P Q k \<Longrightarrow> achieves P Q (orchestrator_process env k)"
  by (rule achievesI, unfold orchestrator_process_def Let_def)
     (auto split: sum.splits if_splits intro!: post_orchestration dest: achievesE intro: pre_path)

lemma pre_recorded: "P c \<Longrightarrow> P ((add_middleware n c)\<lparr>pc_action_history := h\<rparr>)"
  by (intro pre_history pre_path)

lemma temporal_achieves: "achieves P Q k \<Longrightarrow> achieves P Q (temporal_process env rules k)"
  by (rule achievesI, unfold temporal_process_def Let_def)
     (auto split: if_splits option.splits sum.splits json.splits elim: achievesE
      intro!: refusal intro: pre_path pre_recorded simp: enforce_rule_invalid [OF first_expired_Some])

lemma middleware_achieves: "achieves P Q k \<Longrightarrow> \<not> is_custom m \<Longrightarrow> achieves P Q (run_middleware env m k)"
  by (cases m) (simp_all only: run_middleware_eqs security_achieves tool_privilege_achieves ifc_achieves
      prov_achieves orchestrator_achieves temporal_achieves is_custom.simps not_True_eq_False)

text \<open>The middlewares in front of a gate carry the contract of the gate to the head of the chain.\<close>

lemma chain_achieves:
  "achieves P Q (run_chain env ms) \<Longrightarrow> no_custom pre \<Longrightarrow> all_enabled (tl (pre @ ms)) \<Longrightarrow>
   ms \<noteq> [] \<Longrightarrow> achieves P Q (run_chain env (pre @ ms))"
proof (induction pre)
  case (Cons m pre)
  have "run_chain env (pre @ ms) = call_next env (pre @ ms)"
    using Cons.prems by (intro call_next_enabled [symmetric]) simp
  moreover have "achieves P Q (run_chain env (pre @ ms))"
    using Cons by (cases pre; cases ms) auto
  ultimately show ?case
    using middleware_achieves [of "call_next env (pre @ ms)" m env] Cons.prems by simp
qed simp

text \<open>A chain with nothing but the repository's middlewares, to its end.\<close>

lemma whole_chain_achieves:
  "(\<And>c. P c \<Longrightarrow> Q c) \<Longrightarrow> no_custom ms \<Longrightarrow> achieves P Q (run_chain env ms)"
proof (induction ms)
  case Nil
  then show ?case by (intro achievesI) auto
next
  case (Cons m ms)
  have "achieves P Q (call_next env ms)"
    using Cons by (intro achievesI) (auto simp: call_next_def elim: achievesE split: if_splits)
  with Cons.prems show ?case using middleware_achieves by simp
qed

end

text \<open>
  A gate about facts of the message: the fact \<open>F\<close> is not touched on the way to the gate, and what comes
  back has passed it (\<open>G\<close>) or carries a refusal.
\<close>

locale fact_gate =
  fixes F :: "pipeline_context \<Rightarrow> bool" and G :: bool
  assumes fact_path: "F c \<Longrightarrow> F (add_middleware n c)"
    and fact_security: "F c \<Longrightarrow> F (security_verdict b r c)"
    and fact_metrics: "F c \<Longrightarrow> F (c\<lparr>pc_metrics := x\<rparr>)"
    and fact_history: "F c \<Longrightarrow> F (c\<lparr>pc_action_history := h\<rparr>)"

sublocale fact_gate \<subseteq> chain_contract F "\<lambda>c. G \<or> refused c"
  by unfold_locales
     (auto intro: fact_path fact_security fact_metrics fact_history
       simp: refused_def set_early_result_def record_prov_label_def)

context fact_gate
begin

lemma passed_gate:
  assumes "achieves F (\<lambda>c. G \<or> refused c) (run_chain env ms)" "ms \<noteq> []"
    and "pg_middlewares (ro_config ro) = pre @ ms" "no_custom pre" "all_enabled (tl (pre @ ms))"
    and "F (new_context (en_perf env 0) m)"
    and "snd (route_message env ro m) = Inr r" "vr_is_valid r"
  shows G
proof -
  have chain: "achieves F (\<lambda>c. G \<or> refused c) (run_chain env (pre @ ms))"
    by (rule chain_achieves [OF assms(1,4,5,2)])
  from assms(7) obtain n c where run: "run_chain env (pre @ ms) (1, new_context (en_perf env 0) m) = Inr (n, c)"
    unfolding route_message_def assms(3) by (auto split: sum.splits)
  have "G \<or> refused c" by (rule achievesE [OF chain run assms(6)])
  moreover have "\<not> refused c"
    using assms(7,8) run
    by (auto simp: route_message_def assms(3) refused_def finalize_context_def Let_def split: option.splits)
  ultimately show G by blast
qed

end

lemmas context_updates = add_middleware_def security_verdict_def set_early_result_def record_prov_label_def

lemma new_context_simps [simp]:
  "pc_message (new_context t m) = m" "pc_maci_role (new_context t m) = None"
  "pc_strategy_result (new_context t m) = None" "pc_early_result (new_context t m) = None"
  "pc_ifc_label (new_context t m) = (case am_ifc_label m of None \<Rightarrow> IFCLabel PUBLIC MEDIUM | Some l \<Rightarrow> l)"
  by (simp_all add: new_context_def)

section \<open>The gates of the repository\<close>

text \<open>A chain of the repository's own middlewares never sets a strategy result.\<close>

definition undecided :: "pipeline_context \<Rightarrow> bool" where
  "undecided c = (pc_strategy_result c = None \<and> (case pc_early_result c of None \<Rightarrow> True | Some r \<Rightarrow> \<not> vr_is_valid r))"

interpretation undecided: chain_contract undecided undecided
  by unfold_locales (simp_all add: undecided_def context_updates)

interpretation same_message: chain_contract "\<lambda>c. pc_message c = m" "\<lambda>c. pc_message c = m" for m
  by unfold_locales (simp_all add: context_updates)

interpretation label_gate: fact_gate "\<lambda>c. pc_ifc_label c = l" "can_flow_to l clearance" for l clearance
  by unfold_locales (simp_all add: context_updates)

interpretation content_gate: fact_gate "\<lambda>c. pc_message c = m" "\<not> regex_scan (en_str env (am_content m))" for m env
  by unfold_locales (simp_all add: context_updates)

interpretation tool_gate: fact_gate "\<lambda>c. pc_message c = m \<and> pc_maci_role c = None" "\<not> json_truthy (am_requested_tool m)" for m
  by unfold_locales (simp_all add: context_updates)

definition order_permitted :: "pipeline_env \<Rightarrow> (string, governance_rule) dict \<Rightarrow> json \<Rightarrow> bool" where
  "order_permitted env rules tool =
     (\<exists>n impact history answer.
        \<not> list_ex (\<lambda>r. JStr (gr_action r) = tool \<and> is_expired (en_time env n) r) (dvalues rules) \<and>
        en_opa env [(''action'', tool), (''impact_score'', JNum impact),
                    (''constitutional_hash'', JStr CONSTITUTIONAL_HASH)] history ''data.acgs.temporal.allow'' = Inr answer \<and>
        json_truthy (dget_default answer ''allowed'' (JBool False)))"

definition governed :: "json \<Rightarrow> bool" where
  "governed tool = tool_in tool GOVERNED_ACTIONS"

interpretation order_gate: fact_gate "\<lambda>c. pc_message c = m"
    "if governed (am_requested_tool m) then order_permitted env rules (am_requested_tool m) else True" for m env rules
  by unfold_locales (simp_all add: context_updates)

lemma ifc_gate_holds: "achieves (\<lambda>c. pc_ifc_label c = l) (\<lambda>c. can_flow_to l clearance \<or> refused c)
    (run_chain env (IFCMiddleware cfg clearance audit # post))"
  by (rule achievesI) (auto simp: ifc_process_def split: if_splits)

lemma security_gate_holds: "mc_fail_closed cfg \<Longrightarrow> achieves (\<lambda>c. pc_message c = m)
    (\<lambda>c. \<not> regex_scan (en_str env (am_content m)) \<or> refused c) (run_chain env (SecurityMiddleware cfg g # post))"
  by (rule achievesI) (auto simp: security_process_def scan_content_def Let_def split: if_splits sum.splits)

lemma tool_gate_holds: "achieves (\<lambda>c. pc_message c = m \<and> pc_maci_role c = None)
    (\<lambda>c. \<not> json_truthy (am_requested_tool m) \<or> refused c) (run_chain env (ToolPrivilegeMiddleware cfg ps # post))"
  by (rule achievesI)
     (auto simp: tool_privilege_process_def Let_def add_middleware_def refused_def set_early_result_def split: if_splits)

lemma no_expired_rule:
  "first_expired now a rules = None \<longleftrightarrow> \<not> list_ex (\<lambda>r. JStr (gr_action r) = JStr a \<and> is_expired now r) (dvalues rules)"
  by (auto simp: first_expired_def find_None_iff list_ex_iff)

lemma order_gate_holds: "achieves (\<lambda>c. pc_message c = m)
    (\<lambda>c. (if governed (am_requested_tool m) then order_permitted env rules (am_requested_tool m) else True) \<or> refused c)
    (run_chain env (TemporalPolicyMiddleware cfg rules # post))"
proof (rule achievesI)
  fix n c u
  assume m: "pc_message c = m" and run: "run_chain env (TemporalPolicyMiddleware cfg rules # post) (n, c) = Inr u"
  show "(if governed (am_requested_tool m) then order_permitted env rules (am_requested_tool m) else True) \<or> refused (snd u)"
  proof (cases "governed (am_requested_tool m)")
    case True
    then obtain a where a: "am_requested_tool m = JStr a" "a \<in> GOVERNED_ACTIONS"
      by (auto simp: governed_def tool_in_def split: json.splits)
    then have "a \<noteq> []" by (auto simp: GOVERNED_ACTIONS_def)
    show ?thesis
    proof (cases "refused (snd u)")
      case False
      with run a \<open>a \<noteq> []\<close> m obtain answer where
        "first_expired (en_time env n) a rules = None"
        "en_opa env [(''action'', JStr a), (''impact_score'', JNum (pc_impact_score c)),
           (''constitutional_hash'', JStr CONSTITUTIONAL_HASH)] (pc_action_history c) ''data.acgs.temporal.allow'' = Inr answer"
        "json_truthy (dget_default answer ''allowed'' (JBool False))"
        by (auto simp: temporal_process_def Let_def context_updates refused_def
            enforce_rule_invalid [OF first_expired_Some] split: option.splits sum.splits if_splits)
      with a show ?thesis unfolding order_permitted_def no_expired_rule by auto
    qed simp
  qed simp
qed

end
