(* ===== verification/Pipeline_Properties.thy ===== *)
theory Pipeline_Properties
  imports Pipeline_Theorems Agent_Message_Theorems
begin

text \<open>
  The properties of the message pipeline, each over the router or a chain of middlewares in the order of
  its configuration. The witnesses run a router whose last middleware, a strategy outside the
  repository, accepts every message.
\<close>

section \<open>A router to apply them to\<close>

definition quiet_env :: pipeline_env where
  "quiet_env = \<lparr>en_perf = (\<lambda>n. 0), en_time = (\<lambda>n. 0), en_iso = (\<lambda>n. ''T''), en_str = (\<lambda>v. []), en_repr = (\<lambda>v. []),
     en_opa = (\<lambda>i h p. Inr [(''allowed'', JBool True)]), en_orchestrate = (\<lambda>g c. Inr [])\<rparr>"

definition accept_all :: middleware where
  "accept_all = CustomMiddleware default_mc ''StrategyMiddleware''
     (\<lambda>k s. k (fst s, (snd s)\<lparr>pc_strategy_result := Some new_result\<rparr>))"

definition demo_router :: "middleware list \<Rightarrow> pipeline_router" where
  "demo_router ms = \<lparr>ro_config = \<lparr>pg_middlewares = ms, pg_max_concurrent = 1, pg_metrics_enabled = True,
     pg_version = ''2.0.0'', pg_use_default_middlewares = False\<rparr>, ro_processed = 0, ro_failed = 0, ro_total_latency_ms = 0\<rparr>"

lemma demo_router_simps [simp]: "pg_middlewares (ro_config (demo_router ms)) = ms"
  by (simp add: demo_router_def)

lemma empty_scan [simp]: "\<not> regex_scan []"
  by code_simp

lemmas demo_defs = quiet_env_def accept_all_def route_message_def default_mc_def demo_message_def finalize_context_def Let_def
lemmas process_defs = security_process_def scan_content_def tool_privilege_process_def temporal_process_def ifc_process_def
  security_verdict_def add_middleware_def to_validation_result_valid

section \<open>What reaches a result\<close>

text \<open>No message is ever accepted by a pipeline built from the repository's middlewares, whichever are chosen,
  in whatever order and however configured: every answer of the router is an exception or an invalid result.\<close>

theorem repository_pipeline_accepts_nothing:
  "if no_custom (pg_middlewares (ro_config ro))
   then case snd (route_message env ro m) of Inl e \<Rightarrow> True | Inr r \<Rightarrow> \<not> vr_is_valid r
   else True"
proof (cases "no_custom (pg_middlewares (ro_config ro))")
  case True
  let ?chain = "run_chain env (pg_middlewares (ro_config ro))"
  have chain: "achieves undecided undecided ?chain"
    using True by (rule undecided.whole_chain_achieves [rotated])
  have "undecided (new_context t m)" for t
    by (simp add: undecided_def)
  then have "?chain (1, new_context (en_perf env 0) m) = Inr (n, c) \<Longrightarrow> undecided c" for n c
    using achievesE [OF chain] by blast
  then show ?thesis
    by (auto simp: route_message_def Let_def undecided_def finalize_context_def to_validation_result_valid
        split: sum.split option.split)
qed simp

text \<open>The default pipeline (security, tool privilege, temporal policy) decides like this: a text with an injection
  pattern raises \<open>SecurityException\<close>; otherwise a message that asks for a tool is refused because no role was
  resolved, and one that asks for none because there is no strategy.\<close>

theorem default_pipeline_decides:
  "pg_middlewares (init_config (g\<lparr>pg_middlewares := [], pg_use_default_middlewares := True\<rparr>)) = default_middlewares \<and>
   (case snd (route_message env (demo_router default_middlewares) m) of
      Inl e \<Rightarrow> regex_scan (en_str env (am_content m)) \<and> e = (SecurityErr, ''Prompt injection detected'')
    | Inr r \<Rightarrow> \<not> regex_scan (en_str env (am_content m)) \<and> \<not> vr_is_valid r \<and>
        vr_errors r = [if json_truthy (am_requested_tool m)
                       then ''tool_privilege: maci_role unresolved - fail-closed block''
                       else ''No strategy result produced''])"
proof -
  have "add_error e r = r\<lparr>vr_errors := vr_errors r @ [e], vr_is_valid := False\<rparr>" for e r
    by (rule add_error_def)
  then show ?thesis
    by (auto simp: init_config_def default_middlewares_def demo_defs process_defs to_validation_result_def
        new_result_def block_result_def set_early_result_def)
qed

text \<open>C40: An injection never gets through: if a message has, anywhere in its text, a word of one of the patterns, a
  pipeline with a fail-closed security middleware that is reached accepts it under no circumstances.\<close>

theorem injection_never_accepted:
  assumes "pg_middlewares (ro_config ro) = pre @ SecurityMiddleware cfg g # post"
    and "no_custom pre" "all_enabled (tl (pre @ SecurityMiddleware cfg g # post))" "mc_fail_closed cfg"
    and "p \<in> set PROMPT_INJECTION_PATTERNS" "spells p w" "en_str env (am_content m) = a @ w @ b"
    and "snd (route_message env ro m) = Inr r"
  shows "\<not> vr_is_valid r"
proof
  assume "vr_is_valid r"
  then have "\<not> regex_scan (en_str env (am_content m))"
    using content_gate.passed_gate [OF security_gate_holds [OF assms(4)] _ assms(1-3) _ assms(8)] by simp
  with assms(5-7) show False unfolding regex_scan_iff by blast
qed

theorem injection_never_accepted_witness:
  "spells [Lit (codes ''jailbreak'')] (codes ''JailBreak'') \<and>
   (case snd (route_message (quiet_env\<lparr>en_str := \<lambda>v. codes ''so JailBreak!''\<rparr>)
       (demo_router [IFCMiddleware default_mc (IFCLabel SECRET TRUSTED) False,
          SecurityMiddleware (default_mc\<lparr>mc_fail_closed := False\<rparr>) None,
          SecurityMiddleware default_mc None, accept_all]) demo_message) of
     Inl e \<Rightarrow> True | Inr r \<Rightarrow> \<not> vr_is_valid r)"
proof -
  have s: "spells [Lit (codes ''jailbreak'')] (codes ''JailBreak'')"
    using spells_lit [OF _ spells_nil, of "codes ''JailBreak''" "codes ''jailbreak''"]
    by (simp add: codes_def fold_case_def)
  have p: "[Lit (codes ''jailbreak'')] \<in> set PROMPT_INJECTION_PATTERNS"
    by (simp add: PROMPT_INJECTION_PATTERNS_def)
  let ?env = "quiet_env\<lparr>en_str := \<lambda>v. codes ''so JailBreak!''\<rparr>"
  let ?pre = "[IFCMiddleware default_mc (IFCLabel SECRET TRUSTED) False, SecurityMiddleware (default_mc\<lparr>mc_fail_closed := False\<rparr>) None]"
  let ?ro = "demo_router (?pre @ [SecurityMiddleware default_mc None, accept_all])"
  have t: "en_str ?env (am_content demo_message) = codes ''so '' @ codes ''JailBreak'' @ codes ''!''"
    by (simp add: codes_def)
  have "\<not> vr_is_valid r" if "snd (route_message ?env ?ro demo_message) = Inr r" for r
    by (rule injection_never_accepted [of ?ro ?pre default_mc None "[accept_all]" _ _ ?env demo_message "codes ''so ''" "codes ''!''", OF _ _ _ _ p s t that])
       (simp_all add: default_mc_def accept_all_def)
  with s show ?thesis by (auto split: sum.split)
qed

text \<open>Nothing flows down: a message that a pipeline accepts past a reached information flow gate carries a label
  (its own, or the default one) that may flow to the clearance of the gate, in audit mode too.\<close>

theorem accepted_flows_are_allowed:
  assumes "pg_middlewares (ro_config ro) = pre @ IFCMiddleware cfg clearance audit # post"
    and "no_custom pre" "all_enabled (tl (pre @ IFCMiddleware cfg clearance audit # post))"
    and "snd (route_message env ro m) = Inr r" "vr_is_valid r"
  shows "can_flow_to (case am_ifc_label m of None \<Rightarrow> IFCLabel PUBLIC MEDIUM | Some l \<Rightarrow> l) clearance"
  using label_gate.passed_gate [OF ifc_gate_holds _ assms(1-3) _ assms(4,5)] by simp

theorem accepted_flows_are_allowed_witness:
  "(\<exists>r. snd (route_message quiet_env (demo_router [SecurityMiddleware default_mc None,
           IFCMiddleware default_mc (IFCLabel SECRET HIGH) True, accept_all]) demo_message) = Inr r \<and> vr_is_valid r) \<and>
   can_flow_to (IFCLabel SECRET TRUSTED) (IFCLabel SECRET HIGH)"
proof -
  let ?ro = "demo_router ([SecurityMiddleware default_mc None] @ IFCMiddleware default_mc (IFCLabel SECRET HIGH) True # [accept_all])"
  obtain r where r: "snd (route_message quiet_env ?ro demo_message) = Inr r" "vr_is_valid r"
    by (simp add: demo_defs process_defs can_flow_to_def less_eq_integrity_def to_validation_result_def new_result_def)
  have "can_flow_to (case am_ifc_label demo_message of None \<Rightarrow> IFCLabel PUBLIC MEDIUM | Some l \<Rightarrow> l) (IFCLabel SECRET HIGH)"
    by (rule accepted_flows_are_allowed [of ?ro "[SecurityMiddleware default_mc None]" default_mc _ True "[accept_all]" quiet_env demo_message r])
      (use r in \<open>simp_all add: default_mc_def accept_all_def\<close>)
  with r show ?thesis by (auto simp: demo_message_def)
qed

text \<open>An information flow violation is never recorded and never merely audited: whatever the two switches say, the gate
  raises \<open>AttributeError\<close> on a label that may not flow, and passes any other context on untouched.\<close>

theorem violation_always_crashes:
  "run_chain env (IFCMiddleware cfg clearance audit # post) (n, c) =
     (if can_flow_to (pc_ifc_label c) clearance then call_next env post (n, c)
      else Inl (AttributeErr, ''PipelineContext object has no attribute trace_id''))"
  by (simp add: ifc_process_def)

section \<open>Tools\<close>

lemma no_governed_mcp_tool: "resolve_effective_allowlist r None ov \<inter> GOVERNED_ACTIONS = {}"
proof -
  have "resolve_effective_allowlist r None ov \<subseteq> resolve_effective_allowlist r None None"
    using effective_allowlist_subset [of r None] by (cases ov) auto
  also have "\<dots> \<subseteq> dget_default DEFAULT_MCP_ALLOWLISTS r {}"
    by (auto simp: resolve_effective_allowlist_def Let_def)
  also have "\<dots> \<subseteq> MCP_TOOL_CATALOG"
    by (cases r) (simp_all add: DEFAULT_MCP_ALLOWLISTS_def dget_default_def MCP_TOOL_CATALOG_def)
  moreover have "MCP_TOOL_CATALOG \<inter> GOVERNED_ACTIONS = {}"
    by (simp add: MCP_TOOL_CATALOG_def GOVERNED_ACTIONS_def)
  ultimately show ?thesis by blast
qed

definition role_actions :: "maci_role \<Rightarrow> string set" where
  "role_actions r = (if r = LEGISLATIVE then {''extract_rules''} else if r = JUDICIAL \<or> r = AUDITOR then {''audit_decision''} else {})"

lemma role_policy_governed:
  "dget MACI_TOOL_POLICIES r = Some p \<Longrightarrow>
   tp_allowed_tools p \<inter> GOVERNED_ACTIONS = role_actions r \<and> tp_denied_tools p \<inter> role_actions r = {}"
  by (cases r; simp add: MACI_TOOL_POLICIES_def, drule sym,
      simp add: role_policy_defs GOVERNED_ACTIONS_def role_actions_def CONSTITUTIONAL_MUTATION_TOOLS_def)

lemma role_policy_guard:
  "\<exists>p. dget MACI_TOOL_POLICIES r = Some p \<and>
     (role_actions r \<noteq> {} \<longrightarrow> tp_guards p = [requires_constitutional_validation])"
  by (cases r) (simp_all add: MACI_TOOL_POLICIES_def role_policy_defs role_actions_def)

lemma governed_not_mutation: "GOVERNED_ACTIONS \<inter> CONSTITUTIONAL_MUTATION_TOOLS = {}"
  by (simp add: GOVERNED_ACTIONS_def CONSTITUTIONAL_MUTATION_TOOLS_def)

text \<open>Of the governed actions the role policies permit two: extracting rules to the legislative role and auditing a
  decision to the judicial and the auditor role, each after the constitutional check; no role may execute,
  deliver, commit, change a policy or touch the constitutional hash, whatever a tenant overrides.\<close>

theorem governed_actions_permitted:
  "(if t \<in> GOVERNED_ACTIONS
    then pd_permitted (check_tool repr MACI_TOOL_POLICIES (JStr t) r c (Some (resolve_effective_allowlist r None ov))) \<longleftrightarrow>
         pc_constitutional_validated c \<and>
         (r = LEGISLATIVE \<and> t = ''extract_rules'' \<or> (r = JUDICIAL \<or> r = AUDITOR) \<and> t = ''audit_decision'')
    else True) \<and>
   (if t \<in> CONSTITUTIONAL_MUTATION_TOOLS then \<not> pd_permitted (check_tool repr policies (JStr t) r c mcp) else True)"
proof -
  obtain p where p: "dget MACI_TOOL_POLICIES r = Some p"
    and guards: "role_actions r \<noteq> {} \<longrightarrow> tp_guards p = [requires_constitutional_validation]"
    using role_policy_guard by blast
  have "pd_permitted (check_tool repr MACI_TOOL_POLICIES (JStr t) r c (Some (resolve_effective_allowlist r None ov))) \<longleftrightarrow>
         pc_constitutional_validated c \<and> t \<in> role_actions r" if "t \<in> GOVERNED_ACTIONS"
    using that role_policy_governed [OF p] guards no_governed_mcp_tool [of r ov] governed_not_mutation
    by (auto simp: check_tool_permits p requires_constitutional_validation_def)
  then show ?thesis by (auto simp: check_tool_permits role_actions_def)
qed

text \<open>A tool call never gets through a pipeline whose role was not resolved in front of the tool privilege middleware,
  and no middleware of the repository resolves it: every message the router accepts asks for no tool.\<close>

theorem tool_calls_never_accepted:
  assumes "pg_middlewares (ro_config ro) = pre @ ToolPrivilegeMiddleware cfg policies # post"
    and "no_custom pre" "all_enabled (tl (pre @ ToolPrivilegeMiddleware cfg policies # post))"
    and "snd (route_message env ro m) = Inr r" "vr_is_valid r"
  shows "\<not> json_truthy (am_requested_tool m)"
  using tool_gate.passed_gate [OF tool_gate_holds _ assms(1-3) _ assms(4,5)] by simp

theorem tool_calls_never_accepted_witness:
  "(\<exists>r. snd (route_message quiet_env (demo_router [SecurityMiddleware default_mc None,
           ToolPrivilegeMiddleware default_mc MACI_TOOL_POLICIES, accept_all]) demo_message) = Inr r \<and> vr_is_valid r) \<and>
   \<not> json_truthy (am_requested_tool demo_message)"
proof -
  let ?ro = "demo_router ([SecurityMiddleware default_mc None] @ ToolPrivilegeMiddleware default_mc MACI_TOOL_POLICIES # [accept_all])"
  obtain r where r: "snd (route_message quiet_env ?ro demo_message) = Inr r" "vr_is_valid r"
    by (simp add: demo_defs process_defs to_validation_result_def new_result_def)
  have "\<not> json_truthy (am_requested_tool demo_message)"
    by (rule tool_calls_never_accepted [of ?ro "[SecurityMiddleware default_mc None]" default_mc MACI_TOOL_POLICIES "[accept_all]" quiet_env demo_message r])
      (use r in \<open>simp_all add: default_mc_def accept_all_def\<close>)
  with r show ?thesis by auto
qed

text \<open>A governed action is accepted past a reached temporal policy only if, when it was checked, no registered rule for
  it had outlived its time and the policy agent allowed it.\<close>

theorem governed_action_needs_permission:
  assumes "pg_middlewares (ro_config ro) = pre @ TemporalPolicyMiddleware cfg rules # post"
    and "no_custom pre" "all_enabled (tl (pre @ TemporalPolicyMiddleware cfg rules # post))"
    and "governed (am_requested_tool m)"
    and "snd (route_message env ro m) = Inr r" "vr_is_valid r"
  shows "order_permitted env rules (am_requested_tool m)"
  using order_gate.passed_gate [OF order_gate_holds _ assms(1-3) _ assms(5,6)] assms(4) by simp

theorem governed_action_needs_permission_witness:
  "order_permitted quiet_env [(''r'', \<lparr>gr_rule_id = ''r'', gr_action = ''write_audit'', gr_created_at = 0,
      gr_ttl_seconds = Some 5, gr_policy_path = []\<rparr>)] (JStr ''write_audit'')"
proof -
  let ?rules = "[(''r'', \<lparr>gr_rule_id = ''r'', gr_action = ''write_audit'', gr_created_at = 0,
      gr_ttl_seconds = Some 5, gr_policy_path = []\<rparr>)]"
  let ?m = "demo_message\<lparr>am_requested_tool := JStr ''write_audit''\<rparr>"
  let ?ro = "demo_router ([SecurityMiddleware default_mc None] @ TemporalPolicyMiddleware default_mc ?rules # [accept_all])"
  obtain r where r: "snd (route_message quiet_env ?ro ?m) = Inr r" "vr_is_valid r"
    by (simp add: demo_defs process_defs to_validation_result_def new_result_def first_expired_def is_expired_def
        GOVERNED_ACTIONS_def dget_default_def)
  have "order_permitted quiet_env ?rules (am_requested_tool ?m)"
    by (rule governed_action_needs_permission [of ?ro "[SecurityMiddleware default_mc None]" default_mc ?rules "[accept_all]" ?m quiet_env r])
      (use r in \<open>simp_all add: default_mc_def accept_all_def governed_def GOVERNED_ACTIONS_def\<close>)
  then show ?thesis by simp
qed

section \<open>The chain and the router\<close>

text \<open>Switching a middleware off switches off everything behind it: the chain ends at the first disabled middleware
  after its head, and those configured behind it never run. The head runs even when it is disabled.\<close>

theorem disabled_middleware_cuts_chain:
  "if mc_enabled (mw_config d) then True
   else run_chain env ((m # ms) @ d # rest) s = run_chain env (m # ms) s"
proof (cases "mc_enabled (mw_config d)")
  case False
  have "run_chain env ((m # ms) @ d # rest) = run_chain env (m # ms)"
  proof (induction ms arbitrary: m)
    case Nil
    have "call_next env (d # rest) = call_next env []"
      using False by (intro ext) simp
    then show ?case by simp
  next
    case (Cons n ms)
    have "call_next env ((n # ms) @ d # rest) = call_next env (n # ms)"
      using Cons [of n] by (intro ext) simp
    then show ?case by simp
  qed
  with False show ?thesis by simp
qed simp

definition uncounted :: "pipeline_exn + 'a \<Rightarrow> bool" where
  "uncounted r = (case r of Inl e \<Rightarrow> fst e \<notin> PIPELINE_PROCESSING_ERRORS | Inr _ \<Rightarrow> False)"

lemma route_message_config:
  "ro_config (fst (route_message env ro m)) = ro_config ro"
  "ro_config r1 = ro_config r2 \<Longrightarrow> snd (route_message env r1 m) = snd (route_message env r2 m)"
  by (simp_all add: route_message_def Let_def split: sum.split prod.split option.split)

lemma route_message_counts:
  "ro_processed (fst (route_message env ro m)) + ro_failed (fst (route_message env ro m)) +
     of_bool (uncounted (snd (route_message env ro m))) = ro_processed ro + ro_failed ro + 1"
  by (simp add: route_message_def uncounted_def Let_def split: sum.split prod.split option.split)

lemma route_all_Cons:
  "fst (route_all ro (em # ms)) = fst (route_all (fst (route_message (fst em) ro (snd em))) ms)"
  "snd (route_all ro (em # ms)) =
     snd (route_message (fst em) ro (snd em)) # snd (route_all (fst (route_message (fst em) ro (snd em))) ms)"
  by (cases em; simp add: case_prod_unfold)+

lemma route_all_answers: "snd (route_all ro ms) = map (\<lambda>em. snd (route_message (fst em) ro (snd em))) ms"
proof (induction ms arbitrary: ro)
  case (Cons em ms)
  have "snd (route_message e (fst (route_message (fst em) ro (snd em))) m) = snd (route_message e ro m)" for e m
    by (rule route_message_config(2)) (rule route_message_config(1))
  with Cons show ?case by (simp add: route_all_Cons)
qed simp

lemma route_all_counts:
  "ro_processed (fst (route_all ro ms)) + ro_failed (fst (route_all ro ms)) +
     length (filter uncounted (snd (route_all ro ms))) = ro_processed ro + ro_failed ro + length ms"
proof (induction ms arbitrary: ro)
  case (Cons em ms)
  show ?case
    using Cons.IH [of "fst (route_message (fst em) ro (snd em))"] route_message_counts [of "fst em" ro "snd em"]
    by (cases "uncounted (snd (route_message (fst em) ro (snd em)))") (simp_all add: route_all_Cons)
qed simp

text \<open>A batch answers every message, in order, with the answer it would have got alone (an exception becomes an
  invalid result that names it); of each message the router counts a success or, for the classes it lists,
  a failure, so a \<open>SecurityException\<close> is counted nowhere.\<close>

theorem batch_answers_in_order:
  "snd (process_batch ro ms) =
     map (\<lambda>em. case snd (route_message (fst em) ro (snd em)) of Inl e \<Rightarrow> failed_result e | Inr r \<Rightarrow> r) ms \<and>
   ro_processed (fst (process_batch ro ms)) + ro_failed (fst (process_batch ro ms)) +
     length (filter (\<lambda>em. uncounted (snd (route_message (fst em) ro (snd em)))) ms)
   = ro_processed ro + ro_failed ro + length ms \<and>
   uncounted (Inl (SecurityErr, e) :: pipeline_exn + validation_result)"
  using route_all_counts [of ro ms] route_all_answers [of ro ms]
  by (simp add: process_batch_def case_prod_unfold comp_def filter_map uncounted_def [of "Inl _"]
      PIPELINE_PROCESSING_ERRORS_def split: sum.split)

text \<open>The orchestrator is not fail-open: for an impact that calls for it, a message whose content is a dictionary (as
  the message type declares it) makes the pipeline raise, after everything behind it has run, and the
  orchestrator is never asked.\<close>

theorem dictionary_content_defeats_orchestration:
  assumes "am_content (pc_message c) = JObj d" "should_orchestrate c" "no_custom ms"
  shows "\<not> is_ok (run_chain env (OrchestratorMiddleware cfg # ms) (n, c))"
proof -
  let ?m = "pc_message c"
  have post: "achieves (\<lambda>c. pc_message c = ?m) (\<lambda>c. pc_message c = ?m) (run_chain env ms)"
    using assms(3) by (intro same_message.whole_chain_achieves) simp_all
  have keep: "pc_message (snd u) = ?m" if "call_next env ms (n, add_middleware x c) = Inr u" for u x
    using that achievesD [OF post, of n "add_middleware x c" u]
    by (auto simp: call_next_def add_middleware_def split: if_splits)
  have "should_orchestrate (add_middleware x c)" for x
    using assms(2) by (simp add: should_orchestrate_def add_middleware_def)
  then show ?thesis
    using keep assms(1) by (force simp: orchestrator_process_def Let_def slice_200_def is_ok_def split: sum.splits prod.splits)
qed

theorem dictionary_content_defeats_orchestration_witness:
  "\<not> is_ok (run_chain quiet_env [OrchestratorMiddleware default_mc] (0, (new_context 0 demo_message)\<lparr>pc_impact_score := 9 / 10\<rparr>))"
  by (rule dictionary_content_defeats_orchestration [where d = "[]"])
     (simp_all add: demo_message_def should_orchestrate_def)

text \<open>The provenance label names the stage before the middleware only when nothing behind it records itself; with one
  recording middleware behind it, whatever that is, the label says that a stage \<open>prov\<close> produced the decision.\<close>

theorem provenance_names_itself:
  "(case run_chain env [ProvMiddleware cfg, TemporalPolicyMiddleware cfg2 rules] (n, c) of
      Inl e \<Rightarrow> True
    | Inr u \<Rightarrow> if mc_enabled cfg2
        then pv_label (pl_activity (last (pc_prov_lineage (snd u)))) = JStr ''Execute prov'' else True) \<and>
   (case run_chain env [ProvMiddleware cfg] (n, c) of
      Inl e \<Rightarrow> False
    | Inr u \<Rightarrow> pv_label (pl_activity (last (pc_prov_lineage (snd u)))) =
        JStr (''Execute '' @ (if pc_middleware_path c = [] then ''unknown_stage''
                             else middleware_name_to_stage (last (pc_middleware_path c)))))"
proof -
  have path: "pc_middleware_path (snd u) = pc_middleware_path c @ [''ProvMiddleware'', ''TemporalPolicyMiddleware'']"
    if "temporal_process env rules Inr (n', add_middleware ''ProvMiddleware'' c) = Inr u" for u n'
    using that
    by (auto simp: temporal_process_def Let_def add_middleware_def set_early_result_def
        split: if_splits option.splits sum.splits json.splits)
  have last: "call_next env [] = Inr"
    by (rule ext) simp
  have prov: "middleware_name_to_stage ''ProvMiddleware'' = ''prov''"
    by code_simp
  have labels: "pv_label (pl_activity (build_prov_label now stage a e)) = JStr (''Execute '' @ stage)" for now stage a e
    by (simp add: build_prov_label_def make_tool_activity_def Let_def)
  show ?thesis
    using path unfolding run_chain_step last run_middleware_eqs
    by (auto simp: last call_next_def [of _ "_ # _"] prov_process_def Let_def record_prov_label_def lineage_append_def labels prov
        resolve_stage_name_def nth_append last_conv_nth add_middleware_def split: sum.split)
qed

end
