(* ===== verification/Constitution_Invariants.thy ===== *)
theory Constitution_Invariants
  imports Prelude "HOL-Library.List_Lexorder" "HOL-Library.Char_ord"
begin

text \<open>
  \<^verbatim>\<open>src/constitutional/invariants.py\<close> and \<^verbatim>\<open>src/constitutional/invariant_guard.py\<close>: the invariants an ordinary
  amendment may not touch, their manifest with its hash, the predicates that check a change, and the
  three guards. The digest (the first 16 characters of the SHA-256 of the sorted definitions as JSON) is
  an argument. Python's order of strings is that of their code points, here the lexicographic order. The
  identifiers in a message are printed as Python prints a list of strings without quotes in them; a long
  dash is a hyphen.
\<close>

section \<open>Definitions and the manifest\<close>

datatype invariant_scope = HARD | META | SOFT

fun scope_value :: "invariant_scope \<Rightarrow> string" where
  "scope_value HARD = ''hard''"
| "scope_value META = ''meta''"
| "scope_value SOFT = ''soft''"

datatype enforcement_mode = PRE_PROPOSAL | PRE_ACTIVATION | RUNTIME

fun mode_value :: "enforcement_mode \<Rightarrow> string" where
  "mode_value PRE_PROPOSAL = ''pre_proposal''"
| "mode_value PRE_ACTIVATION = ''pre_activation''"
| "mode_value RUNTIME = ''runtime''"

record invariant_definition =
  df_invariant_id :: string
  df_name :: string
  df_scope :: invariant_scope
  df_description :: string
  df_protected_paths :: "string list"
  df_enforcement_modes :: "enforcement_mode list"
  df_predicate_module :: string

definition definition_json :: "invariant_definition \<Rightarrow> json" where
  "definition_json d = JObj
     [(''description'', JStr (df_description d)),
      (''enforcement_modes'', JList (map (\<lambda>m. JStr (mode_value m)) (df_enforcement_modes d))),
      (''invariant_id'', JStr (df_invariant_id d)),
      (''name'', JStr (df_name d)),
      (''predicate_module'', JStr (df_predicate_module d)),
      (''protected_paths'', JList (map JStr (df_protected_paths d))),
      (''scope'', JStr (scope_value (df_scope d)))]"

record invariant_manifest =
  mf_manifest_version :: string
  mf_constitutional_hash :: string
  mf_invariant_hash :: string
  mf_invariants :: "invariant_definition list"

definition compute_hash :: "(json list \<Rightarrow> string) \<Rightarrow> invariant_definition list \<Rightarrow> string" where
  "compute_hash digest ds = digest (map definition_json (sort_key df_invariant_id ds))"

text \<open>\<open>model_post_init\<close>: \<open>None\<close> is the \<open>ValueError\<close> of a hash that is given and wrong.\<close>

definition init_manifest :: "(json list \<Rightarrow> string) \<Rightarrow> invariant_manifest \<Rightarrow> invariant_manifest option" where
  "init_manifest digest m =
     (let computed = compute_hash digest (mf_invariants m)
      in if mf_invariant_hash m \<noteq> [] \<and> mf_invariant_hash m \<noteq> computed then None
         else Some (m\<lparr>mf_invariant_hash := computed\<rparr>))"

definition MODULE_PATH :: string where
  "MODULE_PATH = ''enhanced_agent_bus.constitutional.invariants''"

definition inv_001 :: invariant_definition where
  "inv_001 = \<lparr>df_invariant_id = ''INV-001'', df_name = ''MACI Separation of Powers'', df_scope = HARD,
     df_description =
        ''Proposer, validator, and executor must be distinct agents. No agent may validate '' @
        ''its own output.'',
     df_protected_paths = [''middlewares/batch/governance.py'', ''maci/enforcer.py''],
     df_enforcement_modes = [PRE_PROPOSAL, RUNTIME],
     df_predicate_module = MODULE_PATH @ ''.check_maci_separation''\<rparr>"

definition inv_002 :: invariant_definition where
  "inv_002 = \<lparr>df_invariant_id = ''INV-002'', df_name = ''Fail-Closed Governance'', df_scope = HARD,
     df_description =
        ''All governance evaluation paths must deny by default on error. Governance bypass '' @
        ''must never be enabled.'',
     df_protected_paths = [''bus/governance.py'', ''pipeline/router.py''],
     df_enforcement_modes = [PRE_ACTIVATION, RUNTIME],
     df_predicate_module = MODULE_PATH @ ''.check_fail_closed''\<rparr>"

definition inv_003 :: invariant_definition where
  "inv_003 = \<lparr>df_invariant_id = ''INV-003'', df_name = ''Append-Only Audit Trail'', df_scope = HARD,
     df_description =
        ''The audit trail is immutable. Only append operations are permitted. Delete, '' @
        ''update, truncate, and drop are forbidden.'',
     df_protected_paths = [''guardrails/audit_log.py'', ''audit_client.py''],
     df_enforcement_modes = [PRE_PROPOSAL, RUNTIME],
     df_predicate_module = MODULE_PATH @ ''.check_append_only_audit''\<rparr>"

definition inv_004 :: invariant_definition where
  "inv_004 = \<lparr>df_invariant_id = ''INV-004'', df_name = ''Constitutional Hash Validation'', df_scope = META,
     df_description =
        ''Every governance decision path must validate the constitutional hash against the '' @
        ''canonical value (608508a9bd224290).'',
     df_protected_paths = [''constitutional/storage.py'', ''constitutional/activation_saga.py''],
     df_enforcement_modes = [PRE_ACTIVATION, RUNTIME],
     df_predicate_module = MODULE_PATH @ ''.check_constitutional_hash_required''\<rparr>"

definition inv_005 :: invariant_definition where
  "inv_005 = \<lparr>df_invariant_id = ''INV-005'', df_name = ''Tenant Isolation'', df_scope = HARD,
     df_description =
        ''Data belonging to one tenant must never be accessible to or cross boundaries '' @
        ''into another tenant's scope.'',
     df_protected_paths = [''multi_tenancy/rls.py'', ''multi_tenancy/context.py''],
     df_enforcement_modes = [PRE_PROPOSAL, RUNTIME],
     df_predicate_module = MODULE_PATH @ ''.check_tenant_isolation''\<rparr>"

definition inv_006 :: invariant_definition where
  "inv_006 = \<lparr>df_invariant_id = ''INV-006'', df_name = ''Human Approval for Activation'', df_scope = META,
     df_description =
        ''Constitutional amendments must receive explicit human approval before '' @
        ''activation. Fully autonomous activation is forbidden.'',
     df_protected_paths = [''constitutional/activation_saga.py'', ''deliberation_layer/hitl_manager.py''],
     df_enforcement_modes = [PRE_ACTIVATION],
     df_predicate_module = MODULE_PATH @ ''.check_human_approval_for_activation''\<rparr>"

definition DEFAULT_INVARIANTS :: "invariant_definition list" where
  "DEFAULT_INVARIANTS = [inv_001, inv_002, inv_003, inv_004, inv_005, inv_006]"

definition get_default_manifest :: "(json list \<Rightarrow> string) \<Rightarrow> invariant_manifest option" where
  "get_default_manifest digest =
     init_manifest digest \<lparr>mf_manifest_version = ''1.0.0'', mf_constitutional_hash = ''608508a9bd224290'',
       mf_invariant_hash = [], mf_invariants = DEFAULT_INVARIANTS\<rparr>"

section \<open>Predicates\<close>

record invariant_check_result =
  ck_passed :: bool
  ck_invariant_id :: string
  ck_message :: string

definition check_result :: "bool \<Rightarrow> string \<Rightarrow> string \<Rightarrow> invariant_check_result" where
  "check_result p i m = \<lparr>ck_passed = p, ck_invariant_id = i, ck_message = m\<rparr>"

text \<open>\<open>None\<close> is the \<open>TypeError\<close> of an identifier that cannot be put in a set. \<open>fmt\<close> is \<open>str\<close> of a value.\<close>

definition check_maci_separation :: "json_dict \<Rightarrow> json_dict \<Rightarrow> invariant_check_result option" where
  "check_maci_separation state change =
     (let ids = map (\<lambda>k. dget_default change k (JStr [])) [''proposer_id'', ''validator_id'', ''executor_id''];
          non_empty = filter json_truthy ids
      in if length non_empty < 3
         then Some (check_result False ''INV-001''
                (''MACI separation requires all three roles (proposer, validator, '' @
                 ''executor) to be present and non-empty''))
         else if \<not> list_all hashable non_empty then None
         else if length non_empty \<noteq> card (set non_empty)
         then Some (check_result False ''INV-001''
                (''MACI separation violated: proposer, validator, and executor '' @ ''must be distinct agents''))
         else Some (check_result True ''INV-001'' ''MACI separation of powers verified''))"

definition check_fail_closed :: "(json \<Rightarrow> string) \<Rightarrow> json_dict \<Rightarrow> json_dict \<Rightarrow> invariant_check_result" where
  "check_fail_closed fmt state change =
     (let error_action = dget_default change ''on_error'' JNull
      in if error_action \<noteq> JNull \<and> error_action \<noteq> JStr ''deny''
         then check_result False ''INV-002''
                (''Fail-closed violated: on_error is '' @ quoted (fmt error_action) @ '', must be '' @ quoted ''deny'')
         else if json_truthy (dget_default change ''governance_bypass'' (JBool False))
         then check_result False ''INV-002'' ''Fail-closed violated: governance_bypass must not be enabled''
         else check_result True ''INV-002'' ''Fail-closed governance verified'')"

text \<open>\<open>None\<close> is the \<open>TypeError\<close> of an operation that cannot be looked up in a set.\<close>

definition check_append_only_audit :: "json_dict \<Rightarrow> json_dict \<Rightarrow> invariant_check_result option" where
  "check_append_only_audit state change =
     (let op = dget_default change ''audit_operation'' JNull;
          disallowed = map JStr [''delete'', ''update'', ''truncate'', ''drop'']
      in if \<not> hashable op then None
         else if op \<noteq> JNull \<and> op \<in> set disallowed
         then Some (check_result False ''INV-003''
                (''Append-only audit violated: '' @ (case op of JStr s \<Rightarrow> quoted s | _ \<Rightarrow> []) @
                 '' operation is not allowed on the audit trail''))
         else Some (check_result True ''INV-003'' ''Append-only audit trail verified''))"

definition check_constitutional_hash_required ::
  "(json \<Rightarrow> string) \<Rightarrow> json_dict \<Rightarrow> json_dict \<Rightarrow> invariant_check_result" where
  "check_constitutional_hash_required fmt state change =
     (let expected = dget_default state ''constitutional_hash'' (JStr []);
          provided = dget_default change ''constitutional_hash'' (JStr [])
      in if \<not> json_truthy provided
         then check_result False ''INV-004'' ''Constitutional hash missing from change payload''
         else if json_truthy expected \<and> provided \<noteq> expected
         then check_result False ''INV-004''
                (''Constitutional hash mismatch: expected '' @ quoted (fmt expected) @ '', got '' @ quoted (fmt provided))
         else check_result True ''INV-004'' ''Constitutional hash validated'')"

definition check_tenant_isolation ::
  "(json \<Rightarrow> string) \<Rightarrow> json_dict \<Rightarrow> json_dict \<Rightarrow> invariant_check_result" where
  "check_tenant_isolation fmt state change =
     (let source = dget_default change ''source_tenant_id'' (JStr []);
          target = dget_default change ''target_tenant_id'' (JStr [])
      in if json_truthy source \<and> json_truthy target \<and> source \<noteq> target
         then check_result False ''INV-005''
                (''Tenant isolation violated: data from tenant '' @ quoted (fmt source) @
                 '' cannot cross to tenant '' @ quoted (fmt target))
         else check_result True ''INV-005'' ''Tenant isolation verified'')"

definition check_human_approval_for_activation :: "json_dict \<Rightarrow> json_dict \<Rightarrow> invariant_check_result" where
  "check_human_approval_for_activation state change =
     (if json_truthy (dget_default change ''is_activation'' (JBool False)) \<and>
         \<not> json_truthy (dget_default change ''human_approved'' (JBool False))
      then check_result False ''INV-006''
             (''Human approval required: constitutional activation cannot proceed '' @
              ''without explicit human approval'')
      else check_result True ''INV-006'' ''Human approval requirement verified'')"

section \<open>The classifier\<close>

record change_classification =
  cc_touches_invariants :: bool
  cc_touched_invariant_ids :: "string list"
  cc_blocked :: bool
  cc_requires_refoundation :: bool
  cc_reason :: "string option"

type_synonym path_index = "(string, invariant_definition list) dict"

definition index_path :: "invariant_definition \<Rightarrow> string \<Rightarrow> path_index \<Rightarrow> path_index" where
  "index_path d path idx = dset path (dget_default idx path [] @ [d]) idx"

definition build_path_index :: "invariant_definition list \<Rightarrow> path_index" where
  "build_path_index ds = fold (\<lambda>d idx. fold (index_path d) (df_protected_paths d) idx) ds []"

definition starts_with :: "string \<Rightarrow> string \<Rightarrow> bool" where
  "starts_with prefix s = (take (length prefix) s = prefix)"

definition path_matches :: "string \<Rightarrow> string \<Rightarrow> bool" where
  "path_matches change_path protected_path =
     (change_path = protected_path \<or> starts_with (protected_path @ ''.'') change_path \<or>
      starts_with (protected_path @ ''/'') change_path)"

text \<open>The definitions the loops of \<open>_do_classify\<close> come across, in their order.\<close>

definition hit_definitions :: "path_index \<Rightarrow> string list \<Rightarrow> invariant_definition list" where
  "hit_definitions idx paths =
     concat (map (\<lambda>p. concat (map (\<lambda>(q, ds). if path_matches p q then ds else []) idx)) paths)"

definition add_id :: "invariant_definition \<Rightarrow> string list \<Rightarrow> string list" where
  "add_id d ids = (if df_invariant_id d \<notin> set ids then ids @ [df_invariant_id d] else ids)"

definition id_list_text :: "string list \<Rightarrow> string" where
  "id_list_text ids =
     ''['' @ (case map quoted ids of [] \<Rightarrow> [] | t # ts \<Rightarrow> t @ concat (map (\<lambda>u. '', '' @ u) ts)) @ '']''"

definition classify_change :: "invariant_definition list \<Rightarrow> string list \<Rightarrow> change_classification" where
  "classify_change invs affected_paths =
     (if invs = []
      then \<lparr>cc_touches_invariants = True, cc_touched_invariant_ids = [], cc_blocked = True,
            cc_requires_refoundation = False,
            cc_reason = Some ''Empty invariant manifest - fail-closed: all changes blocked''\<rparr>
      else let hits = hit_definitions (build_path_index invs) affected_paths;
               ids = fold add_id hits [];
               hard = list_ex (\<lambda>d. df_scope d \<in> {HARD, META}) hits
           in if ids = []
              then \<lparr>cc_touches_invariants = False, cc_touched_invariant_ids = [], cc_blocked = False,
                    cc_requires_refoundation = False, cc_reason = None\<rparr>
              else if hard
              then \<lparr>cc_touches_invariants = True, cc_touched_invariant_ids = ids, cc_blocked = True,
                    cc_requires_refoundation = True,
                    cc_reason = Some (''Change touches HARD/META invariants: '' @ id_list_text ids @
                                      ''. Refoundation required.'')\<rparr>
              else \<lparr>cc_touches_invariants = True, cc_touched_invariant_ids = ids, cc_blocked = False,
                    cc_requires_refoundation = False,
                    cc_reason = Some (''Change touches SOFT invariants: '' @ id_list_text ids @
                                      ''. Allowed with review.'')\<rparr>)"

section \<open>The guards\<close>

text \<open>\<open>Inl\<close> is the \<open>ConstitutionalInvariantViolation\<close> with its classification.\<close>

definition validate_proposal ::
  "invariant_definition list \<Rightarrow> string list \<Rightarrow> change_classification + change_classification" where
  "validate_proposal invs affected_paths =
     (let c = classify_change invs affected_paths in if cc_blocked c then Inl c else Inr c)"

definition RECOMMENDATION_ONLY_ROLES :: "string list" where
  "RECOMMENDATION_ONLY_ROLES = [''sdpc'', ''adaptive_governance'']"

definition validate_mutation ::
  "invariant_definition list \<Rightarrow> string \<Rightarrow> string \<Rightarrow> change_classification + unit" where
  "validate_mutation invs target_path actor_role =
     (let c = classify_change invs [target_path]
      in if cc_blocked c then Inl c
         else if cc_touches_invariants c \<and> actor_role \<in> set RECOMMENDATION_ONLY_ROLES
         then Inl \<lparr>cc_touches_invariants = True, cc_touched_invariant_ids = cc_touched_invariant_ids c,
                   cc_blocked = True, cc_requires_refoundation = False,
                   cc_reason = Some (''Role '' @ quoted actor_role @
                     '' may only recommend changes to invariant-protected paths, not write directly.'')\<rparr>
         else Inr ())"

section \<open>The index holds exactly the protected paths\<close>

definition protects :: "invariant_definition \<Rightarrow> string \<Rightarrow> bool" where
  "protects d p = list_ex (path_matches p) (df_protected_paths d)"

definition entry_for :: "path_index \<Rightarrow> string \<Rightarrow> invariant_definition list" where
  "entry_for idx q = dget_default idx q []"

lemma distinct_index_path: "distinct (dkeys idx) \<Longrightarrow> distinct (dkeys (index_path d q idx))"
  by (simp add: index_path_def dict_simps)

lemma distinct_index_paths: "distinct (dkeys idx) \<Longrightarrow> distinct (dkeys (fold (index_path d) qs idx))"
  by (induction qs arbitrary: idx) (simp_all add: distinct_index_path)

lemma distinct_build: "distinct (dkeys (build_path_index ds))"
proof -
  have "distinct (dkeys idx) \<Longrightarrow>
      distinct (dkeys (fold (\<lambda>d idx. fold (index_path d) (df_protected_paths d) idx) ds idx))" for idx
    by (induction ds arbitrary: idx) (simp_all add: distinct_index_paths)
  then show ?thesis by (simp add: build_path_index_def)
qed

lemma entry_index_paths:
  "d' \<in> set (entry_for (fold (index_path d) qs idx) q) \<longleftrightarrow>
   d' \<in> set (entry_for idx q) \<or> (d' = d \<and> q \<in> set qs)"
  by (induction qs arbitrary: idx) (auto simp: entry_for_def index_path_def dget_default_dset)

lemma entry_build: "d \<in> set (entry_for (build_path_index ds) q) \<longleftrightarrow> d \<in> set ds \<and> q \<in> set (df_protected_paths d)"
proof -
  have "d \<in> set (entry_for (fold (\<lambda>d idx. fold (index_path d) (df_protected_paths d) idx) ds idx) q) \<longleftrightarrow>
      d \<in> set (entry_for idx q) \<or> (d \<in> set ds \<and> q \<in> set (df_protected_paths d))" for idx
    by (induction ds arbitrary: idx) (auto simp: entry_index_paths)
  then show ?thesis by (simp add: build_path_index_def entry_for_def dget_default_def)
qed

lemma hit_definitions_iff:
  "d \<in> set (hit_definitions (build_path_index ds) paths) \<longleftrightarrow> d \<in> set ds \<and> (\<exists>p\<in>set paths. protects d p)"
proof -
  have entry: "(q, es) \<in> set (build_path_index ds) \<longleftrightarrow> dget (build_path_index ds) q = Some es" for q es
    by (metis distinct_build map_of_is_SomeI map_of_SomeD)
  have "d \<in> set (hit_definitions (build_path_index ds) paths) \<longleftrightarrow>
      (\<exists>p\<in>set paths. \<exists>q. path_matches p q \<and> d \<in> set (entry_for (build_path_index ds) q))"
    by (force simp: hit_definitions_def entry entry_for_def dget_default_def split: option.splits if_splits)
  then show ?thesis
    by (auto simp: entry_build protects_def list_ex_iff)
qed

lemma fold_add_id: "set (fold add_id ds ids) = set ids \<union> df_invariant_id ` set ds"
  by (induction ds arbitrary: ids) (auto simp: add_id_def)

lemma fold_add_id_empty [simp]: "fold add_id ds [] = [] \<longleftrightarrow> ds = []"
  using fold_add_id [of ds "[]"] by (metis Un_empty_left image_is_empty set_empty)

text \<open>
  What the classifier decides: a change is blocked exactly when there is no invariant at all or one of
  its paths lies under a path a hard or meta invariant protects; the invariants it reports are those
  whose paths are touched.
\<close>

lemma set_hits:
  "set (hit_definitions (build_path_index ds) paths) = {d \<in> set ds. \<exists>p\<in>set paths. protects d p}"
  by (rule set_eqI) (simp add: hit_definitions_iff)

lemma classify_blocks:
  "cc_blocked (classify_change invs paths) \<longleftrightarrow>
     invs = [] \<or> (\<exists>d\<in>set invs. df_scope d \<in> {HARD, META} \<and> (\<exists>p\<in>set paths. protects d p))"
proof -
  let ?hits = "hit_definitions (build_path_index invs) paths"
  have hard: "list_ex (\<lambda>d. df_scope d \<in> {HARD, META}) ?hits \<longleftrightarrow>
      (\<exists>d\<in>set invs. df_scope d \<in> {HARD, META} \<and> (\<exists>p\<in>set paths. protects d p))"
    unfolding list_ex_iff set_hits by blast
  have "cc_blocked (classify_change invs paths) \<longleftrightarrow>
      invs = [] \<or> ?hits \<noteq> [] \<and> list_ex (\<lambda>d. df_scope d \<in> {HARD, META}) ?hits"
    by (simp add: classify_change_def Let_def)
  also have "\<dots> \<longleftrightarrow> invs = [] \<or> list_ex (\<lambda>d. df_scope d \<in> {HARD, META}) ?hits"
    by (cases ?hits) simp_all
  finally show ?thesis unfolding hard .
qed

lemma classify_touches:
  assumes "invs \<noteq> []"
  shows "cc_touches_invariants (classify_change invs paths) \<longleftrightarrow> (\<exists>d\<in>set invs. \<exists>p\<in>set paths. protects d p)"
    and "set (cc_touched_invariant_ids (classify_change invs paths)) =
           df_invariant_id ` {d \<in> set invs. \<exists>p\<in>set paths. protects d p}"
proof -
  let ?hits = "hit_definitions (build_path_index invs) paths"
  have "cc_touches_invariants (classify_change invs paths) \<longleftrightarrow> set ?hits \<noteq> {}"
    using assms by (simp add: classify_change_def Let_def)
  then show "cc_touches_invariants (classify_change invs paths) \<longleftrightarrow>
      (\<exists>d\<in>set invs. \<exists>p\<in>set paths. protects d p)"
    unfolding set_hits by blast
  have "set (cc_touched_invariant_ids (classify_change invs paths)) = df_invariant_id ` set ?hits"
    using assms fold_add_id [of ?hits "[]"] by (simp add: classify_change_def Let_def)
  then show "set (cc_touched_invariant_ids (classify_change invs paths)) =
      df_invariant_id ` {d \<in> set invs. \<exists>p\<in>set paths. protects d p}"
    unfolding set_hits .
qed

end
