(* ===== verification/Refoundation.thy ===== *)
theory Refoundation
  imports Constitution_Invariants
begin

text \<open>
  \<^verbatim>\<open>src/constitutional/refoundation.py\<close>: the only way to change a hard or meta invariant. A proposal is
  drafted by a human operator, submitted, approved by the three constitutional roles, tested in a
  sandbox and activated, which appends a new epoch to the history. The identifiers \<open>uuid4\<close> makes and
  the readings of the clock are arguments; that the identifiers are new is part of the step relation
  below and of nothing else. A \<open>RefoundationError\<close> is a value of \<open>refoundation_error\<close>.
\<close>

section \<open>Data\<close>

datatype refoundation_status =
  RF_DRAFTED | RF_SUBMITTED | RF_UNDER_REVIEW | RF_SANDBOX_TESTING | RF_APPROVED | RF_ACTIVATED
| RF_REJECTED | RF_ROLLED_BACK

record refoundation_approval =
  ra_role :: string
  ra_approver_id :: string
  ra_approved :: bool
  ra_reasoning :: string
  ra_approved_at :: rat

record sandbox_result =
  sb_sandbox_id :: string
  sb_passed :: bool
  sb_metrics_before :: "(string, rat) dict"
  sb_metrics_after :: "(string, rat) dict"
  sb_degradation_detected :: bool
  sb_test_duration :: rat
  sb_error_details :: "string option"

record constitutional_epoch =
  ep_epoch_id :: string
  ep_epoch_number :: nat
  ep_invariant_manifest :: invariant_manifest
  ep_predecessor_epoch_id :: "string option"
  ep_created_at :: rat
  ep_created_by :: string
  ep_reason :: string

record refoundation_proposal =
  rp_proposal_id :: string
  rp_status :: refoundation_status
  rp_current_epoch_id :: string
  rp_proposed_changes :: "(string, string) dict"
  rp_proposed_manifest :: invariant_manifest
  rp_justification :: string
  rp_risk_assessment :: string
  rp_rollback_plan :: string
  rp_proposer_id :: string
  rp_proposer_role :: string
  rp_legislative :: "refoundation_approval option"
  rp_executive :: "refoundation_approval option"
  rp_judicial :: "refoundation_approval option"
  rp_sandbox_results :: "sandbox_result option"
  rp_created_at :: rat
  rp_submitted_at :: "rat option"
  rp_approved_at :: "rat option"
  rp_activated_at :: "rat option"
  rp_new_epoch_id :: "string option"

record refoundation_engine =
  rf_proposals :: "(string, refoundation_proposal) dict"
  rf_epochs :: "constitutional_epoch list"
  rf_current_epoch :: "constitutional_epoch option"

datatype refoundation_error =
  NotHuman
| ShortJustification
| ProposalNotFound string
| WrongStatus refoundation_status
| InvalidRole string
| SelfApproval
| RoleAlreadyApproved string
| ApprovalsMissing
| ApprovalsRejected
| SandboxMissing
| SandboxFailed
| SandboxDegraded

definition MIN_JUSTIFICATION_LENGTH :: nat where
  "MIN_JUSTIFICATION_LENGTH = 50"

definition VALID_ROLES :: "string list" where
  "VALID_ROLES = [''legislative'', ''executive'', ''judicial'']"

section \<open>The engine\<close>

definition init_engine :: refoundation_engine where
  "init_engine = \<lparr>rf_proposals = [], rf_epochs = [], rf_current_epoch = None\<rparr>"

definition create_refoundation ::
  "string \<Rightarrow> rat \<Rightarrow> string \<Rightarrow> string \<Rightarrow> string \<Rightarrow> (string, string) dict \<Rightarrow> invariant_manifest \<Rightarrow>
   string \<Rightarrow> string \<Rightarrow> string \<Rightarrow> refoundation_engine \<Rightarrow>
   refoundation_engine \<times> (refoundation_error + refoundation_proposal)" where
  "create_refoundation uuid now proposer_id proposer_role current_epoch_id changes manifest
     justification risk rollback s =
     (if proposer_role \<noteq> ''human_operator'' then (s, Inl NotHuman)
      else if length justification < MIN_JUSTIFICATION_LENGTH then (s, Inl ShortJustification)
      else let p = \<lparr>rp_proposal_id = uuid, rp_status = RF_DRAFTED, rp_current_epoch_id = current_epoch_id,
                    rp_proposed_changes = changes, rp_proposed_manifest = manifest,
                    rp_justification = justification, rp_risk_assessment = risk,
                    rp_rollback_plan = rollback, rp_proposer_id = proposer_id,
                    rp_proposer_role = proposer_role, rp_legislative = None, rp_executive = None,
                    rp_judicial = None, rp_sandbox_results = None, rp_created_at = now,
                    rp_submitted_at = None, rp_approved_at = None, rp_activated_at = None,
                    rp_new_epoch_id = None\<rparr>
           in (s\<lparr>rf_proposals := dset uuid p (rf_proposals s)\<rparr>, Inr p))"

text \<open>The state with the updated proposal stored under the given identifier, and the proposal.\<close>

definition store_refoundation ::
  "string \<Rightarrow> refoundation_proposal \<Rightarrow> refoundation_engine \<Rightarrow>
   refoundation_engine \<times> (refoundation_error + refoundation_proposal)" where
  "store_refoundation pid p s = (s\<lparr>rf_proposals := dset pid p (rf_proposals s)\<rparr>, Inr p)"

definition submit_refoundation ::
  "rat \<Rightarrow> string \<Rightarrow> refoundation_engine \<Rightarrow>
   refoundation_engine \<times> (refoundation_error + refoundation_proposal)" where
  "submit_refoundation now pid s =
     (case dget (rf_proposals s) pid of
        None \<Rightarrow> (s, Inl (ProposalNotFound pid))
      | Some p \<Rightarrow>
          if rp_status p \<noteq> RF_DRAFTED then (s, Inl (WrongStatus (rp_status p)))
          else store_refoundation pid (p\<lparr>rp_status := RF_SUBMITTED, rp_submitted_at := Some now\<rparr>) s)"

text \<open>\<open>getattr(proposal, f"{role}_approval")\<close> and its update, for a valid role\<close>

definition approval_of :: "string \<Rightarrow> refoundation_proposal \<Rightarrow> refoundation_approval option" where
  "approval_of role p =
     (if role = ''legislative'' then rp_legislative p
      else if role = ''executive'' then rp_executive p else rp_judicial p)"

definition with_approval :: "string \<Rightarrow> refoundation_approval \<Rightarrow> refoundation_proposal \<Rightarrow> refoundation_proposal" where
  "with_approval role a p =
     (if role = ''legislative'' then p\<lparr>rp_legislative := Some a\<rparr>
      else if role = ''executive'' then p\<lparr>rp_executive := Some a\<rparr>
      else p\<lparr>rp_judicial := Some a\<rparr>)"

definition approves :: "refoundation_approval option \<Rightarrow> bool" where
  "approves x = (case x of None \<Rightarrow> False | Some a \<Rightarrow> ra_approved a)"

definition all_roles_approve :: "refoundation_proposal \<Rightarrow> bool" where
  "all_roles_approve p = (approves (rp_legislative p) \<and> approves (rp_executive p) \<and> approves (rp_judicial p))"

definition add_refoundation_approval ::
  "rat \<Rightarrow> string \<Rightarrow> string \<Rightarrow> string \<Rightarrow> bool \<Rightarrow> string \<Rightarrow> refoundation_engine \<Rightarrow>
   refoundation_engine \<times> (refoundation_error + refoundation_proposal)" where
  "add_refoundation_approval now pid role approver_id approved reasoning s =
     (case dget (rf_proposals s) pid of
        None \<Rightarrow> (s, Inl (ProposalNotFound pid))
      | Some p \<Rightarrow>
          if rp_status p \<notin> {RF_SUBMITTED, RF_UNDER_REVIEW} then (s, Inl (WrongStatus (rp_status p)))
          else if role \<notin> set VALID_ROLES then (s, Inl (InvalidRole role))
          else if approver_id = rp_proposer_id p then (s, Inl SelfApproval)
          else if approval_of role p \<noteq> None then (s, Inl (RoleAlreadyApproved role))
          else
            let a = \<lparr>ra_role = role, ra_approver_id = approver_id, ra_approved = approved,
                     ra_reasoning = reasoning, ra_approved_at = now\<rparr>;
                u = (with_approval role a p)
                      \<lparr>rp_status := if approved then RF_UNDER_REVIEW else RF_REJECTED\<rparr>;
                u' = if rp_status u \<noteq> RF_REJECTED \<and> all_roles_approve u
                     then (case rp_sandbox_results u of
                             Some r \<Rightarrow> if sb_passed r
                                       then u\<lparr>rp_status := RF_APPROVED, rp_approved_at := Some now\<rparr>
                                       else u\<lparr>rp_status := RF_SANDBOX_TESTING\<rparr>
                           | None \<Rightarrow> u\<lparr>rp_status := RF_SANDBOX_TESTING\<rparr>)
                     else u
            in store_refoundation pid u' s)"

definition record_sandbox_results ::
  "rat \<Rightarrow> string \<Rightarrow> sandbox_result \<Rightarrow> refoundation_engine \<Rightarrow>
   refoundation_engine \<times> (refoundation_error + refoundation_proposal)" where
  "record_sandbox_results now pid r s =
     (case dget (rf_proposals s) pid of
        None \<Rightarrow> (s, Inl (ProposalNotFound pid))
      | Some p \<Rightarrow>
          if rp_status p \<notin> {RF_UNDER_REVIEW, RF_SANDBOX_TESTING} then (s, Inl (WrongStatus (rp_status p)))
          else
            let u = p\<lparr>rp_sandbox_results := Some r\<rparr>;
                u' = if all_roles_approve p \<and> sb_passed r \<and> \<not> sb_degradation_detected r
                     then u\<lparr>rp_status := RF_APPROVED, rp_approved_at := Some now\<rparr>
                     else if \<not> sb_passed r \<or> sb_degradation_detected r
                     then u\<lparr>rp_status := RF_REJECTED\<rparr>
                     else u
            in store_refoundation pid u' s)"

text \<open>The checks of \<open>activate\<close> in their order\<close>

definition activation_error :: "refoundation_proposal \<Rightarrow> refoundation_error option" where
  "activation_error p =
     (if rp_status p \<noteq> RF_APPROVED then Some (WrongStatus (rp_status p))
      else if rp_legislative p = None \<or> rp_executive p = None \<or> rp_judicial p = None
      then Some ApprovalsMissing
      else if \<not> all_roles_approve p then Some ApprovalsRejected
      else case rp_sandbox_results p of
             None \<Rightarrow> Some SandboxMissing
           | Some r \<Rightarrow>
               if \<not> sb_passed r then Some SandboxFailed
               else if sb_degradation_detected r then Some SandboxDegraded
               else None)"

definition activate_refoundation ::
  "string \<Rightarrow> rat \<Rightarrow> string \<Rightarrow> refoundation_engine \<Rightarrow>
   refoundation_engine \<times> (refoundation_error + constitutional_epoch)" where
  "activate_refoundation uuid now pid s =
     (case dget (rf_proposals s) pid of
        None \<Rightarrow> (s, Inl (ProposalNotFound pid))
      | Some p \<Rightarrow>
          (case activation_error p of
             Some e \<Rightarrow> (s, Inl e)
           | None \<Rightarrow>
               let ep = \<lparr>ep_epoch_id = uuid,
                         ep_epoch_number = (case rf_current_epoch s of
                                              Some c \<Rightarrow> ep_epoch_number c + 1 | None \<Rightarrow> 1),
                         ep_invariant_manifest = rp_proposed_manifest p,
                         ep_predecessor_epoch_id = map_option ep_epoch_id (rf_current_epoch s),
                         ep_created_at = now,
                         ep_created_by = rp_proposer_id p,
                         ep_reason = rp_justification p\<rparr>;
                   u = p\<lparr>rp_status := RF_ACTIVATED, rp_activated_at := Some now,
                         rp_new_epoch_id := Some uuid\<rparr>
               in (s\<lparr>rf_proposals := dset pid u (rf_proposals s), rf_epochs := rf_epochs s @ [ep],
                     rf_current_epoch := Some ep\<rparr>, Inr ep)))"

definition get_current_epoch :: "refoundation_engine \<Rightarrow> constitutional_epoch option" where
  "get_current_epoch s = rf_current_epoch s"

definition get_epoch_history :: "refoundation_engine \<Rightarrow> constitutional_epoch list" where
  "get_epoch_history s = rf_epochs s"

definition get_refoundation :: "string \<Rightarrow> refoundation_engine \<Rightarrow> refoundation_proposal option" where
  "get_refoundation pid s = dget (rf_proposals s) pid"

section \<open>Steps\<close>

text \<open>
  One call of the engine, with identifiers that were not used before: a proposal's identifier is no key
  of the store, an epoch's is that of no epoch.
\<close>

inductive refoundation_step :: "refoundation_engine \<Rightarrow> refoundation_engine \<Rightarrow> bool" where
  create: "dget (rf_proposals s) uuid = None \<Longrightarrow>
    refoundation_step s (fst (create_refoundation uuid now who role cur changes mf just risk back s))"
| submit: "refoundation_step s (fst (submit_refoundation now pid s))"
| approve: "refoundation_step s (fst (add_refoundation_approval now pid role who approved why s))"
| sandbox: "refoundation_step s (fst (record_sandbox_results now pid r s))"
| activate: "uuid \<notin> ep_epoch_id ` set (rf_epochs s) \<Longrightarrow>
    refoundation_step s (fst (activate_refoundation uuid now pid s))"

inductive refoundation_reachable :: "refoundation_engine \<Rightarrow> bool" where
  reach_init: "refoundation_reachable init_engine"
| reach_step: "refoundation_reachable s \<Longrightarrow> refoundation_step s s' \<Longrightarrow> refoundation_reachable s'"

section \<open>What every proposal of a reachable state satisfies\<close>

definition role_approval_ok :: "string \<Rightarrow> string \<Rightarrow> refoundation_approval option \<Rightarrow> bool" where
  "role_approval_ok role proposer x =
     (case x of None \<Rightarrow> True | Some a \<Rightarrow> ra_role a = role \<and> ra_approver_id a \<noteq> proposer)"

definition proposal_ok :: "string \<Rightarrow> refoundation_proposal \<Rightarrow> bool" where
  "proposal_ok pid p \<longleftrightarrow>
     rp_proposal_id p = pid \<and> rp_proposer_role p = ''human_operator'' \<and>
     MIN_JUSTIFICATION_LENGTH \<le> length (rp_justification p) \<and>
     role_approval_ok ''legislative'' (rp_proposer_id p) (rp_legislative p) \<and>
     role_approval_ok ''executive'' (rp_proposer_id p) (rp_executive p) \<and>
     role_approval_ok ''judicial'' (rp_proposer_id p) (rp_judicial p)"

definition sandbox_clean :: "refoundation_proposal \<Rightarrow> bool" where
  "sandbox_clean p =
     (case rp_sandbox_results p of None \<Rightarrow> False | Some r \<Rightarrow> sb_passed r \<and> \<not> sb_degradation_detected r)"

definition fully_approved :: "refoundation_proposal \<Rightarrow> bool" where
  "fully_approved p \<longleftrightarrow> all_roles_approve p \<and> sandbox_clean p"

text \<open>Which parts of a proposal its status promises\<close>

definition status_ok :: "refoundation_proposal \<Rightarrow> bool" where
  "status_ok p \<longleftrightarrow>
     (rp_status p \<in> {RF_APPROVED, RF_ACTIVATED} \<longrightarrow> fully_approved p) \<and>
     (rp_status p \<in> {RF_DRAFTED, RF_SUBMITTED, RF_UNDER_REVIEW, RF_SANDBOX_TESTING} \<longrightarrow>
        rp_sandbox_results p = None \<or> sandbox_clean p) \<and>
     (rp_status p = RF_ACTIVATED \<longleftrightarrow> rp_new_epoch_id p \<noteq> None) \<and>
     rp_status p \<noteq> RF_ROLLED_BACK"

definition refoundation_invar :: "refoundation_engine \<Rightarrow> bool" where
  "refoundation_invar s \<longleftrightarrow>
     (\<forall>pid p. dget (rf_proposals s) pid = Some p \<longrightarrow> proposal_ok pid p \<and> status_ok p)"

lemma refoundation_invar_store:
  "refoundation_invar s \<Longrightarrow> proposal_ok pid p \<Longrightarrow> status_ok p \<Longrightarrow>
   refoundation_invar (s\<lparr>rf_proposals := dset pid p (rf_proposals s)\<rparr>)"
  by (simp add: refoundation_invar_def dict_simps)

lemma refoundation_invarD:
  assumes "refoundation_invar s" "dget (rf_proposals s) pid = Some p"
  shows "proposal_ok pid p" "status_ok p"
  using assms by (simp_all add: refoundation_invar_def)

lemmas refoundation_data =
  proposal_ok_def status_ok_def fully_approved_def sandbox_clean_def all_roles_approve_def approves_def
  role_approval_ok_def approval_of_def with_approval_def VALID_ROLES_def

lemma invar_init: "refoundation_invar init_engine"
  by (simp add: refoundation_invar_def init_engine_def)

lemma invar_create:
  "refoundation_invar s \<Longrightarrow>
   refoundation_invar (fst (create_refoundation uuid now who role cur changes mf just risk back s))"
  by (auto simp: create_refoundation_def Let_def refoundation_data intro!: refoundation_invar_store)

lemma invar_submit: "refoundation_invar s \<Longrightarrow> refoundation_invar (fst (submit_refoundation now pid s))"
proof (cases "dget (rf_proposals s) pid")
  case (Some p)
  assume inv: "refoundation_invar s"
  then have "proposal_ok pid p" "status_ok p"
    using Some by (auto dest: refoundation_invarD)
  then show ?thesis
    using inv Some
    by (auto simp: submit_refoundation_def store_refoundation_def intro!: refoundation_invar_store)
      (auto simp: proposal_ok_def status_ok_def sandbox_clean_def)
qed (simp add: submit_refoundation_def)

text \<open>The approved proposal of \<open>add_approval\<close> and that of \<open>record_sandbox_results\<close> keep the invariant.\<close>

lemma all_roles_approve_with:
  "all_roles_approve (with_approval role a p\<lparr>rp_status := st\<rparr>) = all_roles_approve (with_approval role a p)"
  by (simp add: all_roles_approve_def)

lemma with_approval_simps [simp]:
  "rp_sandbox_results (with_approval role a p) = rp_sandbox_results p"
  "rp_status (with_approval role a p) = rp_status p"
  "rp_new_epoch_id (with_approval role a p) = rp_new_epoch_id p"
  by (simp_all add: with_approval_def)

lemma proposal_ok_with_approval:
  "proposal_ok pid p \<Longrightarrow> ra_role a = role \<Longrightarrow> role \<in> set VALID_ROLES \<Longrightarrow>
   ra_approver_id a \<noteq> rp_proposer_id p \<Longrightarrow> proposal_ok pid (with_approval role a p)"
  by (auto simp: proposal_ok_def role_approval_ok_def with_approval_def VALID_ROLES_def split: option.splits)

lemma proposal_ok_update [simp]:
  "proposal_ok pid (p\<lparr>rp_status := st\<rparr>) = proposal_ok pid p"
  "proposal_ok pid (p\<lparr>rp_approved_at := t\<rparr>) = proposal_ok pid p"
  "proposal_ok pid (p\<lparr>rp_activated_at := t\<rparr>) = proposal_ok pid p"
  "proposal_ok pid (p\<lparr>rp_new_epoch_id := n\<rparr>) = proposal_ok pid p"
  "proposal_ok pid (p\<lparr>rp_sandbox_results := b\<rparr>) = proposal_ok pid p"
  by (simp_all add: proposal_ok_def)

lemma invar_approve:
  "refoundation_invar s \<Longrightarrow>
   refoundation_invar (fst (add_refoundation_approval now pid role who approved why s))"
proof (cases "dget (rf_proposals s) pid")
  case (Some p)
  assume inv: "refoundation_invar s"
  then have ok: "proposal_ok pid p" "status_ok p"
    using Some by (auto dest: refoundation_invarD)
  show ?thesis
    using inv Some ok
    by (auto simp: add_refoundation_approval_def store_refoundation_def Let_def proposal_ok_with_approval
        split: option.splits intro!: refoundation_invar_store)
      (auto simp: status_ok_def fully_approved_def sandbox_clean_def all_roles_approve_def)
qed (simp add: add_refoundation_approval_def)

lemma invar_sandbox:
  "refoundation_invar s \<Longrightarrow> refoundation_invar (fst (record_sandbox_results now pid r s))"
proof (cases "dget (rf_proposals s) pid")
  case (Some p)
  assume inv: "refoundation_invar s"
  then have ok: "proposal_ok pid p" "status_ok p"
    using Some by (auto dest: refoundation_invarD)
  show ?thesis
    using inv Some ok
    by (auto simp: record_sandbox_results_def store_refoundation_def Let_def intro!: refoundation_invar_store)
      (auto simp: status_ok_def fully_approved_def sandbox_clean_def all_roles_approve_def)
qed (simp add: record_sandbox_results_def)

text \<open>The double checks of \<open>activate\<close> never fire where the status is right.\<close>

lemma activation_error_invar:
  "status_ok p \<Longrightarrow>
   activation_error p = (if rp_status p = RF_APPROVED then None else Some (WrongStatus (rp_status p)))"
  by (auto simp: activation_error_def status_ok_def fully_approved_def sandbox_clean_def all_roles_approve_def
      approves_def split: option.splits)

lemma invar_activate:
  "refoundation_invar s \<Longrightarrow> refoundation_invar (fst (activate_refoundation uuid now pid s))"
proof (cases "dget (rf_proposals s) pid")
  case (Some p)
  assume inv: "refoundation_invar s"
  then have ok: "proposal_ok pid p" "status_ok p"
    using Some by (auto dest: refoundation_invarD)
  show ?thesis
  proof (cases "rp_status p = RF_APPROVED")
    case True
    then have "status_ok (p\<lparr>rp_status := RF_ACTIVATED, rp_activated_at := Some now, rp_new_epoch_id := Some uuid\<rparr>)"
      using ok by (simp add: status_ok_def fully_approved_def sandbox_clean_def all_roles_approve_def)
    then show ?thesis
      using True inv Some ok
      by (simp add: activate_refoundation_def activation_error_invar Let_def refoundation_invar_def dict_simps)
  qed (use inv Some ok in \<open>simp add: activate_refoundation_def activation_error_invar\<close>)
qed (simp add: activate_refoundation_def)

lemma refoundation_invar_step: "refoundation_step s s' \<Longrightarrow> refoundation_invar s \<Longrightarrow> refoundation_invar s'"
  by (induction rule: refoundation_step.induct)
    (simp_all add: invar_create invar_submit invar_approve invar_sandbox invar_activate)

lemma reachable_invar: "refoundation_reachable s \<Longrightarrow> refoundation_invar s"
  by (induction rule: refoundation_reachable.induct) (auto simp: invar_init intro: refoundation_invar_step)

section \<open>The history of epochs\<close>

text \<open>A decided proposal is never changed again: an activated one has its final form.\<close>

definition activated_as :: "refoundation_engine \<Rightarrow> constitutional_epoch \<Rightarrow> bool" where
  "activated_as s ep \<longleftrightarrow>
     (\<exists>pid p. dget (rf_proposals s) pid = Some p \<and> rp_status p = RF_ACTIVATED \<and>
        rp_new_epoch_id p = Some (ep_epoch_id ep) \<and> rp_proposed_manifest p = ep_invariant_manifest ep \<and>
        rp_proposer_id p = ep_created_by ep \<and> rp_justification p = ep_reason ep)"

text \<open>Numbers run from 1, each epoch names the one before it, and the last one is the current one.\<close>

fun chained :: "constitutional_epoch option \<Rightarrow> nat \<Rightarrow> constitutional_epoch list \<Rightarrow> bool" where
  "chained prev n [] = True"
| "chained prev n (e # es) =
     (ep_epoch_number e = n \<and> ep_predecessor_epoch_id e = map_option ep_epoch_id prev \<and>
      chained (Some e) (Suc n) es)"

definition last_epoch :: "constitutional_epoch list \<Rightarrow> constitutional_epoch option" where
  "last_epoch es = (if es = [] then None else Some (last es))"

definition history_invar :: "refoundation_engine \<Rightarrow> bool" where
  "history_invar s \<longleftrightarrow>
     rf_current_epoch s = last_epoch (rf_epochs s) \<and> chained None 1 (rf_epochs s) \<and>
     distinct (map ep_epoch_id (rf_epochs s)) \<and> (\<forall>ep \<in> set (rf_epochs s). activated_as s ep)"

lemma chained_snoc:
  "chained prev n (es @ [e]) \<longleftrightarrow>
     chained prev n es \<and> ep_epoch_number e = n + length es \<and>
     ep_predecessor_epoch_id e = map_option ep_epoch_id (if es = [] then prev else Some (last es))"
  by (induction es arbitrary: prev n) auto

lemma chained_last: "chained prev n es \<Longrightarrow> es \<noteq> [] \<Longrightarrow> Suc (ep_epoch_number (last es)) = n + length es"
  by (induction es arbitrary: prev n) fastforce+

text \<open>Every call but \<open>activate\<close> keeps the epochs and only touches proposals that are not activated.\<close>

definition keeps_history :: "refoundation_engine \<Rightarrow> refoundation_engine \<Rightarrow> bool" where
  "keeps_history s s' \<longleftrightarrow>
     rf_epochs s' = rf_epochs s \<and> rf_current_epoch s' = rf_current_epoch s \<and>
     (\<forall>pid p. dget (rf_proposals s) pid = Some p \<and> rp_status p = RF_ACTIVATED \<longrightarrow>
        dget (rf_proposals s') pid = Some p)"

lemma keeps_history_refl [simp]: "keeps_history s s"
  by (simp add: keeps_history_def)

lemma keeps_history_store:
  "(\<And>p. dget (rf_proposals s) pid = Some p \<Longrightarrow> rp_status p \<noteq> RF_ACTIVATED) \<Longrightarrow>
   keeps_history s (s\<lparr>rf_proposals := dset pid u (rf_proposals s)\<rparr>)"
  by (auto simp: keeps_history_def dict_simps)

lemma calls_keep_history:
  "dget (rf_proposals s) uuid = None \<Longrightarrow>
     keeps_history s (fst (create_refoundation uuid now who role cur changes mf just risk back s))"
  "keeps_history s (fst (submit_refoundation now pid s))"
  "keeps_history s (fst (add_refoundation_approval now pid role who approved why s))"
  "keeps_history s (fst (record_sandbox_results now pid r s))"
  by (auto simp: create_refoundation_def submit_refoundation_def add_refoundation_approval_def
      record_sandbox_results_def store_refoundation_def Let_def split: option.split
      intro!: keeps_history_store)

lemma history_kept: "history_invar s \<Longrightarrow> keeps_history s s' \<Longrightarrow> history_invar s'"
  unfolding history_invar_def keeps_history_def activated_as_def by metis

lemma history_activate:
  assumes "history_invar s" "refoundation_invar s" and fresh: "uuid \<notin> ep_epoch_id ` set (rf_epochs s)"
  shows "history_invar (fst (activate_refoundation uuid now pid s))"
proof (cases "dget (rf_proposals s) pid")
  case None
  then show ?thesis using assms by (simp add: activate_refoundation_def)
next
  case (Some p)
  note st = refoundation_invarD(2) [OF assms(2) Some]
  show ?thesis
  proof (cases "rp_status p = RF_APPROVED")
    case False
    then show ?thesis using assms Some st by (simp add: activate_refoundation_def activation_error_invar)
  next
    case True
    obtain ep u where
      call: "fst (activate_refoundation uuid now pid s) =
               s\<lparr>rf_proposals := dset pid u (rf_proposals s), rf_epochs := rf_epochs s @ [ep],
                 rf_current_epoch := Some ep\<rparr>"
      and u: "rp_status u = RF_ACTIVATED" "rp_new_epoch_id u = Some (ep_epoch_id ep)"
             "rp_proposed_manifest u = ep_invariant_manifest ep" "rp_proposer_id u = ep_created_by ep"
             "rp_justification u = ep_reason ep"
      and ep: "ep_epoch_id ep = uuid"
              "ep_epoch_number ep = (case rf_current_epoch s of Some c \<Rightarrow> ep_epoch_number c + 1 | None \<Rightarrow> 1)"
              "ep_predecessor_epoch_id ep = map_option ep_epoch_id (rf_current_epoch s)"
      using True Some st
      by (simp add: activate_refoundation_def activation_error_invar Let_def)
    have old: "activated_as (fst (activate_refoundation uuid now pid s)) e" if "e \<in> set (rf_epochs s)" for e
    proof -
      from that assms(1) obtain q pid' where q: "dget (rf_proposals s) pid' = Some q" "rp_status q = RF_ACTIVATED"
        "rp_new_epoch_id q = Some (ep_epoch_id e)" "rp_proposed_manifest q = ep_invariant_manifest e"
        "rp_proposer_id q = ep_created_by e" "rp_justification q = ep_reason e"
        unfolding history_invar_def activated_as_def by blast
      then have "pid' \<noteq> pid" using True Some by auto
      then show ?thesis unfolding activated_as_def call using q by (auto simp: dict_simps)
    qed
    have new: "activated_as (fst (activate_refoundation uuid now pid s)) ep"
      unfolding activated_as_def call using u by (auto simp: dict_simps)
    have "ep_epoch_number ep = 1 + length (rf_epochs s)"
      using ep(2) assms(1) chained_last [of None 1 "rf_epochs s"]
      by (auto simp: history_invar_def last_epoch_def)
    then have "chained None 1 (rf_epochs s @ [ep])"
      using assms(1) ep(3) by (auto simp: chained_snoc history_invar_def last_epoch_def)
    then show ?thesis
      using assms(1) old new ep(1) fresh by (auto simp: history_invar_def call last_epoch_def)
  qed
qed

lemma history_step:
  "refoundation_step s s' \<Longrightarrow> refoundation_invar s \<Longrightarrow> history_invar s \<Longrightarrow> history_invar s'"
  by (induction rule: refoundation_step.induct)
    (auto intro: history_kept calls_keep_history history_activate)

lemma reachable_history: "refoundation_reachable s \<Longrightarrow> history_invar s"
proof (induction rule: refoundation_reachable.induct)
  case reach_init
  then show ?case by (simp add: history_invar_def init_engine_def last_epoch_def)
next
  case (reach_step s s')
  then show ?case using history_step reachable_invar by blast
qed

end
