(* ===== verification/Refoundation_Properties.thy ===== *)
theory Refoundation_Properties
  imports Refoundation
begin

text \<open>
  Properties of the refoundation engine: the history of epochs and what each epoch rests on, when an
  activation happens, and what it does not look at.
\<close>

section \<open>The history\<close>

lemma chained_nth:
  "chained prev n es \<Longrightarrow> i < length es \<Longrightarrow>
   ep_epoch_number (es ! i) = n + i \<and>
   ep_predecessor_epoch_id (es ! i) = map_option ep_epoch_id (if i = 0 then prev else Some (es ! (i - 1)))"
proof (induction es arbitrary: prev n i)
  case (Cons e es)
  show ?case
  proof (cases i)
    case (Suc j)
    with Cons.prems have "chained (Some e) (Suc n) es" "j < length es" by auto
    from Cons.IH [OF this] show ?thesis using Suc by (cases j) auto
  qed (use Cons.prems in simp)
qed simp

definition signed_by :: "string \<Rightarrow> string \<Rightarrow> refoundation_approval option \<Rightarrow> bool" where
  "signed_by role proposer x \<longleftrightarrow>
     (\<exists>a. x = Some a \<and> ra_approved a \<and> ra_role a = role \<and> ra_approver_id a \<noteq> proposer)"

text \<open>C20: In every reachable state the epochs are numbered from 1 without gaps, each names the one before it,
  the current epoch is the last one, and each comes from an activated proposal of a human operator with a
  justification of at least 50 characters, approved in each of the three roles by someone other than the
  proposer, and with a sandbox run that passed without degradation.\<close>

theorem epochs_are_justified:
  assumes "refoundation_reachable s" and "i < length (get_epoch_history s)"
  shows "ep_epoch_number (get_epoch_history s ! i) = i + 1 \<and>
    ep_predecessor_epoch_id (get_epoch_history s ! i) =
      (if i = 0 then None else Some (ep_epoch_id (get_epoch_history s ! (i - 1)))) \<and>
    get_current_epoch s = Some (last (get_epoch_history s)) \<and>
    (\<exists>pid p r. get_refoundation pid s = Some p \<and> rp_status p = RF_ACTIVATED \<and>
       rp_new_epoch_id p = Some (ep_epoch_id (get_epoch_history s ! i)) \<and>
       rp_proposed_manifest p = ep_invariant_manifest (get_epoch_history s ! i) \<and>
       rp_proposer_role p = ''human_operator'' \<and> 50 \<le> length (rp_justification p) \<and>
       signed_by ''legislative'' (rp_proposer_id p) (rp_legislative p) \<and>
       signed_by ''executive'' (rp_proposer_id p) (rp_executive p) \<and>
       signed_by ''judicial'' (rp_proposer_id p) (rp_judicial p) \<and>
       rp_sandbox_results p = Some r \<and> sb_passed r \<and> \<not> sb_degradation_detected r)"
proof -
  let ?es = "rf_epochs s"
  note hist = reachable_history [OF assms(1), unfolded history_invar_def]
  have i: "i < length ?es" using assms(2) by (simp add: get_epoch_history_def)
  then have nonempty: "?es \<noteq> []" by auto
  have "activated_as s (?es ! i)" using hist i by simp
  then obtain pid p where p: "dget (rf_proposals s) pid = Some p" "rp_status p = RF_ACTIVATED"
    "rp_new_epoch_id p = Some (ep_epoch_id (?es ! i))" "rp_proposed_manifest p = ep_invariant_manifest (?es ! i)"
    unfolding activated_as_def by blast
  note ok = refoundation_invarD [OF reachable_invar [OF assms(1)] p(1)]
  have full: "fully_approved p" using ok(2) p(2) by (simp add: status_ok_def)
  have signed: "signed_by ''legislative'' (rp_proposer_id p) (rp_legislative p)"
    "signed_by ''executive'' (rp_proposer_id p) (rp_executive p)"
    "signed_by ''judicial'' (rp_proposer_id p) (rp_judicial p)"
    using ok(1) full
    by (auto simp: proposal_ok_def role_approval_ok_def fully_approved_def all_roles_approve_def approves_def
        signed_by_def split: option.splits)
  obtain r where "rp_sandbox_results p = Some r" "sb_passed r" "\<not> sb_degradation_detected r"
    using full by (auto simp: fully_approved_def sandbox_clean_def split: option.splits)
  moreover have "rp_proposer_role p = ''human_operator''" "50 \<le> length (rp_justification p)"
    using ok(1) by (simp_all add: proposal_ok_def MIN_JUSTIFICATION_LENGTH_def)
  ultimately have "\<exists>pid p r. get_refoundation pid s = Some p \<and> rp_status p = RF_ACTIVATED \<and>
       rp_new_epoch_id p = Some (ep_epoch_id (get_epoch_history s ! i)) \<and>
       rp_proposed_manifest p = ep_invariant_manifest (get_epoch_history s ! i) \<and>
       rp_proposer_role p = ''human_operator'' \<and> 50 \<le> length (rp_justification p) \<and>
       signed_by ''legislative'' (rp_proposer_id p) (rp_legislative p) \<and>
       signed_by ''executive'' (rp_proposer_id p) (rp_executive p) \<and>
       signed_by ''judicial'' (rp_proposer_id p) (rp_judicial p) \<and>
       rp_sandbox_results p = Some r \<and> sb_passed r \<and> \<not> sb_degradation_detected r"
    using p signed unfolding get_refoundation_def get_epoch_history_def by blast
  moreover have "chained None 1 ?es" using hist by blast
  ultimately show ?thesis
    using chained_nth [of None 1 ?es i] i hist nonempty
    by (simp add: get_epoch_history_def get_current_epoch_def last_epoch_def)
qed

text \<open>A run: drafted, submitted, approved in the three roles by one and the same person, tested, activated.\<close>

definition demo_manifest :: invariant_manifest where
  "demo_manifest = \<lparr>mf_manifest_version = ''1.0.0'', mf_constitutional_hash = [], mf_invariant_hash = [],
     mf_invariants = []\<rparr>"

definition demo_sandbox :: sandbox_result where
  "demo_sandbox = \<lparr>sb_sandbox_id = ''s'', sb_passed = True, sb_metrics_before = [], sb_metrics_after = [],
     sb_degradation_detected = False, sb_test_duration = 1, sb_error_details = None\<rparr>"

definition demo_calls :: "(refoundation_engine \<Rightarrow> refoundation_engine) list" where
  "demo_calls =
     [\<lambda>s. fst (create_refoundation ''p'' 0 ''alice'' ''human_operator'' ''e0'' [] demo_manifest
               (replicate 50 CHR ''x'') [] [] s),
      \<lambda>s. fst (submit_refoundation 1 ''p'' s),
      \<lambda>s. fst (add_refoundation_approval 2 ''p'' ''legislative'' ''bob'' True [] s),
      \<lambda>s. fst (add_refoundation_approval 3 ''p'' ''executive'' ''bob'' True [] s),
      \<lambda>s. fst (add_refoundation_approval 4 ''p'' ''judicial'' ''bob'' True [] s),
      \<lambda>s. fst (record_sandbox_results 5 ''p'' demo_sandbox s),
      \<lambda>s. fst (activate_refoundation ''e1'' 6 ''p'' s)]"

definition demo_state :: refoundation_engine where
  "demo_state = fold (\<lambda>f s. f s) demo_calls init_engine"

lemmas demo_defs = demo_state_def demo_calls_def create_refoundation_def submit_refoundation_def
  add_refoundation_approval_def record_sandbox_results_def activate_refoundation_def activation_error_def
  store_refoundation_def init_engine_def MIN_JUSTIFICATION_LENGTH_def VALID_ROLES_def approval_of_def
  with_approval_def all_roles_approve_def approves_def demo_sandbox_def Let_def

lemma demo_activated: "get_epoch_history demo_state \<noteq> [] \<and> length (get_epoch_history demo_state) = 1"
  by (simp add: demo_defs get_epoch_history_def)

text \<open>A call that does not activate leaves the list of epochs as it is.\<close>

lemma calls_keep_epochs:
  "rf_epochs (fst (create_refoundation uuid now who role cur changes mf just risk back s)) = rf_epochs s"
  "rf_epochs (fst (submit_refoundation now pid s)) = rf_epochs s"
  "rf_epochs (fst (add_refoundation_approval now pid role who approved why s)) = rf_epochs s"
  "rf_epochs (fst (record_sandbox_results now pid r s)) = rf_epochs s"
  using calls_keep_history(2-4) [of s]
  by (auto simp: keeps_history_def create_refoundation_def Let_def)

lemma demo_reachable: "refoundation_reachable demo_state"
  unfolding demo_state_def demo_calls_def fold.simps comp_def id_def
  by (rule reach_step [OF _ refoundation_step.activate],
      rule reach_step [OF _ refoundation_step.sandbox], rule reach_step [OF _ refoundation_step.approve],
      rule reach_step [OF _ refoundation_step.approve], rule reach_step [OF _ refoundation_step.approve],
      rule reach_step [OF _ refoundation_step.submit], rule reach_step [OF reach_init refoundation_step.create])
    (simp_all add: calls_keep_epochs, simp_all add: init_engine_def)

theorem epochs_are_justified_witness:
  "ep_epoch_number (get_epoch_history demo_state ! 0) = 1 \<and>
   (\<exists>pid p. get_refoundation pid demo_state = Some p \<and> rp_status p = RF_ACTIVATED)"
  using epochs_are_justified [OF demo_reachable, of 0] demo_activated by auto

section \<open>Activation\<close>

text \<open>In every reachable state \<open>activate\<close> appends an epoch exactly when the proposal exists with the status
  APPROVED; otherwise it changes nothing and names the missing proposal or the wrong status. The five
  further checks it makes never decide anything. The epoch that a proposal names as the current one is
  not looked at: naming any other one gives the same epoch.\<close>

theorem activation_exactly_when_approved:
  assumes "refoundation_reachable s"
  shows "(case dget (rf_proposals s) pid of
       None \<Rightarrow> activate_refoundation uuid now pid s = (s, Inl (ProposalNotFound pid))
     | Some p \<Rightarrow>
         if rp_status p = RF_APPROVED
         then \<exists>s' ep. activate_refoundation uuid now pid s = (s', Inr ep) \<and>
                get_epoch_history s' = get_epoch_history s @ [ep] \<and>
                ep_invariant_manifest ep = rp_proposed_manifest p \<and>
                ep_epoch_number ep = length (get_epoch_history s) + 1 \<and>
                snd (activate_refoundation uuid now pid
                  (s\<lparr>rf_proposals := dset pid (p\<lparr>rp_current_epoch_id := other\<rparr>) (rf_proposals s)\<rparr>)) = Inr ep
         else activate_refoundation uuid now pid s = (s, Inl (WrongStatus (rp_status p))))"
proof (cases "dget (rf_proposals s) pid")
  case None
  then show ?thesis by (simp add: activate_refoundation_def)
next
  case (Some p)
  note ok = refoundation_invarD [OF reachable_invar [OF assms] Some]
  note err = activation_error_invar [OF ok(2)]
  have other: "activation_error (p\<lparr>rp_current_epoch_id := other\<rparr>) = activation_error p"
    by (simp add: activation_error_def all_roles_approve_def)
  note hist = reachable_history [OF assms, unfolded history_invar_def]
  have "chained None 1 (rf_epochs s)" using hist by blast
  then have number: "(case rf_current_epoch s of Some c \<Rightarrow> ep_epoch_number c + 1 | None \<Rightarrow> 1) = length (rf_epochs s) + 1"
    using hist chained_last [of None 1 "rf_epochs s"] by (auto simp: last_epoch_def)
  show ?thesis
    using Some err other number
    by (auto simp: activate_refoundation_def Let_def get_epoch_history_def dict_simps)
qed

theorem activation_exactly_when_approved_witness:
  "activate_refoundation ''e2'' 7 ''p'' demo_state = (demo_state, Inl (WrongStatus RF_ACTIVATED))"
proof -
  obtain p where "dget (rf_proposals demo_state) ''p'' = Some p" "rp_status p = RF_ACTIVATED"
    by (simp add: demo_defs)
  then show ?thesis
    using activation_exactly_when_approved [OF demo_reachable, where pid = "''p''" and uuid = "''e2''" and now = 7]
    by simp
qed

text \<open>One person can give the approvals of all three roles.\<close>

theorem one_person_approves_in_three_roles:
  "\<exists>s p. refoundation_reachable s \<and> get_refoundation ''p'' s = Some p \<and> rp_status p = RF_ACTIVATED \<and>
     map_option ra_approver_id (rp_legislative p) = Some ''bob'' \<and>
     map_option ra_approver_id (rp_executive p) = Some ''bob'' \<and>
     map_option ra_approver_id (rp_judicial p) = Some ''bob''"
  by (intro exI [of _ demo_state] conjI exI [of _ "the (get_refoundation ''p'' demo_state)"] demo_reachable)
    (simp_all add: demo_defs get_refoundation_def)

end
