(* ===== verification/Saga_Workflow.thy ===== *)
theory Saga_Workflow
  imports Prelude
begin

text \<open>
  \<^verbatim>\<open>src/deliberation_layer/workflows/constitutional_saga.py\<close>: a saga runs its steps in order, registers the
  compensation of each step before the step runs, and on a failure runs the registered compensations in
  reverse order. Everything the saga calls (the bodies of the steps and of the compensations, the
  persistence provider) is a function on a state \<open>'w\<close> of the world, which it returns updated together
  with a value or an exception.

  An exception is one of \<open>_CONSTITUTIONAL_SAGA_OPERATION_ERRORS\<close> (\<open>Op\<close>), the \<open>TimeoutError\<close> of
  \<open>wait_for\<close> (\<open>Timed\<close>, in that tuple too), or any other exception (\<open>Foreign\<close>), which no handler of the
  module catches. Clock readings and durations of the steps are not modelled.
\<close>

section \<open>Data\<close>

datatype saga_status =
  SagaPending | SagaExecuting | SagaCompleted | SagaCompensating | SagaCompensated | SagaFailed
| SagaPartiallyCompensated

fun saga_status_value :: "saga_status \<Rightarrow> string" where
  "saga_status_value SagaPending = ''pending''"
| "saga_status_value SagaExecuting = ''executing''"
| "saga_status_value SagaCompleted = ''completed''"
| "saga_status_value SagaCompensating = ''compensating''"
| "saga_status_value SagaCompensated = ''compensated''"
| "saga_status_value SagaFailed = ''failed''"
| "saga_status_value SagaPartiallyCompensated = ''partially_compensated''"

definition saga_statuses :: "saga_status list" where
  "saga_statuses = [SagaPending, SagaExecuting, SagaCompleted, SagaCompensating, SagaCompensated,
     SagaFailed, SagaPartiallyCompensated]"

datatype step_status =
  StepPending | StepExecuting | StepCompleted | StepFailed | StepCompensating | StepCompensated
| StepCompensationFailed

datatype saga_exn = Op string | Timed | Foreign string

text \<open>Whether \<open>except _CONSTITUTIONAL_SAGA_OPERATION_ERRORS\<close> catches it, and \<open>str(e)\<close>\<close>

fun caught :: "saga_exn \<Rightarrow> bool" where
  "caught (Op _) = True"
| "caught Timed = True"
| "caught (Foreign _) = False"

fun exn_text :: "saga_exn \<Rightarrow> string" where
  "exn_text (Op s) = s"
| "exn_text Timed = []"
| "exn_text (Foreign s) = s"

record compensation_input =
  ci_saga_id :: string
  ci_compensation_name :: string
  ci_attempt :: nat
  ci_context :: json_dict
  ci_idempotency_key :: string

record 'w saga_compensation =
  cp_name :: string
  cp_execute :: "compensation_input \<Rightarrow> 'w \<Rightarrow> 'w \<times> (saga_exn + bool)"
  cp_description :: string
  cp_idempotency_key :: "string option"
  cp_max_retries :: nat

record step_input =
  si_saga_id :: string
  si_step_name :: string
  si_attempt :: nat
  si_context :: json_dict
  si_metadata :: json_dict
  si_constitutional_hash :: string

record 'w saga_step =
  st_name :: string
  st_execute :: "step_input \<Rightarrow> 'w \<Rightarrow> 'w \<times> (saga_exn + json)"
  st_compensation :: "'w saga_compensation option"
  st_description :: string
  st_timeout_seconds :: nat
  st_max_retries :: nat
  st_is_optional :: bool
  st_status :: step_status
  st_result :: "json option"
  st_error :: "string option"

record saga_context =
  sc_saga_id :: string
  sc_constitutional_hash :: string
  sc_tenant_id :: "string option"
  sc_correlation_id :: "string option"
  sc_step_results :: json_dict
  sc_metadata :: json_dict
  sc_errors :: "string list"

definition saga_context :: "string \<Rightarrow> saga_context" where
  "saga_context sid = \<lparr>sc_saga_id = sid, sc_constitutional_hash = CONSTITUTIONAL_HASH,
     sc_tenant_id = None, sc_correlation_id = None, sc_step_results = [], sc_metadata = [], sc_errors = []\<rparr>"

definition get_step_result :: "string \<Rightarrow> saga_context \<Rightarrow> json option" where
  "get_step_result name c = dget (sc_step_results c) name"

definition set_step_result :: "string \<Rightarrow> json \<Rightarrow> saga_context \<Rightarrow> saga_context" where
  "set_step_result name v c = c\<lparr>sc_step_results := dset name v (sc_step_results c)\<rparr>"

text \<open>\<open>SagaState\<close>, what a persistence provider stores\<close>

record saga_state =
  ss_saga_id :: string
  ss_status :: saga_status
  ss_completed_steps :: "string list"
  ss_failed_step :: "string option"
  ss_compensated_steps :: "string list"
  ss_failed_compensations :: "string list"
  ss_context :: json_dict
  ss_version :: string
  ss_updated_at :: rat

record saga_result =
  sr_saga_id :: string
  sr_status :: saga_status
  sr_completed_steps :: "string list"
  sr_failed_step :: "string option"
  sr_compensated_steps :: "string list"
  sr_failed_compensations :: "string list"
  sr_context :: saga_context
  sr_version :: string
  sr_constitutional_hash :: string
  sr_errors :: "string list"

section \<open>Serialised states\<close>

definition state_to_json :: "saga_state \<Rightarrow> json" where
  "state_to_json s = JObj
     [(''saga_id'', JStr (ss_saga_id s)),
      (''status'', JStr (saga_status_value (ss_status s))),
      (''completed_steps'', JList (map JStr (ss_completed_steps s))),
      (''failed_step'', jstr_option (ss_failed_step s)),
      (''compensated_steps'', JList (map JStr (ss_compensated_steps s))),
      (''failed_compensations'', JList (map JStr (ss_failed_compensations s))),
      (''context'', JObj (ss_context s)),
      (''version'', JStr (ss_version s)),
      (''updated_at'', JTime (ss_updated_at s))]"

fun strings_of :: "json list \<Rightarrow> string list option" where
  "strings_of [] = Some []"
| "strings_of (JStr s # js) = map_option ((#) s) (strings_of js)"
| "strings_of (_ # js) = None"

definition json_strings :: "json option \<Rightarrow> string list option" where
  "json_strings j = (case j of Some (JList js) \<Rightarrow> strings_of js | _ \<Rightarrow> None)"

definition json_string :: "json option \<Rightarrow> string option" where
  "json_string j = (case j of Some (JStr s) \<Rightarrow> Some s | _ \<Rightarrow> None)"

text \<open>
  \<open>from_json\<close> of a document with the types \<open>to_json\<close> writes; \<open>None\<close> is the exception of anything else
  (the \<open>KeyError\<close> of a status that is missing, the \<open>ValueError\<close> of one that is unknown).
\<close>

definition state_from_json :: "json \<Rightarrow> saga_state option" where
  "state_from_json j =
     (case j of
        JObj d \<Rightarrow>
          (case (json_string (dget d ''saga_id''),
                 Option.bind (json_string (dget d ''status'')) (enum_of saga_status_value saga_statuses),
                 json_strings (dget d ''completed_steps''), dget d ''failed_step'',
                 json_strings (dget d ''compensated_steps''),
                 json_strings (dget d ''failed_compensations''), dget d ''context'',
                 json_string (dget d ''version''), dget d ''updated_at'') of
             (Some sid, Some st, Some done_steps, Some fs, Some undone, Some bad, Some (JObj c), Some v,
              Some (JTime t)) \<Rightarrow>
               (case fs of
                  JNull \<Rightarrow> Some \<lparr>ss_saga_id = sid, ss_status = st, ss_completed_steps = done_steps,
                             ss_failed_step = None, ss_compensated_steps = undone,
                             ss_failed_compensations = bad, ss_context = c, ss_version = v, ss_updated_at = t\<rparr>
                | JStr f \<Rightarrow> Some \<lparr>ss_saga_id = sid, ss_status = st, ss_completed_steps = done_steps,
                             ss_failed_step = Some f, ss_compensated_steps = undone,
                             ss_failed_compensations = bad, ss_context = c, ss_version = v, ss_updated_at = t\<rparr>
                | _ \<Rightarrow> None)
           | _ \<Rightarrow> None)
      | _ \<Rightarrow> None)"

lemma strings_of_map [simp]: "strings_of (map JStr xs) = Some xs"
  by (induction xs) simp_all

lemma saga_status_of_value [simp]: "enum_of saga_status_value saga_statuses (saga_status_value st) = Some st"
  by (cases st) (simp_all add: enum_of_def saga_statuses_def)

section \<open>The workflow\<close>

record 'w saga =
  sg_world :: 'w
  sg_saga_id :: string
  sg_version :: string
  sg_persistence :: "(saga_state \<Rightarrow> 'w \<Rightarrow> 'w \<times> (saga_exn + unit)) option"
  sg_steps :: "'w saga_step list"
  sg_compensations :: "'w saga_compensation list"
  sg_status :: saga_status
  sg_completed_steps :: "string list"
  sg_failed_step :: "string option"
  sg_compensated_steps :: "string list"
  sg_failed_compensations :: "string list"
  sg_context :: saga_context

definition init_saga ::
  "'w \<Rightarrow> string \<Rightarrow> (saga_state \<Rightarrow> 'w \<Rightarrow> 'w \<times> (saga_exn + unit)) option \<Rightarrow> string \<Rightarrow> 'w saga" where
  "init_saga w sid persistence version =
     \<lparr>sg_world = w, sg_saga_id = sid, sg_version = version, sg_persistence = persistence, sg_steps = [],
      sg_compensations = [], sg_status = SagaPending, sg_completed_steps = [], sg_failed_step = None,
      sg_compensated_steps = [], sg_failed_compensations = [], sg_context = saga_context sid\<rparr>"

definition add_step :: "'w saga_step \<Rightarrow> 'w saga \<Rightarrow> 'w saga" where
  "add_step st s = s\<lparr>sg_steps := sg_steps s @ [st]\<rparr>"

text \<open>The clock of \<open>updated_at\<close> is read as 0: no code of the module uses it.\<close>

definition current_state :: "'w saga \<Rightarrow> saga_state" where
  "current_state s =
     \<lparr>ss_saga_id = sg_saga_id s, ss_status = sg_status s, ss_completed_steps = sg_completed_steps s,
      ss_failed_step = sg_failed_step s, ss_compensated_steps = sg_compensated_steps s,
      ss_failed_compensations = sg_failed_compensations s, ss_context = sc_step_results (sg_context s),
      ss_version = sg_version s, ss_updated_at = 0\<rparr>"

definition save_current_state :: "'w saga \<Rightarrow> 'w saga \<times> (saga_exn + unit)" where
  "save_current_state s =
     (case sg_persistence s of
        None \<Rightarrow> (s, Inr ())
      | Some save \<Rightarrow> (let (w, r) = save (current_state s) (sg_world s) in (s\<lparr>sg_world := w\<rparr>, r)))"

definition add_saga_error :: "string \<Rightarrow> 'w saga \<Rightarrow> 'w saga" where
  "add_saga_error e s = s\<lparr>sg_context := (sg_context s)\<lparr>sc_errors := sc_errors (sg_context s) @ [e]\<rparr>\<rparr>"

text \<open>
  The loop of \<open>_execute_step\<close>: \<open>n\<close> attempts are left, \<open>k\<close> have been made. The result is the saga, the step
  and either the exception that leaves the method or what it returns. \<open>fmt_nat\<close> prints the timeout.
\<close>

definition step_error_text :: "(nat \<Rightarrow> string) \<Rightarrow> 'w saga_step \<Rightarrow> saga_exn \<Rightarrow> string" where
  "step_error_text fmt_nat st e =
     (case e of Timed \<Rightarrow> ''Timeout after '' @ fmt_nat (st_timeout_seconds st) @ ''s'' | _ \<Rightarrow> exn_text e)"

fun py_optional_text :: "string option \<Rightarrow> string" where
  "py_optional_text None = ''None''"
| "py_optional_text (Some s) = s"

definition step_input_of :: "'w saga_step \<Rightarrow> nat \<Rightarrow> 'w saga \<Rightarrow> step_input" where
  "step_input_of st k s =
     \<lparr>si_saga_id = sg_saga_id s, si_step_name = st_name st, si_attempt = k + 1,
      si_context = sc_step_results (sg_context s), si_metadata = sc_metadata (sg_context s),
      si_constitutional_hash = sc_constitutional_hash (sg_context s)\<rparr>"

definition step_done :: "'w saga_step \<Rightarrow> json \<Rightarrow> 'w saga \<Rightarrow> 'w saga" where
  "step_done st v s = s\<lparr>sg_context := set_step_result (st_name st) v (sg_context s),
     sg_completed_steps := sg_completed_steps s @ [st_name st]\<rparr>"

fun attempt_step ::
  "(nat \<Rightarrow> string) \<Rightarrow> nat \<Rightarrow> nat \<Rightarrow> 'w saga_step \<Rightarrow> 'w saga \<Rightarrow>
   'w saga \<times> 'w saga_step \<times> (saga_exn + bool)" where
  "attempt_step fmt 0 k st s =
     (add_saga_error (''Step '' @ quoted (st_name st) @ '' failed: '' @ py_optional_text (st_error st)) s,
      st\<lparr>st_status := StepFailed\<rparr>, Inr False)"
| "attempt_step fmt (Suc n) k st s =
     (let (w, r) = st_execute st (step_input_of st k s) (sg_world s);
          s1 = s\<lparr>sg_world := w\<rparr>
      in case r of
           Inl e \<Rightarrow>
             if caught e
             then attempt_step fmt n (Suc k) (st\<lparr>st_error := Some (step_error_text fmt st e)\<rparr>) s1
             else (s1, st, Inl e)
         | Inr v \<Rightarrow>
             (let st1 = st\<lparr>st_result := Some v, st_status := StepCompleted\<rparr>;
                  (s2, saved) = save_current_state (step_done st v s1)
              in case saved of
                   Inr _ \<Rightarrow> (s2, st1, Inr True)
                 | Inl e \<Rightarrow>
                     if caught e
                     then attempt_step fmt n (Suc k) (st1\<lparr>st_error := Some (step_error_text fmt st e)\<rparr>) s2
                     else (s2, st1, Inl e)))"

definition register_compensation :: "'w saga_step \<Rightarrow> 'w saga \<Rightarrow> 'w saga" where
  "register_compensation st s =
     (case st_compensation st of
        None \<Rightarrow> s
      | Some c \<Rightarrow> s\<lparr>sg_compensations := sg_compensations s @ [c]\<rparr>)"

definition execute_step ::
  "(nat \<Rightarrow> string) \<Rightarrow> 'w saga_step \<Rightarrow> 'w saga \<Rightarrow> 'w saga \<times> 'w saga_step \<times> (saga_exn + bool)" where
  "execute_step fmt st s =
     attempt_step fmt (st_max_retries st) 0 (st\<lparr>st_status := StepExecuting\<rparr>) (register_compensation st s)"

section \<open>Compensations\<close>

definition compensation_input_of :: "'w saga_compensation \<Rightarrow> nat \<Rightarrow> 'w saga \<Rightarrow> compensation_input" where
  "compensation_input_of c k s =
     \<lparr>ci_saga_id = sg_saga_id s, ci_compensation_name = cp_name c, ci_attempt = k + 1,
      ci_context = sc_step_results (sg_context s),
      ci_idempotency_key =
        (case cp_idempotency_key c of
           Some key \<Rightarrow> if key \<noteq> [] then key else sg_saga_id s @ '':'' @ cp_name c
         | None \<Rightarrow> sg_saga_id s @ '':'' @ cp_name c)\<rparr>"

fun attempt_compensation ::
  "nat \<Rightarrow> nat \<Rightarrow> 'w saga_compensation \<Rightarrow> 'w saga \<Rightarrow> 'w saga \<times> (saga_exn + bool)" where
  "attempt_compensation 0 k c s =
     (add_saga_error (''Compensation '' @ quoted (cp_name c) @ '' failed'') s, Inr False)"
| "attempt_compensation (Suc n) k c s =
     (let (w, r) = cp_execute c (compensation_input_of c k s) (sg_world s);
          s1 = s\<lparr>sg_world := w\<rparr>
      in case r of
           Inr True \<Rightarrow> (s1, Inr True)
         | Inr False \<Rightarrow> attempt_compensation n (Suc k) c s1
         | Inl e \<Rightarrow> if caught e then attempt_compensation n (Suc k) c s1 else (s1, Inl e))"

definition execute_compensation :: "'w saga_compensation \<Rightarrow> 'w saga \<Rightarrow> 'w saga \<times> (saga_exn + bool)" where
  "execute_compensation c s = attempt_compensation (cp_max_retries c) 0 c s"

text \<open>The body of the loop of \<open>_run_compensations\<close>, and the loop over the reversed list\<close>

definition note_compensation :: "'w saga_compensation \<Rightarrow> bool \<Rightarrow> 'w saga \<Rightarrow> 'w saga" where
  "note_compensation c success s =
     (if success then s\<lparr>sg_compensated_steps := sg_compensated_steps s @ [cp_name c]\<rparr>
      else s\<lparr>sg_failed_compensations := sg_failed_compensations s @ [cp_name c]\<rparr>)"

fun compensate_all :: "'w saga_compensation list \<Rightarrow> 'w saga \<Rightarrow> 'w saga \<times> (saga_exn + unit)" where
  "compensate_all [] s = (s, Inr ())"
| "compensate_all (c # cs) s =
     (case execute_compensation c s of
        (s1, Inl e) \<Rightarrow> (s1, Inl e)
      | (s1, Inr success) \<Rightarrow>
          (case save_current_state (note_compensation c success s1) of
             (s2, Inl e) \<Rightarrow> (s2, Inl e)
           | (s2, Inr _) \<Rightarrow> compensate_all cs s2))"

definition run_compensations :: "'w saga \<Rightarrow> 'w saga \<times> (saga_exn + unit)" where
  "run_compensations s =
     compensate_all (rev (sg_compensations s)) (s\<lparr>sg_status := SagaCompensating\<rparr>)"

section \<open>Execution\<close>

text \<open>
  The loop over the steps: the steps already visited (with their new state) and those that are left.
\<close>

fun run_steps ::
  "(nat \<Rightarrow> string) \<Rightarrow> 'w saga_step list \<Rightarrow> 'w saga_step list \<Rightarrow> 'w saga \<Rightarrow> 'w saga \<times> (saga_exn + unit)" where
  "run_steps fmt seen [] s = (s\<lparr>sg_steps := seen\<rparr>, Inr ())"
| "run_steps fmt seen (st # sts) s =
     (case execute_step fmt st s of
        (s1, st1, Inl e) \<Rightarrow> (s1\<lparr>sg_steps := seen @ st1 # sts\<rparr>, Inl e)
      | (s1, st1, Inr success) \<Rightarrow>
          if \<not> success \<and> \<not> st_is_optional st
          then (s1\<lparr>sg_steps := seen @ st1 # sts, sg_failed_step := Some (st_name st)\<rparr>, Inr ())
          else run_steps fmt (seen @ [st1]) sts s1)"

text \<open>The body of the \<open>try\<close> of \<open>execute\<close>\<close>

definition execute_body :: "(nat \<Rightarrow> string) \<Rightarrow> 'w saga \<Rightarrow> 'w saga \<times> (saga_exn + unit)" where
  "execute_body fmt s =
     (case run_steps fmt [] (sg_steps s) s of
        (s1, Inl e) \<Rightarrow> (s1, Inl e)
      | (s1, Inr _) \<Rightarrow>
          (if truthy_str (sg_failed_step s1)
           then (case run_compensations s1 of
                   (s2, Inl e) \<Rightarrow> (s2, Inl e)
                 | (s2, Inr _) \<Rightarrow>
                     save_current_state
                       (s2\<lparr>sg_status := if sg_failed_compensations s2 = [] then SagaCompensated
                                        else SagaPartiallyCompensated\<rparr>))
           else save_current_state (s1\<lparr>sg_status := SagaCompleted\<rparr>)))"

definition build_result :: "'w saga \<Rightarrow> saga_result" where
  "build_result s =
     \<lparr>sr_saga_id = sg_saga_id s, sr_status = sg_status s, sr_completed_steps = sg_completed_steps s,
      sr_failed_step = sg_failed_step s, sr_compensated_steps = sg_compensated_steps s,
      sr_failed_compensations = sg_failed_compensations s, sr_context = sg_context s,
      sr_version = sg_version s, sr_constitutional_hash = sc_constitutional_hash (sg_context s),
      sr_errors = sc_errors (sg_context s)\<rparr>"

definition execute_saga ::
  "(nat \<Rightarrow> string) \<Rightarrow> saga_context option \<Rightarrow> 'w saga \<Rightarrow> 'w saga \<times> (saga_exn + saga_result)" where
  "execute_saga fmt given s =
     (let s0 = s\<lparr>sg_status := SagaExecuting,
                 sg_context := (case given of Some c \<Rightarrow> c | None \<Rightarrow> saga_context (sg_saga_id s))\<rparr>
      in case save_current_state s0 of
           (s1, Inl e) \<Rightarrow> (s1, Inl e)
         | (s1, Inr _) \<Rightarrow>
             (case execute_body fmt s1 of
                (s2, Inr _) \<Rightarrow> (s2, Inr (build_result s2))
              | (s2, Inl e) \<Rightarrow>
                  if \<not> caught e then (s2, Inl e)
                  else (case run_compensations ((add_saga_error (exn_text e) s2)\<lparr>sg_status := SagaFailed\<rparr>) of
                          (s3, Inl e') \<Rightarrow> (s3, Inl e')
                        | (s3, Inr _) \<Rightarrow> (s3, Inr (build_result s3)))))"

text \<open>\<open>resume\<close>, of the state the provider loads; the caller adds the steps again.\<close>

definition resume_saga ::
  "'w \<Rightarrow> string \<Rightarrow> (saga_state \<Rightarrow> 'w \<Rightarrow> 'w \<times> (saga_exn + unit)) \<Rightarrow> saga_state option \<Rightarrow> 'w saga option" where
  "resume_saga w sid save loaded =
     (case loaded of
        None \<Rightarrow> None
      | Some st \<Rightarrow> Some ((init_saga w sid (Some save) (ss_version st))
          \<lparr>sg_status := ss_status st, sg_completed_steps := ss_completed_steps st,
           sg_failed_step := ss_failed_step st, sg_compensated_steps := ss_compensated_steps st,
           sg_failed_compensations := ss_failed_compensations st\<rparr>))"

end
