(* ===== verification/Saga_Theorems.thy ===== *)
theory Saga_Theorems
  imports Saga_Workflow "HOL-Library.Sublist"
begin

text \<open>
  What the saga guarantees: which parts of the state each operation leaves alone, the compensations that
  run after a failure and their order, and what the status of a result says.
\<close>

section \<open>Frames\<close>

text \<open>The parts of a saga that the attempts of a step and of a compensation do not touch\<close>

definition same_frame :: "'w saga \<Rightarrow> 'w saga \<Rightarrow> bool" where
  "same_frame s s' \<longleftrightarrow>
     sg_persistence s' = sg_persistence s \<and> sg_compensations s' = sg_compensations s \<and>
     sg_failed_step s' = sg_failed_step s \<and> sg_compensated_steps s' = sg_compensated_steps s \<and>
     sg_failed_compensations s' = sg_failed_compensations s \<and> sg_status s' = sg_status s \<and>
     sg_steps s' = sg_steps s \<and> sg_saga_id s' = sg_saga_id s"

lemma same_frame_refl [simp]: "same_frame s s"
  by (simp add: same_frame_def)

lemma same_frame_trans [trans]: "same_frame s t \<Longrightarrow> same_frame t u \<Longrightarrow> same_frame s u"
  by (simp add: same_frame_def)

lemma same_frame_updates [simp]:
  "same_frame s (s\<lparr>sg_world := w\<rparr>)"
  "same_frame s (add_saga_error e s)"
  "same_frame s (step_done st v s)"
  by (simp_all add: same_frame_def add_saga_error_def step_done_def)

lemma save_frame: "save_current_state s = (s', r) \<Longrightarrow> same_frame s s'"
  by (auto simp: save_current_state_def split: option.splits prod.splits)

lemma save_status: "save_current_state s = (s', r) \<Longrightarrow> sg_status s' = sg_status s"
  by (drule save_frame) (simp add: same_frame_def)

lemma save_nothing [simp]: "sg_persistence s = None \<Longrightarrow> save_current_state s = (s, Inr ())"
  by (simp add: save_current_state_def)

lemma attempt_step_frame:
  "attempt_step fmt n k st s = (s', st', r) \<Longrightarrow>
     same_frame s s' \<and> st_name st' = st_name st \<and> st_is_optional st' = st_is_optional st \<and>
     st_compensation st' = st_compensation st \<and> (\<forall>e. r = Inl e \<longrightarrow> \<not> caught e)"
proof (induction n arbitrary: k st s)
  case 0
  then show ?case by auto
next
  case (Suc n)
  obtain w r0 where body: "st_execute st (step_input_of st k s) (sg_world s) = (w, r0)"
    by (cases "st_execute st (step_input_of st k s) (sg_world s)")
  have world: "same_frame s (s\<lparr>sg_world := w\<rparr>)" by simp
  show ?case
  proof (cases r0)
    case (Inl e)
    show ?thesis
    proof (cases "caught e")
      case True
      with Suc.prems body Inl have
        "attempt_step fmt n (Suc k) (st\<lparr>st_error := Some (step_error_text fmt st e)\<rparr>) (s\<lparr>sg_world := w\<rparr>) = (s', st', r)"
        by (simp add: Let_def)
      from Suc.IH [OF this] show ?thesis using same_frame_trans [OF world] by simp
    qed (use Suc.prems body Inl in auto)
  next
    case (Inr v)
    let ?s1 = "step_done st v (s\<lparr>sg_world := w\<rparr>)"
    obtain s2 saved where save: "save_current_state ?s1 = (s2, saved)"
      by (cases "save_current_state ?s1")
    have done_frame: "same_frame s s2"
      using same_frame_trans [OF world] same_frame_trans [OF same_frame_updates(3) save_frame [OF save]] by blast
    show ?thesis
    proof (cases saved)
      case (Inr u)
      then show ?thesis using Suc.prems body \<open>r0 = Inr v\<close> save done_frame by (auto simp: Let_def)
    next
      case (Inl e)
      show ?thesis
      proof (cases "caught e")
        case True
        with Suc.prems body \<open>r0 = Inr v\<close> save Inl have
          "attempt_step fmt n (Suc k)
             (st\<lparr>st_result := Some v, st_status := StepCompleted, st_error := Some (step_error_text fmt st e)\<rparr>) s2 =
             (s', st', r)"
          by (simp add: Let_def step_error_text_def)
        from Suc.IH [OF this] show ?thesis using same_frame_trans [OF done_frame] by simp
      qed (use Suc.prems body \<open>r0 = Inr v\<close> save Inl done_frame in \<open>auto simp: Let_def\<close>)
    qed
  qed
qed

lemma execute_step_frame:
  assumes "execute_step fmt st s = (s', st', r)"
  shows "same_frame (register_compensation st s) s'" "st_name st' = st_name st" "r = Inl e \<Longrightarrow> \<not> caught e"
  using attempt_step_frame [OF assms [unfolded execute_step_def]] by simp_all

lemma attempt_compensation_frame:
  "attempt_compensation n k c s = (s', r) \<Longrightarrow> same_frame s s' \<and> (\<forall>e. r = Inl e \<longrightarrow> \<not> caught e)"
proof (induction n arbitrary: k s)
  case 0
  then show ?case by auto
next
  case (Suc n)
  obtain w r0 where body: "cp_execute c (compensation_input_of c k s) (sg_world s) = (w, r0)"
    by (cases "cp_execute c (compensation_input_of c k s) (sg_world s)")
  have world: "same_frame s (s\<lparr>sg_world := w\<rparr>)" by simp
  show ?case
    using Suc.prems body same_frame_trans [OF world] Suc.IH
    by (force simp: Let_def split: sum.splits bool.splits if_splits)
qed

section \<open>The steps begun and their compensations\<close>

definition compensations_of :: "'w saga_step list \<Rightarrow> 'w saga_compensation list" where
  "compensations_of sts = concat (map (\<lambda>st. case st_compensation st of None \<Rightarrow> [] | Some c \<Rightarrow> [c]) sts)"

lemma compensations_of_simps [simp]:
  "compensations_of [] = []"
  "compensations_of (st # sts) =
     (case st_compensation st of None \<Rightarrow> [] | Some c \<Rightarrow> [c]) @ compensations_of sts"
  by (simp_all add: compensations_of_def)

lemma register_compensations:
  "sg_compensations (register_compensation st s) = sg_compensations s @ compensations_of [st]"
  by (simp add: register_compensation_def split: option.splits)

lemma register_frame:
  "sg_persistence (register_compensation st s) = sg_persistence s"
  "sg_failed_step (register_compensation st s) = sg_failed_step s"
  "sg_compensated_steps (register_compensation st s) = sg_compensated_steps s"
  "sg_failed_compensations (register_compensation st s) = sg_failed_compensations s"
  "sg_status (register_compensation st s) = sg_status s"
  by (simp_all add: register_compensation_def split: option.splits)

text \<open>
  The loop over the steps begins a prefix of them: all of them, or up to the first required one that
  fails, which is then the failed step.
\<close>

lemma run_steps_prefix:
  assumes "run_steps fmt seen sts s = (s', Inr u)"
  shows "\<exists>begun rest. sts = begun @ rest \<and>
     sg_compensations s' = sg_compensations s @ compensations_of begun \<and>
     sg_persistence s' = sg_persistence s \<and> sg_compensated_steps s' = sg_compensated_steps s \<and>
     sg_failed_compensations s' = sg_failed_compensations s \<and>
     (rest = [] \<and> sg_failed_step s' = sg_failed_step s \<or>
      begun \<noteq> [] \<and> \<not> st_is_optional (last begun) \<and> sg_failed_step s' = Some (st_name (last begun)))"
  using assms
proof (induction sts arbitrary: seen s)
  case Nil
  then show ?case by auto
next
  case (Cons st sts)
  obtain s1 st1 r where run: "execute_step fmt st s = (s1, st1, r)"
    by (cases "execute_step fmt st s")
  note fr = execute_step_frame(1) [OF run, unfolded same_frame_def]
  have s1: "sg_compensations s1 = sg_compensations s @ compensations_of [st]"
    "sg_persistence s1 = sg_persistence s" "sg_compensated_steps s1 = sg_compensated_steps s"
    "sg_failed_compensations s1 = sg_failed_compensations s" "sg_failed_step s1 = sg_failed_step s"
    using fr by (simp_all add: register_compensations register_frame)
  from Cons.prems run obtain success where r: "r = Inr success"
    by (cases r) auto
  show ?case
  proof (cases "\<not> success \<and> \<not> st_is_optional st")
    case True
    then show ?thesis
      using Cons.prems run r s1 by (intro exI [of _ "[st]"] exI [of _ sts]) auto
  next
    case False
    then have "run_steps fmt (seen @ [st1]) sts s1 = (s', Inr u)"
      using Cons.prems run r by (simp split: if_splits)
    from Cons.IH [OF this] obtain begun rest where
      IH: "sts = begun @ rest" "sg_compensations s' = sg_compensations s1 @ compensations_of begun"
        "sg_persistence s' = sg_persistence s1" "sg_compensated_steps s' = sg_compensated_steps s1"
        "sg_failed_compensations s' = sg_failed_compensations s1"
        "rest = [] \<and> sg_failed_step s' = sg_failed_step s1 \<or>
         begun \<noteq> [] \<and> \<not> st_is_optional (last begun) \<and> sg_failed_step s' = Some (st_name (last begun))"
      by blast
    then show ?thesis
      using s1 by (intro exI [of _ "st # begun"] exI [of _ rest]) auto
  qed
qed

lemma run_steps_escape: "run_steps fmt seen sts s = (s', Inl e) \<Longrightarrow> \<not> caught e"
proof (induction sts arbitrary: seen s)
  case (Cons st sts)
  obtain s1 st1 r where run: "execute_step fmt st s = (s1, st1, r)"
    by (cases "execute_step fmt st s")
  show ?case
    using Cons.prems Cons.IH run execute_step_frame(3) [OF run]
    by (auto split: sum.splits if_splits)
qed simp

section \<open>The compensations that run\<close>

text \<open>The elements whose flag is as wanted\<close>

definition chosen :: "bool \<Rightarrow> bool list \<Rightarrow> 'a list \<Rightarrow> 'a list" where
  "chosen b oks xs = map snd (filter (\<lambda>(k, x). k = b) (zip oks xs))"

lemma chosen_simps [simp]:
  "chosen b [] xs = []"
  "chosen b (k # oks) (x # xs) = (if k = b then [x] else []) @ chosen b oks xs"
  by (simp_all add: chosen_def)

text \<open>
  Every compensation of the list runs, in its order, and is noted as done or as failed; without a
  persistence provider nothing else can happen, save for an exception no handler catches.
\<close>

lemma compensate_all_notes:
  assumes "compensate_all cs s = (s', Inr u)"
  shows "\<exists>oks. length oks = length cs \<and>
     sg_compensated_steps s' = sg_compensated_steps s @ map cp_name (chosen True oks cs) \<and>
     sg_failed_compensations s' = sg_failed_compensations s @ map cp_name (chosen False oks cs) \<and>
     sg_status s' = sg_status s \<and> sg_failed_step s' = sg_failed_step s \<and>
     sg_compensations s' = sg_compensations s \<and> sg_persistence s' = sg_persistence s"
  using assms
proof (induction cs arbitrary: s)
  case Nil
  then show ?case by (intro exI [of _ "[]"]) auto
next
  case (Cons c cs)
  obtain s1 r where run: "execute_compensation c s = (s1, r)"
    by (cases "execute_compensation c s")
  note fr = attempt_compensation_frame [OF run [unfolded execute_compensation_def], THEN conjunct1]
  from Cons.prems run obtain success where r: "r = Inr success" by (cases r) auto
  obtain s2 saved where save: "save_current_state (note_compensation c success s1) = (s2, saved)"
    by (cases "save_current_state (note_compensation c success s1)")
  with Cons.prems run r obtain u' where "saved = Inr u'" by (cases saved) auto
  then have "compensate_all cs s2 = (s', Inr u)"
    using Cons.prems run r save by simp
  from Cons.IH [OF this] obtain oks where
    IH: "length oks = length cs"
      "sg_compensated_steps s' = sg_compensated_steps s2 @ map cp_name (chosen True oks cs)"
      "sg_failed_compensations s' = sg_failed_compensations s2 @ map cp_name (chosen False oks cs)"
      "sg_status s' = sg_status s2" "sg_failed_step s' = sg_failed_step s2"
      "sg_compensations s' = sg_compensations s2" "sg_persistence s' = sg_persistence s2"
    by blast
  then show ?case
    using fr save_frame [OF save]
    by (intro exI [of _ "success # oks"]) (simp add: same_frame_def note_compensation_def split: if_splits)
qed

lemma compensate_all_escape:
  "sg_persistence s = None \<Longrightarrow> compensate_all cs s = (s', Inl e) \<Longrightarrow> \<not> caught e"
proof (induction cs arbitrary: s)
  case (Cons c cs)
  obtain s1 r where run: "execute_compensation c s = (s1, r)"
    by (cases "execute_compensation c s")
  note fr = attempt_compensation_frame [OF run [unfolded execute_compensation_def]]
  have "sg_persistence (note_compensation c b s1) = None" for b
    using fr Cons.prems(1) by (simp add: note_compensation_def same_frame_def)
  then show ?case
    using Cons run fr by (auto split: sum.splits)
qed simp

text \<open>\<open>execute\<close> without a provider is the loop, then the compensations or the end.\<close>

lemma execute_without_provider:
  assumes "sg_persistence s = None"
  shows "execute_saga fmt given s =
    (let (s1, r) = execute_body fmt (s\<lparr>sg_status := SagaExecuting,
           sg_context := (case given of Some c \<Rightarrow> c | None \<Rightarrow> saga_context (sg_saga_id s))\<rparr>)
     in (s1, map_sum id (\<lambda>_. build_result s1) r))"
proof -
  let ?s = "s\<lparr>sg_status := SagaExecuting,
      sg_context := (case given of Some c \<Rightarrow> c | None \<Rightarrow> saga_context (sg_saga_id s))\<rparr>"
  obtain s2 r where body: "execute_body fmt ?s = (s2, r)" by (cases "execute_body fmt ?s")
  have "\<not> caught e" if "r = Inl e" for e
  proof -
    obtain s1 r1 where steps: "run_steps fmt [] (sg_steps ?s) ?s = (s1, r1)"
      by (cases "run_steps fmt [] (sg_steps ?s) ?s")
    show ?thesis
    proof (cases r1)
      case (Inl e')
      then show ?thesis
        using that body steps run_steps_escape [OF steps [unfolded Inl]] by (auto simp: execute_body_def)
    next
      case (Inr u)
      from run_steps_prefix [OF steps [unfolded Inr]] have none: "sg_persistence s1 = None"
        using assms by auto
      obtain s3 r3 where comp: "run_compensations s1 = (s3, r3)" by (cases "run_compensations s1")
      have "sg_persistence s3 = None" if "r3 = Inr u'" for u'
        using compensate_all_notes [of _ "s1\<lparr>sg_status := SagaCompensating\<rparr>" s3] comp that none
        by (auto simp: run_compensations_def)
      moreover have "\<not> caught e'" if "r3 = Inl e'" for e'
        using compensate_all_escape [of "s1\<lparr>sg_status := SagaCompensating\<rparr>"] comp that none
        by (auto simp: run_compensations_def)
      ultimately show ?thesis
        using that body steps Inr comp none
        by (auto simp: execute_body_def split: if_splits sum.splits)
    qed
  qed
  then show ?thesis
    using assms body by (cases r) (auto simp: execute_saga_def Let_def)
qed

text \<open>
  The result of a saga without a provider that was not run before: either every step was begun and the
  saga is completed, or the last step begun is a required one, and the compensations registered so far
  ran in the reverse of the order in which they were registered.
\<close>

lemma saga_outcome:
  assumes run: "execute_saga fmt given s = (s', Inr r)" and "sg_persistence s = None"
    and fresh: "sg_compensations s = []" "sg_failed_step s = None" "sg_compensated_steps s = []"
      "sg_failed_compensations s = []"
    and named: "\<forall>st \<in> set (sg_steps s). st_name st \<noteq> []"
  shows "\<exists>begun rest oks. sg_steps s = begun @ rest \<and>
    length oks = length (compensations_of begun) \<and>
    (if sr_failed_step r = None
     then rest = [] \<and> sr_status r = SagaCompleted \<and> sr_compensated_steps r = [] \<and>
          sr_failed_compensations r = []
     else begun \<noteq> [] \<and> \<not> st_is_optional (last begun) \<and> sr_failed_step r = Some (st_name (last begun)) \<and>
          sr_compensated_steps r = map cp_name (chosen True oks (rev (compensations_of begun))) \<and>
          sr_failed_compensations r = map cp_name (chosen False oks (rev (compensations_of begun))) \<and>
          sr_status r = (if sr_failed_compensations r = [] then SagaCompensated else SagaPartiallyCompensated))"
proof -
  let ?s = "s\<lparr>sg_status := SagaExecuting,
      sg_context := (case given of Some c \<Rightarrow> c | None \<Rightarrow> saga_context (sg_saga_id s))\<rparr>"
  obtain s2 b where body: "execute_body fmt ?s = (s2, b)" by (cases "execute_body fmt ?s")
  with run execute_without_provider [OF assms(2), of fmt given]
  obtain u where b: "b = Inr u" "s' = s2" "r = build_result s2"
    by (cases b) auto
  obtain s1 r1 where steps: "run_steps fmt [] (sg_steps ?s) ?s = (s1, r1)"
    by (cases "run_steps fmt [] (sg_steps ?s) ?s")
  with body b obtain u1 where r1: "r1 = Inr u1" by (cases r1) (auto simp: execute_body_def)
  from run_steps_prefix [OF steps [unfolded r1]] obtain begun rest where
    pre: "sg_steps s = begun @ rest" "sg_compensations s1 = compensations_of begun"
      "sg_persistence s1 = None" "sg_compensated_steps s1 = []" "sg_failed_compensations s1 = []"
    and how: "rest = [] \<and> sg_failed_step s1 = None \<or>
      begun \<noteq> [] \<and> \<not> st_is_optional (last begun) \<and> sg_failed_step s1 = Some (st_name (last begun))"
    using assms(2) fresh by auto
  show ?thesis
  proof (cases "sg_failed_step s1")
    case None
    then have "s2 = s1\<lparr>sg_status := SagaCompleted\<rparr>"
      using body steps r1 b pre(3) by (simp add: execute_body_def truthy_str_def)
    then show ?thesis
      using None pre how b
      by (intro exI [of _ begun] exI [of _ rest] exI [of _ "replicate (length (compensations_of begun)) True"])
        (auto simp: build_result_def)
  next
    case (Some f)
    have "begun \<noteq> []" and failed: "\<not> st_is_optional (last begun)" "f = st_name (last begun)"
      using how Some by auto
    then have "last begun \<in> set (sg_steps s)" using pre(1) by simp
    then have "f \<noteq> []" using named failed by auto
    obtain s3 r3 where comp: "run_compensations s1 = (s3, r3)" by (cases "run_compensations s1")
    with body steps r1 b Some \<open>f \<noteq> []\<close> obtain u3 where "r3 = Inr u3"
      by (cases r3) (auto simp: execute_body_def truthy_str_def)
    with comp have "compensate_all (rev (compensations_of begun)) (s1\<lparr>sg_status := SagaCompensating\<rparr>) = (s3, Inr u3)"
      by (simp add: run_compensations_def pre(2))
    from compensate_all_notes [OF this] pre obtain oks where
      ran: "length oks = length (rev (compensations_of begun))"
        "sg_compensated_steps s3 = map cp_name (chosen True oks (rev (compensations_of begun)))"
        "sg_failed_compensations s3 = map cp_name (chosen False oks (rev (compensations_of begun)))"
        "sg_failed_step s3 = Some f" "sg_persistence s3 = None"
      using Some by auto
    have "s2 = s3\<lparr>sg_status := if sg_failed_compensations s3 = [] then SagaCompensated else SagaPartiallyCompensated\<rparr>"
      using body steps r1 b Some \<open>f \<noteq> []\<close> comp \<open>r3 = Inr u3\<close> ran(5)
      by (simp add: execute_body_def truthy_str_def)
    then show ?thesis
      using ran pre(1) \<open>begun \<noteq> []\<close> failed b
      by (intro exI [of _ begun] exI [of _ rest] exI [of _ oks]) (simp add: build_result_def)
  qed
qed

section \<open>Results\<close>

text \<open>Running the compensations sets the status; nothing after it in the handler of an exception does.\<close>

lemma compensate_all_status: "compensate_all cs s = (s', r) \<Longrightarrow> sg_status s' = sg_status s"
proof (induction cs arbitrary: s)
  case (Cons c cs)
  obtain s1 r1 where run: "execute_compensation c s = (s1, r1)"
    by (cases "execute_compensation c s")
  note fr = attempt_compensation_frame [OF run [unfolded execute_compensation_def], THEN conjunct1]
  show ?case
  proof (cases r1)
    case (Inl e)
    then show ?thesis using Cons.prems run fr by (auto simp: same_frame_def)
  next
    case (Inr success)
    obtain s2 saved where save: "save_current_state (note_compensation c success s1) = (s2, saved)"
      by (cases "save_current_state (note_compensation c success s1)")
    have "sg_status s2 = sg_status s"
      using fr save_frame [OF save] by (simp add: same_frame_def note_compensation_def split: if_splits)
    then show ?thesis
      using Cons run Inr save by (auto split: sum.splits)
  qed
qed simp

lemma run_compensations_status: "run_compensations s = (s', r) \<Longrightarrow> sg_status s' = SagaCompensating"
  by (auto simp: run_compensations_def dest: compensate_all_status)

lemma execute_body_status:
  assumes "execute_body fmt s = (s', Inr u)"
  shows "sg_status s' \<in> {SagaCompleted, SagaCompensated, SagaPartiallyCompensated}"
  using assms
  by (auto simp: execute_body_def split: prod.splits sum.splits if_splits dest!: save_status)

lemma result_status:
  assumes "execute_saga fmt given s = (s', Inr r)"
  shows "sr_status r \<in> {SagaCompleted, SagaCompensated, SagaPartiallyCompensated, SagaCompensating}"
  using assms execute_body_status run_compensations_status
  by (auto simp: execute_saga_def Let_def build_result_def split: prod.splits sum.splits if_splits) blast+

text \<open>A failed step stays recorded, so a saga that starts with one is never completed.\<close>

lemma run_steps_keeps_failed:
  assumes "run_steps fmt seen sts s = (s', Inr u)" and "\<forall>st \<in> set sts. st_name st \<noteq> []"
    and "truthy_str (sg_failed_step s)"
  shows "truthy_str (sg_failed_step s')"
proof -
  from run_steps_prefix [OF assms(1)] obtain begun rest where
    "sts = begun @ rest" "rest = [] \<and> sg_failed_step s' = sg_failed_step s \<or>
      begun \<noteq> [] \<and> \<not> st_is_optional (last begun) \<and> sg_failed_step s' = Some (st_name (last begun))"
    by blast
  then show ?thesis using assms(2,3) by (auto simp: truthy_str_def)
qed

lemma failed_saga_not_completed:
  assumes "execute_saga fmt given s = (s', Inr r)" and "truthy_str (sg_failed_step s)"
    and "\<forall>st \<in> set (sg_steps s). st_name st \<noteq> []"
  shows "sr_status r \<noteq> SagaCompleted"
proof -
  let ?s = "s\<lparr>sg_status := SagaExecuting,
      sg_context := (case given of Some c \<Rightarrow> c | None \<Rightarrow> saga_context (sg_saga_id s))\<rparr>"
  obtain s1 r1 where save: "save_current_state ?s = (s1, r1)" by (cases "save_current_state ?s")
  note fr = save_frame [OF save, unfolded same_frame_def]
  obtain s2 r2 where body: "execute_body fmt s1 = (s2, r2)" by (cases "execute_body fmt s1")
  have "sg_status s2 \<noteq> SagaCompleted" if "r2 = Inr u" for u
  proof -
    obtain s3 r3 where steps: "run_steps fmt [] (sg_steps s1) s1 = (s3, r3)"
      by (cases "run_steps fmt [] (sg_steps s1) s1")
    with body that obtain u3 where "r3 = Inr u3" by (cases r3) (auto simp: execute_body_def)
    have "truthy_str (sg_failed_step s3)"
      by (rule run_steps_keeps_failed [OF steps [unfolded \<open>r3 = Inr u3\<close>]]) (use assms fr in simp_all)
    then show ?thesis
      using body steps \<open>r3 = Inr u3\<close> that
      by (auto simp: execute_body_def split: prod.splits sum.splits if_splits dest!: save_status)
  qed
  then show ?thesis
    using assms(1) save body
    by (auto simp: execute_saga_def Let_def build_result_def split: prod.splits sum.splits if_splits
        dest!: run_compensations_status)
qed

text \<open>An exception no handler catches leaves \<open>execute\<close> where the step raised it.\<close>

lemma foreign_exception_escapes:
  assumes "sg_persistence s = None"
    and "run_steps fmt [] (sg_steps s) (s\<lparr>sg_status := SagaExecuting, sg_context := c\<rparr>) = (s1, Inl e)"
  shows "execute_saga fmt (Some c) s = (s1, Inl e)"
  using assms by (simp add: execute_without_provider execute_body_def)

section \<open>Sagas that return\<close>

text \<open>
  Bodies that raise only listed errors, on contexts of which \<open>C\<close> holds, which every step's result keeps.
\<close>

definition tame_step :: "(json_dict \<Rightarrow> bool) \<Rightarrow> 'w saga_step \<Rightarrow> bool" where
  "tame_step C st \<longleftrightarrow>
     (\<forall>i w w' e. C (si_context i) \<and> st_execute st i w = (w', Inl e) \<longrightarrow> caught e) \<and>
     (\<forall>d v. C d \<longrightarrow> C (dset (st_name st) v d))"

definition tame_compensation :: "'w saga_compensation \<Rightarrow> bool" where
  "tame_compensation c \<longleftrightarrow> (\<forall>i w w' e. cp_execute c i w = (w', Inl e) \<longrightarrow> caught e)"

lemma tame_same: "tame_step C (st\<lparr>st_status := x\<rparr>) = tame_step C st" "tame_step C (st\<lparr>st_error := y\<rparr>) = tame_step C st"
  by (simp_all add: tame_step_def)

lemma attempt_step_returns:
  "tame_step C st \<Longrightarrow> sg_persistence s = None \<Longrightarrow> C (sc_step_results (sg_context s)) \<Longrightarrow>
   \<exists>s' st' b. attempt_step fmt n k st s = (s', st', Inr b) \<and> C (sc_step_results (sg_context s'))"
proof (induction n arbitrary: k st s)
  case 0
  then show ?case by (auto simp: add_saga_error_def)
next
  case (Suc n)
  obtain w r where body: "st_execute st (step_input_of st k s) (sg_world s) = (w, r)"
    by (cases "st_execute st (step_input_of st k s) (sg_world s)")
  have ctx: "C (si_context (step_input_of st k s))" using Suc.prems(3) by (simp add: step_input_of_def)
  show ?case
  proof (cases r)
    case (Inl e)
    then have "caught e" using Suc.prems(1) body ctx unfolding tame_step_def by blast
    then show ?thesis
      using Suc.IH [of "st\<lparr>st_error := Some (step_error_text fmt st e)\<rparr>" "s\<lparr>sg_world := w\<rparr>" "Suc k"] Suc.prems body Inl
      by (simp add: tame_same)
  next
    case (Inr v)
    then show ?thesis
      using Suc.prems body by (auto simp: step_done_def set_step_result_def tame_step_def Let_def)
  qed
qed

lemma run_steps_returns:
  assumes "\<forall>st \<in> set sts. tame_step C st" and "sg_persistence s = None" and "C (sc_step_results (sg_context s))"
  shows "\<exists>s'. run_steps fmt seen sts s = (s', Inr ())"
  using assms
proof (induction sts arbitrary: seen s)
  case (Cons st sts)
  let ?s = "register_compensation st s"
  have "sg_persistence ?s = None" "C (sc_step_results (sg_context ?s))"
    using Cons.prems by (simp_all add: register_compensation_def split: option.splits)
  then obtain s1 st1 b where run: "execute_step fmt st s = (s1, st1, Inr b)" "C (sc_step_results (sg_context s1))"
    using attempt_step_returns [of C "st\<lparr>st_status := StepExecuting\<rparr>" ?s fmt "st_max_retries st" 0] Cons.prems(1)
    by (auto simp: execute_step_def tame_same)
  have "sg_persistence s1 = None"
    using execute_step_frame(1) [OF run(1)] Cons.prems(2) by (simp add: same_frame_def register_frame)
  then show ?case using Cons run by simp
qed simp

lemma compensate_all_returns:
  assumes "\<forall>c \<in> set cs. tame_compensation c" and "sg_persistence s = None"
  shows "\<exists>s'. compensate_all cs s = (s', Inr ())"
  using assms
proof (induction cs arbitrary: s)
  case (Cons c cs)
  have "\<exists>s' b. attempt_compensation n k c s = (s', Inr b)" for n k s
  proof (induction n arbitrary: k s)
    case (Suc n)
    obtain w r where "cp_execute c (compensation_input_of c k s) (sg_world s) = (w, r)"
      by (cases "cp_execute c (compensation_input_of c k s) (sg_world s)")
    then show ?case
      using Suc Cons.prems(1) by (auto simp: Let_def tame_compensation_def split: sum.splits bool.splits)
  qed auto
  then obtain s1 b where run: "execute_compensation c s = (s1, Inr b)"
    unfolding execute_compensation_def by blast
  have "sg_persistence (note_compensation c b s1) = None"
    using attempt_compensation_frame [OF run [unfolded execute_compensation_def]] Cons.prems(2)
    by (simp add: same_frame_def note_compensation_def)
  then show ?case using Cons run by simp
qed simp

lemma execute_saga_returns:
  assumes "sg_persistence s = None" and "sg_compensations s = []"
    and "\<forall>st \<in> set (sg_steps s). tame_step C st"
    and "\<forall>st \<in> set (sg_steps s). \<forall>c. st_compensation st = Some c \<longrightarrow> tame_compensation c"
    and "C (sc_step_results (case given of Some c \<Rightarrow> c | None \<Rightarrow> saga_context (sg_saga_id s)))"
  shows "\<exists>s' r. execute_saga fmt given s = (s', Inr r)"
proof -
  let ?s = "s\<lparr>sg_status := SagaExecuting,
      sg_context := (case given of Some c \<Rightarrow> c | None \<Rightarrow> saga_context (sg_saga_id s))\<rparr>"
  obtain s1 where steps: "run_steps fmt [] (sg_steps ?s) ?s = (s1, Inr ())"
    using run_steps_returns [of "sg_steps ?s" C ?s fmt "[]"] assms by auto
  from run_steps_prefix [OF steps] obtain begun rest where
    pre: "sg_steps s = begun @ rest" "sg_compensations s1 = compensations_of begun" "sg_persistence s1 = None"
    using assms(1,2) by auto
  have "tame_compensation c" if "c \<in> set (compensations_of begun)" for c
  proof -
    from that obtain st where "st \<in> set begun" "st_compensation st = Some c"
      by (auto simp: compensations_of_def split: option.splits)
    then show ?thesis using assms(4) pre(1) by auto
  qed
  then have "\<forall>c \<in> set (rev (compensations_of begun)). tame_compensation c" by simp
  from compensate_all_returns [OF this, of "s1\<lparr>sg_status := SagaCompensating\<rparr>"] pre
  obtain s2 where comp: "run_compensations s1 = (s2, Inr ())" by (auto simp: run_compensations_def)
  have "sg_persistence s2 = None"
    using compensate_all_notes [of "rev (sg_compensations s1)" "s1\<lparr>sg_status := SagaCompensating\<rparr>" s2 "()"] comp pre(3)
    by (auto simp: run_compensations_def)
  then show ?thesis
    using steps comp pre(3) by (simp add: execute_without_provider [OF assms(1)] execute_body_def)
qed

end
