(* ===== verification/Validation_Saga.thy ===== *)
theory Validation_Saga
  imports Saga_Workflow
begin

text \<open>
  The rest of \<^verbatim>\<open>constitutional_saga.py\<close>: \<open>DefaultSagaActivities\<close> and the standard validation saga, with the
  hash validator of \<^verbatim>\<open>src/validators/constitutional.py\<close>. The state of the world is the number of
  identifiers drawn so far; \<open>uuid\<close> names the n-th identifier and \<open>clock\<close> the time at which it is drawn.
  Logging is not modelled.
\<close>

section \<open>The hash validator\<close>

text \<open>\<open>validate_hash\<close>, of a validator with the default expected hash\<close>

definition validate_hash :: "string \<Rightarrow> string option \<Rightarrow> bool \<times> string" where
  "validate_hash provided expected =
     (let target = (if truthy_str expected then the expected else CONSTITUTIONAL_HASH)
      in if provided \<noteq> target
         then (False, ''Constitutional hash mismatch: provided='' @ quoted provided @ '', expected='' @ quoted target)
         else (True, []))"

section \<open>The activities\<close>

text \<open>Each draws one identifier, returns a document (or a string, or a flag) and cannot fail.\<close>

definition reserve_capacity ::
  "(nat \<Rightarrow> string) \<Rightarrow> (nat \<Rightarrow> rat) \<Rightarrow> string \<Rightarrow> string \<Rightarrow> int \<Rightarrow> nat \<Rightarrow> nat \<times> json" where
  "reserve_capacity uuid clock saga_id resource_type amount w =
     (w + 1, JObj [(''reservation_id'', JStr (uuid w)), (''resource_type'', JStr resource_type),
                   (''amount'', JInt amount), (''timestamp'', JTime (clock w))])"

definition release_capacity :: "string \<Rightarrow> string \<Rightarrow> bool" where
  "release_capacity saga_id reservation_id = True"

definition validate_constitutional_compliance ::
  "(nat \<Rightarrow> string) \<Rightarrow> (nat \<Rightarrow> rat) \<Rightarrow> string \<Rightarrow> json_dict \<Rightarrow> string \<Rightarrow> nat \<Rightarrow> nat \<times> json" where
  "validate_constitutional_compliance uuid clock saga_id data constitutional_hash w =
     (let provided = (case dget data ''constitutional_hash'' of Some (JStr s) \<Rightarrow> s | _ \<Rightarrow> []);
          (is_valid, message) = validate_hash provided (Some constitutional_hash)
      in (w + 1, JObj [(''validation_id'', JStr (uuid w)), (''is_valid'', JBool is_valid),
                       (''errors'', JList (if is_valid then [] else [JStr message])),
                       (''timestamp'', JTime (clock w))]))"

definition log_validation_failure :: "string \<Rightarrow> string \<Rightarrow> string \<Rightarrow> bool" where
  "log_validation_failure saga_id validation_id reason = True"

definition apply_policy_decision ::
  "(nat \<Rightarrow> string) \<Rightarrow> (nat \<Rightarrow> rat) \<Rightarrow> string \<Rightarrow> string \<Rightarrow> json_dict \<Rightarrow> nat \<Rightarrow> nat \<times> json" where
  "apply_policy_decision uuid clock saga_id policy_path decision_data w =
     (w + 1, JObj [(''decision_id'', JStr (uuid w)), (''policy_path'', JStr policy_path),
                   (''applied'', JBool True), (''timestamp'', JTime (clock w))])"

definition revert_policy_decision :: "string \<Rightarrow> string \<Rightarrow> bool" where
  "revert_policy_decision saga_id decision_id = True"

definition record_audit_entry :: "(nat \<Rightarrow> string) \<Rightarrow> string \<Rightarrow> string \<Rightarrow> json_dict \<Rightarrow> nat \<Rightarrow> nat \<times> json" where
  "record_audit_entry uuid saga_id entry_type entry_data w = (w + 1, JStr (uuid w))"

definition mark_audit_failed :: "string \<Rightarrow> string \<Rightarrow> string \<Rightarrow> bool" where
  "mark_audit_failed saga_id audit_id reason = True"

definition deliver_to_target ::
  "(nat \<Rightarrow> string) \<Rightarrow> (nat \<Rightarrow> rat) \<Rightarrow> string \<Rightarrow> string \<Rightarrow> json_dict \<Rightarrow> nat \<Rightarrow> nat \<times> json" where
  "deliver_to_target uuid clock saga_id target_id payload w =
     (w + 1, JObj [(''delivery_id'', JStr (uuid w)), (''target_id'', JStr target_id),
                   (''delivered'', JBool True), (''timestamp'', JTime (clock w))])"

definition recall_from_target :: "string \<Rightarrow> string \<Rightarrow> string \<Rightarrow> bool" where
  "recall_from_target saga_id delivery_id target_id = True"

fun occurs_in :: "string \<Rightarrow> string \<Rightarrow> bool" where
  "occurs_in needle [] = (needle = [])"
| "occurs_in needle (c # cs) = (take (length needle) (c # cs) = needle \<or> occurs_in needle cs)"

definition audit_llm_reasoning ::
  "(nat \<Rightarrow> string) \<Rightarrow> (nat \<Rightarrow> rat) \<Rightarrow> string \<Rightarrow> string \<Rightarrow> string \<Rightarrow> nat \<Rightarrow> nat \<times> json" where
  "audit_llm_reasoning uuid clock saga_id reasoning constitutional_hash w =
     (w + 1, JObj [(''audit_id'', JStr (uuid w)),
                   (''is_safe'', JBool (\<not> occurs_in ''ignore previous instructions'' (py_lower reasoning))),
                   (''timestamp'', JTime (clock w))])"

section \<open>The steps of the validation saga\<close>

text \<open>\<open>ctx.get(step, {}).get(field, "unknown")\<close>: an \<open>AttributeError\<close> where the entry is no document\<close>

definition field_of :: "json_dict \<Rightarrow> string \<Rightarrow> string \<Rightarrow> json option" where
  "field_of ctx step f =
     (case dget_default ctx step (JObj []) of
        JObj d \<Rightarrow> Some (dget_default d f (JStr ''unknown''))
      | _ \<Rightarrow> None)"

definition plain_step ::
  "string \<Rightarrow> string \<Rightarrow> (step_input \<Rightarrow> nat \<Rightarrow> nat \<times> (saga_exn + json)) \<Rightarrow> nat saga_compensation option \<Rightarrow> bool \<Rightarrow>
   nat saga_step" where
  "plain_step name description body compensation is_optional =
     \<lparr>st_name = name, st_execute = body, st_compensation = compensation, st_description = description,
      st_timeout_seconds = 30, st_max_retries = 3, st_is_optional = is_optional, st_status = StepPending,
      st_result = None, st_error = None\<rparr>"

definition undo ::
  "string \<Rightarrow> string \<Rightarrow> string \<Rightarrow> string \<Rightarrow> (string \<Rightarrow> json \<Rightarrow> bool) \<Rightarrow> nat saga_compensation" where
  "undo name description step f act =
     \<lparr>cp_name = name,
      cp_execute = (\<lambda>i w. (w, case field_of (ci_context i) step f of
                                 None \<Rightarrow> Inl (Op (quoted ''str'' @ '' object has no attribute '' @ quoted ''get''))
                               | Some v \<Rightarrow> Inr (act (ci_saga_id i) v))),
      cp_description = description, cp_idempotency_key = None, cp_max_retries = 3\<rparr>"

definition json_text :: "json \<Rightarrow> string" where
  "json_text j = (case j of JStr s \<Rightarrow> s | _ \<Rightarrow> [])"

definition capacity_reservation_step :: "(nat \<Rightarrow> string) \<Rightarrow> (nat \<Rightarrow> rat) \<Rightarrow> nat saga_step" where
  "capacity_reservation_step uuid clock =
     plain_step ''reserve_capacity'' ''Reserve validation capacity''
       (\<lambda>i w. map_prod id Inr (reserve_capacity uuid clock (si_saga_id i) ''validation_slots'' 1 w))
       (Some (undo ''release_capacity'' ''Release reserved capacity'' ''reserve_capacity'' ''reservation_id''
                (\<lambda>sid v. release_capacity sid (json_text v)))) False"

definition compliance_validation_step :: "(nat \<Rightarrow> string) \<Rightarrow> (nat \<Rightarrow> rat) \<Rightarrow> nat saga_step" where
  "compliance_validation_step uuid clock =
     plain_step ''validate_compliance'' ''Validate constitutional compliance''
       (\<lambda>i w. map_prod id Inr (validate_constitutional_compliance uuid clock (si_saga_id i) (si_context i)
                                  (si_constitutional_hash i) w))
       (Some (undo ''log_validation_failure'' ''Log validation as failed'' ''validate_compliance'' ''validation_id''
                (\<lambda>sid v. log_validation_failure sid (json_text v) ''Saga compensated''))) False"

definition audit_reasoning ::
  "(nat \<Rightarrow> string) \<Rightarrow> (nat \<Rightarrow> rat) \<Rightarrow> step_input \<Rightarrow> nat \<Rightarrow> nat \<times> (saga_exn + json)" where
  "audit_reasoning uuid clock i w =
     (let reasoning = dget_default (si_context i) ''llm_reasoning'' (JStr [])
      in if \<not> json_truthy reasoning
         then (w, Inr (JObj [(''audit_id'', JStr ''none''), (''is_safe'', JBool True), (''skipped'', JBool True)]))
         else (case reasoning of
                 JStr s \<Rightarrow> map_prod id Inr (audit_llm_reasoning uuid clock (si_saga_id i) s
                                               (si_constitutional_hash i) w)
               | _ \<Rightarrow> (w + 1, Inl (Op ''no attribute lower''))))"

definition reasoning_audit_step :: "(nat \<Rightarrow> string) \<Rightarrow> (nat \<Rightarrow> rat) \<Rightarrow> nat saga_step" where
  "reasoning_audit_step uuid clock =
     plain_step ''audit_reasoning'' ''Audit LLM thinking traces'' (audit_reasoning uuid clock) None True"

definition policy_application_step :: "(nat \<Rightarrow> string) \<Rightarrow> (nat \<Rightarrow> rat) \<Rightarrow> nat saga_step" where
  "policy_application_step uuid clock =
     plain_step ''apply_policy'' ''Apply policy decision''
       (\<lambda>i w. map_prod id Inr (apply_policy_decision uuid clock (si_saga_id i) ''acgs/constitutional/allow''
                                  (si_context i) w))
       (Some (undo ''revert_policy'' ''Revert policy decision'' ''apply_policy'' ''decision_id''
                (\<lambda>sid v. revert_policy_decision sid (json_text v)))) False"

text \<open>Here the compensation reads the entry itself, which is the identifier.\<close>

definition audit_recording_step :: "(nat \<Rightarrow> string) \<Rightarrow> nat saga_step" where
  "audit_recording_step uuid =
     plain_step ''record_audit'' ''Record to audit trail''
       (\<lambda>i w. map_prod id Inr (record_audit_entry uuid (si_saga_id i) ''constitutional_validation'' (si_context i) w))
       (Some \<lparr>cp_name = ''mark_audit_failed'',
              cp_execute = (\<lambda>i w. (w, Inr (mark_audit_failed (ci_saga_id i)
                 (json_text (dget_default (ci_context i) ''record_audit'' (JStr ''unknown''))) ''Saga compensated''))),
              cp_description = ''Mark audit as failed'', cp_idempotency_key = None, cp_max_retries = 3\<rparr>) False"

definition create_constitutional_validation_saga ::
  "(nat \<Rightarrow> string) \<Rightarrow> (nat \<Rightarrow> rat) \<Rightarrow> nat \<Rightarrow> string \<Rightarrow> nat saga" where
  "create_constitutional_validation_saga uuid clock w saga_id =
     add_step (audit_recording_step uuid)
       (add_step (policy_application_step uuid clock)
         (add_step (reasoning_audit_step uuid clock)
           (add_step (compliance_validation_step uuid clock)
             (add_step (capacity_reservation_step uuid clock)
               (init_saga w saga_id None ''1.0.0'')))))"

end
