(* ===== verification/Saga_Properties.thy ===== *)
theory Saga_Properties
  imports Saga_Theorems Validation_Saga
begin

text \<open>
  Properties of the saga workflow: which compensations run and in which order, what resuming a failed
  saga does, what the statuses of a result mean, the serialised state, and the standard validation saga.
\<close>

section \<open>Compensation\<close>


text \<open>Two steps whose bodies log their name; the second one fails.\<close>

definition logging_compensation :: "string \<Rightarrow> string list saga_compensation" where
  "logging_compensation n = \<lparr>cp_name = n, cp_execute = (\<lambda>i w. (w @ [n], Inr True)), cp_description = [],
     cp_idempotency_key = None, cp_max_retries = 3\<rparr>"

definition logging_step :: "string \<Rightarrow> string \<Rightarrow> bool \<Rightarrow> string list saga_step" where
  "logging_step n c fails = \<lparr>st_name = n,
     st_execute = (\<lambda>i w. (w @ [n], if fails then Inl (Op ''broken'') else Inr JNull)),
     st_compensation = Some (logging_compensation c), st_description = [], st_timeout_seconds = 30,
     st_max_retries = 1, st_is_optional = False, st_status = StepPending, st_result = None, st_error = None\<rparr>"





section \<open>Resuming a failed saga\<close>

text \<open>A saga that is resumed from a state with a failed step is never completed: whatever steps are added
  and even if all of them succeed, an execution that returns has run the compensations of all the steps
  it began.\<close>

theorem resumed_failure_never_completes:
  assumes "resume_saga w sid save (Some st) = Some s" and "truthy_str (ss_failed_step st)"
    and "\<forall>x \<in> set sts. st_name x \<noteq> []"
    and "execute_saga fmt given (fold add_step sts s) = (s', Inr r)"
  shows "sr_status r \<noteq> SagaCompleted"
proof -
  have "sg_failed_step (fold add_step sts s) = sg_failed_step s \<and>
      sg_steps (fold add_step sts s) = sg_steps s @ sts" for sts and s :: "'a saga"
    by (induction sts arbitrary: s) (simp_all add: add_step_def)
  moreover have "sg_failed_step s = ss_failed_step st" "sg_steps s = []"
    using assms(1) by (auto simp: resume_saga_def init_saga_def)
  ultimately show ?thesis
    using assms(2-3) by (intro failed_saga_not_completed [OF assms(4)]) simp_all
qed

definition quiet_save :: "saga_state \<Rightarrow> string list \<Rightarrow> string list \<times> (saga_exn + unit)" where
  "quiet_save st w = (w, Inr ())"

definition stored_failure :: saga_state where
  "stored_failure = \<lparr>ss_saga_id = ''s'', ss_status = SagaCompensated, ss_completed_steps = [],
     ss_failed_step = Some ''a'', ss_compensated_steps = [], ss_failed_compensations = [], ss_context = [],
     ss_version = ''1.0.0'', ss_updated_at = 0\<rparr>"

theorem resumed_failure_never_completes_witness:
  "\<exists>s s' r. resume_saga [] ''s'' quiet_save (Some stored_failure) = Some s \<and>
     execute_saga (\<lambda>n. []) None (fold add_step [logging_step ''a'' ''undo a'' False] s) = (s', Inr r) \<and>
     sg_world s' = [''a'', ''undo a''] \<and> sr_status r \<noteq> SagaCompleted"
proof -
  obtain s where s: "resume_saga [] ''s'' quiet_save (Some stored_failure) = Some s"
    by (simp add: resume_saga_def)
  obtain s' r where run: "execute_saga (\<lambda>n. []) None (fold add_step [logging_step ''a'' ''undo a'' False] s) = (s', Inr r)"
    "sg_world s' = [''a'', ''undo a'']"
    using s by (auto simp: resume_saga_def init_saga_def stored_failure_def quiet_save_def add_step_def
        logging_step_def logging_compensation_def execute_saga_def execute_body_def execute_step_def
        register_compensation_def save_current_state_def run_compensations_def execute_compensation_def
        note_compensation_def truthy_str_def step_done_def build_result_def Let_def numeral_3_eq_3)
  have "sr_status r \<noteq> SagaCompleted"
    by (rule resumed_failure_never_completes [OF s _ _ run(1)])
      (simp_all add: stored_failure_def truthy_str_def logging_step_def)
  then show ?thesis using s run by blast
qed

section \<open>Serialisation\<close>

text \<open>The state of a saga is read back unchanged from the JSON document it is saved as.\<close>

theorem saga_state_round_trip: "state_from_json (state_to_json s) = Some s"
  by (cases s; cases "ss_failed_step s")
    (simp_all add: state_to_json_def state_from_json_def json_string_def json_strings_def)

section \<open>Statuses\<close>

text \<open>No result has the status FAILED: where the handler of an exception sets it, running the compensations
  sets COMPENSATING, and that is what the result says.\<close>

theorem failed_status_never_reported: "execute_saga fmt given s = (s', Inr r) \<Longrightarrow> sr_status r \<noteq> SagaFailed"
  using result_status by fastforce

section \<open>A save that fails\<close>

text \<open>
  A provider that fails once, on the save after a step: the step has run and is recorded, and the loop
  over the attempts runs it again.
\<close>

definition failing_save :: "saga_state \<Rightarrow> string list \<Rightarrow> string list \<times> (saga_exn + unit)" where
  "failing_save st w = (if w = [''a''] then (w @ [''disk full''], Inl (Op ''disk full'')) else (w, Inr ()))"

definition retrying_saga :: "string list saga" where
  "retrying_saga = add_step ((logging_step ''a'' ''undo a'' False)\<lparr>st_max_retries := 3\<rparr>)
     (init_saga [] ''s'' (Some failing_save) ''1.0.0'')"

theorem completed_step_runs_again:
  "\<exists>s' r. execute_saga (\<lambda>n. []) None retrying_saga = (s', Inr r) \<and> sr_status r = SagaCompleted \<and>
     sg_world s' = [''a'', ''disk full'', ''a''] \<and> sr_completed_steps r = [''a'', ''a'']"
  by (simp add: retrying_saga_def failing_save_def init_saga_def add_step_def logging_step_def
      logging_compensation_def execute_saga_def execute_body_def execute_step_def register_compensation_def
      save_current_state_def truthy_str_def step_done_def build_result_def Let_def numeral_3_eq_3)

section \<open>The validation saga\<close>

text \<open>Where a step leaves the saga that returns at its first attempt\<close>

definition stepped :: "nat saga_step \<Rightarrow> nat \<Rightarrow> json \<Rightarrow> nat saga \<Rightarrow> nat saga" where
  "stepped st w v s = step_done st v ((register_compensation st s)\<lparr>sg_world := w\<rparr>)"

lemma stepped_simps [simp]:
  "sg_persistence (stepped st w v s) = sg_persistence s"
  "sg_failed_step (stepped st w v s) = sg_failed_step s"
  "sg_saga_id (stepped st w v s) = sg_saga_id s"
  "sg_world (stepped st w v s) = w"
  "sg_context (stepped st w v s) = set_step_result (st_name st) v (sg_context s)"
  "sg_completed_steps (stepped st w v s) = sg_completed_steps s @ [st_name st]"
  by (simp_all add: stepped_def step_done_def register_compensation_def split: option.splits)

lemma register_simps [simp]:
  "sg_world (register_compensation st s) = sg_world s"
  "sg_context (register_compensation st s) = sg_context s"
  "sg_saga_id (register_compensation st s) = sg_saga_id s"
  by (simp_all add: register_compensation_def split: option.splits)

lemma plain_step_simps [simp]:
  "st_name (plain_step n d body c opt) = n"
  "st_is_optional (plain_step n d body c opt) = opt"
  "step_input_of (plain_step n d body c opt) k s =
     \<lparr>si_saga_id = sg_saga_id s, si_step_name = n, si_attempt = k + 1,
      si_context = sc_step_results (sg_context s), si_metadata = sc_metadata (sg_context s),
      si_constitutional_hash = sc_constitutional_hash (sg_context s)\<rparr>"
  by (simp_all add: plain_step_def step_input_of_def)

lemma execute_first_attempt:
  assumes "sg_persistence s = None" and "st_max_retries st = Suc m"
    and "st_execute st (step_input_of st 0 s) (sg_world s) = (w, Inr v)"
  shows "\<exists>st'. execute_step fmt st s = (stepped st w v s, st', Inr True)"
proof -
  have "sg_persistence (stepped st w v s) = None"
    using assms(1) by simp
  then show ?thesis
    using assms(2,3)
    by (simp add: execute_step_def step_input_of_def stepped_def step_done_def register_compensation_def Let_def
        split: option.splits)
qed

lemma run_first_attempt:
  assumes "sg_persistence s = None" and "st_max_retries st = Suc m"
    and "st_execute st (step_input_of st 0 s) (sg_world s) = (w, Inr v)"
  shows "\<exists>seen'. run_steps fmt seen (st # sts) s = run_steps fmt seen' sts (stepped st w v s)"
  using execute_first_attempt [OF assms, of fmt] by auto

lemma audit_reasoning_cases:
  "(\<exists>w' v. audit_reasoning uuid clock i w = (w', Inr v)) \<or>
   (\<forall>i' w. si_context i' = si_context i \<longrightarrow> (\<exists>e. audit_reasoning uuid clock i' w = (w + 1, Inl (Op e))))"
  by (cases "dget_default (si_context i) ''llm_reasoning'' (JStr [])")
    (simp_all add: audit_reasoning_def audit_llm_reasoning_def)

text \<open>The reasoning step never stops the saga: it is optional.\<close>

lemma run_reasoning_step:
  assumes "sg_persistence s = None"
  shows "\<exists>seen' s'. run_steps fmt seen (reasoning_audit_step uuid clock # sts) s = run_steps fmt seen' sts s' \<and>
    sg_persistence s' = None \<and> sg_failed_step s' = sg_failed_step s \<and>
    (\<forall>k. k \<noteq> ''audit_reasoning'' \<longrightarrow>
       dget (sc_step_results (sg_context s')) k = dget (sc_step_results (sg_context s)) k)"
proof -
  obtain s1 st1 r where run: "execute_step fmt (reasoning_audit_step uuid clock) s = (s1, st1, r)"
    by (cases "execute_step fmt (reasoning_audit_step uuid clock) s")
  note fr = execute_step_frame(1) [OF run, unfolded same_frame_def]
  have "(\<exists>b. r = Inr b) \<and> (\<forall>k. k \<noteq> ''audit_reasoning'' \<longrightarrow>
       dget (sc_step_results (sg_context s1)) k = dget (sc_step_results (sg_context s)) k)"
  proof (cases "\<exists>w v. audit_reasoning uuid clock (step_input_of (reasoning_audit_step uuid clock) 0 s) (sg_world s) = (w, Inr v)")
    case True
    then obtain w v where
      body: "audit_reasoning uuid clock (step_input_of (reasoning_audit_step uuid clock) 0 s) (sg_world s) = (w, Inr v)"
      by blast
    then have "\<exists>st'. execute_step fmt (reasoning_audit_step uuid clock) s =
        (stepped (reasoning_audit_step uuid clock) w v s, st', Inr True)"
      by (intro execute_first_attempt [OF assms, of _ 2])
        (simp_all add: reasoning_audit_step_def plain_step_def step_input_of_def)
    with run show ?thesis
      by (auto simp: set_step_result_def dict_simps reasoning_audit_step_def)
  next
    case False
    then have fails: "\<exists>e. audit_reasoning uuid clock i w = (w + 1, Inl (Op e))"
      if "si_context i = sc_step_results (sg_context s)" for i w
      using audit_reasoning_cases [of uuid clock "step_input_of (reasoning_audit_step uuid clock) 0 s" "sg_world s"] that
      by (auto simp: step_input_of_def)
    have stuck: "\<exists>s' st'. attempt_step fmt n k st t = (s', st', Inr False) \<and>
        sc_step_results (sg_context s') = sc_step_results (sg_context s)"
      if "st_execute st = audit_reasoning uuid clock" "sc_step_results (sg_context t) = sc_step_results (sg_context s)"
      for n k st t
      using that
    proof (induction n arbitrary: k st t)
      case 0
      then show ?case by (simp add: add_saga_error_def)
    next
      case (Suc n)
      obtain e where "audit_reasoning uuid clock (step_input_of st k t) (sg_world t) = (sg_world t + 1, Inl (Op e))"
        using fails [of "step_input_of st k t"] Suc.prems(2) by (auto simp: step_input_of_def)
      then show ?case using Suc by (simp add: Let_def)
    qed
    obtain s' st' where
      "attempt_step fmt 3 0 ((reasoning_audit_step uuid clock)\<lparr>st_status := StepExecuting\<rparr>)
         (register_compensation (reasoning_audit_step uuid clock) s) = (s', st', Inr False)"
      "sc_step_results (sg_context s') = sc_step_results (sg_context s)"
      using stuck [of "(reasoning_audit_step uuid clock)\<lparr>st_status := StepExecuting\<rparr>"
          "register_compensation (reasoning_audit_step uuid clock) s" 3 0]
      by (auto simp: reasoning_audit_step_def plain_step_def)
    then show ?thesis
      using run by (auto simp: execute_step_def reasoning_audit_step_def plain_step_def)
  qed
  then obtain b where r: "r = Inr b" and kept: "\<forall>k. k \<noteq> ''audit_reasoning'' \<longrightarrow>
      dget (sc_step_results (sg_context s1)) k = dget (sc_step_results (sg_context s)) k"
    by blast
  have "run_steps fmt seen (reasoning_audit_step uuid clock # sts) s = run_steps fmt (seen @ [st1]) sts s1"
    using run r by (simp add: reasoning_audit_step_def)
  then show ?thesis
    using fr kept assms by (intro exI [of _ "seen @ [st1]"] exI [of _ s1]) (simp add: register_frame)
qed

lemma compliance_document:
  "\<exists>d. validate_constitutional_compliance uuid clock sid data h w = (Suc w, JObj d) \<and>
     dget d ''is_valid'' = Some (JBool
       ((case dget data ''constitutional_hash'' of Some (JStr s) \<Rightarrow> s | _ \<Rightarrow> []) =
        (if h = [] then CONSTITUTIONAL_HASH else h)))"
proof -
  let ?p = "case dget data ''constitutional_hash'' of Some (JStr s) \<Rightarrow> s | _ \<Rightarrow> []"
  have "fst (validate_hash ?p (Some h)) = (?p = (if h = [] then CONSTITUTIONAL_HASH else h))"
    by (simp add: validate_hash_def truthy_str_def Let_def)
  then show ?thesis
    by (simp add: validate_constitutional_compliance_def Let_def case_prod_beta)
qed

text \<open>The validation saga completes whatever the validation says: its compliance step returns the verdict
  as a document, which no step and no end of the saga looks at. A context without the right hash is
  recorded as invalid, and the policy decision and the audit entry are made all the same.\<close>

theorem validation_saga_ignores_verdict:
  "\<exists>s' r d. execute_saga fmt (Some c) (create_constitutional_validation_saga uuid clock w sid) = (s', Inr r) \<and>
     sr_status r = SagaCompleted \<and> sr_failed_step r = None \<and>
     dget (sc_step_results (sr_context r)) ''validate_compliance'' = Some (JObj d) \<and>
     dget d ''is_valid'' = Some (JBool
       ((case dget (sc_step_results c) ''constitutional_hash'' of Some (JStr h) \<Rightarrow> h | _ \<Rightarrow> []) =
        (if sc_constitutional_hash c = [] then CONSTITUTIONAL_HASH else sc_constitutional_hash c)))"
proof -
  let ?saga = "create_constitutional_validation_saga uuid clock w sid"
  let ?s0 = "?saga\<lparr>sg_status := SagaExecuting, sg_context := c\<rparr>"
  let ?reserve = "capacity_reservation_step uuid clock" and ?comply = "compliance_validation_step uuid clock"
    and ?reason = "reasoning_audit_step uuid clock" and ?policy = "policy_application_step uuid clock"
    and ?audit = "audit_recording_step uuid"
  note defs = capacity_reservation_step_def compliance_validation_step_def policy_application_step_def
    audit_recording_step_def reserve_capacity_def apply_policy_decision_def record_audit_entry_def
    plain_step_def step_input_of_def
  have steps: "sg_steps ?saga = [?reserve, ?comply, ?reason, ?policy, ?audit]"
    and none: "sg_persistence ?s0 = None" "sg_failed_step ?s0 = None" "sg_context ?s0 = c" "sg_world ?s0 = w"
    by (simp_all add: create_constitutional_validation_saga_def add_step_def init_saga_def)
  define s1 where "s1 = stepped ?reserve (Suc w) (snd (reserve_capacity uuid clock (sg_saga_id ?s0) ''validation_slots'' 1 w)) ?s0"
  have 1: "\<exists>seen'. run_steps fmt seen (?reserve # sts) ?s0 = run_steps fmt seen' sts s1" for seen sts
    unfolding s1_def using none by (intro run_first_attempt [of _ _ 2]) (simp_all add: defs)
  have s1: "sg_persistence s1 = None" "sg_failed_step s1 = None" "sg_world s1 = Suc w"
    "dget (sc_step_results (sg_context s1)) ''constitutional_hash'' = dget (sc_step_results c) ''constitutional_hash''"
    "sc_constitutional_hash (sg_context s1) = sc_constitutional_hash c"
    using none by (simp_all add: s1_def set_step_result_def dict_simps defs)
  obtain w2 d where verdict: "validate_constitutional_compliance uuid clock (sg_saga_id s1)
      (sc_step_results (sg_context s1)) (sc_constitutional_hash (sg_context s1)) (sg_world s1) = (w2, JObj d)"
    and d: "dget d ''is_valid'' = Some (JBool
       ((case dget (sc_step_results c) ''constitutional_hash'' of Some (JStr h) \<Rightarrow> h | _ \<Rightarrow> []) =
        (if sc_constitutional_hash c = [] then CONSTITUTIONAL_HASH else sc_constitutional_hash c)))"
    using compliance_document [of uuid clock "sg_saga_id s1" "sc_step_results (sg_context s1)"
        "sc_constitutional_hash (sg_context s1)" "sg_world s1"]
    unfolding s1(4,5) by blast
  define s2 where "s2 = stepped ?comply w2 (JObj d) s1"
  have 2: "\<exists>seen'. run_steps fmt seen (?comply # sts) s1 = run_steps fmt seen' sts s2" for seen sts
    unfolding s2_def using s1 verdict by (intro run_first_attempt [of _ _ 2]) (simp_all add: defs)
  have s2: "sg_persistence s2 = None" "sg_failed_step s2 = None"
    "dget (sc_step_results (sg_context s2)) ''validate_compliance'' = Some (JObj d)"
    using s1 by (simp_all add: s2_def set_step_result_def dict_simps defs)
  obtain seen1 where "run_steps fmt [] (sg_steps ?saga) ?s0 = run_steps fmt seen1 [?comply, ?reason, ?policy, ?audit] s1"
    using 1 unfolding steps by blast
  moreover obtain seen2 where "run_steps fmt seen1 [?comply, ?reason, ?policy, ?audit] s1 = run_steps fmt seen2 [?reason, ?policy, ?audit] s2"
    using 2 by blast
  moreover obtain seen3 s3 where "run_steps fmt seen2 [?reason, ?policy, ?audit] s2 = run_steps fmt seen3 [?policy, ?audit] s3"
    and s3: "sg_persistence s3 = None" "sg_failed_step s3 = None"
      "dget (sc_step_results (sg_context s3)) ''validate_compliance'' = Some (JObj d)"
    using run_reasoning_step [OF s2(1), of fmt seen2 uuid clock "[?policy, ?audit]"] s2(2,3) by auto
  moreover define s4 where "s4 = stepped ?policy (Suc (sg_world s3)) (snd (apply_policy_decision uuid clock
      (sg_saga_id s3) ''acgs/constitutional/allow'' (sc_step_results (sg_context s3)) (sg_world s3))) s3"
  then have s4: "sg_persistence s4 = None" "sg_failed_step s4 = None"
      "dget (sc_step_results (sg_context s4)) ''validate_compliance'' = Some (JObj d)"
    using s3 by (simp_all add: set_step_result_def dict_simps defs)
  have "\<exists>seen'. run_steps fmt seen3 [?policy, ?audit] s3 = run_steps fmt seen' [?audit] s4"
    unfolding s4_def using s3 by (intro run_first_attempt [of _ _ 2]) (simp_all add: defs)
  moreover define s5 where "s5 = stepped ?audit (Suc (sg_world s4)) (JStr (uuid (sg_world s4))) s4"
  then have s5: "sg_persistence s5 = None" "sg_failed_step s5 = None"
      "dget (sc_step_results (sg_context s5)) ''validate_compliance'' = Some (JObj d)"
    using s4 by (simp_all add: set_step_result_def dict_simps defs)
  have "\<exists>seen'. run_steps fmt seen4 [?audit] s4 = run_steps fmt seen' [] s5" for seen4
    unfolding s5_def using s4 by (intro run_first_attempt [of _ _ 2]) (simp_all add: defs)
  ultimately obtain seen5 where "run_steps fmt [] (sg_steps ?saga) ?s0 = (s5\<lparr>sg_steps := seen5\<rparr>, Inr ())"
    by (metis run_steps.simps(1))
  moreover have "sg_steps ?s0 = sg_steps ?saga" by simp
  ultimately have "execute_saga fmt (Some c) ?saga =
      (s5\<lparr>sg_steps := seen5, sg_status := SagaCompleted\<rparr>,
       Inr (build_result (s5\<lparr>sg_steps := seen5, sg_status := SagaCompleted\<rparr>)))"
    using none(1) s5(1,2) by (simp add: execute_without_provider execute_body_def truthy_str_def)
  then show ?thesis
    using s5 d by (simp add: build_result_def)
qed

end
