(* ===== verification/Constitution_Versions.thy ===== *)
theory Constitution_Versions
  imports Prelude
begin

text \<open>
  \<^verbatim>\<open>src/constitutional/version_model.py\<close>: constitutional versions, the validators their constructor runs, and
  their transitions. The validators see only strings of ASCII characters; the pattern of the field is
  matched before \<open>validate_semantic_version\<close> runs. \<open>None\<close> is the \<open>ValidationError\<close> of the constructor.
\<close>

section \<open>Decimal numbers\<close>

definition is_digit :: "char \<Rightarrow> bool" where
  "is_digit c = (let n = (of_char c :: nat) in 48 \<le> n \<and> n \<le> 57)"

definition digit_char :: "nat \<Rightarrow> char" where
  "digit_char n = char_of (48 + n)"

text \<open>\<open>str(n)\<close>, and \<open>int(s)\<close> of a string of digits; \<open>None\<close> is the \<open>ValueError\<close>.\<close>

fun nat_text :: "nat \<Rightarrow> string" where
  "nat_text n = (if n < 10 then [digit_char n] else nat_text (n div 10) @ [digit_char (n mod 10)])"

declare nat_text.simps [simp del]

definition digits_value :: "string \<Rightarrow> nat" where
  "digits_value s = foldl (\<lambda>v c. 10 * v + (of_char c - 48)) 0 s"

definition py_int :: "string \<Rightarrow> nat option" where
  "py_int s = (if s \<noteq> [] \<and> list_all is_digit s then Some (digits_value s) else None)"

text \<open>\<open>s.split(c)\<close>\<close>

fun split_char :: "char \<Rightarrow> string \<Rightarrow> string list" where
  "split_char c [] = [[]]"
| "split_char c (x # xs) =
     (if x = c then [] # split_char c xs
      else (case split_char c xs of p # ps \<Rightarrow> (x # p) # ps | [] \<Rightarrow> [[x]]))"

section \<open>Versions\<close>

datatype constitutional_status =
  CS_DRAFT | CS_PROPOSED | CS_UNDER_REVIEW | CS_APPROVED | CS_ACTIVE | CS_SUPERSEDED | CS_ROLLED_BACK
| CS_REJECTED

fun cstatus_value :: "constitutional_status \<Rightarrow> string" where
  "cstatus_value CS_DRAFT = ''draft''"
| "cstatus_value CS_PROPOSED = ''proposed''"
| "cstatus_value CS_UNDER_REVIEW = ''under_review''"
| "cstatus_value CS_APPROVED = ''approved''"
| "cstatus_value CS_ACTIVE = ''active''"
| "cstatus_value CS_SUPERSEDED = ''superseded''"
| "cstatus_value CS_ROLLED_BACK = ''rolled_back''"
| "cstatus_value CS_REJECTED = ''rejected''"

definition cstatuses :: "constitutional_status list" where
  "cstatuses = [CS_DRAFT, CS_PROPOSED, CS_UNDER_REVIEW, CS_APPROVED, CS_ACTIVE, CS_SUPERSEDED,
     CS_ROLLED_BACK, CS_REJECTED]"

record constitutional_version =
  cv_version_id :: string
  cv_version :: string
  cv_constitutional_hash :: string
  cv_content :: json_dict
  cv_predecessor_version :: "string option"
  cv_status :: constitutional_status
  cv_metadata :: json_dict
  cv_created_at :: rat
  cv_activated_at :: "rat option"
  cv_deactivated_at :: "rat option"

text \<open>The pattern \<^verbatim>\<open>^\d+\.\d+\.\d+$\<close>\<close>

definition eat_digits :: "string \<Rightarrow> string option" where
  "eat_digits s = (if s \<noteq> [] \<and> is_digit (hd s) then Some (dropWhile is_digit s) else None)"

definition eat_dot :: "string \<Rightarrow> string option" where
  "eat_dot s = (case s of c # cs \<Rightarrow> if c = CHR ''.'' then Some cs else None | [] \<Rightarrow> None)"

definition semver_pattern :: "string \<Rightarrow> bool" where
  "semver_pattern s =
     (Option.bind (Option.bind (Option.bind (Option.bind (eat_digits s) eat_dot) eat_digits) eat_dot)
        eat_digits = Some [])"

text \<open>\<open>validate_semantic_version\<close>: numbers read from digits are never negative.\<close>

definition validate_semantic_version :: "string \<Rightarrow> bool" where
  "validate_semantic_version v =
     (let parts = split_char CHR ''.'' v
      in length parts = 3 \<and> list_all (\<lambda>p. py_int p \<noteq> None) parts)"

definition hex_chars :: string where
  "hex_chars = ''0123456789abcdef''"

definition validate_hash_format :: "string \<Rightarrow> bool" where
  "validate_hash_format v = (v \<noteq> [] \<and> length v = 16 \<and> list_all (\<lambda>c. c \<in> set hex_chars) v)"

text \<open>
  The constructor, of arguments of the declared types: the identifier is a new one where it is not given
  or empty. A hash that is not given is the default one, which is not validated.
\<close>

definition make_version ::
  "string \<Rightarrow> rat \<Rightarrow> string option \<Rightarrow> string \<Rightarrow> string option \<Rightarrow> json_dict \<Rightarrow> string option \<Rightarrow>
   constitutional_status \<Rightarrow> json_dict \<Rightarrow> constitutional_version option" where
  "make_version uuid now version_id version chash content predecessor status metadata =
     (if semver_pattern version \<and> validate_semantic_version version \<and>
         (case chash of None \<Rightarrow> True | Some h \<Rightarrow> validate_hash_format h)
      then Some \<lparr>cv_version_id = (if truthy_str version_id then the version_id else uuid),
                 cv_version = version,
                 cv_constitutional_hash = (case chash of None \<Rightarrow> CONSTITUTIONAL_HASH | Some h \<Rightarrow> h),
                 cv_content = content, cv_predecessor_version = predecessor, cv_status = status,
                 cv_metadata = metadata, cv_created_at = now, cv_activated_at = None,
                 cv_deactivated_at = None\<rparr>
      else None)"

definition is_active :: "constitutional_version \<Rightarrow> bool" where
  "is_active v = (cv_status v = CS_ACTIVE)"

text \<open>\<open>semantic_version_tuple\<close>; \<open>None\<close> where a part is missing or no number\<close>

definition semantic_version_tuple :: "string \<Rightarrow> (nat \<times> nat \<times> nat) option" where
  "semantic_version_tuple version =
     (case split_char CHR ''.'' version of
        a # b # c # _ \<Rightarrow>
          (case (py_int a, py_int b, py_int c) of
             (Some x, Some y, Some z) \<Rightarrow> Some (x, y, z)
           | _ \<Rightarrow> None)
      | _ \<Rightarrow> None)"

definition activate_cversion :: "rat \<Rightarrow> constitutional_version \<Rightarrow> constitutional_version" where
  "activate_cversion now v =
     v\<lparr>cv_status := CS_ACTIVE,
       cv_activated_at := (case cv_activated_at v of None \<Rightarrow> Some now | Some t \<Rightarrow> Some t)\<rparr>"

definition deactivate_cversion :: "rat \<Rightarrow> string \<Rightarrow> constitutional_version \<Rightarrow> constitutional_version" where
  "deactivate_cversion now reason v =
     v\<lparr>cv_status := (if reason = ''rolled_back'' then CS_ROLLED_BACK else CS_SUPERSEDED),
       cv_deactivated_at := (case cv_deactivated_at v of None \<Rightarrow> Some now | Some t \<Rightarrow> Some t)\<rparr>"

section \<open>Facts\<close>

lemma cstatus_of_value [simp]: "enum_of cstatus_value cstatuses (cstatus_value s) = Some s"
  by (cases s) (simp_all add: enum_of_def cstatuses_def)

lemma dot_no_digit: "is_digit c \<Longrightarrow> c \<noteq> CHR ''.''"
  by (auto simp: is_digit_def)

lemma split_char_free: "c \<notin> set s \<Longrightarrow> split_char c s = [s]"
  by (induction s) auto

lemma split_char_not_Nil: "split_char c s \<noteq> []"
  by (induction s) (auto split: list.splits)

lemma split_char_first: "c \<notin> set p \<Longrightarrow> split_char c (p @ c # s) = p # split_char c s"
  by (induction p) auto

lemma eat_digits_Some:
  "eat_digits s = Some r \<longleftrightarrow> (\<exists>p. p \<noteq> [] \<and> list_all is_digit p \<and> s = p @ r \<and> (r = [] \<or> \<not> is_digit (hd r)))"
proof
  assume "eat_digits s = Some r"
  then have s: "s \<noteq> []" "is_digit (hd s)" "r = dropWhile is_digit s"
    by (auto simp: eat_digits_def split: if_splits)
  then have "takeWhile is_digit s \<noteq> []" by (cases s) auto
  moreover have "list_all is_digit (takeWhile is_digit s)"
    by (auto simp: list_all_iff dest: set_takeWhileD)
  moreover have "s = takeWhile is_digit s @ r" using s(3) by simp
  moreover have "r = [] \<or> \<not> is_digit (hd r)"
    using s(3) hd_dropWhile [of is_digit s] by (cases "r = []") auto
  ultimately show "\<exists>p. p \<noteq> [] \<and> list_all is_digit p \<and> s = p @ r \<and> (r = [] \<or> \<not> is_digit (hd r))"
    by blast
next
  assume "\<exists>p. p \<noteq> [] \<and> list_all is_digit p \<and> s = p @ r \<and> (r = [] \<or> \<not> is_digit (hd r))"
  then show "eat_digits s = Some r"
    by (cases r) (auto simp: eat_digits_def list_all_iff dropWhile_append2)
qed

lemma eat_dot_Some: "eat_dot s = Some r \<longleftrightarrow> s = CHR ''.'' # r"
  by (auto simp: eat_dot_def split: list.splits)

text \<open>The strings of the pattern are three runs of digits with dots between them.\<close>

lemma semver_pattern_iff:
  "semver_pattern s \<longleftrightarrow>
     (\<exists>a b c. py_int a \<noteq> None \<and> py_int b \<noteq> None \<and> py_int c \<noteq> None \<and>
        s = a @ CHR ''.'' # b @ CHR ''.'' # c)"
proof
  assume "semver_pattern s"
  then obtain r1 r2 r3 r4 where eats: "eat_digits s = Some r1" "eat_dot r1 = Some r2" "eat_digits r2 = Some r3"
    "eat_dot r3 = Some r4" "eat_digits r4 = Some []"
    by (auto simp: semver_pattern_def bind_eq_Some_conv)
  have "\<exists>p. py_int p \<noteq> None \<and> t = p @ r" if "eat_digits t = Some r" for t r
    using that by (auto simp: eat_digits_Some py_int_def)
  with eats obtain a b c where "py_int a \<noteq> None" "s = a @ r1" "py_int b \<noteq> None" "r2 = b @ r3"
    "py_int c \<noteq> None" "r4 = c @ []"
    by metis
  then show "\<exists>a b c. py_int a \<noteq> None \<and> py_int b \<noteq> None \<and> py_int c \<noteq> None \<and>
      s = a @ CHR ''.'' # b @ CHR ''.'' # c"
    using eats(2,4) unfolding eat_dot_Some by auto
next
  assume "\<exists>a b c. py_int a \<noteq> None \<and> py_int b \<noteq> None \<and> py_int c \<noteq> None \<and> s = a @ CHR ''.'' # b @ CHR ''.'' # c"
  then obtain a b c where abc: "a \<noteq> []" "list_all is_digit a" "b \<noteq> []" "list_all is_digit b" "c \<noteq> []"
    "list_all is_digit c" "s = a @ CHR ''.'' # b @ CHR ''.'' # c"
    by (auto simp: py_int_def split: if_splits)
  have dot: "\<not> is_digit CHR ''.''" by (simp add: is_digit_def)
  have "eat_digits s = Some (CHR ''.'' # b @ CHR ''.'' # c)"
    "eat_digits (b @ CHR ''.'' # c) = Some (CHR ''.'' # c)" "eat_digits c = Some []"
    using abc dot by (auto simp: eat_digits_Some)
  then show "semver_pattern s" by (simp add: semver_pattern_def eat_dot_def)
qed

lemma digits_no_dot: "py_int a \<noteq> None \<Longrightarrow> CHR ''.'' \<notin> set a"
  using dot_no_digit by (auto simp: py_int_def list_all_iff split: if_splits)

lemma split_semver:
  "py_int a \<noteq> None \<Longrightarrow> py_int b \<noteq> None \<Longrightarrow> py_int c \<noteq> None \<Longrightarrow>
   split_char CHR ''.'' (a @ CHR ''.'' # b @ CHR ''.'' # c) = [a, b, c]"
  by (simp add: split_char_first split_char_free digits_no_dot)

text \<open>The pattern leaves nothing to the validator, and the tuple of a valid version exists.\<close>

lemma pattern_implies_validator: "semver_pattern s \<Longrightarrow> validate_semantic_version s"
  by (auto simp: semver_pattern_iff validate_semantic_version_def split_semver)

lemma pattern_has_tuple: "semver_pattern s \<Longrightarrow> semantic_version_tuple s \<noteq> None"
  by (auto simp: semver_pattern_iff semantic_version_tuple_def split_semver)

lemma is_digit_char: "n < 10 \<Longrightarrow> is_digit (digit_char n)"
  by (simp add: is_digit_def digit_char_def of_char_of take_bit_nat_eq_self)

lemma nat_text_digits: "nat_text n \<noteq> [] \<and> list_all is_digit (nat_text n)"
proof (induction n rule: nat_text.induct)
  case (1 n)
  then show ?case by (subst (1 2) nat_text.simps) (auto simp: is_digit_char)
qed

lemma digits_value_snoc: "digits_value (s @ [c]) = 10 * digits_value s + (of_char c - 48)"
  by (simp add: digits_value_def)

lemma digit_value: "n < 10 \<Longrightarrow> (of_char (digit_char n) :: nat) - 48 = n"
  by (simp add: digit_char_def of_char_of take_bit_nat_eq_self)

lemma digits_value_text [simp]: "digits_value (nat_text n) = n"
proof (induction n rule: nat_text.induct)
  case (1 n)
  then show ?case
    by (subst nat_text.simps) (auto simp: digits_value_snoc digit_value, auto simp: digits_value_def digit_value)
qed

lemma py_int_nat_text [simp]: "py_int (nat_text n) = Some n"
  using nat_text_digits by (simp add: py_int_def)

end
