(* ===== verification/Constitution_Amendments.thy ===== *)
theory Constitution_Amendments
  imports Constitution_Versions
begin

text \<open>
  \<^verbatim>\<open>src/constitutional/amendment_model.py\<close>: amendment proposals, the validators of their constructor and
  their status transitions. \<open>None\<close> is the \<open>ValidationError\<close> of the constructor; a transition in the wrong
  status raises the bus's own \<open>ValidationError\<close>, whose \<open>error_code\<close> is the error value here.
\<close>

datatype amendment_status =
  AM_PROPOSED | AM_UNDER_REVIEW | AM_APPROVED | AM_REJECTED | AM_ACTIVE | AM_ROLLED_BACK | AM_WITHDRAWN

fun astatus_value :: "amendment_status \<Rightarrow> string" where
  "astatus_value AM_PROPOSED = ''proposed''"
| "astatus_value AM_UNDER_REVIEW = ''under_review''"
| "astatus_value AM_APPROVED = ''approved''"
| "astatus_value AM_REJECTED = ''rejected''"
| "astatus_value AM_ACTIVE = ''active''"
| "astatus_value AM_ROLLED_BACK = ''rolled_back''"
| "astatus_value AM_WITHDRAWN = ''withdrawn''"

definition astatuses :: "amendment_status list" where
  "astatuses = [AM_PROPOSED, AM_UNDER_REVIEW, AM_APPROVED, AM_REJECTED, AM_ACTIVE, AM_ROLLED_BACK, AM_WITHDRAWN]"

record amendment =
  am_proposal_id :: string
  am_proposed_changes :: json_dict
  am_justification :: string
  am_proposer_agent_id :: string
  am_target_version :: string
  am_new_version :: "string option"
  am_status :: amendment_status
  am_impact_score :: "rat option"
  am_impact_factors :: "(string, rat) dict"
  am_impact_recommendation :: "string option"
  am_requires_deliberation :: bool
  am_metrics_before :: "(string, rat) dict"
  am_metrics_after :: "(string, rat) dict"
  am_approval_chain :: "json_dict list"
  am_rejection_reason :: "string option"
  am_rollback_reason :: "string option"
  am_invariant_hash :: "string option"
  am_invariant_impact :: "string list"
  am_requires_refoundation :: bool
  am_metadata :: json_dict
  am_created_at :: rat
  am_reviewed_at :: "rat option"
  am_activated_at :: "rat option"
  am_rolled_back_at :: "rat option"

definition valid_version_field :: "string \<Rightarrow> bool" where
  "valid_version_field v = (semver_pattern v \<and> validate_semantic_version v)"

text \<open>The constructor, of the values given (the defaults filled in)\<close>

definition make_amendment :: "string \<Rightarrow> amendment \<Rightarrow> amendment option" where
  "make_amendment uuid a =
     (if am_proposed_changes a \<noteq> [] \<and>
         10 \<le> length (am_justification a) \<and> 10 \<le> length (py_strip (am_justification a)) \<and>
         valid_version_field (am_target_version a) \<and>
         (case am_new_version a of None \<Rightarrow> True | Some v \<Rightarrow> valid_version_field v) \<and>
         (case am_impact_score a of None \<Rightarrow> True | Some x \<Rightarrow> 0 \<le> x \<and> x \<le> 1)
      then Some (a\<lparr>am_proposal_id := (if am_proposal_id a = [] then uuid else am_proposal_id a),
                   am_justification := py_strip (am_justification a),
                   am_metadata := (if ''constitutional_hash'' \<in> set (dkeys (am_metadata a)) then am_metadata a
                                   else dset ''constitutional_hash'' (JStr CONSTITUTIONAL_HASH) (am_metadata a))\<rparr>)
      else None)"

definition is_pending :: "amendment \<Rightarrow> bool" where
  "is_pending a = (am_status a \<in> {AM_PROPOSED, AM_UNDER_REVIEW})"

definition is_final :: "amendment \<Rightarrow> bool" where
  "is_final a = (am_status a \<in> {AM_REJECTED, AM_ROLLED_BACK, AM_WITHDRAWN})"

definition high_impact :: "amendment \<Rightarrow> bool" where
  "high_impact a = (case am_impact_score a of None \<Rightarrow> False | Some x \<Rightarrow> 8 / 10 \<le> x)"

definition medium_impact :: "amendment \<Rightarrow> bool" where
  "medium_impact a = (case am_impact_score a of None \<Rightarrow> False | Some x \<Rightarrow> 5 / 10 \<le> x \<and> x < 8 / 10)"

definition low_impact :: "amendment \<Rightarrow> bool" where
  "low_impact a = (case am_impact_score a of None \<Rightarrow> False | Some x \<Rightarrow> x < 5 / 10)"

section \<open>Transitions\<close>

type_synonym transition = "string + amendment"

definition am_submit_for_review :: "amendment \<Rightarrow> transition" where
  "am_submit_for_review a =
     (if am_status a \<noteq> AM_PROPOSED then Inl ''AMENDMENT_NOT_PROPOSED''
      else Inr (a\<lparr>am_status := AM_UNDER_REVIEW\<rparr>))"

definition am_approve :: "rat \<Rightarrow> string \<Rightarrow> string \<Rightarrow> amendment \<Rightarrow> transition" where
  "am_approve now approver_id approver_role a =
     (if am_status a \<noteq> AM_UNDER_REVIEW then Inl ''AMENDMENT_NOT_UNDER_REVIEW''
      else Inr (a\<lparr>am_status := AM_APPROVED, am_reviewed_at := Some now,
                  am_approval_chain := am_approval_chain a @
                    [[(''approver_id'', JStr approver_id), (''approver_role'', JStr approver_role),
                      (''decision'', JStr ''approved''), (''timestamp'', JTime now)]]\<rparr>))"

definition am_reject :: "rat \<Rightarrow> string \<Rightarrow> string \<Rightarrow> string \<Rightarrow> amendment \<Rightarrow> transition" where
  "am_reject now reviewer_id reason reviewer_role a =
     (if am_status a \<noteq> AM_UNDER_REVIEW then Inl ''AMENDMENT_NOT_UNDER_REVIEW''
      else Inr (a\<lparr>am_status := AM_REJECTED, am_reviewed_at := Some now, am_rejection_reason := Some reason,
                  am_approval_chain := am_approval_chain a @
                    [[(''reviewer_id'', JStr reviewer_id), (''reviewer_role'', JStr reviewer_role),
                      (''decision'', JStr ''rejected''), (''reason'', JStr reason), (''timestamp'', JTime now)]]\<rparr>))"

definition am_activate :: "rat \<Rightarrow> (string, rat) dict option \<Rightarrow> amendment \<Rightarrow> transition" where
  "am_activate now metrics a =
     (if am_status a \<noteq> AM_APPROVED then Inl ''AMENDMENT_NOT_APPROVED''
      else Inr (a\<lparr>am_status := AM_ACTIVE, am_activated_at := Some now,
                  am_metrics_before := (case metrics of Some (m # ms) \<Rightarrow> m # ms | _ \<Rightarrow> am_metrics_before a)\<rparr>))"

definition am_rollback :: "rat \<Rightarrow> string \<Rightarrow> (string, rat) dict option \<Rightarrow> amendment \<Rightarrow> transition" where
  "am_rollback now reason metrics a =
     (if am_status a \<noteq> AM_ACTIVE then Inl ''AMENDMENT_NOT_ACTIVE''
      else Inr (a\<lparr>am_status := AM_ROLLED_BACK, am_rolled_back_at := Some now, am_rollback_reason := Some reason,
                  am_metrics_after := (case metrics of Some (m # ms) \<Rightarrow> m # ms | _ \<Rightarrow> am_metrics_after a)\<rparr>))"

definition am_withdraw :: "amendment \<Rightarrow> transition" where
  "am_withdraw a =
     (if \<not> is_pending a then Inl ''AMENDMENT_NOT_PENDING'' else Inr (a\<lparr>am_status := AM_WITHDRAWN\<rparr>))"

definition calculate_metrics_delta :: "amendment \<Rightarrow> (string, rat) dict" where
  "calculate_metrics_delta a =
     (if am_metrics_before a = [] \<or> am_metrics_after a = [] then []
      else concat (map (\<lambda>(n, before). case dget (am_metrics_after a) n of
                                         None \<Rightarrow> []
                                       | Some after \<Rightarrow> [(n, after - before)]) (am_metrics_before a)))"

section \<open>The life of an amendment\<close>

datatype amendment_call =
  SubmitForReview
| Approve rat string string
| Reject rat string string string
| Activate rat "(string, rat) dict option"
| Rollback rat string "(string, rat) dict option"
| Withdraw

fun apply_call :: "amendment_call \<Rightarrow> amendment \<Rightarrow> transition" where
  "apply_call SubmitForReview a = am_submit_for_review a"
| "apply_call (Approve now who role) a = am_approve now who role a"
| "apply_call (Reject now who why role) a = am_reject now who why role a"
| "apply_call (Activate now m) a = am_activate now m a"
| "apply_call (Rollback now why m) a = am_rollback now why m a"
| "apply_call Withdraw a = am_withdraw a"

text \<open>The documented life cycle\<close>

inductive amendment_edge :: "amendment_status \<Rightarrow> amendment_status \<Rightarrow> bool" where
  "amendment_edge AM_PROPOSED AM_UNDER_REVIEW"
| "amendment_edge AM_UNDER_REVIEW AM_APPROVED"
| "amendment_edge AM_UNDER_REVIEW AM_REJECTED"
| "amendment_edge AM_APPROVED AM_ACTIVE"
| "amendment_edge AM_ACTIVE AM_ROLLED_BACK"
| "amendment_edge AM_PROPOSED AM_WITHDRAWN"
| "amendment_edge AM_UNDER_REVIEW AM_WITHDRAWN"

inductive_simps amendment_edge_from [simp]:
  "amendment_edge AM_PROPOSED st" "amendment_edge AM_UNDER_REVIEW st" "amendment_edge AM_APPROVED st"
  "amendment_edge AM_ACTIVE st" "amendment_edge AM_REJECTED st" "amendment_edge AM_ROLLED_BACK st"
  "amendment_edge AM_WITHDRAWN st"

lemmas amendment_call_defs =
  am_submit_for_review_def am_approve_def am_reject_def am_activate_def am_rollback_def am_withdraw_def
  is_pending_def

lemma amendment_call_edge: "apply_call e a = Inr a' \<Longrightarrow> amendment_edge (am_status a) (am_status a')"
  by (cases e) (auto simp: amendment_call_defs split: if_splits)

text \<open>A call answers where the life cycle has the edge it names, and nowhere else.\<close>

fun target_status :: "amendment_call \<Rightarrow> amendment_status" where
  "target_status SubmitForReview = AM_UNDER_REVIEW"
| "target_status (Approve _ _ _) = AM_APPROVED"
| "target_status (Reject _ _ _ _) = AM_REJECTED"
| "target_status (Activate _ _) = AM_ACTIVE"
| "target_status (Rollback _ _ _) = AM_ROLLED_BACK"
| "target_status Withdraw = AM_WITHDRAWN"

lemma amendment_call_iff:
  "is_ok (apply_call e a) \<longleftrightarrow> amendment_edge (am_status a) (target_status e)"
  by (cases e; cases "am_status a") (simp_all add: amendment_call_defs)

lemma final_stays: "is_final a \<Longrightarrow> \<not> is_ok (apply_call e a)"
  by (cases e) (auto simp: amendment_call_defs is_final_def)

end
