(* ===== verification/Constitution_Storage.thy ===== *)
theory Constitution_Storage
  imports Constitution_Amendments Saga_Workflow
begin

text \<open>
  \<^verbatim>\<open>src/constitutional/storage.py\<close> and \<^verbatim>\<open>src/constitutional/storage_infra/\<close>: the storage service of versions
  and amendments, over Redis (cache and lock) and PostgreSQL. Both services are arguments: records of
  functions on a state \<open>'w\<close> of the world, which return a value or raise. \<open>Op\<close> is an exception that the
  handlers of the package list (an \<open>OSError\<close>, \<open>RuntimeError\<close>, \<open>ValueError\<close> or \<open>TypeError\<close>), \<open>Foreign\<close>
  one they do not (an error of SQLAlchemy or of the Redis client). A value cached in Redis is a JSON text,
  represented by the document it is the text of; a datetime in it is \<open>JTime\<close>.
\<close>

section \<open>Actions\<close>

type_synonym ('w, 'a) act = "'w \<Rightarrow> 'w \<times> (saga_exn + 'a)"

definition return_act :: "'a \<Rightarrow> ('w, 'a) act" where
  "return_act x w = (w, Inr x)"

definition raise_act :: "saga_exn \<Rightarrow> ('w, 'a) act" where
  "raise_act e w = (w, Inl e)"

definition and_then :: "('w, 'a) act \<Rightarrow> ('a \<Rightarrow> ('w, 'b) act) \<Rightarrow> ('w, 'b) act" where
  "and_then m f w = (case m w of (w', Inl e) \<Rightarrow> (w', Inl e) | (w', Inr x) \<Rightarrow> f x w')"

text \<open>\<open>try: m except (the listed errors): return x\<close>\<close>

definition or_else :: "('w, 'a) act \<Rightarrow> 'a \<Rightarrow> ('w, 'a) act" where
  "or_else m x w = (case m w of (w', Inl e) \<Rightarrow> if caught e then (w', Inr x) else (w', Inl e) | r \<Rightarrow> r)"

text \<open>\<open>try: m finally: c\<close>; an exception of \<open>c\<close> replaces the outcome of \<open>m\<close>.\<close>

definition finally_do :: "('w, 'a) act \<Rightarrow> ('w, 'b) act \<Rightarrow> ('w, 'a) act" where
  "finally_do m c w =
     (case m w of (w', r) \<Rightarrow> (case c w' of (w'', Inl e) \<Rightarrow> (w'', Inl e) | (w'', Inr _) \<Rightarrow> (w'', r)))"

lemma act_simps [simp]:
  "return_act x w = (w, Inr x)"
  "m w = (w', Inr x) \<Longrightarrow> and_then m f w = f x w'"
  "m w = (w', Inl e) \<Longrightarrow> and_then m f w = (w', Inl e)"
  "m w = (w', Inr x) \<Longrightarrow> or_else m y w = (w', Inr x)"
  "m w = (w', Inl e) \<Longrightarrow> caught e \<Longrightarrow> or_else m y w = (w', Inr y)"
  "m w = (w', Inl e) \<Longrightarrow> \<not> caught e \<Longrightarrow> or_else m y w = (w', Inl e)"
  by (simp_all add: return_act_def and_then_def or_else_def)

section \<open>Rows and documents\<close>

record version_row =
  vr_version_id :: string
  vr_tenant_id :: string
  vr_version :: string
  vr_constitutional_hash :: string
  vr_content :: json_dict
  vr_predecessor_version :: "string option"
  vr_status :: string
  vr_extra_metadata :: json_dict
  vr_created_at :: rat
  vr_activated_at :: "rat option"
  vr_deactivated_at :: "rat option"

record amendment_row =
  ar_proposal_id :: string
  ar_tenant_id :: string
  ar_proposed_changes :: json_dict
  ar_justification :: string
  ar_proposer_agent_id :: string
  ar_target_version :: string
  ar_new_version :: "string option"
  ar_status :: string
  ar_impact_score :: "rat option"
  ar_impact_factors :: "(string, rat) dict"
  ar_impact_recommendation :: "string option"
  ar_requires_deliberation :: string
  ar_metrics_before :: "(string, rat) dict"
  ar_metrics_after :: "(string, rat) dict"
  ar_approval_chain :: "json_dict list"
  ar_rejection_reason :: "string option"
  ar_rollback_reason :: "string option"
  ar_extra_metadata :: json_dict
  ar_created_at :: rat
  ar_reviewed_at :: "rat option"
  ar_activated_at :: "rat option"
  ar_rolled_back_at :: "rat option"

definition row_of_version :: "string \<Rightarrow> constitutional_version \<Rightarrow> version_row" where
  "row_of_version tid v =
     \<lparr>vr_version_id = cv_version_id v, vr_tenant_id = tid, vr_version = cv_version v,
      vr_constitutional_hash = cv_constitutional_hash v, vr_content = cv_content v,
      vr_predecessor_version = cv_predecessor_version v, vr_status = cstatus_value (cv_status v),
      vr_extra_metadata = cv_metadata v, vr_created_at = cv_created_at v,
      vr_activated_at = cv_activated_at v, vr_deactivated_at = cv_deactivated_at v\<rparr>"

text \<open>
  What the constructor of a version checks of values read back; a stored identifier is not empty.
\<close>

definition valid_version :: "constitutional_version \<Rightarrow> bool" where
  "valid_version v \<longleftrightarrow> valid_version_field (cv_version v) \<and> validate_hash_format (cv_constitutional_hash v)"

text \<open>\<open>_db_to_pydantic_version\<close>; \<open>None\<close> is the \<open>ValueError\<close> of an unknown status or a \<open>ValidationError\<close>.\<close>

definition version_of_row :: "version_row \<Rightarrow> constitutional_version option" where
  "version_of_row r =
     (case enum_of cstatus_value cstatuses (vr_status r) of
        None \<Rightarrow> None
      | Some st \<Rightarrow>
          (let v = \<lparr>cv_version_id = vr_version_id r, cv_version = vr_version r,
                    cv_constitutional_hash = vr_constitutional_hash r, cv_content = vr_content r,
                    cv_predecessor_version = vr_predecessor_version r, cv_status = st,
                    cv_metadata = vr_extra_metadata r, cv_created_at = vr_created_at r,
                    cv_activated_at = vr_activated_at r, cv_deactivated_at = vr_deactivated_at r\<rparr>
           in if valid_version v then Some v else None))"

text \<open>The score is stored as its text, and not at all where it is false: missing or zero.\<close>

definition row_of_amendment :: "string \<Rightarrow> amendment \<Rightarrow> amendment_row" where
  "row_of_amendment tid a =
     \<lparr>ar_proposal_id = am_proposal_id a, ar_tenant_id = tid, ar_proposed_changes = am_proposed_changes a,
      ar_justification = am_justification a, ar_proposer_agent_id = am_proposer_agent_id a,
      ar_target_version = am_target_version a, ar_new_version = am_new_version a,
      ar_status = astatus_value (am_status a),
      ar_impact_score = (case am_impact_score a of None \<Rightarrow> None | Some x \<Rightarrow> if x = 0 then None else Some x),
      ar_impact_factors = am_impact_factors a, ar_impact_recommendation = am_impact_recommendation a,
      ar_requires_deliberation = (if am_requires_deliberation a then ''true'' else ''false''),
      ar_metrics_before = am_metrics_before a, ar_metrics_after = am_metrics_after a,
      ar_approval_chain = am_approval_chain a, ar_rejection_reason = am_rejection_reason a,
      ar_rollback_reason = am_rollback_reason a, ar_extra_metadata = am_metadata a,
      ar_created_at = am_created_at a, ar_reviewed_at = am_reviewed_at a,
      ar_activated_at = am_activated_at a, ar_rolled_back_at = am_rolled_back_at a\<rparr>"

definition amendment_of_row :: "amendment_row \<Rightarrow> amendment option" where
  "amendment_of_row r =
     (case enum_of astatus_value astatuses (ar_status r) of
        None \<Rightarrow> None
      | Some st \<Rightarrow>
          make_amendment (ar_proposal_id r)
            \<lparr>am_proposal_id = ar_proposal_id r, am_proposed_changes = ar_proposed_changes r,
             am_justification = ar_justification r, am_proposer_agent_id = ar_proposer_agent_id r,
             am_target_version = ar_target_version r, am_new_version = ar_new_version r, am_status = st,
             am_impact_score = ar_impact_score r, am_impact_factors = ar_impact_factors r,
             am_impact_recommendation = ar_impact_recommendation r,
             am_requires_deliberation = (ar_requires_deliberation r = ''true''),
             am_metrics_before = ar_metrics_before r, am_metrics_after = ar_metrics_after r,
             am_approval_chain = ar_approval_chain r, am_rejection_reason = ar_rejection_reason r,
             am_rollback_reason = ar_rollback_reason r, am_invariant_hash = None, am_invariant_impact = [],
             am_requires_refoundation = False, am_metadata = ar_extra_metadata r,
             am_created_at = ar_created_at r, am_reviewed_at = ar_reviewed_at r,
             am_activated_at = ar_activated_at r, am_rolled_back_at = ar_rolled_back_at r\<rparr>)"

definition jtime_option :: "rat option \<Rightarrow> json" where
  "jtime_option t = (case t of None \<Rightarrow> JNull | Some x \<Rightarrow> JTime x)"

text \<open>\<open>json.dumps(version.to_dict())\<close> and \<open>ConstitutionalVersion(**json.loads(s))\<close>\<close>

definition version_document :: "constitutional_version \<Rightarrow> json" where
  "version_document v = JObj
     [(''version_id'', JStr (cv_version_id v)), (''version'', JStr (cv_version v)),
      (''constitutional_hash'', JStr (cv_constitutional_hash v)), (''content'', JObj (cv_content v)),
      (''predecessor_version'', jstr_option (cv_predecessor_version v)),
      (''status'', JStr (cstatus_value (cv_status v))), (''metadata'', JObj (cv_metadata v)),
      (''created_at'', JTime (cv_created_at v)), (''activated_at'', jtime_option (cv_activated_at v)),
      (''deactivated_at'', jtime_option (cv_deactivated_at v))]"

definition opt_string :: "json option \<Rightarrow> string option option" where
  "opt_string j = (case j of Some JNull \<Rightarrow> Some None | Some (JStr s) \<Rightarrow> Some (Some s) | _ \<Rightarrow> None)"

definition opt_time :: "json option \<Rightarrow> rat option option" where
  "opt_time j = (case j of Some JNull \<Rightarrow> Some None | Some (JTime t) \<Rightarrow> Some (Some t) | _ \<Rightarrow> None)"

text \<open>Only documents with the fields \<open>to_dict\<close> writes are read; \<open>None\<close> is a \<open>ValidationError\<close>.\<close>

definition version_of_document :: "json \<Rightarrow> constitutional_version option" where
  "version_of_document j =
     (case j of
        JObj d \<Rightarrow>
          (case (json_string (dget d ''version_id''), json_string (dget d ''version''),
                 json_string (dget d ''constitutional_hash''), dget d ''content'',
                 opt_string (dget d ''predecessor_version''),
                 Option.bind (json_string (dget d ''status'')) (enum_of cstatus_value cstatuses),
                 dget d ''metadata'', dget d ''created_at'', opt_time (dget d ''activated_at''),
                 opt_time (dget d ''deactivated_at'')) of
             (Some i, Some n, Some h, Some (JObj c), Some p, Some st, Some (JObj m), Some (JTime t), Some a, Some x) \<Rightarrow>
               (let v = \<lparr>cv_version_id = i, cv_version = n, cv_constitutional_hash = h, cv_content = c,
                         cv_predecessor_version = p, cv_status = st, cv_metadata = m, cv_created_at = t,
                         cv_activated_at = a, cv_deactivated_at = x\<rparr>
                in if valid_version v then Some v else None)
           | _ \<Rightarrow> None)
      | _ \<Rightarrow> None)"

lemma version_document_read:
  "version_of_document (version_document v) = (if valid_version v then Some v else None)"
  by (cases v; cases "cv_predecessor_version v"; cases "cv_activated_at v"; cases "cv_deactivated_at v")
    (simp_all add: version_of_document_def version_document_def json_string_def opt_string_def opt_time_def
      jtime_option_def)

lemma version_row_read:
  "version_of_row (row_of_version tid v) = (if valid_version v then Some v else None)"
  by (cases v) (simp add: version_of_row_def row_of_version_def)

section \<open>The services\<close>

record 'w redis =
  rd_get :: "string \<Rightarrow> ('w, json option) act"
  rd_setex :: "string \<Rightarrow> nat \<Rightarrow> json \<Rightarrow> ('w, unit) act"
  rd_set_nx :: "string \<Rightarrow> nat \<Rightarrow> json \<Rightarrow> ('w, bool) act"
  rd_delete :: "string \<Rightarrow> ('w, unit) act"

text \<open>
  The statements the persistence manager runs, each in a session of its own: an insert with its commit,
  the select of one row by identifier and tenant, the commit of changed fields of a row that was read,
  the selects of the active row and of pages of rows. \<open>scalar_one_or_none\<close> is part of a select of one row.
\<close>

record 'w database =
  db_insert_version :: "version_row \<Rightarrow> ('w, unit) act"
  db_select_version :: "string \<Rightarrow> string \<Rightarrow> ('w, version_row option) act"
  db_commit_version :: "version_row \<Rightarrow> ('w, unit) act"
  db_select_active :: "string \<Rightarrow> ('w, version_row option) act"
  db_select_versions :: "string \<Rightarrow> string option \<Rightarrow> int \<Rightarrow> int \<Rightarrow> ('w, version_row list) act"
  db_insert_amendment :: "amendment_row \<Rightarrow> ('w, unit) act"
  db_select_amendment :: "string \<Rightarrow> string \<Rightarrow> ('w, amendment_row option) act"
  db_count_amendments :: "string \<Rightarrow> string option \<Rightarrow> string option \<Rightarrow> ('w, nat) act"
  db_select_amendments :: "string \<Rightarrow> string option \<Rightarrow> string option \<Rightarrow> int \<Rightarrow> int \<Rightarrow> ('w, amendment_row list) act"

record storage_config =
  sc_cache_ttl :: nat
  sc_lock_timeout :: nat
  sc_enable_multi_tenancy :: bool
  sc_default_tenant_id :: string
  sc_version_prefix :: string
  sc_active_version_key :: string
  sc_lock_key :: string

definition default_storage_config :: storage_config where
  "default_storage_config = \<lparr>sc_cache_ttl = 3600, sc_lock_timeout = 30, sc_enable_multi_tenancy = True,
     sc_default_tenant_id = ''system'', sc_version_prefix = ''constitutional:version:'',
     sc_active_version_key = ''constitutional:active_version'',
     sc_lock_key = ''constitutional:lock:version_transition''\<rparr>"

text \<open>A service that is not connected is \<open>None\<close>.\<close>

record 'w storage_service =
  sv_config :: storage_config
  sv_redis :: "'w redis option"
  sv_database :: "'w database option"

section \<open>The cache and the lock\<close>

definition tenant_key :: "string \<Rightarrow> string \<Rightarrow> string" where
  "tenant_key base_key tid = ''tenant:'' @ tid @ '':'' @ base_key"

definition cache_get_version ::
  "'w storage_service \<Rightarrow> string \<Rightarrow> string \<Rightarrow> ('w, constitutional_version option) act" where
  "cache_get_version sv vid tid =
     (case sv_redis sv of
        None \<Rightarrow> return_act None
      | Some r \<Rightarrow>
          or_else (and_then (rd_get r (tenant_key (sc_version_prefix (sv_config sv) @ vid) tid))
            (\<lambda>j. return_act (Option.bind j version_of_document))) None)"

definition cache_set_version :: "'w storage_service \<Rightarrow> constitutional_version \<Rightarrow> string \<Rightarrow> ('w, bool) act" where
  "cache_set_version sv v tid =
     (case sv_redis sv of
        None \<Rightarrow> return_act False
      | Some r \<Rightarrow>
          or_else (and_then (rd_setex r (tenant_key (sc_version_prefix (sv_config sv) @ cv_version_id v) tid)
                               (sc_cache_ttl (sv_config sv)) (version_document v))
            (\<lambda>_. return_act True)) False)"

definition cache_invalidate_version :: "'w storage_service \<Rightarrow> string \<Rightarrow> string \<Rightarrow> ('w, bool) act" where
  "cache_invalidate_version sv vid tid =
     (case sv_redis sv of
        None \<Rightarrow> return_act False
      | Some r \<Rightarrow>
          or_else (and_then (rd_delete r (tenant_key (sc_version_prefix (sv_config sv) @ vid) tid))
            (\<lambda>_. return_act True)) False)"

definition cache_set_active_version :: "'w storage_service \<Rightarrow> string \<Rightarrow> string \<Rightarrow> ('w, bool) act" where
  "cache_set_active_version sv vid tid =
     (case sv_redis sv of
        None \<Rightarrow> return_act False
      | Some r \<Rightarrow>
          or_else (and_then (rd_setex r (tenant_key (sc_active_version_key (sv_config sv)) tid)
                               (sc_cache_ttl (sv_config sv)) (JStr vid))
            (\<lambda>_. return_act True)) False)"

definition cache_get_active_version_id :: "'w storage_service \<Rightarrow> string \<Rightarrow> ('w, string option) act" where
  "cache_get_active_version_id sv tid =
     (case sv_redis sv of
        None \<Rightarrow> return_act None
      | Some r \<Rightarrow>
          or_else (and_then (rd_get r (tenant_key (sc_active_version_key (sv_config sv)) tid))
            (\<lambda>j. return_act (json_string j))) None)"

definition acquire_lock :: "'w storage_service \<Rightarrow> string \<Rightarrow> ('w, bool) act" where
  "acquire_lock sv tid =
     (case sv_redis sv of
        None \<Rightarrow> return_act True
      | Some r \<Rightarrow>
          or_else (rd_set_nx r (tenant_key (sc_lock_key (sv_config sv)) tid)
                     (sc_lock_timeout (sv_config sv)) (JStr ''1'')) False)"

definition release_lock :: "'w storage_service \<Rightarrow> string \<Rightarrow> ('w, bool) act" where
  "release_lock sv tid =
     (case sv_redis sv of
        None \<Rightarrow> return_act True
      | Some r \<Rightarrow>
          or_else (and_then (rd_delete r (tenant_key (sc_lock_key (sv_config sv)) tid))
            (\<lambda>_. return_act True)) False)"

end
