(* ===== verification/Constitution_Service.thy ===== *)
theory Constitution_Service
  imports Constitution_Storage
begin

text \<open>
  The persistence manager (\<^verbatim>\<open>storage_infra/persistence.py\<close>), the service that joins cache, database and lock
  (\<^verbatim>\<open>storage_infra/service.py\<close>), the facade (\<^verbatim>\<open>src/constitutional/storage.py\<close>), and what an activation does to
  the versions stored. One reading of the clock is an argument of \<open>activate_version\<close>.
\<close>

section \<open>Persistence\<close>

definition with_database :: "'w storage_service \<Rightarrow> 'a \<Rightarrow> ('w database \<Rightarrow> ('w, 'a) act) \<Rightarrow> ('w, 'a) act" where
  "with_database sv x f = (case sv_database sv of None \<Rightarrow> return_act x | Some d \<Rightarrow> or_else (f d) x)"

definition persist_save_version :: "'w storage_service \<Rightarrow> constitutional_version \<Rightarrow> string \<Rightarrow> ('w, bool) act" where
  "persist_save_version sv v tid =
     with_database sv False (\<lambda>d. and_then (db_insert_version d (row_of_version tid v)) (\<lambda>_. return_act True))"

definition persist_get_version ::
  "'w storage_service \<Rightarrow> string \<Rightarrow> string \<Rightarrow> ('w, constitutional_version option) act" where
  "persist_get_version sv vid tid =
     with_database sv None (\<lambda>d. and_then (db_select_version d vid tid)
       (\<lambda>r. return_act (Option.bind r version_of_row)))"

definition persist_update_version :: "'w storage_service \<Rightarrow> constitutional_version \<Rightarrow> string \<Rightarrow> ('w, bool) act" where
  "persist_update_version sv v tid =
     with_database sv False (\<lambda>d. and_then (db_select_version d (cv_version_id v) tid)
       (\<lambda>r. case r of
               None \<Rightarrow> return_act False
             | Some row \<Rightarrow>
                 and_then (db_commit_version d
                   (row\<lparr>vr_status := cstatus_value (cv_status v), vr_extra_metadata := cv_metadata v,
                        vr_activated_at := cv_activated_at v, vr_deactivated_at := cv_deactivated_at v\<rparr>))
                   (\<lambda>_. return_act True)))"

definition persist_save_amendment :: "'w storage_service \<Rightarrow> amendment \<Rightarrow> string \<Rightarrow> ('w, bool) act" where
  "persist_save_amendment sv a tid =
     with_database sv False (\<lambda>d. and_then (db_insert_amendment d (row_of_amendment tid a)) (\<lambda>_. return_act True))"

definition persist_get_amendment :: "'w storage_service \<Rightarrow> string \<Rightarrow> string \<Rightarrow> ('w, amendment option) act" where
  "persist_get_amendment sv pid tid =
     with_database sv None (\<lambda>d. and_then (db_select_amendment d pid tid)
       (\<lambda>r. return_act (Option.bind r amendment_of_row)))"

text \<open>One row that cannot be read back spoils the whole page.\<close>

definition all_or_none :: "('a \<Rightarrow> 'b option) \<Rightarrow> 'a list \<Rightarrow> 'b list option" where
  "all_or_none f xs = (if \<exists>x \<in> set xs. f x = None then None else Some (map (\<lambda>x. the (f x)) xs))"

definition persist_list_versions ::
  "'w storage_service \<Rightarrow> string \<Rightarrow> int \<Rightarrow> int \<Rightarrow> string option \<Rightarrow> ('w, constitutional_version list) act" where
  "persist_list_versions sv tid page_size offset status =
     with_database sv []
       (\<lambda>d. and_then (db_select_versions d tid (if truthy_str status then status else None) page_size offset)
         (\<lambda>rows. return_act (case all_or_none version_of_row rows of None \<Rightarrow> [] | Some vs \<Rightarrow> vs)))"

definition persist_list_amendments ::
  "'w storage_service \<Rightarrow> string \<Rightarrow> int \<Rightarrow> int \<Rightarrow> string option \<Rightarrow> string option \<Rightarrow>
   ('w, amendment list \<times> nat) act" where
  "persist_list_amendments sv tid page_size offset status proposer =
     (let st = (if truthy_str status then status else None); who = (if truthy_str proposer then proposer else None)
      in with_database sv ([], 0)
           (\<lambda>d. and_then (db_count_amendments d tid st who)
             (\<lambda>n. and_then (db_select_amendments d tid st who page_size offset)
               (\<lambda>rows. return_act (case all_or_none amendment_of_row rows of
                                      None \<Rightarrow> ([], 0) | Some xs \<Rightarrow> (xs, n))))))"

definition persist_get_active_version :: "'w storage_service \<Rightarrow> string \<Rightarrow> ('w, constitutional_version option) act" where
  "persist_get_active_version sv tid =
     with_database sv None (\<lambda>d. and_then (db_select_active d tid)
       (\<lambda>r. return_act (Option.bind r version_of_row)))"

section \<open>The service\<close>

definition service_get_version ::
  "'w storage_service \<Rightarrow> string \<Rightarrow> string \<Rightarrow> ('w, constitutional_version option) act" where
  "service_get_version sv vid tid =
     and_then (cache_get_version sv vid tid) (\<lambda>cached. case cached of
        Some v \<Rightarrow> return_act (Some v)
      | None \<Rightarrow> and_then (persist_get_version sv vid tid) (\<lambda>found. case found of
            None \<Rightarrow> return_act None
          | Some v \<Rightarrow> and_then (cache_set_version sv v tid) (\<lambda>_. return_act (Some v))))"

definition service_get_active_version ::
  "'w storage_service \<Rightarrow> string \<Rightarrow> ('w, constitutional_version option) act" where
  "service_get_active_version sv tid =
     and_then (cache_get_active_version_id sv tid) (\<lambda>active_id.
       and_then (if truthy_str active_id then cache_get_version sv (the active_id) tid else return_act None)
         (\<lambda>cached. case cached of
            Some v \<Rightarrow> return_act (Some v)
          | None \<Rightarrow> and_then (persist_get_active_version sv tid) (\<lambda>found. case found of
                None \<Rightarrow> return_act None
              | Some v \<Rightarrow> and_then (cache_set_version sv v tid)
                  (\<lambda>_. and_then (cache_set_active_version sv (cv_version_id v) tid)
                    (\<lambda>_. return_act (Some v))))))"

text \<open>The body of the \<open>try\<close> of \<open>activate_version\<close>, and the method\<close>

definition replace_active :: "'w storage_service \<Rightarrow> rat \<Rightarrow> string \<Rightarrow> string \<Rightarrow> ('w, bool) act" where
  "replace_active sv now vid tid =
     and_then (service_get_version sv vid tid) (\<lambda>found. case found of
        None \<Rightarrow> return_act False
      | Some version \<Rightarrow>
          and_then (service_get_active_version sv tid) (\<lambda>current.
            and_then (case current of
                        None \<Rightarrow> return_act False
                      | Some c \<Rightarrow> persist_update_version sv (deactivate_cversion now ''superseded'' c) tid)
              (\<lambda>_. and_then (persist_update_version sv (activate_cversion now version) tid)
                (\<lambda>_. and_then (cache_set_version sv (activate_cversion now version) tid)
                  (\<lambda>_. and_then (cache_set_active_version sv vid tid) (\<lambda>_. return_act True))))))"

definition service_activate_version :: "'w storage_service \<Rightarrow> rat \<Rightarrow> string \<Rightarrow> string \<Rightarrow> ('w, bool) act" where
  "service_activate_version sv now vid tid =
     and_then (acquire_lock sv tid) (\<lambda>locked.
       if \<not> locked then return_act False
       else finally_do (replace_active sv now vid tid) (release_lock sv tid))"

section \<open>The facade\<close>

text \<open>\<open>tenant_id or self._get_tenant_id()\<close>, of the tenant of the current context\<close>

definition facade_tenant :: "storage_config \<Rightarrow> string option \<Rightarrow> string option \<Rightarrow> string" where
  "facade_tenant cfg current explicit =
     (if truthy_str explicit then the explicit
      else if sc_enable_multi_tenancy cfg \<and> truthy_str current then the current
      else sc_default_tenant_id cfg)"

record 'w storage_api =
  so_save_version :: "constitutional_version \<Rightarrow> ('w, bool) act"
  so_get_version :: "string \<Rightarrow> ('w, constitutional_version option) act"
  so_get_active_version :: "('w, constitutional_version option) act"
  so_activate_version :: "rat \<Rightarrow> string \<Rightarrow> ('w, bool) act"
  so_save_amendment :: "amendment \<Rightarrow> ('w, bool) act"
  so_get_amendment :: "string \<Rightarrow> ('w, amendment option) act"
  so_list_versions :: "int \<Rightarrow> int \<Rightarrow> constitutional_status option \<Rightarrow> ('w, constitutional_version list) act"
  so_list_amendments :: "int \<Rightarrow> int \<Rightarrow> string option \<Rightarrow> string option \<Rightarrow> ('w, amendment list \<times> nat) act"

definition storage_facade :: "'w storage_service \<Rightarrow> string option \<Rightarrow> string option \<Rightarrow> 'w storage_api" where
  "storage_facade sv current explicit =
     (let tid = facade_tenant (sv_config sv) current explicit
      in \<lparr>so_save_version = (\<lambda>v. persist_save_version sv v tid),
          so_get_version = (\<lambda>vid. service_get_version sv vid tid),
          so_get_active_version = service_get_active_version sv tid,
          so_activate_version = (\<lambda>now vid. service_activate_version sv now vid tid),
          so_save_amendment = (\<lambda>a. persist_save_amendment sv a tid),
          so_get_amendment = (\<lambda>pid. persist_get_amendment sv pid tid),
          so_list_versions = (\<lambda>n k st. persist_list_versions sv tid n k (map_option cstatus_value st)),
          so_list_amendments = (\<lambda>n k st who. persist_list_amendments sv tid n k st who)\<rparr>)"

lemma storage_facade_simps [simp]:
  "so_save_version (storage_facade sv c x) = (\<lambda>v. persist_save_version sv v (facade_tenant (sv_config sv) c x))"
  "so_get_version (storage_facade sv c x) = (\<lambda>v. service_get_version sv v (facade_tenant (sv_config sv) c x))"
  "so_get_active_version (storage_facade sv c x) = service_get_active_version sv (facade_tenant (sv_config sv) c x)"
  "so_activate_version (storage_facade sv c x) =
     (\<lambda>now v. service_activate_version sv now v (facade_tenant (sv_config sv) c x))"
  "so_save_amendment (storage_facade sv c x) = (\<lambda>a. persist_save_amendment sv a (facade_tenant (sv_config sv) c x))"
  "so_get_amendment (storage_facade sv c x) = (\<lambda>p. persist_get_amendment sv p (facade_tenant (sv_config sv) c x))"
  by (simp_all add: storage_facade_def Let_def)

text \<open>\<open>compute_diff\<close>: the keys added, removed and changed, each in the order of its dictionary\<close>

definition content_diff :: "json_dict \<Rightarrow> json_dict \<Rightarrow> json_dict \<times> json_dict \<times> (string \<times> json \<times> json) list" where
  "content_diff old new =
     (filter (\<lambda>(k, v). dget old k = None) new,
      filter (\<lambda>(k, v). dget new k = None) old,
      concat (map (\<lambda>(k, v). case dget new k of
                               None \<Rightarrow> []
                             | Some v' \<Rightarrow> if v \<noteq> v' then [(k, v, v')] else []) old))"

definition facade_compute_diff ::
  "'w storage_api \<Rightarrow> string \<Rightarrow> string \<Rightarrow>
   ('w, (string \<times> string \<times> json_dict \<times> json_dict \<times> (string \<times> json \<times> json) list) option) act" where
  "facade_compute_diff so from_id to_id =
     and_then (so_get_version so from_id) (\<lambda>f. and_then (so_get_version so to_id) (\<lambda>t.
       return_act (case (f, t) of
          (Some f, Some t) \<Rightarrow> Some (cv_version f, cv_version t, content_diff (cv_content f) (cv_content t))
        | _ \<Rightarrow> None)))"

section \<open>A documented database\<close>

text \<open>
  What the code relies on: a table is its rows by primary key; an insert of a new key adds the row and one
  of a key that is taken raises (SQLAlchemy's \<open>IntegrityError\<close>); a commit of a row that was read replaces
  it; the select of one row finds it where the tenant is its own; the select of the active row answers it
  where there is at most one and raises (\<open>MultipleResultsFound\<close>) where there are more. \<open>rows\<close> and \<open>arows\<close>
  read the two tables.
\<close>

definition active_rows :: "string \<Rightarrow> (string, version_row) dict \<Rightarrow> version_row list" where
  "active_rows tid d = filter (\<lambda>r. vr_status r = ''active'' \<and> vr_tenant_id r = tid) (dvalues d)"

definition one_or_none :: "'a list \<Rightarrow> saga_exn + 'a option" where
  "one_or_none xs = (case xs of [] \<Rightarrow> Inr None | [x] \<Rightarrow> Inr (Some x) | _ \<Rightarrow> Inl (Foreign ''MultipleResultsFound''))"

definition documented_versions :: "'w database \<Rightarrow> ('w \<Rightarrow> (string, version_row) dict) \<Rightarrow> bool" where
  "documented_versions d rows \<longleftrightarrow>
     (\<forall>vid tid w. db_select_version d vid tid w =
        (w, Inr (case dget (rows w) vid of
                   Some r \<Rightarrow> if vr_tenant_id r = tid then Some r else None | None \<Rightarrow> None))) \<and>
     (\<forall>r w. dget (rows w) (vr_version_id r) \<noteq> None \<longrightarrow>
        (\<exists>w'. db_commit_version d r w = (w', Inr ()) \<and> rows w' = dset (vr_version_id r) r (rows w))) \<and>
     (\<forall>tid w. db_select_active d tid w = (w, one_or_none (active_rows tid (rows w)))) \<and>
     (\<forall>r w. if dget (rows w) (vr_version_id r) = None
            then \<exists>w'. db_insert_version d r w = (w', Inr ()) \<and> rows w' = dset (vr_version_id r) r (rows w)
            else db_insert_version d r w = (w, Inl (Foreign ''IntegrityError'')))"

definition documented_amendments :: "'w database \<Rightarrow> ('w \<Rightarrow> (string, amendment_row) dict) \<Rightarrow> bool" where
  "documented_amendments d arows \<longleftrightarrow>
     (\<forall>pid tid w. db_select_amendment d pid tid w =
        (w, Inr (case dget (arows w) pid of
                   Some r \<Rightarrow> if ar_tenant_id r = tid then Some r else None | None \<Rightarrow> None))) \<and>
     (\<forall>r w. if dget (arows w) (ar_proposal_id r) = None
            then \<exists>w'. db_insert_amendment d r w = (w', Inr ()) \<and> arows w' = dset (ar_proposal_id r) r (arows w)
            else db_insert_amendment d r w = (w, Inl (Foreign ''IntegrityError'')))"

text \<open>A database that is just its two tables\<close>

record tables =
  tb_versions :: "(string, version_row) dict"
  tb_amendments :: "(string, amendment_row) dict"

definition table_database :: "tables database" where
  "table_database =
     \<lparr>db_insert_version = (\<lambda>r w. if dget (tb_versions w) (vr_version_id r) = None
         then (w\<lparr>tb_versions := dset (vr_version_id r) r (tb_versions w)\<rparr>, Inr ())
         else (w, Inl (Foreign ''IntegrityError''))),
      db_select_version = (\<lambda>vid tid w. (w, Inr (case dget (tb_versions w) vid of
         Some r \<Rightarrow> if vr_tenant_id r = tid then Some r else None | None \<Rightarrow> None))),
      db_commit_version = (\<lambda>r w. (w\<lparr>tb_versions := dset (vr_version_id r) r (tb_versions w)\<rparr>, Inr ())),
      db_select_active = (\<lambda>tid w. (w, one_or_none (active_rows tid (tb_versions w)))),
      db_select_versions = (\<lambda>tid st n k w. (w, Inr [])),
      db_insert_amendment = (\<lambda>r w. if dget (tb_amendments w) (ar_proposal_id r) = None
         then (w\<lparr>tb_amendments := dset (ar_proposal_id r) r (tb_amendments w)\<rparr>, Inr ())
         else (w, Inl (Foreign ''IntegrityError''))),
      db_select_amendment = (\<lambda>pid tid w. (w, Inr (case dget (tb_amendments w) pid of
         Some r \<Rightarrow> if ar_tenant_id r = tid then Some r else None | None \<Rightarrow> None))),
      db_count_amendments = (\<lambda>tid st who w. (w, Inr 0)),
      db_select_amendments = (\<lambda>tid st who n k w. (w, Inr []))\<rparr>"

lemma table_database_documented:
  "documented_versions table_database tb_versions" "documented_amendments table_database tb_amendments"
  by (simp_all add: documented_versions_def documented_amendments_def table_database_def)

end
