(* ===== verification/Proposal_Engine.thy ===== *)
theory Proposal_Engine
  imports Constitution_Service Constitution_Invariants
begin

text \<open>
  \<^verbatim>\<open>src/constitutional/proposal_engine.py\<close>: creating amendment proposals and submitting them for review. The
  storage is the interface of the facade; the diff engine, the check of the MACI enforcer (whether the
  agent may propose) and the audit client's \<open>log_event\<close> are functions on the state of the world. A
  \<open>ProposalValidationError\<close> is \<open>Foreign\<close> (it is an \<open>ACGSBaseError\<close>), a \<open>ValueError\<close> and a validation error
  of a model are \<open>Op\<close>. Impact scores are rational numbers.
\<close>

section \<open>The engine\<close>

record proposal_request =
  pq_proposed_changes :: json_dict
  pq_justification :: string
  pq_proposer_agent_id :: string
  pq_target_version :: "string option"
  pq_new_version :: "string option"
  pq_metadata :: json_dict

text \<open>The constraints of the fields of a request\<close>

definition valid_request :: "proposal_request \<Rightarrow> bool" where
  "valid_request q =
     (10 \<le> length (pq_justification q) \<and>
      (case pq_target_version q of None \<Rightarrow> True | Some v \<Rightarrow> semver_pattern v) \<and>
      (case pq_new_version q of None \<Rightarrow> True | Some v \<Rightarrow> semver_pattern v))"

record 'w proposal_engine =
  pe_storage :: "'w storage_api"
  pe_diff :: "string \<Rightarrow> string \<Rightarrow> ('w, json option) act"
  pe_maci :: "(string \<Rightarrow> ('w, bool) act) option"
  pe_enable_maci :: bool
  pe_enable_audit :: bool
  pe_audit :: "(string \<Rightarrow> string \<Rightarrow> json_dict \<Rightarrow> ('w, unit) act) option"
  pe_imports_available :: bool
  pe_manifest :: "invariant_manifest option"

record impact_analysis =
  ia_score :: rat
  ia_factors :: "(string, rat) dict"
  ia_recommendation :: string
  ia_requires_deliberation :: bool

record validation_results =
  vl_valid :: bool
  vl_errors :: "string list"
  vl_warnings :: "string list"
  vl_validated_at :: rat

record proposal_response =
  ps_proposal :: amendment
  ps_diff_preview :: "json option"
  ps_validation_results :: validation_results

section \<open>Helpers\<close>

text \<open>\<open>_log_audit_event\<close>: nothing without the client or its method, and an error of it is swallowed.\<close>

definition log_audit_event ::
  "'w proposal_engine \<Rightarrow> string \<Rightarrow> string \<Rightarrow> json_dict \<Rightarrow> ('w, unit) act" where
  "log_audit_event pe event_type agent_id details =
     (if \<not> pe_enable_audit pe then return_act ()
      else case pe_audit pe of
             None \<Rightarrow> return_act ()
           | Some log_event \<Rightarrow> or_else (log_event event_type agent_id details) ())"

definition critical_fields :: "string list" where
  "critical_fields = [''constitutional_hash'', ''version'']"

definition validate_proposed_changes :: "rat \<Rightarrow> json_dict \<Rightarrow> constitutional_version \<Rightarrow> validation_results" where
  "validate_proposed_changes now changes active =
     (let errors =
            (if changes = [] then [''Proposed changes cannot be empty''] else []) @
            concat (map (\<lambda>f. if f \<in> set (dkeys changes) \<and> f \<in> set (dkeys (cv_content active))
                              then [''Cannot modify critical field '' @ quoted f @ '' directly''] else [])
              critical_fields)
      in \<lparr>vl_valid = (errors = []), vl_errors = errors, vl_warnings = [], vl_validated_at = now\<rparr>)"

definition compute_impact_score :: "json_dict \<Rightarrow> impact_analysis" where
  "compute_impact_score changes =
     (let n = (of_nat (length changes) :: rat);
          principles = ''principles'' \<in> set (dkeys changes);
          enforcement = ''enforcement'' \<in> set (dkeys changes);
          base = min (n * (1 / 10)) (5 / 10);
          base1 = (if principles then base + 3 / 10 else base);
          base2 = (if enforcement then base1 + 2 / 10 else base1);
          score = min base2 1
      in \<lparr>ia_score = score,
          ia_factors = [(''change_magnitude'', n * (1 / 10)),
                        (''principles_modified'', if principles then 3 / 10 else 0),
                        (''enforcement_modified'', if enforcement then 2 / 10 else 0)],
          ia_recommendation = (if 8 / 10 \<le> score then ''High impact - requires multi-approver deliberation''
                               else ''Medium impact - single approver sufficient''),
          ia_requires_deliberation = (8 / 10 \<le> score)\<rparr>)"

definition generate_diff_preview :: "'w proposal_engine \<Rightarrow> string \<Rightarrow> string \<Rightarrow> ('w, json option) act" where
  "generate_diff_preview pe from_id to_id = or_else (pe_diff pe from_id to_id) None"

definition merge_changes :: "json_dict \<Rightarrow> json_dict \<Rightarrow> json_dict" where
  "merge_changes base changes = fold (\<lambda>(k, v) d. dset k v d) changes base"

definition compute_next_version :: "string \<Rightarrow> string option" where
  "compute_next_version current =
     (case map py_int (split_char CHR ''.'' current) of
        [Some major, Some minor, Some patch] \<Rightarrow>
          Some (nat_text major @ ''.'' @ nat_text (minor + 1) @ ''.'' @ nat_text patch)
      | _ \<Rightarrow> None)"

definition validation_json :: "validation_results \<Rightarrow> json" where
  "validation_json v = JObj [(''valid'', JBool (vl_valid v)), (''errors'', JList (map JStr (vl_errors v))),
     (''warnings'', JList (map JStr (vl_warnings v))), (''validated_at'', JTime (vl_validated_at v))]"

section \<open>Creating a proposal\<close>

text \<open>Step 0: the invariants, of the keys of the change\<close>

definition invariant_step :: "'w proposal_engine \<Rightarrow> json_dict \<Rightarrow> ('w, change_classification option) act" where
  "invariant_step pe changes =
     (if \<not> pe_imports_available pe then raise_act (Foreign ''Invariant validator unavailable'')
      else case pe_manifest pe of
             None \<Rightarrow> return_act None
           | Some m \<Rightarrow>
               (case validate_proposal (mf_invariants m) (dkeys changes) of
                  Inl c \<Rightarrow> raise_act (Foreign ''Constitutional invariant violation'')
                | Inr c \<Rightarrow> return_act (Some c)))"

text \<open>Step 1: the permission to propose\<close>

definition maci_step :: "'w proposal_engine \<Rightarrow> string \<Rightarrow> ('w, unit) act" where
  "maci_step pe agent =
     (case (if pe_enable_maci pe then pe_maci pe else None) of
        None \<Rightarrow> return_act ()
      | Some validate_action \<Rightarrow>
          and_then (validate_action agent) (\<lambda>allowed.
            if allowed then return_act ()
            else and_then (log_audit_event pe ''maci_violation'' agent
                   [(''action'', JStr ''propose_amendment''), (''constitutional_hash'', JStr CONSTITUTIONAL_HASH)])
                   (\<lambda>_. raise_act (Op ''MACI violation''))))"

text \<open>Steps 2 and 3: the active version and the validated changes\<close>

definition target_step ::
  "'w proposal_engine \<Rightarrow> rat \<Rightarrow> proposal_request \<Rightarrow> ('w, constitutional_version \<times> validation_results) act" where
  "target_step pe now q =
     and_then (so_get_active_version (pe_storage pe)) (\<lambda>found. case found of
        None \<Rightarrow> raise_act (Foreign ''No active constitutional version found'')
      | Some active \<Rightarrow>
          (let target = (if truthy_str (pq_target_version q) then the (pq_target_version q) else cv_version active);
               results = validate_proposed_changes now (pq_proposed_changes q) active
           in if target \<noteq> cv_version active then raise_act (Foreign ''Target version does not match'')
              else if \<not> vl_valid results then raise_act (Foreign ''Invalid proposal'')
              else return_act (active, results)))"

text \<open>
  Step 4. \<open>None\<close> is the \<open>ValueError\<close> of a current version that is no triple of numbers.
\<close>

definition chosen_version :: "proposal_request \<Rightarrow> string \<Rightarrow> string option" where
  "chosen_version q current =
     (if truthy_str (pq_new_version q) then pq_new_version q else compute_next_version current)"

text \<open>Step 8: the values the proposal is made of\<close>

definition proposal_values ::
  "'w proposal_engine \<Rightarrow> rat \<Rightarrow> proposal_request \<Rightarrow> string \<Rightarrow> string \<Rightarrow> change_classification option \<Rightarrow>
   validation_results \<Rightarrow> impact_analysis \<Rightarrow> amendment" where
  "proposal_values pe now q target new_version classification results impact =
     (let touched = (case classification of Some c \<Rightarrow> cc_touches_invariants c | None \<Rightarrow> False);
          meta = dset ''validation_results'' (validation_json results)
                   (dset ''constitutional_hash'' (JStr CONSTITUTIONAL_HASH) (pq_metadata q));
          meta' = (if touched then dset ''invariant_note''
                     (jstr_option (cc_reason (the classification))) meta else meta)
      in \<lparr>am_proposal_id = [], am_proposed_changes = pq_proposed_changes q,
          am_justification = pq_justification q, am_proposer_agent_id = pq_proposer_agent_id q,
          am_target_version = target, am_new_version = Some new_version, am_status = AM_PROPOSED,
          am_impact_score = Some (ia_score impact), am_impact_factors = ia_factors impact,
          am_impact_recommendation = Some (ia_recommendation impact),
          am_requires_deliberation = ia_requires_deliberation impact, am_metrics_before = [],
          am_metrics_after = [], am_approval_chain = [], am_rejection_reason = None,
          am_rollback_reason = None, am_invariant_hash = map_option mf_invariant_hash (pe_manifest pe),
          am_invariant_impact = (if touched then cc_touched_invariant_ids (the classification) else []),
          am_requires_refoundation = (case classification of Some c \<Rightarrow> cc_requires_refoundation c | None \<Rightarrow> False),
          am_metadata = meta', am_created_at = now, am_reviewed_at = None, am_activated_at = None,
          am_rolled_back_at = None\<rparr>)"

text \<open>\<open>create_proposal\<close>; \<open>uuid1\<close> names the temporary version of the preview, \<open>uuid2\<close> the proposal.\<close>

definition create_proposal ::
  "'w proposal_engine \<Rightarrow> string \<Rightarrow> string \<Rightarrow> rat \<Rightarrow> proposal_request \<Rightarrow> ('w, proposal_response) act" where
  "create_proposal pe uuid1 uuid2 now q =
     and_then (invariant_step pe (pq_proposed_changes q)) (\<lambda>classification.
     and_then (maci_step pe (pq_proposer_agent_id q)) (\<lambda>_.
     and_then (target_step pe now q) (\<lambda>(active, results).
       case chosen_version q (cv_version active) of
         None \<Rightarrow> raise_act (Op ''invalid literal for int'')
       | Some new_version \<Rightarrow>
           (case make_version uuid1 now (Some uuid1) new_version (Some CONSTITUTIONAL_HASH)
                   (merge_changes (cv_content active) (pq_proposed_changes q))
                   (Some (cv_version_id active)) CS_DRAFT [] of
              None \<Rightarrow> raise_act (Op ''validation error'')
            | Some temp \<Rightarrow>
                (let impact = compute_impact_score (pq_proposed_changes q)
                 in and_then (generate_diff_preview pe (cv_version_id active) (cv_version_id temp)) (\<lambda>preview.
                    case make_amendment uuid2 (proposal_values pe now q (cv_version active) new_version
                           classification results impact) of
                      None \<Rightarrow> raise_act (Op ''validation error'')
                    | Some proposal \<Rightarrow>
                        and_then (so_save_amendment (pe_storage pe) proposal) (\<lambda>_.
                        and_then (log_audit_event pe ''amendment_proposed'' (pq_proposer_agent_id q)
                          [(''proposal_id'', JStr (am_proposal_id proposal)),
                           (''target_version'', JStr (cv_version active)), (''new_version'', JStr new_version),
                           (''impact_score'', JNum (ia_score impact)),
                           (''requires_deliberation'', JBool (ia_requires_deliberation impact)),
                           (''constitutional_hash'', JStr CONSTITUTIONAL_HASH)]) (\<lambda>_.
                        return_act \<lparr>ps_proposal = proposal, ps_diff_preview = preview,
                                    ps_validation_results = results\<rparr>))))))))"

section \<open>The other operations\<close>

definition submit_proposal_for_review :: "'w proposal_engine \<Rightarrow> string \<Rightarrow> string \<Rightarrow> ('w, amendment) act" where
  "submit_proposal_for_review pe pid submitter =
     and_then (so_get_amendment (pe_storage pe) pid) (\<lambda>found. case found of
        None \<Rightarrow> raise_act (Op ''Proposal not found'')
      | Some a \<Rightarrow>
          if am_status a \<noteq> AM_PROPOSED then raise_act (Op ''Proposal cannot be submitted'')
          else (case am_submit_for_review a of
                  Inl e \<Rightarrow> raise_act (Foreign e)
                | Inr a' \<Rightarrow>
                    and_then (so_save_amendment (pe_storage pe) a') (\<lambda>_.
                    and_then (log_audit_event pe ''amendment_submitted_for_review'' submitter
                      [(''proposal_id'', JStr pid), (''constitutional_hash'', JStr CONSTITUTIONAL_HASH)]) (\<lambda>_.
                    return_act a'))))"

definition refused :: "string \<Rightarrow> json_dict" where
  "refused message = [(''valid'', JBool False), (''errors'', JList [JStr message])]"

definition validate_stored_proposal :: "'w proposal_engine \<Rightarrow> rat \<Rightarrow> string \<Rightarrow> ('w, json) act" where
  "validate_stored_proposal pe now pid =
     and_then (so_get_amendment (pe_storage pe) pid) (\<lambda>found. case found of
        None \<Rightarrow> return_act (JObj (refused (''Proposal '' @ pid @ '' not found'')))
      | Some a \<Rightarrow>
          and_then (so_get_active_version (pe_storage pe)) (\<lambda>active. case active of
             None \<Rightarrow> return_act (JObj (refused (''Target version '' @ am_target_version a @ '' is no longer active'')))
           | Some v \<Rightarrow>
               if cv_version v \<noteq> am_target_version a
               then return_act (JObj (refused (''Target version '' @ am_target_version a @ '' is no longer active'')))
               else return_act (validation_json (validate_proposed_changes now (am_proposed_changes a) v))))"

text \<open>\<open>get_proposal\<close>: the proposal and, where it is asked for and a version is active, the preview.\<close>

definition get_proposal ::
  "'w proposal_engine \<Rightarrow> string \<Rightarrow> rat \<Rightarrow> string \<Rightarrow> bool \<Rightarrow> ('w, (amendment \<times> json option option) option) act" where
  "get_proposal pe uuid now pid include_diff =
     and_then (so_get_amendment (pe_storage pe) pid) (\<lambda>found. case found of
        None \<Rightarrow> return_act None
      | Some a \<Rightarrow>
          if \<not> include_diff then return_act (Some (a, None))
          else and_then (so_get_active_version (pe_storage pe)) (\<lambda>active. case active of
             None \<Rightarrow> return_act (Some (a, None))
           | Some v \<Rightarrow>
               (case make_version uuid now (Some uuid)
                       (if truthy_str (am_new_version a) then the (am_new_version a) else ''0.0.0'')
                       (Some CONSTITUTIONAL_HASH) (merge_changes (cv_content v) (am_proposed_changes a))
                       (Some (cv_version_id v)) CS_DRAFT [] of
                  None \<Rightarrow> raise_act (Op ''validation error'')
                | Some temp \<Rightarrow>
                    and_then (generate_diff_preview pe (cv_version_id v) (cv_version_id temp))
                      (\<lambda>preview. return_act (Some (a, Some preview))))))"

definition list_proposals ::
  "'w proposal_engine \<Rightarrow> amendment_status option \<Rightarrow> string option \<Rightarrow> nat \<Rightarrow> nat \<Rightarrow> ('w, amendment list) act" where
  "list_proposals pe status proposer page_size offset =
     and_then (log_audit_event pe ''amendment_proposals_queried'' ''system''
       [(''status'', case status of None \<Rightarrow> JNull | Some s \<Rightarrow> JStr (astatus_value s)),
        (''proposer_agent_id'', jstr_option proposer), (''constitutional_hash'', JStr CONSTITUTIONAL_HASH)])
       (\<lambda>_. return_act [])"

end
