(* ===== verification/Proposal_Review.thy ===== *)
theory Proposal_Review
  imports Proposal_Engine
begin

text \<open>
  \<^verbatim>\<open>src/constitutional/hitl_integration.py\<close>: the approval of an amendment by the human-in-the-loop service.
  The service and the notification providers are functions on the state of the world; \<open>Op\<close> is one of
  \<open>_HITL_OPERATION_ERRORS\<close>. The service's answers have strings where the code reads strings. The texts of
  the description and of the notifications are arguments.
\<close>

datatype notification_channel = SLACK | PAGERDUTY | TEAMS

datatype approval_priority = PRIO_LOW | PRIO_STANDARD | PRIO_HIGH | PRIO_CRITICAL

fun priority_value :: "approval_priority \<Rightarrow> string" where
  "priority_value PRIO_LOW = ''low''"
| "priority_value PRIO_STANDARD = ''standard''"
| "priority_value PRIO_HIGH = ''high''"
| "priority_value PRIO_CRITICAL = ''critical''"

record approval_chain_config =
  ac_chain_id :: string
  ac_name :: string
  ac_priority :: approval_priority
  ac_required_approvals :: nat
  ac_timeout_minutes :: nat
  ac_escalation_enabled :: bool
  ac_notification_channels :: "notification_channel list"

definition high_impact_chain :: approval_chain_config where
  "high_impact_chain = \<lparr>ac_chain_id = ''constitutional_high_impact'',
     ac_name = ''Constitutional Amendment - High Impact'', ac_priority = PRIO_CRITICAL,
     ac_required_approvals = 3, ac_timeout_minutes = 120, ac_escalation_enabled = True,
     ac_notification_channels = [SLACK, PAGERDUTY]\<rparr>"

definition medium_impact_chain :: approval_chain_config where
  "medium_impact_chain = \<lparr>ac_chain_id = ''constitutional_medium_impact'',
     ac_name = ''Constitutional Amendment - Medium Impact'', ac_priority = PRIO_HIGH,
     ac_required_approvals = 2, ac_timeout_minutes = 60, ac_escalation_enabled = True,
     ac_notification_channels = [SLACK]\<rparr>"

definition low_impact_chain :: approval_chain_config where
  "low_impact_chain = \<lparr>ac_chain_id = ''constitutional_low_impact'',
     ac_name = ''Constitutional Amendment - Low Impact'', ac_priority = PRIO_STANDARD,
     ac_required_approvals = 1, ac_timeout_minutes = 30, ac_escalation_enabled = True,
     ac_notification_channels = [SLACK]\<rparr>"

text \<open>\<open>proposal.impact_score or 0.5\<close>: a score of 0 counts as missing.\<close>

definition determine_approval_chain :: "amendment \<Rightarrow> approval_chain_config" where
  "determine_approval_chain a =
     (let score = (case am_impact_score a of None \<Rightarrow> 5 / 10 | Some x \<Rightarrow> if x = 0 then 5 / 10 else x)
      in if 8 / 10 \<le> score then high_impact_chain
         else if 5 / 10 \<le> score then medium_impact_chain else low_impact_chain)"

record hitl_request =
  hq_request_id :: string
  hq_proposal_id :: string
  hq_chain_config :: approval_chain_config
  hq_title :: string
  hq_description :: string
  hq_context :: json_dict
  hq_approval_url :: string
  hq_status :: string

text \<open>
  \<open>hi_post\<close> posts a request to the approval service; \<open>hi_get\<close> reads the state of one, \<open>None\<close> being an
  \<open>HTTPError\<close>; \<open>hi_send\<close> posts to a provider, where its address is configured.
\<close>

record 'w hitl =
  hi_storage :: "'w storage_api"
  hi_service_url :: string
  hi_enable_notifications :: bool
  hi_configured :: "notification_channel \<Rightarrow> bool"
  hi_post :: "json_dict \<Rightarrow> ('w, json_dict) act"
  hi_get :: "string \<Rightarrow> ('w, json_dict option) act"
  hi_send :: "notification_channel \<Rightarrow> hitl_request \<Rightarrow> amendment \<Rightarrow> ('w, unit) act"

definition generate_approval_url :: "'w hitl \<Rightarrow> string \<Rightarrow> string option \<Rightarrow> string" where
  "generate_approval_url hi pid base_url =
     (if truthy_str base_url then the base_url else hi_service_url hi @ ''/ui'') @
     ''/approvals/constitutional/'' @ pid"

definition send_to_channel :: "'w hitl \<Rightarrow> notification_channel \<Rightarrow> hitl_request \<Rightarrow> amendment \<Rightarrow> ('w, bool) act" where
  "send_to_channel hi channel request a =
     (if \<not> hi_configured hi channel then return_act False
      else or_else (and_then (hi_send hi channel request a) (\<lambda>_. return_act True)) False)"

fun send_notifications ::
  "'w hitl \<Rightarrow> notification_channel list \<Rightarrow> hitl_request \<Rightarrow> amendment \<Rightarrow> ('w, (notification_channel \<times> bool) list) act"
where
  "send_notifications hi [] request a = return_act []"
| "send_notifications hi (c # cs) request a =
     and_then (or_else (send_to_channel hi c request a) False) (\<lambda>success.
       and_then (send_notifications hi cs request a) (\<lambda>results. return_act ((c, success) # results)))"

text \<open>The description formats the score, which fails where there is none.\<close>

definition create_approval_request ::
  "'w hitl \<Rightarrow> (amendment \<Rightarrow> string) \<Rightarrow> string option \<Rightarrow> amendment \<Rightarrow> ('w, hitl_request) act" where
  "create_approval_request hi describe base_url a =
     (if am_status a \<noteq> AM_PROPOSED \<and> am_status a \<noteq> AM_UNDER_REVIEW
      then raise_act (Op ''cannot be submitted for HITL approval'')
      else if am_impact_score a = None then raise_act (Op ''unsupported format string'')
      else
        let chain = determine_approval_chain a;
            url = generate_approval_url hi (am_proposal_id a) base_url;
            title = ''Constitutional Amendment: '' @
              (if truthy_str (am_new_version a) then the (am_new_version a) else ''TBD'');
            ctx = [(''proposal_id'', JStr (am_proposal_id a)), (''target_version'', JStr (am_target_version a)),
                   (''new_version'', jstr_option (am_new_version a)),
                   (''impact_score'', JNum (the (am_impact_score a))),
                   (''requires_deliberation'', JBool (am_requires_deliberation a)),
                   (''constitutional_hash'', JStr CONSTITUTIONAL_HASH),
                   (''proposed_changes'', JObj (am_proposed_changes a)),
                   (''justification'', JStr (am_justification a)), (''approval_url'', JStr url)];
            payload = [(''decision_id'', JStr (am_proposal_id a)),
                       (''tenant_id'', dget_default (am_metadata a) ''tenant_id'' (JStr ''default'')),
                       (''requested_by'', JStr (am_proposer_agent_id a)), (''title'', JStr title),
                       (''description'', JStr (describe a)), (''priority'', JStr (priority_value (ac_priority chain))),
                       (''context'', JObj ctx), (''chain_id'', JStr (ac_chain_id chain))]
        in and_then (hi_post hi payload) (\<lambda>response.
             case dget response ''request_id'' of
               Some (JStr (x # xs)) \<Rightarrow>
                 (let request = \<lparr>hq_request_id = x # xs, hq_proposal_id = am_proposal_id a,
                        hq_chain_config = chain, hq_title = title, hq_description = describe a,
                        hq_context = ctx, hq_approval_url = url, hq_status = ''pending''\<rparr>;
                      notified = (\<lambda>a'. if hi_enable_notifications hi
                        then and_then (send_notifications hi (ac_notification_channels chain) request a')
                               (\<lambda>_. return_act request)
                        else return_act request)
                  in (case am_submit_for_review a of
                        Inr a' \<Rightarrow> and_then (so_save_amendment (hi_storage hi) a') (\<lambda>_. notified a')
                      | Inl _ \<Rightarrow> notified a))
             | _ \<Rightarrow> raise_act (Op ''HITL service response missing request_id'')))"

text \<open>
  \<open>process_approval_decision\<close>; the bus's \<open>ValidationError\<close> of a transition is \<open>Foreign\<close>.
\<close>

definition process_approval_decision :: "'w hitl \<Rightarrow> rat \<Rightarrow> string \<Rightarrow> string \<Rightarrow> ('w, bool) act" where
  "process_approval_decision hi now request_id pid =
     and_then (hi_get hi request_id) (\<lambda>data.
       case data of
         None \<Rightarrow> return_act False
       | Some [] \<Rightarrow> return_act False
       | Some (e # es) \<Rightarrow>
           and_then (so_get_amendment (hi_storage hi) pid) (\<lambda>found. case found of
              None \<Rightarrow> return_act False
            | Some a \<Rightarrow>
                (let status = dget (e # es) ''status''
                 in if status = Some (JStr ''approved'')
                    then (case am_approve now (get_str (e # es) ''approved_by'' ''hitl_system'') ''judicial'' a of
                            Inl err \<Rightarrow> raise_act (Foreign err)
                          | Inr a' \<Rightarrow> and_then (so_save_amendment (hi_storage hi) a') (\<lambda>_. return_act True))
                    else if status = Some (JStr ''rejected'')
                    then (case am_reject now (get_str (e # es) ''rejected_by'' ''hitl_system'')
                                 (get_str (e # es) ''rejection_reason'' ''Rejected via HITL approval'') ''judicial'' a of
                            Inl err \<Rightarrow> raise_act (Foreign err)
                          | Inr a' \<Rightarrow> and_then (so_save_amendment (hi_storage hi) a') (\<lambda>_. return_act False))
                    else if status = Some (JStr ''timed_out'')
                    then and_then (so_save_amendment (hi_storage hi)
                           (a\<lparr>am_metadata := dset ''hitl_timeout'' (JBool True) (am_metadata a)\<rparr>))
                           (\<lambda>_. return_act False)
                    else return_act False)))"

end
