(* ===== verification/Constitution_Storage_Theorems.thy ===== *)
theory Constitution_Storage_Theorems
  imports Constitution_Service
begin

text \<open>
  What the storage keeps: the one active version of a tenant where the database alone is used, what is lost
  of an amendment on the way, and how a cache that misses one write leaves two active versions.
\<close>

section \<open>The table of versions\<close>

definition active_in :: "string \<Rightarrow> (string, version_row) dict \<Rightarrow> string \<Rightarrow> bool" where
  "active_in tid d vid \<longleftrightarrow>
     (\<exists>r. dget d vid = Some r \<and> vr_status r = ''active'' \<and> vr_tenant_id r = tid)"

definition versions_invar :: "(string, version_row) dict \<Rightarrow> bool" where
  "versions_invar d \<longleftrightarrow> distinct (dkeys d) \<and>
     (\<forall>vid r. dget d vid = Some r \<longrightarrow> vr_version_id r = vid \<and> version_of_row r \<noteq> None) \<and>
     (\<forall>tid v v'. active_in tid d v \<and> active_in tid d v' \<longrightarrow> v = v')"

lemma active_rows_eq:
  "active_rows tid d = map snd (filter (\<lambda>(k, r). vr_status r = ''active'' \<and> vr_tenant_id r = tid) d)"
  unfolding active_rows_def by (induction d) auto

text \<open>The select of the active row finds it where there is at most one.\<close>

lemma select_active_cases:
  assumes "versions_invar d"
  obtains (none) "one_or_none (active_rows tid d) = Inr None" "\<And>v. \<not> active_in tid d v"
    | (one) k r where "one_or_none (active_rows tid d) = Inr (Some r)" "dget d k = Some r"
        "vr_version_id r = k" "active_in tid d k"
proof -
  let ?es = "filter (\<lambda>(k, r). vr_status r = ''active'' \<and> vr_tenant_id r = tid) d"
  have dist: "distinct (dkeys d)" using assms by (simp add: versions_invar_def)
  have entry: "active_in tid d k \<and> dget d k = Some r" if "(k, r) \<in> set ?es" for k r
    using that dist by (auto simp: active_in_def)
  show ?thesis
  proof (cases ?es)
    case Nil
    have "\<not> active_in tid d v" for v
    proof
      assume "active_in tid d v"
      then obtain r where "(v, r) \<in> set ?es" by (auto simp: active_in_def dest: map_of_SomeD)
      then show False using Nil by simp
    qed
    moreover have "one_or_none (active_rows tid d) = Inr None"
      unfolding active_rows_eq Nil by (simp add: one_or_none_def)
    ultimately show ?thesis by (rule none [rotated])
  next
    case (Cons e es)
    obtain k r where e: "e = (k, r)" by (cases e)
    have kr: "active_in tid d k" "dget d k = Some r" using entry [of k r] Cons e by auto
    have "es = []"
    proof (rule ccontr)
      assume "es \<noteq> []"
      then obtain k' r' es' where es: "es = (k', r') # es'" by (cases es) auto
      have "active_in tid d k'" using entry [of k' r'] Cons es by auto
      then have "k' = k" using kr(1) assms unfolding versions_invar_def by blast
      moreover have "distinct (map fst ?es)" using dist by (rule distinct_map_filter)
      ultimately show False using Cons e es by simp
    qed
    then have "one_or_none (active_rows tid d) = Inr (Some r)"
      unfolding active_rows_eq Cons e by (simp add: one_or_none_def)
    moreover have "vr_version_id r = k" using kr(2) assms unfolding versions_invar_def by blast
    ultimately show ?thesis using one kr by blast
  qed
qed

section \<open>Activation on the database alone\<close>

definition database_only :: "storage_config \<Rightarrow> 'w database \<Rightarrow> 'w storage_service" where
  "database_only cfg d = \<lparr>sv_config = cfg, sv_redis = None, sv_database = Some d\<rparr>"

lemma no_cache [simp]:
  "cache_get_version (database_only cfg d) vid tid = return_act None"
  "cache_set_version (database_only cfg d) v tid = return_act False"
  "cache_set_active_version (database_only cfg d) vid tid = return_act False"
  "cache_get_active_version_id (database_only cfg d) tid = return_act None"
  "acquire_lock (database_only cfg d) tid = return_act True"
  "release_lock (database_only cfg d) tid = return_act True"
  "with_database (database_only cfg d) x f = or_else (f d) x"
  by (simp_all add: cache_get_version_def cache_set_version_def cache_set_active_version_def
      cache_get_active_version_id_def acquire_lock_def release_lock_def database_only_def with_database_def)

lemma then_return [simp]: "and_then (return_act x) f = f x"
  by (rule ext) (simp add: and_then_def return_act_def)

definition changed_row :: "version_row \<Rightarrow> constitutional_version \<Rightarrow> version_row" where
  "changed_row r v = r\<lparr>vr_status := cstatus_value (cv_status v), vr_extra_metadata := cv_metadata v,
     vr_activated_at := cv_activated_at v, vr_deactivated_at := cv_deactivated_at v\<rparr>"

lemma changed_row_simps [simp]:
  "vr_version_id (changed_row r v) = vr_version_id r" "vr_tenant_id (changed_row r v) = vr_tenant_id r"
  "vr_status (changed_row r v) = cstatus_value (cv_status v)"
  by (simp_all add: changed_row_def)

lemma changed_row_reads: "version_of_row r = Some v \<Longrightarrow> version_of_row (changed_row r u) \<noteq> None"
  by (auto simp: version_of_row_def changed_row_def Let_def valid_version_def split: option.splits if_splits)

lemma version_of_row_fields:
  assumes "version_of_row r = Some v"
  shows "cv_version_id v = vr_version_id r" "cstatus_value (cv_status v) = vr_status r"
proof -
  from assms obtain st where st: "enum_of cstatus_value cstatuses (vr_status r) = Some st" "cv_status v = st"
    "cv_version_id v = vr_version_id r"
    by (auto simp: version_of_row_def Let_def split: option.splits if_splits)
  then show "cv_version_id v = vr_version_id r" by simp
  have "cstatus_value st = vr_status r"
    using st(1) unfolding enum_of_def by (auto simp: find_Some_iff)
  then show "cstatus_value (cv_status v) = vr_status r" using st(2) by simp
qed

lemma update_found:
  assumes "documented_versions d rows" and "dget (rows w) (cv_version_id v) = Some r" and "vr_tenant_id r = tid"
    and "vr_version_id r = cv_version_id v"
  obtains w' where "persist_update_version (database_only cfg d) v tid w = (w', Inr True)"
    "rows w' = dset (cv_version_id v) (changed_row r v) (rows w)"
proof -
  have sel: "db_select_version d (cv_version_id v) tid w = (w, Inr (Some r))"
    using assms by (simp add: documented_versions_def)
  obtain w' where com: "db_commit_version d (changed_row r v) w = (w', Inr ())"
    "rows w' = dset (cv_version_id v) (changed_row r v) (rows w)"
    using assms(1,2,4) unfolding documented_versions_def by (metis changed_row_simps(1) option.discI)
  have "persist_update_version (database_only cfg d) v tid w = (w', Inr True)"
    using sel com(1) unfolding persist_update_version_def
    by (simp add: or_else_def and_then_def return_act_def changed_row_def)
  then show ?thesis using com(2) that by blast
qed

lemma get_version_database:
  assumes "documented_versions d rows"
  shows "service_get_version (database_only cfg d) vid tid w =
    (w, Inr (case dget (rows w) vid of
               Some r \<Rightarrow> if vr_tenant_id r = tid then version_of_row r else None | None \<Rightarrow> None))"
  using assms
  by (auto simp: service_get_version_def persist_get_version_def documented_versions_def and_then_def or_else_def
      return_act_def split: option.splits)

lemma get_active_database:
  assumes "documented_versions d rows" and "one_or_none (active_rows tid (rows w)) = Inr x"
  shows "service_get_active_version (database_only cfg d) tid w = (w, Inr (Option.bind x version_of_row))"
  using assms
  by (auto simp: service_get_active_version_def persist_get_active_version_def documented_versions_def
      and_then_def or_else_def return_act_def truthy_str_def split: option.splits)

text \<open>The table after an activation: the old active row superseded, the new one active\<close>

definition activated_table ::
  "(string, version_row) dict \<Rightarrow> rat \<Rightarrow> string \<Rightarrow> constitutional_version \<Rightarrow> (string, version_row) dict \<Rightarrow> bool" where
  "activated_table old now tid v new \<longleftrightarrow>
     (\<forall>k. dget new k =
        (if k = cv_version_id v
         then map_option (\<lambda>r. changed_row r (activate_cversion now v)) (dget old k)
         else if active_in tid old k
         then map_option (\<lambda>r. changed_row r (deactivate_cversion now ''superseded'' (the (version_of_row r)))) (dget old k)
         else dget old k)) \<and>
     dkeys new = dkeys old"

lemma dkeys_dset_present: "dget d k = Some u \<Longrightarrow> dkeys (dset k v d) = dkeys d"
  by (induction d) (auto split: if_splits)

lemma activation_database:
  assumes "documented_versions d rows" and "versions_invar (rows w)"
    and "dget (rows w) vid = Some r" "vr_tenant_id r = tid" "version_of_row r = Some v"
  shows "\<exists>w'. service_activate_version (database_only cfg d) now vid tid w = (w', Inr True) \<and>
    activated_table (rows w) now tid v (rows w')"
proof -
  let ?sv = "database_only cfg d" and ?v = "activate_cversion now v"
  have id: "vr_version_id r = vid" "cv_version_id v = vid"
    using assms(2,3,5) version_of_row_fields(1) unfolding versions_invar_def by auto
  have get: "service_get_version ?sv vid tid w = (w, Inr (Some v))"
    using assms(3-5) by (simp add: get_version_database [OF assms(1)])
  have body: "\<exists>w'. replace_active ?sv now vid tid w = (w', Inr True) \<and> activated_table (rows w) now tid v (rows w')"
  proof (rule select_active_cases [OF assms(2), of tid], goal_cases none one)
    case none
    obtain w' where upd: "persist_update_version ?sv ?v tid w = (w', Inr True)"
      "rows w' = dset vid (changed_row r ?v) (rows w)"
      using update_found [OF assms(1), of w ?v r tid cfg] assms(3,4) id
      by (auto simp: activate_cversion_def)
    have "replace_active ?sv now vid tid w = (w', Inr True)"
      using get get_active_database [OF assms(1) none(1), of cfg] upd(1)
      by (simp add: replace_active_def and_then_def return_act_def)
    moreover have "activated_table (rows w) now tid v (rows w')"
      unfolding activated_table_def upd(2) id(2)
      by (simp add: dget_dset none(2) assms(3) dkeys_dset_present [OF assms(3)])
    ultimately show ?thesis by blast
  next
    case (one k c)
    have "version_of_row c \<noteq> None" using assms(2) one(2) unfolding versions_invar_def by blast
    then obtain cv where cv: "version_of_row c = Some cv" "cv_version_id cv = k"
      using version_of_row_fields(1) one(3) by auto
    have tenant: "vr_tenant_id c = tid" using one(2,4) by (simp add: active_in_def)
    let ?c = "deactivate_cversion now ''superseded'' cv"
    obtain w1 where upd1: "persist_update_version ?sv ?c tid w = (w1, Inr True)"
      "rows w1 = dset k (changed_row c ?c) (rows w)"
      using update_found [OF assms(1), of w ?c c tid cfg] one(2,3) tenant cv
      by (auto simp: deactivate_cversion_def)
    define r1 where "r1 = (if vid = k then changed_row c ?c else r)"
    have "dget (rows w1) vid = Some r1" "vr_tenant_id r1 = tid" "vr_version_id r1 = vid"
      unfolding upd1(2) r1_def using assms(3,4) id(1) one(3) tenant by (simp_all add: dget_dset)
    note r1 = this
    obtain w2 where upd2: "persist_update_version ?sv ?v tid w1 = (w2, Inr True)"
      "rows w2 = dset vid (changed_row r1 ?v) (rows w1)"
      using update_found [OF assms(1), of w1 ?v r1 tid cfg] r1 id
      by (auto simp: activate_cversion_def)
    have same: "changed_row r1 ?v = changed_row r ?v"
      using assms(3) one(2) by (cases "vid = k") (simp_all add: r1_def changed_row_def)
    have only: "active_in tid (rows w) j \<longleftrightarrow> j = k" for j
      using one(4) assms(2) unfolding versions_invar_def by blast
    have "replace_active ?sv now vid tid w = (w2, Inr True)"
      using get get_active_database [OF assms(1) one(1), of cfg] upd1(1) upd2(1) cv(1)
      by (simp add: replace_active_def and_then_def return_act_def)
    moreover have "activated_table (rows w) now tid v (rows w2)"
      unfolding activated_table_def upd2(2) id(2) same dkeys_dset_present [OF r1(1)]
      by (simp add: upd1(2) dget_dset only one(2) assms(3) cv(1) dkeys_dset_present [OF one(2)])
    ultimately show ?thesis by blast
  qed
  then show ?thesis
    by (auto simp: service_activate_version_def finally_do_def return_act_def)
qed

lemma activated_lookup:
  assumes "activated_table old now tid v new"
  shows "dget new (cv_version_id v) =
      map_option (\<lambda>r. changed_row r (activate_cversion now v)) (dget old (cv_version_id v))"
    and "k \<noteq> cv_version_id v \<Longrightarrow> active_in tid old k \<Longrightarrow> dget new k =
      map_option (\<lambda>r. changed_row r (deactivate_cversion now ''superseded'' (the (version_of_row r)))) (dget old k)"
    and "k \<noteq> cv_version_id v \<Longrightarrow> \<not> active_in tid old k \<Longrightarrow> dget new k = dget old k"
  using assms by (simp_all add: activated_table_def)

lemma activate_status [simp]: "cstatus_value (cv_status (activate_cversion now v)) = ''active''"
  by (simp add: activate_cversion_def)

lemma deactivate_status [simp]:
  "cstatus_value (cv_status (deactivate_cversion now ''superseded'' v)) = ''superseded''"
  by (simp add: deactivate_cversion_def)

lemma activated_table_active:
  assumes old: "versions_invar old" and tab: "activated_table old now tid v new"
    and v: "dget old (cv_version_id v) = Some r" "vr_tenant_id r = tid"
  shows "active_in tid' new k \<longleftrightarrow> (if tid' = tid then k = cv_version_id v else active_in tid' old k)"
proof (cases "k = cv_version_id v")
  case True
  have "dget new k = Some (changed_row r (activate_cversion now v))"
    using activated_lookup(1) [OF tab] v(1) True by simp
  then have "active_in tid' new k \<longleftrightarrow> tid' = tid"
    using v(2) by (auto simp: active_in_def)
  moreover have "\<not> active_in tid' old k" if "tid' \<noteq> tid"
    using that v True by (simp add: active_in_def)
  ultimately show ?thesis using True by auto
next
  case False
  show ?thesis
  proof (cases "active_in tid old k")
    case True
    then obtain c where c: "dget old k = Some c" "vr_tenant_id c = tid" by (auto simp: active_in_def)
    then have "\<not> active_in tid' new k"
      using activated_lookup(2) [OF tab False True] by (simp add: active_in_def)
    moreover have "\<not> active_in tid' old k" if "tid' \<noteq> tid" using that c by (simp add: active_in_def)
    ultimately show ?thesis using False by auto
  next
    case inactive: False
    have "active_in tid' new k = active_in tid' old k"
      using activated_lookup(3) [OF tab False inactive] by (simp add: active_in_def)
    then show ?thesis using False inactive by auto
  qed
qed

lemma activated_table_rows:
  assumes old: "versions_invar old" and tab: "activated_table old now tid v new" and "dget new k = Some r'"
  shows "vr_version_id r' = k \<and> version_of_row r' \<noteq> None"
proof -
  have from_old: "vr_version_id r = k \<and> version_of_row r \<noteq> None" if "dget old k = Some r" for r
    using that old by (auto simp: versions_invar_def)
  have from_changed: "vr_version_id r' = k \<and> version_of_row r' \<noteq> None"
    if "map_option (\<lambda>r. changed_row r (f r)) (dget old k) = Some r'" for f
  proof -
    from that obtain r where r: "dget old k = Some r" "r' = changed_row r (f r)" by auto
    from from_old [OF r(1)] obtain u where "version_of_row r = Some u" by auto
    then show ?thesis using from_old [OF r(1)] r(2) changed_row_reads by simp
  qed
  show ?thesis
  proof (cases "k = cv_version_id v")
    case True
    then show ?thesis
      using activated_lookup(1) [OF tab] assms(3) from_changed by simp
  next
    case False
    show ?thesis
    proof (cases "active_in tid old k")
      case True
      then show ?thesis
        using activated_lookup(2) [OF tab False True] assms(3) from_changed by simp
    next
      case inactive: False
      then show ?thesis
        using activated_lookup(3) [OF tab False inactive] assms(3) from_old by auto
    qed
  qed
qed

lemma activated_table_invar:
  assumes old: "versions_invar old" and tab: "activated_table old now tid v new"
    and v: "dget old (cv_version_id v) = Some r" "vr_tenant_id r = tid"
  shows "versions_invar new"
proof -
  have "distinct (dkeys new)" using tab old by (simp add: activated_table_def versions_invar_def)
  moreover have "a = b" if "active_in t new a" "active_in t new b" for t a b
    using that old unfolding activated_table_active [OF assms] versions_invar_def by (metis (full_types))
  ultimately show ?thesis
    using activated_table_rows [OF old tab] unfolding versions_invar_def by blast
qed

section \<open>What is lost of an amendment\<close>

lemma amendment_status_of_value [simp]: "enum_of astatus_value astatuses (astatus_value s) = Some s"
  by (cases s) (simp_all add: enum_of_def astatuses_def)

lemma amendment_row_read:
  assumes "make_amendment uuid a = Some a"
  shows "amendment_of_row (row_of_amendment tid a) =
    Some (a\<lparr>am_impact_score := (if am_impact_score a = Some 0 then None else am_impact_score a),
            am_invariant_hash := None, am_invariant_impact := [], am_requires_refoundation := False\<rparr>)"
  using assms
  by (cases a) (auto simp: make_amendment_def amendment_of_row_def row_of_amendment_def split: if_splits option.splits)

end
