(* ===== verification/Proposal_Theorems.thy ===== *)
theory Proposal_Theorems
  imports Proposal_Review Constitution_Storage_Theorems
begin

text \<open>
  What the proposal engine and the approval integration do to the stored amendments, the versions they
  choose, and the change guard of the default invariants.
\<close>

section \<open>Actions that keep a part of the state\<close>

definition preserves :: "('w \<Rightarrow> bool) \<Rightarrow> ('w, 'a) act \<Rightarrow> bool" where
  "preserves P m \<longleftrightarrow> (\<forall>w. P w \<longrightarrow> P (fst (m w)))"

definition keeps :: "('w \<Rightarrow> 'r) \<Rightarrow> ('w, 'a) act \<Rightarrow> bool" where
  "keeps f m \<longleftrightarrow> (\<forall>w. f (fst (m w)) = f w)"

named_theorems keeping \<open>actions that preserve a predicate or keep a part of the state\<close>

lemma keeps_preserves: "keeps f m \<Longrightarrow> preserves (\<lambda>w. P (f w)) m"
  by (simp add: keeps_def preserves_def)

lemma preserves_basic [keeping]:
  "preserves P (return_act x)" "preserves P (raise_act e)"
  by (simp_all add: preserves_def raise_act_def)

lemma preserves_then [keeping]:
  "preserves P m \<Longrightarrow> (\<And>x. preserves P (f x)) \<Longrightarrow> preserves P (and_then m f)"
  by (auto simp: preserves_def and_then_def split: prod.splits sum.splits)

lemma preserves_else [keeping]: "preserves P m \<Longrightarrow> preserves P (or_else m x)"
  by (auto simp: preserves_def or_else_def split: prod.splits sum.splits)

lemma preserves_finally [keeping]: "preserves P m \<Longrightarrow> preserves P c \<Longrightarrow> preserves P (finally_do m c)"
  by (auto simp: preserves_def finally_do_def split: prod.splits sum.splits)

text \<open>The value a step returns may be used: it holds of the state the step leaves.\<close>

lemma preserves_thenI:
  assumes "\<And>w. P w \<Longrightarrow> P (fst (m w))" and "\<And>w w' x. P w \<Longrightarrow> m w = (w', Inr x) \<Longrightarrow> P (fst (f x w'))"
  shows "preserves P (and_then m f)"
  using assms by (auto simp: preserves_def and_then_def split: prod.splits sum.splits) (metis fst_conv)+

section \<open>Services that leave the amendments alone\<close>

definition redis_keeps :: "('w \<Rightarrow> 'r) \<Rightarrow> 'w redis \<Rightarrow> bool" where
  "redis_keeps f r \<longleftrightarrow> (\<forall>k. keeps f (rd_get r k)) \<and> (\<forall>k n j. keeps f (rd_setex r k n j)) \<and>
     (\<forall>k n j. keeps f (rd_set_nx r k n j)) \<and> (\<forall>k. keeps f (rd_delete r k))"

definition versions_keep :: "('w \<Rightarrow> 'r) \<Rightarrow> 'w database \<Rightarrow> bool" where
  "versions_keep f d \<longleftrightarrow> (\<forall>r. keeps f (db_insert_version d r)) \<and> (\<forall>v t. keeps f (db_select_version d v t)) \<and>
     (\<forall>r. keeps f (db_commit_version d r)) \<and> (\<forall>t. keeps f (db_select_active d t))"

definition service_keeps :: "('w \<Rightarrow> 'r) \<Rightarrow> 'w storage_service \<Rightarrow> bool" where
  "service_keeps f sv \<longleftrightarrow> (case sv_redis sv of None \<Rightarrow> True | Some r \<Rightarrow> redis_keeps f r) \<and>
     (case sv_database sv of None \<Rightarrow> True | Some d \<Rightarrow> versions_keep f d)"

lemma preserves_if [keeping]: "preserves P m \<Longrightarrow> preserves P n \<Longrightarrow> preserves P (if b then m else n)"
  by simp

lemma preserves_option [keeping]:
  "(x = None \<Longrightarrow> preserves P m) \<Longrightarrow> (\<And>y. x = Some y \<Longrightarrow> preserves P (f y)) \<Longrightarrow>
   preserves P (case x of None \<Rightarrow> m | Some y \<Rightarrow> f y)"
  by (cases x) simp_all

lemma preserves_sum [keeping]:
  "(\<And>e. x = Inl e \<Longrightarrow> preserves P (g e)) \<Longrightarrow> (\<And>y. x = Inr y \<Longrightarrow> preserves P (f y)) \<Longrightarrow>
   preserves P (case x of Inl e \<Rightarrow> g e | Inr y \<Rightarrow> f y)"
  by (cases x) simp_all

lemma preserves_prod [keeping]: "(\<And>a b. preserves P (f a b)) \<Longrightarrow> preserves P (case x of (a, b) \<Rightarrow> f a b)"
  by (cases x) simp

lemma service_keeps_gets:
  assumes "service_keeps f sv"
  shows "preserves (\<lambda>w. P (f w)) (service_get_version sv vid tid)"
    and "preserves (\<lambda>w. P (f w)) (service_get_active_version sv tid)"
proof -
  have cache: "preserves (\<lambda>w. P (f w)) (cache_get_version sv v t)"
    "preserves (\<lambda>w. P (f w)) (cache_set_version sv u t)"
    "preserves (\<lambda>w. P (f w)) (cache_get_active_version_id sv t)"
    "preserves (\<lambda>w. P (f w)) (cache_set_active_version sv v t)" for v t u
    using assms
    by (auto simp: service_keeps_def redis_keeps_def cache_get_version_def cache_set_version_def
        cache_get_active_version_id_def cache_set_active_version_def split: option.splits
        intro!: keeping intro: keeps_preserves)
  have base: "preserves (\<lambda>w. P (f w)) (persist_get_version sv v t)"
    "preserves (\<lambda>w. P (f w)) (persist_get_active_version sv t)" for v t
    using assms
    by (auto simp: service_keeps_def versions_keep_def persist_get_version_def persist_get_active_version_def
        with_database_def split: option.splits intro!: keeping intro: keeps_preserves)
  show "preserves (\<lambda>w. P (f w)) (service_get_version sv vid tid)"
    unfolding service_get_version_def by (intro keeping cache base)
  show "preserves (\<lambda>w. P (f w)) (service_get_active_version sv tid)"
    unfolding service_get_active_version_def by (intro keeping cache base)
qed

section \<open>The table of amendments\<close>

definition proposed_only :: "(string, amendment_row) dict \<Rightarrow> bool" where
  "proposed_only d \<longleftrightarrow> (\<forall>pid r. dget d pid = Some r \<longrightarrow> ar_status r = ''proposed'' \<and> ar_proposal_id r = pid)"

lemma row_of_amendment_id [simp]:
  "ar_proposal_id (row_of_amendment tid a) = am_proposal_id a"
  "ar_status (row_of_amendment tid a) = astatus_value (am_status a)"
  by (simp_all add: row_of_amendment_def)

lemma documented_insert:
  assumes "documented_amendments d arows"
  shows "dget (arows w) (ar_proposal_id r) \<noteq> None \<Longrightarrow>
      db_insert_amendment d r w = (w, Inl (Foreign ''IntegrityError''))"
    and "dget (arows w) (ar_proposal_id r) = None \<Longrightarrow>
      \<exists>w'. db_insert_amendment d r w = (w', Inr ()) \<and> arows w' = dset (ar_proposal_id r) r (arows w)"
proof -
  have law: "if dget (arows w) (ar_proposal_id r) = None
      then \<exists>w'. db_insert_amendment d r w = (w', Inr ()) \<and> arows w' = dset (ar_proposal_id r) r (arows w)
      else db_insert_amendment d r w = (w, Inl (Foreign ''IntegrityError''))"
    using assms unfolding documented_amendments_def by blast
  show "dget (arows w) (ar_proposal_id r) \<noteq> None \<Longrightarrow>
      db_insert_amendment d r w = (w, Inl (Foreign ''IntegrityError''))"
    using law by (simp only: if_False)
  show "dget (arows w) (ar_proposal_id r) = None \<Longrightarrow>
      \<exists>w'. db_insert_amendment d r w = (w', Inr ()) \<and> arows w' = dset (ar_proposal_id r) r (arows w)"
    using law by (simp only: if_True)
qed

lemma save_existing:
  assumes "documented_amendments d arows" "sv_database sv = Some d"
    and "dget (arows w) (am_proposal_id a) \<noteq> None"
  shows "persist_save_amendment sv a tid w = (w, Inl (Foreign ''IntegrityError''))"
proof -
  have "db_insert_amendment d (row_of_amendment tid a) w = (w, Inl (Foreign ''IntegrityError''))"
    using documented_insert(1) [OF assms(1), of w "row_of_amendment tid a"] assms(3) by simp
  then show ?thesis
    using assms(2) by (simp add: persist_save_amendment_def with_database_def or_else_def and_then_def)
qed

lemma save_new:
  assumes "documented_amendments d arows" "sv_database sv = Some d"
    and "dget (arows w) (am_proposal_id a) = None"
  obtains w' where "persist_save_amendment sv a tid w = (w', Inr True)"
    "arows w' = dset (am_proposal_id a) (row_of_amendment tid a) (arows w)"
proof -
  obtain w' where "db_insert_amendment d (row_of_amendment tid a) w = (w', Inr ())"
    "arows w' = dset (am_proposal_id a) (row_of_amendment tid a) (arows w)"
    using documented_insert(2) [OF assms(1), of w "row_of_amendment tid a"] assms(3) by auto
  then show ?thesis
    using that assms(2) by (simp add: persist_save_amendment_def with_database_def or_else_def and_then_def)
qed

lemma save_proposed:
  assumes "documented_amendments d arows" "sv_database sv = Some d" and "am_status a = AM_PROPOSED"
  shows "preserves (\<lambda>w. proposed_only (arows w)) (persist_save_amendment sv a tid)"
  unfolding preserves_def
proof (intro allI impI)
  fix w assume ok: "proposed_only (arows w)"
  show "proposed_only (arows (fst (persist_save_amendment sv a tid w)))"
  proof (cases "dget (arows w) (am_proposal_id a)")
    case None
    with save_new [OF assms(1,2)] obtain w' where
      "persist_save_amendment sv a tid w = (w', Inr True)"
      "arows w' = dset (am_proposal_id a) (row_of_amendment tid a) (arows w)" by metis
    then show ?thesis
      using ok assms(3) by (simp add: proposed_only_def dict_simps)
  next
    case (Some r)
    then show ?thesis using ok save_existing [OF assms(1,2), of w a tid] by simp
  qed
qed

lemma amendment_of_row_fields:
  assumes "amendment_of_row r = Some a"
  shows "am_proposal_id a = ar_proposal_id r" "astatus_value (am_status a) = ar_status r"
proof -
  from assms obtain st where st: "enum_of astatus_value astatuses (ar_status r) = Some st" "am_status a = st"
    and "am_proposal_id a = (if ar_proposal_id r = [] then ar_proposal_id r else ar_proposal_id r)"
    by (auto simp: amendment_of_row_def make_amendment_def split: option.splits if_splits)
  then show "am_proposal_id a = ar_proposal_id r" by simp
  have "astatus_value st = ar_status r"
    using st(1) unfolding enum_of_def by (auto simp: find_Some_iff)
  then show "astatus_value (am_status a) = ar_status r" using st(2) by simp
qed

text \<open>What is read from the storage is a stored proposal, in its stored status.\<close>

lemma get_amendment_stored:
  assumes doc: "documented_amendments d arows" "sv_database sv = Some d"
    and "persist_get_amendment sv pid tid w = (w', r)"
  shows "w' = w" and "r = Inr (Some a) \<Longrightarrow> \<exists>row. dget (arows w) pid = Some row \<and> amendment_of_row row = Some a"
proof -
  have sel: "db_select_amendment d pid tid w = (w, Inr (case dget (arows w) pid of
                   Some r \<Rightarrow> if ar_tenant_id r = tid then Some r else None | None \<Rightarrow> None))"
    using doc(1) by (simp add: documented_amendments_def)
  show "w' = w"
    using assms(3) doc(2) sel
    by (simp add: persist_get_amendment_def with_database_def or_else_def and_then_def return_act_def)
  show "\<exists>row. dget (arows w) pid = Some row \<and> amendment_of_row row = Some a" if "r = Inr (Some a)"
    using that assms(3) doc(2) sel
    by (auto simp: persist_get_amendment_def with_database_def or_else_def and_then_def return_act_def
        split: option.splits if_splits)
qed

section \<open>The calls\<close>

definition engine_keeps :: "('w \<Rightarrow> 'r) \<Rightarrow> 'w proposal_engine \<Rightarrow> bool" where
  "engine_keeps f pe \<longleftrightarrow> (\<forall>a b. keeps f (pe_diff pe a b)) \<and>
     (case pe_maci pe of None \<Rightarrow> True | Some m \<Rightarrow> \<forall>a. keeps f (m a)) \<and>
     (case pe_audit pe of None \<Rightarrow> True | Some l \<Rightarrow> \<forall>t a x. keeps f (l t a x))"

definition hitl_keeps :: "('w \<Rightarrow> 'r) \<Rightarrow> 'w hitl \<Rightarrow> bool" where
  "hitl_keeps f hi \<longleftrightarrow> (\<forall>p. keeps f (hi_post hi p)) \<and> (\<forall>r. keeps f (hi_get hi r)) \<and>
     (\<forall>c q a. keeps f (hi_send hi c q a))"

lemma log_keeps: "engine_keeps f pe \<Longrightarrow> preserves (\<lambda>w. P (f w)) (log_audit_event pe t a x)"
  by (auto simp: log_audit_event_def engine_keeps_def split: option.splits intro!: keeping intro: keeps_preserves)

lemma created_proposed:
  "make_amendment uuid (proposal_values pe now q target nv c results impact) = Some p \<Longrightarrow> am_status p = AM_PROPOSED"
  by (auto simp: make_amendment_def proposal_values_def Let_def split: if_splits)

lemma create_preserves:
  assumes doc: "documented_amendments d arows" "sv_database sv = Some d" and "service_keeps arows sv"
    and pe: "pe_storage pe = storage_facade sv current explicit" "engine_keeps arows pe"
  shows "preserves (\<lambda>w. proposed_only (arows w)) (create_proposal pe uuid1 uuid2 now q)"
proof -
  let ?P = "\<lambda>w. proposed_only (arows w)"
  have inv: "preserves ?P (invariant_step pe c)" for c
    unfolding invariant_step_def by (intro keeping)
  have maci: "preserves ?P (maci_step pe a)" for a
  proof (cases "if pe_enable_maci pe then pe_maci pe else None")
    case (Some m)
    then have "keeps arows (m a)" using pe(2) by (auto simp: engine_keeps_def split: if_splits)
    then show ?thesis
      unfolding maci_step_def Some option.case by (intro keeping keeps_preserves log_keeps pe(2))
  qed (simp add: maci_step_def keeping)
  have target: "preserves ?P (target_step pe now q)"
    unfolding target_step_def pe(1) storage_facade_simps Let_def
    by (intro keeping service_keeps_gets(2) assms(3))
  have diff: "preserves ?P (generate_diff_preview pe a b)" for a b
    using pe(2) unfolding generate_diff_preview_def engine_keeps_def by (intro keeping keeps_preserves) simp
  have save: "preserves ?P (so_save_amendment (pe_storage pe) p)"
    if "make_amendment uuid2 (proposal_values pe now q t nv c results impact) = Some p" for p t nv c results impact
    unfolding pe(1) storage_facade_simps by (rule save_proposed [OF doc created_proposed [OF that]])
  show ?thesis
    unfolding create_proposal_def Let_def
    by (intro keeping inv maci target diff save log_keeps pe(2)) assumption+
qed

text \<open>Submitting never gets past the storage.\<close>

lemma submit_raises:
  assumes doc: "documented_amendments d arows" "sv_database sv = Some d"
    and pe: "pe_storage pe = storage_facade sv current explicit" and ok: "proposed_only (arows w)"
  shows "\<exists>e. submit_proposal_for_review pe pid who w = (w, Inl e)"
    and "so_get_amendment (pe_storage pe) pid w = (w, Inr (Some a)) \<Longrightarrow>
      submit_proposal_for_review pe pid who w = (w, Inl (Foreign ''IntegrityError''))"
proof -
  obtain w' r where get: "so_get_amendment (pe_storage pe) pid w = (w', r)"
    by (cases "so_get_amendment (pe_storage pe) pid w")
  then have get': "persist_get_amendment sv pid (facade_tenant (sv_config sv) current explicit) w = (w', r)"
    by (simp add: pe)
  note stored = get_amendment_stored [OF doc get']
  have stuck: "submit_proposal_for_review pe pid who w = (w, Inl (Foreign ''IntegrityError''))"
    if "r = Inr (Some a)" for a
  proof -
    from stored(2) [OF that] obtain row where row: "dget (arows w) pid = Some row" "amendment_of_row row = Some a"
      by blast
    have fields: "am_proposal_id a = pid" "astatus_value (am_status a) = ''proposed''"
      using amendment_of_row_fields [OF row(2)] row(1) ok by (auto simp: proposed_only_def)
    have "am_status a = AM_PROPOSED" using fields(2) by (cases "am_status a") simp_all
    then show ?thesis
      using get that stored(1) save_existing [OF doc, of w "a\<lparr>am_status := AM_UNDER_REVIEW\<rparr>"] row(1) fields(1)
      by (simp add: submit_proposal_for_review_def am_submit_for_review_def and_then_def pe)
  qed
  show "\<exists>e. submit_proposal_for_review pe pid who w = (w, Inl e)"
  proof (cases r)
    case (Inl e)
    then show ?thesis using get stored(1) by (simp add: submit_proposal_for_review_def and_then_def)
  next
    case (Inr x)
    show ?thesis
    proof (cases x)
      case None
      then show ?thesis using get stored(1) Inr by (simp add: submit_proposal_for_review_def and_then_def raise_act_def)
    next
      case (Some a)
      then show ?thesis using stuck Inr by blast
    qed
  qed
  show "so_get_amendment (pe_storage pe) pid w = (w, Inr (Some a)) \<Longrightarrow>
      submit_proposal_for_review pe pid who w = (w, Inl (Foreign ''IntegrityError''))"
    using get stuck by simp
qed

section \<open>The approval service\<close>

text \<open>A stored proposal that is handed to the approval service, and a call of it by identifier\<close>

definition request_stored_approval ::
  "'w hitl \<Rightarrow> (amendment \<Rightarrow> string) \<Rightarrow> string option \<Rightarrow> string \<Rightarrow> ('w, hitl_request option) act" where
  "request_stored_approval hi describe base_url pid =
     and_then (so_get_amendment (hi_storage hi) pid) (\<lambda>found. case found of
        None \<Rightarrow> return_act None
      | Some a \<Rightarrow> and_then (create_approval_request hi describe base_url a) (\<lambda>r. return_act (Some r)))"

definition stored_proposed :: "string \<Rightarrow> (string, amendment_row) dict \<Rightarrow> bool" where
  "stored_proposed pid d \<longleftrightarrow> proposed_only d \<and> dget d pid \<noteq> None"

lemma save_stored:
  assumes "documented_amendments d arows" "sv_database sv = Some d"
  shows "preserves (\<lambda>w. stored_proposed (am_proposal_id a) (arows w)) (persist_save_amendment sv a tid)"
  using save_existing [OF assms] by (simp add: preserves_def stored_proposed_def)

lemma notify_keeps: "hitl_keeps f hi \<Longrightarrow> preserves (\<lambda>w. P (f w)) (send_notifications hi cs request a)"
proof (induction cs)
  case (Cons c cs)
  have "preserves (\<lambda>w. P (f w)) (send_to_channel hi c request a)"
    using Cons.prems unfolding send_to_channel_def hitl_keeps_def by (intro keeping keeps_preserves) simp
  then show ?case using Cons by (auto intro!: keeping)
qed (simp add: keeping)

lemma am_submit_same: "am_submit_for_review a = Inr a' \<Longrightarrow> am_proposal_id a' = am_proposal_id a"
  by (auto simp: am_submit_for_review_def split: if_splits)

lemma preserves_list [keeping]:
  "preserves P m \<Longrightarrow> (\<And>c cs. preserves P (f c cs)) \<Longrightarrow> preserves P (case xs of [] \<Rightarrow> m | c # cs \<Rightarrow> f c cs)"
  by (cases xs) simp_all

lemma preserves_json [keeping]:
  "preserves P m \<Longrightarrow> (\<And>s. preserves P (f s)) \<Longrightarrow> preserves P (case j of JStr s \<Rightarrow> f s | _ \<Rightarrow> m)"
  by (cases j) simp_all

lemma create_request_preserves:
  assumes doc: "documented_amendments d arows" "sv_database sv = Some d"
    and hi: "hi_storage hi = storage_facade sv current explicit" "hitl_keeps arows hi"
  shows "preserves (\<lambda>w. stored_proposed (am_proposal_id a) (arows w)) (create_approval_request hi describe base_url a)"
proof -
  let ?P = "\<lambda>w. stored_proposed (am_proposal_id a) (arows w)"
  have post: "preserves ?P (hi_post hi p)" for p
    using hi(2) by (auto simp: hitl_keeps_def intro: keeps_preserves)
  have save: "preserves ?P (so_save_amendment (hi_storage hi) a')" if "am_submit_for_review a = Inr a'" for a'
    using save_stored [OF doc, of a'] am_submit_same [OF that] by (simp add: hi(1))
  show ?thesis
    unfolding create_approval_request_def Let_def
    by (intro keeping post save notify_keeps hi(2)) assumption+
qed

text \<open>A call that first reads a stored proposal and then works on it\<close>

lemma preserves_read:
  assumes doc: "documented_amendments d arows" "sv_database sv = Some d"
    and none: "preserves (\<lambda>w. proposed_only (arows w)) (f None)"
    and some: "\<And>a. preserves (\<lambda>w. stored_proposed (am_proposal_id a) (arows w)) (f (Some a))"
  shows "preserves (\<lambda>w. proposed_only (arows w)) (and_then (persist_get_amendment sv pid tid) f)"
proof (rule preserves_thenI)
  fix w assume "proposed_only (arows w)"
  obtain w' r where get: "persist_get_amendment sv pid tid w = (w', r)"
    by (cases "persist_get_amendment sv pid tid w")
  with get_amendment_stored(1) [OF doc get] \<open>proposed_only (arows w)\<close>
  show "proposed_only (arows (fst (persist_get_amendment sv pid tid w)))" by simp
next
  fix w w' x assume ok: "proposed_only (arows w)" and get: "persist_get_amendment sv pid tid w = (w', Inr x)"
  note stored = get_amendment_stored [OF doc get]
  show "proposed_only (arows (fst (f x w')))"
  proof (cases x)
    case None
    then show ?thesis using none ok stored(1) by (simp add: preserves_def)
  next
    case (Some a)
    with stored(2) obtain row where row: "dget (arows w) pid = Some row" "amendment_of_row row = Some a" by auto
    then have "am_proposal_id a = pid"
      using amendment_of_row_fields(1) [OF row(2)] ok by (auto simp: proposed_only_def)
    then have "stored_proposed (am_proposal_id a) (arows w)"
      using ok row(1) by (simp add: stored_proposed_def)
    then show ?thesis
      using some [of a] stored(1) Some by (auto simp: preserves_def stored_proposed_def)
  qed
qed

lemma request_stored_preserves:
  assumes doc: "documented_amendments d arows" "sv_database sv = Some d"
    and hi: "hi_storage hi = storage_facade sv current explicit" "hitl_keeps arows hi"
  shows "preserves (\<lambda>w. proposed_only (arows w)) (request_stored_approval hi describe base_url pid)"
  unfolding request_stored_approval_def hi(1) storage_facade_simps
  by (intro preserves_read [OF doc]) (auto intro!: keeping create_request_preserves [OF doc hi])

lemma am_approve_same: "am_approve now who role a = Inr a' \<Longrightarrow> am_proposal_id a' = am_proposal_id a"
  and am_reject_same: "am_reject now who why role a = Inr a' \<Longrightarrow> am_proposal_id a' = am_proposal_id a"
  by (auto simp: am_approve_def am_reject_def split: if_splits)

lemma decision_preserves:
  assumes doc: "documented_amendments d arows" "sv_database sv = Some d"
    and hi: "hi_storage hi = storage_facade sv current explicit" "hitl_keeps arows hi"
  shows "preserves (\<lambda>w. proposed_only (arows w)) (process_approval_decision hi now request_id pid)"
proof -
  have get: "preserves (\<lambda>w. proposed_only (arows w)) (hi_get hi request_id)"
    using hi(2) by (auto simp: hitl_keeps_def intro: keeps_preserves)
  have save: "preserves (\<lambda>w. stored_proposed (am_proposal_id a) (arows w)) (persist_save_amendment sv a' tid)"
    if "am_proposal_id a' = am_proposal_id a" for a a' tid
    using save_stored [OF doc, of a'] that by simp
  show ?thesis
    unfolding process_approval_decision_def hi(1) storage_facade_simps Let_def
    by (intro keeping get preserves_read [OF doc] save)
      (simp_all add: keeping am_approve_same am_reject_same)
qed

text \<open>No decision of the service is ever recorded: a stored proposal is never under review.\<close>

lemma decision_never_true:
  assumes doc: "documented_amendments d arows" "sv_database sv = Some d"
    and hi: "hi_storage hi = storage_facade sv current explicit" "hitl_keeps arows hi"
    and ok: "proposed_only (arows w)"
  shows "process_approval_decision hi now request_id pid w \<noteq> (w', Inr True)"
proof
  assume true: "process_approval_decision hi now request_id pid w = (w', Inr True)"
  obtain w1 r1 where get: "hi_get hi request_id w = (w1, r1)" by (cases "hi_get hi request_id w")
  have "arows w1 = arows w" using hi(2) get unfolding hitl_keeps_def keeps_def by (metis fst_conv)
  then have ok1: "proposed_only (arows w1)" using ok by simp
  from true get obtain e es where data: "r1 = Inr (Some (e # es))"
    by (auto simp: process_approval_decision_def and_then_def split: sum.splits option.splits list.splits)
  obtain w2 r2 where am: "persist_get_amendment sv pid (facade_tenant (sv_config sv) current explicit) w1 = (w2, r2)"
    by (cases "persist_get_amendment sv pid (facade_tenant (sv_config sv) current explicit) w1")
  note stored = get_amendment_stored [OF doc am]
  have "r2 \<noteq> Inr (Some a)" for a
  proof
    assume r2: "r2 = Inr (Some a)"
    from stored(2) [OF r2] obtain row where row: "dget (arows w1) pid = Some row" "amendment_of_row row = Some a"
      by blast
    have "astatus_value (am_status a) = ''proposed''"
      using amendment_of_row_fields(2) [OF row(2)] row(1) ok1 by (auto simp: proposed_only_def)
    then have "am_status a = AM_PROPOSED" by (cases "am_status a") simp_all
    then have "\<not> (\<exists>a'. am_approve now who role a = Inr a')" for who role by (simp add: am_approve_def)
    then show False
      using true get data am r2 unfolding process_approval_decision_def hi(1) storage_facade_simps
      by (auto simp: and_then_def raise_act_def return_act_def Let_def split: sum.splits if_splits prod.splits)
  qed
  then show False
    using true get data am unfolding process_approval_decision_def hi(1) storage_facade_simps
    by (auto simp: and_then_def raise_act_def return_act_def Let_def split: sum.splits option.splits)
qed

end
