(* ===== verification/Proposal_Properties.thy ===== *)
theory Proposal_Properties
  imports Proposal_Theorems "HOL-Library.Multiset"
begin

text \<open>
  Properties of the constitutional amendments: the stored proposals, the versions, the guard of the
  invariants and the impact score.
\<close>

section \<open>Every call of the engine and of the approval integration\<close>









definition demo_service :: "tables storage_service" where
  "demo_service = database_only default_storage_config table_database"

definition demo_engine :: "tables proposal_engine" where
  "demo_engine = \<lparr>pe_storage = storage_facade demo_service None None, pe_diff = (\<lambda>a b. return_act None),
     pe_maci = None, pe_enable_maci = True, pe_enable_audit = True, pe_audit = None,
     pe_imports_available = True, pe_manifest = None\<rparr>"






text \<open>Without a decision of the service being recorded either: a stored proposal is never under review.\<close>

theorem approval_never_recorded:
  assumes "documented_amendments d arows" "sv_database sv = Some d"
    and "hi_storage hi = storage_facade sv current explicit" "hitl_keeps arows hi"
    and "proposed_only (arows w)"
  shows "process_approval_decision hi now request_id pid w \<noteq> (w', Inr True)"
  by (rule decision_never_true [OF assms])

section \<open>Created proposals\<close>

lemma and_then_Inr:
  "and_then m f w = (w', Inr y) \<longleftrightarrow> (\<exists>w1 x. m w = (w1, Inr x) \<and> f x w1 = (w', Inr y))"
  by (auto simp: and_then_def split: prod.splits sum.splits)

lemma raise_not_Inr [simp]: "raise_act e w \<noteq> (w', Inr y)"
  by (simp add: raise_act_def)

lemma create_proposal_Inr:
  assumes "create_proposal pe u1 u2 now q w = (w', Inr r)"
  obtains c active results nv where
    "chosen_version q (cv_version active) = Some nv"
    "make_amendment u2 (proposal_values pe now q (cv_version active) nv c results
       (compute_impact_score (pq_proposed_changes q))) = Some (ps_proposal r)"
    "ps_validation_results r = results"
    "results = validate_proposed_changes now (pq_proposed_changes q) active" "vl_valid results"
    "\<forall>m. pe_manifest pe = Some m \<longrightarrow>
       (\<exists>cl. validate_proposal (mf_invariants m) (dkeys (pq_proposed_changes q)) = Inr cl)"
proof -
  from assms obtain w1 c w2 w3 active results nv p where
    inv: "invariant_step pe (pq_proposed_changes q) w = (w1, Inr c)"
    and target: "target_step pe now q w2 = (w3, Inr (active, results))"
    and nv: "chosen_version q (cv_version active) = Some nv"
    and p: "make_amendment u2 (proposal_values pe now q (cv_version active) nv c results
       (compute_impact_score (pq_proposed_changes q))) = Some p"
    and r: "r = \<lparr>ps_proposal = p, ps_diff_preview = ps_diff_preview r, ps_validation_results = results\<rparr>"
    unfolding create_proposal_def and_then_Inr Let_def
    by (fastforce simp: and_then_Inr Let_def split: option.splits)
  have res: "results = validate_proposed_changes now (pq_proposed_changes q) active" "vl_valid results"
    using target unfolding target_step_def and_then_Inr Let_def by (auto split: option.splits if_splits)
  have "\<forall>m. pe_manifest pe = Some m \<longrightarrow>
      (\<exists>cl. validate_proposal (mf_invariants m) (dkeys (pq_proposed_changes q)) = Inr cl)"
    using inv by (auto simp: invariant_step_def split: if_splits sum.splits)
  moreover have "ps_proposal r = p" "ps_validation_results r = results"
    using r by (metis proposal_response.select_convs(1,3))+
  ultimately show ?thesis using that [OF nv _ _ res] p by simp
qed

lemma next_version_semver:
  assumes "semver_pattern v"
  shows "\<exists>x y z nv. semantic_version_tuple v = Some (x, y, z) \<and> compute_next_version v = Some nv \<and>
    semver_pattern nv \<and> semantic_version_tuple nv = Some (x, y + 1, z)"
proof -
  obtain a b c where abc: "py_int a \<noteq> None" "py_int b \<noteq> None" "py_int c \<noteq> None"
    "v = a @ CHR ''.'' # b @ CHR ''.'' # c"
    using assms unfolding semver_pattern_iff by blast
  then obtain x y z where xyz: "py_int a = Some x" "py_int b = Some y" "py_int c = Some z" by auto
  have split: "split_char CHR ''.'' v = [a, b, c]" using abc split_semver by simp
  let ?nv = "nat_text x @ CHR ''.'' # nat_text (y + 1) @ CHR ''.'' # nat_text z"
  have "split_char CHR ''.'' ?nv = [nat_text x, nat_text (y + 1), nat_text z]"
    by (rule split_semver) simp_all
  moreover have "semver_pattern ?nv"
    unfolding semver_pattern_iff
    by (intro exI [of _ "nat_text x"] exI [of _ "nat_text (y + 1)"] exI [of _ "nat_text z"]) simp
  ultimately show ?thesis
    using split xyz by (simp add: semantic_version_tuple_def compute_next_version_def)
qed

lemma impact_score_bounds:
  assumes "changes \<noteq> []"
  shows "0 < ia_score (compute_impact_score changes)" "ia_score (compute_impact_score changes) \<le> 1"
proof -
  have "0 < (of_nat (length changes) :: rat)" using assms by simp
  then show "0 < ia_score (compute_impact_score changes)"
    by (simp add: compute_impact_score_def Let_def min_def)
  show "ia_score (compute_impact_score changes) \<le> 1"
    by (simp add: compute_impact_score_def Let_def)
qed

text \<open>A proposal the engine creates is well formed: proposed, for a non-empty change that touches no hard or
  meta invariant of the manifest, with a justification of ten characters besides blanks, from and to
  semantic versions, the next minor one where the request names none, and with a score above 0 and at
  most 1.\<close>

theorem created_proposal_well_formed:
  assumes "create_proposal pe u1 u2 now q w = (w', Inr r)" and "ps_proposal r = p"
  shows "am_status p = AM_PROPOSED \<and> am_proposed_changes p = pq_proposed_changes q \<and>
    pq_proposed_changes q \<noteq> [] \<and> 10 \<le> length (am_justification p) \<and>
    valid_version_field (am_target_version p) \<and>
    (\<exists>nv. am_new_version p = Some nv \<and> valid_version_field nv \<and>
       (if truthy_str (pq_new_version q) then pq_new_version q = Some nv
        else \<exists>x y z. semantic_version_tuple (am_target_version p) = Some (x, y, z) \<and>
                     semantic_version_tuple nv = Some (x, y + 1, z))) \<and>
    (\<exists>s. am_impact_score p = Some s \<and> 0 < s \<and> s \<le> 1) \<and>
    (case pe_manifest pe of
       None \<Rightarrow> True
     | Some m \<Rightarrow> mf_invariants m \<noteq> [] \<and>
         \<not> (\<exists>d \<in> set (mf_invariants m). df_scope d \<in> {HARD, META} \<and>
               (\<exists>k \<in> set (dkeys (pq_proposed_changes q)). protects d k)))"
proof -
  obtain c results nv and active :: constitutional_version where
    nv: "chosen_version q (cv_version active) = Some nv"
    and mk: "make_amendment u2 (proposal_values pe now q (cv_version active) nv c results
       (compute_impact_score (pq_proposed_changes q))) = Some p"
    and guard: "\<forall>m. pe_manifest pe = Some m \<longrightarrow>
        (\<exists>cl. validate_proposal (mf_invariants m) (dkeys (pq_proposed_changes q)) = Inr cl)"
    by (rule create_proposal_Inr [OF assms(1), unfolded assms(2)]) (rule that)
  have fields: "am_proposed_changes p = pq_proposed_changes q" "pq_proposed_changes q \<noteq> []"
    "10 \<le> length (am_justification p)" "am_target_version p = cv_version active"
    "valid_version_field (cv_version active)" "am_new_version p = Some nv" "valid_version_field nv"
    "am_impact_score p = Some (ia_score (compute_impact_score (pq_proposed_changes q)))"
    using mk by (auto simp: make_amendment_def proposal_values_def Let_def split: if_splits)
  have version: "if truthy_str (pq_new_version q) then pq_new_version q = Some nv
        else \<exists>x y z. semantic_version_tuple (am_target_version p) = Some (x, y, z) \<and>
                     semantic_version_tuple nv = Some (x, y + 1, z)"
  proof (cases "truthy_str (pq_new_version q)")
    case False
    then have "compute_next_version (cv_version active) = Some nv" using nv by (simp add: chosen_version_def)
    then show ?thesis
      using next_version_semver [of "cv_version active"] fields(4,5) False by (auto simp: valid_version_field_def)
  qed (use nv in \<open>simp add: chosen_version_def\<close>)
  have manifest: "mf_invariants m \<noteq> [] \<and> \<not> (\<exists>d \<in> set (mf_invariants m). df_scope d \<in> {HARD, META} \<and>
               (\<exists>k \<in> set (dkeys (pq_proposed_changes q)). protects d k))" if "pe_manifest pe = Some m" for m
  proof -
    from guard [rule_format, OF that] have "\<not> cc_blocked (classify_change (mf_invariants m) (dkeys (pq_proposed_changes q)))"
      by (auto simp: validate_proposal_def Let_def split: if_splits)
    then show ?thesis unfolding classify_blocks by blast
  qed
  have wanted: "\<exists>nv. am_new_version p = Some nv \<and> valid_version_field nv \<and>
       (if truthy_str (pq_new_version q) then pq_new_version q = Some nv
        else \<exists>x y z. semantic_version_tuple (am_target_version p) = Some (x, y, z) \<and>
                     semantic_version_tuple nv = Some (x, y + 1, z))"
    using version fields(6,7) by blast
  have guarded: "case pe_manifest pe of
       None \<Rightarrow> True
     | Some m \<Rightarrow> mf_invariants m \<noteq> [] \<and>
         \<not> (\<exists>d \<in> set (mf_invariants m). df_scope d \<in> {HARD, META} \<and>
               (\<exists>k \<in> set (dkeys (pq_proposed_changes q)). protects d k))"
    using manifest by (cases "pe_manifest pe") auto
  show ?thesis
    by (intro conjI wanted guarded created_proposed [OF mk] fields(1-3))
      (use fields impact_score_bounds [OF fields(2)] in simp_all)
qed

definition demo_version :: constitutional_version where
  "demo_version = \<lparr>cv_version_id = ''v1'', cv_version = ''1.0.0'', cv_constitutional_hash = CONSTITUTIONAL_HASH,
     cv_content = [(''principles'', JStr ''old'')], cv_predecessor_version = None, cv_status = CS_ACTIVE,
     cv_metadata = [], cv_created_at = 0, cv_activated_at = Some 0, cv_deactivated_at = None\<rparr>"

definition demo_active :: tables where
  "demo_active = \<lparr>tb_versions = [(''v1'', row_of_version ''system'' demo_version)], tb_amendments = []\<rparr>"

definition demo_request :: proposal_request where
  "demo_request = \<lparr>pq_proposed_changes = [(''principles'', JStr ''new'')], pq_justification = ''a better rule'',
     pq_proposer_agent_id = ''alice'', pq_target_version = None, pq_new_version = None, pq_metadata = []\<rparr>"

lemma demo_version_valid: "valid_version demo_version"
  by (simp add: valid_version_def demo_version_def valid_version_field_def semver_pattern_def eat_digits_def
      eat_dot_def is_digit_def validate_semantic_version_def py_int_def validate_hash_format_def hex_chars_def
      CONSTITUTIONAL_HASH_def)

lemma demo_active_version:
  "service_get_active_version demo_service ''system'' demo_active = (demo_active, Inr (Some demo_version))"
proof -
  have "active_rows ''system'' (tb_versions demo_active) = [row_of_version ''system'' demo_version]"
    by (simp add: active_rows_def demo_active_def row_of_version_def demo_version_def)
  then have "one_or_none (active_rows ''system'' (tb_versions demo_active)) = Inr (Some (row_of_version ''system'' demo_version))"
    by (simp add: one_or_none_def)
  from get_active_database [OF table_database_documented(1) this] show ?thesis
    by (simp add: demo_service_def version_row_read demo_version_valid)
qed

lemma digit_chars: "char_of (48 :: nat) = CHR ''0''" "char_of (49 :: nat) = CHR ''1''"
  by code_simp+

lemma demo_next: "compute_next_version ''1.0.0'' = Some ''1.1.0''"
  by (simp add: compute_next_version_def py_int_def is_digit_def digits_value_def nat_text.simps digit_char_def
      digit_chars)

lemma demo_creates: "\<exists>w' r. create_proposal demo_engine ''t1'' ''p1'' 0 demo_request demo_active = (w', Inr r)"
proof -
  have tenant: "facade_tenant (sv_config demo_service) None None = ''system''"
    by (simp add: facade_tenant_def truthy_str_def demo_service_def database_only_def default_storage_config_def)
  have target: "target_step demo_engine 0 demo_request demo_active =
      (demo_active, Inr (demo_version, validate_proposed_changes 0 (pq_proposed_changes demo_request) demo_version))"
    using demo_active_version
    by (simp add: target_step_def demo_engine_def tenant and_then_def demo_request_def truthy_str_def
        validate_proposed_changes_def critical_fields_def demo_version_def Let_def return_act_def)
  have temp: "make_version u 0 (Some u) ''1.1.0'' (Some CONSTITUTIONAL_HASH) c x CS_DRAFT [] \<noteq> None" for u c x
    by (simp add: make_version_def semver_pattern_def eat_digits_def eat_dot_def is_digit_def
        validate_semantic_version_def py_int_def validate_hash_format_def hex_chars_def CONSTITUTIONAL_HASH_def)
  have mk: "\<exists>p. make_amendment ''p1'' (proposal_values demo_engine 0 demo_request ''1.0.0'' ''1.1.0'' None results
      (compute_impact_score (pq_proposed_changes demo_request))) = Some p" for results
    by (simp add: make_amendment_def proposal_values_def demo_request_def demo_engine_def valid_version_field_def
        semver_pattern_def eat_digits_def eat_dot_def is_digit_def validate_semantic_version_def py_int_def
        compute_impact_score_def py_strip_def py_isspace_def Let_def)
  have save: "\<exists>w'. persist_save_amendment demo_service p ''system'' demo_active = (w', Inr True)" for p
    by (simp add: persist_save_amendment_def demo_service_def and_then_def or_else_def table_database_def
        demo_active_def)
  obtain tv where tv: "make_version ''t1'' 0 (Some ''t1'') ''1.1.0'' (Some CONSTITUTIONAL_HASH)
      (merge_changes (cv_content demo_version) (pq_proposed_changes demo_request)) (Some (cv_version_id demo_version))
      CS_DRAFT [] = Some tv"
    using temp by blast
  have "chosen_version demo_request (cv_version demo_version) = Some ''1.1.0''" "cv_version demo_version = ''1.0.0''"
    by (simp_all add: chosen_version_def demo_request_def truthy_str_def demo_version_def demo_next)
  moreover have "invariant_step demo_engine c = return_act None" "maci_step demo_engine a = return_act ()"
    "generate_diff_preview demo_engine x y w = (w, Inr None)"
    "log_audit_event demo_engine t a' d = return_act ()"
    "so_save_amendment (pe_storage demo_engine) p = persist_save_amendment demo_service p ''system''"
    for c a x y w t a' d p
    by (simp_all add: invariant_step_def maci_step_def generate_diff_preview_def log_audit_event_def
        demo_engine_def tenant or_else_def)
  moreover obtain p where "make_amendment ''p1'' (proposal_values demo_engine 0 demo_request ''1.0.0'' ''1.1.0'' None
      (validate_proposed_changes 0 (pq_proposed_changes demo_request) demo_version)
      (compute_impact_score (pq_proposed_changes demo_request))) = Some p"
    using mk by blast
  moreover obtain w' where "persist_save_amendment demo_service p ''system'' demo_active = (w', Inr True)"
    using save by blast
  ultimately show ?thesis
    using tv by (simp add: create_proposal_def target and_then_def Let_def)
qed

theorem created_proposal_well_formed_witness:
  "\<exists>w' r. create_proposal demo_engine ''t1'' ''p1'' 0 demo_request demo_active = (w', Inr r) \<and>
     am_status (ps_proposal r) = AM_PROPOSED \<and> valid_version_field (am_target_version (ps_proposal r))"
proof -
  obtain w' r where run: "create_proposal demo_engine ''t1'' ''p1'' 0 demo_request demo_active = (w', Inr r)"
    using demo_creates by blast
  from created_proposal_well_formed [OF run refl] run show ?thesis by blast
qed

section \<open>The impact score\<close>

text \<open>The score of a change calls for deliberation exactly where it changes the principles and either five
  keys in all or the enforcement and three keys in all; it is never below 0 nor above 1. A change of the
  enforcement alone, or of the principles and the enforcement alone, never calls for it.\<close>

theorem deliberation_required_iff:
  "(ia_requires_deliberation (compute_impact_score changes) \<longleftrightarrow>
      ''principles'' \<in> set (dkeys changes) \<and>
      (5 \<le> length changes \<or> ''enforcement'' \<in> set (dkeys changes) \<and> 3 \<le> length changes)) \<and>
   0 \<le> ia_score (compute_impact_score changes) \<and> ia_score (compute_impact_score changes) \<le> 1"
proof -
  let ?n = "of_nat (length changes) :: rat"
  have n3: "3 \<le> ?n \<longleftrightarrow> 3 \<le> length changes" and n5: "5 \<le> ?n \<longleftrightarrow> 5 \<le> length changes"
    by (metis of_nat_le_iff of_nat_numeral)+
  have "ia_requires_deliberation (compute_impact_score changes) \<longleftrightarrow>
      ''principles'' \<in> set (dkeys changes) \<and> (5 \<le> ?n \<or> ''enforcement'' \<in> set (dkeys changes) \<and> 3 \<le> ?n)"
    by (simp add: compute_impact_score_def Let_def min_def) linarith
  moreover have "0 \<le> ia_score (compute_impact_score changes)"
    by (simp add: compute_impact_score_def Let_def)
  moreover have "ia_score (compute_impact_score changes) \<le> 1"
    by (simp add: compute_impact_score_def Let_def)
  ultimately show ?thesis unfolding n3 n5 by blast
qed

section \<open>The guard of the invariants\<close>

text \<open>The guard of a proposal refuses it exactly where there is no invariant or one of its paths is, or lies
  under, a path that a hard or meta invariant protects; in either case it reports the identifiers of the
  invariants that are touched, and nothing else.\<close>

theorem change_guard_decides:
  "case validate_proposal invs paths of
     Inl c \<Rightarrow> cc_blocked c \<and>
       (if invs = [] then cc_touched_invariant_ids c = []
        else (\<exists>d \<in> set invs. df_scope d \<noteq> SOFT \<and> (\<exists>p \<in> set paths. protects d p)) \<and>
             set (cc_touched_invariant_ids c) = df_invariant_id ` {d \<in> set invs. \<exists>p \<in> set paths. protects d p})
   | Inr c \<Rightarrow> \<not> cc_blocked c \<and> invs \<noteq> [] \<and>
       \<not> (\<exists>d \<in> set invs. df_scope d \<noteq> SOFT \<and> (\<exists>p \<in> set paths. protects d p)) \<and>
       cc_touches_invariants c = (\<exists>d \<in> set invs. \<exists>p \<in> set paths. protects d p) \<and>
       set (cc_touched_invariant_ids c) = df_invariant_id ` {d \<in> set invs. \<exists>p \<in> set paths. protects d p}"
proof -
  let ?c = "classify_change invs paths"
  have scope: "df_scope d \<in> {HARD, META} \<longleftrightarrow> df_scope d \<noteq> SOFT" for d :: invariant_definition
    by (cases "df_scope d") simp_all
  note blocks = classify_blocks [of invs paths, unfolded scope]
  show ?thesis
  proof (cases "invs = []")
    case True
    then show ?thesis by (simp add: validate_proposal_def classify_change_def Let_def)
  next
    case False
    show ?thesis
    proof (cases "cc_blocked ?c")
      case True
      then show ?thesis
        using blocks False classify_touches(2) [OF False] by (simp add: validate_proposal_def Let_def)
    next
      case unblocked: False
      then show ?thesis
        using blocks False classify_touches [OF False] by (simp add: validate_proposal_def Let_def)
    qed
  qed
qed

text \<open>The files the default invariants protect\<close>

definition protected_files :: "string list" where
  "protected_files = [''middlewares/batch/governance.py'', ''maci/enforcer.py'', ''bus/governance.py'',
     ''pipeline/router.py'', ''guardrails/audit_log.py'', ''audit_client.py'', ''constitutional/storage.py'',
     ''constitutional/activation_saga.py'', ''multi_tenancy/rls.py'', ''multi_tenancy/context.py'',
     ''deliberation_layer/hitl_manager.py'']"

text \<open>With the default invariants a change is refused only where one of its keys is, or extends, one of
  eleven names of source files; a change of any other key of the constitution (its principles, its
  enforcement, its roles, its rules) passes the guard untouched.\<close>

theorem default_guard_protects_files:
  "is_ok (validate_proposal DEFAULT_INVARIANTS paths) \<longleftrightarrow>
     \<not> (\<exists>p \<in> set paths. \<exists>f \<in> set protected_files. path_matches p f)"
proof -
  have "(\<exists>d \<in> set DEFAULT_INVARIANTS. df_scope d \<in> {HARD, META} \<and> (\<exists>p \<in> set paths. protects d p)) \<longleftrightarrow>
      (\<exists>p \<in> set paths. \<exists>f \<in> set protected_files. path_matches p f)"
    by (simp add: DEFAULT_INVARIANTS_def inv_001_def inv_002_def inv_003_def inv_004_def inv_005_def inv_006_def
        protects_def protected_files_def bex_disj_distrib disj_ac)
  moreover have "DEFAULT_INVARIANTS \<noteq> []" by (simp add: DEFAULT_INVARIANTS_def)
  ultimately show ?thesis
    using classify_blocks [of DEFAULT_INVARIANTS paths] by (simp add: validate_proposal_def Let_def)
qed

text \<open>The hash of a manifest does not depend on the order in which its invariants are given.\<close>

theorem manifest_hash_ignores_order:
  assumes "mset ds = mset ds'" and "distinct (map df_invariant_id ds)"
  shows "compute_hash digest ds = compute_hash digest ds'"
proof -
  have unique: "filter (\<lambda>x. df_invariant_id k = df_invariant_id x) xs = [k]"
    if "distinct (map df_invariant_id xs)" "k \<in> set xs" for k and xs :: "invariant_definition list"
    using that by (induction xs) (auto simp: image_iff filter_empty_conv)
  have ids: "mset (map df_invariant_id ds') = mset (map df_invariant_id ds)" using assms(1) by simp
  then have dist: "distinct (map df_invariant_id ds')" using assms(2) by (metis mset_eq_imp_distinct_iff)
  have sorted: "distinct (map df_invariant_id (sort_key df_invariant_id ds'))"
    using dist by (metis mset_map mset_sort mset_eq_imp_distinct_iff)
  have "sort_key df_invariant_id ds = sort_key df_invariant_id ds'"
  proof (rule properties_for_sort_key)
    show "mset (sort_key df_invariant_id ds') = mset ds" using assms(1) by simp
    show "filter (\<lambda>x. df_invariant_id k = df_invariant_id x) (sort_key df_invariant_id ds') =
        filter (\<lambda>x. df_invariant_id k = df_invariant_id x) ds" if "k \<in> set (sort_key df_invariant_id ds')" for k
      using that unique [OF sorted, of k] unique [OF assms(2), of k] mset_eq_setD [OF assms(1)] by simp
    show "sorted (map df_invariant_id (sort_key df_invariant_id ds'))" by simp
  qed
  then show ?thesis by (simp add: compute_hash_def)
qed

end
