(* ===== verification/Storage_Properties.thy ===== *)
theory Storage_Properties
  imports Constitution_Storage_Theorems
begin

text \<open>
  What the storage of versions keeps over every sequence of its calls where the database alone is
  connected, and what is lost of an amendment between the two calls that save and read it.
\<close>

section \<open>Runs of the storage service\<close>

text \<open>The database calls of the service on any tenants' behalf; what they answer is of no matter here.\<close>

inductive storage_run :: "storage_config \<Rightarrow> 'w database \<Rightarrow> 'w \<Rightarrow> 'w \<Rightarrow> bool" for cfg d where
  run_start: "storage_run cfg d w w"
| run_save: "storage_run cfg d w w1 \<Longrightarrow> valid_version v \<Longrightarrow> cv_status v \<noteq> CS_ACTIVE \<Longrightarrow>
    persist_save_version (database_only cfg d) v tid w1 = (w2, r) \<Longrightarrow> storage_run cfg d w w2"
| run_activate: "storage_run cfg d w w1 \<Longrightarrow>
    service_activate_version (database_only cfg d) now vid tid w1 = (w2, r) \<Longrightarrow> storage_run cfg d w w2"
| run_get: "storage_run cfg d w w1 \<Longrightarrow>
    service_get_version (database_only cfg d) vid tid w1 = (w2, r) \<Longrightarrow> storage_run cfg d w w2"
| run_get_active: "storage_run cfg d w w1 \<Longrightarrow>
    service_get_active_version (database_only cfg d) tid w1 = (w2, r) \<Longrightarrow> storage_run cfg d w w2"

lemma enum_of_cstatus [simp]: "enum_of cstatus_value cstatuses (cstatus_value s) = Some s"
  by (cases s) (simp_all add: enum_of_def cstatuses_def)

lemma cstatus_active_iff: "cstatus_value s = ''active'' \<longleftrightarrow> s = CS_ACTIVE"
  by (cases s) simp_all

lemma valid_version_row_read: "valid_version v \<Longrightarrow> version_of_row (row_of_version tid v) = Some v"
  by (cases v) (simp add: version_of_row_def row_of_version_def)

lemma row_of_version_fields:
  "vr_version_id (row_of_version tid v) = cv_version_id v"
  "vr_status (row_of_version tid v) = cstatus_value (cv_status v)"
  by (simp_all add: row_of_version_def)

lemma insert_keeps_invar:
  assumes "versions_invar t" and "valid_version v" "cv_status v \<noteq> CS_ACTIVE" and "dget t (cv_version_id v) = None"
  shows "versions_invar (dset (cv_version_id v) (row_of_version tid v) t)"
proof -
  let ?t = "dset (cv_version_id v) (row_of_version tid v) t"
  have same: "active_in u ?t k = active_in u t k" for u k
    using assms(3,4) by (auto simp: active_in_def dget_dset row_of_version_fields cstatus_active_iff)
  have "distinct (dkeys ?t)" using assms(1) by (simp add: versions_invar_def distinct_dset)
  moreover have "vr_version_id r = k \<and> version_of_row r \<noteq> None" if "dget ?t k = Some r" for k r
    using that assms(1,2)
    by (auto simp: dget_dset versions_invar_def row_of_version_fields valid_version_row_read split: if_splits)
  ultimately show ?thesis
    using assms(1) unfolding versions_invar_def same by blast
qed

lemma save_keeps_invar:
  assumes "documented_versions d rows" and "versions_invar (rows w)"
    and "valid_version v" "cv_status v \<noteq> CS_ACTIVE"
    and "persist_save_version (database_only cfg d) v tid w = (w', r)"
  shows "versions_invar (rows w')"
proof (cases "dget (rows w) (cv_version_id v) = None")
  case True
  obtain w1 where "db_insert_version d (row_of_version tid v) w = (w1, Inr ())"
    "rows w1 = dset (cv_version_id v) (row_of_version tid v) (rows w)"
    using assms(1) True unfolding documented_versions_def by (metis row_of_version_fields(1))
  then show ?thesis
    using assms(5) insert_keeps_invar [OF assms(2-4) True]
    by (simp add: persist_save_version_def and_then_def or_else_def return_act_def)
next
  case False
  then have "db_insert_version d (row_of_version tid v) w = (w, Inl (Foreign ''IntegrityError''))"
    using assms(1) unfolding documented_versions_def by (simp add: row_of_version_fields)
  then show ?thesis
    using assms(2,5) by (simp add: persist_save_version_def and_then_def or_else_def)
qed

text \<open>An identifier that the tenant has no version under is refused.\<close>

lemma activation_refused:
  assumes "documented_versions d rows"
    and "\<And>r. dget (rows w) vid = Some r \<Longrightarrow> vr_tenant_id r = tid \<Longrightarrow> version_of_row r = None"
  shows "service_activate_version (database_only cfg d) now vid tid w = (w, Inr False)"
proof -
  have "service_get_version (database_only cfg d) vid tid w = (w, Inr None)"
    using assms(2) by (simp add: get_version_database [OF assms(1)] split: option.splits)
  then show ?thesis
    by (simp add: service_activate_version_def replace_active_def finally_do_def and_then_def return_act_def)
qed

lemma activate_keeps_invar:
  assumes "documented_versions d rows" and "versions_invar (rows w)"
    and "service_activate_version (database_only cfg d) now vid tid w = (w', r)"
  shows "versions_invar (rows w')"
proof (cases "\<exists>row. dget (rows w) vid = Some row \<and> vr_tenant_id row = tid")
  case True
  then obtain row where row: "dget (rows w) vid = Some row" "vr_tenant_id row = tid" by blast
  then obtain v where v: "version_of_row row = Some v" "vr_version_id row = vid"
    using assms(2) unfolding versions_invar_def by blast
  have "cv_version_id v = vid" using version_of_row_fields(1) [OF v(1)] v(2) by simp
  then show ?thesis
    using activation_database [OF assms(1,2) row v(1), of cfg now] activated_table_invar [OF assms(2)] row assms(3)
    by auto
next
  case False
  then have "service_activate_version (database_only cfg d) now vid tid w = (w, Inr False)"
    by (intro activation_refused [OF assms(1)]) blast
  then show ?thesis using assms(2,3) by simp
qed

lemma reads_change_nothing:
  assumes "documented_versions d rows" and "versions_invar (rows w)"
  shows "service_get_version (database_only cfg d) vid tid w = (w', r) \<Longrightarrow> w' = w"
    and "service_get_active_version (database_only cfg d) tid w = (w', r') \<Longrightarrow> w' = w"
proof -
  show "service_get_version (database_only cfg d) vid tid w = (w', r) \<Longrightarrow> w' = w"
    by (simp add: get_version_database [OF assms(1)])
  obtain x where "one_or_none (active_rows tid (rows w)) = Inr x"
    using select_active_cases [OF assms(2), of tid] by metis
  then show "service_get_active_version (database_only cfg d) tid w = (w', r') \<Longrightarrow> w' = w"
    by (simp add: get_active_database [OF assms(1)])
qed

lemma storage_run_invar:
  assumes "documented_versions d rows" and "storage_run cfg d w w'" and "versions_invar (rows w)"
  shows "versions_invar (rows w')"
  using assms(2,3)
proof (induction rule: storage_run.induct)
  case (run_save w w1 v tid w2 r)
  then show ?case using save_keeps_invar [OF assms(1)] by blast
next
  case (run_activate w w1 now vid tid w2 r)
  then show ?case using activate_keeps_invar [OF assms(1)] by blast
next
  case (run_get w w1 vid tid w2 r)
  then show ?case using reads_change_nothing(1) [OF assms(1)] by metis
next
  case (run_get_active w w1 tid w2 r)
  then show ?case using reads_change_nothing(2) [OF assms(1)] by metis
qed

section \<open>Properties\<close>


definition first_version :: constitutional_version where
  "first_version = \<lparr>cv_version_id = ''v1'', cv_version = ''1.0.0'', cv_constitutional_hash = CONSTITUTIONAL_HASH,
     cv_content = [], cv_predecessor_version = None, cv_status = CS_REJECTED, cv_metadata = [],
     cv_created_at = 0, cv_activated_at = None, cv_deactivated_at = None\<rparr>"

lemma first_version_valid: "valid_version first_version"
  unfolding valid_version_def by code_simp

definition one_version :: tables where
  "one_version = \<lparr>tb_versions = [(''v1'', row_of_version ''t'' first_version)], tb_amendments = []\<rparr>"

lemma first_save:
  "persist_save_version (database_only default_storage_config table_database) first_version ''t''
     \<lparr>tb_versions = [], tb_amendments = []\<rparr> = (one_version, Inr True)"
  by (simp add: persist_save_version_def table_database_def and_then_def or_else_def return_act_def
      row_of_version_fields one_version_def first_version_def)

lemma one_version_run:
  "storage_run default_storage_config table_database \<lparr>tb_versions = [], tb_amendments = []\<rparr> one_version"
  by (rule run_save [OF run_start first_version_valid _ first_save]) (simp add: first_version_def)

lemma one_version_invar: "versions_invar (tb_versions one_version)"
proof -
  have "versions_invar []" by (simp add: versions_invar_def active_in_def)
  then show ?thesis
    using storage_run_invar [OF table_database_documented(1) one_version_run] by simp
qed

lemma one_version_row:
  "dget (tb_versions one_version) ''v1'' = Some (row_of_version ''t'' first_version)"
  "vr_tenant_id (row_of_version ''t'' first_version) = ''t''"
  by (simp_all add: one_version_def row_of_version_def)


text \<open>Activating a version of the tenant on the database alone succeeds whatever its status, a rejected or a
  rolled back one too: it becomes the one active version of the tenant, the version active before is
  superseded, and nothing changes for the other tenants.\<close>

theorem activation_replaces_active:
  assumes "documented_versions d rows" and "versions_invar (rows w)"
    and "dget (rows w) vid = Some r" "vr_tenant_id r = tid"
  shows "\<exists>w'. service_activate_version (database_only cfg d) now vid tid w = (w', Inr True) \<and>
    (\<forall>k. active_in tid (rows w') k \<longleftrightarrow> k = vid) \<and>
    (\<forall>k c. active_in tid (rows w) k \<and> k \<noteq> vid \<and> dget (rows w') k = Some c \<longrightarrow> vr_status c = ''superseded'') \<and>
    (\<forall>u k. u \<noteq> tid \<longrightarrow> active_in u (rows w') k = active_in u (rows w) k)"
proof -
  from assms(2,3) obtain v where v: "version_of_row r = Some v" "vr_version_id r = vid"
    unfolding versions_invar_def by blast
  then have id: "cv_version_id v = vid" using version_of_row_fields(1) by simp
  from activation_database [OF assms v(1)] obtain w' where
    w': "service_activate_version (database_only cfg d) now vid tid w = (w', Inr True)"
    "activated_table (rows w) now tid v (rows w')" by blast
  have "active_in u (rows w') k \<longleftrightarrow> (if u = tid then k = vid else active_in u (rows w) k)" for u k
    using activated_table_active [OF assms(2) w'(2)] assms(3,4) id by simp
  moreover have "vr_status c = ''superseded''"
    if "active_in tid (rows w) k" "k \<noteq> vid" "dget (rows w') k = Some c" for k c
    using activated_lookup(2) [OF w'(2)] that id by auto
  ultimately show ?thesis using w'(1) by auto
qed

theorem activation_replaces_active_witness:
  "\<exists>w'. service_activate_version (database_only default_storage_config table_database) 7 ''v1'' ''t'' one_version =
     (w', Inr True) \<and> (\<forall>k. active_in ''t'' (tb_versions w') k \<longleftrightarrow> k = ''v1'')"
  using activation_replaces_active [OF table_database_documented(1) one_version_invar one_version_row] by blast

section \<open>Amendments\<close>

text \<open>An amendment saved and read back on the database keeps every field but four: its invariant hash, the
  invariants it touches and the demand for a refoundation are gone, and an impact score of zero has become
  none.\<close>

theorem saved_amendment_loses_its_guard:
  assumes "documented_amendments d arows" and "make_amendment uuid a = Some a"
    and "dget (arows w) (am_proposal_id a) = None"
  shows "\<exists>w'. persist_save_amendment (database_only cfg d) a tid w = (w', Inr True) \<and>
    persist_get_amendment (database_only cfg d) (am_proposal_id a) tid w' =
      (w', Inr (Some (a\<lparr>am_impact_score := (if am_impact_score a = Some 0 then None else am_impact_score a),
         am_invariant_hash := None, am_invariant_impact := [], am_requires_refoundation := False\<rparr>)))"
proof -
  have ids: "ar_proposal_id (row_of_amendment tid a) = am_proposal_id a" "ar_tenant_id (row_of_amendment tid a) = tid"
    by (simp_all add: row_of_amendment_def)
  obtain w' where ins: "db_insert_amendment d (row_of_amendment tid a) w = (w', Inr ())"
    "arows w' = dset (am_proposal_id a) (row_of_amendment tid a) (arows w)"
    using assms(1,3) ids(1) unfolding documented_amendments_def by metis
  have sel: "db_select_amendment d (am_proposal_id a) tid w' = (w', Inr (Some (row_of_amendment tid a)))"
    using assms(1) ids(2) unfolding documented_amendments_def by (simp add: ins(2) dget_dset)
  have "persist_save_amendment (database_only cfg d) a tid w = (w', Inr True)"
    using ins(1) by (simp add: persist_save_amendment_def and_then_def or_else_def return_act_def)
  moreover have "persist_get_amendment (database_only cfg d) (am_proposal_id a) tid w' =
      (w', Inr (amendment_of_row (row_of_amendment tid a)))"
    using sel by (simp add: persist_get_amendment_def and_then_def or_else_def return_act_def)
  ultimately show ?thesis unfolding amendment_row_read [OF assms(2)] by blast
qed

definition guarded_amendment :: amendment where
  "guarded_amendment = \<lparr>am_proposal_id = ''p1'', am_proposed_changes = [(''principles'', JStr ''new'')],
     am_justification = ''a better rule'', am_proposer_agent_id = ''alice'', am_target_version = ''1.0.0'',
     am_new_version = None, am_status = AM_PROPOSED, am_impact_score = Some 0,
     am_impact_factors = [], am_impact_recommendation = None, am_requires_deliberation = False,
     am_metrics_before = [], am_metrics_after = [], am_approval_chain = [], am_rejection_reason = None,
     am_rollback_reason = None, am_invariant_hash = Some ''h'', am_invariant_impact = [''INV-001''],
     am_requires_refoundation = True, am_metadata = [(''constitutional_hash'', JStr CONSTITUTIONAL_HASH)], am_created_at = 0, am_reviewed_at = None,
     am_activated_at = None, am_rolled_back_at = None\<rparr>"

theorem saved_amendment_loses_its_guard_witness:
  "\<exists>w' a. persist_save_amendment (database_only default_storage_config table_database) guarded_amendment ''t'' one_version =
     (w', Inr True) \<and>
   persist_get_amendment (database_only default_storage_config table_database) ''p1'' ''t'' w' = (w', Inr (Some a)) \<and>
   am_requires_refoundation guarded_amendment \<and> \<not> am_requires_refoundation a"
proof -
  have ok: "make_amendment [] guarded_amendment = Some guarded_amendment" by code_simp
  have "dget (tb_amendments one_version) (am_proposal_id guarded_amendment) = None"
    by (simp add: one_version_def)
  from saved_amendment_loses_its_guard [OF table_database_documented(2) ok this, of default_storage_config "''t''"]
  obtain w' where w': "persist_save_amendment (database_only default_storage_config table_database)
      guarded_amendment ''t'' one_version = (w', Inr True)"
    "persist_get_amendment (database_only default_storage_config table_database) ''p1'' ''t'' w' =
      (w', Inr (Some (guarded_amendment\<lparr>am_impact_score := None, am_invariant_hash := None,
         am_invariant_impact := [], am_requires_refoundation := False\<rparr>)))"
    by (auto simp: guarded_amendment_def)
  show ?thesis
    by (intro exI conjI, rule w'(1), rule w'(2)) (simp_all add: guarded_amendment_def)
qed

end
