(* ===== verification/Activation_Saga.thy ===== *)
theory Activation_Saga
  imports Constitution_Service Proposal_Engine Saga_Theorems
begin

text \<open>
  \<^verbatim>\<open>src/constitutional/activation_saga.py\<close>: the saga that activates an approved amendment, over the storage of
  the facade, the policy agent (a PUT of the active hash that answers a status code), Redis (a delete of a
  key) and the audit service, each \<open>None\<close> where it is not connected. The SHA-256 digest of a content, the
  identifiers and the clock are arguments too. An \<open>ActivationSagaError\<close> is an \<open>ACGSBaseError\<close>, which the
  saga workflow does not catch: \<open>Foreign\<close>. A \<open>ValidationError\<close> of a model is a \<open>ValueError\<close>: \<open>Op\<close>.
\<close>

record 'w activation_activities =
  aa_storage :: "'w storage_api"
  aa_opa_url :: string
  aa_http :: "(json \<Rightarrow> ('w, nat) act) option"
  aa_redis :: "(string \<Rightarrow> ('w, unit) act) option"
  aa_audit :: "(json \<Rightarrow> ('w, unit) act) option"
  aa_digest :: "json_dict \<Rightarrow> string"
  aa_uuid :: "'w \<Rightarrow> 'w \<times> string"
  aa_clock :: "'w \<Rightarrow> rat"

definition fresh_uuid :: "'w activation_activities \<Rightarrow> ('w, string) act" where
  "fresh_uuid aa w = (case aa_uuid aa w of (w', u) \<Rightarrow> (w', Inr u))"

definition time_now :: "'w activation_activities \<Rightarrow> ('w, rat) act" where
  "time_now aa w = (w, Inr (aa_clock aa w))"

text \<open>\<open>ctx.get(step, {}).get(k)\<close>: the field of an earlier step's document, null where it is missing\<close>

definition result_field :: "json_dict \<Rightarrow> string \<Rightarrow> string \<Rightarrow> json" where
  "result_field ctx step k =
     (case dget_default ctx step (JObj []) of JObj d \<Rightarrow> dget_default d k JNull | _ \<Rightarrow> JNull)"

definition json_str_or_empty :: "json \<Rightarrow> string" where
  "json_str_or_empty j = (case j of JStr s \<Rightarrow> s | _ \<Rightarrow> [])"

definition amendment_id_of :: "json_dict \<Rightarrow> string" where
  "amendment_id_of ctx = (case dget ctx ''amendment_id'' of Some (JStr s) \<Rightarrow> s | _ \<Rightarrow> [])"

section \<open>Step 1: validation\<close>

definition validate_activation :: "'w activation_activities \<Rightarrow> step_input \<Rightarrow> ('w, json) act" where
  "validate_activation aa i =
     (let aid = amendment_id_of (si_context i); so = aa_storage aa
      in if aid = [] then raise_act (Foreign ''Missing amendment_id in context'')
         else and_then (so_get_amendment so aid) (\<lambda>found. case found of
           None \<Rightarrow> raise_act (Foreign ''Amendment not found'')
         | Some a \<Rightarrow>
             if am_status a \<noteq> AM_APPROVED then raise_act (Foreign ''Amendment is not approved'')
             else and_then (so_get_version so (am_target_version a)) (\<lambda>target. case target of
               None \<Rightarrow> raise_act (Foreign ''Target version not found'')
             | Some v \<Rightarrow>
                 and_then (so_get_active_version so) (\<lambda>_.
                   if cv_constitutional_hash v \<noteq> CONSTITUTIONAL_HASH
                   then raise_act (Foreign ''Target version constitutional hash does not match'')
                   else and_then (fresh_uuid aa) (\<lambda>u. and_then (time_now aa) (\<lambda>t. return_act (JObj
                     [(''validation_id'', JStr u), (''amendment_id'', JStr aid),
                      (''target_version_id'', JStr (cv_version_id v)), (''target_version'', JStr (cv_version v)),
                      (''new_version'', jstr_option (am_new_version a)), (''is_valid'', JBool True),
                      (''timestamp'', JTime t)])))))))"

definition undo_validation :: "'w activation_activities \<Rightarrow> compensation_input \<Rightarrow> ('w, bool) act" where
  "undo_validation aa i = return_act True"

section \<open>Step 2: backup\<close>

definition backup_current_version :: "'w activation_activities \<Rightarrow> step_input \<Rightarrow> ('w, json) act" where
  "backup_current_version aa i =
     and_then (so_get_active_version (aa_storage aa)) (\<lambda>active. case active of
       None \<Rightarrow> raise_act (Foreign ''No active constitutional version found'')
     | Some v \<Rightarrow> and_then (fresh_uuid aa) (\<lambda>u. and_then (time_now aa) (\<lambda>t. return_act (JObj
         [(''backup_id'', JStr u), (''version_id'', JStr (cv_version_id v)), (''version'', JStr (cv_version v)),
          (''constitutional_hash'', JStr (cv_constitutional_hash v)), (''content'', JObj (cv_content v)),
          (''status'', JStr (cstatus_value (cv_status v))), (''timestamp'', JTime t)]))))"

text \<open>The answer of \<open>activate_version\<close> is not looked at.\<close>

definition restore_backup :: "'w activation_activities \<Rightarrow> compensation_input \<Rightarrow> ('w, bool) act" where
  "restore_backup aa i =
     (if \<not> json_truthy (dget_default (ci_context i) ''backup_current_version'' JNull) then return_act False
      else and_then (time_now aa) (\<lambda>t.
        or_else (and_then (so_activate_version (aa_storage aa) t
                  (json_str_or_empty (result_field (ci_context i) ''backup_current_version'' ''version_id'')))
          (\<lambda>_. return_act True)) False))"

section \<open>Step 3: the policy agent\<close>

text \<open>The amendment and the version it targets, as steps 3 and 4 read them again\<close>

definition read_target :: "'w activation_activities \<Rightarrow> json_dict \<Rightarrow> ('w, amendment \<times> constitutional_version) act" where
  "read_target aa ctx =
     (let so = aa_storage aa
      in if amendment_id_of ctx = [] then raise_act (Foreign ''Missing amendment_id in context'')
         else and_then (so_get_amendment so (amendment_id_of ctx)) (\<lambda>found. case found of
           None \<Rightarrow> raise_act (Foreign ''Amendment not found'')
         | Some a \<Rightarrow> and_then (so_get_version so (am_target_version a)) (\<lambda>target. case target of
             None \<Rightarrow> raise_act (Foreign ''Target version not found'')
           | Some v \<Rightarrow> return_act (a, v))))"

definition put_active_hash :: "'w activation_activities \<Rightarrow> json \<Rightarrow> json \<Rightarrow> ('w, nat option) act" where
  "put_active_hash aa h v =
     (case aa_http aa of
        None \<Rightarrow> return_act None
      | Some put \<Rightarrow> and_then (put (JObj [(''hash'', h), (''version'', v)])) (\<lambda>code. return_act (Some code)))"

definition update_opa_policies :: "'w activation_activities \<Rightarrow> step_input \<Rightarrow> ('w, json) act" where
  "update_opa_policies aa i =
     and_then (read_target aa (si_context i)) (\<lambda>(a, v).
       let new_hash = aa_digest aa (merge_changes (cv_content v) (am_proposed_changes a));
           new_version = result_field (si_context i) ''validate_activation'' ''new_version''
       in and_then (fresh_uuid aa) (\<lambda>u.
          and_then (or_else (put_active_hash aa (JStr new_hash) new_version) None) (\<lambda>_.
          and_then (time_now aa) (\<lambda>t. return_act (JObj
            [(''policy_update_id'', JStr u), (''opa_url'', JStr (aa_opa_url aa)), (''new_hash'', JStr new_hash),
             (''new_version'', new_version), (''updated'', JBool True), (''timestamp'', JTime t)])))))"

definition revert_opa_policies :: "'w activation_activities \<Rightarrow> compensation_input \<Rightarrow> ('w, bool) act" where
  "revert_opa_policies aa i =
     (let backup = (case dget_default (ci_context i) ''backup_current_version'' (JObj []) of JObj d \<Rightarrow> d | _ \<Rightarrow> []);
          h = dget_default backup ''constitutional_hash'' (JStr CONSTITUTIONAL_HASH);
          v = dget_default backup ''version'' (JStr ''unknown'')
      in or_else (and_then (put_active_hash aa h v)
           (\<lambda>code. return_act (case code of None \<Rightarrow> True | Some c \<Rightarrow> c \<in> {200, 204}))) False)"

section \<open>Step 4: the new version\<close>

text \<open>\<open>version\<close> and \<open>status\<close> of the constructor; a version that is no string is a \<open>ValidationError\<close>.\<close>

definition new_version_of ::
  "'w activation_activities \<Rightarrow> string \<Rightarrow> rat \<Rightarrow> json_dict \<Rightarrow> amendment \<Rightarrow> constitutional_version \<Rightarrow>
   constitutional_version option" where
  "new_version_of aa u t ctx a v =
     (let content = merge_changes (cv_content v) (am_proposed_changes a)
      in case result_field ctx ''validate_activation'' ''new_version'' of
           JStr n \<Rightarrow> make_version u t None n (Some (aa_digest aa content)) content (Some (cv_version_id v))
                      CS_APPROVED
                      [(''amendment_id'', JStr (amendment_id_of ctx)),
                       (''impact_score'', case am_impact_score a of None \<Rightarrow> JNull | Some x \<Rightarrow> JNum x),
                       (''proposer_agent_id'', JStr (am_proposer_agent_id a)),
                       (''activated_by'', JStr ''activation_saga''), (''activated_at'', JTime t)]
         | _ \<Rightarrow> None)"

definition invalidate_active :: "'w activation_activities \<Rightarrow> ('w, bool) act" where
  "invalidate_active aa =
     (case aa_redis aa of
        None \<Rightarrow> return_act False
      | Some delete \<Rightarrow>
          or_else (and_then (delete ''constitutional:active_version'') (\<lambda>_. return_act True)) False)"

definition update_cache :: "'w activation_activities \<Rightarrow> step_input \<Rightarrow> ('w, json) act" where
  "update_cache aa i =
     and_then (read_target aa (si_context i)) (\<lambda>(a, v).
     and_then (fresh_uuid aa) (\<lambda>u. and_then (time_now aa) (\<lambda>t.
       case new_version_of aa u t (si_context i) a v of
         None \<Rightarrow> raise_act (Op ''validation error for ConstitutionalVersion'')
       | Some nv \<Rightarrow>
           and_then (so_save_version (aa_storage aa) nv) (\<lambda>_.
           and_then (so_activate_version (aa_storage aa) t (cv_version_id nv)) (\<lambda>_.
           and_then (so_save_amendment (aa_storage aa) (a\<lparr>am_status := AM_ACTIVE, am_activated_at := Some t\<rparr>)) (\<lambda>_.
           and_then (invalidate_active aa) (\<lambda>invalidated.
           and_then (fresh_uuid aa) (\<lambda>u'. return_act (JObj
             [(''cache_update_id'', JStr u'), (''new_version_id'', JStr (cv_version_id nv)),
              (''new_version'', result_field (si_context i) ''validate_activation'' ''new_version''),
              (''cache_invalidated'', JBool invalidated), (''activated'', JBool True),
              (''timestamp'', JTime t)])))))))))"

definition revert_cache :: "'w activation_activities \<Rightarrow> compensation_input \<Rightarrow> ('w, bool) act" where
  "revert_cache aa i =
     (case aa_redis aa of
        None \<Rightarrow> return_act True
      | Some delete \<Rightarrow>
          or_else (and_then (delete ''constitutional:active_version'') (\<lambda>_. return_act True)) False)"

section \<open>Step 5: the audit\<close>

definition submit_audit :: "'w activation_activities \<Rightarrow> json \<Rightarrow> ('w, unit) act" where
  "submit_audit aa event = (case aa_audit aa of None \<Rightarrow> return_act () | Some emit \<Rightarrow> or_else (emit event) ())"

definition audit_activation :: "'w activation_activities \<Rightarrow> step_input \<Rightarrow> ('w, json) act" where
  "audit_activation aa i =
     (let ctx = si_context i;
          cache_hash = result_field ctx ''update_cache'' ''new_hash''
      in and_then (fresh_uuid aa) (\<lambda>u. and_then (time_now aa) (\<lambda>t.
         let event = JObj
           [(''audit_id'', JStr u), (''event_type'', JStr ''constitutional_version_activated''),
            (''saga_id'', JStr (si_saga_id i)), (''amendment_id'', dget_default ctx ''amendment_id'' JNull),
            (''new_version'', result_field ctx ''validate_activation'' ''new_version''),
            (''new_version_id'', result_field ctx ''update_cache'' ''new_version_id''),
            (''previous_version'', result_field ctx ''backup_current_version'' ''version''),
            (''previous_version_id'', result_field ctx ''backup_current_version'' ''version_id''),
            (''constitutional_hash'', if json_truthy cache_hash then cache_hash else JStr CONSTITUTIONAL_HASH),
            (''timestamp'', JTime t),
            (''metadata'', JObj
               [(''validation'', dget_default ctx ''validate_activation'' (JObj [])),
                (''backup'', dget_default ctx ''backup_current_version'' (JObj [])),
                (''cache_update'', dget_default ctx ''update_cache'' (JObj []))])]
         in and_then (submit_audit aa event) (\<lambda>_. return_act event))))"

definition undo_audit :: "'w activation_activities \<Rightarrow> compensation_input \<Rightarrow> ('w, bool) act" where
  "undo_audit aa i =
     and_then (time_now aa) (\<lambda>t.
     and_then (submit_audit aa (JObj
       [(''event_type'', JStr ''constitutional_activation_compensated''), (''saga_id'', JStr (ci_saga_id i)),
        (''original_audit_id'',
          case result_field (ci_context i) ''audit_activation'' ''audit_id'' of JNull \<Rightarrow> JStr ''unknown'' | j \<Rightarrow> j),
        (''reason'', JStr ''Saga compensation triggered''), (''timestamp'', JTime t),
        (''constitutional_hash'', JStr CONSTITUTIONAL_HASH)])) (\<lambda>_. return_act True))"

section \<open>The saga\<close>

definition activation_step ::
  "string \<Rightarrow> string \<Rightarrow> (step_input \<Rightarrow> ('w, json) act) \<Rightarrow> string \<Rightarrow> string \<Rightarrow>
   (compensation_input \<Rightarrow> ('w, bool) act) \<Rightarrow> nat \<Rightarrow> bool \<Rightarrow> 'w saga_step" where
  "activation_step name description body cname cdescription undo timeout is_optional =
     \<lparr>st_name = name, st_execute = body,
      st_compensation = Some \<lparr>cp_name = cname, cp_execute = undo, cp_description = cdescription,
                              cp_idempotency_key = None, cp_max_retries = 3\<rparr>,
      st_description = description, st_timeout_seconds = timeout, st_max_retries = 3,
      st_is_optional = is_optional, st_status = StepPending, st_result = None, st_error = None\<rparr>"

definition activation_steps :: "'w activation_activities \<Rightarrow> 'w saga_step list" where
  "activation_steps aa =
     [activation_step ''validate_activation'' ''Validate amendment can be activated'' (validate_activation aa)
        ''log_validation_failure'' ''Log validation failure'' (undo_validation aa) 30 False,
      activation_step ''backup_current_version'' ''Backup current active constitutional version''
        (backup_current_version aa) ''restore_backup'' ''Restore backed up version'' (restore_backup aa) 30 False,
      activation_step ''update_opa_policies'' ''Update OPA constitutional policies'' (update_opa_policies aa)
        ''revert_opa_policies'' ''Revert OPA policies to previous version'' (revert_opa_policies aa) 60 True,
      activation_step ''update_cache'' ''Invalidate cache and activate new version'' (update_cache aa)
        ''revert_cache'' ''Revert cache to previous version'' (revert_cache aa) 30 False,
      activation_step ''audit_activation'' ''Log activation to audit trail'' (audit_activation aa)
        ''mark_audit_failed'' ''Mark audit as failed/compensated'' (undo_audit aa) 30 True]"

definition create_activation_saga :: "'w activation_activities \<Rightarrow> 'w \<Rightarrow> string \<Rightarrow> string \<Rightarrow> 'w saga" where
  "create_activation_saga aa w aid tag =
     fold add_step (activation_steps aa) (init_saga w (''activation-'' @ aid @ ''-'' @ tag) None ''1.0.0'')"

definition activation_context :: "string \<Rightarrow> string \<Rightarrow> saga_context" where
  "activation_context saga_id aid = set_step_result ''amendment_id'' (JStr aid) (saga_context saga_id)"

definition activate_amendment ::
  "(nat \<Rightarrow> string) \<Rightarrow> 'w activation_activities \<Rightarrow> 'w \<Rightarrow> string \<Rightarrow> string \<Rightarrow> 'w saga \<times> (saga_exn + saga_result)" where
  "activate_amendment fmt aa w aid tag =
     (let saga = create_activation_saga aa w aid tag
      in execute_saga fmt (Some (activation_context (sg_saga_id saga) aid)) saga)"

end
