(* ===== verification/Activation_Properties.thy ===== *)
theory Activation_Properties
  imports Activation_Saga Proposal_Theorems
begin

text \<open>
  Properties of the storage of versions and of the activation of amendments.
\<close>

section \<open>Steps that can and cannot succeed\<close>





section \<open>Activation of amendments\<close>



lemma activation_saga_parts:
  "sg_steps (create_activation_saga aa w aid tag) = activation_steps aa"
  "sg_persistence (create_activation_saga aa w aid tag) = None"
  "sg_compensations (create_activation_saga aa w aid tag) = []"
  "sg_failed_step (create_activation_saga aa w aid tag) = None"
  "sg_compensated_steps (create_activation_saga aa w aid tag) = []"
  "sg_failed_compensations (create_activation_saga aa w aid tag) = []"
  "sg_world (create_activation_saga aa w aid tag) = w"
  by (simp_all add: create_activation_saga_def activation_steps_def add_step_def init_saga_def)




definition targeted_version :: constitutional_version where
  "targeted_version = \<lparr>cv_version_id = ''1.0.0'', cv_version = ''1.0.0'',
     cv_constitutional_hash = CONSTITUTIONAL_HASH, cv_content = [], cv_predecessor_version = None,
     cv_status = CS_ACTIVE, cv_metadata = [], cv_created_at = 0, cv_activated_at = None, cv_deactivated_at = None\<rparr>"

definition ready_activities :: "amendment option \<Rightarrow> nat activation_activities" where
  "ready_activities a = \<lparr>aa_storage =
       \<lparr>so_save_version = (\<lambda>v. return_act True), so_get_version = (\<lambda>v. return_act (Some targeted_version)),
        so_get_active_version = return_act (Some targeted_version),
        so_activate_version = (\<lambda>t v. return_act True), so_save_amendment = (\<lambda>a. return_act True),
        so_get_amendment = (\<lambda>p. return_act a), so_list_versions = (\<lambda>n k s. return_act []),
        so_list_amendments = (\<lambda>n k s p. return_act ([], 0))\<rparr>,
     aa_opa_url = [], aa_http = None, aa_redis = None, aa_audit = None,
     aa_digest = (\<lambda>c. replicate 64 CHR ''a''), aa_uuid = (\<lambda>n. (Suc n, ''u'')), aa_clock = (\<lambda>n. 0)\<rparr>"







text \<open>Activating an amendment that the storage does not have, or has in any status but APPROVED, raises out of
  the saga at its first step, with no compensation run and nothing further done: the error of the first
  step is none of those the saga catches.\<close>

theorem unapproved_activation_escapes:
  assumes "aid \<noteq> []" and "so_get_amendment (aa_storage aa) aid w = (w', Inr found)"
    and "\<And>a. found = Some a \<Longrightarrow> am_status a \<noteq> AM_APPROVED"
  shows "\<exists>s' e. activate_amendment fmt aa w aid tag = (s', Inl (Foreign e)) \<and> sg_world s' = w' \<and>
    sg_status s' = SagaExecuting \<and> sg_compensated_steps s' = [] \<and> sg_failed_compensations s' = []"
proof -
  let ?saga = "create_activation_saga aa w aid tag"
  let ?c = "activation_context (sg_saga_id ?saga) aid"
  let ?s = "?saga\<lparr>sg_status := SagaExecuting, sg_context := ?c\<rparr>"
  let ?st = "activation_step ''validate_activation'' ''Validate amendment can be activated'' (validate_activation aa)
        ''log_validation_failure'' ''Log validation failure'' (undo_validation aa) 30 False"
  obtain rest where steps: "activation_steps aa = ?st # rest" by (simp add: activation_steps_def)
  have "amendment_id_of (sc_step_results ?c) = aid"
    by (simp add: amendment_id_of_def activation_context_def set_step_result_def saga_context_def)
  then have "\<exists>e. validate_activation aa i w = (w', Inl (Foreign e))" if "si_context i = sc_step_results ?c" for i
    using assms that
    by (cases found) (auto simp: validate_activation_def and_then_def raise_act_def Let_def)
  moreover have "si_context (step_input_of (?st\<lparr>st_status := StepExecuting\<rparr>) 0 (register_compensation ?st ?s)) =
      sc_step_results ?c"
    by (simp add: step_input_of_def register_compensation_def activation_step_def)
  ultimately obtain e where body: "validate_activation aa (step_input_of (?st\<lparr>st_status := StepExecuting\<rparr>) 0
      (register_compensation ?st ?s)) w = (w', Inl (Foreign e))"
    by blast
  let ?s1 = "(register_compensation ?st ?s)\<lparr>sg_world := w'\<rparr>"
  have world: "sg_world (register_compensation ?st ?s) = w"
    by (simp add: register_compensation_def activation_step_def activation_saga_parts)
  have three: "st_max_retries ?st = Suc (Suc (Suc 0))" "st_execute (?st\<lparr>st_status := StepExecuting\<rparr>) = validate_activation aa"
    by (simp_all add: activation_step_def)
  have "execute_step fmt ?st ?s = (?s1, ?st\<lparr>st_status := StepExecuting\<rparr>, Inl (Foreign e))"
    unfolding execute_step_def three(1) by (simp add: three(2) world body Let_def)
  then have "run_steps fmt [] (sg_steps ?saga) ?s =
      (?s1\<lparr>sg_steps := ?st\<lparr>st_status := StepExecuting\<rparr> # rest\<rparr>, Inl (Foreign e))"
    by (simp add: activation_saga_parts steps)
  from foreign_exception_escapes [OF activation_saga_parts(2) this]
  show ?thesis
    by (simp add: activate_amendment_def Let_def register_frame activation_saga_parts)
qed

theorem unapproved_activation_escapes_witness:
  "\<exists>s' e. activate_amendment (\<lambda>n. []) (ready_activities None) 5 ''p1'' ''t'' = (s', Inl (Foreign e)) \<and> sg_world s' = 5"
proof -
  have "so_get_amendment (aa_storage (ready_activities None)) ''p1'' 5 = (5, Inr None)"
    by (simp add: ready_activities_def)
  from unapproved_activation_escapes [OF _ this] show ?thesis by blast
qed

end
