(* ===== verification/Bus_Effects.thy ===== *)
theory Bus_Effects
  imports Pipeline_Context
begin

text \<open>
  Effects of the bus: a computation on a state that returns a value or raises an exception of a class the
  handlers of the program tell apart. The state keeps the changes made before an exception.
\<close>

type_synonym ('s, 'a) eff = "'s \<Rightarrow> 's \<times> (pipeline_exn + 'a)"

definition eret :: "'a \<Rightarrow> ('s, 'a) eff" where
  "eret x s = (s, Inr x)"

definition eraise :: "exn_class \<Rightarrow> string \<Rightarrow> ('s, 'a) eff" where
  "eraise c t s = (s, Inl (c, t))"

definition ebind :: "('s, 'a) eff \<Rightarrow> ('a \<Rightarrow> ('s, 'b) eff) \<Rightarrow> ('s, 'b) eff" where
  "ebind m f s = (case m s of (s', Inl e) \<Rightarrow> (s', Inl e) | (s', Inr x) \<Rightarrow> f x s')"

text \<open>\<open>try: m except cs as e: h e\<close>\<close>

definition ehandle :: "(exn_class \<Rightarrow> bool) \<Rightarrow> ('s, 'a) eff \<Rightarrow> (pipeline_exn \<Rightarrow> ('s, 'a) eff) \<Rightarrow> ('s, 'a) eff" where
  "ehandle cs m h s = (case m s of (s', Inl e) \<Rightarrow> if cs (fst e) then h e s' else (s', Inl e) | r \<Rightarrow> r)"

definition emodify :: "('s \<Rightarrow> 's) \<Rightarrow> ('s, unit) eff" where
  "emodify f s = (f s, Inr ())"

definition eget :: "('s \<Rightarrow> 'a) \<Rightarrow> ('s, 'a) eff" where
  "eget f s = (s, Inr (f s))"

lemma eff_simps [simp]:
  "eret x s = (s, Inr x)"
  "eraise c t s = (s, Inl (c, t))"
  "emodify f s = (f s, Inr ())"
  "eget g s = (s, Inr (g s))"
  "m s = (s', Inr x) \<Longrightarrow> ebind m k s = k x s'"
  "m s = (s', Inl e) \<Longrightarrow> ebind m k s = (s', Inl e)"
  "m s = (s', Inr x) \<Longrightarrow> ehandle cs m h s = (s', Inr x)"
  "m s = (s', Inl e) \<Longrightarrow> cs (fst e) \<Longrightarrow> ehandle cs m h s = h e s'"
  "m s = (s', Inl e) \<Longrightarrow> \<not> cs (fst e) \<Longrightarrow> ehandle cs m h s = (s', Inl e)"
  by (simp_all add: eret_def eraise_def emodify_def eget_def ebind_def ehandle_def)

lemma ebind_Inr: "ebind m f s = (s', Inr y) \<longleftrightarrow> (\<exists>x s1. m s = (s1, Inr x) \<and> f x s1 = (s', Inr y))"
  by (auto simp: ebind_def split: prod.splits sum.splits)

lemma ebind_cases:
  "ebind m f s = (s', r) \<longleftrightarrow>
     (\<exists>e. m s = (s', Inl e) \<and> r = Inl e) \<or> (\<exists>x s1. m s = (s1, Inr x) \<and> f x s1 = (s', r))"
  by (auto simp: ebind_def split: prod.splits sum.splits)

lemma ebind_ret [simp]: "ebind (eret x) f = f x" "ebind (eget g) f s = f (g s) s"
  "ebind (emodify h) f' s = f' () (h s)"
  by (simp_all add: ebind_def eret_def eget_def emodify_def fun_eq_iff)

lemma ebind_raise [simp]: "ebind (eraise c t) f = eraise c t"
  by (simp add: ebind_def eraise_def fun_eq_iff)

text \<open>What every outcome of a computation satisfies\<close>

definition always :: "('s, 'a) eff \<Rightarrow> ('s \<Rightarrow> bool) \<Rightarrow> ('s \<Rightarrow> bool) \<Rightarrow> bool" where
  "always m P Q \<longleftrightarrow> (\<forall>s. P s \<longrightarrow> Q (fst (m s)))"

lemma alwaysD: "always m P Q \<Longrightarrow> P s \<Longrightarrow> Q (fst (m s))"
  by (simp add: always_def)

lemma always_simps [simp]:
  "always (eret x) P P" "always (eraise c t) P P" "always (eget g) P P"
  by (simp_all add: always_def)

lemma always_bind: "always m P P \<Longrightarrow> (\<And>x. always (f x) P P) \<Longrightarrow> always (ebind m f) P P"
  by (force simp: always_def ebind_def split: prod.splits sum.splits)

lemma always_handle: "always m P P \<Longrightarrow> (\<And>e. always (h e) P P) \<Longrightarrow> always (ehandle cs m h) P P"
  by (force simp: always_def ehandle_def split: prod.splits sum.splits)

text \<open>\<open>a or b\<close>; and \<open>x or []\<close> for an optional list\<close>

definition truthy_or :: "json \<Rightarrow> json \<Rightarrow> json" where
  "truthy_or a b = (if json_truthy a then a else b)"

definition or_empty :: "'a list option \<Rightarrow> 'a list" where
  "or_empty x = (case x of None \<Rightarrow> [] | Some xs \<Rightarrow> xs)"

definition json_dict_or_empty :: "json \<Rightarrow> json_dict" where
  "json_dict_or_empty j = (case j of JObj d \<Rightarrow> d | _ \<Rightarrow> [])"

text \<open>\<open>p in s\<close> for strings\<close>

fun text_in :: "string \<Rightarrow> string \<Rightarrow> bool" where
  "text_in p [] = (p = [])"
| "text_in p (c # cs) = (take (length p) (c # cs) = p \<or> text_in p cs)"

text \<open>\<open>d.update(e)\<close>\<close>

definition dict_update :: "json_dict \<Rightarrow> json_dict \<Rightarrow> json_dict" where
  "dict_update d e = fold (\<lambda>(k, v). dset k v) e d"

text \<open>\<open>c in v\<close> for a list or a dictionary\<close>

definition json_in :: "json \<Rightarrow> json \<Rightarrow> bool" where
  "json_in c v = (case v of JList xs \<Rightarrow> c \<in> set xs
                    | JObj d \<Rightarrow> (case c of JStr k \<Rightarrow> k \<in> set (dkeys d) | _ \<Rightarrow> False) | _ \<Rightarrow> False)"

text \<open>Whether a value is a string\<close>

definition is_text :: "json \<Rightarrow> bool" where
  "is_text j = (case j of JStr t \<Rightarrow> True | _ \<Rightarrow> False)"

lemma is_text_iff [simp]: "is_text j \<longleftrightarrow> (\<exists>t. j = JStr t)"
  by (auto simp: is_text_def split: json.split)

end
