(* ===== verification/Agent_Registry.thy ===== *)
theory Agent_Registry
  imports Bus_Effects
begin

text \<open>
  \<^verbatim>\<open>src/registry.py\<close>: the two agent registries, in memory and on a Redis hash, the interface they share
  (\<open>AgentRegistry\<close> of \<^verbatim>\<open>src/interfaces.py\<close>) as a record of operations and a locale of their laws, and the
  two routers that read it. The entry of an agent is the dictionary the code stores; an instant in it is
  \<open>JTime\<close>. The Redis client is an argument, and a text in Redis is the document it encodes.
\<close>

section \<open>The interface\<close>

record 's registry_api =
  ra_register :: "rat \<Rightarrow> string \<Rightarrow> string list option \<Rightarrow> json_dict option \<Rightarrow> ('s, bool) eff"
  ra_unregister :: "string \<Rightarrow> ('s, bool) eff"
  ra_get :: "string \<Rightarrow> ('s, json_dict option) eff"
  ra_list_agents :: "('s, string list) eff"
  ra_exists :: "string \<Rightarrow> ('s, bool) eff"
  ra_update_metadata :: "rat \<Rightarrow> string \<Rightarrow> json_dict \<Rightarrow> ('s, bool) eff"
  ra_clear :: "('s, unit) eff"

definition agent_entry :: "rat \<Rightarrow> string \<Rightarrow> json \<Rightarrow> json_dict option \<Rightarrow> json_dict" where
  "agent_entry now aid caps meta =
     [(''agent_id'', JStr aid), (''capabilities'', caps), (''metadata'', JObj (or_empty meta)),
      (''registered_at'', JTime now), (''constitutional_hash'', JStr CONSTITUTIONAL_HASH)]"

definition entry_metadata :: "json_dict \<Rightarrow> json_dict" where
  "entry_metadata d = json_dict_or_empty (dget_default d ''metadata'' (JObj []))"

definition updated_entry :: "rat \<Rightarrow> json_dict \<Rightarrow> json_dict \<Rightarrow> json_dict" where
  "updated_entry now meta d =
     dset ''updated_at'' (JTime now) (dset ''metadata'' (JObj (dict_update (entry_metadata d) meta)) d)"

section \<open>In memory\<close>

type_synonym memory_registry = "(string, json_dict) dict"

definition memory_register ::
  "rat \<Rightarrow> string \<Rightarrow> string list option \<Rightarrow> json_dict option \<Rightarrow> (memory_registry, bool) eff" where
  "memory_register now aid caps meta s =
     (if aid \<in> set (dkeys s) then (s, Inr False)
      else (dset aid (agent_entry now aid (JList (map JStr (or_empty caps))) meta) s, Inr True))"

definition memory_unregister :: "string \<Rightarrow> (memory_registry, bool) eff" where
  "memory_unregister aid s = (if aid \<notin> set (dkeys s) then (s, Inr False) else (ddel aid s, Inr True))"

definition memory_update_metadata :: "rat \<Rightarrow> string \<Rightarrow> json_dict \<Rightarrow> (memory_registry, bool) eff" where
  "memory_update_metadata now aid meta s =
     (case dget s aid of
        None \<Rightarrow> (s, Inr False)
      | Some d \<Rightarrow> (dset aid (updated_entry now meta d) s, Inr True))"

definition memory_agents :: "memory_registry registry_api" where
  "memory_agents =
     \<lparr>ra_register = memory_register, ra_unregister = memory_unregister,
      ra_get = (\<lambda>aid. eget (\<lambda>s. dget s aid)), ra_list_agents = eget dkeys,
      ra_exists = (\<lambda>aid. eget (\<lambda>s. aid \<in> set (dkeys s))),
      ra_update_metadata = memory_update_metadata, ra_clear = emodify (\<lambda>s. [])\<rparr>"

section \<open>On Redis\<close>

text \<open>The commands on the one hash the registry uses\<close>

record 'w redis_hash =
  rh_hsetnx :: "string \<Rightarrow> json_dict \<Rightarrow> ('w, bool) eff"
  rh_hdel :: "string \<Rightarrow> ('w, nat) eff"
  rh_hget :: "string \<Rightarrow> ('w, json_dict option) eff"
  rh_hkeys :: "('w, string list) eff"
  rh_hexists :: "string \<Rightarrow> ('w, bool) eff"
  rh_hset :: "string \<Rightarrow> json_dict \<Rightarrow> ('w, unit) eff"
  rh_delete :: "('w, unit) eff"

text \<open>\<open>caps or {}\<close>: no capabilities are an empty dictionary here.\<close>

definition redis_capabilities :: "string list option \<Rightarrow> json" where
  "redis_capabilities caps = (if or_empty caps = [] then JObj [] else JList (map JStr (or_empty caps)))"

definition redis_register ::
  "'w redis_hash \<Rightarrow> rat \<Rightarrow> string \<Rightarrow> string list option \<Rightarrow> json_dict option \<Rightarrow> ('w, bool) eff" where
  "redis_register c now aid caps meta = rh_hsetnx c aid (agent_entry now aid (redis_capabilities caps) meta)"

definition redis_unregister :: "'w redis_hash \<Rightarrow> string \<Rightarrow> ('w, bool) eff" where
  "redis_unregister c aid = ebind (rh_hdel c aid) (\<lambda>n. eret (n > 0))"

definition redis_update_metadata :: "'w redis_hash \<Rightarrow> rat \<Rightarrow> string \<Rightarrow> json_dict \<Rightarrow> ('w, bool) eff" where
  "redis_update_metadata c now aid meta =
     ebind (rh_hget c aid) (\<lambda>found. case found of
       None \<Rightarrow> eret False
     | Some d \<Rightarrow> ebind (rh_hset c aid (updated_entry now meta d)) (\<lambda>_. eret True))"

definition redis_agents :: "'w redis_hash \<Rightarrow> 'w registry_api" where
  "redis_agents c =
     \<lparr>ra_register = redis_register c, ra_unregister = redis_unregister c, ra_get = rh_hget c,
      ra_list_agents = rh_hkeys c, ra_exists = rh_hexists c,
      ra_update_metadata = redis_update_metadata c, ra_clear = rh_delete c\<rparr>"

section \<open>Routers\<close>

definition string_target :: "json \<Rightarrow> string option" where
  "string_target j = (case j of JStr t \<Rightarrow> if t = [] then None else Some t | _ \<Rightarrow> None)"

text \<open>The tenant of an entry: its own, or that of its metadata, or none\<close>

definition entry_tenant :: "json_dict \<Rightarrow> json" where
  "entry_tenant d =
     truthy_or (truthy_or (dget_default d ''tenant_id'' JNull) (dget_default (entry_metadata d) ''tenant_id'' JNull)) JNull"

definition direct_route :: "'s registry_api \<Rightarrow> agent_message \<Rightarrow> ('s, string option) eff" where
  "direct_route R m =
     (case string_target (am_to_agent m) of
        None \<Rightarrow> eret None
      | Some target \<Rightarrow>
          ebind (ra_get R target) (\<lambda>info. eret
            (case info of
               None \<Rightarrow> None
             | Some d \<Rightarrow> if d = [] \<or> truthy_or (am_tenant_id m) JNull \<noteq> entry_tenant d then None
                         else Some target)))"

definition excluded :: "agent_message \<Rightarrow> string list option \<Rightarrow> string set" where
  "excluded m ex = set (or_empty ex) \<union> (case string_target (am_from_agent m) of None \<Rightarrow> {} | Some a \<Rightarrow> {a})"

definition direct_broadcast :: "'s registry_api \<Rightarrow> agent_message \<Rightarrow> string list option \<Rightarrow> ('s, string list) eff" where
  "direct_broadcast R m ex =
     ebind (ra_list_agents R) (\<lambda>all. eret (filter (\<lambda>a. a \<notin> excluded m ex) all))"

text \<open>The required capabilities: the list of the content; anything that is not a list is none.\<close>

definition required_capabilities :: "agent_message \<Rightarrow> json list" where
  "required_capabilities m =
     (case am_content m of
        JObj d \<Rightarrow> (case dget d ''required_capabilities'' of Some (JList xs) \<Rightarrow> xs | _ \<Rightarrow> [])
      | _ \<Rightarrow> [])"

definition provides :: "json_dict \<Rightarrow> json list \<Rightarrow> bool" where
  "provides d req = list_all (\<lambda>c. json_in c (dget_default d ''capabilities'' (JObj []))) req"

fun find_capable :: "'s registry_api \<Rightarrow> json list \<Rightarrow> string list \<Rightarrow> ('s, string option) eff" where
  "find_capable R req [] = eret None"
| "find_capable R req (a # as) =
     ebind (ra_get R a) (\<lambda>info. case info of
       Some d \<Rightarrow> if d \<noteq> [] \<and> provides d req then eret (Some a) else find_capable R req as
     | None \<Rightarrow> find_capable R req as)"

definition capability_route :: "'s registry_api \<Rightarrow> agent_message \<Rightarrow> ('s, string option) eff" where
  "capability_route R m =
     (let rest = (if required_capabilities m = [] then eret None
                  else ebind (ra_list_agents R) (find_capable R (required_capabilities m)))
      in case am_to_agent m of
           JStr t \<Rightarrow> ebind (ra_exists R t) (\<lambda>there. if there then eret (Some t) else rest)
         | _ \<Rightarrow> rest)"

fun select_capable :: "'s registry_api \<Rightarrow> json list \<Rightarrow> string set \<Rightarrow> string list \<Rightarrow> ('s, string list) eff" where
  "select_capable R req ex [] = eret []"
| "select_capable R req ex (a # as) =
     (if a \<in> ex then select_capable R req ex as
      else ebind (ra_get R a) (\<lambda>info.
        ebind (select_capable R req ex as) (\<lambda>rest.
          eret (case info of
                  Some d \<Rightarrow> if d \<noteq> [] \<and> (req = [] \<or> provides d req) then a # rest else rest
                | None \<Rightarrow> rest))))"

definition capability_broadcast ::
  "'s registry_api \<Rightarrow> agent_message \<Rightarrow> string list option \<Rightarrow> ('s, string list) eff" where
  "capability_broadcast R m ex =
     ebind (ra_list_agents R) (select_capable R (required_capabilities m) (excluded m ex))"

end
