(* ===== verification/Agent_Registry_Laws.thy ===== *)
theory Agent_Registry_Laws
  imports Agent_Registry
begin

text \<open>
  The contract of an agent registry as a locale, what the routers do over any registry that keeps it, its
  interpretation on the registry in memory and on the one on Redis (over a hash that keeps the documented
  behaviour of the commands), and the agreement of any two such registries.
\<close>

section \<open>The contract\<close>

locale agent_registry =
  fixes R :: "'s registry_api"
    and entries :: "'s \<Rightarrow> (string, json_dict) dict"
  assumes register: "\<exists>s' cs. ra_register R now aid caps meta s = (s', Inr (dget (entries s) aid = None)) \<and>
      (\<forall>k. dget (entries s') k = (if k = aid \<and> dget (entries s) aid = None
                                 then Some (agent_entry now aid cs meta) else dget (entries s) k)) \<and>
      (\<forall>c. json_in (JStr c) cs \<longleftrightarrow> c \<in> set (or_empty caps))"
    and unregister: "\<exists>s'. ra_unregister R aid s = (s', Inr (dget (entries s) aid \<noteq> None)) \<and>
      (\<forall>k. dget (entries s') k = (if k = aid then None else dget (entries s) k))"
    and get: "ra_get R aid s = (s, Inr (dget (entries s) aid))"
    and list_agents: "\<exists>xs. ra_list_agents R s = (s, Inr xs) \<and> set xs = set (dkeys (entries s))"
    and exists: "ra_exists R aid s = (s, Inr (dget (entries s) aid \<noteq> None))"
    and update_metadata: "\<exists>s'. ra_update_metadata R now aid changes s = (s', Inr (dget (entries s) aid \<noteq> None)) \<and>
      (\<forall>k. dget (entries s') k = (if k = aid then map_option (updated_entry now changes) (dget (entries s) k)
                                 else dget (entries s) k))"
    and clear: "\<exists>s'. ra_clear R s = (s', Inr ()) \<and> entries s' = []"
begin

lemma direct_route_result:
  "direct_route R m s = (s, Inr
     (case string_target (am_to_agent m) of
        None \<Rightarrow> None
      | Some t \<Rightarrow> (case dget (entries s) t of
          None \<Rightarrow> None
        | Some d \<Rightarrow> if d = [] \<or> truthy_or (am_tenant_id m) JNull \<noteq> entry_tenant d then None else Some t)))"
  by (simp add: direct_route_def get split: option.split)

lemma find_capable_result:
  "\<exists>r. find_capable R req as s = (s, Inr r) \<and>
    (\<forall>a. r = Some a \<longrightarrow> a \<in> set as \<and> (\<exists>d. dget (entries s) a = Some d \<and> provides d req)) \<and>
    (r = None \<longrightarrow> (\<forall>a \<in> set as. \<forall>d. dget (entries s) a = Some d \<longrightarrow> d = [] \<or> \<not> provides d req))"
  by (induction as) (auto simp: get split: option.split)

lemma capability_route_result:
  "\<exists>r. capability_route R m s = (s, Inr r) \<and>
    (\<forall>a. r = Some a \<longrightarrow> (\<exists>d. dget (entries s) a = Some d \<and>
       (am_to_agent m = JStr a \<or> required_capabilities m \<noteq> [] \<and> provides d (required_capabilities m))))"
proof -
  obtain xs where xs: "ra_list_agents R s = (s, Inr xs)" using list_agents by blast
  obtain r where "find_capable R (required_capabilities m) xs s = (s, Inr r)"
    and "\<forall>a. r = Some a \<longrightarrow> (\<exists>d. dget (entries s) a = Some d \<and> provides d (required_capabilities m))"
    using find_capable_result [of "required_capabilities m" xs s] by blast
  with xs show ?thesis
    by (cases "am_to_agent m") (auto simp: capability_route_def exists Let_def)
qed

lemma direct_broadcast_result:
  "\<exists>xs. direct_broadcast R m ex s = (s, Inr xs) \<and> set xs = set (dkeys (entries s)) - excluded m ex"
proof -
  obtain xs where "ra_list_agents R s = (s, Inr xs)" "set xs = set (dkeys (entries s))"
    using list_agents by blast
  then show ?thesis by (auto simp: direct_broadcast_def)
qed

lemma select_capable_result:
  "\<exists>xs. select_capable R req ex as s = (s, Inr xs) \<and>
    set xs = {a \<in> set as - ex. \<exists>d. dget (entries s) a = Some d \<and> d \<noteq> [] \<and> (req = [] \<or> provides d req)}"
proof (induction as)
  case (Cons a as)
  then obtain xs where xs: "select_capable R req ex as s = (s, Inr xs)"
    "set xs = {a \<in> set as - ex. \<exists>d. dget (entries s) a = Some d \<and> d \<noteq> [] \<and> (req = [] \<or> provides d req)}"
    by blast
  show ?case
  proof (cases "a \<in> ex")
    case True
    then show ?thesis using xs by auto
  next
    case False
    have "select_capable R req ex (a # as) s = (s, Inr
        (case dget (entries s) a of
           Some d \<Rightarrow> if d \<noteq> [] \<and> (req = [] \<or> provides d req) then a # xs else xs | None \<Rightarrow> xs))"
      using xs(1) False by (simp add: get)
    then show ?thesis using xs(2) False by (auto split: option.split)
  qed
qed simp

end

section \<open>In memory\<close>

interpretation memory: agent_registry memory_agents "\<lambda>s. s"
proof (unfold_locales, goal_cases)
  case (1 now aid caps meta s)
  have caps: "json_in (JStr c) (JList (map JStr (or_empty caps))) \<longleftrightarrow> c \<in> set (or_empty caps)" for c
    by (auto simp: json_in_def)
  show ?case
  proof (cases "aid \<in> set (dkeys s)")
    case True
    then have "dget s aid \<noteq> None" by (simp add: dget_None_keys)
    then show ?thesis
      using True caps by (intro exI [of _ s] exI) (auto simp: memory_agents_def memory_register_def)
  next
    case False
    then have "dget s aid = None" by (simp add: dget_None_keys)
    then show ?thesis
      using False caps by (intro exI) (auto simp: memory_agents_def memory_register_def dict_simps)
  qed
next
  case (2 aid s)
  have "aid \<in> set (dkeys s) \<longleftrightarrow> dget s aid \<noteq> None" by (simp add: dget_None_keys)
  then show ?case
    by (cases "dget s aid") (auto simp: memory_agents_def memory_unregister_def dict_simps simp del: set_map)
next
  case (6 now aid meta s)
  then show ?case
    by (cases "dget s aid") (auto simp: memory_agents_def memory_update_metadata_def dict_simps)
qed (simp_all add: memory_agents_def dget_None_keys)

section \<open>On Redis\<close>

text \<open>The documented behaviour of the commands of a hash\<close>

locale redis_commands =
  fixes client :: "'w redis_hash"
    and rows :: "'w \<Rightarrow> (string, json_dict) dict"
  assumes hsetnx: "\<exists>w'. rh_hsetnx client k d w = (w', Inr (dget (rows w) k = None)) \<and>
      rows w' = (if dget (rows w) k = None then dset k d (rows w) else rows w)"
    and hdel: "\<exists>w'. rh_hdel client k w = (w', Inr (if dget (rows w) k = None then 0 else 1)) \<and>
      rows w' = ddel k (rows w)"
    and hget: "rh_hget client k w = (w, Inr (dget (rows w) k))"
    and hkeys: "\<exists>ks. rh_hkeys client w = (w, Inr ks) \<and> set ks = set (dkeys (rows w))"
    and hexists: "rh_hexists client k w = (w, Inr (dget (rows w) k \<noteq> None))"
    and hset: "\<exists>w'. rh_hset client k d w = (w', Inr ()) \<and> rows w' = dset k d (rows w)"
    and delete: "\<exists>w'. rh_delete client w = (w', Inr ()) \<and> rows w' = []"

sublocale redis_commands \<subseteq> redis: agent_registry "redis_agents client" rows
proof (unfold_locales, goal_cases)
  case (1 now aid caps meta w)
  have "\<And>c. json_in (JStr c) (redis_capabilities caps) \<longleftrightarrow> c \<in> set (or_empty caps)"
    by (auto simp: redis_capabilities_def json_in_def)
  moreover obtain w' where "rh_hsetnx client aid (agent_entry now aid (redis_capabilities caps) meta) w =
      (w', Inr (dget (rows w) aid = None))"
    "rows w' = (if dget (rows w) aid = None then dset aid (agent_entry now aid (redis_capabilities caps) meta) (rows w)
                else rows w)"
    using hsetnx by blast
  ultimately show ?case
    by (intro exI [of _ w'] exI [of _ "redis_capabilities caps"])
      (simp add: redis_agents_def redis_register_def dict_simps)
next
  case (2 aid w)
  show ?case
    using hdel [of aid w] by (auto simp: redis_agents_def redis_unregister_def dict_simps)
next
  case (6 now aid meta w)
  show ?case
  proof (cases "dget (rows w) aid")
    case None
    then show ?thesis
      by (intro exI [of _ w]) (auto simp: redis_agents_def redis_update_metadata_def hget)
  next
    case (Some d)
    obtain w' where "rh_hset client aid (updated_entry now meta d) w = (w', Inr ())"
      "rows w' = dset aid (updated_entry now meta d) (rows w)"
      using hset by blast
    then show ?thesis
      using Some by (intro exI [of _ w']) (auto simp: redis_agents_def redis_update_metadata_def hget dict_simps)
  qed
next
  case (4 w)
  show ?case using hkeys [of w] by (simp add: redis_agents_def)
qed (simp_all add: redis_agents_def hget hexists delete)

context redis_commands begin

lemma redis_registry: "agent_registry (redis_agents client) rows"
  by (rule redis.agent_registry_axioms)

end

text \<open>A hash that is just its rows\<close>

definition row_client :: "(string, json_dict) dict redis_hash" where
  "row_client =
     \<lparr>rh_hsetnx = (\<lambda>k d w. if dget w k = None then (dset k d w, Inr True) else (w, Inr False)),
      rh_hdel = (\<lambda>k w. (ddel k w, Inr (if dget w k = None then 0 else 1))),
      rh_hget = (\<lambda>k w. (w, Inr (dget w k))), rh_hkeys = (\<lambda>w. (w, Inr (dkeys w))),
      rh_hexists = (\<lambda>k w. (w, Inr (dget w k \<noteq> None))),
      rh_hset = (\<lambda>k d w. (dset k d w, Inr ())), rh_delete = (\<lambda>w. ([], Inr ()))\<rparr>"

interpretation rows: redis_commands row_client "\<lambda>w. w"
  by unfold_locales (simp_all add: row_client_def)

section \<open>Agreement\<close>

text \<open>Two entries that differ at most in how they write the capabilities\<close>

definition same_entry :: "json_dict \<Rightarrow> json_dict \<Rightarrow> bool" where
  "same_entry d d' \<longleftrightarrow> d \<noteq> [] \<and> d' \<noteq> [] \<and> (\<forall>k. k \<noteq> ''capabilities'' \<longrightarrow> dget d k = dget d' k)"

lemma same_entry_tenant: "same_entry d d' \<Longrightarrow> entry_tenant d = entry_tenant d'"
  by (simp add: same_entry_def entry_tenant_def entry_metadata_def dget_default_def)

lemma dset_not_Nil: "dset k v d \<noteq> []"
  by (cases d) auto

lemma same_entry_updated: "same_entry d d' \<Longrightarrow> same_entry (updated_entry now meta d) (updated_entry now meta d')"
  by (simp add: same_entry_def updated_entry_def entry_metadata_def dget_default_def dict_simps dset_not_Nil)

lemma same_entry_new: "same_entry (agent_entry now aid cs meta) (agent_entry now aid cs' meta)"
  by (simp add: same_entry_def agent_entry_def)

definition same_agents :: "(string, json_dict) dict \<Rightarrow> (string, json_dict) dict \<Rightarrow> bool" where
  "same_agents a b \<longleftrightarrow> (\<forall>k. rel_option same_entry (dget a k) (dget b k))"

datatype registry_call =
  CallRegister rat string "string list option" "json_dict option" | CallUnregister string | CallExists string
| CallUpdate rat string json_dict | CallClear | CallRoute agent_message

datatype registry_answer = Truth bool | Done | Routed "string option"

fun answer_call :: "'s registry_api \<Rightarrow> registry_call \<Rightarrow> ('s, registry_answer) eff" where
  "answer_call R (CallRegister now aid caps meta) = ebind (ra_register R now aid caps meta) (\<lambda>b. eret (Truth b))"
| "answer_call R (CallUnregister aid) = ebind (ra_unregister R aid) (\<lambda>b. eret (Truth b))"
| "answer_call R (CallExists aid) = ebind (ra_exists R aid) (\<lambda>b. eret (Truth b))"
| "answer_call R (CallUpdate now aid meta) = ebind (ra_update_metadata R now aid meta) (\<lambda>b. eret (Truth b))"
| "answer_call R CallClear = ebind (ra_clear R) (\<lambda>_. eret Done)"
| "answer_call R (CallRoute m) = ebind (direct_route R m) (\<lambda>t. eret (Routed t))"

fun answer_calls :: "'s registry_api \<Rightarrow> registry_call list \<Rightarrow> ('s, registry_answer list) eff" where
  "answer_calls R [] = eret []"
| "answer_calls R (c # cs) = ebind (answer_call R c) (\<lambda>a. ebind (answer_calls R cs) (\<lambda>as. eret (a # as)))"

locale two_registries = A: agent_registry A ea + B: agent_registry B eb
  for A :: "'a registry_api" and ea and B :: "'b registry_api" and eb
begin

lemma same_answer:
  assumes "same_agents (ea s) (eb t)"
  shows "\<exists>s' t' x. answer_call A c s = (s', Inr x) \<and> answer_call B c t = (t', Inr x) \<and> same_agents (ea s') (eb t')"
proof -
  have none: "dget (ea s) k = None \<longleftrightarrow> dget (eb t) k = None" for k
    using assms by (auto simp: same_agents_def dest: spec [of _ k] split: option.splits)
  show ?thesis
  proof (cases c)
    case (CallRegister now aid caps meta)
    obtain s' cs where s': "ra_register A now aid caps meta s = (s', Inr (dget (ea s) aid = None))"
      "\<forall>k. dget (ea s') k = (if k = aid \<and> dget (ea s) aid = None then Some (agent_entry now aid cs meta) else dget (ea s) k)"
      using A.register [of now aid caps meta s] by blast
    obtain t' ct where t': "ra_register B now aid caps meta t = (t', Inr (dget (eb t) aid = None))"
      "\<forall>k. dget (eb t') k = (if k = aid \<and> dget (eb t) aid = None then Some (agent_entry now aid ct meta) else dget (eb t) k)"
      using B.register [of now aid caps meta t] by blast
    have "same_agents (ea s') (eb t')"
      unfolding same_agents_def
    proof
      fix k
      show "rel_option same_entry (dget (ea s') k) (dget (eb t') k)"
        using s'(2) t'(2) assms none [of aid] same_entry_new unfolding same_agents_def by auto
    qed
    then show ?thesis using s'(1) t'(1) CallRegister none [of aid] by simp
  next
    case (CallUnregister aid)
    then show ?thesis
      using A.unregister [of aid s] B.unregister [of aid t] assms none by (fastforce simp: same_agents_def)
  next
    case (CallExists aid)
    then show ?thesis using assms none by (simp add: A.exists B.exists)
  next
    case (CallUpdate now aid meta)
    obtain s' where s': "ra_update_metadata A now aid meta s = (s', Inr (dget (ea s) aid \<noteq> None))"
      "\<forall>k. dget (ea s') k = (if k = aid then map_option (updated_entry now meta) (dget (ea s) k) else dget (ea s) k)"
      using A.update_metadata [of now aid meta s] by blast
    obtain t' where t': "ra_update_metadata B now aid meta t = (t', Inr (dget (eb t) aid \<noteq> None))"
      "\<forall>k. dget (eb t') k = (if k = aid then map_option (updated_entry now meta) (dget (eb t) k) else dget (eb t) k)"
      using B.update_metadata [of now aid meta t] by blast
    have "same_agents (ea s') (eb t')"
      unfolding same_agents_def
    proof
      fix k
      have "rel_option same_entry (dget (ea s) k) (dget (eb t) k)" using assms by (simp add: same_agents_def)
      then show "rel_option same_entry (dget (ea s') k) (dget (eb t') k)"
        using s'(2) t'(2) same_entry_updated by (auto simp: option.rel_map elim!: option.rel_mono_strong)
    qed
    then show ?thesis using s'(1) t'(1) CallUpdate none [of aid] by simp
  next
    case CallClear
    then show ?thesis
      using A.clear [of s] B.clear [of t] by (fastforce simp: same_agents_def)
  next
    case (CallRoute m)
    have "(case dget (ea s) k of None \<Rightarrow> None
        | Some d \<Rightarrow> if d = [] \<or> v \<noteq> entry_tenant d then None else Some k) =
        (case dget (eb t) k of None \<Rightarrow> None
        | Some d \<Rightarrow> if d = [] \<or> v \<noteq> entry_tenant d then None else Some k)" for k v
    proof -
      have "rel_option same_entry (dget (ea s) k) (dget (eb t) k)" using assms by (simp add: same_agents_def)
      then show ?thesis
        by (cases rule: option.rel_cases) (auto simp: same_entry_tenant same_entry_def)
    qed
    then show ?thesis
      using assms CallRoute by (simp add: A.direct_route_result B.direct_route_result split: option.split)
  qed
qed

lemma same_answers:
  "same_agents (ea s) (eb t) \<Longrightarrow>
   \<exists>s' t' xs. answer_calls A cs s = (s', Inr xs) \<and> answer_calls B cs t = (t', Inr xs) \<and> same_agents (ea s') (eb t')"
proof (induction cs arbitrary: s t)
  case (Cons c cs)
  obtain s1 t1 x where 1: "answer_call A c s = (s1, Inr x)" "answer_call B c t = (t1, Inr x)" "same_agents (ea s1) (eb t1)"
    using same_answer [OF Cons.prems] by blast
  with Cons.IH [OF 1(3)] show ?case by fastforce
qed auto

end

interpretation both: two_registries memory_agents "\<lambda>s. s" "redis_agents row_client" "\<lambda>w. w"
  by unfold_locales

end
