(* ===== verification/Bus_Registry.thy ===== *)
theory Bus_Registry
  imports Agent_Registry_Laws
begin

text \<open>
  \<^verbatim>\<open>src/components/registry_manager.py\<close>, \<^verbatim>\<open>src/security/tenant_validator.py\<close> and \<^verbatim>\<open>src/security_helpers.py\<close>:
  the manager of the agents of a bus, its index by tenant and the checks of tenants. The state of the
  services outside the manager (the registry behind it, the policy client, the MACI registry) is the
  world of the record. A set of the index is a list without repetitions, in the order of insertion; an
  authentication token and a MACI role are strings (the value of the role).
\<close>

section \<open>Tenants\<close>

definition normalize_tenant :: "string option \<Rightarrow> string option" where
  "normalize_tenant tid =
     (case tid of
        None \<Rightarrow> None
      | Some t \<Rightarrow> if py_strip t = [] then None else Some (py_lower (py_strip t)))"

definition tenant_char :: "char \<Rightarrow> bool" where
  "tenant_char c =
     (let n = (of_char c :: nat) in 97 \<le> n \<and> n \<le> 122 \<or> 48 \<le> n \<and> n \<le> 57 \<or> c = CHR ''_'' \<or> c = CHR ''-'')"

text \<open>The dollar of the pattern also matches before a line feed at the end.\<close>

definition valid_tenant_id :: "string \<Rightarrow> bool" where
  "valid_tenant_id t =
     (let u = (if t \<noteq> [] \<and> last t = CHR 0x0A then butlast t else t)
      in 3 \<le> length u \<and> length u \<le> 64 \<and> list_all tenant_char u)"

definition format_tenant_id :: "string option \<Rightarrow> string" where
  "format_tenant_id tid = (case tid of None \<Rightarrow> ''none'' | Some t \<Rightarrow> if t = [] then ''none'' else t)"

section \<open>The manager\<close>

record agent_info =
  ai_agent_id :: string
  ai_agent_type :: string
  ai_capabilities :: "string list"
  ai_tenant_id :: string
  ai_maci_role :: "string option"
  ai_constitutional_hash :: string
  ai_identity :: json_dict
  ai_registered_at :: rat
  ai_updated_at :: rat

record 'w manager =
  rm_agents :: "(string, agent_info) dict"
  rm_by_tenant :: "(string, string list) dict"
  rm_world :: 'w

definition on_world :: "('w, 'a) eff \<Rightarrow> (('w, 'm) manager_scheme, 'a) eff" where
  "on_world m s = (case m (rm_world s) of (w, r) \<Rightarrow> (s\<lparr>rm_world := w\<rparr>, r))"

record 'w manager_services =
  ms_public_key :: "('w, string option) eff option"
  ms_maci_register :: "(string \<Rightarrow> string \<Rightarrow> ('w, unit) eff) option"
  ms_enable_maci :: bool
  ms_backend :: "'w registry_api"

record registration =
  rg_agent_id :: string
  rg_constitutional_hash :: string
  rg_agent_type :: string
  rg_capabilities :: "string list option"
  rg_tenant_id :: "string option"
  rg_maci_role :: "string option"
  rg_auth_token :: "string option"
  rg_identity :: json
  rg_identity_scopes :: json
  rg_identity_metadata :: json

section \<open>Identities\<close>

definition nonempty_strings :: "json list \<Rightarrow> string list" where
  "nonempty_strings xs = concat (map (\<lambda>j. case j of JStr t \<Rightarrow> if t = [] then [] else [t] | _ \<Rightarrow> []) xs)"

definition normalize_identity_scopes :: "string list option \<Rightarrow> json \<Rightarrow> string list" where
  "normalize_identity_scopes caps scopes =
     rev (remdups (rev (filter (\<lambda>c. c \<noteq> []) (or_empty caps) @
       (case scopes of JList xs \<Rightarrow> nonempty_strings xs | _ \<Rightarrow> []))))"

definition identity_keys :: "string list" where
  "identity_keys = [''principal_id'', ''principal_type'', ''tenant_id'', ''auth_method'', ''scopes'',
     ''trust_level'', ''issued_at'', ''expires_at'', ''constitutional_hash'', ''metadata'']"

definition override_identity :: "json \<Rightarrow> json_dict \<Rightarrow> json_dict" where
  "override_identity v identity =
     (case v of
        JObj d \<Rightarrow> fold (\<lambda>k acc. case dget d k of Some x \<Rightarrow> if x = JNull then acc else dset k x acc | None \<Rightarrow> acc)
                   identity_keys identity
      | _ \<Rightarrow> identity)"

definition anonymous :: "json_dict \<Rightarrow> bool" where
  "anonymous identity = (case dget identity ''principal_id'' of Some (JStr p) \<Rightarrow> py_strip p = [] | _ \<Rightarrow> True)"

definition build_agent_identity ::
  "rat \<Rightarrow> string \<Rightarrow> string \<Rightarrow> string \<Rightarrow> string list option \<Rightarrow> registration \<Rightarrow> json_dict" where
  "build_agent_identity now aid tid h caps g =
     (let base = [(''principal_id'', JStr aid), (''principal_type'', JStr ''agent''), (''tenant_id'', JStr tid),
            (''auth_method'', JStr (if truthy_str (rg_auth_token g) then ''token'' else ''internal'')),
            (''scopes'', JList (map JStr (normalize_identity_scopes caps (rg_identity_scopes g)))),
            (''trust_level'', JStr ''standard''), (''issued_at'', JTime now), (''expires_at'', JNull),
            (''constitutional_hash'', JStr h), (''metadata'', JObj (json_dict_or_empty (rg_identity_metadata g)))];
          identity = override_identity (rg_identity g) base
      in if anonymous identity then dset ''principal_id'' (JStr aid) identity else identity)"

section \<open>Registration\<close>

definition sync_hash :: "'w manager_services \<Rightarrow> string \<Rightarrow> (('w, 'm) manager_scheme, string) eff" where
  "sync_hash sv h =
     (case ms_public_key sv of
        None \<Rightarrow> eret h
      | Some key \<Rightarrow>
          ehandle (\<lambda>c. c \<in> {TimeoutErr, RuntimeErr, ValueErr})
            (ebind (on_world key) (\<lambda>k. eret (if truthy_str k then the k else h))) (\<lambda>_. eret h))"

text \<open>\<open>_resolve_token_claims\<close> with \<open>_validate_agent_identity\<close>: every token is accepted.\<close>

definition resolve_token_claims ::
  "string option \<Rightarrow> string list option \<Rightarrow> string option \<Rightarrow> string option \<times> string list option" where
  "resolve_token_claims tid caps token =
     (if truthy_str token
      then (Some (if CHR ''.'' \<in> set (the token) then the token else ''default''), Some [])
      else (tid, caps))"

definition add_to_index :: "string \<Rightarrow> string \<Rightarrow> (string, string list) dict \<Rightarrow> (string, string list) dict" where
  "add_to_index tid aid idx =
     (let xs = dget_default idx tid [] in dset tid (if aid \<in> set xs then xs else xs @ [aid]) idx)"

definition drop_from_index :: "string \<Rightarrow> string \<Rightarrow> (string, string list) dict \<Rightarrow> (string, string list) dict" where
  "drop_from_index tid aid idx =
     (case dget idx tid of
        None \<Rightarrow> idx
      | Some xs \<Rightarrow> if removeAll aid xs = [] then ddel tid idx else dset tid (removeAll aid xs) idx)"

definition store_local_agent :: "agent_info \<Rightarrow> ('w, 'm) manager_scheme \<Rightarrow> ('w, 'm) manager_scheme" where
  "store_local_agent i s =
     s\<lparr>rm_agents := dset (ai_agent_id i) i (rm_agents s),
       rm_by_tenant := add_to_index (ai_tenant_id i) (ai_agent_id i) (rm_by_tenant s)\<rparr>"

definition register_maci_role ::
  "'w manager_services \<Rightarrow> string \<Rightarrow> string option \<Rightarrow> (('w, 'm) manager_scheme, bool) eff" where
  "register_maci_role sv aid role =
     (case ms_maci_register sv of
        Some register \<Rightarrow>
          if ms_enable_maci sv \<and> truthy_str role
          then ehandle (\<lambda>c. c \<in> {TimeoutErr, RuntimeErr, ValueErr})
                 (ebind (on_world (register aid (the role))) (\<lambda>_. eret True)) (\<lambda>_. eret False)
          else eret True
      | None \<Rightarrow> eret True)"

definition rollback_local_registration ::
  "string \<Rightarrow> string \<Rightarrow> bool \<Rightarrow> ('w, 'm) manager_scheme \<Rightarrow> ('w, 'm) manager_scheme" where
  "rollback_local_registration aid tid existing s =
     (if existing then s
      else s\<lparr>rm_agents := ddel aid (rm_agents s), rm_by_tenant := drop_from_index tid aid (rm_by_tenant s)\<rparr>)"

definition backend_metadata :: "agent_info \<Rightarrow> json_dict" where
  "backend_metadata i =
     [(''type'', JStr (ai_agent_type i)), (''tenant_id'', JStr (ai_tenant_id i)),
      (''identity'', JObj (ai_identity i)), (''constitutional_hash'', JStr (ai_constitutional_hash i))]"

definition new_agent_info :: "rat \<Rightarrow> string \<Rightarrow> registration \<Rightarrow> agent_info" where
  "new_agent_info now h g =
     (let (tid, caps) = resolve_token_claims (rg_tenant_id g) (rg_capabilities g) (rg_auth_token g);
          t = (case normalize_tenant tid of None \<Rightarrow> ''default'' | Some t \<Rightarrow> t)
      in \<lparr>ai_agent_id = rg_agent_id g, ai_agent_type = rg_agent_type g, ai_capabilities = or_empty caps,
          ai_tenant_id = t, ai_maci_role = rg_maci_role g, ai_constitutional_hash = h,
          ai_identity = build_agent_identity now (rg_agent_id g) t h caps g,
          ai_registered_at = now, ai_updated_at = now\<rparr>)"

definition backend_capabilities :: "registration \<Rightarrow> string list option" where
  "backend_capabilities g = snd (resolve_token_claims (rg_tenant_id g) (rg_capabilities g) (rg_auth_token g))"

definition store_and_register ::
  "'w manager_services \<Rightarrow> rat \<Rightarrow> registration \<Rightarrow> agent_info \<Rightarrow> bool \<Rightarrow> (('w, 'm) manager_scheme, bool) eff" where
  "store_and_register sv now g i existing =
     ebind (emodify (store_local_agent i)) (\<lambda>_.
     ebind (register_maci_role sv (ai_agent_id i) (rg_maci_role g)) (\<lambda>ok.
       let rollback = ebind (emodify (rollback_local_registration (ai_agent_id i) (ai_tenant_id i) existing))
                        (\<lambda>_. eret False)
       in if \<not> ok then rollback
          else ebind (on_world (ra_register (ms_backend sv) now (ai_agent_id i) (backend_capabilities g)
                                  (Some (backend_metadata i))))
                 (\<lambda>success. if success then eret True else rollback)))"

definition register_bus_agent ::
  "'w manager_services \<Rightarrow> rat \<Rightarrow> registration \<Rightarrow> (('w, 'm) manager_scheme, bool) eff" where
  "register_bus_agent sv now g =
     (if py_strip (rg_agent_id g) = [] then eret False
      else ebind (sync_hash sv (rg_constitutional_hash g)) (\<lambda>h.
           ebind (eget (\<lambda>s. rg_agent_id g \<in> set (dkeys (rm_agents s)))) (\<lambda>existing.
             store_and_register sv now g (new_agent_info now h g) existing)))"

definition unregister_bus_agent :: "'w manager_services \<Rightarrow> string \<Rightarrow> (('w, 'm) manager_scheme, bool) eff" where
  "unregister_bus_agent sv aid =
     ebind (emodify (\<lambda>s. case dget (rm_agents s) aid of
        None \<Rightarrow> s
      | Some i \<Rightarrow> s\<lparr>rm_agents := ddel aid (rm_agents s),
                     rm_by_tenant := (if ai_tenant_id i = [] then rm_by_tenant s
                                      else drop_from_index (ai_tenant_id i) aid (rm_by_tenant s))\<rparr>))
       (\<lambda>_. on_world (ra_unregister (ms_backend sv) aid))"

section \<open>Lookups\<close>

definition get_bus_agent :: "string \<Rightarrow> string \<Rightarrow> ('w, 'm) manager_scheme \<Rightarrow> agent_info option" where
  "get_bus_agent aid h s =
     map_option (\<lambda>i. i\<lparr>ai_constitutional_hash := h,
                       ai_identity := dset ''constitutional_hash'' (JStr h) (ai_identity i)\<rparr>) (dget (rm_agents s) aid)"

definition get_registered_agents :: "('w, 'm) manager_scheme \<Rightarrow> string list" where
  "get_registered_agents s = dkeys (rm_agents s)"

definition get_agents_by_type :: "string \<Rightarrow> ('w, 'm) manager_scheme \<Rightarrow> string list" where
  "get_agents_by_type ty s = dkeys (filter (\<lambda>(_, i). ai_agent_type i = ty) (rm_agents s))"

definition get_agents_by_capability :: "string \<Rightarrow> ('w, 'm) manager_scheme \<Rightarrow> string list" where
  "get_agents_by_capability c s = dkeys (filter (\<lambda>(_, i). c \<in> set (ai_capabilities i)) (rm_agents s))"

definition get_agents_by_tenant :: "string option \<Rightarrow> ('w, 'm) manager_scheme \<Rightarrow> string list" where
  "get_agents_by_tenant tid s =
     (if \<not> truthy_str tid \<or> tid = Some ''none'' then dkeys (rm_agents s)
      else dget_default (rm_by_tenant s) (the tid) [])"

text \<open>\<open>validate_tenant_consistency\<close>: the errors of the sender and of the recipient, where they are registered\<close>

definition tenant_mismatch :: "string \<Rightarrow> string option \<Rightarrow> string option \<Rightarrow> string list" where
  "tenant_mismatch who message_tenant agent_tenant =
     (if agent_tenant = message_tenant then []
      else [''Tenant mismatch: message tenant_id '' @ quoted (format_tenant_id message_tenant) @
            '' does not match '' @ who @ '' tenant_id '' @ quoted (format_tenant_id agent_tenant)])"

definition validate_tenant_consistency ::
  "(string, agent_info) dict \<Rightarrow> json \<Rightarrow> json \<Rightarrow> string option \<Rightarrow> string list" where
  "validate_tenant_consistency agents sender recipient message_tenant =
     (let t = normalize_tenant message_tenant;
          check = (\<lambda>who a. case a of
             JStr x \<Rightarrow> (case dget agents x of
                None \<Rightarrow> []
              | Some i \<Rightarrow> tenant_mismatch who t (normalize_tenant (Some (ai_tenant_id i))))
           | _ \<Rightarrow> [])
      in check ''sender'' sender @ (if json_truthy recipient then check ''recipient'' recipient else []))"

end
