(* ===== verification/Agent_Bus.thy ===== *)
theory Agent_Bus
  imports Bus_Registry
begin

text \<open>
  \<^verbatim>\<open>src/bus/core.py\<close>, \<^verbatim>\<open>src/bus/validation.py\<close>, \<^verbatim>\<open>src/bus/messaging.py\<close>, \<^verbatim>\<open>src/bus/governance.py\<close>,
  \<^verbatim>\<open>src/components/governance.py\<close> and \<^verbatim>\<open>src/components/router.py\<close>: sending a message through the bus. The
  message processor, the router, the rate limiter with its quotas, the engine of adaptive governance, the
  dynamic context and the Kafka bus are arguments (\<open>None\<close> where there is none); they work on the world and
  may raise. The message is changed on the way (its tenant, its metadata, by the processor), so a step
  returns it. The
  feedback to the governance engine, given in the background, is left out.
\<close>

section \<open>The state\<close>

record 'w bus = "'w manager" +
  bs_running :: bool
  bs_hash :: string
  bs_sent :: int
  bs_received :: int
  bs_failed :: int
  bs_messages_sent :: int
  bs_messages_received :: int
  bs_messages_failed :: int
  bs_queue :: "agent_message list"
  bs_inflight :: "string list"

record 'w bus_parts =
  bp_manager :: "'w manager_services"
  bp_allow_unstarted :: bool
  bp_rate_limit :: "(string \<Rightarrow> ('w, bool \<times> string) eff) option"
  bp_dynamic_context :: "(agent_message \<Rightarrow> ('w, json \<times> json) eff) option"
  bp_governance :: "(agent_message \<Rightarrow> ('w, bool \<times> string) eff) option"
  bp_policy_key :: "('w, string option) eff option"
  bp_process :: "(agent_message \<times> 'w, validation_result) eff"
  bp_route :: "agent_message \<Rightarrow> ('w, string option) eff"
  bp_kafka :: "(agent_message \<Rightarrow> ('w, bool) eff) option"
  bp_text :: "json \<Rightarrow> string"

definition record_metrics_failure :: "'w bus \<Rightarrow> 'w bus" where
  "record_metrics_failure b = b\<lparr>bs_messages_failed := bs_messages_failed b + 1, bs_failed := bs_failed b + 1\<rparr>"

definition record_metrics_success :: "'w bus \<Rightarrow> 'w bus" where
  "record_metrics_success b = b\<lparr>bs_sent := bs_sent b + 1, bs_messages_sent := bs_messages_sent b + 1\<rparr>"

definition count_sent :: "'w bus \<Rightarrow> 'w bus" where
  "count_sent b = b\<lparr>bs_sent := bs_sent b + 1\<rparr>"

section \<open>Checks of a message\<close>

text \<open>Each check is \<open>None\<close> where it passes, and the failed result where it does not.\<close>

definition shape_errors :: "rat \<Rightarrow> agent_message \<Rightarrow> string list" where
  "shape_errors now m =
     (if json_truthy (am_from_agent m) then [] else [''Message from_agent is required'']) @
     (if json_truthy (am_to_agent m) then [] else [''Message to_agent is required'']) @
     (case am_content m of
        JObj d \<Rightarrow> if d = [] then [''Message content must be a non-empty dictionary''] else []
      | _ \<Rightarrow> [''Message content must be a non-empty dictionary'']) @
     (case am_expires_at m of None \<Rightarrow> [] | Some t \<Rightarrow> if t \<le> now then [''Message has expired''] else [])"

definition add_errors :: "string list \<Rightarrow> validation_result \<Rightarrow> validation_result" where
  "add_errors es r = fold add_error es r"

definition validate_message_shape ::
  "rat \<Rightarrow> agent_message \<Rightarrow> ('w bus, validation_result option) eff" where
  "validate_message_shape now m =
     (if shape_errors now m = [] then eret None
      else ebind (emodify record_metrics_failure) (\<lambda>_. eret (Some (add_errors (shape_errors now m) new_result))))"

text \<open>The error text slices the hash: a value that cannot be sliced raises.\<close>

definition validate_hash_for_message :: "agent_message \<Rightarrow> ('w bus, validation_result option) eff" where
  "validate_hash_for_message m =
     ebind (eget bs_hash) (\<lambda>h.
       if am_constitutional_hash m = JStr h then eret None
       else case am_constitutional_hash m of
          JStr _ \<Rightarrow> ebind (emodify (count_sent \<circ> record_metrics_failure))
                     (\<lambda>_. eret (Some (add_error ''Constitutional hash mismatch'' new_result)))
        | JList _ \<Rightarrow> ebind (emodify (count_sent \<circ> record_metrics_failure))
                     (\<lambda>_. eret (Some (add_error ''Constitutional hash mismatch'' new_result)))
        | _ \<Rightarrow> eraise TypeErr ''object is not subscriptable'')"

definition message_tenant :: "agent_message \<Rightarrow> string" where
  "message_tenant m =
     (case am_tenant_id m of
        JStr t \<Rightarrow> (case normalize_tenant (Some t) of None \<Rightarrow> ''default'' | Some u \<Rightarrow> u)
      | _ \<Rightarrow> ''default'')"

definition with_tenant :: "agent_message \<Rightarrow> agent_message" where
  "with_tenant m = m\<lparr>am_tenant_id := JStr (message_tenant m)\<rparr>"

definition validate_and_normalize_tenant ::
  "agent_message \<Rightarrow> ('w bus, validation_result option) eff" where
  "validate_and_normalize_tenant m =
     (if am_tenant_id m \<noteq> JNull \<and> \<not> is_text (am_tenant_id m)
      then eraise AttributeErr ''object has no attribute strip''
      else if \<not> valid_tenant_id (message_tenant m)
      then ebind (emodify (count_sent \<circ> record_metrics_failure))
             (\<lambda>_. eret (Some (add_error (''Invalid tenant_id format: '' @ message_tenant m) new_result)))
      else ebind (eget (\<lambda>b. validate_tenant_consistency (rm_agents b) (am_from_agent m) (am_to_agent m)
                              (Some (message_tenant m)))) (\<lambda>es.
             if es = [] then eret None
             else ebind (emodify record_metrics_failure) (\<lambda>_. eret (Some (add_errors es new_result)))))"

definition apply_rate_limit :: "'w bus_parts \<Rightarrow> agent_message \<Rightarrow> ('w bus, validation_result option) eff" where
  "apply_rate_limit P m =
     (case bp_rate_limit P of
        None \<Rightarrow> eret None
      | Some limiter \<Rightarrow>
          let key = (if json_truthy (am_tenant_id m) then ''bus:tenant:'' @ bp_text P (am_tenant_id m) else ''bus:global'')
          in ebind (on_world (limiter key)) (\<lambda>(allowed, retry_after).
               eret (if allowed then None
                     else Some (add_error (''Rate limit exceeded for '' @ key @ ''. Retry after '' @ retry_after @ ''s'')
                                  new_result))))"

text \<open>No failure of the dynamic context ever blocks; its metadata is written where there is a dictionary.\<close>

definition add_dynamic_context :: "'w bus_parts \<Rightarrow> agent_message \<Rightarrow> ('w bus, agent_message) eff" where
  "add_dynamic_context P m =
     (case bp_dynamic_context P of
        None \<Rightarrow> eret m
      | Some build \<Rightarrow>
          ehandle (\<lambda>_. True)
            (ebind (on_world (build m)) (\<lambda>(context, h). case am_metadata m of
               JObj d \<Rightarrow> eret (m\<lparr>am_metadata := JObj (dset ''dynamic_context_hash'' h (dset ''dynamic_context'' context d))\<rparr>)
             | _ \<Rightarrow> eret m)) (\<lambda>_. eret m))"

definition governance_caught :: "exn_class \<Rightarrow> bool" where
  "governance_caught c =
     (c \<in> {RuntimeErr, ValueErr, TypeErr, AttributeErr, KeyErr, OSErr, TimeoutErr, ConnectionErr})"

definition evaluate_adaptive_governance :: "'w bus_parts \<Rightarrow> agent_message \<Rightarrow> ('w bus, bool \<times> string) eff" where
  "evaluate_adaptive_governance P m =
     (case bp_governance P of
        None \<Rightarrow> eret (True, ''Adaptive governance not available'')
      | Some evaluate \<Rightarrow>
          ehandle governance_caught (on_world (evaluate m))
            (\<lambda>e. eret (False, ''Governance evaluation failed: '' @ snd e)))"

section \<open>Decision and delivery\<close>

definition claims_prevalidation :: "agent_message \<Rightarrow> bool" where
  "claims_prevalidation m =
     (let d = json_dict_or_empty (am_metadata m)
      in list_ex (\<lambda>k. json_truthy (dget_default d k JNull))
           [''prevalidated'', ''prevalidated_result'', ''validated_by_agent'', ''independent_validator_id''])"

definition degraded_result :: "agent_message \<Rightarrow> string \<Rightarrow> validation_result" where
  "degraded_result m reason =
     (let meta = [(''governance_mode'', JStr ''DEGRADED''), (''fallback_reason'', JStr reason)]
      in if claims_prevalidation m
         then new_result\<lparr>vr_metadata := meta, vr_decision := ''ALLOW'', vr_status := MSG_VALIDATED\<rparr>
         else new_result\<lparr>vr_is_valid := False,
                vr_errors := [''Processor fallback denied: message lacks explicit prevalidation''],
                vr_metadata := meta, vr_decision := ''DENY'', vr_status := MSG_FAILED\<rparr>)"

text \<open>The processor may change the message it is given (its status, its session), also when it raises.\<close>

definition process_message_with_fallback ::
  "'w bus_parts \<Rightarrow> agent_message \<Rightarrow> ('w bus, agent_message \<times> validation_result) eff" where
  "process_message_with_fallback P m b =
     (case bp_process P (m, rm_world b) of
        ((m', w), Inr r) \<Rightarrow> (b\<lparr>rm_world := w\<rparr>, Inr (m', r))
      | ((m', w), Inl e) \<Rightarrow> (b\<lparr>rm_world := w\<rparr>, Inr (m', degraded_result m' (snd e))))"

definition delivery_caught :: "exn_class \<Rightarrow> bool" where
  "delivery_caught c = (c \<in> {RuntimeErr, ValueErr, TypeErr, KeyErr, AttributeErr, ConnectionErr, TimeoutErr, OSErr})"

definition deliver :: "'w bus_parts \<Rightarrow> agent_message \<Rightarrow> ('w bus, bool) eff" where
  "deliver P m = (case bp_kafka P of None \<Rightarrow> eret True | Some send \<Rightarrow> on_world (send m))"

text \<open>What the router answers is not looked at.\<close>

definition route_and_deliver :: "'w bus_parts \<Rightarrow> agent_message \<Rightarrow> ('w bus, bool) eff" where
  "route_and_deliver P m =
     ebind (on_world (bp_route P m)) (\<lambda>_.
     ebind (ehandle delivery_caught (deliver P m) (\<lambda>_. eret False)) (\<lambda>success.
       if success \<and> bp_kafka P = None
       then ebind (emodify (\<lambda>b. b\<lparr>bs_queue := bs_queue b @ [m]\<rparr>)) (\<lambda>_. eret True)
       else eret success))"

definition finalize_message_delivery ::
  "'w bus_parts \<Rightarrow> agent_message \<Rightarrow> validation_result \<Rightarrow> ('w bus, bool) eff" where
  "finalize_message_delivery P m r =
     (if vr_is_valid r
      then ebind (route_and_deliver P m) (\<lambda>success.
             ebind (emodify (if success then record_metrics_success else record_metrics_failure)) (\<lambda>_. eret success))
      else ebind (emodify record_metrics_failure) (\<lambda>_. eret False))"

section \<open>Sending\<close>

definition is_test_mode_message :: "'w bus_parts \<Rightarrow> agent_message \<Rightarrow> bool" where
  "is_test_mode_message P m =
     (text_in ''fail'' (py_lower (bp_text P (am_content m))) \<or>
      text_in ''invalid'' (py_lower (bp_text P (am_constitutional_hash m))) \<or>
      text_in ''test-agent'' (bp_text P (am_from_agent m)))"

definition check_running :: "'w bus_parts \<Rightarrow> agent_message \<Rightarrow> ('w bus, validation_result option) eff" where
  "check_running P m =
     ebind (eget bs_running) (\<lambda>running.
       if running then eret None
       else if bp_allow_unstarted P \<or> is_test_mode_message P m
       then ebind (emodify count_sent) (\<lambda>_. eret None)
       else ebind (emodify record_metrics_failure)
              (\<lambda>_. eret (Some (add_error ''Agent bus is not started'' new_result))))"

text \<open>\<open>if not check: return result\<close>\<close>

definition guarded ::
  "('w bus, validation_result option) eff \<Rightarrow> ('w bus, validation_result) eff \<Rightarrow> ('w bus, validation_result) eff" where
  "guarded check rest = ebind check (\<lambda>failure. case failure of Some r \<Rightarrow> eret r | None \<Rightarrow> rest)"

definition blocked_result :: "string \<Rightarrow> validation_result" where
  "blocked_result reasoning =
     new_result\<lparr>vr_is_valid := False, vr_errors := [''Governance policy violation: '' @ reasoning],
       vr_metadata := [(''governance_mode'', JStr ''ADAPTIVE''), (''blocked_reason'', JStr reasoning)]\<rparr>"

definition govern_and_deliver :: "'w bus_parts \<Rightarrow> agent_message \<Rightarrow> ('w bus, validation_result) eff" where
  "govern_and_deliver P m =
     ebind (evaluate_adaptive_governance P m) (\<lambda>(allowed, reasoning).
       if \<not> allowed then ebind (emodify record_metrics_failure) (\<lambda>_. eret (blocked_result reasoning))
       else ebind (process_message_with_fallback P m) (\<lambda>(m', r).
            ebind (finalize_message_delivery P m' r) (\<lambda>_. eret r)))"

definition send_message_once :: "'w bus_parts \<Rightarrow> rat \<Rightarrow> agent_message \<Rightarrow> ('w bus, validation_result) eff" where
  "send_message_once P now m =
     guarded (check_running P m)
    (guarded (validate_message_shape now m)
    (guarded (validate_hash_for_message m)
    (guarded (validate_and_normalize_tenant m)
    (guarded (apply_rate_limit P (with_tenant m))
       (ebind (add_dynamic_context P (with_tenant m)) (govern_and_deliver P))))))"

section \<open>Idempotency\<close>

text \<open>The key of a message: of its headers, or of its metadata; messages have no such field of their own.\<close>

definition nonempty_str :: "json \<Rightarrow> string option" where
  "nonempty_str j = (case j of JStr t \<Rightarrow> if t = [] then None else Some t | _ \<Rightarrow> None)"

definition resolve_idempotency_key :: "agent_message \<Rightarrow> string option" where
  "resolve_idempotency_key m =
     (let header = (case am_headers m of
             JObj d \<Rightarrow> nonempty_str (truthy_or (dget_default d ''idempotency_key'' JNull)
                                             (dget_default d ''Idempotency-Key'' JNull))
           | _ \<Rightarrow> None)
      in case header of
           Some k \<Rightarrow> Some k
         | None \<Rightarrow> nonempty_str (dget_default (json_dict_or_empty (am_metadata m)) ''idempotency_key'' JNull))"

text \<open>
  A call with a key either starts a flow of its own or joins the one in flight under the key; the flow
  leaves the table when it has returned or raised.
\<close>

definition begin_send :: "agent_message \<Rightarrow> 'w bus \<Rightarrow> 'w bus \<times> bool" where
  "begin_send m b =
     (case resolve_idempotency_key m of
        None \<Rightarrow> (b, True)
      | Some k \<Rightarrow> if k \<in> set (bs_inflight b) then (b, False) else (b\<lparr>bs_inflight := bs_inflight b @ [k]\<rparr>, True))"

definition end_send :: "agent_message \<Rightarrow> 'w bus \<Rightarrow> 'w bus" where
  "end_send m b =
     (case resolve_idempotency_key m of
        None \<Rightarrow> b | Some k \<Rightarrow> b\<lparr>bs_inflight := removeAll k (bs_inflight b)\<rparr>)"

text \<open>A call that runs alone\<close>

definition send_message :: "'w bus_parts \<Rightarrow> rat \<Rightarrow> agent_message \<Rightarrow> ('w bus, validation_result) eff" where
  "send_message P now m b =
     (case send_message_once P now m (fst (begin_send m b)) of (b', r) \<Rightarrow> (end_send m b', r))"

section \<open>Broadcast, reception, deliberation\<close>

text \<open>\<open>fresh n\<close> is the \<open>n\<close>th new message, with its identifier and times; \<open>now\<close> the clock of its sending.\<close>

definition broadcast_copy :: "agent_message \<Rightarrow> string \<Rightarrow> agent_message \<Rightarrow> agent_message" where
  "broadcast_copy m aid f =
     f\<lparr>am_from_agent := am_from_agent m, am_message_type := am_message_type m, am_content := am_content m,
       am_to_agent := JStr aid, am_tenant_id := am_tenant_id m,
       am_constitutional_hash := am_constitutional_hash m\<rparr>"

fun broadcast_to ::
  "'w bus_parts \<Rightarrow> (nat \<Rightarrow> agent_message) \<Rightarrow> (nat \<Rightarrow> rat) \<Rightarrow> agent_message \<Rightarrow> nat \<Rightarrow> string list \<Rightarrow>
   ('w bus, (string, validation_result) dict) eff" where
  "broadcast_to P fresh now m n [] = eret []"
| "broadcast_to P fresh now m n (a # as) =
     (if JStr a = am_from_agent m then broadcast_to P fresh now m n as
      else ebind (send_message P (now n) (broadcast_copy m a (fresh n))) (\<lambda>r.
             ebind (broadcast_to P fresh now m (n + 1) as) (\<lambda>rest.
               eret (if vr_is_valid r then (a, r) # rest else rest))))"

definition json_tenant :: "agent_message \<Rightarrow> string option" where
  "json_tenant m = (case am_tenant_id m of JStr t \<Rightarrow> Some t | _ \<Rightarrow> None)"

definition normalized_copy :: "agent_message \<Rightarrow> agent_message" where
  "normalized_copy m =
     (case normalize_tenant (json_tenant m) of None \<Rightarrow> m | Some t \<Rightarrow> m\<lparr>am_tenant_id := JStr t\<rparr>)"

definition broadcast_message ::
  "'w bus_parts \<Rightarrow> (nat \<Rightarrow> agent_message) \<Rightarrow> (nat \<Rightarrow> rat) \<Rightarrow> agent_message \<Rightarrow>
   ('w bus, (string, validation_result) dict) eff" where
  "broadcast_message P fresh now m =
     ebind (eget (get_agents_by_tenant (json_tenant (normalized_copy m))))
       (broadcast_to P fresh now (normalized_copy m) 0)"

definition receive_message :: "'w bus \<Rightarrow> 'w bus \<times> agent_message option" where
  "receive_message b =
     (case bs_queue b of
        [] \<Rightarrow> (b, None)
      | m # ms \<Rightarrow> (b\<lparr>bs_queue := ms, bs_received := bs_received b + 1,
                     bs_messages_received := bs_messages_received b + 1\<rparr>, Some m))"

definition requires_deliberation :: "agent_message \<Rightarrow> bool" where
  "requires_deliberation m = (case py_num (am_impact_score m) of None \<Rightarrow> False | Some x \<Rightarrow> 4 / 5 \<le> x)"

section \<open>Starting and stopping\<close>

text \<open>The hash of the policy client replaces that of the bus where a dynamic policy is used.\<close>

definition start_bus :: "'w bus_parts \<Rightarrow> ('w bus, unit) eff" where
  "start_bus P =
     ebind (emodify (\<lambda>b. b\<lparr>bs_running := True\<rparr>)) (\<lambda>_.
       case bp_policy_key P of
         None \<Rightarrow> eret ()
       | Some key \<Rightarrow>
           ehandle governance_caught
             (ebind (on_world key) (\<lambda>k. emodify (\<lambda>b. if truthy_str k then b\<lparr>bs_hash := the k\<rparr> else b)))
             (\<lambda>_. eret ()))"

definition stop_bus :: "'w bus \<Rightarrow> 'w bus" where
  "stop_bus b = b\<lparr>bs_running := False\<rparr>"

definition new_bus :: "'w \<Rightarrow> 'w bus" where
  "new_bus w =
     \<lparr>rm_agents = [], rm_by_tenant = [], rm_world = w, bs_running = False, bs_hash = CONSTITUTIONAL_HASH,
      bs_sent = 0, bs_received = 0, bs_failed = 0, bs_messages_sent = 0, bs_messages_received = 0,
      bs_messages_failed = 0, bs_queue = [], bs_inflight = []\<rparr>"

end
