(* ===== verification/Bus_Theorems.thy ===== *)
theory Bus_Theorems
  imports Agent_Bus
begin

text \<open>
  Lemmas on the bus: normalised tenants are fixed points, what passing each check of a message means, the
  frame of every step (which parts of the bus it leaves alone), and the index of the agents by tenant.
\<close>

section \<open>Tenants\<close>

lemma py_isspace_lower [simp]: "py_isspace (lower_char c) = py_isspace c"
  by (auto simp: py_isspace_def lower_char_def Let_def)

lemma lower_lower [simp]: "lower_char (lower_char c) = lower_char c"
  by (auto simp: lower_char_def Let_def)

lemma py_strip_lower: "py_strip (py_lower t) = py_lower (py_strip t)"
  by (simp add: py_strip_def py_lower_def dropWhile_map rev_map comp_def)

lemma py_lower_lower [simp]: "py_lower (py_lower t) = py_lower t" "py_lower t = [] \<longleftrightarrow> t = []"
  by (simp_all add: py_lower_def)

lemma dropWhile_twice: "dropWhile p (dropWhile p xs) = dropWhile p xs"
  by (induction xs) auto

lemma dropWhile_rev_dropWhile:
  "dropWhile p (rev (dropWhile p (rev (dropWhile p xs)))) = rev (dropWhile p (rev (dropWhile p xs)))"
proof (cases "dropWhile p xs")
  case (Cons x ys)
  then have "\<not> p x" by (metis dropWhile_eq_Cons_conv)
  then have "dropWhile p (rev (dropWhile p xs)) = dropWhile p (rev ys) @ [x]"
    using Cons by (auto simp: dropWhile_append dropWhile_eq_Nil_conv)
  then show ?thesis using \<open>\<not> p x\<close> by simp
next
  case Nil
  then show ?thesis by (simp only: rev.simps dropWhile.simps)
qed

lemma py_strip_twice [simp]: "py_strip (py_strip t) = py_strip t"
  by (simp add: py_strip_def dropWhile_rev_dropWhile dropWhile_twice)

lemma normalize_tenant_twice: "normalize_tenant t = Some u \<Longrightarrow> normalize_tenant (Some u) = Some u"
  by (auto simp: normalize_tenant_def py_strip_lower py_lower_lower split: option.splits if_splits)

lemma normalize_default: "normalize_tenant (Some ''default'') = Some ''default''"
  by code_simp

lemma normalize_message_tenant: "normalize_tenant (Some (message_tenant m)) = Some (message_tenant m)"
  by (auto simp: message_tenant_def normalize_default dest: normalize_tenant_twice split: json.split option.split)

lemma tenant_mismatch_Nil: "tenant_mismatch who t u = [] \<longleftrightarrow> u = t"
  by (auto simp: tenant_mismatch_def)

lemma consistent_tenant:
  assumes "validate_tenant_consistency agents s r (Some (message_tenant m)) = []"
    and "JStr a = s \<or> JStr a = r \<and> json_truthy r" and "dget agents a = Some i"
  shows "normalize_tenant (Some (ai_tenant_id i)) = Some (message_tenant m)"
  using assms by (auto simp: validate_tenant_consistency_def Let_def normalize_message_tenant tenant_mismatch_Nil)

text \<open>A dot is kept by the normalisation and is in no valid tenant.\<close>

lemma dot_strip: "CHR ''.'' \<in> set t \<Longrightarrow> CHR ''.'' \<in> set (py_strip t)"
proof -
  have drop: "CHR ''.'' \<in> set xs \<Longrightarrow> CHR ''.'' \<in> set (dropWhile py_isspace xs)" for xs
    by (induction xs) (auto simp: py_isspace_def)
  show "CHR ''.'' \<in> set t \<Longrightarrow> ?thesis" by (simp add: py_strip_def drop)
qed

lemma dot_normalize:
  assumes "CHR ''.'' \<in> set t"
  shows "\<exists>u. normalize_tenant (Some t) = Some u \<and> CHR ''.'' \<in> set u"
proof -
  have "lower_char (CHR ''.'') = CHR ''.''" by code_simp
  moreover have "CHR ''.'' \<in> set (py_strip t)" using assms by (rule dot_strip)
  ultimately have "CHR ''.'' \<in> set (py_lower (py_strip t))" by (force simp: py_lower_def)
  moreover have "py_strip t \<noteq> []" using \<open>CHR ''.'' \<in> set (py_strip t)\<close> by auto
  ultimately show ?thesis by (simp add: normalize_tenant_def)
qed

lemma dot_not_valid: "CHR ''.'' \<in> set t \<Longrightarrow> \<not> valid_tenant_id t"
proof
  assume dot: "CHR ''.'' \<in> set t" and valid: "valid_tenant_id t"
  have "\<not> tenant_char (CHR ''.'')" by code_simp
  moreover have "CHR ''.'' \<in> set (if t \<noteq> [] \<and> last t = CHR 0x0A then butlast t else t)"
    using dot by (cases t rule: rev_cases) auto
  ultimately show False using valid by (auto simp: valid_tenant_id_def Let_def list_all_iff)
qed

section \<open>The checks\<close>

lemma guarded_cases:
  "guarded check rest b = (b', out) \<longleftrightarrow>
     (\<exists>e. check b = (b', Inl e) \<and> out = Inl e) \<or> (\<exists>r. check b = (b', Inr (Some r)) \<and> out = Inr r) \<or>
     (\<exists>b1. check b = (b1, Inr None) \<and> rest b1 = (b', out))"
  by (auto simp: guarded_def ebind_cases split: option.split)

text \<open>What a check that passes has shown, and that a check never touches the queue or the agents\<close>

definition same_core :: "'w bus \<Rightarrow> 'w bus \<Rightarrow> bool" where
  "same_core b b' \<longleftrightarrow> bs_queue b' = bs_queue b \<and> rm_agents b' = rm_agents b \<and> rm_by_tenant b' = rm_by_tenant b \<and>
     bs_hash b' = bs_hash b \<and> bs_running b' = bs_running b \<and> bs_inflight b' = bs_inflight b"

lemma same_core_refl [simp]: "same_core b b"
  by (simp add: same_core_def)

lemma same_core_trans: "same_core a b \<Longrightarrow> same_core b c \<Longrightarrow> same_core a c"
  by (simp add: same_core_def)

lemma same_core_counters [simp]:
  "same_core b (record_metrics_failure c) = same_core b c" "same_core b (record_metrics_success c) = same_core b c"
  "same_core b (count_sent c) = same_core b c" "same_core b (c\<lparr>rm_world := w\<rparr>) = same_core b c"
  by (simp_all add: same_core_def record_metrics_failure_def record_metrics_success_def count_sent_def)

lemma on_world_core: "on_world f b = (b', r) \<Longrightarrow> same_core b b'"
  by (auto simp: on_world_def split: prod.splits)

lemma check_running_result:
  "check_running P m b = (b', r) \<Longrightarrow> same_core b b' \<and>
     (r = Inr None \<longrightarrow> bs_running b \<or> bp_allow_unstarted P \<or> is_test_mode_message P m)"
  by (auto simp: check_running_def ebind_cases split: if_splits)

lemma message_shape_result:
  "validate_message_shape now m b = (b', r) \<Longrightarrow> same_core b b' \<and> (r = Inr None \<longrightarrow> b' = b \<and> shape_errors now m = [])"
  by (auto simp: validate_message_shape_def split: if_splits)

lemma hash_result:
  "validate_hash_for_message m b = (b', r) \<Longrightarrow>
     same_core b b' \<and> (r = Inr None \<longrightarrow> b' = b \<and> am_constitutional_hash m = JStr (bs_hash b))"
  by (auto simp: validate_hash_for_message_def split: if_splits json.splits)

lemma tenant_result:
  "validate_and_normalize_tenant m b = (b', r) \<Longrightarrow> same_core b b' \<and>
     (r = Inr None \<longrightarrow> b' = b \<and> valid_tenant_id (message_tenant m) \<and>
        validate_tenant_consistency (rm_agents b) (am_from_agent m) (am_to_agent m) (Some (message_tenant m)) = [])"
  by (auto simp: validate_and_normalize_tenant_def split: if_splits)

lemma rate_limit_result: "apply_rate_limit P m b = (b', r) \<Longrightarrow> same_core b b'"
  by (auto simp: apply_rate_limit_def Let_def ebind_cases split: option.splits dest: on_world_core)

definition only_metadata_differs :: "agent_message \<Rightarrow> agent_message \<Rightarrow> bool" where
  "only_metadata_differs m m' \<longleftrightarrow> (\<exists>j. m' = m\<lparr>am_metadata := j\<rparr>)"

lemma only_metadata_differs_refl [simp]: "only_metadata_differs m m"
  unfolding only_metadata_differs_def by (rule exI [of _ "am_metadata m"]) simp

lemma only_metadata_differs_update [simp]: "only_metadata_differs m (m\<lparr>am_metadata := j\<rparr>)"
  by (auto simp: only_metadata_differs_def)

lemma dynamic_context_result:
  "add_dynamic_context P m b = (b', r) \<Longrightarrow>
     same_core b b' \<and> (\<exists>m'. r = Inr m' \<and> only_metadata_differs m m')"
  unfolding add_dynamic_context_def ehandle_def
  by (auto simp: ebind_def split: option.splits prod.splits sum.splits json.splits dest: on_world_core)

lemma governance_result:
  "evaluate_adaptive_governance P m b = (b', r) \<Longrightarrow> same_core b b' \<and>
     (\<forall>reason evaluate. r = Inr (True, reason) \<longrightarrow> bp_governance P = Some evaluate \<longrightarrow>
        (\<exists>w w'. evaluate m w = (w', Inr (True, reason))))"
  by (auto simp: evaluate_adaptive_governance_def ehandle_def on_world_def split: option.splits prod.splits sum.splits if_splits)

text \<open>The processor took the message in a state of the world, left it as the second one, and accepted it.\<close>

definition accepted_by_processor :: "'w bus_parts \<Rightarrow> agent_message \<Rightarrow> agent_message \<Rightarrow> bool" where
  "accepted_by_processor P m m' \<longleftrightarrow>
     (\<exists>w w' out. bp_process P (m, w) = ((m', w'), out) \<and>
        (case out of Inr r \<Rightarrow> vr_is_valid r | Inl _ \<Rightarrow> claims_prevalidation m'))"

lemma process_result:
  assumes "process_message_with_fallback P m b = (b', r)"
  shows "same_core b b' \<and> (\<exists>m' v. r = Inr (m', v) \<and> (vr_is_valid v \<longrightarrow> accepted_by_processor P m m'))"
proof -
  obtain m' w out where out: "bp_process P (m, rm_world b) = ((m', w), out)" by (metis surj_pair)
  let ?v = "case out of Inl e \<Rightarrow> degraded_result m' (snd e) | Inr v \<Rightarrow> v"
  have "b' = b\<lparr>rm_world := w\<rparr>" "r = Inr (m', ?v)"
    using assms out by (auto simp: process_message_with_fallback_def split: sum.splits)
  moreover have "accepted_by_processor P m m'" if "vr_is_valid ?v"
    unfolding accepted_by_processor_def using out that
    by (intro exI [of _ "rm_world b"] exI [of _ w] exI [of _ out])
      (auto simp: degraded_result_def Let_def split: sum.splits if_splits)
  ultimately show ?thesis by simp
qed

lemma deliver_core: "ehandle delivery_caught (deliver P m) (\<lambda>_. eret False) b = (b', r) \<Longrightarrow> same_core b b'"
  by (auto simp: deliver_def ehandle_def split: option.splits prod.splits sum.splits if_splits dest: on_world_core)

text \<open>The one step that changes the queue\<close>

lemma route_result:
  assumes "route_and_deliver P m b = (b', r)"
  shows "same_core b b' \<or> bp_kafka P = None \<and> r = Inr True \<and> same_core (b\<lparr>bs_queue := bs_queue b @ [m]\<rparr>) b'"
  using assms unfolding route_and_deliver_def
  by (force simp: ebind_cases same_core_def split: if_splits dest!: on_world_core deliver_core)

lemma finalize_result:
  assumes "finalize_message_delivery P m v b = (b', r)"
  shows "same_core b b' \<or> bp_kafka P = None \<and> vr_is_valid v \<and> same_core (b\<lparr>bs_queue := bs_queue b @ [m]\<rparr>) b'"
  using assms unfolding finalize_message_delivery_def
  by (auto simp: ebind_cases split: if_splits dest!: route_result)

lemma same_core_queue: "same_core b b1 \<Longrightarrow> same_core (b1\<lparr>bs_queue := bs_queue b1 @ [m]\<rparr>) b2 \<Longrightarrow>
    same_core (b\<lparr>bs_queue := bs_queue b @ [m]\<rparr>) b2"
  by (simp add: same_core_def)

text \<open>What is known of a message when it reaches the queue\<close>

definition cleared :: "'w bus_parts \<Rightarrow> agent_message \<Rightarrow> agent_message \<Rightarrow> bool" where
  "cleared P m m' \<longleftrightarrow> accepted_by_processor P m m' \<and>
     (\<forall>evaluate. bp_governance P = Some evaluate \<longrightarrow> (\<exists>w w' reason. evaluate m w = (w', Inr (True, reason))))"

lemma govern_result:
  assumes "govern_and_deliver P m b = (b', r)"
  shows "same_core b b' \<or>
    bp_kafka P = None \<and> (\<exists>m'. cleared P m m' \<and> same_core (b\<lparr>bs_queue := bs_queue b @ [m']\<rparr>) b')"
proof -
  from assms [unfolded govern_and_deliver_def ebind_cases]
  consider "\<exists>e. evaluate_adaptive_governance P m b = (b', Inl e)"
    | allowed reason b1 where "evaluate_adaptive_governance P m b = (b1, Inr (allowed, reason))"
      "(if \<not> allowed then ebind (emodify record_metrics_failure) (\<lambda>_. eret (blocked_result reason))
        else ebind (process_message_with_fallback P m) (\<lambda>(m', r). ebind (finalize_message_delivery P m' r) (\<lambda>_. eret r))) b1 = (b', r)"
    by fastforce
  then show ?thesis
  proof cases
    case 1
    then show ?thesis by (auto dest: governance_result)
  next
    case 2
    note gov = governance_result [OF 2(1)]
    show ?thesis
    proof (cases allowed)
      case False
      then show ?thesis using 2(2) gov by auto
    next
      case True
      from 2(2) True obtain b2 m' v where v: "process_message_with_fallback P m b1 = (b2, Inr (m', v))"
        "ebind (finalize_message_delivery P m' v) (\<lambda>_. eret v) b2 = (b', r)"
        by (auto simp: ebind_cases dest: process_result)
      note p = process_result [OF v(1)]
      from v(2) have "\<exists>r'. finalize_message_delivery P m' v b2 = (b', r')"
        by (auto simp: ebind_cases)
      then obtain r' where r': "finalize_message_delivery P m' v b2 = (b', r')" by blast
      have b2: "same_core b b2" using gov p same_core_trans by blast
      from finalize_result [OF r'] show ?thesis
      proof
        assume "same_core b2 b'"
        then show ?thesis using b2 same_core_trans by blast
      next
        assume *: "bp_kafka P = None \<and> vr_is_valid v \<and> same_core (b2\<lparr>bs_queue := bs_queue b2 @ [m']\<rparr>) b'"
        then have "cleared P m m'" using gov p True unfolding cleared_def by blast
        then show ?thesis using * same_core_queue [OF b2] by blast
      qed
    qed
  qed
qed

text \<open>A whole send: either the core is as it was, or the message is queued and every check has passed\<close>

definition checked_in :: "'w bus_parts \<Rightarrow> rat \<Rightarrow> agent_message \<Rightarrow> 'w bus \<Rightarrow> bool" where
  "checked_in P now m b \<longleftrightarrow>
     (bs_running b \<or> bp_allow_unstarted P \<or> is_test_mode_message P m) \<and> shape_errors now m = [] \<and>
     am_constitutional_hash m = JStr (bs_hash b) \<and> valid_tenant_id (message_tenant m) \<and>
     validate_tenant_consistency (rm_agents b) (am_from_agent m) (am_to_agent m) (Some (message_tenant m)) = []"

lemma checks_pass_along:
  "guarded (check_running P m) (guarded (validate_message_shape now m) (guarded (validate_hash_for_message m)
     (guarded (validate_and_normalize_tenant m) rest))) b = (b', r) \<Longrightarrow>
   same_core b b' \<or> (\<exists>b1. same_core b b1 \<and> checked_in P now m b \<and> rest b1 = (b', r))"
  by (auto simp: guarded_cases checked_in_def same_core_def
      dest!: check_running_result message_shape_result hash_result tenant_result)

lemma send_result:
  assumes "send_message_once P now m b = (b', r)"
  shows "same_core b b' \<or>
    bp_kafka P = None \<and> checked_in P now m b \<and>
    (\<exists>m1 m'. only_metadata_differs (with_tenant m) m1 \<and> cleared P m1 m' \<and> same_core (b\<lparr>bs_queue := bs_queue b @ [m']\<rparr>) b')"
proof -
  from assms have "same_core b b' \<or> (\<exists>b1. same_core b b1 \<and> checked_in P now m b \<and>
      guarded (apply_rate_limit P (with_tenant m))
        (ebind (add_dynamic_context P (with_tenant m)) (govern_and_deliver P)) b1 = (b', r))"
    unfolding send_message_once_def by (rule checks_pass_along)
  then consider "same_core b b'" | b1 where "same_core b b1" "checked_in P now m b"
      "guarded (apply_rate_limit P (with_tenant m))
        (ebind (add_dynamic_context P (with_tenant m)) (govern_and_deliver P)) b1 = (b', r)"
    by blast
  then show ?thesis
  proof cases
    case 2
    from 2(3) consider "same_core b1 b'" | b2 b3 m' where "same_core b1 b2" "same_core b2 b3"
        "only_metadata_differs (with_tenant m) m'" "govern_and_deliver P m' b3 = (b', r)"
      by (auto simp: guarded_cases ebind_cases dest!: rate_limit_result dynamic_context_result)
    then show ?thesis
    proof cases
      case 1
      then show ?thesis using 2(1) same_core_trans by blast
    next
      case (2 b2 b3 m')
      have "same_core b b3" using \<open>same_core b b1\<close> 2(1,2) same_core_trans by blast
      then show ?thesis
        using govern_result [OF 2(4)] 2(3) \<open>checked_in P now m b\<close> same_core_trans same_core_queue by blast
    qed
  qed simp
qed

section \<open>The index by tenant\<close>

lemma add_to_index_member:
  "a \<in> set (dget_default (add_to_index t x idx) u []) \<longleftrightarrow> a \<in> set (dget_default idx u []) \<or> a = x \<and> u = t"
  by (auto simp: add_to_index_def Let_def dget_default_dset)

lemma removeAll_Nil: "removeAll x xs = [] \<longleftrightarrow> set xs \<subseteq> {x}"
  by (induction xs) auto

lemma drop_from_index_member:
  assumes "a \<noteq> x"
  shows "a \<in> set (dget_default (drop_from_index t x idx) u []) \<longleftrightarrow> a \<in> set (dget_default idx u [])"
proof (cases "dget idx t")
  case (Some xs)
  then have xs: "dget_default idx t [] = xs" by (simp add: dget_default_def)
  show ?thesis
    using assms Some xs by (auto simp: drop_from_index_def dget_default_dset dget_default_ddel removeAll_Nil)
qed (simp add: drop_from_index_def)

definition index_wf :: "(string, string list) dict \<Rightarrow> bool" where
  "index_wf idx \<longleftrightarrow> distinct (dkeys idx) \<and> (\<forall>t xs. dget idx t = Some xs \<longrightarrow> xs \<noteq> [] \<and> distinct xs)"

lemma index_wf_entry: "index_wf idx \<Longrightarrow> distinct (dget_default idx t [])"
  by (simp add: index_wf_def dget_default_def split: option.split)

lemma index_wf_dset: "index_wf idx \<Longrightarrow> xs \<noteq> [] \<Longrightarrow> distinct xs \<Longrightarrow> index_wf (dset t xs idx)"
  by (auto simp add: index_wf_def distinct_update dget_dset)

lemma index_wf_ddel: "index_wf idx \<Longrightarrow> index_wf (ddel t idx)"
  by (auto simp add: index_wf_def distinct_delete dget_ddel)

lemma add_to_index_wf: "index_wf idx \<Longrightarrow> index_wf (add_to_index t x idx)"
  by (auto simp add: add_to_index_def Let_def index_wf_entry intro!: index_wf_dset)

lemma drop_from_index_wf: "index_wf idx \<Longrightarrow> index_wf (drop_from_index t x idx)"
  using index_wf_entry [of idx t]
  by (auto simp add: drop_from_index_def dget_default_def distinct_removeAll
      intro!: index_wf_dset index_wf_ddel split: option.split)

definition manager_wf :: "('w, 'm) manager_scheme \<Rightarrow> bool" where
  "manager_wf s \<longleftrightarrow> distinct (dkeys (rm_agents s)) \<and> index_wf (rm_by_tenant s) \<and>
     (\<forall>a i. dget (rm_agents s) a = Some i \<longrightarrow>
        ai_agent_id i = a \<and> a \<in> set (dget_default (rm_by_tenant s) (ai_tenant_id i) []))"

lemma manager_wf_world [simp]: "manager_wf (s\<lparr>rm_world := w\<rparr>) = manager_wf s"
  by (simp add: manager_wf_def)

lemma store_local_agent_wf: "manager_wf s \<Longrightarrow> manager_wf (store_local_agent i s)"
  by (auto simp add: manager_wf_def store_local_agent_def distinct_update dget_dset add_to_index_member add_to_index_wf
      split: if_splits)

lemma forget_agent_wf:
  assumes "manager_wf s"
  shows "manager_wf (s\<lparr>rm_agents := ddel a (rm_agents s), rm_by_tenant := drop_from_index t a (rm_by_tenant s)\<rparr>)"
    and "manager_wf (s\<lparr>rm_agents := ddel a (rm_agents s)\<rparr>)"
  using assms
  by (auto simp add: manager_wf_def distinct_delete dget_ddel drop_from_index_member drop_from_index_wf split: if_splits)

lemma rollback_wf: "manager_wf s \<Longrightarrow> manager_wf (rollback_local_registration a t existing s)"
  by (simp add: rollback_local_registration_def forget_agent_wf)

lemma on_world_wf [simp]: "always (on_world f) manager_wf manager_wf"
  by (simp add: always_def on_world_def split: prod.split)

lemma emodify_wf: "(\<And>s. manager_wf s \<Longrightarrow> manager_wf (f s)) \<Longrightarrow> always (emodify f) manager_wf manager_wf"
  by (simp add: always_def)

lemma maci_role_wf: "always (register_maci_role sv a role) manager_wf manager_wf"
  by (auto simp: register_maci_role_def intro!: always_handle always_bind split: option.split)

lemma store_and_register_wf: "always (store_and_register sv now g i existing) manager_wf manager_wf"
  unfolding store_and_register_def Let_def
  by (intro always_bind emodify_wf store_local_agent_wf maci_role_wf)
    (auto intro!: always_bind emodify_wf rollback_wf simp del: ebind_ret)

lemma register_wf: "always (register_bus_agent sv now g) manager_wf manager_wf"
  unfolding register_bus_agent_def sync_hash_def
  by (auto intro!: always_handle always_bind store_and_register_wf simp del: ebind_ret split: option.split)

lemma unregister_wf: "always (unregister_bus_agent sv a) manager_wf manager_wf"
  unfolding unregister_bus_agent_def
  by (auto intro!: always_bind emodify_wf simp: forget_agent_wf split: option.split)

end
