(* ===== verification/Bus_Properties.thy ===== *)
theory Bus_Properties
  imports Bus_Theorems Agent_Message_Theorems
begin

text \<open>
  The properties of the agent bus: what stands behind a delivered message, the shape of its tables over
  every run, what a failed registration leaves behind, the fate of agents registered with a token, the
  router whose answer is not used, the accounting of the messages, and the two registries.
\<close>

section \<open>Runs\<close>

datatype bus_event =
  RegisterEvent rat registration | UnregisterEvent string | SendEvent rat agent_message
| BroadcastEvent "nat \<Rightarrow> agent_message" "nat \<Rightarrow> rat" agent_message | ReceiveEvent | StartEvent | StopEvent

fun bus_step :: "'w bus_parts \<Rightarrow> bus_event \<Rightarrow> 'w bus \<Rightarrow> 'w bus" where
  "bus_step P (RegisterEvent now g) b = fst (register_bus_agent (bp_manager P) now g b)"
| "bus_step P (UnregisterEvent aid) b = fst (unregister_bus_agent (bp_manager P) aid b)"
| "bus_step P (SendEvent now m) b = fst (send_message P now m b)"
| "bus_step P (BroadcastEvent fresh now m) b = fst (broadcast_message P fresh now m b)"
| "bus_step P ReceiveEvent b = fst (receive_message b)"
| "bus_step P StartEvent b = fst (start_bus P b)"
| "bus_step P StopEvent b = stop_bus b"

definition run_bus :: "'w bus_parts \<Rightarrow> bus_event list \<Rightarrow> 'w bus \<Rightarrow> 'w bus" where
  "run_bus P evs b = fold (bus_step P) evs b"

lemma manager_wf_core: "same_core b b' \<Longrightarrow> manager_wf b' = manager_wf b"
  by (simp add: manager_wf_def same_core_def)

lemma manager_wf_fields [simp]:
  "manager_wf (b\<lparr>bs_queue := q\<rparr>) = manager_wf b" "manager_wf (b\<lparr>bs_inflight := k\<rparr>) = manager_wf b"
  "manager_wf (b\<lparr>bs_received := i\<rparr>) = manager_wf b" "manager_wf (b\<lparr>bs_messages_received := j\<rparr>) = manager_wf b"
  "manager_wf (b\<lparr>bs_running := r\<rparr>) = manager_wf b" "manager_wf (b\<lparr>bs_hash := h\<rparr>) = manager_wf b"
  by (simp_all add: manager_wf_def)

lemma manager_wf_inflight [simp]:
  "manager_wf (fst (begin_send m b)) = manager_wf b" "manager_wf (end_send m b) = manager_wf b"
  by (simp_all add: begin_send_def end_send_def split: option.split)

lemma send_wf: "always (send_message P now m) manager_wf manager_wf"
  unfolding always_def
proof (intro allI impI)
  fix b :: "'a bus"
  assume "manager_wf b"
  obtain b' r where b': "send_message_once P now m (fst (begin_send m b)) = (b', r)" by fastforce
  from send_result [OF this] have "manager_wf b'"
    using \<open>manager_wf b\<close> by (auto dest!: manager_wf_core)
  then show "manager_wf (fst (send_message P now m b))" using b' by (simp add: send_message_def)
qed

lemma broadcast_to_wf: "always (broadcast_to P fresh now m n as) manager_wf manager_wf"
  by (induction as arbitrary: n) (auto intro!: always_bind send_wf)

lemma start_wf: "always (start_bus P) manager_wf manager_wf"
  by (auto simp: start_bus_def intro!: always_bind always_handle emodify_wf simp del: ebind_ret split: option.split)

lemma bus_step_wf: "manager_wf b \<Longrightarrow> manager_wf (bus_step P e b)"
  using alwaysD [OF register_wf] alwaysD [OF unregister_wf] alwaysD [OF send_wf] alwaysD [OF start_wf]
    alwaysD [OF broadcast_to_wf]
  by (cases e) (auto simp: broadcast_message_def receive_message_def stop_bus_def split: list.split)

lemma run_bus_wf: "manager_wf b \<Longrightarrow> manager_wf (run_bus P evs b)"
  by (induction evs arbitrary: b) (auto simp: run_bus_def bus_step_wf)

text \<open>C7: Over every sequence of registrations, unregistrations, sends, broadcasts, receptions, starts and
  stops, with any backend, processor, router and other parts (also failing ones), the tables of the bus are
  well formed: every agent is stored under its own identifier and is in the index of its tenant (so a
  broadcast to a tenant reaches it), no key is there twice, and no tenant has an empty or repeating list.\<close>

theorem agent_tables_well_formed: "manager_wf (run_bus P evs (new_bus w))"
  by (rule run_bus_wf) (simp add: manager_wf_def new_bus_def index_wf_def)

section \<open>Delivered messages\<close>

lemma with_tenant_fields [simp]:
  "am_from_agent (with_tenant m) = am_from_agent m" "am_to_agent (with_tenant m) = am_to_agent m"
  "am_content (with_tenant m) = am_content m" "am_tenant_id (with_tenant m) = JStr (message_tenant m)"
  by (simp_all add: with_tenant_def)

lemma inflight_fields [simp]:
  "bs_queue (fst (begin_send m b)) = bs_queue b" "rm_agents (fst (begin_send m b)) = rm_agents b"
  "bs_hash (fst (begin_send m b)) = bs_hash b" "bs_running (fst (begin_send m b)) = bs_running b"
  "bs_queue (end_send m b) = bs_queue b"
  by (simp_all add: begin_send_def end_send_def split: option.split)

lemma checked_in_begin [simp]: "checked_in P now m (fst (begin_send m b)) = checked_in P now m b"
  by (simp add: checked_in_def)

text \<open>The queue grows only by a message that passed every check\<close>

lemma queued_message:
  assumes "send_message P now m b = (b', r)" and "bs_queue b' \<noteq> bs_queue b"
  obtains m1 m' where "bs_queue b' = bs_queue b @ [m']" "only_metadata_differs (with_tenant m) m1"
    "checked_in P now m b" "cleared P m1 m'"
proof -
  obtain b1 where b1: "send_message_once P now m (fst (begin_send m b)) = (b1, r)" "b' = end_send m b1"
    using assms(1) by (auto simp: send_message_def split: prod.splits)
  from send_result [OF b1(1)] show thesis
    using assms(2) b1(2) that by (auto simp: same_core_def)
qed

lemma shape_recipient: "shape_errors now m = [] \<Longrightarrow> json_truthy (am_to_agent m)"
  by (simp add: shape_errors_def split: if_splits)

text \<open>C4: The queue of the bus changes in a send only by one message at its end, the one sent with its tenant
  normalised and perhaps new metadata, as the processor left it. Then the bus was running, or lets messages
  through unstarted, or the text of the message marks it as a test; sender, recipient and content are there
  and the message has not expired; its hash is that of the bus and its tenant a valid one, that of the sender
  and of the recipient where these are registered; the engine of adaptive governance, where there is one,
  allowed it, and the processor accepted it, or failed while the metadata of the message itself claims an
  earlier validation.\<close>

theorem delivered_message_is_checked:
  assumes "send_message P now m b = (b', r)" and "bs_queue b' \<noteq> bs_queue b"
  shows "\<exists>m1 m'. bs_queue b' = bs_queue b @ [m'] \<and>
    am_from_agent m1 = am_from_agent m \<and> am_to_agent m1 = am_to_agent m \<and> am_content m1 = am_content m \<and>
    am_tenant_id m1 = JStr (message_tenant m) \<and> valid_tenant_id (message_tenant m) \<and>
    (bs_running b \<or> bp_allow_unstarted P \<or> is_test_mode_message P m) \<and> shape_errors now m = [] \<and>
    am_constitutional_hash m = JStr (bs_hash b) \<and>
    (\<forall>a i. (JStr a = am_from_agent m \<or> JStr a = am_to_agent m) \<and> dget (rm_agents b) a = Some i \<longrightarrow>
       normalize_tenant (Some (ai_tenant_id i)) = Some (message_tenant m)) \<and>
    (\<forall>evaluate. bp_governance P = Some evaluate \<longrightarrow> (\<exists>w w' reason. evaluate m1 w = (w', Inr (True, reason)))) \<and>
    (\<exists>w w' out. bp_process P (m1, w) = ((m', w'), out) \<and>
       (case out of Inr v \<Rightarrow> vr_is_valid v | Inl _ \<Rightarrow> claims_prevalidation m'))"
proof -
  from assms obtain m1 m' where m': "bs_queue b' = bs_queue b @ [m']" "only_metadata_differs (with_tenant m) m1"
    "checked_in P now m b" "cleared P m1 m'"
    by (rule queued_message)
  have "normalize_tenant (Some (ai_tenant_id i)) = Some (message_tenant m)"
    if "JStr a = am_from_agent m \<or> JStr a = am_to_agent m" "dget (rm_agents b) a = Some i" for a i
    using that m'(3) consistent_tenant shape_recipient unfolding checked_in_def by metis
  then show ?thesis
    using m'(1-3) m'(4) [unfolded cleared_def accepted_by_processor_def]
    by (intro exI [of _ m1] exI [of _ m']) (auto simp: only_metadata_differs_def checked_in_def)
qed

text \<open>A small bus: a registry in memory, a processor that accepts everything, a router that finds nobody\<close>

definition small_bus :: "memory_registry bus_parts" where
  "small_bus = \<lparr>bp_manager = \<lparr>ms_public_key = None, ms_maci_register = None, ms_enable_maci = False,
       ms_backend = memory_agents\<rparr>, bp_allow_unstarted = False, bp_rate_limit = None, bp_dynamic_context = None,
     bp_governance = None, bp_policy_key = None, bp_process = eret new_result, bp_route = (\<lambda>m. eret None),
     bp_kafka = None, bp_text = (\<lambda>j. [])\<rparr>"

definition hello :: agent_message where
  "hello = demo_message\<lparr>am_from_agent := JStr ''ann'', am_to_agent := JStr ''bob'',
     am_content := JObj [(''text'', JStr ''hello'')], am_tenant_id := JStr ''Acme '',
     am_constitutional_hash := JStr CONSTITUTIONAL_HASH, am_expires_at := None, am_metadata := JObj [],
     am_headers := JObj []\<rparr>"

lemma hello_tenant: "message_tenant hello = ''acme''" "valid_tenant_id ''acme''"
  by code_simp+

lemma hello_fields:
  "am_from_agent hello = JStr ''ann''" "am_to_agent hello = JStr ''bob''" "am_tenant_id hello = JStr ''Acme ''"
  "am_content hello = JObj [(''text'', JStr ''hello'')]" "am_constitutional_hash hello = JStr CONSTITUTIONAL_HASH"
  "resolve_idempotency_key hello = None" "shape_errors 0 hello = []"
  by (simp_all add: hello_def resolve_idempotency_key_def nonempty_str_def truthy_or_def dget_default_def
      json_dict_or_empty_def shape_errors_def)

lemma hello_sent:
  assumes "bs_running b" and "bs_hash b = CONSTITUTIONAL_HASH"
    and "validate_tenant_consistency (rm_agents b) (JStr ''ann'') (JStr ''bob'') (Some ''acme'') = []"
  shows "send_message small_bus 0 hello b =
    (b\<lparr>bs_queue := bs_queue b @ [with_tenant hello], bs_sent := bs_sent b + 1,
       bs_messages_sent := bs_messages_sent b + 1\<rparr>, Inr new_result)"
  using assms
  by (simp add: send_message_def send_message_once_def guarded_def check_running_def validate_message_shape_def
      validate_hash_for_message_def validate_and_normalize_tenant_def hello_fields hello_tenant apply_rate_limit_def
      add_dynamic_context_def govern_and_deliver_def evaluate_adaptive_governance_def ebind_def ehandle_def
      process_message_with_fallback_def on_world_def finalize_message_delivery_def route_and_deliver_def deliver_def
      small_bus_def new_result_def record_metrics_success_def begin_send_def end_send_def)

lemma delivered_message_is_checked_witness:
  "\<exists>m1 m'. bs_queue (fst (send_message small_bus 0 hello ((new_bus [])\<lparr>bs_running := True\<rparr>))) = [m'] \<and>
     am_tenant_id m1 = JStr ''acme'' \<and> (\<exists>w w' out. bp_process small_bus (m1, w) = ((m', w'), out))"
proof -
  let ?b = "(new_bus [] :: memory_registry bus)\<lparr>bs_running := True\<rparr>"
  have sent: "send_message small_bus 0 hello ?b =
    (?b\<lparr>bs_queue := bs_queue ?b @ [with_tenant hello], bs_sent := bs_sent ?b + 1,
       bs_messages_sent := bs_messages_sent ?b + 1\<rparr>, Inr new_result)"
    by (rule hello_sent [of ?b]) (simp_all add: new_bus_def validate_tenant_consistency_def Let_def)
  then have fst: "fst (send_message small_bus 0 hello ?b) = ?b\<lparr>bs_queue := bs_queue ?b @ [with_tenant hello],
      bs_sent := bs_sent ?b + 1, bs_messages_sent := bs_messages_sent ?b + 1\<rparr>" (is "_ = ?b'")
    by simp
  have "bs_queue ?b' \<noteq> bs_queue ?b" by simp
  then obtain m1 m' where "bs_queue ?b' = bs_queue ?b @ [m']" "am_tenant_id m1 = JStr (message_tenant hello)"
      "\<exists>w w' out. bp_process small_bus (m1, w) = ((m', w'), out)"
    using delivered_message_is_checked [OF sent] by blast
  then show ?thesis
    unfolding fst using hello_tenant(1) by (intro exI [of _ m1] exI [of _ m']) (simp add: new_bus_def)
qed

section \<open>Registrations\<close>

lemma agents_on_world: "on_world f s = (s', r) \<Longrightarrow> rm_agents s' = rm_agents s \<and> rm_by_tenant s' = rm_by_tenant s"
  by (auto simp: on_world_def split: prod.splits)

lemma sync_hash_result: "\<exists>s' h'. sync_hash sv h s = (s', Inr h') \<or> (\<exists>e. sync_hash sv h s = (s', Inl e))"
  by (metis prod.exhaust sum.exhaust)

lemma maci_role_agents: "register_maci_role sv a role s = (s', r) \<Longrightarrow> rm_agents s' = rm_agents s"
  by (auto simp: register_maci_role_def ehandle_def ebind_def split: option.splits if_splits prod.splits sum.splits
      dest: agents_on_world)

text \<open>A registration that says yes has stored the agent.\<close>

lemma registered_agent:
  assumes "register_bus_agent sv now g s = (s', Inr True)"
  shows "\<exists>h. dget (rm_agents s') (rg_agent_id g) = Some (new_agent_info now h g)"
proof -
  from assms obtain h s1 where h: "store_and_register sv now g (new_agent_info now h g)
      (rg_agent_id g \<in> set (dkeys (rm_agents s1))) s1 = (s', Inr True)"
    by (auto simp: register_bus_agent_def ebind_Inr split: if_splits)
  have id: "ai_agent_id (new_agent_info now h g) = rg_agent_id g"
    by (simp add: new_agent_info_def Let_def split: prod.split)
  from h obtain s2 where "register_maci_role sv (rg_agent_id g) (rg_maci_role g)
      (store_local_agent (new_agent_info now h g) s1) = (s2, Inr True)"
    "rm_agents s' = rm_agents s2"
    by (auto simp: store_and_register_def ebind_Inr Let_def id split: if_splits dest: agents_on_world)
  then show ?thesis
    by (intro exI [of _ h]) (simp add: maci_role_agents store_local_agent_def id dict_simps)
qed

lemma token_tenant:
  assumes "rg_auth_token g = Some tok" and "CHR ''.'' \<in> set tok"
  shows "CHR ''.'' \<in> set (ai_tenant_id (new_agent_info now h g))"
proof -
  have "tok \<noteq> []" using assms(2) by auto
  then show ?thesis
    using assms dot_normalize [OF assms(2)]
    by (auto simp: new_agent_info_def resolve_token_claims_def truthy_str_def)
qed

text \<open>An agent registered with a token that has a dot in it (as every signed token has) is given the token
  as its tenant; no message from it or to it is ever delivered after that: whatever tenant the message names,
  it is not a valid one or not the agent's.\<close>

theorem token_agents_are_shut_out:
  assumes "register_bus_agent sv now g b = (b1, Inr True)"
    and "rg_auth_token g = Some tok" and "CHR ''.'' \<in> set tok"
    and "am_from_agent m = JStr (rg_agent_id g) \<or> am_to_agent m = JStr (rg_agent_id g)"
  shows "bs_queue (fst (send_message P t m b1)) = bs_queue b1"
proof (rule ccontr)
  assume changed: "bs_queue (fst (send_message P t m b1)) \<noteq> bs_queue b1"
  obtain b2 r where b2: "send_message P t m b1 = (b2, r)" by fastforce
  then have "checked_in P t m b1" using changed by (auto elim: queued_message)
  moreover obtain h where h: "dget (rm_agents b1) (rg_agent_id g) = Some (new_agent_info now h g)"
    using registered_agent [OF assms(1)] by blast
  ultimately have tenant: "normalize_tenant (Some (ai_tenant_id (new_agent_info now h g))) = Some (message_tenant m)"
    "valid_tenant_id (message_tenant m)"
    using assms(4) shape_recipient [of t m]
      consistent_tenant [of "rm_agents b1" "am_from_agent m" "am_to_agent m" m "rg_agent_id g" "new_agent_info now h g"]
    unfolding checked_in_def by auto
  from dot_normalize [OF token_tenant [OF assms(2,3), of now h]] have "CHR ''.'' \<in> set (message_tenant m)"
    using tenant(1) by auto
  then show False using tenant(2) dot_not_valid by blast
qed

definition ann :: "string option \<Rightarrow> string \<Rightarrow> registration" where
  "ann tok tid = \<lparr>rg_agent_id = ''ann'', rg_constitutional_hash = CONSTITUTIONAL_HASH, rg_agent_type = ''worker'',
     rg_capabilities = None, rg_tenant_id = Some tid, rg_maci_role = None, rg_auth_token = tok, rg_identity = JNull,
     rg_identity_scopes = JNull, rg_identity_metadata = JNull\<rparr>"

lemma ann_fields [simp]:
  "rg_agent_id (ann tok tid) = ''ann''" "rg_auth_token (ann tok tid) = tok" "rg_maci_role (ann tok tid) = None"
  "rg_constitutional_hash (ann tok tid) = CONSTITUTIONAL_HASH" "rg_tenant_id (ann tok tid) = Some tid"
  by (simp_all add: ann_def)

lemma strip_ann: "py_strip ''ann'' = ''ann''"
  by code_simp

lemma new_info_id: "ai_agent_id (new_agent_info now h g) = rg_agent_id g"
  by (simp add: new_agent_info_def Let_def split: prod.split)

lemma ann_registered:
  assumes "dget (rm_world b) ''ann'' = None"
  shows "snd (register_bus_agent (bp_manager small_bus) now (ann tok tid) b) = Inr True"
proof -
  have "''ann'' \<notin> fst ` set (rm_world b)" using assms by (simp add: map_of_eq_None_iff)
  then show ?thesis
    by (simp add: register_bus_agent_def strip_ann sync_hash_def small_bus_def store_and_register_def
        register_maci_role_def memory_agents_def memory_register_def on_world_def ebind_def new_info_id
        store_local_agent_def Let_def)
qed

lemma token_agents_are_shut_out_witness:
  "bs_queue (fst (send_message small_bus 0 hello
     (fst (register_bus_agent (bp_manager small_bus) 0 (ann (Some ''a.b'') ''acme'') ((new_bus [])\<lparr>bs_running := True\<rparr>))))) = []"
proof -
  let ?b = "(new_bus [] :: memory_registry bus)\<lparr>bs_running := True\<rparr>" and ?g = "ann (Some ''a.b'') ''acme''"
  obtain b1 r where b1: "register_bus_agent (bp_manager small_bus) 0 ?g ?b = (b1, r)" by fastforce
  moreover have "snd (register_bus_agent (bp_manager small_bus) 0 ?g ?b) = Inr True"
    by (rule ann_registered) (simp add: new_bus_def)
  ultimately have r: "register_bus_agent (bp_manager small_bus) 0 ?g ?b = (b1, Inr True)" by simp
  have "bs_queue b1 = []"
    using r by (auto simp: register_bus_agent_def strip_ann sync_hash_def small_bus_def store_and_register_def
        register_maci_role_def memory_agents_def memory_register_def on_world_def ebind_def new_info_id
        store_local_agent_def Let_def new_bus_def)
  then show ?thesis
    using token_agents_are_shut_out [OF r, of "''a.b''" hello small_bus 0] b1 by (simp add: hello_fields)
qed


text \<open>Registering an identifier the registry already has answers no, and yet the manager now holds the
  refused registration in place of the old one; a new tenant has the agent in its index, and the old tenant
  keeps it in its own, so both tenants' broadcasts go to it.\<close>

theorem refused_registration_replaces_agent:
  assumes "ms_backend sv = memory_agents" and "ms_public_key sv = None" and "ms_maci_register sv = None"
    and "manager_wf b" and "dget (rm_world b) (rg_agent_id g) \<noteq> None"
    and "dget (rm_agents b) (rg_agent_id g) = Some old" and "py_strip (rg_agent_id g) \<noteq> []"
  shows "\<exists>b'. register_bus_agent sv now g b = (b', Inr False) \<and>
    dget (rm_agents b') (rg_agent_id g) = Some (new_agent_info now (rg_constitutional_hash g) g) \<and>
    rg_agent_id g \<in> set (get_agents_by_tenant (Some (ai_tenant_id (new_agent_info now (rg_constitutional_hash g) g))) b') \<and>
    rg_agent_id g \<in> set (get_agents_by_tenant (Some (ai_tenant_id old)) b')"
proof -
  let ?i = "new_agent_info now (rg_constitutional_hash g) g" and ?a = "rg_agent_id g"
  have known: "?a \<in> set (dkeys (rm_agents b))" "?a \<in> set (dkeys (rm_world b))"
    using assms(5,6) by (metis dget_None_keys option.distinct(1))+
  have reg: "register_bus_agent sv now g b = (store_local_agent ?i b, Inr False)"
    using assms(1-3,7) known
    by (simp add: register_bus_agent_def sync_hash_def store_and_register_def register_maci_role_def Let_def
        on_world_def ebind_def memory_agents_def memory_register_def new_info_id rollback_local_registration_def
        store_local_agent_def del: set_map)
  have wf: "manager_wf (store_local_agent ?i b)" using assms(4) by (rule store_local_agent_wf)
  have stored: "dget (rm_agents (store_local_agent ?i b)) ?a = Some ?i"
    by (simp add: store_local_agent_def new_info_id dict_simps)
  have both: "?a \<in> set (dget_default (rm_by_tenant (store_local_agent ?i b)) (ai_tenant_id ?i) [])"
    "?a \<in> set (dget_default (rm_by_tenant (store_local_agent ?i b)) (ai_tenant_id old) [])"
    using assms(4,6) by (auto simp: store_local_agent_def add_to_index_member new_info_id manager_wf_def)
  have "?a \<in> set (dkeys (rm_agents (store_local_agent ?i b)))"
    using stored by (metis dget_None_keys option.distinct(1))
  then show ?thesis
    using reg stored both by (auto simp: get_agents_by_tenant_def simp del: set_map)
qed

lemma refused_registration_replaces_agent_witness:
  "let b = fst (register_bus_agent (bp_manager small_bus) 0 (ann None ''acme'') (new_bus []));
       r = register_bus_agent (bp_manager small_bus) 1 (ann None ''zeta'') b
   in snd r = Inr False \<and> ''ann'' \<in> set (get_agents_by_tenant (Some ''zeta'') (fst r)) \<and>
      ''ann'' \<in> set (get_agents_by_tenant (Some ''acme'') (fst r))"
proof -
  let ?b = "fst (register_bus_agent (bp_manager small_bus) 0 (ann None ''acme'') (new_bus []))"
  let ?old = "new_agent_info 0 CONSTITUTIONAL_HASH (ann None ''acme'')"
  have reg: "?b = (new_bus [])\<lparr>rm_agents := [(''ann'', ?old)], rm_by_tenant := [(ai_tenant_id ?old, [''ann''])],
      rm_world := [(''ann'', agent_entry 0 ''ann'' (JList []) (Some (backend_metadata ?old)))]\<rparr>"
    by (simp add: register_bus_agent_def strip_ann sync_hash_def small_bus_def store_and_register_def
        register_maci_role_def memory_agents_def memory_register_def on_world_def ebind_def new_info_id
        store_local_agent_def Let_def new_bus_def add_to_index_def dget_default_def ann_def or_empty_def
        backend_capabilities_def resolve_token_claims_def truthy_str_def)
  have "manager_wf (new_bus ([] :: memory_registry))" by (simp add: manager_wf_def new_bus_def index_wf_def)
  then have "manager_wf ?b" using alwaysD [OF register_wf] by blast
  moreover have "ms_backend (bp_manager small_bus) = memory_agents" "ms_public_key (bp_manager small_bus) = None"
    "ms_maci_register (bp_manager small_bus) = None"
    by (simp_all add: small_bus_def)
  ultimately have "\<exists>b'. register_bus_agent (bp_manager small_bus) 1 (ann None ''zeta'') ?b = (b', Inr False) \<and>
     ''ann'' \<in> set (get_agents_by_tenant (Some (ai_tenant_id (new_agent_info 1 CONSTITUTIONAL_HASH (ann None ''zeta'')))) b') \<and>
     ''ann'' \<in> set (get_agents_by_tenant (Some (ai_tenant_id ?old)) b')"
    using refused_registration_replaces_agent [of "bp_manager small_bus" ?b "ann None ''zeta''" ?old 1]
    by (auto simp: reg strip_ann)
  moreover have "ai_tenant_id ?old = ''acme''" "ai_tenant_id (new_agent_info 1 CONSTITUTIONAL_HASH (ann None ''zeta'')) = ''zeta''"
    by code_simp+
  ultimately show ?thesis by (auto simp: Let_def)
qed

section \<open>The router\<close>

text \<open>The router is asked, but its answer is not used: with a router that does the same to the rest of the
  system and answers anything else (that the recipient is unknown, or of another tenant), every send has the
  same result and leaves the bus the same.\<close>

theorem router_answer_is_ignored:
  "send_message (P\<lparr>bp_route := (\<lambda>x. ebind (bp_route P x) (\<lambda>_. eret answer))\<rparr>) now m b = send_message P now m b"
proof -
  let ?P = "P\<lparr>bp_route := (\<lambda>x. ebind (bp_route P x) (\<lambda>_. eret answer))\<rparr>"
  have "on_world (bp_route ?P x) s = ebind (on_world (bp_route P x)) (\<lambda>_. eret answer) s" for x and s :: "'a bus"
    by (simp add: on_world_def ebind_def split: prod.split sum.split)
  then have "route_and_deliver ?P x s = route_and_deliver P x s" for x and s :: "'a bus"
    by (simp add: route_and_deliver_def ebind_def deliver_def split: prod.split sum.split)
  then have "route_and_deliver ?P = route_and_deliver P" by (intro ext)
  then have f: "finalize_message_delivery ?P = finalize_message_delivery P"
    by (intro ext) (simp only: finalize_message_delivery_def)
  have e: "evaluate_adaptive_governance ?P = evaluate_adaptive_governance P"
      "process_message_with_fallback ?P = process_message_with_fallback P"
    by (simp_all add: fun_eq_iff evaluate_adaptive_governance_def process_message_with_fallback_def)
  have "govern_and_deliver ?P = govern_and_deliver P"
    by (intro ext) (unfold govern_and_deliver_def e f, rule refl)
  moreover have "check_running ?P = check_running P" "apply_rate_limit ?P = apply_rate_limit P"
    "add_dynamic_context ?P = add_dynamic_context P"
    by (simp_all add: fun_eq_iff check_running_def is_test_mode_message_def apply_rate_limit_def add_dynamic_context_def
        split: option.split)
  ultimately show ?thesis by (simp add: send_message_def send_message_once_def)
qed

section \<open>Accounting\<close>

definition counted :: "'w bus \<Rightarrow> 'w bus \<Rightarrow> bool" where
  "counted b b' \<longleftrightarrow>
     bs_messages_sent b' + bs_messages_failed b' = bs_messages_sent b + bs_messages_failed b + 1 \<and>
     bs_messages_sent b' - bs_messages_sent b = int (length (bs_queue b')) - int (length (bs_queue b))"

definition uncounted :: "'w bus \<Rightarrow> 'w bus \<Rightarrow> bool" where
  "uncounted b b' \<longleftrightarrow> bs_messages_sent b' = bs_messages_sent b \<and> bs_messages_failed b' = bs_messages_failed b \<and>
     bs_queue b' = bs_queue b"

lemma uncounted_simps [simp]: "uncounted b b" "uncounted b (c\<lparr>rm_world := w\<rparr>) = uncounted b c" "uncounted b (count_sent c) = uncounted b c"
  by (simp_all add: uncounted_def count_sent_def)

lemma counted_failure [simp]: "uncounted b c \<Longrightarrow> counted b (record_metrics_failure c)"
  by (simp add: counted_def uncounted_def record_metrics_failure_def)

lemma counted_trans: "uncounted a b \<Longrightarrow> counted b c \<Longrightarrow> counted a c" "uncounted a b \<Longrightarrow> uncounted b c \<Longrightarrow> uncounted a c"
  by (simp_all add: counted_def uncounted_def)

lemma uncounted_world: "on_world f b = (b', r) \<Longrightarrow> uncounted b b'"
  by (auto simp: on_world_def split: prod.splits)

lemma checks_counted:
  "bs_running b \<Longrightarrow> check_running P m b = (b', r) \<Longrightarrow> b' = b \<and> r = Inr None"
  "validate_message_shape now m b = (b', Inr f) \<Longrightarrow> if f = None then b' = b else counted b b'"
  "validate_hash_for_message m b = (b', Inr f) \<Longrightarrow> if f = None then b' = b else counted b b'"
  "validate_and_normalize_tenant m b = (b', Inr f) \<Longrightarrow> if f = None then b' = b else counted b b'"
  by (auto simp: check_running_def validate_message_shape_def validate_hash_for_message_def
      validate_and_normalize_tenant_def counted_def record_metrics_failure_def count_sent_def split: if_splits json.splits)

lemma delivery_counted:
  assumes "bp_kafka P = None" and "finalize_message_delivery P m v b = (b', Inr s)"
  shows "counted b b'"
  using assms
  by (auto simp: finalize_message_delivery_def route_and_deliver_def deliver_def ebind_Inr counted_def
      record_metrics_failure_def record_metrics_success_def uncounted_def split: if_splits dest!: uncounted_world)

lemma govern_uncounted:
  "evaluate_adaptive_governance P m b = (b', r) \<Longrightarrow> uncounted b b'"
  "process_message_with_fallback P m b = (b', r') \<Longrightarrow> uncounted b b'"
  "add_dynamic_context P m b = (b', r'') \<Longrightarrow> uncounted b b'"
  by (auto simp: evaluate_adaptive_governance_def process_message_with_fallback_def add_dynamic_context_def
      ehandle_def ebind_def uncounted_def split: option.splits prod.splits sum.splits if_splits json.splits
      dest: uncounted_world [unfolded uncounted_def])

lemma govern_counted:
  assumes "bp_kafka P = None" and "govern_and_deliver P m b = (b', Inr r)"
  shows "counted b b'"
  using assms(2) unfolding govern_and_deliver_def
  by (auto simp: ebind_Inr split: if_splits dest!: govern_uncounted delivery_counted [OF assms(1)]
      intro: counted_trans counted_failure)

lemma guarded_Inr:
  "guarded check rest b = (b', Inr r) \<longleftrightarrow>
     check b = (b', Inr (Some r)) \<or> (\<exists>b1. check b = (b1, Inr None) \<and> rest b1 = (b', Inr r))"
  by (auto simp: guarded_cases)

text \<open>On a running bus without rate limits every send that returns is counted exactly once, as sent or as
  failed, and the count of the sent ones grows by exactly what the queue does.\<close>

theorem every_send_is_counted:
  assumes "bs_running b" and "bp_rate_limit P = None" and "bp_kafka P = None"
    and "send_message P now m b = (b', Inr r)"
  shows "bs_messages_sent b' + bs_messages_failed b' = bs_messages_sent b + bs_messages_failed b + 1 \<and>
    bs_messages_sent b' - bs_messages_sent b = int (length (bs_queue b')) - int (length (bs_queue b))"
proof -
  let ?b = "fst (begin_send m b)"
  obtain b1 where b1: "send_message_once P now m ?b = (b1, Inr r)" "b' = end_send m b1"
    using assms(4) by (auto simp: send_message_def split: prod.splits)
  have running: "bs_running ?b" using assms(1) by simp
  have "counted ?b b1"
    using b1(1) unfolding send_message_once_def
    by (auto simp: guarded_Inr ebind_Inr apply_rate_limit_def assms(2)
        dest!: checks_counted(1) [OF running] checks_counted(2-4) govern_uncounted(3) govern_counted [OF assms(3)]
        intro: counted_trans)
  then show ?thesis
    using b1(2) by (simp add: counted_def begin_send_def end_send_def split: option.splits if_splits)
qed

lemma every_send_is_counted_witness:
  "let b' = fst (send_message small_bus 0 hello ((new_bus [])\<lparr>bs_running := True\<rparr>))
   in bs_messages_sent b' + bs_messages_failed b' = 1 \<and> bs_messages_sent b' = int (length (bs_queue b'))"
proof -
  let ?b = "(new_bus [] :: memory_registry bus)\<lparr>bs_running := True\<rparr>"
  have sent: "send_message small_bus 0 hello ?b =
    (?b\<lparr>bs_queue := bs_queue ?b @ [with_tenant hello], bs_sent := bs_sent ?b + 1,
       bs_messages_sent := bs_messages_sent ?b + 1\<rparr>, Inr new_result)"
    by (rule hello_sent [of ?b]) (simp_all add: new_bus_def validate_tenant_consistency_def Let_def)
  show ?thesis
    using every_send_is_counted [of ?b small_bus 0 hello, OF _ _ _ sent] unfolding sent
    by (simp add: new_bus_def small_bus_def Let_def)
qed

section \<open>The registries\<close>

text \<open>Over any Redis client that keeps the documented behaviour of the commands of a hash, the registry on
  Redis answers every sequence of registrations, removals, membership tests, updates, clearings and routings
  as the registry in memory does.\<close>

theorem registries_agree:
  assumes "redis_commands client content" and "content w = []"
  shows "\<exists>w' answers. answer_calls (redis_agents client) calls w = (w', Inr answers) \<and>
    snd (answer_calls memory_agents calls []) = Inr answers"
proof -
  have "agent_registry (redis_agents client) content"
    using assms(1) by (rule redis_commands.redis_registry)
  then have "two_registries memory_agents (\<lambda>s. s) (redis_agents client) content"
    by (intro two_registries.intro memory.agent_registry_axioms)
  from two_registries.same_answers [OF this, of "[]" w calls] show ?thesis
    using assms(2) by (auto simp: same_agents_def)
qed

lemma registries_agree_witness:
  "snd (answer_calls (redis_agents row_client) [CallExists ''a'', CallRegister 0 ''a'' None None, CallExists ''a''] []) =
   Inr [Truth False, Truth True, Truth True]"
  using registries_agree [OF rows.redis_commands_axioms, of "[]"
      "[CallExists ''a'', CallRegister 0 ''a'' None None, CallExists ''a'']"]
  by (auto simp: memory_agents_def memory_register_def)

end
