(* ===== verification/Message_Gates.thy ===== *)
theory Message_Gates
  imports Bus_Effects Security_Scan
begin

text \<open>
  \<^verbatim>\<open>src/message_processor_components.py\<close>, \<^verbatim>\<open>src/gate_coordinator.py\<close>, \<^verbatim>\<open>src/security_scanner.py\<close> and the cache of
  \<^verbatim>\<open>src/utils.py\<close>: the state of the message processor and the gates a message passes before it is processed.
  The message is part of the state, since every step may change it in place. \<open>tx\<close> is \<open>str\<close> on values that
  are not strings; the runtime security scanner is an argument. Scheduled background tasks are kept in the
  order of their scheduling; the telemetry of the workflow is a list of events with their reasons.
\<close>

section \<open>The cache of results\<close>

text \<open>
  \<open>LRUCache\<close>: the least recently used entry first. The backing store is \<open>cachetools.LRUCache\<close>, with its
  documented behaviour; the second list is the view the class keeps beside it.
\<close>

record lru =
  lru_backing :: "(string, validation_result) dict"
  lru_view :: "(string, validation_result) dict"

definition new_lru :: lru where
  "new_lru = \<lparr>lru_backing = [], lru_view = []\<rparr>"

definition move_to_end :: "'k \<Rightarrow> 'v \<Rightarrow> ('k, 'v) dict \<Rightarrow> ('k, 'v) dict" where
  "move_to_end k v d = ddel k d @ [(k, v)]"

definition lru_get :: "string \<Rightarrow> lru \<Rightarrow> lru \<times> validation_result option" where
  "lru_get k c =
     (case dget (lru_backing c) k of
        None \<Rightarrow> (c, None)
      | Some v \<Rightarrow> (\<lparr>lru_backing = move_to_end k v (lru_backing c),
                   lru_view = (case dget (lru_view c) k of None \<Rightarrow> lru_view c | Some u \<Rightarrow> move_to_end k u (lru_view c))\<rparr>,
                  Some v))"

definition backing_set :: "nat \<Rightarrow> string \<Rightarrow> validation_result \<Rightarrow> (string, validation_result) dict \<Rightarrow> (string, validation_result) dict" where
  "backing_set maxsize k v d =
     (if k \<in> set (dkeys d) then move_to_end k v d
      else drop (length d + 1 - maxsize) d @ [(k, v)])"

definition lru_set :: "nat \<Rightarrow> string \<Rightarrow> validation_result \<Rightarrow> lru \<Rightarrow> lru" where
  "lru_set maxsize k v c =
     (let will_evict = (k \<notin> set (dkeys (lru_backing c)) \<and> maxsize \<le> length (lru_backing c));
          backing = backing_set maxsize k v (lru_backing c);
          view = (if will_evict then filter (\<lambda>(j, _). j \<in> set (dkeys backing)) (lru_view c) else lru_view c)
      in \<lparr>lru_backing = backing, lru_view = move_to_end k v view\<rparr>)"

section \<open>The state\<close>

datatype background_task =
  AuditTask agent_message validation_result | DlqTask agent_message validation_result
| MeteringTask agent_message rat

text \<open>The breaker of the Rust strategy: its two counters and whether it is tripped\<close>

record rust_breaker =
  rb_failures :: nat
  rb_successes :: nat
  rb_tripped :: bool

record 'w processor =
  pr_message :: agent_message
  pr_world :: 'w
  pr_rust :: rust_breaker
  pr_cache :: lru
  pr_processed :: nat
  pr_failed :: nat
  pr_shadow_matches :: nat
  pr_shadow_mismatches :: nat
  pr_shadow_errors :: nat
  pr_sessions_resolved :: nat
  pr_sessions_not_found :: nat
  pr_sessions_failed :: nat
  pr_events :: "(string \<times> string) list"
  pr_tasks :: "background_task list"

type_synonym ('w, 'a) prc = "('w processor, 'a) eff"

definition in_world :: "('w, 'a) eff \<Rightarrow> ('w, 'a) prc" where
  "in_world m s = (case m (pr_world s) of (w, r) \<Rightarrow> (s\<lparr>pr_world := w\<rparr>, r))"

definition increment_failed_count :: "'w processor \<Rightarrow> 'w processor" where
  "increment_failed_count s = s\<lparr>pr_failed := pr_failed s + 1\<rparr>"

definition record_agent_workflow_event :: "string \<Rightarrow> string \<Rightarrow> 'w processor \<Rightarrow> 'w processor" where
  "record_agent_workflow_event ev reason s = s\<lparr>pr_events := pr_events s @ [(ev, reason)]\<rparr>"

section \<open>The session of a message\<close>

text \<open>\<open>str(v) if v else None\<close>; a value of the headers that is true and no dictionary has no \<open>get\<close>.\<close>

definition text_of :: "(json \<Rightarrow> string) \<Rightarrow> json \<Rightarrow> string" where
  "text_of tx j = (case j of JStr t \<Rightarrow> t | _ \<Rightarrow> tx j)"

definition truthy_text :: "(json \<Rightarrow> string) \<Rightarrow> json \<Rightarrow> string option" where
  "truthy_text tx j = (if json_truthy j \<and> text_of tx j \<noteq> [] then Some (text_of tx j) else None)"

type_synonym found_id = "pipeline_exn + string option"

definition or_else :: "found_id \<Rightarrow> found_id \<Rightarrow> found_id" where
  "or_else a b = (case a of Inr None \<Rightarrow> b | _ \<Rightarrow> a)"

definition header_session :: "(json \<Rightarrow> string) \<Rightarrow> agent_message \<Rightarrow> found_id" where
  "header_session tx m =
     (if \<not> json_truthy (am_headers m) then Inr None
      else case am_headers m of
        JObj d \<Rightarrow> Inr (truthy_text tx (truthy_or (dget_default d ''X-Session-ID'' JNull) (dget_default d ''x-session-id'' JNull)))
      | _ \<Rightarrow> Inl (AttributeErr, ''object has no attribute get''))"

definition key_session :: "(json \<Rightarrow> string) \<Rightarrow> json \<Rightarrow> found_id" where
  "key_session tx v = Inr (truthy_text tx (dget_default (json_dict_or_empty v) ''session_id'' JNull))"

definition field_session :: "(json \<Rightarrow> string) \<Rightarrow> json \<Rightarrow> found_id" where
  "field_session tx v = Inr (truthy_text tx v)"

definition extract_session_id_for_governance :: "(json \<Rightarrow> string) \<Rightarrow> agent_message \<Rightarrow> found_id" where
  "extract_session_id_for_governance tx m =
     or_else (header_session tx m) (or_else (key_session tx (am_metadata m)) (key_session tx (am_content m)))"

definition extract_session_id_for_pacar :: "(json \<Rightarrow> string) \<Rightarrow> agent_message \<Rightarrow> found_id" where
  "extract_session_id_for_pacar tx m =
     or_else (field_session tx (am_session_id m)) (or_else (header_session tx m)
    (or_else (field_session tx (am_conversation_id m)) (or_else (key_session tx (am_content m))
             (key_session tx (am_payload m)))))"

section \<open>The gates\<close>

definition rejection :: "string \<Rightarrow> string \<Rightarrow> validation_result" where
  "rejection e reason =
     new_result\<lparr>vr_is_valid := False, vr_errors := [e], vr_metadata := [(''rejection_reason'', JStr reason)]\<rparr>"

text \<open>\<open>isinstance(v, str) and v.strip()\<close>\<close>

definition filled :: "json \<Rightarrow> bool" where
  "filled j = (case j of JStr t \<Rightarrow> py_strip t \<noteq> [] | _ \<Rightarrow> False)"

definition message_metadata :: "agent_message \<Rightarrow> json_dict" where
  "message_metadata m = json_dict_or_empty (am_metadata m)"

definition validator_evidence :: "agent_message \<Rightarrow> json" where
  "validator_evidence m =
     truthy_or (dget_default (message_metadata m) ''validated_by_agent'' JNull)
               (dget_default (message_metadata m) ''independent_validator_id'' JNull)"

definition ADVISORY_BLOCKED_TYPES :: "string set" where
  "ADVISORY_BLOCKED_TYPES = {''command'', ''governance_request'', ''task_request''}"

definition enforce_autonomy_tier_rules :: "agent_message \<Rightarrow> validation_result option" where
  "enforce_autonomy_tier_rules m =
     (let kind = message_type_value (am_message_type m); d = message_metadata m
      in case am_autonomy_tier m of
           ADVISORY \<Rightarrow>
             if kind = ''command'' then Some (rejection ''Advisory agent cannot execute commands'' ''autonomy_tier_violation'')
             else if kind \<in> ADVISORY_BLOCKED_TYPES
             then Some (rejection (''Advisory agent cannot send '' @ kind @ '' messages'') ''autonomy_tier_violation'')
             else None
         | HUMAN_APPROVED \<Rightarrow>
             if \<not> filled (validator_evidence m)
             then Some (rejection ''Human-approved tier requires independent validation evidence'' ''autonomy_tier_violation'')
             else None
         | UNRESTRICTED \<Rightarrow>
             if \<not> filled (dget_default d ''unrestricted_grant_id'' JNull)
             then Some (rejection ''UNRESTRICTED tier requires unrestricted_grant_id in metadata'' ''autonomy_tier_violation'')
             else if \<not> filled (dget_default d ''grant_authority'' JNull)
             then Some (rejection ''UNRESTRICTED tier requires grant_authority in metadata'' ''autonomy_tier_violation'')
             else None
         | BOUNDED \<Rightarrow> None)"

text \<open>What the processor is built with, as far as the gates are concerned\<close>

record scan_verdict =
  sv_blocked :: bool
  sv_block_reason :: string
  sv_events :: json

record 'w gates =
  gt_require_independent_validator :: bool
  gt_independent_validator_threshold :: rat
  gt_runtime_scanner :: "agent_message \<Rightarrow> ('w, scan_verdict) eff"
  gt_text :: "json \<Rightarrow> string"

definition requires_independent_validation :: "'w gates \<Rightarrow> agent_message \<Rightarrow> pipeline_exn + bool" where
  "requires_independent_validation G m =
     (let kind = (am_message_type m \<in> {CONSTITUTIONAL_VALIDATION, GOVERNANCE_REQUEST});
          score = (if am_impact_score m = JNull then JInt 0 else am_impact_score m)
      in case py_num score of
           None \<Rightarrow> Inl (TypeErr, ''not supported between instances'')
         | Some x \<Rightarrow> Inr (gt_independent_validator_threshold G \<le> x \<or> kind))"

text \<open>\<open>MessageSecurityScanner.scan\<close>\<close>

definition security_scan :: "'w gates \<Rightarrow> agent_message \<Rightarrow> ('w, validation_result option) eff" where
  "security_scan G m =
     ebind (gt_runtime_scanner G m) (\<lambda>v. eret
       (if sv_blocked v
        then Some (new_result\<lparr>vr_is_valid := False, vr_errors := [sv_block_reason v],
                     vr_metadata := [(''rejection_reason'', JStr ''security_block''), (''security_events'', sv_events v)]\<rparr>)
        else None))"

text \<open>\<open>\<langle>content as text\<rangle>\<close>, and the seven patterns of the scanner: the first seven of the middleware's\<close>

definition content_text :: "'w gates \<Rightarrow> agent_message \<Rightarrow> string" where
  "content_text G m = text_of (gt_text G) (am_content m)"

definition detect_prompt_injection :: "'w gates \<Rightarrow> agent_message \<Rightarrow> validation_result option" where
  "detect_prompt_injection G m =
     (if list_ex (\<lambda>r. search_regex r (codes (content_text G m))) (take 7 PROMPT_INJECTION_PATTERNS)
      then Some (rejection ''Prompt injection detected'' ''prompt_injection'') else None)"

definition gate_failure :: "string \<Rightarrow> string \<Rightarrow> ('w, validation_result option) prc" where
  "gate_failure e reason =
     ebind (emodify (record_agent_workflow_event ''gate_failure'' reason)) (\<lambda>_. eret (Some (rejection e reason)))"

definition enforce_independent_validator_gate :: "'w gates \<Rightarrow> agent_message \<Rightarrow> ('w, validation_result option) prc" where
  "enforce_independent_validator_gate G m =
     (if \<not> gt_require_independent_validator G then eret None
      else case requires_independent_validation G m of
        Inl (c, t) \<Rightarrow> eraise c t
      | Inr False \<Rightarrow> eret None
      | Inr True \<Rightarrow>
          ebind (emodify (record_agent_workflow_event ''intervention'' ''independent_validator_required'')) (\<lambda>_.
            let stage = dget_default (message_metadata m) ''validation_stage'' JNull
            in if \<not> filled (validator_evidence m)
               then gate_failure ''Independent validator metadata is required for this message'' ''independent_validator_missing''
               else if validator_evidence m = am_from_agent m
               then gate_failure ''Independent validator must not be the originating agent'' ''independent_validator_self_validation''
               else if stage \<noteq> JNull \<and> stage \<noteq> JStr ''independent''
               then gate_failure ''validation_stage must be independent when validator evidence is present''
                      ''independent_validator_invalid_stage''
               else eret None))"

text \<open>\<open>run_message_validation_gates\<close>: the scan counts its failure itself, the others are counted here.\<close>

definition stop_at :: "('w, validation_result option) prc \<Rightarrow> bool \<Rightarrow> ('w, validation_result option) prc \<Rightarrow>
    ('w, validation_result option) prc" where
  "stop_at gate counts rest =
     ebind gate (\<lambda>v. case v of
       Some r \<Rightarrow> if counts then ebind (emodify increment_failed_count) (\<lambda>_. eret (Some r)) else eret (Some r)
     | None \<Rightarrow> rest)"

definition perform_security_scan :: "'w gates \<Rightarrow> agent_message \<Rightarrow> ('w, validation_result option) prc" where
  "perform_security_scan G m =
     ebind (in_world (security_scan G m)) (\<lambda>v. case v of
       None \<Rightarrow> eret None
     | Some r \<Rightarrow> ebind (emodify increment_failed_count) (\<lambda>_. eret (Some r)))"

definition run_message_validation_gates :: "'w gates \<Rightarrow> agent_message \<Rightarrow> ('w, validation_result option) prc" where
  "run_message_validation_gates G m =
     stop_at (eret (enforce_autonomy_tier_rules m)) True
    (stop_at (perform_security_scan G m) False
    (stop_at (enforce_independent_validator_gate G m) True
    (stop_at (eret (detect_prompt_injection G m)) True (eret None))))"

section \<open>Small parts\<close>

text \<open>
  \<open>compute_message_cache_key\<close> with the suffix of the processor: \<open>digest\<close> is the hash of the text, fast or
  SHA-256; \<open>mode\<close> is the governance mode with the two switches.
\<close>

definition cache_dimensions :: "'w gates \<Rightarrow> agent_message \<Rightarrow> pipeline_exn + string" where
  "cache_dimensions G m =
     (case (if json_truthy (am_session_id m) then Inr (am_session_id m)
            else case extract_session_id_for_governance (gt_text G) m of
                   Inl e \<Rightarrow> Inl e | Inr s \<Rightarrow> Inr (JStr (case s of None \<Rightarrow> [] | Some t \<Rightarrow> t))) of
        Inl e \<Rightarrow> Inl e
      | Inr session \<Rightarrow>
          Inr (content_text G m @ '':'' @ text_of (gt_text G) (am_constitutional_hash m) @ '':'' @
               text_of (gt_text G) (am_tenant_id m) @ '':'' @ text_of (gt_text G) (am_from_agent m) @ '':'' @
               message_type_value (am_message_type m) @ '':'' @ autonomy_tier_value (am_autonomy_tier m) @ '':'' @
               text_of (gt_text G) session))"

definition compute_cache_key :: "'w gates \<Rightarrow> (string \<Rightarrow> string) \<Rightarrow> string \<Rightarrow> agent_message \<Rightarrow> pipeline_exn + string" where
  "compute_cache_key G digest mode m =
     (case cache_dimensions G m of Inl e \<Rightarrow> Inl e | Inr t \<Rightarrow> Inr (digest t @ '':'' @ mode))"

definition build_dlq_entry :: "agent_message \<Rightarrow> validation_result \<Rightarrow> rat \<Rightarrow> json_dict" where
  "build_dlq_entry m r t =
     [(''message_id'', am_message_id m), (''from_agent'', am_from_agent m), (''to_agent'', am_to_agent m),
      (''message_type'', JStr (message_type_value (am_message_type m))),
      (''errors'', JList (map JStr (vr_errors r))), (''timestamp'', JNum t)]"

definition calculate_session_resolution_rate :: "nat \<Rightarrow> nat \<Rightarrow> nat \<Rightarrow> rat" where
  "calculate_session_resolution_rate resolved missing errors =
     (let n = resolved + missing + errors in if n > 0 then of_nat resolved / of_nat (max 1 n) else 0)"

definition extract_rejection_reason :: "validation_result \<Rightarrow> string" where
  "extract_rejection_reason r =
     (case dget (vr_metadata r) ''rejection_reason'' of
        Some (JStr t) \<Rightarrow> if t \<noteq> [] then t else ''validation_failed''
      | _ \<Rightarrow> ''validation_failed'')"

end
