(* ===== verification/Governance_Core.thy ===== *)
theory Governance_Core
  imports Message_Gates
begin

text \<open>
  \<^verbatim>\<open>src/governance/danger_signal.py\<close>, \<^verbatim>\<open>src/governance_core.py\<close> and \<^verbatim>\<open>src/governance_coordinator.py\<close>: the signals of
  danger with the quorum they ask for, the two governance cores, and the coordinator that runs them. The
  third-party constitution (its hash, the validation of a text, the mesh of validators) and the attestation
  of receipts are arguments, and so are the clock of a receipt and the digest of a text.
\<close>

section \<open>Signals of danger\<close>

datatype danger_severity = SEVERITY_LOW | SEVERITY_MEDIUM | SEVERITY_HIGH | SEVERITY_CRITICAL

fun severity_value :: "danger_severity \<Rightarrow> string" where
  "severity_value SEVERITY_LOW = ''low''"
| "severity_value SEVERITY_MEDIUM = ''medium''"
| "severity_value SEVERITY_HIGH = ''high''"
| "severity_value SEVERITY_CRITICAL = ''critical''"

datatype quorum_mode = MAJORITY | SUPER_MAJORITY | UNANIMOUS

fun quorum_mode_value :: "quorum_mode \<Rightarrow> string" where
  "quorum_mode_value MAJORITY = ''majority''"
| "quorum_mode_value SUPER_MAJORITY = ''super_majority''"
| "quorum_mode_value UNANIMOUS = ''unanimous''"

record danger_signal =
  ds_signal_id :: string
  ds_severity :: danger_severity
  ds_score :: rat
  ds_reason :: string
  ds_metadata :: json_dict

definition signal_to_metadata :: "danger_signal \<Rightarrow> json" where
  "signal_to_metadata s =
     JObj [(''signal_id'', JStr (ds_signal_id s)), (''severity'', JStr (severity_value (ds_severity s))),
           (''score'', JNum (ds_score s)), (''reason'', JStr (ds_reason s)), (''metadata'', JObj (ds_metadata s))]"

record quorum_decision =
  qd_mode :: quorum_mode
  qd_risk_score :: rat
  qd_required_votes :: nat
  qd_total_validators :: nat
  qd_signals :: "danger_signal list"

definition quorum_to_metadata :: "quorum_decision \<Rightarrow> json" where
  "quorum_to_metadata q =
     JObj [(''mode'', JStr (quorum_mode_value (qd_mode q))), (''risk_score'', JNum (qd_risk_score q)),
           (''required_votes'', JInt (int (qd_required_votes q))),
           (''total_validators'', JInt (int (qd_total_validators q))),
           (''signals'', JList (map signal_to_metadata (qd_signals q)))]"

definition CLINICAL_KEYWORDS :: "string list" where
  "CLINICAL_KEYWORDS = [''patient'', ''phi'', ''mrn'', ''diagnosis'', ''insurance'', ''clinical'', ''fhir'', ''dob'']"

definition DESTRUCTIVE_KEYWORDS :: "string list" where
  "DESTRUCTIVE_KEYWORDS = [''override'', ''disable'', ''bypass'', ''delete'', ''revoke'', ''transfer'', ''payment'']"

record governance_input =
  gi_tenant_id :: json
  gi_message_id :: json
  gi_producer_id :: json
  gi_producer_role :: "string option"
  gi_action_type :: string
  gi_content :: string
  gi_content_hash :: string
  gi_constitutional_hash :: json
  gi_autonomy_tier :: string
  gi_requires_independent_validator :: bool
  gi_security_scan_result :: "string option"
  gi_impact_score :: "rat option"
  gi_validator_ids :: "string list"

definition danger_signals :: "governance_input \<Rightarrow> danger_signal list" where
  "danger_signals g =
     (let normalized = py_lower (gi_content g)
      in (case gi_impact_score g of
            Some x \<Rightarrow> if 85 / 100 \<le> x
              then [\<lparr>ds_signal_id = ''high_impact_score'', ds_severity = (if x < 95 / 100 then SEVERITY_HIGH else SEVERITY_CRITICAL),
                     ds_score = min 1 x, ds_reason = ''Impact score indicates elevated governance risk.'',
                     ds_metadata = [(''impact_score'', JNum x)]\<rparr>]
              else []
          | None \<Rightarrow> []) @
         (if list_ex (\<lambda>k. text_in k normalized) CLINICAL_KEYWORDS
          then [\<lparr>ds_signal_id = ''clinical_data_path'', ds_severity = SEVERITY_HIGH, ds_score = 8 / 10,
                 ds_reason = ''Clinical/PHI-adjacent content detected.'', ds_metadata = []\<rparr>] else []) @
         (if list_ex (\<lambda>k. text_in k normalized) DESTRUCTIVE_KEYWORDS
          then [\<lparr>ds_signal_id = ''destructive_or_privileged_action'', ds_severity = SEVERITY_CRITICAL, ds_score = 95 / 100,
                 ds_reason = ''Destructive or privileged action keywords detected.'', ds_metadata = []\<rparr>] else []) @
         (if gi_action_type g \<in> {''governance_request'', ''constitutional_validation''}
          then [\<lparr>ds_signal_id = ''governance_control_plane'', ds_severity = SEVERITY_MEDIUM, ds_score = 65 / 100,
                 ds_reason = ''Control-plane governance action requires stronger review.'',
                 ds_metadata = [(''action_type'', JStr (gi_action_type g))]\<rparr>] else []) @
         (if gi_requires_independent_validator g
          then [\<lparr>ds_signal_id = ''independent_validator_required'', ds_severity = SEVERITY_MEDIUM, ds_score = 7 / 10,
                 ds_reason = ''Independent validator gate already classified this action as high-impact.'',
                 ds_metadata = []\<rparr>] else []) @
         (case gi_security_scan_result g of
            Some t \<Rightarrow> if t \<noteq> [] \<and> py_lower t \<noteq> ''passed''
              then [\<lparr>ds_signal_id = ''security_scan_not_clean'', ds_severity = SEVERITY_CRITICAL, ds_score = 1,
                     ds_reason = ''Security scan indicates unresolved risk.'',
                     ds_metadata = [(''security_scan_result'', JStr t)]\<rparr>]
              else []
          | None \<Rightarrow> []))"

definition risk_score :: "governance_input \<Rightarrow> rat" where
  "risk_score g =
     (case map ds_score (danger_signals g) of
        [] \<Rightarrow> max (case gi_impact_score g of None \<Rightarrow> 0 | Some x \<Rightarrow> x) 0
      | x # xs \<Rightarrow> fold max xs x)"

definition analyze_danger :: "governance_input \<Rightarrow> nat \<Rightarrow> quorum_decision" where
  "analyze_danger g validators =
     (let r = risk_score g;
          (mode, votes) =
            (if validators \<le> 1 then (UNANIMOUS, validators)
             else if 85 / 100 \<le> r then (UNANIMOUS, validators)
             else if 55 / 100 \<le> r then (SUPER_MAJORITY, nat \<lceil>of_nat validators * (2 / 3 :: rat)\<rceil>)
             else (MAJORITY, validators div 2 + 1))
      in \<lparr>qd_mode = mode, qd_risk_score = r, qd_required_votes = votes, qd_total_validators = validators,
          qd_signals = danger_signals g\<rparr>)"

section \<open>Decisions and receipts\<close>

datatype governance_mode = LEGACY | SHADOW | SWARM_ENFORCED

fun governance_mode_value :: "governance_mode \<Rightarrow> string" where
  "governance_mode_value LEGACY = ''legacy''"
| "governance_mode_value SHADOW = ''shadow''"
| "governance_mode_value SWARM_ENFORCED = ''swarm_enforced''"

definition normalize_governance_core_mode :: "string option \<Rightarrow> governance_mode option" where
  "normalize_governance_core_mode mode =
     enum_of governance_mode_value [LEGACY, SHADOW, SWARM_ENFORCED]
       (case mode of None \<Rightarrow> ''legacy'' | Some t \<Rightarrow> py_lower (py_strip t))"

record peer_decision =
  pd_approved :: bool
  pd_reason :: string
  pd_votes_for :: nat
  pd_votes_against :: nat
  pd_quorum_met :: bool
  pd_assignment_id :: json
  pd_proof_root :: json
  pd_proof_constitutional_hash :: json
  pd_manifold_summary :: json
  pd_trust_score :: "rat option"
  pd_adaptive_quorum :: "json option"

definition jnum_option :: "rat option \<Rightarrow> json" where
  "jnum_option x = (case x of None \<Rightarrow> JNull | Some r \<Rightarrow> JNum r)"

definition peer_to_metadata :: "peer_decision \<Rightarrow> json_dict" where
  "peer_to_metadata p =
     [(''approved'', JBool (pd_approved p)), (''reason'', JStr (pd_reason p)),
      (''votes_for'', JInt (int (pd_votes_for p))), (''votes_against'', JInt (int (pd_votes_against p))),
      (''quorum_met'', JBool (pd_quorum_met p)), (''assignment_id'', pd_assignment_id p),
      (''proof_root'', pd_proof_root p), (''proof_constitutional_hash'', pd_proof_constitutional_hash p),
      (''trust_score'', jnum_option (pd_trust_score p))] @
     (if pd_manifold_summary p = JNull then [] else [(''manifold_summary'', pd_manifold_summary p)]) @
     (case pd_adaptive_quorum p of None \<Rightarrow> [] | Some q \<Rightarrow> [(''adaptive_quorum'', q)])"

record governance_decision =
  gd_allowed :: bool
  gd_blocking_stage :: "string option"
  gd_reasons :: "string list"
  gd_rule_hits :: "string list"
  gd_peer_votes :: json_dict
  gd_trust_score :: "rat option"
  gd_constitutional_hash :: string
  gd_swarm_constitutional_hash :: "string option"
  gd_engine_mode :: string

definition swarm_hash_fields :: "string option \<Rightarrow> json \<Rightarrow> json_dict" where
  "swarm_hash_fields sh h =
     (case sh of None \<Rightarrow> []
      | Some t \<Rightarrow> [(''swarm_constitutional_hash'', JStr t), (''swarm_hash_aligned'', JBool (JStr t = h))])"

definition decision_to_metadata :: "governance_decision \<Rightarrow> json_dict" where
  "decision_to_metadata d =
     [(''allowed'', JBool (gd_allowed d)), (''blocking_stage'', jstr_option (gd_blocking_stage d)),
      (''reasons'', JList (map JStr (gd_reasons d))), (''rule_hits'', JList (map JStr (gd_rule_hits d))),
      (''peer_votes'', JObj (gd_peer_votes d)), (''trust_score'', jnum_option (gd_trust_score d)),
      (''constitutional_hash'', JStr (gd_constitutional_hash d)), (''engine_mode'', JStr (gd_engine_mode d)),
      (''receipt_ref'', JNull)] @
     swarm_hash_fields (gd_swarm_constitutional_hash d) (JStr (gd_constitutional_hash d))"

definition allowing :: "string \<Rightarrow> string \<Rightarrow> string option \<Rightarrow> governance_decision" where
  "allowing engine h sh = \<lparr>gd_allowed = True, gd_blocking_stage = None, gd_reasons = [], gd_rule_hits = [],
     gd_peer_votes = [], gd_trust_score = None, gd_constitutional_hash = h, gd_swarm_constitutional_hash = sh,
     gd_engine_mode = engine\<rparr>"

definition blocking :: "string \<Rightarrow> string list \<Rightarrow> string list \<Rightarrow> string \<Rightarrow> string \<Rightarrow> string option \<Rightarrow> governance_decision" where
  "blocking stage reasons hits engine h sh =
     (allowing engine h sh)\<lparr>gd_allowed := False, gd_blocking_stage := Some stage, gd_reasons := reasons, gd_rule_hits := hits\<rparr>"

record governance_receipt =
  gr_receipt_id :: string
  gr_engine_mode :: string
  gr_message_id :: json
  gr_producer_id :: json
  gr_content_hash :: string
  gr_constitutional_hash :: json
  gr_allowed :: bool
  gr_blocking_stage :: "string option"
  gr_reasons :: "string list"
  gr_rule_hits :: "string list"
  gr_peer_validation :: json_dict
  gr_trust_score :: "rat option"
  gr_swarm_constitutional_hash :: "string option"
  gr_created_at :: rat
  gr_attestation :: "json option"

definition receipt_to_metadata :: "governance_receipt \<Rightarrow> json_dict" where
  "receipt_to_metadata r =
     [(''receipt_id'', JStr (gr_receipt_id r)), (''engine_mode'', JStr (gr_engine_mode r)),
      (''message_id'', gr_message_id r), (''producer_id'', gr_producer_id r),
      (''content_hash'', JStr (gr_content_hash r)), (''constitutional_hash'', gr_constitutional_hash r),
      (''allowed'', JBool (gr_allowed r)), (''blocking_stage'', jstr_option (gr_blocking_stage r)),
      (''reasons'', JList (map JStr (gr_reasons r))), (''rule_hits'', JList (map JStr (gr_rule_hits r))),
      (''peer_validation'', JObj (gr_peer_validation r)), (''trust_score'', jnum_option (gr_trust_score r)),
      (''created_at'', JNum (gr_created_at r))] @
     swarm_hash_fields (gr_swarm_constitutional_hash r) (gr_constitutional_hash r) @
     (case gr_attestation r of None \<Rightarrow> [] | Some a \<Rightarrow> [(''attestation'', a)])"

section \<open>The cores\<close>

text \<open>What a core offers the coordinator; the attestation of a receipt may raise.\<close>

record 'w governance_core =
  gc_available :: bool
  gc_constitution_error :: "string option"
  gc_validate_local :: "governance_input \<Rightarrow> ('w, governance_decision) eff"
  gc_validate_peer :: "governance_input \<Rightarrow> ('w, peer_decision option) eff"
  gc_build_receipt :: "governance_input \<Rightarrow> governance_decision \<Rightarrow> ('w, governance_receipt) eff"

type_synonym 'w attestation = "(json_dict \<Rightarrow> ('w, json option) eff) option"

definition receipt_of :: "(json \<Rightarrow> string) \<Rightarrow> string \<Rightarrow> rat \<Rightarrow> governance_input \<Rightarrow> governance_decision \<Rightarrow> governance_receipt" where
  "receipt_of tx engine now g d =
     \<lparr>gr_receipt_id = engine @ '':'' @ text_of tx (gi_message_id g), gr_engine_mode = engine, gr_message_id = gi_message_id g,
      gr_producer_id = gi_producer_id g, gr_content_hash = gi_content_hash g,
      gr_constitutional_hash = gi_constitutional_hash g, gr_allowed = gd_allowed d,
      gr_blocking_stage = gd_blocking_stage d, gr_reasons = gd_reasons d, gr_rule_hits = gd_rule_hits d,
      gr_peer_validation = gd_peer_votes d, gr_trust_score = gd_trust_score d,
      gr_swarm_constitutional_hash = (if engine = ''legacy'' then None else gd_swarm_constitutional_hash d),
      gr_created_at = now, gr_attestation = None\<rparr>"

definition attach_receipt_attestation :: "'w attestation \<Rightarrow> governance_receipt \<Rightarrow> ('w, governance_receipt) eff" where
  "attach_receipt_attestation provider r =
     (case provider of
        None \<Rightarrow> eret r
      | Some attest \<Rightarrow> ebind (attest (receipt_to_metadata r)) (\<lambda>a. eret (r\<lparr>gr_attestation := a\<rparr>)))"

definition legacy_validate_local :: "string \<Rightarrow> governance_input \<Rightarrow> governance_decision" where
  "legacy_validate_local h g =
     (let v = validate_constitutional_hash (gi_constitutional_hash g)
      in if \<not> vr_is_valid v then blocking ''constitutional_hash'' (vr_errors v) [] ''legacy'' h None
         else allowing ''legacy'' h None)"

definition legacy_core :: "(json \<Rightarrow> string) \<Rightarrow> string \<Rightarrow> 'w attestation \<Rightarrow> ('w \<Rightarrow> rat) \<Rightarrow> 'w governance_core" where
  "legacy_core tx h provider clock =
     \<lparr>gc_available = True, gc_constitution_error = None,
      gc_validate_local = (\<lambda>g. eret (legacy_validate_local h g)),
      gc_validate_peer = (\<lambda>g. eret None),
      gc_build_receipt = (\<lambda>g d. ebind (eget clock) (\<lambda>now.
        attach_receipt_attestation provider (receipt_of tx ''legacy'' now g d)))\<rparr>"

text \<open>The library of the swarm: a constitution with its hash, its judgement of a text, and its mesh.\<close>

datatype dna_verdict = DnaValid | DnaViolations "string list" | DnaRaised string

record mesh_result =
  mr_accepted :: bool
  mr_quorum_met :: bool
  mr_votes_for :: nat
  mr_votes_against :: nat
  mr_assignment_id :: json
  mr_proof :: "(json \<times> json) option"
  mr_reputation :: "string \<Rightarrow> rat"
  mr_manifold_summary :: json

record 'w swarm =
  sw_hash :: "string option"
  sw_error :: string
  sw_expected_hash :: string
  sw_peer_validation :: bool
  sw_danger_signals :: bool
  sw_adaptive_quorum :: bool
  sw_dna :: "string \<Rightarrow> ('w, dna_verdict) eff"
  sw_mesh :: "governance_input \<Rightarrow> string list \<Rightarrow> nat \<Rightarrow> ('w, string + mesh_result) eff"
  sw_attestation :: "'w attestation"

definition extract_rule_hits :: "string list \<Rightarrow> string list" where
  "extract_rule_hits vs = filter (\<lambda>t. t \<noteq> []) (map (\<lambda>v. py_strip (takeWhile (\<lambda>c. c \<noteq> CHR '':'') v)) vs)"

definition dedupe_strings :: "string list \<Rightarrow> string list" where
  "dedupe_strings vs = rev (remdups (rev (filter (\<lambda>v. v \<noteq> []) vs)))"

definition swarm_validate_local :: "'w swarm \<Rightarrow> governance_input \<Rightarrow> ('w, governance_decision) eff" where
  "swarm_validate_local S g =
     (let v = validate_constitutional_hash (gi_constitutional_hash g);
          block = (\<lambda>stage reasons hits. blocking stage reasons hits ''swarm'' (sw_expected_hash S) (sw_hash S))
      in if \<not> vr_is_valid v then eret (block ''constitutional_hash'' (vr_errors v) [])
         else if sw_hash S = None then eret (block ''swarm_unavailable'' [sw_error S] [])
         else ebind (sw_dna S (gi_content g)) (\<lambda>verdict. eret
           (case verdict of
              DnaRaised e \<Rightarrow> block ''constitutional_rules'' [e] []
            | DnaViolations vs \<Rightarrow> block ''constitutional_rules'' vs (extract_rule_hits vs)
            | DnaValid \<Rightarrow> allowing ''swarm'' (sw_expected_hash S) (sw_hash S))))"

definition resolve_required_quorum :: "'w swarm \<Rightarrow> governance_input \<Rightarrow> nat \<Rightarrow> quorum_decision" where
  "resolve_required_quorum S g n =
     (let q = analyze_danger g n
      in if \<not> sw_danger_signals S \<and> \<not> sw_adaptive_quorum S
         then q\<lparr>qd_required_votes := n, qd_total_validators := n, qd_signals := []\<rparr>
         else if \<not> sw_adaptive_quorum S then q\<lparr>qd_required_votes := n, qd_total_validators := n\<rparr>
         else q)"

definition refused_peer :: "string \<Rightarrow> peer_decision" where
  "refused_peer e = \<lparr>pd_approved = False, pd_reason = e, pd_votes_for = 0, pd_votes_against = 0, pd_quorum_met = False,
     pd_assignment_id = JNull, pd_proof_root = JNull, pd_proof_constitutional_hash = JNull,
     pd_manifold_summary = JNull, pd_trust_score = None, pd_adaptive_quorum = None\<rparr>"

definition swarm_validate_peer :: "'w swarm \<Rightarrow> governance_input \<Rightarrow> ('w, peer_decision option) eff" where
  "swarm_validate_peer S g =
     (let ids = dedupe_strings (gi_validator_ids g); n = length ids; q = resolve_required_quorum S g n
      in if \<not> gi_requires_independent_validator g then eret None
         else if \<not> sw_peer_validation S \<or> ids = [] then eret None
         else if sw_hash S = None then eret (Some (refused_peer (sw_error S)))
         else ebind (sw_mesh S g ids (qd_required_votes q)) (\<lambda>out. eret (Some
           (case out of
              Inl e \<Rightarrow> refused_peer e
            | Inr r \<Rightarrow>
                \<lparr>pd_approved = (mr_accepted r \<and> mr_quorum_met r),
                 pd_reason = (if \<not> mr_quorum_met r then ''peer quorum not met''
                              else if \<not> mr_accepted r then ''peer validation rejected content'' else []),
                 pd_votes_for = mr_votes_for r, pd_votes_against = mr_votes_against r, pd_quorum_met = mr_quorum_met r,
                 pd_assignment_id = mr_assignment_id r,
                 pd_proof_root = (case mr_proof r of None \<Rightarrow> JNull | Some (rh, _) \<Rightarrow> rh),
                 pd_proof_constitutional_hash = (case mr_proof r of None \<Rightarrow> JNull | Some (_, h) \<Rightarrow> h),
                 pd_manifold_summary = mr_manifold_summary r,
                 pd_trust_score = Some (sum_list (map (mr_reputation r) ids) / of_nat n),
                 pd_adaptive_quorum = (if sw_danger_signals S \<or> sw_adaptive_quorum S
                                       then Some (quorum_to_metadata q) else None)\<rparr>))))"

definition swarm_core :: "(json \<Rightarrow> string) \<Rightarrow> 'w swarm \<Rightarrow> ('w \<Rightarrow> rat) \<Rightarrow> 'w governance_core" where
  "swarm_core tx S clock =
     \<lparr>gc_available = (sw_hash S \<noteq> None),
      gc_constitution_error = (if sw_hash S = None then Some (sw_error S) else None),
      gc_validate_local = swarm_validate_local S, gc_validate_peer = swarm_validate_peer S,
      gc_build_receipt = (\<lambda>g d. ebind (eget clock) (\<lambda>now.
        attach_receipt_attestation (sw_attestation S) (receipt_of tx ''swarm'' now g d)))\<rparr>"


section \<open>The coordinator\<close>

text \<open>
  What the processor stores of a message it is processing, as far as its steps read it; and the settings of
  the coordinator. \<open>digest\<close> is the SHA-256 digest of a text in hexadecimal digits.
\<close>

record governance_artifacts =
  ga_decision :: "governance_decision option"
  ga_receipt :: "governance_receipt option"
  ga_shadow :: "json option"

definition no_artifacts :: governance_artifacts where
  "no_artifacts = \<lparr>ga_decision = None, ga_receipt = None, ga_shadow = None\<rparr>"

record 'w coordinator =
  co_mode :: governance_mode
  co_constitutional_hash :: string
  co_digest :: "string \<Rightarrow> string"
  co_gates :: "'w gates"
  co_legacy :: "'w governance_core"
  co_swarm :: "'w governance_core"
  co_clock :: "'w \<Rightarrow> rat"

definition producer_role :: "agent_message \<Rightarrow> string option" where
  "producer_role m =
     (let d = message_metadata m
      in case dget d ''maci_role'' of
           Some (JStr t) \<Rightarrow> if py_strip t \<noteq> [] then Some t
             else (case dget (json_dict_or_empty (am_security_context m)) ''maci_role'' of Some (JStr u) \<Rightarrow> Some u | _ \<Rightarrow> None)
         | _ \<Rightarrow> (case dget (json_dict_or_empty (am_security_context m)) ''maci_role'' of Some (JStr u) \<Rightarrow> Some u | _ \<Rightarrow> None))"

definition declared_validators :: "agent_message \<Rightarrow> string list" where
  "declared_validators m =
     rev (remdups (rev (concat (map (\<lambda>k. case dget (message_metadata m) k of
        Some (JStr t) \<Rightarrow> if py_strip t \<noteq> [] then [py_strip t] else [] | _ \<Rightarrow> [])
       [''validated_by_agent'', ''independent_validator_id'']))))"

definition build_governance_input :: "'w coordinator \<Rightarrow> agent_message \<Rightarrow> pipeline_exn + governance_input" where
  "build_governance_input C m =
     (case (if gt_require_independent_validator (co_gates C) then requires_independent_validation (co_gates C) m
            else Inr False) of
        Inl e \<Rightarrow> Inl e
      | Inr required \<Rightarrow> Inr
          \<lparr>gi_tenant_id = am_tenant_id m, gi_message_id = am_message_id m,
           gi_producer_id = truthy_or (am_from_agent m) (JStr ''unknown-producer''),
           gi_producer_role = producer_role m, gi_action_type = message_type_value (am_message_type m),
           gi_content = content_text (co_gates C) m,
           gi_content_hash = take 32 (co_digest C (content_text (co_gates C) m)),
           gi_constitutional_hash = am_constitutional_hash m,
           gi_autonomy_tier = autonomy_tier_value (am_autonomy_tier m),
           gi_requires_independent_validator = required, gi_security_scan_result = Some ''passed'',
           gi_impact_score = py_num (am_impact_score m), gi_validator_ids = declared_validators m\<rparr>)"

definition peer_combined :: "governance_decision \<Rightarrow> peer_decision option \<Rightarrow> governance_decision" where
  "peer_combined d peer =
     d\<lparr>gd_allowed := gd_allowed d \<and> (case peer of None \<Rightarrow> True | Some p \<Rightarrow> pd_approved p),
       gd_blocking_stage := (if truthy_str (gd_blocking_stage d) then gd_blocking_stage d
         else case peer of Some p \<Rightarrow> if \<not> pd_approved p then Some ''peer_validation'' else None | None \<Rightarrow> None),
       gd_reasons := (case peer of None \<Rightarrow> gd_reasons d
         | Some p \<Rightarrow> if pd_approved p then gd_reasons d else filter (\<lambda>r. r \<noteq> []) (gd_reasons d @ [pd_reason p])),
       gd_peer_votes := (case peer of None \<Rightarrow> [] | Some p \<Rightarrow> peer_to_metadata p),
       gd_trust_score := (case peer of None \<Rightarrow> None | Some p \<Rightarrow> pd_trust_score p)\<rparr>"

definition swarm_judgement ::
  "'w coordinator \<Rightarrow> governance_input \<Rightarrow> ('w, governance_decision \<times> governance_receipt) eff" where
  "swarm_judgement C g =
     ebind (gc_validate_local (co_swarm C) g) (\<lambda>d.
     ebind (if gd_allowed d then gc_validate_peer (co_swarm C) g else eret None) (\<lambda>peer.
     ebind (gc_build_receipt (co_swarm C) g (peer_combined d peer)) (\<lambda>r.
       eret (peer_combined d peer, r))))"

definition coordinator_caught :: "exn_class \<Rightarrow> bool" where
  "coordinator_caught c =
     (c \<in> {AttributeErr, KeyErr, OSErr, TimeoutErr, ConnectionErr, RuntimeErr, TypeErr, ValueErr})"

definition governance_failure_result ::
  "'w coordinator \<Rightarrow> governance_input \<Rightarrow> governance_decision \<Rightarrow> governance_receipt \<Rightarrow> json option \<Rightarrow> validation_result" where
  "governance_failure_result C g d r shadow =
     new_result\<lparr>vr_is_valid := False,
       vr_errors := (if gd_reasons d = [] then [''Governance validation rejected the message''] else gd_reasons d),
       vr_metadata :=
         [(''rejection_reason'', JStr (if truthy_str (gd_blocking_stage d) then the (gd_blocking_stage d)
                                       else ''governance_core_rejected'')),
          (''rejection_stage'', JStr ''governance''),
          (''governance_core_mode'', JStr (governance_mode_value (co_mode C))),
          (''governance_decision'', JObj (decision_to_metadata d)),
          (''governance_receipt'', JObj (receipt_to_metadata r)),
          (''governance_input'', JObj [(''message_id'', gi_message_id g), (''producer_id'', gi_producer_id g),
             (''action_type'', JStr (gi_action_type g)), (''constitutional_hash'', gi_constitutional_hash g)])] @
         (case shadow of None \<Rightarrow> [] | Some s \<Rightarrow> [(''governance_shadow'', s)])\<rparr>"

definition shadow_error :: "bool \<Rightarrow> string \<Rightarrow> json" where
  "shadow_error legacy e =
     JObj [(''mode'', JStr ''shadow''), (''status'', JStr ''error''), (''legacy_allowed'', JBool legacy),
           (''swarm_allowed'', JNull), (''error'', JStr e)]"

definition shadow_parity ::
  "governance_decision \<Rightarrow> governance_receipt \<Rightarrow> governance_decision \<Rightarrow> governance_receipt \<Rightarrow> json" where
  "shadow_parity ld lr sd sr =
     JObj [(''mode'', JStr ''shadow''),
           (''status'', JStr (if gd_allowed ld = gd_allowed sd then ''match'' else ''mismatch'')),
           (''legacy_allowed'', JBool (gd_allowed ld)), (''swarm_allowed'', JBool (gd_allowed sd)),
           (''legacy_receipt'', JObj (receipt_to_metadata lr)), (''swarm_receipt'', JObj (receipt_to_metadata sr))]"

text \<open>The outcome of the governance of a message: what is stored of it and the failed result, if it is denied\<close>

type_synonym governance_outcome = "governance_artifacts \<times> validation_result option"

definition conclude ::
  "'w coordinator \<Rightarrow> governance_input \<Rightarrow> governance_decision \<Rightarrow> governance_receipt \<Rightarrow> json option \<Rightarrow> ('w, governance_outcome) prc" where
  "conclude C g d r shadow =
     (let stored = \<lparr>ga_decision = Some d, ga_receipt = Some r, ga_shadow = shadow\<rparr>
      in if gd_allowed d then eret (stored, None)
         else ebind (emodify increment_failed_count)
                (\<lambda>_. eret (stored, Some (governance_failure_result C g d r shadow))))"

definition swarm_failed :: "'w coordinator \<Rightarrow> governance_input \<Rightarrow> string \<Rightarrow> ('w, governance_outcome) prc" where
  "swarm_failed C g e =
     ebind (emodify increment_failed_count) (\<lambda>_.
     ebind (eget (\<lambda>s. co_clock C (pr_world s))) (\<lambda>now.
       let d = blocking ''swarm_error'' [e] [] ''swarm'' (co_constitutional_hash C) None;
           r = receipt_of (gt_text (co_gates C)) ''swarm'' now g (blocking ''swarm_error'' [e] [] ''swarm'' [] None)
       in eret (no_artifacts, Some (governance_failure_result C g d r None))))"

definition count_parity :: "bool \<Rightarrow> 'w processor \<Rightarrow> 'w processor" where
  "count_parity same s =
     (if same then s\<lparr>pr_shadow_matches := pr_shadow_matches s + 1\<rparr>
      else s\<lparr>pr_shadow_mismatches := pr_shadow_mismatches s + 1\<rparr>)"

definition count_shadow_error :: "'w processor \<Rightarrow> 'w processor" where
  "count_shadow_error s = s\<lparr>pr_shadow_errors := pr_shadow_errors s + 1\<rparr>"

definition compared_governance ::
  "'w coordinator \<Rightarrow> governance_input \<Rightarrow> governance_decision \<Rightarrow> governance_receipt \<Rightarrow> ('w, governance_outcome) prc" where
  "compared_governance C g ld lr s =
     (case in_world (swarm_judgement C g) s of
        (s', Inl e) \<Rightarrow>
          if \<not> coordinator_caught (fst e) then (s', Inl e)
          else if co_mode C = SWARM_ENFORCED then swarm_failed C g (snd e) s'
          else conclude C g ld lr (Some (shadow_error (gd_allowed ld) (snd e))) (count_shadow_error s')
      | (s', Inr (sd, sr)) \<Rightarrow>
          let shadow = Some (shadow_parity ld lr sd sr); s'' = count_parity (gd_allowed ld = gd_allowed sd) s'
          in if co_mode C = SWARM_ENFORCED then conclude C g sd sr shadow s'' else conclude C g ld lr shadow s'')"

definition run_governance :: "'w coordinator \<Rightarrow> ('w, governance_outcome) prc" where
  "run_governance C =
     ebind (eget (\<lambda>s. build_governance_input C (pr_message s))) (\<lambda>built. case built of
       Inl (c, t) \<Rightarrow> eraise c t
     | Inr g \<Rightarrow>
         ebind (in_world (gc_validate_local (co_legacy C) g)) (\<lambda>ld.
         ebind (in_world (gc_build_receipt (co_legacy C) g ld)) (\<lambda>lr.
           if co_mode C = LEGACY then conclude C g ld lr None
           else if co_mode C = SHADOW \<and> \<not> gc_available (co_swarm C)
           then ebind (emodify count_shadow_error) (\<lambda>_.
                  conclude C g ld lr (Some (shadow_error (gd_allowed ld)
                    (case gc_constitution_error (co_swarm C) of Some e \<Rightarrow> if e \<noteq> [] then e else ''swarm unavailable''
                                                              | None \<Rightarrow> ''swarm unavailable''))))
           else compared_governance C g ld lr)))"

definition attach_governance_metadata ::
  "'w coordinator \<Rightarrow> governance_artifacts \<Rightarrow> validation_result \<Rightarrow> validation_result" where
  "attach_governance_metadata C a r =
     (let d0 = dset ''governance_core_mode'' (JStr (governance_mode_value (co_mode C))) (vr_metadata r);
          d1 = (case ga_decision a of None \<Rightarrow> d0 | Some d \<Rightarrow> dset ''governance_decision'' (JObj (decision_to_metadata d)) d0);
          d2 = (case ga_receipt a of None \<Rightarrow> d1 | Some x \<Rightarrow> dset ''governance_receipt'' (JObj (receipt_to_metadata x)) d1);
          d3 = (case ga_shadow a of None \<Rightarrow> d2 | Some s \<Rightarrow> dset ''governance_shadow'' s d2)
      in r\<lparr>vr_metadata := d3\<rparr>)"

end
