(* ===== verification/Processing_Strategies.thy ===== *)
theory Processing_Strategies
  imports Message_Gates Pipeline
begin

text \<open>
  \<^verbatim>\<open>src/validation_strategies.py\<close>, \<^verbatim>\<open>src/processing_strategies.py\<close> and \<^verbatim>\<open>src/shared/fail_closed.py\<close>. A validation
  answers with a truth value and an optional error text; a processing strategy is a record of its operations
  over the state of the processor, whose message it may change. The policy client, the OPA client, the Rust
  processor, the post-quantum library, the formal verifier, the MACI validator and the handlers of the
  messages are arguments. An answer that is no string is given as text by \<open>tx\<close>. An exception here
  is one that derives from \<open>Exception\<close>: cancellation is not modelled.
\<close>

section \<open>Validation\<close>

type_synonym verdict = "bool \<times> string option"

type_synonym 'w validation = "('w, verdict) prc"

definition validation_caught :: "exn_class \<Rightarrow> bool" where
  "validation_caught c =
     (c \<in> {RuntimeErr, ValueErr, TypeErr, AttributeErr, KeyErr, OSErr, TimeoutErr, ConnectionErr,
           OtherErr ''IndexError'', OtherErr ''LookupError''})"

definition fail_closed :: "(exn_class \<Rightarrow> bool) \<Rightarrow> (pipeline_exn \<Rightarrow> 'a) \<Rightarrow> ('w, 'a) prc \<Rightarrow> ('w, 'a) prc" where
  "fail_closed cs answer m = ehandle cs m (\<lambda>e. eret (answer e))"

definition hash_mismatch :: string where
  "hash_mismatch = ''Constitutional hash mismatch: expected '' @ CONSTITUTIONAL_HASH"

definition static_verdict :: "bool \<Rightarrow> agent_message \<Rightarrow> verdict" where
  "static_verdict strict m =
     (if am_content m = JNull then (False, Some ''Message content cannot be None'')
      else if \<not> json_truthy (am_message_id m) then (False, Some ''Message ID is required'')
      else if strict \<and> am_constitutional_hash m \<noteq> JStr CONSTITUTIONAL_HASH then (False, Some hash_mismatch)
      else (True, None))"

definition static_hash_validation :: "bool \<Rightarrow> 'w validation" where
  "static_hash_validation strict = eget (\<lambda>s. static_verdict strict (pr_message s))"

text \<open>\<open>'; '.join(errors)\<close>\<close>

fun join_errors :: "string list \<Rightarrow> string" where
  "join_errors [] = []"
| "join_errors [e] = e"
| "join_errors (e # es) = e @ ''; '' @ join_errors es"

definition client_verdict :: "bool \<times> string list \<Rightarrow> verdict" where
  "client_verdict r = (if fst r then (True, None) else (False, Some (join_errors (snd r))))"

type_synonym 'w message_client = "(agent_message \<Rightarrow> ('w, bool \<times> string list) eff) option"

definition dynamic_policy_validation :: "'w message_client \<Rightarrow> 'w validation" where
  "dynamic_policy_validation client =
     (case client of
        None \<Rightarrow> eret (False, Some ''Policy client not available'')
      | Some ask \<Rightarrow>
          fail_closed validation_caught (\<lambda>e. (False, Some (''Dynamic validation error: '' @ snd e)))
            (ebind (eget pr_message) (\<lambda>m. ebind (in_world (ask m)) (\<lambda>r. eret (client_verdict r)))))"

text \<open>\<open>message.to_dict()\<close>: the dictionary stays cached in the message.\<close>

definition message_dict :: "('w, pydict) prc" where
  "message_dict s = (case to_dict (pr_message s) of (m, d) \<Rightarrow> (s\<lparr>pr_message := m\<rparr>, Inr d))"

type_synonym 'w dict_client = "(pydict \<Rightarrow> ('w, bool \<times> string list) eff) option"

definition opa_validation :: "'w dict_client \<Rightarrow> 'w validation" where
  "opa_validation client =
     (case client of
        None \<Rightarrow> eret (False, Some ''OPA client not available'')
      | Some ask \<Rightarrow>
          fail_closed validation_caught (\<lambda>e. (False, Some (''OPA validation error: '' @ snd e)))
            (ebind message_dict (\<lambda>d. ebind (in_world (ask d)) (\<lambda>r. eret (client_verdict r)))))"

datatype rust_answer = RustBool bool | RustDict json_dict | RustOther

record 'w rust_processor =
  rp_validate_message :: "(pydict \<Rightarrow> ('w, rust_answer) eff) option"
  rp_validate :: "(pydict \<Rightarrow> ('w, rust_answer) eff) option"
  rp_constitutional_validate :: "(json \<Rightarrow> string \<Rightarrow> ('w, bool) eff) option"
  rp_process :: "agent_message \<Rightarrow> ('w, bool \<times> string list) eff"
  rp_process_bulk :: "((json \<times> json \<times> json) list \<Rightarrow> ('w, bool list) eff) option"

definition error_text :: "(json \<Rightarrow> string) \<Rightarrow> json \<Rightarrow> string option" where
  "error_text tx j = (if j = JNull then None else Some (text_of tx j))"

definition rust_verdict :: "(json \<Rightarrow> string) \<Rightarrow> rust_answer \<Rightarrow> verdict option" where
  "rust_verdict tx a =
     (case a of
        RustBool b \<Rightarrow> Some (if b then (True, None) else (False, Some ''Rust validation rejected message''))
      | RustDict d \<Rightarrow> Some (if json_truthy (dget_default d ''is_valid'' (JBool False)) then (True, None)
                     else (False, error_text tx (dget_default d ''error'' (JStr ''Rust validation failed''))))
      | RustOther \<Rightarrow> None)"

definition try_rust ::
  "(json \<Rightarrow> string) \<Rightarrow> (pydict \<Rightarrow> ('w, rust_answer) eff) option \<Rightarrow> 'w validation \<Rightarrow> 'w validation" where
  "try_rust tx f rest =
     (case f of
        None \<Rightarrow> rest
      | Some ask \<Rightarrow> ebind message_dict (\<lambda>d. ebind (in_world (ask d)) (\<lambda>a.
          case rust_verdict tx a of Some v \<Rightarrow> eret v | None \<Rightarrow> rest)))"

definition rust_validation :: "(json \<Rightarrow> string) \<Rightarrow> 'w rust_processor option \<Rightarrow> 'w validation" where
  "rust_validation tx rp =
     (case rp of
        None \<Rightarrow> eret (False, Some ''Rust processor not available'')
      | Some r \<Rightarrow>
          fail_closed validation_caught (\<lambda>e. (False, Some (''Rust validation error: '' @ snd e)))
            (try_rust tx (rp_validate_message r) (try_rust tx (rp_validate r)
              (case rp_constitutional_validate r of
                 Some check \<Rightarrow> ebind (eget pr_message) (\<lambda>m.
                   ebind (in_world (check (am_constitutional_hash m) CONSTITUTIONAL_HASH)) (\<lambda>ok. eret
                     (if ok then (True, None) else (False, Some ''Constitutional hash validation failed in Rust backend''))))
               | None \<Rightarrow> eret (False, Some ''Rust processor has no validation method - fail closed'')))))"

text \<open>
  \<open>PQCValidationStrategy\<close>: with a validator that is handed in, the classes of the library are never set and
  reading them raises; \<open>pv_injected\<close> tells the two apart. The decodings raise or give bytes.
\<close>

record 'w pqc_library =
  pv_injected :: bool
  pv_b64decode :: "json \<Rightarrow> pipeline_exn + string"
  pv_fromhex :: "json \<Rightarrow> pipeline_exn + string"
  pv_verify :: "agent_message \<Rightarrow> string \<Rightarrow> string \<Rightarrow> ('w, bool) eff"

definition pqc_caught :: "exn_class \<Rightarrow> bool" where
  "pqc_caught c = (c \<in> {ValueErr, TypeErr, KeyErr, OtherErr ''Error''})"

definition classical_verdict :: "agent_message \<Rightarrow> verdict" where
  "classical_verdict m = (if am_constitutional_hash m \<noteq> JStr CONSTITUTIONAL_HASH then (False, Some hash_mismatch) else (True, None))"

definition lift_sum :: "pipeline_exn + 'a \<Rightarrow> ('s, 'a) eff" where
  "lift_sum x = (case x of Inl (c, t) \<Rightarrow> eraise c t | Inr a \<Rightarrow> eret a)"

definition public_key_bytes :: "'w pqc_library \<Rightarrow> json \<Rightarrow> pipeline_exn + string option" where
  "public_key_bytes L key =
     (case pv_b64decode L key of
        Inr b \<Rightarrow> Inr (Some b)
      | Inl e \<Rightarrow> if fst e \<in> {ValueErr, TypeErr, OtherErr ''Error''}
          then (case pv_fromhex L key of
                  Inr b \<Rightarrow> Inr (Some b)
                | Inl e' \<Rightarrow> if fst e' \<in> {ValueErr, TypeErr} then Inr None else Inl e')
          else Inl e)"

definition pqc_signature_verdict :: "'w pqc_library \<Rightarrow> 'w validation" where
  "pqc_signature_verdict L =
     ebind (eget pr_message) (\<lambda>m.
     ebind (lift_sum (pv_b64decode L (am_pqc_signature m))) (\<lambda>signature.
       if \<not> json_truthy (am_pqc_public_key m)
       then eret (False, Some ''PQC public key is required for signature verification'')
       else ebind (lift_sum (public_key_bytes L (am_pqc_public_key m))) (\<lambda>key. case key of
         None \<Rightarrow> eret (False, Some ''Invalid PQC public key format'')
       | Some k \<Rightarrow>
           if pv_injected L then eraise AttributeErr ''object has no attribute _PQCSignature''
           else ebind (in_world (pv_verify L m signature k)) (\<lambda>ok. eret
             (if ok then (True, None) else (False, Some ''PQC signature verification failed''))))))"

definition pqc_validation :: "bool \<Rightarrow> 'w pqc_library option \<Rightarrow> 'w validation" where
  "pqc_validation hybrid lib =
     ebind (eget pr_message) (\<lambda>m. case lib of
        None \<Rightarrow> eret (if hybrid then classical_verdict m else (False, Some ''PQC validator not available''))
      | Some L \<Rightarrow>
          if \<not> json_truthy (am_pqc_signature m)
          then eret (if hybrid then classical_verdict m else (False, Some ''PQC signature required but not provided''))
          else ehandle pqc_caught (pqc_signature_verdict L) (\<lambda>e. eret
                 (if hybrid \<and> am_constitutional_hash m = JStr CONSTITUTIONAL_HASH then (True, None)
                  else (False, Some (''PQC validation error: '' @ snd e)))))"

text \<open>
  The composite: each member with its name and whether it is the post-quantum one. An error that is empty or
  missing is not reported outside the post-quantum member, which first judges a signed message.
\<close>

record 'w member =
  me_is_pqc :: bool
  me_name :: string
  me_validate :: "'w validation"

definition shown :: "string option \<Rightarrow> string" where
  "shown e = (case e of None \<Rightarrow> ''None'' | Some t \<Rightarrow> t)"

fun pqc_errors :: "'w member list \<Rightarrow> ('w, string list) prc" where
  "pqc_errors [] = eret []"
| "pqc_errors (v # vs) =
     ebind (eget (\<lambda>s. me_is_pqc v \<and> json_truthy (am_pqc_signature (pr_message s)))) (\<lambda>signed.
       if signed
       then ebind (me_validate v) (\<lambda>(ok, e). ebind (pqc_errors vs) (\<lambda>es.
              eret (if ok then es else (''PQC: '' @ shown e) # es)))
       else pqc_errors vs)"

fun other_errors :: "'w member list \<Rightarrow> ('w, string list) prc" where
  "other_errors [] = eret []"
| "other_errors (v # vs) =
     ebind (eget (\<lambda>s. me_is_pqc v \<and> json_truthy (am_pqc_signature (pr_message s)))) (\<lambda>signed.
       if signed then other_errors vs
       else ebind (me_validate v) (\<lambda>(ok, e). ebind (other_errors vs) (\<lambda>es.
              eret (if \<not> ok \<and> truthy_str e then (me_name v @ '': '' @ the e) # es else es))))"

definition composite_validation :: "'w member list \<Rightarrow> 'w validation" where
  "composite_validation vs =
     ebind (pqc_errors vs) (\<lambda>es. ebind (other_errors vs) (\<lambda>es'.
       eret (if es @ es' \<noteq> [] then (False, Some (join_errors (es @ es'))) else (True, None))))"

text \<open>The formal verifier is given the dictionary of the message, the context and the session.\<close>

fun priority_name :: "priority \<Rightarrow> string" where
  "priority_name PRIORITY_LOW = ''LOW''"
| "priority_name PRIORITY_NORMAL = ''NORMAL''"
| "priority_name PRIORITY_HIGH = ''HIGH''"
| "priority_name PRIORITY_CRITICAL = ''CRITICAL''"

definition verifier_context :: "agent_message \<Rightarrow> json_dict" where
  "verifier_context m =
     dict_update [(''message_type'', JStr (py_upper (message_type_value (am_message_type m)))),
        (''priority'', JStr (priority_name (am_priority m))), (''sender'', am_from_agent m),
        (''tenant_id'', am_tenant_id m)]
       (filter (\<lambda>(k, v). py_num v \<noteq> None) (json_dict_or_empty (am_content m)))"

definition constitutional_validation ::
  "(pydict \<Rightarrow> json_dict \<Rightarrow> json \<Rightarrow> ('w, bool \<times> string) eff) option \<Rightarrow> 'w validation" where
  "constitutional_validation verifier =
     (case verifier of
        None \<Rightarrow> eret (False, Some ''Constitutional verifier not available'')
      | Some verify \<Rightarrow>
          fail_closed validation_caught (\<lambda>e. (False, Some (''Formal verification error: '' @ snd e)))
            (ebind (eget pr_message) (\<lambda>m. ebind message_dict (\<lambda>d.
             ebind (in_world (verify d (verifier_context m) (am_conversation_id m))) (\<lambda>(ok, reason). eret
               (if ok then (True, None) else (False, Some (''Constitutional violation: '' @ reason))))))))"


section \<open>Processing\<close>

record 'w strategy =
  sg_process :: "('w, validation_result) prc"
  sg_available :: "'w processor \<Rightarrow> bool"
  sg_name :: string
  sg_record_failure :: "('w processor \<Rightarrow> 'w processor) option"

text \<open>A handler, or a validator of MACI, is given the message and works on the world; it may change both.\<close>

type_synonym ('w, 'a) message_act = "(agent_message \<times> 'w, 'a) eff"

definition on_message :: "('w, 'a) message_act \<Rightarrow> ('w, 'a) prc" where
  "on_message h s =
     (case h (pr_message s, pr_world s) of ((m, w), r) \<Rightarrow> (s\<lparr>pr_message := m, pr_world := w\<rparr>, r))"

type_synonym 'w handlers = "(message_type, ('w, unit) message_act list) dict"

definition MACI_ERRORS :: "string set" where
  "MACI_ERRORS = {''MACIError'', ''MACIRoleViolationError'', ''MACISelfValidationError'',
     ''MACICrossRoleValidationError'', ''MACIRoleNotAssignedError'', ''MACIActionDeniedError''}"

definition processing_caught :: "exn_class \<Rightarrow> bool" where
  "processing_caught c =
     (c \<in> {RuntimeErr, ValueErr, TypeErr, AttributeErr, KeyErr, OSErr, TimeoutErr, ConnectionErr,
           OtherErr ''IndexError'', OtherErr ''LookupError''} \<or> c \<in> OtherErr ` MACI_ERRORS)"

definition invalid :: "string list \<Rightarrow> validation_result" where
  "invalid es = new_result\<lparr>vr_is_valid := False, vr_errors := es\<rparr>"

definition one_error :: "string option \<Rightarrow> string list" where
  "one_error e = (if truthy_str e then [the e] else [])"

definition set_status :: "message_status \<Rightarrow> 'w processor \<Rightarrow> 'w processor" where
  "set_status st s = s\<lparr>pr_message := (pr_message s)\<lparr>am_status := st\<rparr>\<rparr>"

definition stamp_status :: "('w \<Rightarrow> rat) \<Rightarrow> message_status \<Rightarrow> 'w processor \<Rightarrow> 'w processor" where
  "stamp_status clock st s =
     s\<lparr>pr_message := (pr_message s)\<lparr>am_status := st, am_updated_at := clock (pr_world s)\<rparr>\<rparr>"

fun run_handlers :: "('w, unit) message_act list \<Rightarrow> ('w, unit) prc" where
  "run_handlers [] = eret ()"
| "run_handlers (h # hs) = ebind (on_message h) (\<lambda>_. run_handlers hs)"

definition handler_error :: "pipeline_exn \<Rightarrow> string" where
  "handler_error e = (if fst e = RuntimeErr then ''Runtime error: '' @ snd e else exn_name (fst e) @ '': '' @ snd e)"

definition execute_handlers :: "('w \<Rightarrow> rat) \<Rightarrow> 'w handlers \<Rightarrow> ('w, validation_result) prc" where
  "execute_handlers clock hs =
     ebind (emodify (stamp_status clock MSG_PROCESSING)) (\<lambda>_.
       ehandle processing_caught
         (ebind (eget (\<lambda>s. dget_default hs (am_message_type (pr_message s)) [])) (\<lambda>todo.
          ebind (run_handlers todo) (\<lambda>_.
          ebind (emodify (stamp_status clock MSG_DELIVERED)) (\<lambda>_. eret new_result))))
         (\<lambda>e. ebind (emodify (set_status MSG_FAILED)) (\<lambda>_. eret (invalid [handler_error e]))))"

definition python_process :: "('w \<Rightarrow> rat) \<Rightarrow> 'w validation \<Rightarrow> 'w handlers \<Rightarrow> ('w, validation_result) prc" where
  "python_process clock validate hs =
     ebind validate (\<lambda>(ok, e).
       if \<not> ok then ebind (emodify (set_status MSG_FAILED)) (\<lambda>_. eret (invalid (one_error e)))
       else execute_handlers clock hs)"

definition python_strategy :: "('w \<Rightarrow> rat) \<Rightarrow> 'w validation \<Rightarrow> 'w handlers \<Rightarrow> 'w strategy" where
  "python_strategy clock validate hs =
     \<lparr>sg_process = python_process clock validate hs, sg_available = (\<lambda>s. True), sg_name = ''python'',
      sg_record_failure = None\<rparr>"

definition client_strategy ::
  "string \<Rightarrow> string \<Rightarrow> bool \<Rightarrow> ('w \<Rightarrow> rat) \<Rightarrow> 'w validation \<Rightarrow> 'w handlers \<Rightarrow> 'w strategy" where
  "client_strategy name what there clock validate hs =
     \<lparr>sg_process = ehandle processing_caught (python_process clock validate hs)
        (\<lambda>e. ebind (emodify (set_status MSG_FAILED)) (\<lambda>_. eret (invalid [what @ '' validation error: '' @ snd e]))),
      sg_available = (\<lambda>s. there), sg_name = name, sg_record_failure = None\<rparr>"

definition dynamic_policy_strategy :: "('w \<Rightarrow> rat) \<Rightarrow> 'w message_client \<Rightarrow> 'w handlers \<Rightarrow> 'w strategy" where
  "dynamic_policy_strategy clock client =
     client_strategy ''dynamic_policy'' ''Policy'' (client \<noteq> None) clock (dynamic_policy_validation client)"

definition opa_strategy :: "('w \<Rightarrow> rat) \<Rightarrow> 'w dict_client \<Rightarrow> 'w handlers \<Rightarrow> 'w strategy" where
  "opa_strategy clock client = client_strategy ''opa'' ''OPA'' (client \<noteq> None) clock (opa_validation client)"

text \<open>The Rust strategy with its breaker: three failures trip it, five successes reset it.\<close>

definition rust_failure :: "'w processor \<Rightarrow> 'w processor" where
  "rust_failure s =
     (let b = pr_rust s; n = rb_failures b + 1
      in s\<lparr>pr_rust := \<lparr>rb_failures = n, rb_successes = 0, rb_tripped = (3 \<le> n \<or> rb_tripped b)\<rparr>\<rparr>)"

definition rust_success :: "'w processor \<Rightarrow> 'w processor" where
  "rust_success s =
     (let b = pr_rust s; n = rb_successes b + 1
      in s\<lparr>pr_rust := (if 5 \<le> n then \<lparr>rb_failures = 0, rb_successes = n, rb_tripped = False\<rparr>
                       else b\<lparr>rb_successes := n\<rparr>)\<rparr>)"

definition rust_available :: "'w rust_processor option \<Rightarrow> 'w processor \<Rightarrow> bool" where
  "rust_available rp s =
     (case rp of None \<Rightarrow> False
      | Some r \<Rightarrow> \<not> rb_tripped (pr_rust s) \<and> (rp_validate r \<noteq> None \<or> rp_validate_message r \<noteq> None))"

text \<open>\<open>_to_rust\<close> reads the items of the content; what has none raises.\<close>

definition rust_run :: "'w rust_processor \<Rightarrow> ('w, bool \<times> string list) prc" where
  "rust_run r =
     ebind (eget pr_message) (\<lambda>m. case am_content m of
       JObj _ \<Rightarrow> in_world (rp_process r m)
     | _ \<Rightarrow> eraise AttributeErr ''object has no attribute items'')"

definition rust_process ::
  "(json \<Rightarrow> string) \<Rightarrow> ('w \<Rightarrow> rat) \<Rightarrow> 'w rust_processor option \<Rightarrow> bool \<Rightarrow> 'w handlers \<Rightarrow> ('w, validation_result) prc" where
  "rust_process tx clock rp bindings hs =
     ebind (eget (rust_available rp)) (\<lambda>there.
       if \<not> there then eret (invalid [''Rust not available''])
       else ehandle processing_caught
         (ebind (rust_validation tx rp) (\<lambda>(ok, e).
            if \<not> ok then ebind (emodify (set_status MSG_FAILED)) (\<lambda>_. eret (invalid (one_error e)))
            else if rp = None \<or> \<not> bindings
            then ebind (emodify (set_status MSG_FAILED)) (\<lambda>_. eret (invalid [''Rust backend not initialized'']))
            else ebind (rust_run (the rp)) (\<lambda>(fine, es).
              if fine then ebind (emodify rust_success) (\<lambda>_.
                ebind (execute_handlers clock hs) (\<lambda>h.
                  if \<not> vr_is_valid h then eret h
                  else ebind (emodify (set_status MSG_DELIVERED)) (\<lambda>_. eret new_result)))
              else ebind (emodify (set_status MSG_FAILED)) (\<lambda>_. eret (invalid es)))))
         (\<lambda>e. ebind (emodify rust_failure) (\<lambda>_. eret (invalid [''Rust processing error: '' @ snd e]))))"

definition rust_strategy ::
  "(json \<Rightarrow> string) \<Rightarrow> ('w \<Rightarrow> rat) \<Rightarrow> 'w rust_processor option \<Rightarrow> bool \<Rightarrow> 'w handlers \<Rightarrow> 'w strategy" where
  "rust_strategy tx clock rp bindings hs =
     \<lparr>sg_process = rust_process tx clock rp bindings hs, sg_available = rust_available rp, sg_name = ''rust'',
      sg_record_failure = Some rust_failure\<rparr>"

text \<open>A batch: validation alone, in one call of the processor where it has one, else message by message\<close>

definition with_message :: "agent_message \<Rightarrow> ('w, 'a) prc \<Rightarrow> ('w, 'a) prc" where
  "with_message m act s = (case act (s\<lparr>pr_message := m\<rparr>) of (s', r) \<Rightarrow> (s'\<lparr>pr_message := pr_message s\<rparr>, r))"

fun one_by_one :: "('w, validation_result) prc \<Rightarrow> agent_message list \<Rightarrow> ('w, validation_result list) prc" where
  "one_by_one act [] = eret []"
| "one_by_one act (m # ms) =
     ebind (with_message m act) (\<lambda>r. ebind (one_by_one act ms) (\<lambda>rs. eret (r # rs)))"

definition bulk_row :: "agent_message \<Rightarrow> pipeline_exn + json \<times> json \<times> json" where
  "bulk_row m =
     (case am_headers m of
        JObj d \<Rightarrow> (case (dget_default d ''signature'' (JStr []), dget_default d ''sender_key'' (JStr [])) of
            (JStr a, JStr b) \<Rightarrow> Inr (am_content m, JStr a, JStr b)
          | _ \<Rightarrow> Inl (AttributeErr, ''object has no attribute encode''))
      | _ \<Rightarrow> Inl (AttributeErr, ''object has no attribute get''))"

fun bulk_rows :: "agent_message list \<Rightarrow> pipeline_exn + (json \<times> json \<times> json) list" where
  "bulk_rows [] = Inr []"
| "bulk_rows (m # ms) =
     (case bulk_row m of Inl e \<Rightarrow> Inl e
      | Inr x \<Rightarrow> (case bulk_rows ms of Inl e \<Rightarrow> Inl e | Inr xs \<Rightarrow> Inr (x # xs)))"

definition bulk_results :: "bool list \<Rightarrow> ('w, validation_result list) prc" where
  "bulk_results vs =
     ebind (emodify (\<lambda>s. fold (\<lambda>v t. if v then rust_success t else t) vs s)) (\<lambda>_.
       eret (map (\<lambda>v. if v then new_result else invalid [''Bulk validation failed'']) vs))"

definition rust_process_bulk ::
  "(json \<Rightarrow> string) \<Rightarrow> ('w \<Rightarrow> rat) \<Rightarrow> 'w rust_processor option \<Rightarrow> bool \<Rightarrow> agent_message list \<Rightarrow> ('w, validation_result list) prc" where
  "rust_process_bulk tx clock rp bindings ms =
     ebind (eget (\<lambda>s. case rp of Some r \<Rightarrow> if rust_available rp s then rp_process_bulk r else None | None \<Rightarrow> None))
       (\<lambda>bulk. case bulk of
          None \<Rightarrow> one_by_one (rust_process tx clock rp bindings []) ms
        | Some ask \<Rightarrow>
            ehandle processing_caught
              (ebind (lift_sum (bulk_rows ms)) (\<lambda>rows. ebind (in_world (ask rows)) bulk_results))
              (\<lambda>_. ebind (emodify rust_failure) (\<lambda>_. one_by_one (rust_process tx clock rp bindings []) ms)))"

text \<open>The composite: the first available strategy that does not raise decides.\<close>

fun composite_run :: "'w strategy list \<Rightarrow> string list \<Rightarrow> ('w, validation_result + string list) prc" where
  "composite_run [] es = eret (Inr es)"
| "composite_run (g # gs) es =
     ebind (eget (sg_available g)) (\<lambda>there.
       if \<not> there then composite_run gs es
       else (\<lambda>s. case sg_process g s of
          (s', Inr r) \<Rightarrow> (s', Inr (Inl r))
        | (s', Inl e) \<Rightarrow>
            if processing_caught (fst e)
            then composite_run gs (es @ [exn_name (fst e) @ '': '' @ snd e])
                   (case sg_record_failure g of None \<Rightarrow> s' | Some f \<Rightarrow> f s')
            else (s', Inl e)))"

definition composite_process :: "(string list \<Rightarrow> string) \<Rightarrow> 'w strategy list \<Rightarrow> ('w, validation_result) prc" where
  "composite_process list_text gs =
     ebind (composite_run gs []) (\<lambda>out. eret
       (case out of Inl r \<Rightarrow> r | Inr es \<Rightarrow> invalid [''All processing strategies failed: '' @ list_text es]))"

fun join_names :: "string list \<Rightarrow> string" where
  "join_names [] = []"
| "join_names [n] = n"
| "join_names (n # ns) = n @ ''+'' @ join_names ns"

definition composite_strategy :: "(string list \<Rightarrow> string) \<Rightarrow> 'w strategy list \<Rightarrow> 'w strategy" where
  "composite_strategy list_text gs =
     \<lparr>sg_process = composite_process list_text gs, sg_available = (\<lambda>s. list_ex (\<lambda>g. sg_available g s) gs),
      sg_name = ''composite('' @ join_names (map sg_name gs) @ '')'', sg_record_failure = None\<rparr>"

text \<open>
  The MACI wrapper. The validator answers with a pair, with a result object, or with something else; there is
  none where the enforcer is missing.
\<close>

datatype maci_answer = PairAnswer bool json | ResultAnswer bool json json | OtherAnswer

definition json_string :: "json \<Rightarrow> string option" where
  "json_string j = (case j of JStr t \<Rightarrow> Some t | _ \<Rightarrow> None)"

definition coerce_validation_result :: "maci_answer \<Rightarrow> pipeline_exn + verdict" where
  "coerce_validation_result a =
     (case a of
        PairAnswer ok e \<Rightarrow> Inr (ok, json_string e)
      | ResultAnswer ok msg violation \<Rightarrow> Inr (ok, json_string (truthy_or msg violation))
      | OtherAnswer \<Rightarrow> Inl (TypeErr, ''Unsupported MACI validation result contract''))"

definition maci_process ::
  "bool \<Rightarrow> ('w, maci_answer) message_act option \<Rightarrow> 'w strategy \<Rightarrow> ('w, validation_result) prc" where
  "maci_process strict validator inner =
     (case validator of
        None \<Rightarrow> sg_process inner
      | Some validate \<Rightarrow>
          ehandle (\<lambda>_. True)
            (ebind (ebind (on_message validate) (\<lambda>a. lift_sum (coerce_validation_result a))) (\<lambda>(ok, e).
               if \<not> ok \<and> strict
               then eret (invalid [if truthy_str e then ''MACIRoleViolationError: '' @ the e
                                   else ''MACIRoleViolationError: MACI violation''])
               else sg_process inner))
            (\<lambda>e. eret (if strict then invalid [exn_name (fst e) @ '': '' @ snd e] else new_result)))"

definition maci_strategy :: "bool \<Rightarrow> ('w, maci_answer) message_act option \<Rightarrow> 'w strategy \<Rightarrow> 'w strategy" where
  "maci_strategy strict validator inner =
     \<lparr>sg_process = maci_process strict validator inner,
      sg_available = (\<lambda>s. sg_available inner s \<and> (\<not> strict \<or> validator \<noteq> None)),
      sg_name = ''maci('' @ sg_name inner @ '')'', sg_record_failure = None\<rparr>"

section \<open>The choice of a strategy\<close>

record 'w strategy_parts =
  sp_isolated :: bool
  sp_rust :: "'w rust_processor option"
  sp_opa :: "'w dict_client"
  sp_dynamic_policy :: bool
  sp_constitutional_verifier :: bool
  sp_enable_maci :: bool
  sp_maci_strict :: bool
  sp_maci_validator :: "('w, maci_answer) message_act option"
  sp_clock :: "'w \<Rightarrow> rat"
  sp_text :: "json \<Rightarrow> string"
  sp_list_text :: "string list \<Rightarrow> string"

definition auto_select_strategy :: "'w strategy_parts \<Rightarrow> 'w handlers \<Rightarrow> 'w strategy" where
  "auto_select_strategy P hs =
     (let static = python_strategy (sp_clock P) (static_hash_validation True) hs;
          chain = (case sp_rust P of None \<Rightarrow> [] | Some r \<Rightarrow> [rust_strategy (sp_text P) (sp_clock P) (Some r) True hs]) @
            (if sp_dynamic_policy P \<and> sp_opa P \<noteq> None then [opa_strategy (sp_clock P) (sp_opa P) hs] else []) @
            (if sp_constitutional_verifier P then [static] else []) @ [static];
          base = (if length chain > 1 then composite_strategy (sp_list_text P) chain else hd chain)
      in if sp_isolated P then static
         else if sp_enable_maci P then maci_strategy (sp_maci_strict P) (sp_maci_validator P) base
         else base)"

end
