(* ===== verification/Message_Processor.thy ===== *)
theory Message_Processor
  imports Governance_Core Processing_Strategies
begin

text \<open>
  \<^verbatim>\<open>src/message_processor/__init__.py\<close>, \<^verbatim>\<open>src/session_coordinator.py\<close>, \<^verbatim>\<open>src/session_context_resolver.py\<close>,
  \<^verbatim>\<open>src/verification_orchestrator.py\<close>, \<^verbatim>\<open>src/verification_coordinator.py\<close> and \<^verbatim>\<open>src/result_finalizer.py\<close>: the
  processing of one message from its session to the sinks of its result. The session manager, the semantic
  verifiers, the post-quantum validator, the circuit breaker, the audit client, the repository of decision
  events and the dead-letter queue are arguments; so is the making of a decision event, which may raise.
  Verifications that run side by side are one after the other here. Waiting and profiling are left out.
\<close>

section \<open>Sessions\<close>

record 'w session_parts =
  se_manager :: "(string \<Rightarrow> json \<Rightarrow> ('w, json_dict option) eff) option"
  se_enabled :: bool
  se_text :: "json \<Rightarrow> string"

definition extract_session_id :: "(json \<Rightarrow> string) \<Rightarrow> agent_message \<Rightarrow> found_id" where
  "extract_session_id tx m =
     or_else (field_session tx (am_session_id m)) (or_else (header_session tx m)
    (or_else (field_session tx (am_conversation_id m)) (or_else (key_session tx (am_metadata m))
    (or_else (key_session tx (am_content m)) (key_session tx (am_payload m))))))"

definition extract_governance_session_id :: "(json \<Rightarrow> string) \<Rightarrow> agent_message \<Rightarrow> found_id" where
  "extract_governance_session_id tx m =
     or_else (field_session tx (am_session_id m)) (or_else (header_session tx m)
    (or_else (key_session tx (am_metadata m)) (key_session tx (am_content m))))"

definition session_tenant :: "json_dict \<Rightarrow> json" where
  "session_tenant ctx = dget_default (json_dict_or_empty (dget_default ctx ''governance_config'' JNull)) ''tenant_id'' JNull"

definition session_caught :: "exn_class \<Rightarrow> bool" where
  "session_caught c = (c \<in> {RuntimeErr, ValueErr, TypeErr, KeyErr, AttributeErr, ConnectionErr, OSErr, TimeoutErr})"

definition count_resolved :: "'w processor \<Rightarrow> 'w processor" where
  "count_resolved s = s\<lparr>pr_sessions_resolved := pr_sessions_resolved s + 1\<rparr>"

definition count_not_found :: "'w processor \<Rightarrow> 'w processor" where
  "count_not_found s = s\<lparr>pr_sessions_not_found := pr_sessions_not_found s + 1\<rparr>"

definition count_session_error :: "'w processor \<Rightarrow> 'w processor" where
  "count_session_error s = s\<lparr>pr_sessions_failed := pr_sessions_failed s + 1\<rparr>"

definition load_session ::
  "(string \<Rightarrow> json \<Rightarrow> ('w, json_dict option) eff) \<Rightarrow> string \<Rightarrow> json \<Rightarrow> ('w, json_dict option) prc" where
  "load_session load sid tenant s =
     (case in_world (load sid tenant) s of
        (s', Inl e) \<Rightarrow> if session_caught (fst e) then (count_session_error s', Inr None) else (s', Inl e)
      | (s', Inr None) \<Rightarrow> (count_not_found s', Inr None)
      | (s', Inr (Some ctx)) \<Rightarrow> if session_tenant ctx \<noteq> tenant then (s', Inr None) else (count_resolved s', Inr (Some ctx)))"

definition resolve_session :: "'w session_parts \<Rightarrow> ('w, json_dict option) prc" where
  "resolve_session S =
     (case se_manager S of
        None \<Rightarrow> eret None
      | Some load \<Rightarrow>
          if \<not> se_enabled S then eret None
          else ebind (eget pr_message) (\<lambda>m.
            if or_empty (am_session_context m) \<noteq> []
            then ebind (emodify count_resolved) (\<lambda>_. eret (am_session_context m))
            else ebind (lift_sum (extract_governance_session_id (se_text S) m)) (\<lambda>sid. case sid of
                None \<Rightarrow> eret None
              | Some t \<Rightarrow> if \<not> json_truthy (am_tenant_id m) then eret None else load_session load t (am_tenant_id m))))"

definition with_session :: "json_dict \<Rightarrow> agent_message \<Rightarrow> agent_message" where
  "with_session ctx m =
     m\<lparr>am_session_context := Some ctx,
       am_session_id := (if json_truthy (am_session_id m) then am_session_id m else dget_default ctx ''session_id'' JNull)\<rparr>"

definition attach_session_context :: "'w session_parts \<Rightarrow> ('w, unit) prc" where
  "attach_session_context S =
     (if \<not> se_enabled S then eret ()
      else ebind (resolve_session S) (\<lambda>found. case found of
        None \<Rightarrow> eret ()
      | Some ctx \<Rightarrow> emodify (\<lambda>s. s\<lparr>pr_message := with_session ctx (pr_message s)\<rparr>)))"

section \<open>Verification\<close>

record pqc_answer =
  pa_valid :: bool
  pa_errors :: "string list"
  pa_metadata :: json
  pa_duration :: json
  pa_success_fields :: json_dict

record 'w verifiers =
  vf_classify :: "string \<Rightarrow> ('w, string) eff"
  vf_asc :: "string \<Rightarrow> string \<Rightarrow> ('w, json_dict) eff"
  vf_graph :: "string \<Rightarrow> ('w, json_dict) eff"
  vf_pacar :: "string \<Rightarrow> string \<Rightarrow> json \<Rightarrow> ('w, json_dict) eff"
  vf_record_feedback :: "string \<Rightarrow> json_dict \<Rightarrow> ('w, unit) eff"
  vf_pqc_mode :: "string option"
  vf_enable_pqc :: bool
  vf_pqc :: "json_dict \<Rightarrow> ('w, pqc_answer) eff"

definition asc_fields :: "string \<Rightarrow> json_dict \<Rightarrow> json_dict" where
  "asc_fields intent r =
     [(''sdpc_intent'', JStr intent), (''sdpc_asc_valid'', dget_default r ''is_valid'' (JBool False)),
      (''sdpc_asc_confidence'', dget_default r ''confidence'' (JNum 0))]"

definition graph_fields :: "json_dict \<Rightarrow> json_dict" where
  "graph_fields r =
     [(''sdpc_graph_grounded'', dget_default r ''is_valid'' (JBool False)),
      (''sdpc_graph_results'', dget_default r ''results'' (JList []))]"

definition pacar_fields :: "json_dict \<Rightarrow> json_dict" where
  "pacar_fields r =
     [(''sdpc_pacar_valid'', dget_default r ''is_valid'' (JBool False)),
      (''sdpc_pacar_confidence'', dget_default r ''confidence'' (JNum 0))] @
     (case dget r ''critique'' of None \<Rightarrow> [] | Some c \<Rightarrow> [(''sdpc_pacar_critique'', c)])"

definition verdict_of :: "json_dict \<Rightarrow> json" where
  "verdict_of r = dget_default r ''is_valid'' (JBool False)"

definition asc_and_graph :: "'w verifiers \<Rightarrow> string \<Rightarrow> string \<Rightarrow> bool \<Rightarrow> ('w, json_dict \<times> json_dict) eff" where
  "asc_and_graph V content intent needed =
     (if \<not> needed then eret ([], [])
      else ebind (vf_asc V content intent) (\<lambda>a. ebind (vf_graph V content) (\<lambda>g.
        eret (asc_fields intent a @ graph_fields g, [(''asc'', verdict_of a), (''graph'', verdict_of g)]))))"

definition pacar_part :: "'w verifiers \<Rightarrow> string \<Rightarrow> string \<Rightarrow> json \<Rightarrow> bool \<Rightarrow> ('w, json_dict \<times> json_dict) eff" where
  "pacar_part V content intent session needed =
     (if \<not> needed then eret ([], [])
      else ebind (vf_pacar V content intent session) (\<lambda>p. eret (pacar_fields p, [(''pacar'', verdict_of p)])))"

definition perform_sdpc :: "'w verifiers \<Rightarrow> string \<Rightarrow> agent_message \<Rightarrow> ('w, json_dict) eff" where
  "perform_sdpc V content m =
     ebind (vf_classify V content) (\<lambda>intent.
       case py_num (if am_impact_score m = JNull then JInt 0 else am_impact_score m) of
         None \<Rightarrow> eraise TypeErr ''not supported between instances''
       | Some x \<Rightarrow>
           ebind (asc_and_graph V content intent (intent \<in> {''factual'', ''reasoning''} \<or> 8 / 10 \<le> x)) (\<lambda>(fs, vs).
           ebind (pacar_part V content intent (am_session_id m) (8 / 10 < x \<or> am_message_type m = TASK_REQUEST)) (\<lambda>(gs, ws).
           ebind (if vs @ ws = [] then eret () else vf_record_feedback V intent (vs @ ws)) (\<lambda>_. eret (fs @ gs)))))"

text \<open>The data the post-quantum validator is given: an \<open>AgentMessage\<close> has no attribute \<open>signature\<close>.\<close>

definition pqc_message_data :: "agent_message \<Rightarrow> json_dict" where
  "pqc_message_data m =
     [(''constitutional_hash'', am_constitutional_hash m), (''content'', am_content m), (''message_id'', am_message_id m),
      (''from_agent'', am_from_agent m), (''tenant_id'', am_tenant_id m), (''created_at'', JTime (am_created_at m))]"

definition pqc_errors_caught :: "exn_class \<Rightarrow> bool" where
  "pqc_errors_caught c = (c \<in> {AttributeErr, OSErr, ConnectionErr, RuntimeErr, TimeoutErr, TypeErr, ValueErr})"

definition pqc_denied :: "pqc_answer \<Rightarrow> validation_result" where
  "pqc_denied a =
     new_result\<lparr>vr_is_valid := False, vr_errors := pa_errors a,
       vr_metadata := [(''rejection_reason'', JStr ''pqc_validation_failed''), (''pqc_metadata'', pa_metadata a),
                       (''validation_duration_ms'', pa_duration a)]\<rparr>"

definition perform_pqc :: "'w verifiers \<Rightarrow> agent_message \<Rightarrow> ('w, validation_result option \<times> json_dict) eff" where
  "perform_pqc V m =
     (case vf_pqc_mode V of
        None \<Rightarrow> eret (None, [])
      | Some mode \<Rightarrow>
          if \<not> vf_enable_pqc V then eret (None, [])
          else (\<lambda>w. case vf_pqc V (pqc_message_data m) w of
             (w', Inr a) \<Rightarrow> (w', Inr (if pa_valid a then (None, pa_success_fields a) else (Some (pqc_denied a), [])))
           | (w', Inl e) \<Rightarrow>
               if fst e = OtherErr ''ImportError'' then (w', Inr (None, []))
               else if \<not> pqc_errors_caught (fst e) then (w', Inl e)
               else if mode = ''pqc_only''
               then (w', Inr (Some (rejection (''PQC validation error: '' @ snd e) ''pqc_validation_error''), []))
               else (w', Inr (None, []))))"

definition verify_message ::
  "'w verifiers \<Rightarrow> string \<Rightarrow> agent_message \<Rightarrow> ('w, json_dict \<times> validation_result option) eff" where
  "verify_message V content m =
     ebind (perform_sdpc V content m) (\<lambda>fs. ebind (perform_pqc V m) (\<lambda>(r, gs). eret (dict_update fs gs, r)))"

section \<open>The sinks of a result\<close>

record 'w processor_parts =
  pp_coordinator :: "'w coordinator"
  pp_sessions :: "'w session_parts"
  pp_verifiers :: "'w verifiers"
  pp_strategy :: "'w strategy"
  pp_breaker :: "(('w, validation_result) prc \<Rightarrow> ('w, validation_result) prc) option"
  pp_cache_size :: nat
  pp_key_digest :: "string \<Rightarrow> string"
  pp_mode_text :: string
  pp_audit_client :: "(json_dict \<Rightarrow> json \<Rightarrow> ('w, unit) eff) option"
  pp_repository :: "(json \<Rightarrow> ('w, unit) eff) option"
  pp_dlq_push :: "json_dict \<Rightarrow> ('w, unit) eff"
  pp_dlq_trim :: "('w, unit) eff"
  pp_metering :: "(agent_message \<Rightarrow> rat \<Rightarrow> ('w, unit) eff) option"
  pp_decision_event :: "agent_message \<Rightarrow> validation_result \<Rightarrow> pipeline_exn + json"
  pp_perf_counter :: "'w \<Rightarrow> rat"
  pp_time :: "'w \<Rightarrow> rat"

definition setdefault :: "string \<Rightarrow> json \<Rightarrow> json_dict \<Rightarrow> json_dict" where
  "setdefault k v d = (if k \<in> set (dkeys d) then d else dset k v d)"

text \<open>The event is made before \<open>setdefault\<close> looks at the dictionary.\<close>

definition with_decision_event ::
  "'w processor_parts \<Rightarrow> agent_message \<Rightarrow> string \<Rightarrow> json \<Rightarrow> validation_result \<Rightarrow> pipeline_exn + validation_result" where
  "with_decision_event P m k v r =
     (let r1 = r\<lparr>vr_metadata := setdefault k v (vr_metadata r)\<rparr>
      in case pp_decision_event P m r1 of
           Inl e \<Rightarrow> Inl e
         | Inr ev \<Rightarrow> Inr (r1\<lparr>vr_metadata := setdefault ''flywheel_decision_event'' ev (vr_metadata r1)\<rparr>))"

definition schedule :: "background_task \<Rightarrow> 'w processor \<Rightarrow> 'w processor" where
  "schedule t s = s\<lparr>pr_tasks := pr_tasks s @ [t]\<rparr>"

definition audited :: "'w processor_parts \<Rightarrow> validation_result \<Rightarrow> bool" where
  "audited P r =
     (pp_audit_client P \<noteq> None \<and>
      (\<not> vr_is_valid r \<or> ''governance_decision'' \<in> set (dkeys (vr_metadata r)) \<or>
       ''governance_receipt'' \<in> set (dkeys (vr_metadata r))))"

definition schedule_governance_audit_event ::
  "'w processor_parts \<Rightarrow> agent_message \<Rightarrow> validation_result \<Rightarrow> 'w processor \<Rightarrow> 'w processor" where
  "schedule_governance_audit_event P m r s = (if audited P r then schedule (AuditTask m r) s else s)"

definition sink_caught :: "exn_class \<Rightarrow> bool" where
  "sink_caught c = (c \<in> {AttributeErr, OSErr, ConnectionErr, TimeoutErr, RuntimeErr, TypeErr, ValueErr})"

definition persist_decision_event :: "'w processor_parts \<Rightarrow> agent_message \<Rightarrow> validation_result \<Rightarrow> ('w, unit) prc" where
  "persist_decision_event P m r =
     (case pp_repository P of
        None \<Rightarrow> eret ()
      | Some save \<Rightarrow>
          ehandle sink_caught (ebind (lift_sum (pp_decision_event P m r)) (\<lambda>ev. in_world (save ev))) (\<lambda>_. eret ()))"

definition handle_successful_processing ::
  "'w processor_parts \<Rightarrow> validation_result \<Rightarrow> string \<Rightarrow> rat \<Rightarrow> ('w, validation_result) prc" where
  "handle_successful_processing P r key latency =
     ebind (eget pr_message) (\<lambda>m.
     ebind (lift_sum (with_decision_event P m ''latency_ms'' (JNum latency) r)) (\<lambda>r1.
     ebind (emodify (\<lambda>s. s\<lparr>pr_cache := lru_set (pp_cache_size P) key r1 (pr_cache s)\<rparr>)) (\<lambda>_.
     ebind (emodify (\<lambda>s. s\<lparr>pr_processed := pr_processed s + 1\<rparr>)) (\<lambda>_.
     ebind (emodify (schedule_governance_audit_event P m r1)) (\<lambda>_.
     ebind (persist_decision_event P m r1) (\<lambda>_.
     ebind (lift_sum (requires_independent_validation (co_gates (pp_coordinator P)) m)) (\<lambda>required.
     ebind (if required then eret ()
            else emodify (record_agent_workflow_event ''autonomous_action'' ''no_independent_validation_required'')) (\<lambda>_.
     ebind (if pp_metering P = None then eret () else emodify (schedule (MeteringTask m latency))) (\<lambda>_.
       eret r1)))))))))"

definition handle_failed_processing ::
  "'w processor_parts \<Rightarrow> validation_result \<Rightarrow> bool \<Rightarrow> string \<Rightarrow> ('w, validation_result) prc" where
  "handle_failed_processing P r increment stage =
     ebind (eget pr_message) (\<lambda>m.
     ebind (lift_sum (with_decision_event P m ''rejection_stage'' (JStr stage) r)) (\<lambda>r1.
     ebind (if increment then emodify increment_failed_count else eret ()) (\<lambda>_.
     ebind (emodify (schedule_governance_audit_event P m r1)) (\<lambda>_.
     ebind (persist_decision_event P m r1) (\<lambda>_.
     ebind (emodify (record_agent_workflow_event ''gate_failure'' (extract_rejection_reason r1))) (\<lambda>_.
     ebind (if am_priority m = PRIORITY_CRITICAL
            then emodify (record_agent_workflow_event ''rollback_trigger'' ''critical_message_rejected'') else eret ()) (\<lambda>_.
     ebind (emodify (schedule (DlqTask m r1))) (\<lambda>_. eret r1))))))))"

text \<open>The tasks in the background\<close>

definition audit_details :: "'w processor_parts \<Rightarrow> agent_message \<Rightarrow> validation_result \<Rightarrow> json_dict" where
  "audit_details P m r =
     (let meta = vr_metadata r; field = (\<lambda>k. (k, dget_default meta k JNull))
      in [(''message_id'', am_message_id m), (''tenant_id'', am_tenant_id m), (''from_agent'', am_from_agent m),
          (''to_agent'', am_to_agent m), (''message_type'', JStr (message_type_value (am_message_type m))),
          (''constitutional_hash'', am_constitutional_hash m), (''result_valid'', JBool (vr_is_valid r)),
          (''rejection_reason'', if vr_is_valid r then JNull else JStr (extract_rejection_reason r)),
          field ''rejection_stage'',
          (''governance_core_mode'', dget_default meta ''governance_core_mode''
             (JStr (governance_mode_value (co_mode (pp_coordinator P))))),
          field ''governance_decision'', field ''governance_receipt'', field ''governance_shadow''])"

definition run_background :: "'w processor_parts \<Rightarrow> background_task \<Rightarrow> ('w, unit) prc" where
  "run_background P t =
     (case t of
        AuditTask m r \<Rightarrow> (case pp_audit_client P of
            None \<Rightarrow> eret ()
          | Some put \<Rightarrow> ehandle sink_caught (in_world (put (audit_details P m r) (am_message_id m))) (\<lambda>_. eret ()))
      | DlqTask m r \<Rightarrow>
          ehandle (\<lambda>c. c \<in> {OtherErr ''ImportError'', OSErr, ConnectionErr, TimeoutErr, RuntimeErr, TypeErr, ValueErr})
            (ebind (eget (\<lambda>s. build_dlq_entry m r (pp_time P (pr_world s)))) (\<lambda>entry.
             ebind (in_world (pp_dlq_push P entry)) (\<lambda>_. in_world (pp_dlq_trim P)))) (\<lambda>_. eret ())
      | MeteringTask m latency \<Rightarrow> (case pp_metering P of
            None \<Rightarrow> eret ()
          | Some meter \<Rightarrow> ehandle sink_caught (in_world (meter m latency)) (\<lambda>_. eret ())))"

section \<open>Processing\<close>

definition latency_since :: "'w processor_parts \<Rightarrow> rat \<Rightarrow> 'w processor \<Rightarrow> rat" where
  "latency_since P start s = (pp_perf_counter P (pr_world s) - start) * 1000"

definition processed_result ::
  "'w processor_parts \<Rightarrow> governance_artifacts \<Rightarrow> json_dict \<Rightarrow> rat \<Rightarrow> validation_result \<Rightarrow> validation_result" where
  "processed_result P a fs latency r =
     (let r1 = attach_governance_metadata (pp_coordinator P) a (r\<lparr>vr_metadata := dict_update (vr_metadata r) fs\<rparr>)
      in r1\<lparr>vr_metadata := dset ''latency_ms'' (JNum latency) (vr_metadata r1)\<rparr>)"

definition execute_verification ::
  "'w processor_parts \<Rightarrow> governance_artifacts \<Rightarrow> string \<Rightarrow> rat \<Rightarrow> ('w, validation_result) prc" where
  "execute_verification P a key start =
     ebind (eget pr_message) (\<lambda>m.
     ebind (in_world (verify_message (pp_verifiers P) (content_text (co_gates (pp_coordinator P)) m) m)) (\<lambda>(fs, denied).
       case denied of
         Some r \<Rightarrow>
           ebind (emodify increment_failed_count) (\<lambda>_.
             handle_failed_processing P (attach_governance_metadata (pp_coordinator P) a r) False ''verification'')
       | None \<Rightarrow>
           ebind (sg_process (pp_strategy P)) (\<lambda>r0.
           ebind (eget (latency_since P start)) (\<lambda>latency.
             let r = processed_result P a fs latency r0
             in if vr_is_valid r then handle_successful_processing P r key latency
                else handle_failed_processing P r True ''strategy''))))"

definition check_cache :: "'w processor_parts \<Rightarrow> governance_artifacts \<Rightarrow> rat \<Rightarrow> ('w, validation_result) prc" where
  "check_cache P a start =
     ebind (eget (\<lambda>s. compute_cache_key (co_gates (pp_coordinator P)) (pp_key_digest P) (pp_mode_text P) (pr_message s))) (\<lambda>k.
     ebind (lift_sum k) (\<lambda>key.
     ebind (\<lambda>s. case lru_get key (pr_cache s) of (c, r) \<Rightarrow> (s\<lparr>pr_cache := c\<rparr>, Inr r)) (\<lambda>cached.
       case cached of
         Some r \<Rightarrow> eret (attach_governance_metadata (pp_coordinator P) a r)
       | None \<Rightarrow> execute_verification P a key start)))"

text \<open>The gates and the governance in one: what is stored of the governance, and the failed result\<close>

definition gate_outcome :: "'w processor_parts \<Rightarrow> ('w, governance_outcome) prc" where
  "gate_outcome P =
     ebind (eget pr_message) (\<lambda>m.
     ebind (run_message_validation_gates (co_gates (pp_coordinator P)) m) (\<lambda>v.
       case v of Some r \<Rightarrow> eret (no_artifacts, Some r) | None \<Rightarrow> run_governance (pp_coordinator P)))"

definition do_process :: "'w processor_parts \<Rightarrow> ('w, validation_result) prc" where
  "do_process P =
     ebind (eget (\<lambda>s. pp_perf_counter P (pr_world s))) (\<lambda>start.
     ebind (attach_session_context (pp_sessions P)) (\<lambda>_.
     ebind (gate_outcome P) (\<lambda>(a, failed).
       case failed of
         Some r \<Rightarrow> handle_failed_processing P (attach_governance_metadata (pp_coordinator P) a r) False ''gate''
       | None \<Rightarrow> check_cache P a start)))"

definition process_caught :: "exn_class \<Rightarrow> bool" where
  "process_caught c =
     (c \<in> {AttributeErr, KeyErr, OSErr, ConnectionErr, TimeoutErr, RuntimeErr, TypeErr, ValueErr})"

definition exhausted :: "nat \<Rightarrow> (nat \<Rightarrow> string) \<Rightarrow> string \<Rightarrow> validation_result" where
  "exhausted n num e =
     rejection (''Processing failed after '' @ num n @ '' retries: '' @ e) ''max_retries_exceeded''"

text \<open>\<open>num\<close> is the text of a number; \<open>e\<close> that of the last error.\<close>

fun attempts_left ::
  "('w, validation_result) prc \<Rightarrow> (nat \<Rightarrow> string) \<Rightarrow> nat \<Rightarrow> nat \<Rightarrow> string \<Rightarrow> ('w, validation_result) prc" where
  "attempts_left act num bound 0 e = eret (exhausted bound num e)"
| "attempts_left act num bound (Suc n) e =
     (\<lambda>s. case act s of
        (s', Inr r) \<Rightarrow> (s', Inr r)
      | (s', Inl x) \<Rightarrow> if process_caught (fst x) then attempts_left act num bound n (snd x) s' else (s', Inl x))"

definition guarded_process :: "'w processor_parts \<Rightarrow> ('w, validation_result) prc" where
  "guarded_process P = (case pp_breaker P of None \<Rightarrow> do_process P | Some call \<Rightarrow> call (do_process P))"

definition process :: "'w processor_parts \<Rightarrow> (nat \<Rightarrow> string) \<Rightarrow> nat \<Rightarrow> ('w, validation_result) prc" where
  "process P num max_retries = attempts_left (guarded_process P) num max_retries max_retries ''None''"

section \<open>Handlers, shutdown, tools\<close>

definition register_handler :: "message_type \<Rightarrow> 'h \<Rightarrow> (message_type, 'h list) dict \<Rightarrow> (message_type, 'h list) dict" where
  "register_handler ty h d = dset ty (dget_default d ty [] @ [h]) d"

definition unregister_handler ::
  "message_type \<Rightarrow> 'h \<Rightarrow> (message_type, 'h list) dict \<Rightarrow> (message_type, 'h list) dict \<times> bool" where
  "unregister_handler ty h d =
     (case dget d ty of
        None \<Rightarrow> (d, False)
      | Some hs \<Rightarrow> if h \<in> set hs then (dset ty (remove1 h hs) d, True) else (d, False))"

definition shutdown :: "'w processor \<Rightarrow> 'w processor" where
  "shutdown s = s\<lparr>pr_tasks := []\<rparr>"

definition success_rate :: "'w processor \<Rightarrow> rat" where
  "success_rate s = (let n = pr_processed s + pr_failed s in if n > 0 then of_nat (pr_processed s) / of_nat (max 1 n) else 0)"

text \<open>
  \<open>handle_tool_request\<close> with the library there: the role of the agent, or none where the look-up finds
  nothing or fails, goes with the call to the pool.
\<close>

definition role_for_tool :: "(string \<Rightarrow> ('w, string option) eff) option \<Rightarrow> string \<Rightarrow> ('w, string) eff" where
  "role_for_tool registry aid =
     (case registry of
        None \<Rightarrow> eret []
      | Some look \<Rightarrow>
          ehandle (\<lambda>c. c \<in> {AttributeErr, KeyErr, RuntimeErr, TypeErr, ValueErr})
            (ebind (look aid) (\<lambda>r. eret (case r of None \<Rightarrow> [] | Some t \<Rightarrow> t))) (\<lambda>_. eret []))"

definition handle_tool_request ::
  "(string \<Rightarrow> ('w, string option) eff) option \<Rightarrow> (string \<Rightarrow> json \<Rightarrow> string \<Rightarrow> string \<Rightarrow> ('w, 'r) eff) option \<Rightarrow>
   (string \<Rightarrow> string \<Rightarrow> 'r) \<Rightarrow> string \<Rightarrow> string \<Rightarrow> json \<Rightarrow> ('w, 'r) eff" where
  "handle_tool_request registry pool not_initialised aid tool args =
     (case pool of
        None \<Rightarrow> eret (not_initialised tool aid)
      | Some call \<Rightarrow> ebind (role_for_tool registry aid) (\<lambda>role. call tool args aid role))"

text \<open>The processor as the bus calls it\<close>

definition new_processor :: "agent_message \<Rightarrow> 'w \<Rightarrow> 'w processor" where
  "new_processor m w =
     \<lparr>pr_message = m, pr_world = w, pr_rust = \<lparr>rb_failures = 0, rb_successes = 0, rb_tripped = False\<rparr>, pr_cache = new_lru,
      pr_processed = 0, pr_failed = 0, pr_shadow_matches = 0, pr_shadow_mismatches = 0, pr_shadow_errors = 0,
      pr_sessions_resolved = 0, pr_sessions_not_found = 0, pr_sessions_failed = 0, pr_events = [], pr_tasks = []\<rparr>"

definition process_for_bus ::
  "'w processor_parts \<Rightarrow> (nat \<Rightarrow> string) \<Rightarrow> (agent_message \<times> 'w processor, validation_result) eff" where
  "process_for_bus P num ms =
     (case process P num 3 ((snd ms)\<lparr>pr_message := fst ms\<rparr>) of (s, r) \<Rightarrow> ((pr_message s, s), r))"

end
