(* ===== verification/Processor_Theorems.thy ===== *)
theory Processor_Theorems
  imports Message_Processor
begin

text \<open>
  Lemmas on the message processor: the cache and its view, what each step of the processing leaves alone, what
  passing the gates means, the attempts of a retried computation.
\<close>

section \<open>The cache\<close>

definition lru_inv :: "nat \<Rightarrow> lru \<Rightarrow> bool" where
  "lru_inv n c \<longleftrightarrow> lru_view c = lru_backing c \<and> distinct (dkeys (lru_backing c)) \<and> length (lru_backing c) \<le> n"

lemma move_to_end_keys: "distinct (dkeys d) \<Longrightarrow> distinct (dkeys (move_to_end k v d))"
  by (auto simp: move_to_end_def dkeys_ddel distinct_ddel simp del: set_map)

lemma length_ddel: "distinct (dkeys d) \<Longrightarrow> k \<in> set (dkeys d) \<Longrightarrow> Suc (length (ddel k d)) = length d"
proof (induction d)
  case (Cons p d)
  obtain j u where p: "p = (j, u)" by fastforce
  show ?case
  proof (cases "j = k")
    case True
    then have "k \<notin> fst ` set d" using Cons.prems p by auto
    then show ?thesis using p True by (simp add: delete_id)
  next
    case False
    then show ?thesis using Cons p by auto
  qed
qed simp

lemma length_move_to_end:
  "distinct (dkeys d) \<Longrightarrow> k \<in> set (dkeys d) \<Longrightarrow> length (move_to_end k v d) = length d"
  using length_ddel [of d k] by (simp add: move_to_end_def del: set_map)

lemma dget_move_to_end: "dget (move_to_end k v d) j = (if j = k then Some v else dget d j)"
  by (simp add: move_to_end_def dget_ddel map_add_def split: option.split)

lemma dget_append_new: "k \<notin> set (dkeys d) \<Longrightarrow> dget (d @ [(k, v)]) j = (if j = k then Some v else dget d j)"
  using dget_None_keys [of d k] by (auto simp: map_add_def simp del: set_map split: option.split)

lemma dget_drop: "distinct (dkeys d) \<Longrightarrow> dget (drop i d) j = Some v \<Longrightarrow> dget d j = Some v"
  by (metis map_of_eq_Some_iff drop_map distinct_drop in_set_dropD)

lemma lru_get_inv: "lru_inv n c \<Longrightarrow> lru_inv n (fst (lru_get k c))"
proof (cases "dget (lru_backing c) k")
  case (Some v)
  assume inv: "lru_inv n c"
  then have "k \<in> set (dkeys (lru_backing c))" using Some by (metis dget_None_keys option.distinct(1))
  with inv Some show ?thesis
    by (simp add: lru_inv_def lru_get_def move_to_end_keys length_move_to_end)
qed (simp add: lru_get_def)

lemma backing_set_inv:
  assumes "distinct (dkeys d)" and "length d \<le> n" and "0 < n"
  shows "distinct (dkeys (backing_set n k v d)) \<and> length (backing_set n k v d) \<le> n"
proof (cases "k \<in> set (dkeys d)")
  case True
  then show ?thesis using assms by (simp add: backing_set_def move_to_end_keys length_move_to_end)
next
  case False
  then have "k \<notin> set (dkeys (drop (length d + 1 - n) d))" by (auto dest: in_set_dropD)
  moreover have "distinct (dkeys (drop (length d + 1 - n) d))" using assms(1) by (metis distinct_drop drop_map)
  ultimately show ?thesis using False assms by (auto simp: backing_set_def)
qed

lemma filter_keys_drop:
  assumes "distinct (dkeys d)" and "k \<notin> set (dkeys d)"
  shows "filter (\<lambda>(j, _). j \<in> set (dkeys (drop i d @ [(k, v)]))) d = drop i d"
  using assms
proof (induction d arbitrary: i)
  case (Cons p d)
  obtain j u where p: "p = (j, u)" by fastforce
  have other: "filter (\<lambda>(l, _). l \<in> set (dkeys (drop i d @ [(k, v)]))) d = drop i d" for i
    using Cons by simp
  show ?case
  proof (cases i)
    case 0
    have "filter (\<lambda>(j, _). j \<in> set (dkeys ((p # d) @ [(k, v)]))) (p # d) = p # d"
      by (rule filter_True) force
    then show ?thesis using 0 by simp
  next
    case (Suc i')
    then have "j \<notin> set (dkeys (drop i' d @ [(k, v)]))" using Cons.prems p by (auto dest: in_set_dropD)
    then show ?thesis using other [of i'] Suc p by simp
  qed
qed simp

lemma lru_set_inv:
  assumes "lru_inv n c" and "0 < n"
  shows "lru_inv n (lru_set n k v c)"
proof -
  let ?d = "lru_backing c"
  have inv: "lru_view c = ?d" "distinct (dkeys ?d)" "length ?d \<le> n" using assms by (auto simp: lru_inv_def)
  have "lru_view (lru_set n k v c) = backing_set n k v ?d"
  proof (cases "k \<in> set (dkeys ?d)")
    case True
    then show ?thesis using inv by (simp add: lru_set_def Let_def backing_set_def)
  next
    case new: False
    then have gone: "ddel k ?d = ?d" "ddel k (drop i ?d) = drop i ?d" for i
      by (auto intro!: delete_id dest: in_set_dropD)
    show ?thesis
    proof (cases "n \<le> length ?d")
      case True
      then have "n = length ?d" using inv(3) by simp
      then have "backing_set n k v ?d = drop 1 ?d @ [(k, v)]" using new by (simp add: backing_set_def)
      then show ?thesis
        using new True inv filter_keys_drop [OF inv(2) new, of 1 v] gone
        by (simp add: lru_set_def Let_def move_to_end_def)
    next
      case False
      then show ?thesis
        using new inv gone by (simp add: lru_set_def Let_def backing_set_def move_to_end_def)
    qed
  qed
  moreover have "lru_backing (lru_set n k v c) = backing_set n k v ?d" by (simp add: lru_set_def Let_def)
  ultimately show ?thesis using backing_set_inv [OF inv(2,3) assms(2)] by (simp add: lru_inv_def)
qed

lemma lru_get_set: "0 < n \<Longrightarrow> lru_inv n c \<Longrightarrow> snd (lru_get k (lru_set n k v c)) = Some v"
proof -
  assume "0 < n" "lru_inv n c"
  have "dget (lru_backing (lru_set n k v c)) k = Some v"
  proof (cases "k \<in> set (dkeys (lru_backing c))")
    case False
    then have "k \<notin> set (dkeys (drop (length (lru_backing c) + 1 - n) (lru_backing c)))" by (auto dest: in_set_dropD)
    then show ?thesis using False by (simp add: lru_set_def Let_def backing_set_def dget_append_new del: map_of_append)
  qed (simp add: lru_set_def Let_def backing_set_def dget_move_to_end)
  then show ?thesis by (simp add: lru_get_def)
qed

lemma lru_set_entries:
  assumes "dget (lru_backing (lru_set n k v c)) j = Some u" and "distinct (dkeys (lru_backing c))"
  shows "j = k \<and> u = v \<or> dget (lru_backing c) j = Some u"
proof (cases "k \<in> set (dkeys (lru_backing c))")
  case False
  then have "k \<notin> set (dkeys (drop (length (lru_backing c) + 1 - n) (lru_backing c)))" by (auto dest: in_set_dropD)
  then show ?thesis
    using assms False dget_drop [OF assms(2)]
    by (auto simp: lru_set_def Let_def backing_set_def dget_append_new simp del: map_of_append split: if_splits)
qed (use assms in \<open>auto simp: lru_set_def Let_def backing_set_def dget_move_to_end split: if_splits\<close>)

lemma lru_get_entries: "dget (lru_backing (fst (lru_get k c))) j = dget (lru_backing c) j"
  by (auto simp: lru_get_def dget_move_to_end split: option.split)

section \<open>Attempts\<close>

text \<open>The state after \<open>k\<close> attempts that raised what is retried, with the text of the last error\<close>

fun after_failures :: "('w, 'a) prc \<Rightarrow> nat \<Rightarrow> 'w processor \<times> string \<Rightarrow> ('w processor \<times> string) option" where
  "after_failures act 0 s = Some s"
| "after_failures act (Suc k) (s, e) =
     (case act s of
        (s', Inl x) \<Rightarrow> if process_caught (fst x) then after_failures act k (s', snd x) else None
      | _ \<Rightarrow> None)"

lemma attempts_left_result:
  assumes "attempts_left act num bound n e s = (s', out)"
  shows "\<exists>k sk ek. k \<le> n \<and> after_failures act k (s, e) = Some (sk, ek) \<and>
    (k = n \<and> s' = sk \<and> out = Inr (exhausted bound num ek) \<or>
     k < n \<and> act sk = (s', out) \<and> (\<forall>x. out = Inl x \<longrightarrow> \<not> process_caught (fst x)))"
  using assms
proof (induction n arbitrary: s e)
  case (Suc n)
  obtain s1 r where act: "act s = (s1, r)" by fastforce
  show ?case
  proof (cases "\<exists>x. r = Inl x \<and> process_caught (fst x)")
    case True
    then obtain x where x: "r = Inl x" "process_caught (fst x)" by blast
    then have "attempts_left act num bound n (snd x) s1 = (s', out)" using Suc.prems act by simp
    from Suc.IH [OF this] obtain k sk ek where
      "k \<le> n" "after_failures act k (s1, snd x) = Some (sk, ek)"
      "k = n \<and> s' = sk \<and> out = Inr (exhausted bound num ek) \<or>
       k < n \<and> act sk = (s', out) \<and> (\<forall>x. out = Inl x \<longrightarrow> \<not> process_caught (fst x))"
      by blast
    then show ?thesis
      using act x by (intro exI [of _ "Suc k"] exI [of _ sk] exI [of _ ek]) auto
  next
    case False
    then have "s' = s1 \<and> out = r" using Suc.prems act by (auto split: sum.splits if_splits)
    then show ?thesis using act False by (intro exI [of _ 0] exI [of _ s] exI [of _ e]) auto
  qed
qed auto


section \<open>What the steps leave alone\<close>

text \<open>A strategy changes the message, the world and the breaker of the Rust strategy, and nothing else.\<close>

definition frame :: "'w processor \<Rightarrow> 'w processor \<Rightarrow> bool" where
  "frame s s' \<longleftrightarrow> s' = s\<lparr>pr_message := pr_message s', pr_world := pr_world s', pr_rust := pr_rust s'\<rparr>"

definition confined :: "('w, 'a) prc \<Rightarrow> bool" where
  "confined act \<longleftrightarrow> (\<forall>s. frame s (fst (act s)))"

lemma frame_refl [simp]: "frame s s"
  by (simp add: frame_def)

lemma frame_trans: "frame a b \<Longrightarrow> frame b c \<Longrightarrow> frame a c"
  by (cases a; cases b; cases c) (simp add: frame_def)

lemma frame_fields:
  "frame s s' \<Longrightarrow> pr_cache s' = pr_cache s \<and> pr_tasks s' = pr_tasks s \<and> pr_processed s' = pr_processed s \<and>
     pr_failed s' = pr_failed s \<and> pr_events s' = pr_events s"
  by (cases s; cases s') (simp add: frame_def)

lemma confinedD: "confined act \<Longrightarrow> act s = (s', r) \<Longrightarrow> frame s s'"
  by (metis confined_def fst_conv)

lemma confined_simps [simp]:
  "confined (eret x)" "confined (eraise c t)" "confined (eget g)" "confined (lift_sum y)"
  by (auto simp: confined_def lift_sum_def split: sum.split)

lemma confined_modify: "(\<And>s. frame s (f s)) \<Longrightarrow> confined (emodify f)"
  by (simp add: confined_def)

lemma confined_bind: "confined m \<Longrightarrow> (\<And>x. confined (f x)) \<Longrightarrow> confined (ebind m f)"
  unfolding confined_def ebind_def by (fastforce split: prod.split sum.split intro: frame_trans)

lemma confined_handle: "confined m \<Longrightarrow> (\<And>e. confined (h e)) \<Longrightarrow> confined (ehandle cs m h)"
  unfolding confined_def ehandle_def by (fastforce split: prod.split sum.split intro: frame_trans)

lemma confined_world [simp]: "confined (in_world m)"
  by (auto simp: confined_def in_world_def frame_def split: prod.split)

lemma confined_message [simp]: "confined (on_message h)"
  by (auto simp: confined_def on_message_def frame_def split: prod.split)

lemma confined_message_dict [simp]: "confined message_dict"
  by (auto simp: confined_def message_dict_def frame_def split: prod.split)

lemma frame_steps [simp]:
  "frame s (set_status st s)" "frame s (stamp_status clock st s)" "frame s (rust_failure s)" "frame s (rust_success s)"
  by (simp_all add: frame_def set_status_def stamp_status_def rust_failure_def rust_success_def Let_def)

lemmas confined_intros = confined_bind confined_handle confined_modify

lemma confined_handlers: "confined (execute_handlers clock hs)"
proof -
  have "confined (run_handlers xs)" for xs :: "('a, unit) message_act list"
  proof (induction xs)
    case (Cons x xs)
    then show ?case by (simp add: confined_bind)
  qed (simp add: confined_simps del: eff_simps)
  then show ?thesis by (auto simp: execute_handlers_def simp del: ebind_ret intro!: confined_intros)
qed

lemma confined_python: "confined v \<Longrightarrow> confined (python_process clock v hs)"
  by (auto simp: python_process_def simp del: ebind_ret intro!: confined_intros confined_handlers)

lemma confined_static: "confined (static_hash_validation strict)"
  by (simp add: static_hash_validation_def)

lemma confined_opa: "confined (opa_validation client)"
  by (auto simp: opa_validation_def fail_closed_def intro!: confined_intros split: option.split)

lemma confined_try_rust: "confined rest \<Longrightarrow> confined (try_rust tx f rest)"
  by (auto simp: try_rust_def intro!: confined_intros split: option.split)

lemma confined_rust_validation: "confined (rust_validation tx rp)"
  by (auto simp: rust_validation_def fail_closed_def simp del: ebind_ret
      intro!: confined_intros confined_try_rust split: option.split)

lemma confined_rust: "confined (rust_process tx clock rp bindings hs)"
  by (auto simp: rust_process_def rust_run_def simp del: ebind_ret
      intro!: confined_intros confined_rust_validation confined_handlers split: option.split json.split)

lemma confined_composite:
  assumes "\<forall>g \<in> set gs. confined (sg_process g) \<and> (\<forall>f s. sg_record_failure g = Some f \<longrightarrow> frame s (f s))"
  shows "confined (composite_process lt gs)"
proof -
  have "confined (composite_run gs es)" for es
    using assms
  proof (induction gs arbitrary: es)
    case (Cons g gs)
    have tail: "frame t (fst (composite_run gs es' t))" for es' t
      using Cons by (simp add: confined_def)
    have fail: "frame t (case sg_record_failure g of None \<Rightarrow> t | Some f \<Rightarrow> f t)" for t
      using Cons.prems by (auto split: option.split)
    have "frame s (fst (composite_run (g # gs) es s))" for s
    proof (cases "sg_available g s")
      case False
      then show ?thesis using tail by simp
    next
      case True
      obtain s' r where run: "sg_process g s = (s', r)" by fastforce
      then have "frame s s'" using Cons.prems confinedD by fastforce
      then show ?thesis
        using True run tail fail by (fastforce intro: frame_trans split: sum.split)
    qed
    then show ?case by (simp add: confined_def)
  qed simp
  then show ?thesis by (auto simp: composite_process_def intro!: confined_intros)
qed

lemma confined_maci: "confined (sg_process inner) \<Longrightarrow> confined (maci_process strict validator inner)"
  by (auto simp: maci_process_def intro!: confined_intros split: option.split)

lemma confined_auto_select: "confined (sg_process (auto_select_strategy SP hs))"
proof -
  let ?static = "python_strategy (sp_clock SP) (static_hash_validation True) hs"
  have static: "confined (sg_process ?static)"
    by (simp add: python_strategy_def confined_python confined_static)
  define chain where "chain =
    (case sp_rust SP of None \<Rightarrow> [] | Some r \<Rightarrow> [rust_strategy (sp_text SP) (sp_clock SP) (Some r) True hs]) @
    (if sp_dynamic_policy SP \<and> sp_opa SP \<noteq> None then [opa_strategy (sp_clock SP) (sp_opa SP) hs] else []) @
    (if sp_constitutional_verifier SP then [?static] else []) @ [?static]"
  have all: "\<forall>g \<in> set chain. confined (sg_process g) \<and> (\<forall>f s. sg_record_failure g = Some f \<longrightarrow> frame s (f s))"
    using static unfolding chain_def
    by (auto simp: python_strategy_def rust_strategy_def opa_strategy_def client_strategy_def confined_rust
        intro!: confined_intros confined_python confined_opa split: option.split)
  have "hd chain \<in> set chain" by (rule hd_in_set) (simp add: chain_def)
  then have "confined (sg_process (if length chain > 1 then composite_strategy (sp_list_text SP) chain else hd chain))"
    using all confined_composite [OF all] by (simp add: composite_strategy_def)
  then show ?thesis
    using static unfolding auto_select_strategy_def chain_def [symmetric] Let_def
    by (simp add: maci_strategy_def confined_maci)
qed

section \<open>The gates\<close>

definition independent_ok :: "'w gates \<Rightarrow> agent_message \<Rightarrow> bool" where
  "independent_ok G m \<longleftrightarrow> requires_independent_validation G m = Inr False \<or>
     requires_independent_validation G m = Inr True \<and> filled (validator_evidence m) \<and>
     validator_evidence m \<noteq> am_from_agent m \<and>
     dget_default (message_metadata m) ''validation_stage'' JNull \<in> {JNull, JStr ''independent''}"

definition governance_allowed :: "'w coordinator \<Rightarrow> agent_message \<Rightarrow> bool" where
  "governance_allowed C m \<longleftrightarrow> (\<exists>g w w' d. build_governance_input C m = Inr g \<and> gd_allowed d \<and>
     (if co_mode C = SWARM_ENFORCED then \<exists>r. swarm_judgement C g w = (w', Inr (d, r))
      else gc_validate_local (co_legacy C) g w = (w', Inr d)))"

definition gates_passed :: "'w coordinator \<Rightarrow> agent_message \<Rightarrow> bool" where
  "gates_passed C m \<longleftrightarrow> enforce_autonomy_tier_rules m = None \<and>
     (\<exists>w w' v. gt_runtime_scanner (co_gates C) m w = (w', Inr v) \<and> \<not> sv_blocked v) \<and>
     (gt_require_independent_validator (co_gates C) \<longrightarrow> independent_ok (co_gates C) m) \<and>
     detect_prompt_injection (co_gates C) m = None \<and> governance_allowed C m"

text \<open>Gates and governance change neither the message nor the cache, the tasks or the count of processed ones.\<close>

definition gate_frame :: "'w processor \<Rightarrow> 'w processor \<Rightarrow> bool" where
  "gate_frame s s' \<longleftrightarrow> pr_message s' = pr_message s \<and> pr_cache s' = pr_cache s \<and> pr_tasks s' = pr_tasks s \<and>
     pr_processed s' = pr_processed s"

lemma gate_frame_refl [simp]: "gate_frame s s"
  by (simp add: gate_frame_def)

lemma gate_frame_trans: "gate_frame a b \<Longrightarrow> gate_frame b c \<Longrightarrow> gate_frame a c"
  by (simp add: gate_frame_def)

lemma gate_frame_steps [simp]:
  "gate_frame s (increment_failed_count t) = gate_frame s t" "gate_frame s (record_agent_workflow_event e r t) = gate_frame s t"
  "gate_frame s (count_parity b t) = gate_frame s t" "gate_frame s (count_shadow_error t) = gate_frame s t"
  "gate_frame (count_parity b s) t = gate_frame s t" "gate_frame (count_shadow_error s) t = gate_frame s t"
  by (simp_all add: gate_frame_def increment_failed_count_def record_agent_workflow_event_def count_parity_def
      count_shadow_error_def)

lemma gate_frame_world: "in_world f s = (s', r) \<Longrightarrow> gate_frame s s'"
  by (auto simp: in_world_def gate_frame_def split: prod.splits)

lemma stop_at_cases:
  "stop_at gate counts rest s = (s', out) \<longleftrightarrow>
     (\<exists>e. gate s = (s', Inl e) \<and> out = Inl e) \<or>
     (\<exists>r s1. gate s = (s1, Inr (Some r)) \<and> out = Inr (Some r) \<and> s' = (if counts then increment_failed_count s1 else s1)) \<or>
     (\<exists>s1. gate s = (s1, Inr None) \<and> rest s1 = (s', out))"
proof (cases "gate s")
  case (Pair s1 x)
  show ?thesis
  proof (cases x)
    case (Inr v)
    then show ?thesis using Pair by (cases v) (auto simp: stop_at_def)
  qed (auto simp: stop_at_def Pair)
qed

lemma scan_result:
  "perform_security_scan G m s = (s', out) \<Longrightarrow> gate_frame s s' \<and>
     (out = Inr None \<longrightarrow> (\<exists>w w' v. gt_runtime_scanner G m w = (w', Inr v) \<and> \<not> sv_blocked v))"
proof (cases "gt_runtime_scanner G m (pr_world s)")
  case (Pair w x)
  assume out: "perform_security_scan G m s = (s', out)"
  show ?thesis
  proof (cases x)
    case (Inl e)
    then show ?thesis
      using out Pair by (auto simp: perform_security_scan_def security_scan_def in_world_def gate_frame_def)
  next
    case (Inr v)
    then have scan: "in_world (security_scan G m) s = (s\<lparr>pr_world := w\<rparr>, Inr
      (if sv_blocked v
        then Some (new_result\<lparr>vr_is_valid := False, vr_errors := [sv_block_reason v],
                     vr_metadata := [(''rejection_reason'', JStr ''security_block''), (''security_events'', sv_events v)]\<rparr>)
        else None))"
      using Pair by (simp add: security_scan_def in_world_def)
    show ?thesis
    proof (cases "sv_blocked v")
      case True
      then show ?thesis
        using out scan by (auto simp: perform_security_scan_def gate_frame_def increment_failed_count_def)
    next
      case False
      then show ?thesis using out scan Pair Inr by (auto simp: perform_security_scan_def gate_frame_def)
    qed
  qed
qed

lemma independent_result:
  "enforce_independent_validator_gate G m s = (s', out) \<Longrightarrow> gate_frame s s' \<and>
     (out = Inr None \<longrightarrow> gt_require_independent_validator G \<longrightarrow> independent_ok G m)"
  unfolding enforce_independent_validator_gate_def independent_ok_def gate_failure_def Let_def
  by (auto split: if_splits sum.splits prod.splits bool.splits)

lemma validation_gates_result:
  assumes "run_message_validation_gates G m s = (s', out)"
  shows "gate_frame s s' \<and> (out = Inr None \<longrightarrow> enforce_autonomy_tier_rules m = None \<and>
     (\<exists>w w' v. gt_runtime_scanner G m w = (w', Inr v) \<and> \<not> sv_blocked v) \<and>
     (gt_require_independent_validator G \<longrightarrow> independent_ok G m) \<and> detect_prompt_injection G m = None)"
  using assms unfolding run_message_validation_gates_def
  by (fastforce simp: stop_at_cases dest: scan_result independent_result intro: gate_frame_trans)

lemma conclude_result:
  "conclude C g d r sh s = (s', out) \<Longrightarrow> gate_frame s s' \<and>
     out = Inr (\<lparr>ga_decision = Some d, ga_receipt = Some r, ga_shadow = sh\<rparr>,
                if gd_allowed d then None else Some (governance_failure_result C g d r sh))"
  by (auto simp: conclude_def Let_def split: if_splits)

lemma swarm_failed_result: "swarm_failed C g e s = (s', out) \<Longrightarrow> gate_frame s s' \<and> (\<exists>a r. out = Inr (a, Some r))"
  by (auto simp: swarm_failed_def Let_def)

lemma compared_result:
  assumes "compared_governance C g ld lr s = (s', out)"
  shows "gate_frame s s' \<and> (\<forall>a. out = Inr (a, None) \<longrightarrow>
     (if co_mode C = SWARM_ENFORCED then \<exists>w w' d r. swarm_judgement C g w = (w', Inr (d, r)) \<and> gd_allowed d
      else gd_allowed ld))"
proof -
  obtain s1 x where x: "in_world (swarm_judgement C g) s = (s1, x)" by fastforce
  have frame: "gate_frame s s1" using x by (rule gate_frame_world)
  show ?thesis
  proof (cases x)
    case (Inl e)
    then show ?thesis
      using assms x frame
      by (auto simp: compared_governance_def split: if_splits dest!: swarm_failed_result conclude_result
          intro: gate_frame_trans)
  next
    case (Inr p)
    obtain d r where p: "p = (d, r)" by fastforce
    have judged: "gd_allowed d \<Longrightarrow> \<exists>w w' d. (\<exists>r. swarm_judgement C g w = (w', Inr (d, r))) \<and> gd_allowed d"
      using x Inr p by (auto simp: in_world_def split: prod.splits)
    show ?thesis
      using assms x frame judged Inr p
      by (auto simp: compared_governance_def Let_def split: if_splits dest!: conclude_result
          intro: gate_frame_trans)
  qed
qed

lemma run_governance_result:
  assumes "run_governance C s = (s', out)"
  shows "gate_frame s s' \<and> (\<forall>a. out = Inr (a, None) \<longrightarrow> governance_allowed C (pr_message s))"
proof (cases "build_governance_input C (pr_message s)")
  case (Inl e)
  then show ?thesis using assms by (auto simp: run_governance_def split: prod.splits)
next
  case (Inr g)
  let ?rest = "\<lambda>ld lr. if co_mode C = LEGACY then conclude C g ld lr None
           else if co_mode C = SHADOW \<and> \<not> gc_available (co_swarm C)
           then ebind (emodify count_shadow_error) (\<lambda>_.
                  conclude C g ld lr (Some (shadow_error (gd_allowed ld)
                    (case gc_constitution_error (co_swarm C) of Some e \<Rightarrow> if e \<noteq> [] then e else ''swarm unavailable''
                                                              | None \<Rightarrow> ''swarm unavailable''))))
           else compared_governance C g ld lr"
  from assms Inr consider e where "in_world (gc_validate_local (co_legacy C) g) s = (s', Inl e)" "out = Inl e"
    | ld s1 e where "in_world (gc_validate_local (co_legacy C) g) s = (s1, Inr ld)"
        "in_world (gc_build_receipt (co_legacy C) g ld) s1 = (s', Inl e)" "out = Inl e"
    | ld s1 lr s2 where "in_world (gc_validate_local (co_legacy C) g) s = (s1, Inr ld)"
        "in_world (gc_build_receipt (co_legacy C) g ld) s1 = (s2, Inr lr)" "?rest ld lr s2 = (s', out)"
    by (auto simp: run_governance_def ebind_cases)
  then show ?thesis
  proof cases
    case 3
    have frame: "gate_frame s s2" by (rule gate_frame_trans [OF gate_frame_world [OF 3(1)] gate_frame_world [OF 3(2)]])
    have local: "\<exists>w w'. gc_validate_local (co_legacy C) g w = (w', Inr ld)"
      using 3(1) by (auto simp: in_world_def split: prod.splits)
    have "gate_frame s2 s' \<and> (\<forall>a. out = Inr (a, None) \<longrightarrow>
        (if co_mode C = SWARM_ENFORCED then \<exists>w w' d r. swarm_judgement C g w = (w', Inr (d, r)) \<and> gd_allowed d
         else gd_allowed ld))"
      using 3(3) by (auto split: if_splits dest!: conclude_result compared_result)
    then show ?thesis
      using frame local Inr gate_frame_trans unfolding governance_allowed_def by (auto split: if_splits; blast)
  qed (auto dest!: gate_frame_world intro: gate_frame_trans)
qed

lemma gate_outcome_result:
  assumes "gate_outcome P s = (s', out)"
  shows "gate_frame s s' \<and> (\<forall>a. out = Inr (a, None) \<longrightarrow> gates_passed (pp_coordinator P) (pr_message s))"
proof -
  let ?m = "pr_message s" and ?G = "co_gates (pp_coordinator P)"
  from assms consider e where "run_message_validation_gates ?G ?m s = (s', Inl e)" "out = Inl e"
    | r where "run_message_validation_gates ?G ?m s = (s', Inr (Some r))" "out = Inr (no_artifacts, Some r)"
    | s1 where "run_message_validation_gates ?G ?m s = (s1, Inr None)" "run_governance (pp_coordinator P) s1 = (s', out)"
  proof (cases "run_message_validation_gates ?G ?m s")
    case (Pair s1 x)
    show ?thesis
    proof (cases x)
      case (Inl e)
      then show ?thesis using assms Pair that(1) by (simp add: gate_outcome_def)
    next
      case (Inr v)
      then show ?thesis using assms Pair that(2,3) by (cases v) (auto simp: gate_outcome_def)
    qed
  qed
  then show ?thesis
  proof cases
    case 3
    then have "pr_message s1 = pr_message s" using validation_gates_result gate_frame_def by metis
    then show ?thesis
      using validation_gates_result [OF 3(1)] run_governance_result [OF 3(2)] gate_frame_trans
      unfolding gates_passed_def by auto
  qed (auto dest: validation_gates_result)
qed

text \<open>What stops a message is a refusal.\<close>

lemma refusal [simp]: "\<not> vr_is_valid (rejection e reason)"
  by (simp add: rejection_def)

lemma stop_at_refuses:
  assumes "\<And>s s' r. gate s = (s', Inr (Some r)) \<Longrightarrow> \<not> vr_is_valid r"
    and "\<And>s s' r. rest s = (s', Inr (Some r)) \<Longrightarrow> \<not> vr_is_valid r"
    and "stop_at gate counts rest s = (s', Inr (Some r))"
  shows "\<not> vr_is_valid r"
  using assms(3) by (auto simp: stop_at_cases dest: assms(1,2))

lemma scan_refuses: "perform_security_scan G m s = (s', Inr (Some r)) \<Longrightarrow> \<not> vr_is_valid r"
  unfolding perform_security_scan_def security_scan_def in_world_def
  by (cases "gt_runtime_scanner G m (pr_world s)"; cases "snd (gt_runtime_scanner G m (pr_world s))")
    (auto simp: ebind_def split: if_splits)

lemma independent_refuses: "enforce_independent_validator_gate G m s = (s', Inr (Some r)) \<Longrightarrow> \<not> vr_is_valid r"
  unfolding enforce_independent_validator_gate_def gate_failure_def Let_def
  by (auto split: if_splits sum.splits prod.splits bool.splits)

lemma tier_refuses: "enforce_autonomy_tier_rules m = Some r \<Longrightarrow> \<not> vr_is_valid r"
  by (auto simp: enforce_autonomy_tier_rules_def Let_def split: autonomy_tier.splits if_splits)

lemma injection_refuses: "detect_prompt_injection G m = Some r \<Longrightarrow> \<not> vr_is_valid r"
  by (auto simp: detect_prompt_injection_def split: if_splits)

lemma gates_refuse: "run_message_validation_gates G m s = (s', Inr (Some r)) \<Longrightarrow> \<not> vr_is_valid r"
  unfolding run_message_validation_gates_def
  by (auto simp: stop_at_cases dest: tier_refuses scan_refuses independent_refuses injection_refuses)

lemma governance_failure_refuses [simp]: "\<not> vr_is_valid (governance_failure_result C g d r sh)"
  by (simp add: governance_failure_result_def)

end
