(* ===== verification/Processor_Results.thy ===== *)
theory Processor_Results
  imports Processor_Theorems
begin

text \<open>
  What a whole run of the processor yields: the parts of the state each step keeps, the justification of the
  cached results, and the outcome of one attempt and of all of them.
\<close>

section \<open>What is kept\<close>

definition keeps :: "('s \<Rightarrow> 'x) \<Rightarrow> ('s, 'a) eff \<Rightarrow> bool" where
  "keeps g act \<longleftrightarrow> (\<forall>s. g (fst (act s)) = g s)"

lemma keepsD: "keeps g act \<Longrightarrow> act s = (s', r) \<Longrightarrow> g s' = g s"
  by (metis keeps_def fst_conv)

lemma keeps_simps [simp]: "keeps g (eret x)" "keeps g (eraise c t)" "keeps g (eget h)" "keeps g (lift_sum y)"
  by (auto simp: keeps_def lift_sum_def split: sum.split)

lemma keeps_modify: "(\<And>s. g (f s) = g s) \<Longrightarrow> keeps g (emodify f)"
  by (simp add: keeps_def)

lemma keeps_bind: "keeps g m \<Longrightarrow> (\<And>x. keeps g (f x)) \<Longrightarrow> keeps g (ebind m f)"
  unfolding keeps_def ebind_def by (auto split: prod.split sum.split) (metis fst_conv)+

lemma keeps_handle: "keeps g m \<Longrightarrow> (\<And>e. keeps g (h e)) \<Longrightarrow> keeps g (ehandle cs m h)"
  unfolding keeps_def ehandle_def by (auto split: prod.split sum.split) (metis fst_conv)+

lemma keeps_world: "(\<And>s w. g (s\<lparr>pr_world := w\<rparr>) = g s) \<Longrightarrow> keeps g (in_world m)"
  by (auto simp: keeps_def in_world_def split: prod.split)

lemmas keeps_intros = keeps_bind keeps_handle keeps_modify keeps_world

lemma keeps_attach: "keeps pr_cache (attach_session_context S)"
proof -
  have "keeps pr_cache (load_session load sid tenant)" for load sid tenant
    by (auto simp: keeps_def load_session_def in_world_def count_resolved_def count_not_found_def
        count_session_error_def split: prod.splits sum.splits option.splits)
  then show ?thesis
    by (auto simp: attach_session_context_def resolve_session_def count_resolved_def simp del: ebind_ret
        intro!: keeps_intros split: option.split)
qed

lemma keeps_persist: "(\<And>s w. g (s\<lparr>pr_world := w\<rparr>) = g s) \<Longrightarrow> keeps g (persist_decision_event P m r)"
  by (auto simp: persist_decision_event_def intro!: keeps_intros split: option.split)

lemma keeps_failed: "keeps pr_cache (handle_failed_processing P r i st)"
  by (auto simp: handle_failed_processing_def increment_failed_count_def schedule_governance_audit_event_def
      schedule_def record_agent_workflow_event_def simp del: ebind_ret intro!: keeps_intros keeps_persist)

lemma with_decision_event_valid: "with_decision_event P m k v r = Inr r' \<Longrightarrow> vr_is_valid r' = vr_is_valid r"
  by (auto simp: with_decision_event_def Let_def split: sum.splits)

lemma lift_sum_Inr [simp]: "lift_sum x s = (s', Inr y) \<longleftrightarrow> s' = s \<and> x = Inr y"
  by (auto simp: lift_sum_def split: sum.splits)

lemma failed_refuses:
  "handle_failed_processing P r i st s = (s', Inr r') \<Longrightarrow> vr_is_valid r' = vr_is_valid r"
  by (auto simp: handle_failed_processing_def ebind_Inr simp del: ebind_ret dest: with_decision_event_valid)

lemma successful_valid:
  "handle_successful_processing P r key latency s = (s', Inr r') \<Longrightarrow> vr_is_valid r' = vr_is_valid r"
  by (auto simp: handle_successful_processing_def ebind_Inr simp del: ebind_ret dest: with_decision_event_valid)

lemma attach_valid [simp]: "vr_is_valid (attach_governance_metadata C a r) = vr_is_valid r"
  by (simp add: attach_governance_metadata_def Let_def)

lemma processed_valid [simp]: "vr_is_valid (processed_result P a fs latency r) = vr_is_valid r"
  by (simp add: processed_result_def Let_def)

text \<open>A success is put into the cache before anything that may fail.\<close>

lemma successful_cache:
  assumes "handle_successful_processing P r key latency s = (s', out)"
  shows "pr_cache s' = pr_cache s \<and> (\<exists>e. out = Inl e) \<or>
    (\<exists>r1. vr_is_valid r1 = vr_is_valid r \<and> (\<forall>r'. out = Inr r' \<longrightarrow> r' = r1) \<and>
       pr_cache s' = lru_set (pp_cache_size P) key r1 (pr_cache s))"
proof (cases "with_decision_event P (pr_message s) ''latency_ms'' (JNum latency) r")
  case (Inl e)
  then have "s' = s \<and> out = Inl e"
    using assms by (cases e) (simp add: handle_successful_processing_def lift_sum_def)
  then show ?thesis by simp
next
  case (Inr r1)
  let ?m = "pr_message s"
  define after where "after =
     ebind (emodify (\<lambda>s. s\<lparr>pr_processed := pr_processed s + 1\<rparr>)) (\<lambda>_.
     ebind (emodify (schedule_governance_audit_event P ?m r1)) (\<lambda>_.
     ebind (persist_decision_event P ?m r1) (\<lambda>_.
     ebind (lift_sum (requires_independent_validation (co_gates (pp_coordinator P)) ?m)) (\<lambda>required.
     ebind (if required then eret ()
            else emodify (record_agent_workflow_event ''autonomous_action'' ''no_independent_validation_required'')) (\<lambda>_.
     ebind (if pp_metering P = None then eret () else emodify (schedule (MeteringTask ?m latency))) (\<lambda>_.
       eret r1))))))"
  have keeps: "keeps pr_cache after"
    by (auto simp: after_def schedule_governance_audit_event_def schedule_def record_agent_workflow_event_def
        simp del: ebind_ret intro!: keeps_intros keeps_persist)
  have result: "after t = (t', Inr r') \<Longrightarrow> r' = r1" for t t' r'
    by (auto simp: after_def ebind_Inr simp del: ebind_ret)
  have "after (s\<lparr>pr_cache := lru_set (pp_cache_size P) key r1 (pr_cache s)\<rparr>) = (s', out)"
    using assms Inr by (simp add: handle_successful_processing_def lift_sum_def after_def)
  then show ?thesis
    using keepsD [OF keeps] result with_decision_event_valid [OF Inr] by fastforce
qed

section \<open>The justification of the cache\<close>

definition admitted :: "'w processor_parts \<Rightarrow> agent_message \<Rightarrow> bool" where
  "admitted P m \<longleftrightarrow>
     (\<exists>w w' fs. verify_message (pp_verifiers P) (content_text (co_gates (pp_coordinator P)) m) m w = (w', Inr (fs, None))) \<and>
     (\<exists>s s' r. pr_message s = m \<and> sg_process (pp_strategy P) s = (s', Inr r) \<and> vr_is_valid r)"

lemma admittedI:
  "verify_message (pp_verifiers P) (content_text (co_gates (pp_coordinator P)) m) m w = (w', Inr (fs, None)) \<Longrightarrow>
   sg_process (pp_strategy P) s = (s', Inr r) \<Longrightarrow> pr_message s = m \<Longrightarrow> vr_is_valid r \<Longrightarrow> admitted P m"
  unfolding admitted_def by blast

definition message_key :: "'w processor_parts \<Rightarrow> agent_message \<Rightarrow> pipeline_exn + string" where
  "message_key P m = compute_cache_key (co_gates (pp_coordinator P)) (pp_key_digest P) (pp_mode_text P) m"

definition justified_cache :: "'w processor_parts \<Rightarrow> lru \<Rightarrow> bool" where
  "justified_cache P c \<longleftrightarrow> lru_inv (pp_cache_size P) c \<and>
     (\<forall>k r. dget (lru_backing c) k = Some r \<longrightarrow>
        vr_is_valid r \<and> (\<exists>m. message_key P m = Inr k \<and> gates_passed (pp_coordinator P) m \<and> admitted P m))"

lemma justified_get: "justified_cache P c \<Longrightarrow> justified_cache P (fst (lru_get k c))"
  by (simp add: justified_cache_def lru_get_inv lru_get_entries)

lemma justified_set:
  assumes "justified_cache P c" and "0 < pp_cache_size P" and "vr_is_valid r"
    and "message_key P m = Inr k" and "gates_passed (pp_coordinator P) m" and "admitted P m"
  shows "justified_cache P (lru_set (pp_cache_size P) k r c)"
  unfolding justified_cache_def
proof (intro conjI allI impI)
  have inv: "lru_inv (pp_cache_size P) c" using assms(1) by (simp add: justified_cache_def)
  show "lru_inv (pp_cache_size P) (lru_set (pp_cache_size P) k r c)" using inv assms(2) by (rule lru_set_inv)
  fix j u
  assume "dget (lru_backing (lru_set (pp_cache_size P) k r c)) j = Some u"
  then have "j = k \<and> u = r \<or> dget (lru_backing c) j = Some u"
    using inv by (intro lru_set_entries) (auto simp: lru_inv_def)
  then show "vr_is_valid u" "\<exists>m. message_key P m = Inr j \<and> gates_passed (pp_coordinator P) m \<and> admitted P m"
    using assms unfolding justified_cache_def by blast+
qed

lemma justified_new [simp]: "justified_cache P new_lru"
  by (simp add: justified_cache_def new_lru_def lru_inv_def)

lemma justified_hit: "justified_cache P c \<Longrightarrow> snd (lru_get k c) = Some r \<Longrightarrow>
    \<exists>m. message_key P m = Inr k \<and> gates_passed (pp_coordinator P) m \<and> admitted P m"
  by (auto simp: justified_cache_def lru_get_def split: option.splits)

section \<open>One attempt\<close>

lemma governance_refuses: "run_governance C s = (s', Inr (a, Some r)) \<Longrightarrow> \<not> vr_is_valid r"
proof -
  assume run: "run_governance C s = (s', Inr (a, Some r))"
  have conclude: "conclude C g d x sh t = (t', Inr (a, Some r)) \<Longrightarrow> \<not> vr_is_valid r" for g d x sh t t'
    by (auto simp: conclude_def Let_def split: if_splits)
  have swarm: "swarm_failed C g e t = (t', Inr (a, Some r)) \<Longrightarrow> \<not> vr_is_valid r" for g e t t'
    by (auto simp: swarm_failed_def Let_def)
  have compared: "compared_governance C g d x t = (t', Inr (a, Some r)) \<Longrightarrow> \<not> vr_is_valid r" for g d x t t'
    by (auto simp: compared_governance_def Let_def split: prod.splits sum.splits if_splits dest: conclude swarm)
  show ?thesis
    using run
    by (auto simp: run_governance_def ebind_Inr split: sum.splits if_splits dest: conclude compared)
qed

lemma gate_outcome_refuses: "gate_outcome P s = (s', Inr (a, Some r)) \<Longrightarrow> \<not> vr_is_valid r"
  by (auto simp: gate_outcome_def ebind_Inr split: option.splits dest: gates_refuse governance_refuses)

lemma verification_refuses: "verify_message V c m w = (w', Inr (fs, Some r)) \<Longrightarrow> \<not> vr_is_valid r"
proof -
  assume run: "verify_message V c m w = (w', Inr (fs, Some r))"
  have pqc: "\<not> vr_is_valid r" if "perform_pqc V m w1 = (w2, Inr (Some r, gs))" for w1 w2 gs
  proof (cases "vf_pqc_mode V")
    case (Some mode)
    obtain w3 x where x: "vf_pqc V (pqc_message_data m) w1 = (w3, x)" by fastforce
    show ?thesis
      using that Some x by (cases x) (auto simp: perform_pqc_def pqc_denied_def split: if_splits)
  qed (use that in \<open>simp add: perform_pqc_def\<close>)
  from run show ?thesis by (auto simp: verify_message_def ebind_Inr dest: pqc)
qed

text \<open>A message has a reason to be accepted: it is admitted itself, or another message with its key is.\<close>

definition reason_to_accept :: "'w processor_parts \<Rightarrow> agent_message \<Rightarrow> bool" where
  "reason_to_accept P m \<longleftrightarrow> gates_passed (pp_coordinator P) m \<and>
     (\<exists>m0 k. message_key P m = Inr k \<and> message_key P m0 = Inr k \<and> gates_passed (pp_coordinator P) m0 \<and> admitted P m0)"

lemma execute_verification_result:
  assumes "execute_verification P a key start s = (s', out)" and "justified_cache P (pr_cache s)"
    and "0 < pp_cache_size P" and "confined (sg_process (pp_strategy P))"
    and "message_key P (pr_message s) = Inr key" and "gates_passed (pp_coordinator P) (pr_message s)"
  shows "justified_cache P (pr_cache s') \<and> (\<forall>r. out = Inr r \<and> vr_is_valid r \<longrightarrow> admitted P (pr_message s))"
proof -
  let ?m = "pr_message s" and ?C = "pp_coordinator P"
  let ?v = "verify_message (pp_verifiers P) (content_text (co_gates ?C) ?m) ?m"
  obtain w x where v: "?v (pr_world s) = (w, x)" by fastforce
  show ?thesis
  proof (cases x)
    case (Inl e)
    then show ?thesis using assms(1,2) v by (auto simp: execute_verification_def in_world_def)
  next
    case (Inr y)
    obtain fs denied where y: "y = (fs, denied)" by fastforce
    have step: "in_world ?v s = (s\<lparr>pr_world := w\<rparr>, Inr (fs, denied))" using v Inr y by (simp add: in_world_def)
    show ?thesis
    proof (cases denied)
      case (Some r)
      then have fails: "handle_failed_processing P (attach_governance_metadata ?C a r) False ''verification''
          (increment_failed_count (s\<lparr>pr_world := w\<rparr>)) = (s', out)"
        using assms(1) step by (simp add: execute_verification_def)
      have "pr_cache s' = pr_cache s" using keepsD [OF keeps_failed fails] by (simp add: increment_failed_count_def)
      moreover have "\<not> vr_is_valid r" using verification_refuses v Inr y Some by metis
      ultimately show ?thesis using assms(2) failed_refuses fails by fastforce
    next
      case None
      obtain s1 z where z: "sg_process (pp_strategy P) (s\<lparr>pr_world := w\<rparr>) = (s1, z)" by fastforce
      have cache1: "pr_cache s1 = pr_cache s" using frame_fields [OF confinedD [OF assms(4) z]] by simp
      show ?thesis
      proof (cases z)
        case (Inl e)
        then show ?thesis using assms(1,2) step None z cache1 by (auto simp: execute_verification_def)
      next
        case (Inr r0)
        let ?r = "processed_result P a fs (latency_since P start s1) r0"
        have rest: "(if vr_is_valid r0 then handle_successful_processing P ?r key (latency_since P start s1)
            else handle_failed_processing P ?r True ''strategy'') s1 = (s', out)"
          using assms(1) step None z Inr by (simp add: execute_verification_def Let_def)
        show ?thesis
        proof (cases "vr_is_valid r0")
          case False
          show ?thesis
          proof -
            have fails: "handle_failed_processing P ?r True ''strategy'' s1 = (s', out)" using rest False by simp
            have "pr_cache s' = pr_cache s" using keepsD [OF keeps_failed fails] cache1 by simp
            moreover have "out = Inr r' \<Longrightarrow> \<not> vr_is_valid r'" for r'
              using failed_refuses [of P ?r True "''strategy''" s1 s' r'] fails False by simp
            ultimately show ?thesis using assms(2) by auto
          qed
        next
          case True
          then have admitted: "admitted P ?m"
            using v Inr \<open>x = Inr y\<close> y None z by (auto intro: admittedI)
          have "handle_successful_processing P ?r key (latency_since P start s1) s1 = (s', out)"
            using rest True by simp
          from successful_cache [OF this] have "pr_cache s' = pr_cache s \<or>
              (\<exists>r1. vr_is_valid r1 \<and> pr_cache s' = lru_set (pp_cache_size P) key r1 (pr_cache s))"
            using cache1 True by auto
          then have "justified_cache P (pr_cache s')"
            using assms(2) justified_set [OF assms(2,3) _ assms(5,6) admitted] by auto
          then show ?thesis using admitted by simp
        qed
      qed
    qed
  qed
qed

text \<open>A success of the verification went through the success handler.\<close>

lemma accepted_by_strategy:
  assumes "execute_verification P a key start s = (s', Inr r)" and "vr_is_valid r"
    and "confined (sg_process (pp_strategy P))"
  shows "\<exists>t r0 latency. pr_cache t = pr_cache s \<and> handle_successful_processing P r0 key latency t = (s', Inr r)"
proof -
  let ?m = "pr_message s" and ?C = "pp_coordinator P"
  from assms(1) obtain w fs denied where
    v: "in_world (verify_message (pp_verifiers P) (content_text (co_gates ?C) ?m) ?m) s = (s\<lparr>pr_world := w\<rparr>, Inr (fs, denied))"
    and rest: "(case denied of Some r \<Rightarrow>
        ebind (emodify increment_failed_count) (\<lambda>_.
          handle_failed_processing P (attach_governance_metadata ?C a r) False ''verification'')
      | None \<Rightarrow> ebind (sg_process (pp_strategy P)) (\<lambda>r0. ebind (eget (latency_since P start)) (\<lambda>latency.
          if vr_is_valid r0 then handle_successful_processing P (processed_result P a fs latency r0) key latency
          else handle_failed_processing P (processed_result P a fs latency r0) True ''strategy'')))
      (s\<lparr>pr_world := w\<rparr>) = (s', Inr r)"
    by (auto simp: execute_verification_def in_world_def ebind_Inr Let_def simp del: ebind_ret split: prod.splits)
  show ?thesis
  proof (cases denied)
    case (Some r0)
    then have "\<not> vr_is_valid r0" using v verification_refuses by (fastforce simp: in_world_def split: prod.splits)
    then show ?thesis using rest Some failed_refuses assms(2) by fastforce
  next
    case None
    with rest obtain t r0 where run: "sg_process (pp_strategy P) (s\<lparr>pr_world := w\<rparr>) = (t, Inr r0)" and
      rest': "(if vr_is_valid r0
        then handle_successful_processing P (processed_result P a fs (latency_since P start t) r0) key (latency_since P start t)
        else handle_failed_processing P (processed_result P a fs (latency_since P start t) r0) True ''strategy'') t = (s', Inr r)"
      by (auto simp: ebind_Inr)
    have "pr_cache t = pr_cache s" using frame_fields [OF confinedD [OF assms(3) run]] by simp
    moreover have "vr_is_valid r0"
    proof (rule ccontr)
      assume "\<not> vr_is_valid r0"
      with rest' have "handle_failed_processing P (processed_result P a fs (latency_since P start t) r0) True ''strategy'' t
        = (s', Inr r)" by simp
      from failed_refuses [OF this] show False using \<open>\<not> vr_is_valid r0\<close> assms(2) by simp
    qed
    ultimately show ?thesis using rest' by auto
  qed
qed

lemma check_cache_result:
  assumes "check_cache P a start s = (s', out)" and "justified_cache P (pr_cache s)"
    and "0 < pp_cache_size P" and "confined (sg_process (pp_strategy P))"
    and "gates_passed (pp_coordinator P) (pr_message s)"
  shows "justified_cache P (pr_cache s') \<and> (\<forall>r. out = Inr r \<and> vr_is_valid r \<longrightarrow> reason_to_accept P (pr_message s))"
proof (cases "message_key P (pr_message s)")
  case (Inl e)
  then show ?thesis using assms(1,2) by (cases e) (auto simp: check_cache_def message_key_def lift_sum_def)
next
  case (Inr key)
  obtain c hit where get: "lru_get key (pr_cache s) = (c, hit)" by fastforce
  have c: "justified_cache P c" using justified_get [OF assms(2), of key] get by simp
  have rest: "(case hit of Some r \<Rightarrow> eret (attach_governance_metadata (pp_coordinator P) a r)
      | None \<Rightarrow> execute_verification P a key start) (s\<lparr>pr_cache := c\<rparr>) = (s', out)"
    using assms(1) Inr get by (simp add: check_cache_def message_key_def [symmetric] lift_sum_def)
  show ?thesis
  proof (cases hit)
    case None
    then show ?thesis
      using execute_verification_result [of P a key start "s\<lparr>pr_cache := c\<rparr>" s' out] rest c assms(3-5) Inr
      unfolding reason_to_accept_def by auto
  next
    case (Some r)
    then show ?thesis
      using rest c justified_hit [OF assms(2), of key r] get Inr assms(5) unfolding reason_to_accept_def by auto
  qed
qed

text \<open>The message an attempt works on is the one the session is attached to.\<close>

lemma do_process_result:
  assumes "do_process P s = (s', out)" and "justified_cache P (pr_cache s)"
    and "0 < pp_cache_size P" and "confined (sg_process (pp_strategy P))"
  shows "justified_cache P (pr_cache s') \<and> (\<forall>r. out = Inr r \<and> vr_is_valid r \<longrightarrow>
    (\<exists>t. attach_session_context (pp_sessions P) s = (t, Inr ()) \<and> reason_to_accept P (pr_message t)))"
proof -
  obtain t x where t: "attach_session_context (pp_sessions P) s = (t, x)" by fastforce
  have cache_t: "pr_cache t = pr_cache s" using keepsD [OF keeps_attach t] .
  show ?thesis
  proof (cases x)
    case (Inl e)
    then show ?thesis using assms(1,2) t cache_t by (auto simp: do_process_def)
  next
    case (Inr u)
    obtain t1 y where y: "gate_outcome P t = (t1, y)" by fastforce
    have frame: "gate_frame t t1" using gate_outcome_result [OF y] by simp
    then have keep: "pr_cache t1 = pr_cache s" "pr_message t1 = pr_message t" using cache_t by (auto simp: gate_frame_def)
    show ?thesis
    proof (cases y)
      case (Inl e)
      then show ?thesis using assms(1,2) t \<open>x = Inr u\<close> y keep by (auto simp: do_process_def)
    next
      case (Inr z)
      obtain a failed where z: "z = (a, failed)" by fastforce
      show ?thesis
      proof (cases failed)
        case (Some r)
        then have fails: "handle_failed_processing P (attach_governance_metadata (pp_coordinator P) a r) False ''gate'' t1 = (s', out)"
          using assms(1) t \<open>x = Inr u\<close> y Inr z by (simp add: do_process_def)
        have "\<not> vr_is_valid r" using gate_outcome_refuses y Inr z Some by metis
        then show ?thesis using fails failed_refuses keepsD [OF keeps_failed fails] keep assms(2) by fastforce
      next
        case None
        then have "check_cache P a (pp_perf_counter P (pr_world s)) t1 = (s', out)"
          using assms(1) t \<open>x = Inr u\<close> y Inr z by (simp add: do_process_def)
        moreover have "gates_passed (pp_coordinator P) (pr_message t1)"
          using gate_outcome_result [OF y] Inr z None keep by simp
        ultimately show ?thesis
          using check_cache_result [OF _ _ assms(3,4)] keep assms(2) t \<open>x = Inr u\<close> by fastforce
      qed
    qed
  qed
qed

section \<open>All attempts\<close>

lemma after_failures_justified:
  assumes "0 < pp_cache_size P" and "confined (sg_process (pp_strategy P))"
  shows "after_failures (do_process P) k (s, e) = Some (sk, ek) \<Longrightarrow> justified_cache P (pr_cache s) \<Longrightarrow>
    justified_cache P (pr_cache sk)"
proof (induction k arbitrary: s e)
  case (Suc k)
  obtain s1 r where act: "do_process P s = (s1, r)" by fastforce
  then have "justified_cache P (pr_cache s1)" using do_process_result [OF act Suc.prems(2) assms] by simp
  with Suc act show ?case by (auto split: sum.splits if_splits)
qed simp

text \<open>The message that was processed by one of \<open>n\<close> attempts\<close>

definition attempted :: "'w processor_parts \<Rightarrow> nat \<Rightarrow> 'w processor \<Rightarrow> agent_message \<Rightarrow> bool" where
  "attempted P n s m \<longleftrightarrow> (\<exists>k sk ek t. k < n \<and> after_failures (do_process P) k (s, ''None'') = Some (sk, ek) \<and>
     attach_session_context (pp_sessions P) sk = (t, Inr ()) \<and> pr_message t = m)"

lemma exhausted_refuses [simp]: "\<not> vr_is_valid (exhausted n num e)"
  by (simp add: exhausted_def)

lemma processor_result:
  assumes "process P num n s = (s', out)" and "pp_breaker P = None" and "justified_cache P (pr_cache s)"
    and "0 < pp_cache_size P" and "confined (sg_process (pp_strategy P))"
  shows "justified_cache P (pr_cache s') \<and>
    (\<forall>r. out = Inr r \<and> vr_is_valid r \<longrightarrow> (\<exists>m. attempted P n s m \<and> reason_to_accept P m))"
proof -
  have "attempts_left (do_process P) num n n ''None'' s = (s', out)"
    using assms(1,2) by (simp add: process_def guarded_process_def)
  from attempts_left_result [OF this] obtain k sk ek where
    k: "after_failures (do_process P) k (s, ''None'') = Some (sk, ek)" and
    or: "k = n \<and> s' = sk \<and> out = Inr (exhausted n num ek) \<or> k < n \<and> do_process P sk = (s', out)"
    by blast
  have sk: "justified_cache P (pr_cache sk)" using after_failures_justified [OF assms(4,5) k assms(3)] .
  from or show ?thesis
  proof
    assume "k = n \<and> s' = sk \<and> out = Inr (exhausted n num ek)"
    then show ?thesis using sk by auto
  next
    assume run: "k < n \<and> do_process P sk = (s', out)"
    then show ?thesis
      using do_process_result [OF _ sk assms(4,5), of s' out] k unfolding attempted_def by blast
  qed
qed

end
