(* ===== verification/Processor_Properties.thy ===== *)
theory Processor_Properties
  imports Processor_Results Bus_Properties
begin

text \<open>
  The properties of the message processor: what stands behind an accepted message, alone and behind the bus,
  how far a cached verdict goes, the modes of the governance and its quorum, the breaker of the Rust
  strategy, the wrapper of MACI, and the evidence of an independent validator.
\<close>

section \<open>A small processor\<close>

text \<open>A scanner that finds nothing, a constitution that is loaded and content, no session, no client\<close>

definition quiet_gates :: "'w gates" where
  "quiet_gates = \<lparr>gt_require_independent_validator = False, gt_independent_validator_threshold = 8 / 10,
     gt_runtime_scanner = (\<lambda>m. eret \<lparr>sv_blocked = False, sv_block_reason = [], sv_events = JNull\<rparr>),
     gt_text = (\<lambda>j. [])\<rparr>"

definition content_swarm :: "'w swarm" where
  "content_swarm = \<lparr>sw_hash = Some CONSTITUTIONAL_HASH, sw_error = [], sw_expected_hash = CONSTITUTIONAL_HASH,
     sw_peer_validation = True, sw_danger_signals = True, sw_adaptive_quorum = True,
     sw_dna = (\<lambda>t. eret DnaValid), sw_mesh = (\<lambda>g ids n. eraise RuntimeErr ''no mesh''), sw_attestation = None\<rparr>"

definition quiet_coordinator :: "governance_mode \<Rightarrow> 'w coordinator" where
  "quiet_coordinator mode = \<lparr>co_mode = mode, co_constitutional_hash = CONSTITUTIONAL_HASH, co_digest = (\<lambda>t. t),
     co_gates = quiet_gates, co_legacy = legacy_core (\<lambda>j. []) CONSTITUTIONAL_HASH None (\<lambda>w. 0),
     co_swarm = swarm_core (\<lambda>j. []) content_swarm (\<lambda>w. 0), co_clock = (\<lambda>w. 0)\<rparr>"

definition quiet_strategies :: "'w strategy_parts" where
  "quiet_strategies = \<lparr>sp_isolated = False, sp_rust = None, sp_opa = None, sp_dynamic_policy = False,
     sp_constitutional_verifier = False, sp_enable_maci = False, sp_maci_strict = True, sp_maci_validator = None,
     sp_clock = (\<lambda>w. 0), sp_text = (\<lambda>j. []), sp_list_text = concat\<rparr>"

definition quiet_verifiers :: "'w verifiers" where
  "quiet_verifiers = \<lparr>vf_classify = (\<lambda>t. eret ''general''), vf_asc = (\<lambda>t i. eret []), vf_graph = (\<lambda>t. eret []),
     vf_pacar = (\<lambda>t i s. eret []), vf_record_feedback = (\<lambda>i vs. eret ()), vf_pqc_mode = None,
     vf_enable_pqc = False, vf_pqc = (\<lambda>d. eraise RuntimeErr [])\<rparr>"

definition quiet_parts :: "governance_mode \<Rightarrow> 'w processor_parts" where
  "quiet_parts mode = \<lparr>pp_coordinator = quiet_coordinator mode,
     pp_sessions = \<lparr>se_manager = None, se_enabled = True, se_text = (\<lambda>j. [])\<rparr>, pp_verifiers = quiet_verifiers,
     pp_strategy = auto_select_strategy quiet_strategies [], pp_breaker = None, pp_cache_size = 2,
     pp_key_digest = (\<lambda>t. t), pp_mode_text = ''legacy'', pp_audit_client = None, pp_repository = None,
     pp_dlq_push = (\<lambda>e. eret ()), pp_dlq_trim = eret (), pp_metering = None,
     pp_decision_event = (\<lambda>m r. Inr JNull), pp_perf_counter = (\<lambda>w. 0), pp_time = (\<lambda>w. 0)\<rparr>"

lemma hello_accepted:
  "case process (quiet_parts LEGACY) (\<lambda>n. []) 3 (new_processor hello ()) of (s, Inr r) \<Rightarrow> vr_is_valid r | _ \<Rightarrow> False"
  by code_simp

section \<open>Accepted messages\<close>

text \<open>C5: Every result the processor accepts, after any number of retries, is for a message that passed all gates
  (autonomy tier, security scan, independent validator, prompt injection, governance) and whose verdict is
  either its own or that of an earlier message with the same cache key that passed the gates, was verified and
  was accepted by the selected strategy; and the cache stays justified and within its size.\<close>

theorem accepted_message_passed_gates:
  assumes "process P num n s = (s', Inr r)" and "vr_is_valid r" and "justified_cache P (pr_cache s)"
    and "0 < pp_cache_size P" and "pp_breaker P = None" and "pp_strategy P = auto_select_strategy SP hs"
  shows "justified_cache P (pr_cache s') \<and>
    (\<exists>m m0 k. attempted P n s m \<and> gates_passed (pp_coordinator P) m \<and> message_key P m = Inr k \<and>
       message_key P m0 = Inr k \<and> gates_passed (pp_coordinator P) m0 \<and> admitted P m0)"
  using processor_result [OF assms(1,5,3,4)] confined_auto_select [of SP hs] assms(2,6)
  unfolding reason_to_accept_def by auto

lemma accepted_message_passed_gates_witness:
  "\<exists>s' r. process (quiet_parts LEGACY) (\<lambda>n. []) 3 (new_processor hello ()) = (s', Inr r) \<and>
     justified_cache (quiet_parts LEGACY :: unit processor_parts) (pr_cache s') \<and>
     (\<exists>m. attempted (quiet_parts LEGACY) 3 (new_processor hello ()) m)"
proof -
  let ?P = "quiet_parts LEGACY :: unit processor_parts" and ?s = "new_processor hello ()"
  obtain s' r where run: "process ?P (\<lambda>n. []) 3 ?s = (s', Inr r)" and r: "vr_is_valid r"
    using hello_accepted by (auto split: prod.splits sum.splits)
  have "justified_cache ?P (pr_cache ?s)" by (simp add: new_processor_def)
  moreover have "0 < pp_cache_size ?P" "pp_breaker ?P = None"
      "pp_strategy ?P = auto_select_strategy quiet_strategies []"
    by (simp_all add: quiet_parts_def)
  ultimately have "justified_cache ?P (pr_cache s') \<and> (\<exists>m m0 k. attempted ?P 3 ?s m \<and>
      gates_passed (pp_coordinator ?P) m \<and> message_key ?P m = Inr k \<and>
      message_key ?P m0 = Inr k \<and> gates_passed (pp_coordinator ?P) m0 \<and> admitted ?P m0)"
    using accepted_message_passed_gates [OF run r] by blast
  then have "justified_cache ?P (pr_cache s')" "\<exists>m. attempted ?P 3 ?s m" by blast+
  then show ?thesis using run by (intro exI [of _ s'] exI [of _ r]) simp
qed

text \<open>The same without a look at the cache, behind the bus\<close>

lemma accepted_passed_gates:
  assumes "process P num n s = (s', Inr r)" and "vr_is_valid r" and "pp_breaker P = None"
  shows "\<exists>m. attempted P n s m \<and> gates_passed (pp_coordinator P) m"
proof -
  have "attempts_left (do_process P) num n n ''None'' s = (s', Inr r)"
    using assms(1,3) by (simp add: process_def guarded_process_def)
  from attempts_left_result [OF this] obtain k sk ek where
    k: "k < n" "after_failures (do_process P) k (s, ''None'') = Some (sk, ek)" "do_process P sk = (s', Inr r)"
    using assms(2) by auto
  from k(3) obtain t t1 a failed where
    t: "attach_session_context (pp_sessions P) sk = (t, Inr ())" and
    g: "gate_outcome P t = (t1, Inr (a, failed))" and
    rest: "(case failed of Some r \<Rightarrow>
        handle_failed_processing P (attach_governance_metadata (pp_coordinator P) a r) False ''gate''
      | None \<Rightarrow> check_cache P a (pp_perf_counter P (pr_world sk))) t1 = (s', Inr r)"
    by (auto simp: do_process_def ebind_Inr simp del: ebind_ret)
  have "failed = None"
  proof (cases failed)
    case (Some r0)
    then have "vr_is_valid r = vr_is_valid r0" using rest failed_refuses by fastforce
    then show ?thesis using gate_outcome_refuses g Some assms(2) by metis
  qed simp
  then have "gates_passed (pp_coordinator P) (pr_message t)" using gate_outcome_result [OF g] by simp
  then show ?thesis using k(1,2) t unfolding attempted_def by blast
qed

text \<open>C6: A message the bus queues, with this processor behind it, has passed all gates of the processor on one of
  its three attempts; the only other way into the queue is that the processor raised and the message
  claims in its metadata to be validated already.\<close>

theorem delivered_message_passed_gates:
  assumes "send_message P now m b = (b', r)" and "bs_queue b' \<noteq> bs_queue b"
    and "bp_process P = process_for_bus PP num" and "pp_breaker PP = None"
  shows "\<exists>m1 m' s. bs_queue b' = bs_queue b @ [m'] \<and> pr_message s = m1 \<and>
    am_from_agent m1 = am_from_agent m \<and> am_to_agent m1 = am_to_agent m \<and> am_content m1 = am_content m \<and>
    am_constitutional_hash m = JStr (bs_hash b) \<and>
    ((\<exists>m2. attempted PP 3 s m2 \<and> gates_passed (pp_coordinator PP) m2) \<or>
     (\<exists>s' e. process PP num 3 s = (s', Inl e)) \<and> claims_prevalidation m')"
proof -
  from queued_message [OF assms(1,2)] obtain m1 m' where m': "bs_queue b' = bs_queue b @ [m']"
    "only_metadata_differs (with_tenant m) m1" "checked_in P now m b" "cleared P m1 m'"
    by blast
  from m'(4) obtain w w' out where run: "bp_process P (m1, w) = ((m', w'), out)"
    and out: "case out of Inr v \<Rightarrow> vr_is_valid v | Inl _ \<Rightarrow> claims_prevalidation m'"
    unfolding cleared_def accepted_by_processor_def by blast
  define s where "s = w\<lparr>pr_message := m1\<rparr>"
  obtain s' where s': "process PP num 3 s = (s', out)"
    using run assms(3) by (auto simp: process_for_bus_def s_def split: prod.splits)
  have "(\<exists>m2. attempted PP 3 s m2 \<and> gates_passed (pp_coordinator PP) m2) \<or>
     (\<exists>s' e. process PP num 3 s = (s', Inl e)) \<and> claims_prevalidation m'"
    using s' out accepted_passed_gates [OF _ _ assms(4)] by (cases out) auto
  then show ?thesis
    using m'(1-3) by (intro exI [of _ m1] exI [of _ m'] exI [of _ s])
      (auto simp: s_def only_metadata_differs_def checked_in_def)
qed

definition hosted :: "('s, 'a) eff \<Rightarrow> ('s processor, 'a) eff" where
  "hosted = in_world"

definition guarded_bus :: "memory_registry processor bus_parts" where
  "guarded_bus = \<lparr>bp_manager = \<lparr>ms_public_key = None, ms_maci_register = None, ms_enable_maci = False,
       ms_backend = \<lparr>ra_register = (\<lambda>t a cs d. hosted (memory_register t a cs d)),
         ra_unregister = (\<lambda>a. hosted (memory_unregister a)), ra_get = (\<lambda>a. hosted (ra_get memory_agents a)),
         ra_list_agents = hosted (ra_list_agents memory_agents), ra_exists = (\<lambda>a. hosted (ra_exists memory_agents a)),
         ra_update_metadata = (\<lambda>t a d. hosted (memory_update_metadata t a d)), ra_clear = hosted (ra_clear memory_agents)\<rparr>\<rparr>,
     bp_allow_unstarted = False, bp_rate_limit = None, bp_dynamic_context = None, bp_governance = None,
     bp_policy_key = None, bp_process = process_for_bus (quiet_parts LEGACY) (\<lambda>n. []),
     bp_route = (\<lambda>m. eret None), bp_kafka = None, bp_text = (\<lambda>j. [])\<rparr>"

lemma hello_queued:
  "bs_queue (fst (send_message guarded_bus 0 hello ((new_bus (new_processor hello []))\<lparr>bs_running := True\<rparr>))) \<noteq>
   bs_queue ((new_bus (new_processor hello ([] :: memory_registry)))\<lparr>bs_running := True\<rparr>)"
  by code_simp

lemma delivered_message_passed_gates_witness:
  "\<exists>m1 s m2. pr_message s = m1 \<and> am_from_agent m1 = JStr ''ann'' \<and>
     (attempted (quiet_parts LEGACY :: memory_registry processor_parts) 3 s m2 \<or> claims_prevalidation m2)"
proof -
  let ?b = "(new_bus (new_processor hello ([] :: memory_registry)))\<lparr>bs_running := True\<rparr>"
  obtain b' r where sent: "send_message guarded_bus 0 hello ?b = (b', r)" by fastforce
  then have "bs_queue b' \<noteq> bs_queue ?b" using hello_queued by simp
  moreover have "bp_process guarded_bus = process_for_bus (quiet_parts LEGACY) (\<lambda>n. [])"
      "pp_breaker (quiet_parts LEGACY :: memory_registry processor_parts) = None"
    by (simp_all add: guarded_bus_def quiet_parts_def)
  ultimately obtain m1 m' and s :: "memory_registry processor" where
    "pr_message s = m1" "am_from_agent m1 = am_from_agent hello"
    "(\<exists>m2. attempted (quiet_parts LEGACY :: memory_registry processor_parts) 3 s m2) \<or> claims_prevalidation m'"
    using delivered_message_passed_gates [OF sent] by blast
  then show ?thesis by (auto simp: hello_def)
qed

section \<open>Cached verdicts\<close>

lemma key_ignores:
  "message_key P (m\<lparr>am_message_id := i, am_to_agent := x, am_payload := y, am_priority := p, am_pqc_signature := q\<rparr>) =
   message_key P m"
  by (simp add: message_key_def compute_cache_key_def cache_dimensions_def content_text_def
      extract_session_id_for_governance_def header_session_def cong: sum.case_cong json.case_cong if_cong)

text \<open>C33: Once a message is accepted, a message that differs from it in its identifier, recipient, payload, priority
  and signature is answered with the same verdict and the same errors from the cache: no verification, no
  strategy, no handler runs, and nothing is counted, metered, audited or recorded.\<close>

theorem cached_verdict_reused:
  fixes P :: "'w processor_parts"
  assumes "check_cache P a start s = (s1, Inr r)" and "vr_is_valid r"
    and "lru_inv (pp_cache_size P) (pr_cache s)" and "0 < pp_cache_size P"
    and "pp_strategy P = auto_select_strategy SP hs"
    and m2: "m2 = (pr_message s)\<lparr>am_message_id := i, am_to_agent := x, am_payload := y, am_priority := p, am_pqc_signature := q\<rparr>"
  shows "\<exists>c r2. check_cache P a2 start2 (s1\<lparr>pr_message := m2\<rparr>) =
      (s1\<lparr>pr_message := m2, pr_cache := c\<rparr>, Inr (attach_governance_metadata (pp_coordinator P) a2 r2)) \<and>
    vr_is_valid r2 \<and> vr_errors r2 = vr_errors r"
proof -
  let ?C = "pp_coordinator P"
  obtain key where key: "message_key P (pr_message s) = Inr key"
    using assms(1) by (cases "message_key P (pr_message s)")
      (auto simp: check_cache_def message_key_def lift_sum_def)
  obtain c hit where get: "lru_get key (pr_cache s) = (c, hit)" by fastforce
  have inv: "lru_inv (pp_cache_size P) c" using lru_get_inv [OF assms(3), of key] get by simp
  have rest: "(case hit of Some r \<Rightarrow> eret (attach_governance_metadata ?C a r)
      | None \<Rightarrow> execute_verification P a key start) (s\<lparr>pr_cache := c\<rparr>) = (s1, Inr r)"
    using assms(1) key get by (simp add: check_cache_def message_key_def [symmetric] lift_sum_def)
  have found: "\<exists>r2. snd (lru_get key (pr_cache s1)) = Some r2 \<and> vr_is_valid r2 \<and> vr_errors r2 = vr_errors r"
  proof (cases hit)
    case (Some r0)
    then have "pr_cache s1 = c" "r = attach_governance_metadata ?C a r0" using rest by auto
    moreover have "dget (lru_backing c) key = Some r0"
      using get Some lru_get_entries [of key "pr_cache s" key] by (auto simp: lru_get_def split: option.splits)
    ultimately show ?thesis
      using assms(2) by (auto simp: lru_get_def attach_governance_metadata_def Let_def)
  next
    case None
    then have "execute_verification P a key start (s\<lparr>pr_cache := c\<rparr>) = (s1, Inr r)" using rest by simp
    then obtain t r0 latency where t: "pr_cache t = c" "handle_successful_processing P r0 key latency t = (s1, Inr r)"
      using accepted_by_strategy [OF _ assms(2)] confined_auto_select [of SP hs] assms(5) by fastforce
    from successful_cache [OF t(2)] have "pr_cache s1 = lru_set (pp_cache_size P) key r c" using t(1) by auto
    then show ?thesis using lru_get_set [OF assms(4) inv] assms(2) by auto
  qed
  then obtain r2 where r2: "snd (lru_get key (pr_cache s1)) = Some r2" "vr_is_valid r2" "vr_errors r2 = vr_errors r"
    by blast
  have "message_key P m2 = Inr key" unfolding m2 key_ignores by (rule key)
  moreover obtain c' where "lru_get key (pr_cache s1) = (c', Some r2)" using r2(1) by (metis prod.collapse)
  ultimately have "check_cache P a2 start2 (s1\<lparr>pr_message := m2\<rparr>) =
      (s1\<lparr>pr_message := m2, pr_cache := c'\<rparr>, Inr (attach_governance_metadata ?C a2 r2))"
    by (simp add: check_cache_def message_key_def [symmetric] lift_sum_def)
  then show ?thesis using r2(2,3) by blast
qed

lemma hello_cached:
  "case check_cache (quiet_parts LEGACY) no_artifacts 0 (new_processor hello ()) of (s, Inr r) \<Rightarrow> vr_is_valid r | _ \<Rightarrow> False"
  by code_simp

lemma cached_verdict_reused_witness:
  "\<exists>s1 c r2. check_cache (quiet_parts LEGACY :: unit processor_parts) no_artifacts 5
      (s1\<lparr>pr_message := hello\<lparr>am_message_id := JNull, am_to_agent := JStr ''eve'', am_payload := JNull,
         am_priority := PRIORITY_CRITICAL, am_pqc_signature := JStr ''?''\<rparr>\<rparr>) =
      (s1\<lparr>pr_message := hello\<lparr>am_message_id := JNull, am_to_agent := JStr ''eve'', am_payload := JNull,
         am_priority := PRIORITY_CRITICAL, am_pqc_signature := JStr ''?''\<rparr>, pr_cache := c\<rparr>,
       Inr (attach_governance_metadata (pp_coordinator (quiet_parts LEGACY :: unit processor_parts)) no_artifacts r2)) \<and>
    vr_is_valid r2"
proof -
  let ?P = "quiet_parts LEGACY :: unit processor_parts" and ?s = "new_processor hello ()"
  obtain s1 r where run: "check_cache ?P no_artifacts 0 ?s = (s1, Inr r)" and r: "vr_is_valid r"
    using hello_cached by (auto split: prod.splits sum.splits)
  have parts: "lru_inv (pp_cache_size ?P) (pr_cache ?s)" "0 < pp_cache_size ?P"
      "pp_strategy ?P = auto_select_strategy quiet_strategies []"
    by (simp_all add: new_processor_def new_lru_def lru_inv_def quiet_parts_def)
  have "hello\<lparr>am_message_id := JNull, am_to_agent := JStr ''eve'', am_payload := JNull,
      am_priority := PRIORITY_CRITICAL, am_pqc_signature := JStr ''?''\<rparr> =
    (pr_message ?s)\<lparr>am_message_id := JNull, am_to_agent := JStr ''eve'', am_payload := JNull,
      am_priority := PRIORITY_CRITICAL, am_pqc_signature := JStr ''?''\<rparr>"
    by (simp add: new_processor_def)
  from cached_verdict_reused [OF run r parts this, where ?a2.0 = no_artifacts and ?start2.0 = 5]
  show ?thesis by blast
qed

section \<open>Governance\<close>





lemma swarm_core_simps:
  "gc_validate_local (swarm_core tx S clock) = swarm_validate_local S"
  "gc_validate_peer (swarm_core tx S clock) = swarm_validate_peer S"
  by (simp_all add: swarm_core_def)

lemma mesh_accepts:
  assumes "swarm_validate_peer S g w = (w', Inr peer)" and "peer = None \<or> (\<exists>p. peer = Some p \<and> pd_approved p)"
    and "gi_requires_independent_validator g" "sw_peer_validation S" "dedupe_strings (gi_validator_ids g) \<noteq> []"
    and "sw_hash S \<noteq> None"
  shows "\<exists>w w' r. sw_mesh S g (dedupe_strings (gi_validator_ids g))
     (qd_required_votes (resolve_required_quorum S g (length (dedupe_strings (gi_validator_ids g))))) w =
     (w', Inr (Inr r)) \<and> mr_accepted r \<and> mr_quorum_met r"
proof -
  let ?mesh = "sw_mesh S g (dedupe_strings (gi_validator_ids g))
     (qd_required_votes (resolve_required_quorum S g (length (dedupe_strings (gi_validator_ids g))))) w"
  obtain w1 x where x: "?mesh = (w1, x)" by fastforce
  show ?thesis
  proof (cases x)
    case (Inl e)
    then show ?thesis using assms x by (simp add: swarm_validate_peer_def Let_def)
  next
    case answer: (Inr out)
    show ?thesis
    proof (cases out)
      case (Inl e)
      then show ?thesis using assms x answer by (auto simp: swarm_validate_peer_def Let_def refused_peer_def)
    next
      case (Inr r)
      then have "mr_accepted r \<and> mr_quorum_met r"
        using assms x answer by (auto simp: swarm_validate_peer_def Let_def)
      then show ?thesis using x answer Inr by blast
    qed
  qed
qed

text \<open>C31: In enforced mode a message passes the governance only if the swarm's constitution is loaded and finds its
  content valid, its hash is the constitutional one, and - where it needs an independent validator, the
  mesh is switched on and the message names validators - the mesh accepted it with the adaptive quorum.\<close>

theorem enforced_swarm_decides:
  assumes "run_governance C s = (s', Inr (a, None))" and "co_mode C = SWARM_ENFORCED"
    and "co_swarm C = swarm_core tx S clock"
  shows "\<exists>g. build_governance_input C (pr_message s) = Inr g \<and>
    vr_is_valid (validate_constitutional_hash (gi_constitutional_hash g)) \<and> sw_hash S \<noteq> None \<and>
    (\<exists>w w'. sw_dna S (gi_content g) w = (w', Inr DnaValid)) \<and>
    (gi_requires_independent_validator g \<and> sw_peer_validation S \<and> dedupe_strings (gi_validator_ids g) \<noteq> [] \<longrightarrow>
      (\<exists>w w' r. sw_mesh S g (dedupe_strings (gi_validator_ids g))
           (qd_required_votes (resolve_required_quorum S g (length (dedupe_strings (gi_validator_ids g))))) w =
         (w', Inr (Inr r)) \<and> mr_accepted r \<and> mr_quorum_met r))"
proof -
  from run_governance_result [OF assms(1)] obtain g w w' d r where
    g: "build_governance_input C (pr_message s) = Inr g" and d: "gd_allowed d" and
    run: "swarm_judgement C g w = (w', Inr (d, r))"
    unfolding governance_allowed_def using assms(2) by auto
  from run obtain d0 w1 peer w2 where
    d0: "swarm_validate_local S g w = (w1, Inr d0)" and
    peer: "(if gd_allowed d0 then swarm_validate_peer S g else eret None) w1 = (w2, Inr peer)" and
    both: "d = peer_combined d0 peer"
    unfolding swarm_judgement_def assms(3) swarm_core_simps by (auto simp: ebind_Inr simp del: ebind_ret)
  have ok: "gd_allowed d0" "peer = None \<or> (\<exists>p. peer = Some p \<and> pd_approved p)"
    using d unfolding both peer_combined_def by (auto split: option.splits)
  have sound: "vr_is_valid (validate_constitutional_hash (gi_constitutional_hash g)) \<and> sw_hash S \<noteq> None \<and>
    (\<exists>w w'. sw_dna S (gi_content g) w = (w', Inr DnaValid))"
  proof -
    have valid: "vr_is_valid (validate_constitutional_hash (gi_constitutional_hash g))" "sw_hash S \<noteq> None"
      using d0 ok(1) unfolding swarm_validate_local_def Let_def blocking_def by (auto split: if_splits)
    then obtain v where v: "sw_dna S (gi_content g) w = (w1, Inr v)" and
      "d0 = (case v of
         DnaRaised e \<Rightarrow> blocking ''constitutional_rules'' [e] [] ''swarm'' (sw_expected_hash S) (sw_hash S)
       | DnaViolations vs \<Rightarrow> blocking ''constitutional_rules'' vs (extract_rule_hits vs) ''swarm'' (sw_expected_hash S) (sw_hash S)
       | DnaValid \<Rightarrow> allowing ''swarm'' (sw_expected_hash S) (sw_hash S))"
      using d0 unfolding swarm_validate_local_def Let_def by (auto simp: ebind_Inr)
    then have "v = DnaValid" using ok(1) by (cases v) (simp_all add: blocking_def)
    then show ?thesis using valid v by blast
  qed
  have "\<exists>w w' r. sw_mesh S g (dedupe_strings (gi_validator_ids g))
      (qd_required_votes (resolve_required_quorum S g (length (dedupe_strings (gi_validator_ids g))))) w =
      (w', Inr (Inr r)) \<and> mr_accepted r \<and> mr_quorum_met r"
    if "gi_requires_independent_validator g" "sw_peer_validation S" "dedupe_strings (gi_validator_ids g) \<noteq> []"
    using peer ok that sound mesh_accepts [of S g w1 w2 peer] by auto
  with g sound show ?thesis by blast
qed

lemma enforced_swarm_decides_witness:
  "\<exists>g. build_governance_input (quiet_coordinator SWARM_ENFORCED :: unit coordinator) hello = Inr g \<and>
    sw_hash (content_swarm :: unit swarm) \<noteq> None"
proof -
  let ?C = "quiet_coordinator SWARM_ENFORCED :: unit coordinator"
  have "case run_governance ?C (new_processor hello ()) of (s, Inr (a, None)) \<Rightarrow> True | _ \<Rightarrow> False" by code_simp
  then obtain s' a where "run_governance ?C (new_processor hello ()) = (s', Inr (a, None))"
    by (auto split: prod.splits sum.splits option.splits)
  moreover have "co_mode ?C = SWARM_ENFORCED" "co_swarm ?C = swarm_core (\<lambda>j. []) content_swarm (\<lambda>w. 0)"
    by (simp_all add: quiet_coordinator_def)
  ultimately obtain g where "build_governance_input ?C (pr_message (new_processor hello ())) = Inr g"
      "sw_hash (content_swarm :: unit swarm) \<noteq> None"
    using enforced_swarm_decides by blast
  then show ?thesis by (simp add: new_processor_def)
qed

lemma two_thirds:
  "2 * n \<le> 3 * nat \<lceil>of_nat n * (2 / 3 :: rat)\<rceil> \<and> nat \<lceil>of_nat n * (2 / 3 :: rat)\<rceil> \<le> n \<and>
   (2 \<le> n \<longrightarrow> n div 2 + 1 \<le> nat \<lceil>of_nat n * (2 / 3 :: rat)\<rceil>)"
proof -
  define c where "c = \<lceil>of_nat n * (2 / 3 :: rat)\<rceil>"
  have "of_nat n * (2 / 3 :: rat) \<le> of_int c" "of_int c < of_nat n * (2 / 3 :: rat) + 1"
    unfolding c_def by linarith+
  then have "(of_int (2 * int n) :: rat) \<le> of_int (3 * c)" "(of_int (3 * c) :: rat) < of_int (2 * int n + 3)" by simp_all
  then have c: "2 * int n \<le> 3 * c" "3 * c < 2 * int n + 3"
    by (simp_all only: of_int_le_iff of_int_less_iff)
  then have "0 \<le> c" by linarith
  then obtain k where k: "c = int k" using nonneg_int_cases by blast
  have "2 * n \<le> 3 * k" "3 * k < 2 * n + 3" using c k by linarith+
  moreover have "nat c = k" using k by simp
  ultimately show ?thesis unfolding c_def [symmetric] by auto
qed

text \<open>C34: The adaptive quorum of n validators is a strict majority and never more than n, two thirds from a risk of
  0.55 on and all of them from 0.85 on; it never falls when the risk rises.\<close>

theorem quorum_bounds:
  "qd_required_votes (analyze_danger g n) \<le> n \<and> (0 < n \<longrightarrow> n < 2 * qd_required_votes (analyze_danger g n)) \<and>
   (55 / 100 \<le> risk_score g \<longrightarrow> 2 * n \<le> 3 * qd_required_votes (analyze_danger g n)) \<and>
   (85 / 100 \<le> risk_score g \<longrightarrow> qd_required_votes (analyze_danger g n) = n) \<and>
   (risk_score g \<le> risk_score h \<longrightarrow> qd_required_votes (analyze_danger g n) \<le> qd_required_votes (analyze_danger h n))"
proof -
  define super where "super = nat \<lceil>of_nat n * (2 / 3 :: rat)\<rceil>"
  have super: "2 * n \<le> 3 * super" "super \<le> n" "2 \<le> n \<Longrightarrow> n div 2 + 1 \<le> super"
    using two_thirds [of n] unfolding super_def by auto
  have "qd_required_votes (analyze_danger k n) = (if n \<le> 1 \<or> 85 / 100 \<le> risk_score k then n
      else if 55 / 100 \<le> risk_score k then super else n div 2 + 1)" for k
    by (simp add: analyze_danger_def super_def Let_def)
  then show ?thesis using super by auto
qed

definition risky :: governance_input where
  "risky = \<lparr>gi_tenant_id = JNull, gi_message_id = JNull, gi_producer_id = JNull, gi_producer_role = None,
     gi_action_type = ''command'', gi_content = ''delete the account'', gi_content_hash = [],
     gi_constitutional_hash = JNull, gi_autonomy_tier = ''bounded'', gi_requires_independent_validator = True,
     gi_security_scan_result = Some ''passed'', gi_impact_score = None, gi_validator_ids = []\<rparr>"

lemma quorum_bounds_witness:
  "qd_required_votes (analyze_danger risky 5) = 5 \<and>
   qd_required_votes (analyze_danger (risky\<lparr>gi_content := []\<rparr>) 5) \<le> qd_required_votes (analyze_danger risky 5)"
proof -
  have "85 / 100 \<le> risk_score risky" "risk_score (risky\<lparr>gi_content := []\<rparr>) \<le> risk_score risky" by code_simp+
  then show ?thesis using quorum_bounds [of risky 5 risky] quorum_bounds [of "risky\<lparr>gi_content := []\<rparr>" 5 risky] by blast
qed

section \<open>The breaker of the Rust strategy\<close>





















section \<open>The wrapper of MACI\<close>

text \<open>What the MACI wrapper accepts: in strict mode only what the validator approved and the inner strategy then
  accepted; in the other mode also what the validator denied, and every message on which the validator or the
  inner strategy itself raised.\<close>

theorem maci_acceptance:
  assumes "maci_process strict (Some validate) inner s = (s', Inr r)" and "vr_is_valid r"
  shows "(\<exists>t ans ok e. on_message validate s = (t, Inr ans) \<and> coerce_validation_result ans = Inr (ok, e) \<and>
      (strict \<longrightarrow> ok) \<and> sg_process inner t = (s', Inr r)) \<or>
    \<not> strict \<and> r = new_result \<and>
      ((\<exists>e. on_message validate s = (s', Inl e)) \<or>
       (\<exists>ans e. on_message validate s = (s', Inr ans) \<and> coerce_validation_result ans = Inl e) \<or>
       (\<exists>t ans v e. on_message validate s = (t, Inr ans) \<and> coerce_validation_result ans = Inr v \<and>
          sg_process inner t = (s', Inl e)))"
proof -
  obtain t x where x: "on_message validate s = (t, x)" by fastforce
  have bad: "\<not> vr_is_valid (invalid es)" for es by (simp add: invalid_def)
  show ?thesis
  proof (cases x)
    case (Inl e)
    then show ?thesis using assms x bad by (auto simp: maci_process_def split: if_splits)
  next
    case (Inr ans)
    show ?thesis
    proof (cases "coerce_validation_result ans")
      case (Inl e)
      then show ?thesis
        using assms x Inr bad by (cases e) (auto simp: maci_process_def lift_sum_def split: if_splits)
    next
      case v: (Inr v)
      obtain ok e where ok: "v = (ok, e)" by fastforce
      have given: "ebind (on_message validate) (\<lambda>a. lift_sum (coerce_validation_result a)) s = (t, Inr (ok, e))"
        using x Inr v ok by (simp add: lift_sum_def)
      obtain s1 y where y: "sg_process inner t = (s1, y)" by fastforce
      show ?thesis
      proof (cases "\<not> ok \<and> strict")
        case True
        then show ?thesis using assms given bad by (auto simp: maci_process_def)
      next
        case False
        then have "maci_process strict (Some validate) inner s =
            (s1, Inr (case y of Inr r \<Rightarrow> r
              | Inl e \<Rightarrow> if strict then invalid [exn_name (fst e) @ '': '' @ snd e] else new_result))"
          using given y by (cases y) (auto simp: maci_process_def)
        then show ?thesis using assms x Inr v ok y False bad by (cases y) (auto split: if_splits)
      qed
    qed
  qed
qed

definition crashing :: "unit strategy" where
  "crashing = \<lparr>sg_process = eraise RuntimeErr ''down'', sg_available = (\<lambda>s. True), sg_name = ''crashing'',
     sg_record_failure = None\<rparr>"

lemma maci_acceptance_witness:
  "\<exists>t ans v e. on_message (eret (PairAnswer False JNull)) (new_processor hello ()) = (t, Inr ans) \<and>
     coerce_validation_result ans = Inr v \<and> sg_process crashing t = (new_processor hello (), Inl e)"
proof -
  let ?s = "new_processor hello ()"
  have message: "on_message (eret (PairAnswer False JNull)) ?s = (?s, Inr (PairAnswer False JNull))"
    by (simp add: on_message_def)
  have "ebind (on_message (eret (PairAnswer False JNull))) (\<lambda>a. lift_sum (coerce_validation_result a)) ?s =
      (?s, Inr (False, None))"
    using message by (simp add: coerce_validation_result_def json_string_def lift_sum_def)
  then have "maci_process False (Some (eret (PairAnswer False JNull))) crashing ?s = (?s, Inr new_result)"
    by (simp add: maci_process_def crashing_def)
  from maci_acceptance [OF this] message show ?thesis
    by (auto simp: new_result_def crashing_def coerce_validation_result_def)
qed

section \<open>The evidence of an independent validator\<close>

lemma strip_padded: "py_strip t = t \<Longrightarrow> t \<noteq> [] \<Longrightarrow> py_strip (t @ '' '') = t"
proof -
  assume t: "py_strip t = t" "t \<noteq> []"
  have space: "py_isspace CHR '' ''" by code_simp
  have "dropWhile py_isspace t = t"
  proof (rule ccontr)
    assume "dropWhile py_isspace t \<noteq> t"
    then have "takeWhile py_isspace t \<noteq> []" using takeWhile_dropWhile_id [of py_isspace t] by fastforce
    then have "0 < length (takeWhile py_isspace t)" by simp
    moreover have "length t = length (takeWhile py_isspace t) + length (dropWhile py_isspace t)"
      using takeWhile_dropWhile_id [of py_isspace t] length_append by metis
    ultimately have "length (dropWhile py_isspace t) < length t" by linarith
    then have "length (py_strip t) < length t"
      unfolding py_strip_def by (metis length_dropWhile_le length_rev order_le_less_trans)
    then show False using t(1) by simp
  qed
  then have "dropWhile py_isspace (t @ '' '') = t @ '' ''"
    using t(2) \<open>dropWhile py_isspace t = t\<close> by (simp add: dropWhile_eq_self_iff)
  moreover have "rev (dropWhile py_isspace (rev t)) = t"
    using t(1) \<open>dropWhile py_isspace t = t\<close> by (simp add: py_strip_def)
  ultimately show ?thesis using space by (simp add: py_strip_def)
qed

text \<open>An agent passes the independent-validator gate with its own name as the evidence, written with a trailing
  space: the gate compares the texts as they are, and the governance core is then given the agent itself as
  the one declared validator of its message.\<close>

theorem padded_self_validation:
  assumes "am_from_agent m = JStr a" and "py_strip a = a" and "a \<noteq> []"
    and "am_metadata m = JObj [(''validated_by_agent'', JStr (a @ '' ''))]"
    and "requires_independent_validation G m = Inr True"
  shows "snd (enforce_independent_validator_gate G m s) = Inr None \<and> declared_validators m = [a]"
proof
  have evidence: "validator_evidence m = JStr (a @ '' '')"
    using assms(4) by (simp add: validator_evidence_def message_metadata_def json_dict_or_empty_def truthy_or_def
        dget_default_def)
  have strip: "py_strip (a @ '' '') = a" using strip_padded assms(2,3) by blast
  show "snd (enforce_independent_validator_gate G m s) = Inr None"
    using assms evidence strip
    by (simp add: enforce_independent_validator_gate_def filled_def message_metadata_def json_dict_or_empty_def
        dget_default_def Let_def)
  show "declared_validators m = [a]"
    using assms(3,4) strip by (simp add: declared_validators_def message_metadata_def json_dict_or_empty_def)
qed

definition self_approver :: agent_message where
  "self_approver = hello\<lparr>am_message_type := GOVERNANCE_REQUEST,
     am_metadata := JObj [(''validated_by_agent'', JStr ''ann '')]\<rparr>"

lemma padded_self_validation_witness:
  "snd (enforce_independent_validator_gate (quiet_gates\<lparr>gt_require_independent_validator := True\<rparr>) self_approver
     (new_processor self_approver ())) = Inr None"
proof -
  have "requires_independent_validation (quiet_gates\<lparr>gt_require_independent_validator := True\<rparr> :: unit gates) self_approver = Inr True"
    by code_simp
  from padded_self_validation [OF _ _ _ _ this, of "''ann''" "new_processor self_approver ()"]
  show ?thesis by (simp add: self_approver_def hello_def strip_ann)
qed

end
