(* ===== verification/Task_Heap.thy ===== *)
theory Task_Heap
  imports Prelude "HOL-Library.Multiset"
begin

text \<open>
  The module \<open>heapq\<close> of the standard library, as far as the recovery orchestrator uses it: a list in which
  no entry is smaller than its parent. Entries are compared by a key; \<open>heappush\<close> and \<open>heappop\<close> are the
  routines of CPython with their order of comparisons, so that entries with equal keys come out as they do
  there. They keep the contract of a priority queue, which is stated as a locale.
\<close>

section \<open>The routines\<close>

definition parent :: "nat \<Rightarrow> nat" where
  "parent i = (i - 1) div 2"

definition swap :: "'a list \<Rightarrow> nat \<Rightarrow> nat \<Rightarrow> 'a list" where
  "swap xs i j = xs[i := xs ! j, j := xs ! i]"

function siftdown :: "('a \<Rightarrow> 'k::linorder) \<Rightarrow> 'a list \<Rightarrow> nat \<Rightarrow> 'a list" where
  "siftdown key xs pos =
     (if 0 < pos \<and> key (xs ! pos) < key (xs ! parent pos) then siftdown key (swap xs pos (parent pos)) (parent pos) else xs)"
  by auto
termination by (relation "measure (\<lambda>(key, xs, pos). pos)") (auto simp: parent_def)

definition smaller_child :: "('a \<Rightarrow> 'k::linorder) \<Rightarrow> 'a list \<Rightarrow> nat \<Rightarrow> nat" where
  "smaller_child key xs pos =
     (let c = 2 * pos + 1
      in if c + 1 < length xs \<and> \<not> key (xs ! c) < key (xs ! (c + 1)) then c + 1 else c)"

function siftup :: "('a \<Rightarrow> 'k::linorder) \<Rightarrow> 'a list \<Rightarrow> nat \<Rightarrow> 'a list" where
  "siftup key xs pos =
     (if 2 * pos + 1 < length xs
      then siftup key (swap xs pos (smaller_child key xs pos)) (smaller_child key xs pos)
      else siftdown key xs pos)"
  by auto
termination
  by (relation "measure (\<lambda>(key, xs, pos). length xs - pos)")
    (auto simp: swap_def smaller_child_def Let_def)

declare siftdown.simps [simp del] siftup.simps [simp del]

definition heappush :: "('a \<Rightarrow> 'k::linorder) \<Rightarrow> 'a \<Rightarrow> 'a list \<Rightarrow> 'a list" where
  "heappush key x xs = siftdown key (xs @ [x]) (length xs)"

text \<open>What is left after the first entry is taken\<close>

definition heappop :: "('a \<Rightarrow> 'k::linorder) \<Rightarrow> 'a list \<Rightarrow> 'a list" where
  "heappop key xs = (if length xs \<le> 1 then [] else siftup key ((butlast xs)[0 := last xs]) 0)"

section \<open>The order\<close>

definition is_heap :: "('a \<Rightarrow> 'k::linorder) \<Rightarrow> 'a list \<Rightarrow> bool" where
  "is_heap key xs \<longleftrightarrow> (\<forall>i. 0 < i \<and> i < length xs \<longrightarrow> key (xs ! parent i) \<le> key (xs ! i))"

text \<open>A heap but for the entry at \<open>pos\<close>, whose parent is not above its children\<close>

definition heap_but :: "('a \<Rightarrow> 'k::linorder) \<Rightarrow> 'a list \<Rightarrow> nat \<Rightarrow> bool" where
  "heap_but key xs pos \<longleftrightarrow>
     (\<forall>i. 0 < i \<and> i < length xs \<and> i \<noteq> pos \<and> parent i \<noteq> pos \<longrightarrow> key (xs ! parent i) \<le> key (xs ! i)) \<and>
     (\<forall>i. 0 < pos \<and> 0 < i \<and> i < length xs \<and> parent i = pos \<longrightarrow> key (xs ! parent pos) \<le> key (xs ! i))"

definition above_children :: "('a \<Rightarrow> 'k::linorder) \<Rightarrow> 'a list \<Rightarrow> nat \<Rightarrow> bool" where
  "above_children key xs pos \<longleftrightarrow> (\<forall>i. 0 < i \<and> i < length xs \<and> parent i = pos \<longrightarrow> key (xs ! pos) \<le> key (xs ! i))"

lemma parent_less [simp]: "0 < i \<Longrightarrow> parent i < i"
  by (auto simp: parent_def)

lemma parent_children: "parent i = pos \<Longrightarrow> 0 < i \<Longrightarrow> i = 2 * pos + 1 \<or> i = 2 * pos + 2"
  by (auto simp: parent_def)

lemma length_swap [simp]: "length (swap xs i j) = length xs"
  by (simp add: swap_def)

lemma nth_swap:
  "i < length xs \<Longrightarrow> j < length xs \<Longrightarrow> k < length xs \<Longrightarrow>
   swap xs i j ! k = (if k = j then xs ! i else if k = i then xs ! j else xs ! k)"
  by (auto simp: swap_def nth_list_update)

lemma mset_swap_entries: "i < length xs \<Longrightarrow> j < length xs \<Longrightarrow> mset (swap xs i j) = mset xs"
  by (simp add: swap_def mset_swap)

lemma length_siftdown [simp]: "length (siftdown key xs pos) = length xs"
  by (induction key xs pos rule: siftdown.induct) (subst siftdown.simps, simp)

lemma mset_siftdown: "pos < length xs \<Longrightarrow> mset (siftdown key xs pos) = mset xs"
proof (induction key xs pos rule: siftdown.induct)
  case (1 key xs pos)
  have "parent pos < length xs" using 1(2) by (auto simp: parent_def)
  then show ?case using 1 by (subst siftdown.simps) (simp add: mset_swap_entries)
qed

lemma heap_butD:
  "heap_but key xs pos \<Longrightarrow> 0 < i \<Longrightarrow> i < length xs \<Longrightarrow> i \<noteq> pos \<Longrightarrow> parent i \<noteq> pos \<Longrightarrow> key (xs ! parent i) \<le> key (xs ! i)"
  "heap_but key xs pos \<Longrightarrow> 0 < pos \<Longrightarrow> 0 < i \<Longrightarrow> i < length xs \<Longrightarrow> parent i = pos \<Longrightarrow> key (xs ! parent pos) \<le> key (xs ! i)"
  by (auto simp: heap_but_def)

lemma siftdown_step:
  assumes "0 < pos" "pos < length xs" "heap_but key xs pos" "above_children key xs pos" "key (xs ! pos) < key (xs ! parent pos)"
  shows "heap_but key (swap xs pos (parent pos)) (parent pos) \<and> above_children key (swap xs pos (parent pos)) (parent pos)"
proof -
  let ?p = "parent pos" and ?ys = "swap xs pos (parent pos)"
  have p: "?p < pos" "?p < length xs" using assms(1,2) parent_less [of pos] by linarith+
  have at: "k < length xs \<Longrightarrow> ?ys ! k = (if k = ?p then xs ! pos else if k = pos then xs ! ?p else xs ! k)" for k
    using nth_swap [of pos xs ?p k] assms(2) p by simp
  have up: "k < length xs \<Longrightarrow> 0 < k \<Longrightarrow> parent k < length xs" for k using parent_less [of k] by linarith
  have "key (?ys ! parent i) \<le> key (?ys ! i)" if i: "0 < i" "i < length xs" "i \<noteq> ?p" "parent i \<noteq> ?p" for i
  proof (cases "i = pos \<or> parent i = pos")
    case True
    then show ?thesis using i at [OF i(2)] at [OF up [OF i(2,1)]] p heap_butD(2) [OF assms(3,1) i(1,2)] by auto
  next
    case False
    then show ?thesis using i at [OF i(2)] at [OF up [OF i(2,1)]] heap_butD(1) [OF assms(3) i(1,2)] by auto
  qed
  moreover have "key (?ys ! parent ?p) \<le> key (?ys ! i)" if i: "0 < ?p" "0 < i" "i < length xs" "parent i = ?p" for i
  proof -
    have pp: "parent ?p < ?p" using i(1) by simp
    have top: "key (xs ! parent ?p) \<le> key (xs ! ?p)"
      using heap_butD(1) [OF assms(3) i(1) p(2)] p(1) pp by linarith
    have "?ys ! parent ?p = xs ! parent ?p" using at [of "parent ?p"] pp p by simp
    moreover have "key (xs ! ?p) \<le> key (?ys ! i)"
    proof (cases "i = pos")
      case True
      then show ?thesis using at [OF i(3)] p by simp
    next
      case False
      then have "i \<noteq> ?p" using i(2,4) parent_less [of i] by auto
      then show ?thesis using False i at [OF i(3)] heap_butD(1) [OF assms(3) i(2,3)] p by auto
    qed
    ultimately show ?thesis using top by auto
  qed
  moreover have "key (?ys ! ?p) \<le> key (?ys ! i)" if i: "0 < i" "i < length xs" "parent i = ?p" for i
  proof (cases "i = pos")
    case True
    then show ?thesis using at [OF i(2)] at [OF p(2)] p assms(5) by simp
  next
    case False
    then have "i \<noteq> ?p" using i(1,3) parent_less [of i] by auto
    then show ?thesis
      using False i at [OF i(2)] at [OF p(2)] heap_butD(1) [OF assms(3) i(1,2)] p assms(5) by auto
  qed
  ultimately show ?thesis unfolding heap_but_def above_children_def by auto
qed

lemma siftdown_heap:
  "pos < length xs \<Longrightarrow> heap_but key xs pos \<Longrightarrow> above_children key xs pos \<Longrightarrow> is_heap key (siftdown key xs pos)"
proof (induction key xs pos rule: siftdown.induct)
  case (1 key xs pos)
  show ?case
  proof (cases "0 < pos \<and> key (xs ! pos) < key (xs ! parent pos)")
    case True
    then have "parent pos < length xs" using 1(2) parent_less [of pos] by linarith
    then show ?thesis using True 1 siftdown_step [of pos xs key] by (subst siftdown.simps) simp
  next
    case False
    have "key (xs ! parent i) \<le> key (xs ! i)" if i: "0 < i" "i < length xs" for i
    proof (cases "i = pos")
      case True
      then show ?thesis using False i by auto
    next
      case other: False
      then show ?thesis
        using 1(4) i heap_butD(1) [OF 1(3) i] unfolding above_children_def by (cases "parent i = pos") auto
    qed
    then have "is_heap key xs" by (simp add: is_heap_def)
    moreover have "siftdown key xs pos = xs" using False by (subst siftdown.simps) auto
    ultimately show ?thesis by simp
  qed
qed

lemma smaller_child:
  assumes "2 * pos + 1 < length xs"
  shows "smaller_child key xs pos < length xs" "parent (smaller_child key xs pos) = pos" "pos < smaller_child key xs pos"
    "0 < i \<Longrightarrow> i < length xs \<Longrightarrow> parent i = pos \<Longrightarrow> key (xs ! smaller_child key xs pos) \<le> key (xs ! i)"
proof -
  show "smaller_child key xs pos < length xs" "parent (smaller_child key xs pos) = pos" "pos < smaller_child key xs pos"
    using assms by (auto simp: smaller_child_def Let_def parent_def)
  assume i: "0 < i" "i < length xs" "parent i = pos"
  then show "key (xs ! smaller_child key xs pos) \<le> key (xs ! i)"
    using parent_children [OF i(3,1)] by (auto simp: smaller_child_def Let_def)
qed

lemma siftup_step:
  assumes "2 * pos + 1 < length xs" "heap_but key xs pos"
  shows "heap_but key (swap xs pos (smaller_child key xs pos)) (smaller_child key xs pos)"
proof -
  let ?c = "smaller_child key xs pos" and ?ys = "swap xs pos (smaller_child key xs pos)"
  note c = smaller_child [OF assms(1), where key = key]
  have pos: "pos < length xs" using assms(1) by simp
  have at: "k < length xs \<Longrightarrow> ?ys ! k = (if k = ?c then xs ! pos else if k = pos then xs ! ?c else xs ! k)" for k
    using nth_swap [OF pos c(1)] by simp
  have up: "k < length xs \<Longrightarrow> 0 < k \<Longrightarrow> parent k < length xs" for k using parent_less [of k] by linarith
  have "key (?ys ! parent i) \<le> key (?ys ! i)" if i: "0 < i" "i < length xs" "i \<noteq> ?c" "parent i \<noteq> ?c" for i
  proof (cases "i = pos")
    case True
    have "key (xs ! parent pos) \<le> key (xs ! ?c)"
      using heap_butD(2) [OF assms(2) _ _ c(1)] i(1) True c by auto
    then show ?thesis using True i at [OF i(2)] at [OF up [OF i(2,1)]] parent_less [OF i(1)] by auto
  next
    case False
    show ?thesis
    proof (cases "parent i = pos")
      case True
      then show ?thesis using i False c(4) [OF i(1,2)] at [OF i(2)] at [OF pos] c by auto
    next
      case other: False
      then show ?thesis
        using i False at [OF i(2)] at [OF up [OF i(2,1)]] heap_butD(1) [OF assms(2) i(1,2)] by auto
    qed
  qed
  moreover have "key (?ys ! parent ?c) \<le> key (?ys ! i)" if i: "0 < i" "i < length xs" "parent i = ?c" for i
  proof -
    have "i \<noteq> ?c" "i \<noteq> pos" using i parent_less [OF i(1)] c(3) by auto
    then show ?thesis
      using i at [OF i(2)] at [OF pos] c heap_butD(1) [OF assms(2) i(1,2)] by auto
  qed
  ultimately show ?thesis unfolding heap_but_def by auto
qed

lemma siftup_heap: "pos < length xs \<Longrightarrow> heap_but key xs pos \<Longrightarrow> is_heap key (siftup key xs pos)"
proof (induction key xs pos rule: siftup.induct)
  case (1 key xs pos)
  show ?case
  proof (cases "2 * pos + 1 < length xs")
    case True
    have "is_heap key (siftup key (swap xs pos (smaller_child key xs pos)) (smaller_child key xs pos))"
      using 1(1) [OF True] siftup_step [OF True 1(3)] smaller_child(1) [OF True, where key = key] by simp
    then show ?thesis using True by (subst siftup.simps) simp
  next
    case False
    then have "\<not> (0 < i \<and> i < length xs \<and> parent i = pos)" for i using parent_children [of i pos] by linarith
    then have "above_children key xs pos" unfolding above_children_def by blast
    moreover have "siftup key xs pos = siftdown key xs pos" using False by (subst siftup.simps) simp
    ultimately show ?thesis using siftdown_heap [OF 1(2,3)] by simp
  qed
qed

lemma mset_siftup: "pos < length xs \<Longrightarrow> mset (siftup key xs pos) = mset xs"
proof (induction key xs pos rule: siftup.induct)
  case (1 key xs pos)
  show ?case
  proof (cases "2 * pos + 1 < length xs")
    case True
    then show ?thesis
      using 1 smaller_child(1) [OF True, where key = key] by (subst siftup.simps) (simp add: mset_swap_entries)
  next
    case False
    then have "siftup key xs pos = siftdown key xs pos" by (subst siftup.simps) simp
    then show ?thesis using mset_siftdown [OF 1(2)] by simp
  qed
qed

section \<open>The contract of a priority queue\<close>

locale priority_queue =
  fixes inv :: "'a list \<Rightarrow> bool" and key :: "'a \<Rightarrow> 'k::linorder"
    and push :: "'a \<Rightarrow> 'a list \<Rightarrow> 'a list" and pop :: "'a list \<Rightarrow> 'a list"
  assumes inv_empty: "inv []"
    and inv_push: "inv q \<Longrightarrow> inv (push x q)"
    and inv_pop: "inv q \<Longrightarrow> inv (pop q)"
    and mset_push: "mset (push x q) = add_mset x (mset q)"
    and mset_pop: "q \<noteq> [] \<Longrightarrow> add_mset (hd q) (mset (pop q)) = mset q"
    and hd_least: "inv q \<Longrightarrow> x \<in> set q \<Longrightarrow> key (hd q) \<le> key x"
begin

lemma length_push: "length (push x q) = Suc (length q)"
  using mset_push [of x q] by (metis size_mset size_add_mset)

lemma length_pop: "q \<noteq> [] \<Longrightarrow> Suc (length (pop q)) = length q"
  using mset_pop [of q] by (metis size_mset size_add_mset)

lemma set_push: "set (push x q) = insert x (set q)"
  using mset_push [of x q] by (metis set_mset_mset set_mset_add_mset_insert)

lemma set_pop: "q \<noteq> [] \<Longrightarrow> insert (hd q) (set (pop q)) = set q"
  using mset_pop [of q] by (metis set_mset_mset set_mset_add_mset_insert)

text \<open>What is taken, one after the other, comes in order.\<close>

primrec take_all :: "nat \<Rightarrow> 'a list \<Rightarrow> 'a list" where
  "take_all 0 q = []"
| "take_all (Suc n) q = (if q = [] then [] else hd q # take_all n (pop q))"

lemma take_all_sorted: "inv q \<Longrightarrow> sorted (map key (take_all n q)) \<and> set (take_all n q) \<subseteq> set q"
proof (induction n arbitrary: q)
  case (Suc n)
  show ?case
  proof (cases "q = []")
    case False
    have sub: "set (pop q) \<subseteq> set q" using set_pop [OF False] by blast
    have "sorted (map key (take_all n (pop q)))" "set (take_all n (pop q)) \<subseteq> set (pop q)"
      using Suc.IH [OF inv_pop [OF Suc.prems]] by auto
    then show ?thesis using False sub hd_least [OF Suc.prems] by (auto simp: subset_iff)
  qed simp
qed simp

lemma take_all_mset: "length q = n \<Longrightarrow> mset (take_all n q) = mset q"
proof (induction n arbitrary: q)
  case (Suc n)
  then have "q \<noteq> []" by auto
  then show ?case using Suc length_pop [of q] mset_pop [of q] by auto
qed simp

end

lemma is_heap_least: "is_heap key xs \<Longrightarrow> i < length xs \<Longrightarrow> key (xs ! 0) \<le> key (xs ! i)"
proof (induction i rule: less_induct)
  case (less i)
  show ?case
  proof (cases "i = 0")
    case False
    then have "parent i < i" "key (xs ! parent i) \<le> key (xs ! i)"
      using less.prems by (auto simp: is_heap_def)
    moreover have "key (xs ! 0) \<le> key (xs ! parent i)"
      using less.IH [of "parent i"] less.prems calculation(1) by simp
    ultimately show ?thesis by (meson order_trans)
  qed simp
qed

lemma heappush_heap: "is_heap key q \<Longrightarrow> is_heap key (heappush key x q)"
  unfolding heappush_def
proof (rule siftdown_heap)
  assume heap: "is_heap key q"
  have far: "0 < i \<Longrightarrow> i < Suc (length q) \<Longrightarrow> parent i \<noteq> length q" for i using parent_less [of i] by linarith
  have "parent i < length q" if "0 < i" "i < length q" for i using that parent_less [of i] by linarith
  then show "heap_but key (q @ [x]) (length q)"
    using heap far unfolding heap_but_def is_heap_def by (auto simp: nth_append)
  show "above_children key (q @ [x]) (length q)"
    using far unfolding above_children_def by auto
qed simp

lemma heappop_heap: "is_heap key q \<Longrightarrow> is_heap key (heappop key q)"
proof (cases "length q \<le> 1")
  case False
  assume heap: "is_heap key q"
  let ?r = "(butlast q)[0 := last q]"
  have len: "length ?r = length q - 1" by simp
  have "key (?r ! parent i) \<le> key (?r ! i)" if i: "0 < i" "i < length ?r" "parent i \<noteq> 0" for i
  proof -
    have "parent i < length q - 1" "i < length q - 1" using i parent_less [OF i(1)] by auto
    then have "?r ! parent i = q ! parent i" "?r ! i = q ! i" using i by (simp_all add: nth_butlast)
    then show ?thesis using heap i unfolding is_heap_def by simp
  qed
  then have "heap_but key ?r 0" by (simp add: heap_but_def)
  then show ?thesis using False siftup_heap [of 0 ?r key] by (simp add: heappop_def)
qed (simp add: heappop_def is_heap_def)

lemma mset_heappop: "q \<noteq> [] \<Longrightarrow> add_mset (hd q) (mset (heappop key q)) = mset q"
proof (cases "length q \<le> 1")
  case True
  assume "q \<noteq> []"
  then have "q = [hd q]" using True by (cases q) auto
  then show ?thesis by (metis heappop_def True mset.simps)
next
  case False
  assume q: "q \<noteq> []"
  define ys where "ys = tl (butlast q)"
  have split: "q = hd q # ys @ [last q]"
    using False q by (cases q) (auto simp: ys_def)
  have "mset (heappop key q) = mset ((butlast q)[0 := last q])"
    using False mset_siftup [of 0 "(butlast q)[0 := last q]" key] by (simp add: heappop_def)
  also have "(butlast q)[0 := last q] = last q # ys"
    using False q by (cases q) (auto simp: ys_def)
  finally show ?thesis by (subst (2) split) simp
qed

interpretation heapq: priority_queue "is_heap key" key "heappush key" "heappop key" for key :: "'a \<Rightarrow> 'k::linorder"
proof unfold_locales
  show "key (hd q) \<le> key x" if "is_heap key q" "x \<in> set q" for q x
    using that is_heap_least [of key q] by (metis hd_conv_nth in_set_conv_nth length_pos_if_in_set less_numeral_extra(3) list.size(3))
  show "mset (heappush key x q) = add_mset x (mset q)" for x q
    by (simp add: heappush_def mset_siftdown)
  show "is_heap key []" by (simp add: is_heap_def)
qed (simp_all add: heappush_heap heappop_heap mset_heappop)

end
