(* ===== verification/Recovery_Orchestrator.thy ===== *)
theory Recovery_Orchestrator
  imports Task_Heap Bus_Effects
begin

text \<open>
  \<^verbatim>\<open>src/recovery_orchestrator.py\<close>. A recovery task is an object that the table of tasks and the heap refer to,
  and that both see change: objects live in a store, and table and heap hold their addresses. The heap is
  ordered by the priority alone (the second compared field, the constitutional hash, is the same constant in
  every task). A health check works on the world and answers with a truth value or raises; the two clocks
  are functions of the world. Waiting and logging are left out, and so is the cancellation of the loop's task.
\<close>

datatype recovery_state = IDLE | SCHEDULED | IN_PROGRESS | SUCCEEDED | FAILED | CANCELLED | AWAITING_MANUAL

fun recovery_state_value :: "recovery_state \<Rightarrow> string" where
  "recovery_state_value IDLE = ''idle''"
| "recovery_state_value SCHEDULED = ''scheduled''"
| "recovery_state_value IN_PROGRESS = ''in_progress''"
| "recovery_state_value SUCCEEDED = ''succeeded''"
| "recovery_state_value FAILED = ''failed''"
| "recovery_state_value CANCELLED = ''cancelled''"
| "recovery_state_value AWAITING_MANUAL = ''awaiting_manual''"

datatype recovery_strategy = EXPONENTIAL_BACKOFF | LINEAR_BACKOFF | IMMEDIATE | MANUAL

record 'w recovery_policy =
  rp_max_retry_attempts :: int
  rp_backoff_multiplier :: rat
  rp_initial_delay_ms :: int
  rp_max_delay_ms :: int
  rp_health_check :: "('w, bool) eff option"
  rp_constitutional_hash :: string

definition policy_error :: "'w recovery_policy \<Rightarrow> string option" where
  "policy_error p =
     (if rp_max_retry_attempts p < 1 then Some ''max_retry_attempts must be >= 1''
      else if rp_backoff_multiplier p < 1 then Some ''backoff_multiplier must be >= 1.0''
      else if rp_initial_delay_ms p < 0 then Some ''initial_delay_ms must be >= 0''
      else if rp_max_delay_ms p < rp_initial_delay_ms p then Some ''max_delay_ms must be >= initial_delay_ms''
      else None)"

definition make_policy :: "'w recovery_policy \<Rightarrow> pipeline_exn + 'w recovery_policy" where
  "make_policy p = (case policy_error p of None \<Rightarrow> Inr p | Some e \<Rightarrow> Inl (ValueErr, e))"

record recovery_result =
  rr_service_name :: string
  rr_success :: bool
  rr_attempt_number :: nat
  rr_total_attempts :: int
  rr_elapsed_time_ms :: rat
  rr_state :: recovery_state
  rr_error_message :: "string option"
  rr_health_check_passed :: "bool option"
  rr_constitutional_hash :: string
  rr_timestamp :: string

record 'w recovery_task =
  rt_priority :: int
  rt_service_name :: string
  rt_strategy :: recovery_strategy
  rt_policy :: "'w recovery_policy"
  rt_attempt_count :: nat
  rt_state :: recovery_state
  rt_last_attempt_at :: "rat option"
  rt_next_attempt_at :: rat

record 'w orchestrator =
  ro_default_policy :: "'w recovery_policy"
  ro_objects :: "nat \<Rightarrow> 'w recovery_task"
  ro_fresh :: nat
  ro_tasks :: "(string, nat) dict"
  ro_policies :: "(string, 'w recovery_policy) dict"
  ro_queue :: "nat list"
  ro_history :: "recovery_result list"
  ro_running :: bool
  ro_world :: 'w

text \<open>The wall clock and the monotonic clock, in seconds, and the wall clock as a text\<close>

record 'w clocks =
  ck_now :: "'w \<Rightarrow> rat"
  ck_monotonic :: "'w \<Rightarrow> rat"
  ck_iso :: "'w \<Rightarrow> string"

definition task_key :: "'w orchestrator \<Rightarrow> nat \<Rightarrow> int" where
  "task_key s r = rt_priority (ro_objects s r)"

definition set_object :: "nat \<Rightarrow> 'w recovery_task \<Rightarrow> 'w orchestrator \<Rightarrow> 'w orchestrator" where
  "set_object r t s = s\<lparr>ro_objects := (ro_objects s)(r := t)\<rparr>"

definition push_task :: "nat \<Rightarrow> 'w orchestrator \<Rightarrow> 'w orchestrator" where
  "push_task r s = s\<lparr>ro_queue := heappush (task_key s) r (ro_queue s)\<rparr>"

definition pop_task :: "'w orchestrator \<Rightarrow> 'w orchestrator" where
  "pop_task s = s\<lparr>ro_queue := heappop (task_key s) (ro_queue s)\<rparr>"

definition calculate_next_attempt :: "rat \<Rightarrow> 'w recovery_task \<Rightarrow> rat" where
  "calculate_next_attempt now t =
     (let p = rt_policy t;
          wait = (\<lambda>d. now + min d (of_int (rp_max_delay_ms p)) / 1000)
      in case rt_strategy t of
           IMMEDIATE \<Rightarrow> now
         | LINEAR_BACKOFF \<Rightarrow> wait (of_int (rp_initial_delay_ms p) * of_nat (rt_attempt_count t))
         | EXPONENTIAL_BACKOFF \<Rightarrow> wait (of_int (rp_initial_delay_ms p) * rp_backoff_multiplier p ^ (rt_attempt_count t - 1))
         | MANUAL \<Rightarrow> now)"

section \<open>The operations\<close>

definition new_orchestrator :: "'w recovery_policy \<Rightarrow> (nat \<Rightarrow> 'w recovery_task) \<Rightarrow> 'w \<Rightarrow> 'w orchestrator" where
  "new_orchestrator p objects w =
     \<lparr>ro_default_policy = p, ro_objects = objects, ro_fresh = 0, ro_tasks = [], ro_policies = [], ro_queue = [],
      ro_history = [], ro_running = False, ro_world = w\<rparr>"

definition start_loop :: "('w orchestrator, unit) eff" where
  "start_loop s =
     (if ro_running s then eraise (OtherErr ''RecoveryOrchestratorError'') ''already running'' s
      else (s\<lparr>ro_running := True\<rparr>, Inr ()))"

definition stop_loop :: "'w orchestrator \<Rightarrow> 'w orchestrator" where
  "stop_loop s = s\<lparr>ro_running := False\<rparr>"

definition schedule_recovery ::
  "'w clocks \<Rightarrow> string \<Rightarrow> recovery_strategy \<Rightarrow> int \<Rightarrow> 'w recovery_policy option \<Rightarrow> 'w orchestrator \<Rightarrow> 'w orchestrator" where
  "schedule_recovery C name strat prio pol s =
     (if name \<in> set (dkeys (ro_tasks s)) then s
      else
        let r = ro_fresh s; now = ck_now C (ro_world s);
            t = \<lparr>rt_priority = prio, rt_service_name = name, rt_strategy = strat,
                 rt_policy = (case pol of None \<Rightarrow> ro_default_policy s | Some p \<Rightarrow> p), rt_attempt_count = 0,
                 rt_state = SCHEDULED, rt_last_attempt_at = None, rt_next_attempt_at = now\<rparr>
        in push_task r ((set_object r (t\<lparr>rt_next_attempt_at := calculate_next_attempt now t\<rparr>) s)
             \<lparr>ro_fresh := r + 1, ro_tasks := dset name r (ro_tasks s)\<rparr>))"

definition cancel_recovery :: "string \<Rightarrow> 'w orchestrator \<Rightarrow> 'w orchestrator \<times> bool" where
  "cancel_recovery name s =
     (case dget (ro_tasks s) name of
        None \<Rightarrow> (s, False)
      | Some r \<Rightarrow> (set_object r ((ro_objects s r)\<lparr>rt_state := CANCELLED\<rparr>) (s\<lparr>ro_tasks := ddel name (ro_tasks s)\<rparr>), True))"

definition set_recovery_policy :: "string \<Rightarrow> 'w recovery_policy \<Rightarrow> 'w orchestrator \<Rightarrow> 'w orchestrator" where
  "set_recovery_policy name p s =
     (let s1 = s\<lparr>ro_policies := dset name p (ro_policies s)\<rparr>
      in case dget (ro_tasks s) name of
           None \<Rightarrow> s1
         | Some r \<Rightarrow> set_object r ((ro_objects s1 r)\<lparr>rt_policy := p\<rparr>) s1)"

definition get_recovery_policy :: "string \<Rightarrow> 'w orchestrator \<Rightarrow> 'w recovery_policy" where
  "get_recovery_policy name s =
     (case dget (ro_tasks s) name of
        Some r \<Rightarrow> rt_policy (ro_objects s r)
      | None \<Rightarrow> dget_default (ro_policies s) name (ro_default_policy s))"

definition result_json :: "recovery_result \<Rightarrow> json" where
  "result_json r =
     JObj [(''service_name'', JStr (rr_service_name r)), (''success'', JBool (rr_success r)),
           (''attempt_number'', JInt (int (rr_attempt_number r))), (''total_attempts'', JInt (rr_total_attempts r)),
           (''elapsed_time_ms'', JNum (rr_elapsed_time_ms r)), (''state'', JStr (recovery_state_value (rr_state r))),
           (''error_message'', jstr_option (rr_error_message r)),
           (''health_check_passed'', case rr_health_check_passed r of None \<Rightarrow> JNull | Some b \<Rightarrow> JBool b),
           (''constitutional_hash'', JStr (rr_constitutional_hash r)), (''timestamp'', JStr (rr_timestamp r))]"

definition last_ten :: "'a list \<Rightarrow> 'a list" where
  "last_ten xs = drop (length xs - 10) xs"

definition get_recovery_status :: "'w clocks \<Rightarrow> 'w orchestrator \<Rightarrow> json_dict" where
  "get_recovery_status C s =
     [(''constitutional_hash'', JStr CONSTITUTIONAL_HASH), (''timestamp'', JStr (ck_iso C (ro_world s))),
      (''orchestrator_running'', JBool (ro_running s)),
      (''active_recoveries'',
         JInt (int (length (filter (\<lambda>(_, r). rt_state (ro_objects s r) = IN_PROGRESS) (ro_tasks s))))),
      (''queued_recoveries'', JInt (int (length (ro_queue s)))),
      (''services'', JObj (map (\<lambda>(name, r). let t = ro_objects s r in
          (name, JObj [(''state'', JStr (recovery_state_value (rt_state t))),
                       (''max_attempts'', JInt (rp_max_retry_attempts (rt_policy t)))])) (ro_tasks s))),
      (''recent_history'', JList (map result_json (last_ten (ro_history s))))]"

definition health_check_caught :: "exn_class \<Rightarrow> bool" where
  "health_check_caught c = (c \<in> {RuntimeErr, ValueErr, TypeErr, ConnectionErr, OSErr, TimeoutErr})"

text \<open>The check of a policy: whether it counts as a success, its answer and its error\<close>

definition run_health_check :: "'w recovery_policy \<Rightarrow> ('w orchestrator, bool \<times> bool option \<times> string option) eff" where
  "run_health_check p s =
     (case rp_health_check p of
        None \<Rightarrow> (s, Inr (True, None, None))
      | Some check \<Rightarrow>
          (case check (ro_world s) of
             (w, Inr b) \<Rightarrow> (s\<lparr>ro_world := w\<rparr>, Inr (b, Some b, None))
           | (w, Inl e) \<Rightarrow> (s\<lparr>ro_world := w\<rparr>,
               if health_check_caught (fst e) then Inr (False, None, Some (snd e)) else Inl e)))"

definition begin_attempt :: "'w clocks \<Rightarrow> nat \<Rightarrow> 'w orchestrator \<Rightarrow> 'w orchestrator" where
  "begin_attempt C r s =
     (let t = ro_objects s r
      in set_object r (t\<lparr>rt_state := IN_PROGRESS, rt_attempt_count := rt_attempt_count t + 1,
           rt_last_attempt_at := Some (ck_now C (ro_world s))\<rparr>) s)"

text \<open>What becomes of the task after its check\<close>

definition settle_attempt :: "'w clocks \<Rightarrow> string \<Rightarrow> nat \<Rightarrow> bool \<Rightarrow> 'w orchestrator \<Rightarrow> 'w orchestrator" where
  "settle_attempt C name r success s =
     (let t = ro_objects s r
      in if success then set_object r (t\<lparr>rt_state := SUCCEEDED\<rparr>) (s\<lparr>ro_tasks := ddel name (ro_tasks s)\<rparr>)
         else if rp_max_retry_attempts (rt_policy t) \<le> int (rt_attempt_count t)
         then set_object r (t\<lparr>rt_state := FAILED\<rparr>) (s\<lparr>ro_tasks := ddel name (ro_tasks s)\<rparr>)
         else push_task r (set_object r (t\<lparr>rt_state := SCHEDULED,
                rt_next_attempt_at := calculate_next_attempt (ck_now C (ro_world s)) t\<rparr>) s))"

definition result_of_attempt ::
  "string \<Rightarrow> bool \<Rightarrow> bool option \<Rightarrow> string option \<Rightarrow> rat \<Rightarrow> string \<Rightarrow> 'w recovery_task \<Rightarrow> recovery_result" where
  "result_of_attempt name success passed e elapsed stamp t =
     \<lparr>rr_service_name = name, rr_success = success, rr_attempt_number = rt_attempt_count t,
      rr_total_attempts = rp_max_retry_attempts (rt_policy t), rr_elapsed_time_ms = elapsed, rr_state = rt_state t,
      rr_error_message = e, rr_health_check_passed = passed,
      rr_constitutional_hash = CONSTITUTIONAL_HASH, rr_timestamp = stamp\<rparr>"

definition execute_recovery :: "'w clocks \<Rightarrow> string \<Rightarrow> ('w orchestrator, recovery_result) eff" where
  "execute_recovery C name s =
     (case dget (ro_tasks s) name of
        None \<Rightarrow> eraise (OtherErr ''RecoveryValidationError'') ''No active recovery task'' s
      | Some r \<Rightarrow>
          (let s1 = begin_attempt C r s
           in case run_health_check (rt_policy (ro_objects s1 r)) s1 of
                (s2, Inl e) \<Rightarrow> (s2, Inl e)
              | (s2, Inr (success, passed, e)) \<Rightarrow>
                  let elapsed = (ck_monotonic C (ro_world s2) - ck_monotonic C (ro_world s)) * 1000;
                      s3 = settle_attempt C name r success s2;
                      res = result_of_attempt name success passed e elapsed (ck_iso C (ro_world s3)) (ro_objects s3 r)
                  in (s3\<lparr>ro_history := ro_history s3 @ [res]\<rparr>, Inr res)))"

section \<open>The loop\<close>

text \<open>The work left bounds the pops of one pass: the heap and the attempts of the tasks in the table.\<close>

definition attempts_left_of :: "'w recovery_task \<Rightarrow> nat" where
  "attempts_left_of t = nat (rp_max_retry_attempts (rt_policy t) - int (rt_attempt_count t))"

definition work_left :: "'w orchestrator \<Rightarrow> nat" where
  "work_left s = length (ro_queue s) + sum_list (map (\<lambda>(_, r). attempts_left_of (ro_objects s r)) (ro_tasks s))"

lemma sum_ddel_le: "sum_list (map f (ddel n d)) \<le> (sum_list (map f d) :: nat)"
  by (induction d) auto

lemma sum_mono: "(\<And>x. x \<in> set d \<Longrightarrow> g x \<le> f x) \<Longrightarrow> sum_list (map g d) \<le> (sum_list (map f d) :: nat)"
  by (induction d) (auto intro: add_mono)

lemma sum_less: "(\<And>x. x \<in> set d \<Longrightarrow> g x \<le> f x) \<Longrightarrow> y \<in> set d \<Longrightarrow> g y < f y \<Longrightarrow>
    sum_list (map g d) < (sum_list (map f d) :: nat)"
  by (induction d) (auto intro: add_less_le_mono add_le_less_mono sum_mono)

lemma push_task_fields [simp]:
  "length (ro_queue (push_task r s)) = Suc (length (ro_queue s))" "ro_objects (push_task r s) = ro_objects s"
  "ro_tasks (push_task r s) = ro_tasks s" "ro_fresh (push_task r s) = ro_fresh s" "ro_world (push_task r s) = ro_world s"
  "ro_history (push_task r s) = ro_history s"
  by (simp_all add: push_task_def heappush_def)

lemma pop_task_fields [simp]:
  "ro_objects (pop_task s) = ro_objects s" "ro_tasks (pop_task s) = ro_tasks s" "ro_fresh (pop_task s) = ro_fresh s"
  "ro_world (pop_task s) = ro_world s" "ro_history (pop_task s) = ro_history s"
  by (simp_all add: pop_task_def)

lemma set_object_fields [simp]:
  "ro_objects (set_object r t s) = (ro_objects s)(r := t)" "ro_queue (set_object r t s) = ro_queue s"
  "ro_tasks (set_object r t s) = ro_tasks s" "ro_fresh (set_object r t s) = ro_fresh s"
  "ro_world (set_object r t s) = ro_world s" "ro_history (set_object r t s) = ro_history s"
  by (simp_all add: set_object_def)

lemma pop_task_work: "ro_queue s \<noteq> [] \<Longrightarrow> work_left (pop_task s) < work_left s"
  using heapq.length_pop [of "ro_queue s" "task_key s"] by (simp add: work_left_def pop_task_def)

lemma run_health_check_frame:
  "run_health_check p s = (s', r) \<Longrightarrow> s' = s\<lparr>ro_world := ro_world s'\<rparr>"
  by (auto simp: run_health_check_def split: option.splits prod.splits sum.splits)

lemma execute_work:
  assumes "execute_recovery C name s = (s', Inr res)"
  shows "work_left s' \<le> work_left s"
proof -
  obtain r where r: "dget (ro_tasks s) name = Some r"
    using assms by (auto simp: execute_recovery_def split: option.splits)
  define s1 where "s1 = begin_attempt C r s"
  obtain s2 success passed e where
    check: "run_health_check (rt_policy (ro_objects s1 r)) s1 = (s2, Inr (success, passed, e))" and
    s': "work_left s' = work_left (settle_attempt C name r success s2)"
    using assms r by (auto simp: execute_recovery_def s1_def Let_def work_left_def split: prod.splits sum.splits)
  have s2: "ro_objects s2 = ro_objects s1" "ro_tasks s2 = ro_tasks s" "ro_queue s2 = ro_queue s"
    using run_health_check_frame [OF check] by (metis (no_types) begin_attempt_def set_object_fields
        orchestrator.select_convs orchestrator.update_convs(9) orchestrator.surjective s1_def)+
  let ?f = "\<lambda>(n :: string, q). attempts_left_of (ro_objects s q)"
  let ?g = "\<lambda>(n :: string, q). attempts_left_of (ro_objects s1 q)"
  have t1: "attempts_left_of (ro_objects s1 r) = attempts_left_of (ro_objects s r) - 1"
    by (simp add: s1_def begin_attempt_def Let_def attempts_left_of_def)
  have le: "\<And>x. x \<in> set (ro_tasks s) \<Longrightarrow> ?g x \<le> ?f x"
    by (auto simp: s1_def begin_attempt_def Let_def attempts_left_of_def)
  have entry: "(name, r) \<in> set (ro_tasks s)" using r by (rule map_of_SomeD)
  show ?thesis
  proof (cases "success \<or> rp_max_retry_attempts (rt_policy (ro_objects s1 r)) \<le> int (rt_attempt_count (ro_objects s1 r))")
    case True
    have "work_left s' = length (ro_queue s) + sum_list (map ?g (ddel name (ro_tasks s)))"
    proof -
      have same: "attempts_left_of (((ro_objects s1)(r := (ro_objects s1 r)\<lparr>rt_state := st\<rparr>)) q) = attempts_left_of (ro_objects s1 q)"
        for q st by (simp add: attempts_left_of_def)
      show ?thesis using s' s2 True same by (auto simp: settle_attempt_def Let_def work_left_def)
    qed
    also have "\<dots> \<le> length (ro_queue s) + sum_list (map ?g (ro_tasks s))" by (simp add: sum_ddel_le)
    also have "\<dots> \<le> work_left s" using sum_mono [OF le] by (simp add: work_left_def)
    finally show ?thesis .
  next
    case False
    have "?g (name, r) < ?f (name, r)"
      using False t1 by (auto simp: s1_def begin_attempt_def Let_def attempts_left_of_def)
    then have "sum_list (map ?g (ro_tasks s)) < sum_list (map ?f (ro_tasks s))" using sum_less [OF le entry] by simp
    moreover have "work_left s' = Suc (length (ro_queue s)) + sum_list (map ?g (ro_tasks s))"
    proof -
      have same: "attempts_left_of (((ro_objects s1)(r := (ro_objects s1 r)\<lparr>rt_state := st, rt_next_attempt_at := x\<rparr>)) q) =
          attempts_left_of (ro_objects s1 q)" for q st x
        by (simp add: attempts_left_of_def)
      show ?thesis using s' s2 False same by (auto simp: settle_attempt_def Let_def work_left_def)
    qed
    ultimately show ?thesis by (simp add: work_left_def)
  qed
qed

lemma executed_work:
  "(s2, Inr res) = execute_recovery C name (pop_task s) \<Longrightarrow> ro_queue s \<noteq> [] \<Longrightarrow> work_left s2 < work_left s"
  using execute_work [of C name "pop_task s" s2 res] pop_task_work [of s] by simp

text \<open>The inner loop over what is due at \<open>now\<close>: only the head of the heap is looked at.\<close>

definition due :: "rat \<Rightarrow> 'w recovery_task \<Rightarrow> bool" where
  "due now t \<longleftrightarrow> rt_state t = CANCELLED \<or> rt_next_attempt_at t \<le> now"

function drain :: "'w clocks \<Rightarrow> rat \<Rightarrow> 'w orchestrator \<Rightarrow> 'w orchestrator \<times> (pipeline_exn + unit)" where
  "drain C now s =
     (if ro_queue s = [] \<or> \<not> due now (ro_objects s (hd (ro_queue s))) then (s, Inr ())
      else
        let t = ro_objects s (hd (ro_queue s)); s1 = pop_task s
        in if rt_state t = CANCELLED \<or> rt_service_name t \<notin> set (dkeys (ro_tasks s1)) then drain C now s1
           else case execute_recovery C (rt_service_name t) s1 of
                  (s2, Inl e) \<Rightarrow> (s2, Inl e)
                | (s2, Inr res) \<Rightarrow> drain C now s2)"
  by auto
termination
  by (relation "measure (\<lambda>(C, now, s). work_left s)") (auto simp: pop_task_work dest: sym intro: executed_work)

declare drain.simps [simp del]

definition loop_caught :: "exn_class \<Rightarrow> bool" where
  "loop_caught c = (c \<in> {RuntimeErr, ValueErr, TypeErr, KeyErr, ConnectionErr, OSErr, TimeoutErr})"

text \<open>One round of the loop: whether the loop goes on\<close>

definition loop_round :: "'w clocks \<Rightarrow> 'w orchestrator \<Rightarrow> 'w orchestrator \<times> bool" where
  "loop_round C s =
     (if \<not> ro_running s then (s, False)
      else case drain C (ck_now C (ro_world s)) s of
             (s', Inr _) \<Rightarrow> (s', True)
           | (s', Inl e) \<Rightarrow> (s', loop_caught (fst e)))"

end
