(* ===== verification/Recovery_Properties.thy ===== *)
theory Recovery_Properties
  imports Recovery_Orchestrator
begin

text \<open>
  The properties of the recovery orchestrator: the shape of its tables over every run, the order in which it
  serves, the end of every pass of its loop, the bound on the attempts, and the tasks it forgets.
\<close>

section \<open>The shape of the tables\<close>

definition open_state :: "recovery_state set" where
  "open_state = {SCHEDULED, IN_PROGRESS}"

text \<open>The entries of \<open>X\<close> may be scheduled without being in the heap.\<close>

definition inv_except :: "nat set \<Rightarrow> 'w orchestrator \<Rightarrow> bool" where
  "inv_except X s \<longleftrightarrow>
     distinct (dkeys (ro_tasks s)) \<and> is_heap (task_key s) (ro_queue s) \<and> (\<forall>r \<in> set (ro_queue s). r < ro_fresh s) \<and>
     (\<forall>name r. dget (ro_tasks s) name = Some r \<longrightarrow>
        r < ro_fresh s \<and> rt_service_name (ro_objects s r) = name \<and> rt_state (ro_objects s r) \<in> open_state) \<and>
     (\<forall>r < ro_fresh s. rt_state (ro_objects s r) \<in> open_state \<longrightarrow>
        dget (ro_tasks s) (rt_service_name (ro_objects s r)) = Some r) \<and>
     (\<forall>r < ro_fresh s. r \<notin> X \<and> rt_state (ro_objects s r) = SCHEDULED \<longrightarrow> r \<in> set (ro_queue s))"

abbreviation recovery_inv :: "'w orchestrator \<Rightarrow> bool" where
  "recovery_inv \<equiv> inv_except {}"

lemma inv_exceptI:
  assumes "distinct (dkeys (ro_tasks s))" "is_heap (task_key s) (ro_queue s)" "\<And>r. r \<in> set (ro_queue s) \<Longrightarrow> r < ro_fresh s"
    and "\<And>name r. dget (ro_tasks s) name = Some r \<Longrightarrow>
      r < ro_fresh s \<and> rt_service_name (ro_objects s r) = name \<and> rt_state (ro_objects s r) \<in> open_state"
    and "\<And>r. r < ro_fresh s \<Longrightarrow> rt_state (ro_objects s r) \<in> open_state \<Longrightarrow>
      dget (ro_tasks s) (rt_service_name (ro_objects s r)) = Some r"
    and "\<And>r. r < ro_fresh s \<Longrightarrow> r \<notin> X \<Longrightarrow> rt_state (ro_objects s r) = SCHEDULED \<Longrightarrow> r \<in> set (ro_queue s)"
  shows "inv_except X s"
  using assms unfolding inv_except_def by blast

lemma inv_exceptD:
  assumes "inv_except X s"
  shows "distinct (dkeys (ro_tasks s))" "is_heap (task_key s) (ro_queue s)" "r \<in> set (ro_queue s) \<Longrightarrow> r < ro_fresh s"
    and "dget (ro_tasks s) name = Some r \<Longrightarrow>
      r < ro_fresh s \<and> rt_service_name (ro_objects s r) = name \<and> rt_state (ro_objects s r) \<in> open_state"
    and "r < ro_fresh s \<Longrightarrow> rt_state (ro_objects s r) \<in> open_state \<Longrightarrow>
      dget (ro_tasks s) (rt_service_name (ro_objects s r)) = Some r"
    and "r < ro_fresh s \<Longrightarrow> r \<notin> X \<Longrightarrow> rt_state (ro_objects s r) = SCHEDULED \<Longrightarrow> r \<in> set (ro_queue s)"
  using assms unfolding inv_except_def by blast+

lemma is_heap_cong:
  assumes "\<And>x. x \<in> set xs \<Longrightarrow> key x = key' x"
  shows "is_heap key xs = is_heap key' xs"
proof -
  have "parent i < length xs" if "0 < i" "i < length xs" for i using that parent_less [of i] by linarith
  then show ?thesis using assms unfolding is_heap_def by (metis nth_mem)
qed

lemma task_key_set_object: "rt_priority t = rt_priority (ro_objects s r) \<Longrightarrow> task_key (set_object r t s) = task_key s"
  by (auto simp: task_key_def)

lemma set_queue_push: "set (ro_queue (push_task r s)) = insert r (set (ro_queue s))"
  by (simp add: push_task_def heapq.set_push)

lemma heap_push: "is_heap (task_key s) (ro_queue s) \<Longrightarrow> is_heap (task_key (push_task r s)) (ro_queue (push_task r s))"
  using heapq.inv_push [of "task_key s" "ro_queue s" r] by (simp add: push_task_def task_key_def [abs_def])

lemma inv_push: "inv_except X s \<Longrightarrow> r < ro_fresh s \<Longrightarrow> inv_except (X - {r}) (push_task r s)"
  by (rule inv_exceptI) (auto simp: set_queue_push heap_push dest: inv_exceptD)

lemma inv_pop: "recovery_inv s \<Longrightarrow> ro_queue s \<noteq> [] \<Longrightarrow> inv_except {hd (ro_queue s)} (pop_task s)"
proof -
  assume inv: "recovery_inv s" and q: "ro_queue s \<noteq> []"
  have set: "insert (hd (ro_queue s)) (set (ro_queue (pop_task s))) = set (ro_queue s)"
    using heapq.set_pop [OF q, of "task_key s"] by (simp add: pop_task_def)
  have "is_heap (task_key (pop_task s)) (ro_queue (pop_task s))"
    using heapq.inv_pop [OF inv_exceptD(2) [OF inv]] by (simp add: pop_task_def task_key_def [abs_def])
  then show ?thesis
    using inv_exceptD [OF inv] set by (intro inv_exceptI) (simp_all, blast+)
qed

text \<open>A change of an object in place that keeps its name and priority\<close>

lemma inv_set_open:
  assumes "inv_except X s" "dget (ro_tasks s) name = Some r" "rt_service_name t = name"
    "rt_priority t = rt_priority (ro_objects s r)" "rt_state t \<in> open_state"
  shows "inv_except (insert r X) (set_object r t s)"
proof -
  note D = inv_exceptD [OF assms(1)]
  have r: "r < ro_fresh s" "rt_service_name (ro_objects s r) = name" using D(4) assms(2) by blast+
  show ?thesis
  proof (rule inv_exceptI)
    show "distinct (dkeys (ro_tasks (set_object r t s)))" using D(1) by simp
    show "is_heap (task_key (set_object r t s)) (ro_queue (set_object r t s))"
      using D(2) by (simp add: task_key_set_object [OF assms(4)])
    show "q < ro_fresh (set_object r t s)" if "q \<in> set (ro_queue (set_object r t s))" for q using that D(3) by simp
    show "q < ro_fresh (set_object r t s) \<and> rt_service_name (ro_objects (set_object r t s) q) = n \<and>
        rt_state (ro_objects (set_object r t s) q) \<in> open_state"
      if "dget (ro_tasks (set_object r t s)) n = Some q" for n q
    proof (cases "q = r")
      case True
      then show ?thesis using that D(4) [of n r] assms(3,5) r by simp
    next
      case False
      then show ?thesis using that D(4) [of n q] by simp
    qed
    show "dget (ro_tasks (set_object r t s)) (rt_service_name (ro_objects (set_object r t s) q)) = Some q"
      if "q < ro_fresh (set_object r t s)" "rt_state (ro_objects (set_object r t s) q) \<in> open_state" for q
      using that D(5) [of q] assms(2,3) by (cases "q = r") simp_all
    show "q \<in> set (ro_queue (set_object r t s))"
      if "q < ro_fresh (set_object r t s)" "q \<notin> insert r X" "rt_state (ro_objects (set_object r t s) q) = SCHEDULED" for q
      using that D(6) [of q] by simp
  qed
qed

lemma inv_in_progress: "inv_except (insert r X) s \<Longrightarrow> rt_state (ro_objects s r) \<noteq> SCHEDULED \<Longrightarrow> inv_except (X - {r}) s"
  unfolding inv_except_def by auto

lemma inv_close:
  assumes "inv_except X s" "dget (ro_tasks s) name = Some r" "rt_priority t = rt_priority (ro_objects s r)"
    "rt_state t \<notin> open_state"
  shows "inv_except (X - {r}) (set_object r t (s\<lparr>ro_tasks := ddel name (ro_tasks s)\<rparr>))"
proof -
  let ?s = "s\<lparr>ro_tasks := ddel name (ro_tasks s)\<rparr>"
  note D = inv_exceptD [OF assms(1)]
  have key: "task_key (set_object r t ?s) = task_key s"
    using assms(3) by (auto simp: task_key_def)
  show ?thesis
  proof (rule inv_exceptI)
    show "distinct (dkeys (ro_tasks (set_object r t ?s)))" using D(1) by (simp add: distinct_ddel del: set_map)
    show "is_heap (task_key (set_object r t ?s)) (ro_queue (set_object r t ?s))" using key D(2) by simp
    show "q < ro_fresh (set_object r t ?s)" if "q \<in> set (ro_queue (set_object r t ?s))" for q using that D(3) by simp
    show "q < ro_fresh (set_object r t ?s) \<and> rt_service_name (ro_objects (set_object r t ?s) q) = n \<and>
        rt_state (ro_objects (set_object r t ?s) q) \<in> open_state"
      if "dget (ro_tasks (set_object r t ?s)) n = Some q" for n q
    proof -
      have n: "n \<noteq> name" "dget (ro_tasks s) n = Some q" using that by (auto simp: dget_ddel split: if_splits)
      moreover have "q \<noteq> r" using n D(4) assms(2) by blast
      ultimately show ?thesis using D(4) by simp
    qed
    show "dget (ro_tasks (set_object r t ?s)) (rt_service_name (ro_objects (set_object r t ?s) q)) = Some q"
      if "q < ro_fresh (set_object r t ?s)" "rt_state (ro_objects (set_object r t ?s) q) \<in> open_state" for q
    proof -
      have q: "q \<noteq> r" using that(2) assms(4) by auto
      then have "dget (ro_tasks s) (rt_service_name (ro_objects s q)) = Some q" using that D(5) by simp
      moreover have "rt_service_name (ro_objects s q) \<noteq> name" using calculation q assms(2) by auto
      ultimately show ?thesis using q by (simp add: dget_ddel)
    qed
    show "q \<in> set (ro_queue (set_object r t ?s))"
      if "q < ro_fresh (set_object r t ?s)" "q \<notin> X - {r}" "rt_state (ro_objects (set_object r t ?s) q) = SCHEDULED" for q
    proof -
      have "q \<noteq> r" using that(3) assms(4) by (auto simp: open_state_def)
      then show ?thesis using that D(6) by simp
    qed
  qed
qed

section \<open>Runs\<close>

lemma inv_world [simp]: "inv_except X (s\<lparr>ro_world := w\<rparr>) = inv_except X s"
  by (simp add: inv_except_def task_key_def [abs_def])

lemma inv_history [simp]: "inv_except X (s\<lparr>ro_history := h\<rparr>) = inv_except X s"
  by (simp add: inv_except_def task_key_def [abs_def])

lemma inv_check: "run_health_check p s = (s', r) \<Longrightarrow> inv_except X s' = inv_except X s"
  using run_health_check_frame [of p s s' r] inv_world by metis

lemma begin_inv:
  assumes "inv_except X s" "dget (ro_tasks s) name = Some r"
  shows "inv_except (X - {r}) (begin_attempt C r s)"
proof -
  let ?t = "(ro_objects s r)\<lparr>rt_state := IN_PROGRESS, rt_attempt_count := rt_attempt_count (ro_objects s r) + 1,
           rt_last_attempt_at := Some (ck_now C (ro_world s))\<rparr>"
  have "inv_except (insert r X) (set_object r ?t s)"
    using inv_exceptD(4) [OF assms] by (intro inv_set_open [OF assms]) (simp_all add: open_state_def)
  then show ?thesis
    using inv_in_progress [of r X "set_object r ?t s"] by (simp add: begin_attempt_def Let_def)
qed

lemma settle_inv:
  assumes "inv_except X s" "dget (ro_tasks s) name = Some r"
  shows "inv_except (X - {r}) (settle_attempt C name r success s)"
proof -
  let ?t = "(ro_objects s r)\<lparr>rt_state := SCHEDULED,
      rt_next_attempt_at := calculate_next_attempt (ck_now C (ro_world s)) (ro_objects s r)\<rparr>"
  have again: "inv_except (insert r X - {r}) (push_task r (set_object r ?t s))"
    using inv_exceptD(4) [OF assms] assms(2)
    by (intro inv_push inv_set_open [OF assms]) (simp_all add: open_state_def)
  show ?thesis
  proof (cases "success \<or> rp_max_retry_attempts (rt_policy (ro_objects s r)) \<le> int (rt_attempt_count (ro_objects s r))")
    case True
    then show ?thesis
      using inv_close [OF assms] by (auto simp: settle_attempt_def Let_def open_state_def)
  next
    case False
    then show ?thesis using again by (simp add: settle_attempt_def Let_def)
  qed
qed

lemma execute_inv:
  assumes "inv_except X s" "dget (ro_tasks s) name = Some r" "execute_recovery C name s = (s', out)"
  shows "inv_except (X - {r}) s'"
proof -
  define s1 where "s1 = begin_attempt C r s"
  obtain s2 x where check: "run_health_check (rt_policy (ro_objects s1 r)) s1 = (s2, x)" by fastforce
  have inv2: "inv_except (X - {r}) s2" using begin_inv [OF assms(1,2)] inv_check [OF check] s1_def by simp
  have tasks: "dget (ro_tasks s2) name = Some r"
    using run_health_check_frame [OF check] assms(2) unfolding s1_def begin_attempt_def Let_def
    by (metis orchestrator.select_convs(4) orchestrator.surjective orchestrator.update_convs(9) set_object_fields(3))
  have run: "execute_recovery C name s = (case x of Inl e \<Rightarrow> (s2, Inl e)
      | Inr (success, passed, e) \<Rightarrow> let elapsed = (ck_monotonic C (ro_world s2) - ck_monotonic C (ro_world s)) * 1000;
          s3 = settle_attempt C name r success s2; res = result_of_attempt name success passed e elapsed (ck_iso C (ro_world s3)) (ro_objects s3 r)
        in (s3\<lparr>ro_history := ro_history s3 @ [res]\<rparr>, Inr res))"
    using assms(2) check by (simp add: execute_recovery_def s1_def Let_def split: sum.split)
  show ?thesis
  proof (cases x)
    case (Inl e)
    then show ?thesis using run assms(3) inv2 by simp
  next
    case (Inr y)
    obtain success passed e where y: "y = (success, passed, e)" by (cases y) auto
    have "inv_except (X - {r} - {r}) (settle_attempt C name r success s2)" by (rule settle_inv [OF inv2 tasks])
    then show ?thesis using run assms(3) Inr y by (auto simp: Let_def)
  qed
qed

lemma execute_none: "dget (ro_tasks s) name = None \<Longrightarrow> fst (execute_recovery C name s) = s"
  by (simp add: execute_recovery_def)

text \<open>What a pass does before it goes on\<close>

lemma drain_step:
  assumes "recovery_inv s" and go: "\<not> (ro_queue s = [] \<or> \<not> due now (ro_objects s (hd (ro_queue s))))"
  defines "t \<equiv> ro_objects s (hd (ro_queue s))"
  shows "rt_state t = CANCELLED \<or> rt_service_name t \<notin> set (dkeys (ro_tasks (pop_task s))) \<Longrightarrow> recovery_inv (pop_task s)"
    and "\<not> (rt_state t = CANCELLED \<or> rt_service_name t \<notin> set (dkeys (ro_tasks (pop_task s)))) \<Longrightarrow>
      execute_recovery C (rt_service_name t) (pop_task s) = (s2, x) \<Longrightarrow> recovery_inv s2"
proof -
  let ?r = "hd (ro_queue s)"
  have pop: "inv_except {?r} (pop_task s)" using inv_pop assms(1) go by blast
  have r: "?r < ro_fresh s" using inv_exceptD(3) [OF assms(1)] go by simp
  have keep: "recovery_inv (pop_task s)" if "rt_state t \<noteq> SCHEDULED"
    using inv_in_progress [of ?r "{}" "pop_task s"] pop that by (simp add: t_def)
  have named: "dget (ro_tasks s) (rt_service_name t) = Some ?r" if "rt_state t = SCHEDULED"
    using inv_exceptD(5) [OF assms(1) r] that by (simp add: t_def open_state_def)
  show "recovery_inv (pop_task s)" if "rt_state t = CANCELLED \<or> rt_service_name t \<notin> set (dkeys (ro_tasks (pop_task s)))"
  proof (cases "rt_state t = SCHEDULED")
    case True
    then have "rt_service_name t \<in> set (dkeys (ro_tasks s))"
      using named dget_None_keys [of "ro_tasks s" "rt_service_name t"] by fastforce
    then show ?thesis using that True by simp
  qed (rule keep)
  assume "\<not> (rt_state t = CANCELLED \<or> rt_service_name t \<notin> set (dkeys (ro_tasks (pop_task s))))"
    and x: "execute_recovery C (rt_service_name t) (pop_task s) = (s2, x)"
  then obtain r2 where r2: "dget (ro_tasks (pop_task s)) (rt_service_name t) = Some r2"
    using dget_None_keys by (metis not_None_eq)
  show "recovery_inv s2"
  proof (cases "rt_state t = SCHEDULED")
    case True
    then have "r2 = ?r" using named r2 by simp
    then show ?thesis using execute_inv [OF pop r2 x] by simp
  next
    case False
    from execute_inv [OF keep [OF False] r2 x] show ?thesis by simp
  qed
qed

lemma drain_inv: "recovery_inv s \<Longrightarrow> drain C now s = (s', out) \<Longrightarrow> recovery_inv s'"
proof (induction C now s arbitrary: s' out rule: drain.induct)
  case (1 C now s)
  let ?t = "ro_objects s (hd (ro_queue s))"
  show ?case
  proof (cases "ro_queue s = [] \<or> \<not> due now ?t")
    case True
    then show ?thesis using 1(3,4) by (subst (asm) drain.simps) simp
  next
    case go: False
    note step = drain_step [OF 1(3) go]
    show ?thesis
    proof (cases "rt_state ?t = CANCELLED \<or> rt_service_name ?t \<notin> set (dkeys (ro_tasks (pop_task s)))")
      case True
      have "drain C now (pop_task s) = (s', out)"
        using 1(4) go True by (subst (asm) drain.simps) (simp add: Let_def)
      then show ?thesis using 1(1) [OF go refl refl True] step(1) [OF True] by blast
    next
      case False
      obtain s2 x where x: "execute_recovery C (rt_service_name ?t) (pop_task s) = (s2, x)" by fastforce
      have run: "(case x of Inl e \<Rightarrow> (s2, Inl e) | Inr res \<Rightarrow> drain C now s2) = (s', out)"
        using 1(4) go False x by (subst (asm) drain.simps) (simp add: Let_def)
      then show ?thesis
        using 1(2) [OF go refl refl False x [symmetric]] step(2) [OF False x] by (cases x) auto
    qed
  qed
qed

datatype 'w recovery_event =
  ScheduleEvent string recovery_strategy int "'w recovery_policy option"
| CancelEvent string | PolicyEvent string "'w recovery_policy" | ExecuteEvent string | RoundEvent | LoopEvent bool

fun recovery_step :: "'w clocks \<Rightarrow> 'w recovery_event \<Rightarrow> 'w orchestrator \<Rightarrow> 'w orchestrator" where
  "recovery_step C (ScheduleEvent n st p pol) s = schedule_recovery C n st p pol s"
| "recovery_step C (CancelEvent n) s = fst (cancel_recovery n s)"
| "recovery_step C (PolicyEvent n p) s = set_recovery_policy n p s"
| "recovery_step C (ExecuteEvent n) s = fst (execute_recovery C n s)"
| "recovery_step C RoundEvent s = fst (loop_round C s)"
| "recovery_step C (LoopEvent b) s = (if b then fst (start_loop s) else stop_loop s)"

definition run_recovery :: "'w clocks \<Rightarrow> 'w recovery_event list \<Rightarrow> 'w orchestrator \<Rightarrow> 'w orchestrator" where
  "run_recovery C evs s = fold (recovery_step C) evs s"

lemma schedule_inv:
  assumes "recovery_inv s"
  shows "recovery_inv (schedule_recovery C name st p pol s)"
proof (cases "name \<in> set (dkeys (ro_tasks s))")
  case True
  then show ?thesis using assms by (simp add: schedule_recovery_def)
next
  case False
  define t where "t = (let t = \<lparr>rt_priority = p, rt_service_name = name, rt_strategy = st,
      rt_policy = (case pol of None \<Rightarrow> ro_default_policy s | Some p \<Rightarrow> p), rt_attempt_count = 0,
      rt_state = SCHEDULED, rt_last_attempt_at = None, rt_next_attempt_at = ck_now C (ro_world s)\<rparr>
    in t\<lparr>rt_next_attempt_at := calculate_next_attempt (ck_now C (ro_world s)) t\<rparr>)"
  let ?r = "ro_fresh s"
  let ?s = "(set_object ?r t s)\<lparr>ro_fresh := ?r + 1, ro_tasks := dset name ?r (ro_tasks s)\<rparr>"
  have t: "rt_service_name t = name" "rt_state t = SCHEDULED" by (simp_all add: t_def Let_def)
  have none: "dget (ro_tasks s) name = None" using False by (simp add: dget_None_keys del: set_map)
  note D = inv_exceptD [OF assms]
  have "inv_except {?r} ?s"
  proof (rule inv_exceptI)
    show "distinct (dkeys (ro_tasks ?s))" using D(1) by (simp add: distinct_update del: set_map)
    have "is_heap (task_key ?s) (ro_queue s) = is_heap (task_key s) (ro_queue s)"
      by (rule is_heap_cong) (use D(3) in \<open>fastforce simp: task_key_def\<close>)
    then show "is_heap (task_key ?s) (ro_queue ?s)" using D(2) by simp
    show "q < ro_fresh ?s" if "q \<in> set (ro_queue ?s)" for q using that D(3) by (simp add: less_SucI)
    show "q < ro_fresh ?s \<and> rt_service_name (ro_objects ?s q) = n \<and> rt_state (ro_objects ?s q) \<in> open_state"
      if "dget (ro_tasks ?s) n = Some q" for n q
    proof (cases "n = name")
      case True
      then show ?thesis using that t by (simp add: dget_dset open_state_def)
    next
      case False
      then have "dget (ro_tasks s) n = Some q" using that by (simp add: dget_dset)
      then show ?thesis using D(4) by fastforce
    qed
    show "dget (ro_tasks ?s) (rt_service_name (ro_objects ?s q)) = Some q"
      if "q < ro_fresh ?s" "rt_state (ro_objects ?s q) \<in> open_state" for q
    proof (cases "q = ?r")
      case True
      then show ?thesis using t by (simp add: dget_dset)
    next
      case False
      then have "dget (ro_tasks s) (rt_service_name (ro_objects s q)) = Some q" using that D(5) by simp
      then show ?thesis using False none by (auto simp: dget_dset)
    qed
    show "q \<in> set (ro_queue ?s)" if "q < ro_fresh ?s" "q \<notin> {?r}" "rt_state (ro_objects ?s q) = SCHEDULED" for q
      using that D(6) by simp
  qed
  then have "recovery_inv (push_task ?r ?s)" using inv_push [of "{?r}" ?s ?r] by simp
  then show ?thesis using False by (simp add: schedule_recovery_def t_def Let_def)
qed

lemma cancel_inv: "recovery_inv s \<Longrightarrow> recovery_inv (fst (cancel_recovery name s))"
  using inv_close [of "{}" s name] by (auto simp: cancel_recovery_def open_state_def split: option.split)

lemma inv_policies [simp]: "inv_except X (s\<lparr>ro_policies := d\<rparr>) = inv_except X s"
  by (simp add: inv_except_def task_key_def [abs_def])

lemma policy_inv:
  assumes "recovery_inv s"
  shows "recovery_inv (set_recovery_policy name p s)"
proof (cases "dget (ro_tasks s) name")
  case (Some r)
  let ?s = "s\<lparr>ro_policies := dset name p (ro_policies s)\<rparr>"
  let ?t = "(ro_objects s r)\<lparr>rt_policy := p\<rparr>"
  have "recovery_inv ?s" using assms by simp
  then have "inv_except {r} (set_object r ?t ?s)"
    using inv_set_open [of "{}" ?s name r ?t] inv_exceptD(4) [OF assms] Some by auto
  moreover have "rt_state ?t = SCHEDULED \<Longrightarrow> r \<in> set (ro_queue s)"
    using inv_exceptD(4,6) [OF assms] Some by fastforce
  ultimately have "recovery_inv (set_object r ?t ?s)" unfolding inv_except_def by auto
  then show ?thesis using Some by (simp add: set_recovery_policy_def Let_def)
qed (use assms in \<open>simp add: set_recovery_policy_def\<close>)

lemma inv_running [simp]: "inv_except X (s\<lparr>ro_running := b\<rparr>) = inv_except X s"
  by (simp add: inv_except_def task_key_def [abs_def])

lemma step_inv: "recovery_inv s \<Longrightarrow> recovery_inv (recovery_step C e s)"
proof (cases e)
  case (ExecuteEvent n)
  assume inv: "recovery_inv s"
  show ?thesis
  proof (cases "dget (ro_tasks s) n")
    case None
    then show ?thesis using inv ExecuteEvent by (simp add: execute_none)
  next
    case (Some r)
    from execute_inv [OF inv this, of C "fst (execute_recovery C n s)" "snd (execute_recovery C n s)"]
    show ?thesis using ExecuteEvent by simp
  qed
next
  case RoundEvent
  assume "recovery_inv s"
  then have "recovery_inv (fst (drain C now s))" for now using drain_inv [of s C now] by (cases "drain C now s") auto
  then show ?thesis
    using RoundEvent \<open>recovery_inv s\<close> by (auto simp: loop_round_def split: prod.split sum.split) (metis fst_conv)+
next
  case (LoopEvent b)
  assume "recovery_inv s"
  then show ?thesis using LoopEvent by (simp add: start_loop_def stop_loop_def)
qed (auto simp: schedule_inv cancel_inv policy_inv)

lemma run_inv: "recovery_inv s \<Longrightarrow> recovery_inv (run_recovery C evs s)"
  unfolding run_recovery_def by (induction evs arbitrary: s) (auto simp: step_inv)

lemma new_inv: "recovery_inv (new_orchestrator p objs w)"
  by (simp add: inv_except_def new_orchestrator_def is_heap_def)

section \<open>The order of service\<close>

text \<open>Over every run of the orchestrator each scheduled task of the table is in the heap, under its own name,
  and the head of the heap has the least priority of all entries; a finished or cancelled task is in the
  table no more.\<close>

theorem scheduled_tasks_are_queued:
  assumes "s = run_recovery C evs (new_orchestrator p objs w)" and "dget (ro_tasks s) name = Some r"
  shows "rt_service_name (ro_objects s r) = name \<and> rt_state (ro_objects s r) \<in> {SCHEDULED, IN_PROGRESS} \<and>
    (rt_state (ro_objects s r) = SCHEDULED \<longrightarrow>
       r \<in> set (ro_queue s) \<and> rt_priority (ro_objects s (hd (ro_queue s))) \<le> rt_priority (ro_objects s r))"
proof -
  have inv: "recovery_inv s" unfolding assms(1) by (rule run_inv [OF new_inv])
  note D = inv_exceptD [OF inv]
  have r: "r < ro_fresh s" "rt_service_name (ro_objects s r) = name" "rt_state (ro_objects s r) \<in> open_state"
    using D(4) [OF assms(2)] by blast+
  have "rt_priority (ro_objects s (hd (ro_queue s))) \<le> rt_priority (ro_objects s r)" if "r \<in> set (ro_queue s)"
    using heapq.hd_least [OF D(2) that] by (simp add: task_key_def)
  then show ?thesis using r D(6) [OF r(1)] by (auto simp: open_state_def)
qed


section \<open>The end of a pass\<close>

lemma execute_history: "execute_recovery C name s = (s', out) \<Longrightarrow>
    ro_history s' = (case out of Inl e \<Rightarrow> ro_history s | Inr res \<Rightarrow> ro_history s @ [res])"
proof -
  assume run: "execute_recovery C name s = (s', out)"
  have settle: "ro_history (settle_attempt C name r b t) = ro_history t" for r b t
    by (simp add: settle_attempt_def Let_def)
  have started: "ro_history (begin_attempt C r s) = ro_history s" for r by (simp add: begin_attempt_def Let_def)
  have check: "ro_history t' = ro_history t" if "run_health_check p t = (t', x)" for p t t' x
    using run_health_check_frame [OF that] by (metis orchestrator.select_convs(7) orchestrator.surjective orchestrator.update_convs(9))
  show ?thesis
    using run settle started by (auto simp: execute_recovery_def Let_def split: option.splits prod.splits sum.splits dest!: check)
qed

lemma drain_ends:
  "drain C now s = (s', out) \<Longrightarrow> length (ro_history s') \<le> length (ro_history s) + work_left s \<and>
     (out = Inr () \<longrightarrow> ro_queue s' = [] \<or> \<not> due now (ro_objects s' (hd (ro_queue s'))))"
proof (induction C now s arbitrary: s' out rule: drain.induct)
  case (1 C now s)
  let ?t = "ro_objects s (hd (ro_queue s))"
  show ?case
  proof (cases "ro_queue s = [] \<or> \<not> due now ?t")
    case True
    then show ?thesis using 1(3) by (subst (asm) drain.simps) auto
  next
    case go: False
    have less: "work_left (pop_task s) < work_left s" using go pop_task_work by blast
    show ?thesis
    proof (cases "rt_state ?t = CANCELLED \<or> rt_service_name ?t \<notin> set (dkeys (ro_tasks (pop_task s)))")
      case True
      have "drain C now (pop_task s) = (s', out)"
        using 1(3) go True by (subst (asm) drain.simps) (simp add: Let_def)
      then show ?thesis using 1(1) [OF go refl refl True] less by fastforce
    next
      case False
      obtain s2 x where x: "execute_recovery C (rt_service_name ?t) (pop_task s) = (s2, x)" by fastforce
      have run: "(case x of Inl e \<Rightarrow> (s2, Inl e) | Inr res \<Rightarrow> drain C now s2) = (s', out)"
        using 1(3) go False x by (subst (asm) drain.simps) (simp add: Let_def)
      show ?thesis
      proof (cases x)
        case (Inl e)
        then show ?thesis using run execute_history [OF x] by auto
      next
        case (Inr res)
        have "work_left s2 < work_left s" using executed_work [of s2 res C "rt_service_name ?t" s] x Inr go by simp
        then show ?thesis
          using 1(2) [OF go refl refl False x [symmetric]] run Inr execute_history [OF x] by fastforce
      qed
    qed
  qed
qed

text \<open>C26: A pass of the loop over what is due ends whatever the health checks answer and the clocks show: it executes
  at most as many attempts as the heap and the open attempts of the tasks allow, and unless a health check
  raised, the head of the heap is then a task that is not due.\<close>

theorem recovery_pass_ends:
  "case drain C now s of (s', out) \<Rightarrow>
     length (ro_history s') \<le> length (ro_history s) + work_left s \<and>
     (case out of Inl e \<Rightarrow> True
      | Inr _ \<Rightarrow> (case ro_queue s' of [] \<Rightarrow> True | r # rs \<Rightarrow> \<not> due now (ro_objects s' r)))"
  using drain_ends [of C now s] by (auto split: prod.split sum.split list.split)

section \<open>Tasks that are forgotten\<close>

definition history_of :: "string \<Rightarrow> 'w orchestrator \<Rightarrow> recovery_result list" where
  "history_of name s = filter (\<lambda>h. rr_service_name h = name) (ro_history s)"

text \<open>In progress, and no entry of the heap has its name\<close>

definition forgotten :: "string \<Rightarrow> nat \<Rightarrow> 'w orchestrator \<Rightarrow> bool" where
  "forgotten name r s \<longleftrightarrow> dget (ro_tasks s) name = Some r \<and> rt_state (ro_objects s r) = IN_PROGRESS \<and>
     (\<forall>q \<in> set (ro_queue s). q < ro_fresh s \<and> rt_service_name (ro_objects s q) \<noteq> name)"

lemma check_frame:
  assumes "run_health_check p s = (s', x)"
  shows "ro_objects s' = ro_objects s" "ro_tasks s' = ro_tasks s" "ro_queue s' = ro_queue s" "ro_fresh s' = ro_fresh s"
  using run_health_check_frame [OF assms]
  by (metis orchestrator.select_convs(2,3,4,6) orchestrator.surjective orchestrator.update_convs(9))+

text \<open>What an execution of one task leaves of the others\<close>

lemma execute_frame:
  assumes "execute_recovery C name s = (s', out)" and "dget (ro_tasks s) name = Some r"
  shows "q \<noteq> r \<Longrightarrow> ro_objects s' q = ro_objects s q" and "rt_service_name (ro_objects s' q) = rt_service_name (ro_objects s q)"
    and "n \<noteq> name \<Longrightarrow> dget (ro_tasks s') n = dget (ro_tasks s) n" and "ro_fresh s' = ro_fresh s"
    and "set (ro_queue s') \<subseteq> insert r (set (ro_queue s))"
    and "n \<noteq> name \<Longrightarrow> history_of n s' = history_of n s"
proof -
  define s1 where "s1 = begin_attempt C r s"
  obtain s2 x where check: "run_health_check (rt_policy (ro_objects s1 r)) s1 = (s2, x)" by fastforce
  note F = check_frame [OF check]
  have objs1: "q \<noteq> r \<Longrightarrow> ro_objects s1 q = ro_objects s q" "rt_service_name (ro_objects s1 q) = rt_service_name (ro_objects s q)"
    "ro_tasks s1 = ro_tasks s" "ro_queue s1 = ro_queue s" "ro_fresh s1 = ro_fresh s" for q
    by (simp_all add: s1_def begin_attempt_def Let_def)
  have settled: "q \<noteq> r \<Longrightarrow> ro_objects (settle_attempt C name r b t) q = ro_objects t q"
    "rt_service_name (ro_objects (settle_attempt C name r b t) q) = rt_service_name (ro_objects t q)"
    "n \<noteq> name \<Longrightarrow> dget (ro_tasks (settle_attempt C name r b t)) n = dget (ro_tasks t) n"
    "ro_fresh (settle_attempt C name r b t) = ro_fresh t"
    "set (ro_queue (settle_attempt C name r b t)) \<subseteq> insert r (set (ro_queue t))" for q n b t
    by (auto simp: settle_attempt_def Let_def dget_ddel set_queue_push)
  have run: "execute_recovery C name s = (case x of Inl e \<Rightarrow> (s2, Inl e)
      | Inr (success, passed, e) \<Rightarrow> let elapsed = (ck_monotonic C (ro_world s2) - ck_monotonic C (ro_world s)) * 1000;
          s3 = settle_attempt C name r success s2; res = result_of_attempt name success passed e elapsed (ck_iso C (ro_world s3)) (ro_objects s3 r)
        in (s3\<lparr>ro_history := ro_history s3 @ [res]\<rparr>, Inr res))"
    using assms(2) check by (simp add: execute_recovery_def s1_def Let_def split: sum.split)
  consider e where "x = Inl e" "s' = s2"
    | success passed e h where "x = Inr (success, passed, e)" "s' = (settle_attempt C name r success s2)\<lparr>ro_history := h\<rparr>"
    using run assms(1) by (cases x) (auto simp: Let_def)
  then have "(q \<noteq> r \<longrightarrow> ro_objects s' q = ro_objects s q) \<and> rt_service_name (ro_objects s' q) = rt_service_name (ro_objects s q) \<and>
    (n \<noteq> name \<longrightarrow> dget (ro_tasks s') n = dget (ro_tasks s) n) \<and> ro_fresh s' = ro_fresh s \<and>
    set (ro_queue s') \<subseteq> insert r (set (ro_queue s))"
  proof cases
    case 1
    show ?thesis unfolding 1(2) by (auto simp: F objs1)
  next
    case (2 success passed e h)
    have "set (ro_queue s') \<subseteq> insert r (set (ro_queue s))" unfolding 2(2) using settled(5) [of success s2] by (simp add: F objs1)
    then show ?thesis unfolding 2(2) by (simp add: settled F objs1)
  qed
  then show "q \<noteq> r \<Longrightarrow> ro_objects s' q = ro_objects s q" "rt_service_name (ro_objects s' q) = rt_service_name (ro_objects s q)"
    "n \<noteq> name \<Longrightarrow> dget (ro_tasks s') n = dget (ro_tasks s) n" "ro_fresh s' = ro_fresh s"
    "set (ro_queue s') \<subseteq> insert r (set (ro_queue s))" by blast+
  have "rr_service_name res = name" if "out = Inr res" for res
    using that run assms(1) by (auto simp: Let_def result_of_attempt_def split: sum.splits prod.splits)
  then show "n \<noteq> name \<Longrightarrow> history_of n s' = history_of n s"
    using execute_history [OF assms(1)] by (cases out) (auto simp: history_of_def)
qed

lemma forgotten_execute:
  assumes "inv_except X s" "forgotten name r s" "execute_recovery C n s = (s', out)" "n \<noteq> name"
  shows "forgotten name r s' \<and> history_of name s' = history_of name s"
proof (cases "dget (ro_tasks s) n")
  case None
  then show ?thesis using assms execute_none [of s n C] by simp
next
  case (Some q)
  have q: "q < ro_fresh s" "rt_service_name (ro_objects s q) = n" using inv_exceptD(4) [OF assms(1) Some] by simp_all
  have r: "rt_service_name (ro_objects s r) = name"
    using inv_exceptD(4) [OF assms(1)] assms(2) unfolding forgotten_def by blast
  then have "r \<noteq> q" using q assms(4) by auto
  note F = execute_frame [OF assms(3) Some]
  have "\<forall>e \<in> set (ro_queue s'). e < ro_fresh s' \<and> rt_service_name (ro_objects s' e) \<noteq> name"
    using F(2,4,5) q assms(2,4) unfolding forgotten_def by fastforce
  moreover have "dget (ro_tasks s') name = Some r" "rt_state (ro_objects s' r) = IN_PROGRESS"
    using F(1) [OF \<open>r \<noteq> q\<close>] F(3) [of name] assms(2,4) unfolding forgotten_def by auto
  ultimately show ?thesis using F(6) [of name] assms(4) unfolding forgotten_def by auto
qed

lemma forgotten_drain:
  "recovery_inv s \<Longrightarrow> forgotten name r s \<Longrightarrow> drain C now s = (s', out) \<Longrightarrow>
   forgotten name r s' \<and> history_of name s' = history_of name s"
proof (induction C now s arbitrary: s' out rule: drain.induct)
  case (1 C now s)
  let ?r = "hd (ro_queue s)" and ?t = "ro_objects s (hd (ro_queue s))"
  show ?case
  proof (cases "ro_queue s = [] \<or> \<not> due now ?t")
    case True
    then show ?thesis using 1(4,5) by (subst (asm) drain.simps) simp
  next
    case go: False
    have sub: "set (ro_queue (pop_task s)) \<subseteq> set (ro_queue s)"
      using heapq.set_pop [of "ro_queue s" "task_key s"] go by (auto simp: pop_task_def)
    have popped: "forgotten name r (pop_task s)" "history_of name (pop_task s) = history_of name s"
      using 1(4) sub by (auto simp: forgotten_def history_of_def)
    have other: "rt_service_name ?t \<noteq> name" using 1(4) go unfolding forgotten_def by simp
    have pop: "inv_except {?r} (pop_task s)" using inv_pop 1(3) go by blast
    note step = drain_step [OF 1(3) go]
    show ?thesis
    proof (cases "rt_state ?t = CANCELLED \<or> rt_service_name ?t \<notin> set (dkeys (ro_tasks (pop_task s)))")
      case True
      have "drain C now (pop_task s) = (s', out)"
        using 1(5) go True by (subst (asm) drain.simps) (simp add: Let_def)
      then show ?thesis using 1(1) [OF go refl refl True step(1) [OF True] popped(1)] popped(2) by simp
    next
      case False
      obtain s2 x where x: "execute_recovery C (rt_service_name ?t) (pop_task s) = (s2, x)" by fastforce
      have run: "(case x of Inl e \<Rightarrow> (s2, Inl e) | Inr res \<Rightarrow> drain C now s2) = (s', out)"
        using 1(5) go False x by (subst (asm) drain.simps) (simp add: Let_def)
      note kept = forgotten_execute [OF pop popped(1) x other]
      show ?thesis
      proof (cases x)
        case (Inl e)
        then show ?thesis using run kept popped(2) by simp
      next
        case (Inr res)
        then show ?thesis
          using 1(2) [OF go refl refl False x [symmetric] Inr step(2) [OF False x]] run kept popped(2) by simp
      qed
    qed
  qed
qed

lemma forgotten_step:
  assumes "recovery_inv s" "forgotten name r s" "e \<noteq> CancelEvent name" "e \<noteq> ExecuteEvent name"
  shows "forgotten name r (recovery_step C e s) \<and> history_of name (recovery_step C e s) = history_of name s"
proof (cases e)
  case (ScheduleEvent n st p pol)
  have "r < ro_fresh s" using inv_exceptD(4) [OF assms(1)] assms(2) unfolding forgotten_def by blast
  moreover have "name \<in> set (dkeys (ro_tasks s))"
    using assms(2) dget_None_keys [of "ro_tasks s" name] unfolding forgotten_def by fastforce
  ultimately show ?thesis
    using assms(2) ScheduleEvent
    by (auto simp: schedule_recovery_def Let_def forgotten_def history_of_def set_queue_push dget_dset less_SucI)
next
  case (CancelEvent n)
  show ?thesis
  proof (cases "dget (ro_tasks s) n")
    case (Some q)
    have "dget (ro_tasks s) name = Some r" "n \<noteq> name" using assms(2,3) CancelEvent by (auto simp: forgotten_def)
    then have "q \<noteq> r" using inv_exceptD(4) [OF assms(1)] Some by metis
    then show ?thesis
      using Some assms(2,3) CancelEvent by (auto simp: cancel_recovery_def forgotten_def history_of_def dget_ddel)
  qed (use assms(2) CancelEvent in \<open>simp add: cancel_recovery_def\<close>)
next
  case (PolicyEvent n p)
  then show ?thesis
    using assms(2)
    by (auto simp: set_recovery_policy_def Let_def forgotten_def history_of_def split: option.split)
next
  case (ExecuteEvent n)
  obtain s' out where "execute_recovery C n s = (s', out)" by fastforce
  then show ?thesis using forgotten_execute [OF assms(1,2)] assms(4) ExecuteEvent by simp
next
  case RoundEvent
  obtain s' out where run: "drain C (ck_now C (ro_world s)) s = (s', out)" by fastforce
  from forgotten_drain [OF assms(1,2) run] show ?thesis
    using RoundEvent assms(2) run by (cases out) (simp_all add: loop_round_def)
next
  case (LoopEvent b)
  then show ?thesis using assms(2) by (simp add: start_loop_def stop_loop_def forgotten_def history_of_def)
qed

lemma forgotten_run:
  "recovery_inv s \<Longrightarrow> forgotten name r s \<Longrightarrow> CancelEvent name \<notin> set evs \<Longrightarrow> ExecuteEvent name \<notin> set evs \<Longrightarrow>
   forgotten name r (run_recovery C evs s) \<and> history_of name (run_recovery C evs s) = history_of name s"
proof (induction evs arbitrary: s)
  case (Cons e evs)
  then have "forgotten name r (recovery_step C e s)" "history_of name (recovery_step C e s) = history_of name s"
    using forgotten_step [of s name r e C] by auto
  then show ?case using Cons step_inv [of s C e] by (simp add: run_recovery_def)
qed (simp add: run_recovery_def)

text \<open>C25: A service whose health check raises an exception the orchestrator does not catch is never recovered again:
  its task stays in progress and out of the heap, and unless it is cancelled or executed by hand nothing that
  is done later adds an attempt for it; a new schedule is refused.\<close>

theorem crashed_check_is_forgotten:
  assumes "recovery_inv s" and "ro_queue s \<noteq> []" and "hd (ro_queue s) = r" and "due now (ro_objects s r)"
    and "rt_state (ro_objects s r) = SCHEDULED" and "rt_service_name (ro_objects s r) = name"
    and "\<And>q. q \<in> set (ro_queue (pop_task s)) \<Longrightarrow> rt_service_name (ro_objects s q) \<noteq> name"
    and "rp_health_check (rt_policy (ro_objects s r)) = Some check" and "check (ro_world s) = (w, Inl e)"
    and "\<not> health_check_caught (fst e)" and "CancelEvent name \<notin> set evs" and "ExecuteEvent name \<notin> set evs"
  shows "snd (drain C now s) = Inl e \<and>
    (let s' = run_recovery C evs (fst (drain C now s))
     in rt_state (ro_objects s' r) = IN_PROGRESS \<and> r \<notin> set (ro_queue s') \<and>
        history_of name s' = history_of name s \<and> schedule_recovery C name st p pol s' = s')"
proof -
  have r: "r < ro_fresh s" using inv_exceptD(3) [OF assms(1)] assms(2,3) by auto
  have table: "dget (ro_tasks s) name = Some r"
    using inv_exceptD(5) [OF assms(1) r] assms(5,6) by (simp add: open_state_def)
  then have key: "name \<in> set (dkeys (ro_tasks s))" using dget_None_keys [of "ro_tasks s" name] by fastforce
  define s1 where "s1 = (begin_attempt C r (pop_task s))\<lparr>ro_world := w\<rparr>"
  have "execute_recovery C name (pop_task s) = (s1, Inl e)"
    using table assms(8-10)
    by (simp add: execute_recovery_def s1_def begin_attempt_def run_health_check_def Let_def)
  then have run: "drain C now s = (s1, Inl e)"
    using assms(2-6) key by (subst drain.simps) (simp add: Let_def due_def)
  have inv1: "recovery_inv s1" using drain_inv [OF assms(1) run] .
  have "r \<notin> set (ro_queue (pop_task s))" using assms(6,7) by blast
  then have "forgotten name r s1"
    using table assms(7) inv_exceptD(3) [OF inv1]
    by (auto simp: forgotten_def s1_def begin_attempt_def Let_def assms(6))
  from forgotten_run [OF inv1 this assms(11,12)] have kept: "forgotten name r (run_recovery C evs s1)"
    "history_of name (run_recovery C evs s1) = history_of name s1" by blast+
  have "history_of name s1 = history_of name s"
    by (simp add: history_of_def s1_def begin_attempt_def Let_def)
  moreover have "name \<in> set (dkeys (ro_tasks (run_recovery C evs s1)))"
    using kept(1) dget_None_keys [of "ro_tasks (run_recovery C evs s1)" name] unfolding forgotten_def by fastforce
  moreover have "r \<notin> set (ro_queue (run_recovery C evs s1))"
    using kept(1) inv_exceptD(4) [OF run_inv [OF inv1]] unfolding forgotten_def by blast
  ultimately show ?thesis
    using run kept by (simp add: forgotten_def schedule_recovery_def Let_def)
qed

section \<open>A small orchestrator\<close>

definition raising_policy :: "unit recovery_policy" where
  "raising_policy = \<lparr>rp_max_retry_attempts = 5, rp_backoff_multiplier = 2, rp_initial_delay_ms = 1000,
     rp_max_delay_ms = 60000, rp_health_check = Some (eraise KeyErr ''status''), rp_constitutional_hash = []\<rparr>"

definition still_clocks :: "unit clocks" where
  "still_clocks = \<lparr>ck_now = (\<lambda>w. 0), ck_monotonic = (\<lambda>w. 0), ck_iso = (\<lambda>w. ''now'')\<rparr>"

definition no_task :: "unit recovery_task" where
  "no_task = \<lparr>rt_priority = 0, rt_service_name = [], rt_strategy = MANUAL, rt_policy = raising_policy,
     rt_attempt_count = 0, rt_state = IDLE, rt_last_attempt_at = None, rt_next_attempt_at = 0\<rparr>"

definition one_service :: "unit orchestrator" where
  "one_service = run_recovery still_clocks [ScheduleEvent ''db'' IMMEDIATE 1 (Some raising_policy)]
     (new_orchestrator raising_policy (\<lambda>r. no_task) ())"

lemma one_service_inv: "recovery_inv one_service"
  unfolding one_service_def by (rule run_inv [OF new_inv])

lemma one_service_fields:
  "ro_queue one_service = [0]" "ro_tasks one_service = [(''db'', 0)]" "ro_queue (pop_task one_service) = []"
  "rt_service_name (ro_objects one_service 0) = ''db''" "rt_state (ro_objects one_service 0) = SCHEDULED"
  "rt_next_attempt_at (ro_objects one_service 0) = 0" "rt_policy (ro_objects one_service 0) = raising_policy"
  by (simp_all add: one_service_def run_recovery_def new_orchestrator_def schedule_recovery_def Let_def push_task_def
      pop_task_def heappush_def heappop_def siftdown.simps set_object_def calculate_next_attempt_def still_clocks_def)

lemma crashed_check_is_forgotten_witness:
  "snd (drain still_clocks 0 one_service) = Inl (KeyErr, ''status'') \<and>
   rt_state (ro_objects (run_recovery still_clocks [RoundEvent] (fst (drain still_clocks 0 one_service))) 0) = IN_PROGRESS"
  using crashed_check_is_forgotten [of one_service 0 0 "''db''" "eraise KeyErr ''status''" "()" "(KeyErr, ''status'')"
      "[RoundEvent]" still_clocks] one_service_inv
  by (simp add: one_service_fields due_def raising_policy_def health_check_caught_def Let_def)

lemma scheduled_tasks_are_queued_witness:
  "rt_state (ro_objects one_service 0) \<in> {SCHEDULED, IN_PROGRESS} \<and> 0 \<in> set (ro_queue one_service)"
  using scheduled_tasks_are_queued [OF one_service_def, of "''db''" 0] by (simp add: one_service_fields)


text \<open>A task with the manual strategy is executed by the next round of the loop like any other.\<close>

lemma manual_runs_itself:
  assumes "ck_now C (ro_world s) = now" "s = schedule_recovery C name MANUAL p pol (new_orchestrator dp objs w)"
  shows "due now (ro_objects s 0) \<and> ro_queue s = [0]"
  unfolding assms(2)
  using assms(1) by (simp add: assms(2) schedule_recovery_def new_orchestrator_def Let_def push_task_def heappush_def
      siftdown.simps set_object_def calculate_next_attempt_def due_def)

end
