(* ===== verification/Retry_Buffer.thy ===== *)
theory Retry_Buffer
  imports Bus_Effects
begin

text \<open>
  \<^verbatim>\<open>src/retry_buffer.py\<close>. A pass over the buffer is a coroutine that waits before each delivery and during it; other
  calls run while it waits. It is cut into the steps between its suspensions, and its local variables are
  part of the state: the messages to retry, the counts of its result, and the message being delivered. The
  deque never holds more than \<open>maxlen\<close> messages: appending to a full one drops the oldest.
\<close>

record buffered_message =
  bm_id :: string
  bm_topic :: string
  bm_value :: json_dict
  bm_key :: "string option"
  bm_buffered_at :: rat
  bm_retry_count :: nat
  bm_max_retries :: int
  bm_tenant_id :: "string option"

record retry_pass =
  ps_retry :: "buffered_message list"
  ps_current :: "buffered_message option"
  ps_delivered :: nat
  ps_failed :: nat

record retry_buffer =
  rf_max_size :: nat
  rf_base_retry_delay :: rat
  rf_max_retry_delay :: rat
  rf_buffer :: "buffered_message list"
  rf_buffered_count :: nat
  rf_delivered_count :: nat
  rf_failed_count :: nat
  rf_dropped_count :: nat
  rf_pass :: "retry_pass option"

definition new_buffer :: "nat \<Rightarrow> rat \<Rightarrow> rat \<Rightarrow> retry_buffer" where
  "new_buffer n base longest =
     \<lparr>rf_max_size = n, rf_base_retry_delay = base, rf_max_retry_delay = longest, rf_buffer = [], rf_buffered_count = 0,
      rf_delivered_count = 0, rf_failed_count = 0, rf_dropped_count = 0, rf_pass = None\<rparr>"

definition add_message :: "buffered_message \<Rightarrow> (retry_buffer, bool) eff" where
  "add_message m s =
     (if rf_max_size s \<le> length (rf_buffer s) \<and> rf_buffer s = []
      then eraise (OtherErr ''IndexError'') ''pop from an empty deque'' s
      else
        let s1 = (if rf_max_size s \<le> length (rf_buffer s)
                  then s\<lparr>rf_buffer := tl (rf_buffer s), rf_dropped_count := rf_dropped_count s + 1\<rparr> else s)
        in (s1\<lparr>rf_buffer := deque_append (rf_max_size s1) m (rf_buffer s1),
              rf_buffered_count := rf_buffered_count s1 + 1\<rparr>, Inr True))"

definition exhausted_message :: "buffered_message \<Rightarrow> bool" where
  "exhausted_message m = (bm_max_retries m \<le> int (bm_retry_count m))"

text \<open>The wait before a delivery; \<open>f\<close> is the fraction of the loop's clock.\<close>

definition retry_delay :: "retry_buffer \<Rightarrow> buffered_message \<Rightarrow> rat \<Rightarrow> rat" where
  "retry_delay s m f =
     (let d = min (rf_base_retry_delay s * 2 ^ bm_retry_count m) (rf_max_retry_delay s)
      in d + d * (1 / 10) * (1 / 2 - f))"

section \<open>The steps of a pass\<close>

definition begin_pass :: "retry_buffer \<Rightarrow> retry_buffer \<times> bool" where
  "begin_pass s =
     (if rf_pass s \<noteq> None then (s, False)
      else (s\<lparr>rf_pass := Some \<lparr>ps_retry = [], ps_current = None, ps_delivered = 0, ps_failed = 0\<rparr>\<rparr>, True))"

definition count_failed :: "retry_buffer \<Rightarrow> retry_buffer" where
  "count_failed s = s\<lparr>rf_failed_count := rf_failed_count s + 1\<rparr>"

text \<open>Up to the next delivery: exhausted messages on the way are discarded. Without a message the pass may finish.\<close>

definition take_message :: "retry_pass \<Rightarrow> retry_buffer \<Rightarrow> retry_buffer" where
  "take_message p s =
     (case rf_buffer s of
        [] \<Rightarrow> s
      | m # ms \<Rightarrow>
          if exhausted_message m
          then (count_failed s)\<lparr>rf_buffer := ms, rf_pass := Some (p\<lparr>ps_failed := ps_failed p + 1\<rparr>)\<rparr>
          else s\<lparr>rf_buffer := ms, rf_pass := Some (p\<lparr>ps_current := Some m\<rparr>)\<rparr>)"

datatype delivery = Delivered | DeliveryError | DeliveryRaised

definition answer_message :: "delivery \<Rightarrow> retry_pass \<Rightarrow> buffered_message \<Rightarrow> retry_buffer \<Rightarrow> retry_buffer" where
  "answer_message d p m s =
     (case d of
        Delivered \<Rightarrow> s\<lparr>rf_delivered_count := rf_delivered_count s + 1,
            rf_pass := Some (p\<lparr>ps_current := None, ps_delivered := ps_delivered p + 1\<rparr>)\<rparr>
      | DeliveryError \<Rightarrow> s\<lparr>rf_pass := Some (p\<lparr>ps_current := None,
            ps_retry := ps_retry p @ [m\<lparr>bm_retry_count := bm_retry_count m + 1\<rparr>]\<rparr>)\<rparr>
      | DeliveryRaised \<Rightarrow> s\<lparr>rf_pass := None\<rparr>)"

text \<open>The messages to retry go back, or are counted as failed; the result counts those that go back.\<close>

fun put_back :: "buffered_message list \<Rightarrow> retry_buffer \<Rightarrow> retry_buffer \<times> nat \<times> nat" where
  "put_back [] s = (s, 0, 0)"
| "put_back (m # ms) s =
     (if exhausted_message m
      then case put_back ms (count_failed s) of (s', failed, remaining) \<Rightarrow> (s', failed + 1, remaining)
      else case put_back ms (s\<lparr>rf_buffer := deque_append (rf_max_size s) m (rf_buffer s)\<rparr>) of
             (s', failed, remaining) \<Rightarrow> (s', failed, remaining + 1))"

record pass_result =
  pq_delivered :: nat
  pq_failed :: nat
  pq_remaining :: nat

definition finish_pass :: "retry_pass \<Rightarrow> retry_buffer \<Rightarrow> retry_buffer \<times> pass_result" where
  "finish_pass p s =
     (case put_back (ps_retry p) s of (s', failed, remaining) \<Rightarrow>
        (s'\<lparr>rf_pass := None\<rparr>,
         \<lparr>pq_delivered = ps_delivered p, pq_failed = ps_failed p + failed, pq_remaining = remaining\<rparr>))"

text \<open>A pass that nothing interrupts; the producer works on a world.\<close>

definition delivery_caught :: "exn_class \<Rightarrow> bool" where
  "delivery_caught c =
     (c \<in> {RuntimeErr, ValueErr, TypeErr, KeyErr, AttributeErr, ConnectionErr, OSErr, TimeoutErr})"

definition delivery_of :: "pipeline_exn + unit \<Rightarrow> delivery" where
  "delivery_of r =
     (case r of Inr _ \<Rightarrow> Delivered | Inl e \<Rightarrow> if delivery_caught (fst e) then DeliveryError else DeliveryRaised)"

lemma take_message_buffer [simp]: "rf_buffer (take_message p s) = tl (rf_buffer s)"
  by (cases "rf_buffer s") (auto simp: take_message_def count_failed_def)

lemma answer_message_buffer [simp]: "rf_buffer (answer_message d p m s) = rf_buffer s"
  by (simp add: answer_message_def split: delivery.split)

function run_pass ::
  "(buffered_message \<Rightarrow> ('w, unit) eff) \<Rightarrow> retry_pass \<Rightarrow> retry_buffer \<Rightarrow> 'w \<Rightarrow>
   (retry_buffer \<times> 'w) \<times> (pipeline_exn + pass_result)" where
  "run_pass send p s w =
     (case rf_buffer s of
        [] \<Rightarrow> (case finish_pass p s of (s', r) \<Rightarrow> ((s', w), Inr r))
      | m # ms \<Rightarrow>
          let s1 = take_message p s; p1 = the (rf_pass s1)
          in if exhausted_message m then run_pass send p1 s1 w
             else case send m w of (w', r) \<Rightarrow>
               let s2 = answer_message (delivery_of r) p1 m s1
               in if delivery_of r = DeliveryRaised
                  then ((s2, w'), case r of Inl e \<Rightarrow> Inl e | Inr _ \<Rightarrow> Inl (RuntimeErr, []))
                  else run_pass send (the (rf_pass s2)) s2 w')"
  by auto
termination
  by (relation "measure (\<lambda>(send, p, s, w). length (rf_buffer s))") auto

declare run_pass.simps [simp del]

definition process_buffer ::
  "(buffered_message \<Rightarrow> ('w, unit) eff) \<Rightarrow> retry_buffer \<times> 'w \<Rightarrow> (retry_buffer \<times> 'w) \<times> (pipeline_exn + pass_result option)" where
  "process_buffer send sw =
     (case begin_pass (fst sw) of
        (s, False) \<Rightarrow> ((s, snd sw), Inr None)
      | (s, True) \<Rightarrow> (case run_pass send (the (rf_pass s)) s (snd sw) of
                       (sw', Inl e) \<Rightarrow> (sw', Inl e) | (sw', Inr r) \<Rightarrow> (sw', Inr (Some r))))"

definition buffer_metrics :: "retry_buffer \<Rightarrow> json_dict" where
  "buffer_metrics s =
     [(''buffered_count'', JInt (int (rf_buffered_count s))), (''delivered_count'', JInt (int (rf_delivered_count s))),
      (''failed_count'', JInt (int (rf_failed_count s))), (''dropped_count'', JInt (int (rf_dropped_count s))),
      (''current_size'', JInt (int (length (rf_buffer s)))), (''max_size'', JInt (int (rf_max_size s))),
      (''constitutional_hash'', JStr CONSTITUTIONAL_HASH)]"

end
