(* ===== verification/Retry_Properties.thy ===== *)
theory Retry_Properties
  imports Retry_Buffer
begin

text \<open>
  The properties of the retry buffer: an account of every message over all interleavings of a pass with other
  calls, with the two ways in which messages vanish, and the result of a pass that nothing interrupts.
\<close>

section \<open>Interleaved runs\<close>

datatype retry_event = AddEvent buffered_message | BeginEvent | TakeEvent | AnswerEvent delivery | FinishEvent

text \<open>An event whose step is not enabled changes nothing.\<close>

definition ready_pass :: "retry_buffer \<Rightarrow> retry_pass option" where
  "ready_pass s = (case rf_pass s of Some p \<Rightarrow> if ps_current p = None then Some p else None | None \<Rightarrow> None)"

definition waiting_delivery :: "retry_buffer \<Rightarrow> (retry_pass \<times> buffered_message) option" where
  "waiting_delivery s = (case rf_pass s of Some p \<Rightarrow> map_option (Pair p) (ps_current p) | None \<Rightarrow> None)"

fun retry_step :: "retry_event \<Rightarrow> retry_buffer \<Rightarrow> retry_buffer" where
  "retry_step (AddEvent m) s = fst (add_message m s)"
| "retry_step BeginEvent s = fst (begin_pass s)"
| "retry_step TakeEvent s = (case ready_pass s of Some p \<Rightarrow> take_message p s | None \<Rightarrow> s)"
| "retry_step (AnswerEvent d) s = (case waiting_delivery s of Some (p, m) \<Rightarrow> answer_message d p m s | None \<Rightarrow> s)"
| "retry_step FinishEvent s =
     (case ready_pass s of Some p \<Rightarrow> if rf_buffer s = [] then fst (finish_pass p s) else s | None \<Rightarrow> s)"

definition in_pass :: "retry_buffer \<Rightarrow> nat" where
  "in_pass s = (case rf_pass s of None \<Rightarrow> 0
     | Some p \<Rightarrow> length (ps_retry p) + (case ps_current p of None \<Rightarrow> 0 | Some m \<Rightarrow> 1))"

definition accounted :: "retry_buffer \<Rightarrow> nat" where
  "accounted s = rf_delivered_count s + rf_failed_count s + rf_dropped_count s + length (rf_buffer s) + in_pass s"

text \<open>What an event makes vanish without counting it\<close>

definition vanishes :: "retry_event \<Rightarrow> retry_buffer \<Rightarrow> nat" where
  "vanishes e s =
     (case e of
        AnswerEvent DeliveryRaised \<Rightarrow> (case waiting_delivery s of Some (p, m) \<Rightarrow> length (ps_retry p) + 1 | None \<Rightarrow> 0)
      | FinishEvent \<Rightarrow> (case ready_pass s of
            Some p \<Rightarrow> if rf_buffer s = [] then length (filter (\<lambda>m. \<not> exhausted_message m) (ps_retry p)) - rf_max_size s else 0
          | None \<Rightarrow> 0)
      | _ \<Rightarrow> 0)"

fun run_retry :: "retry_event list \<Rightarrow> retry_buffer \<Rightarrow> retry_buffer" where
  "run_retry [] s = s"
| "run_retry (e # es) s = run_retry es (retry_step e s)"

fun vanished :: "retry_event list \<Rightarrow> retry_buffer \<Rightarrow> nat" where
  "vanished [] s = 0"
| "vanished (e # es) s = vanishes e s + vanished es (retry_step e s)"

lemma put_back_result:
  assumes "put_back ms s = (s', f, k)" and "length (rf_buffer s) \<le> rf_max_size s"
  shows "k = length (filter (\<lambda>m. \<not> exhausted_message m) ms)" "f + k = length ms"
    "rf_failed_count s' = rf_failed_count s + f" "rf_max_size s' = rf_max_size s"
    "length (rf_buffer s') = min (rf_max_size s) (length (rf_buffer s) + k)"
    "rf_buffered_count s' = rf_buffered_count s" "rf_delivered_count s' = rf_delivered_count s"
    "rf_dropped_count s' = rf_dropped_count s"
  using assms
  by (induction ms arbitrary: s f k)
    (auto simp: count_failed_def min_def split: if_splits prod.splits)

lemma step_accounts:
  assumes "length (rf_buffer s) \<le> rf_max_size s"
  shows "rf_buffered_count (retry_step e s) + accounted s = rf_buffered_count s + accounted (retry_step e s) + vanishes e s"
    and "length (rf_buffer (retry_step e s)) \<le> rf_max_size (retry_step e s)"
    and "rf_max_size (retry_step e s) = rf_max_size s"
proof -
  have "rf_buffered_count (retry_step e s) + accounted s = rf_buffered_count s + accounted (retry_step e s) + vanishes e s \<and>
    length (rf_buffer (retry_step e s)) \<le> rf_max_size (retry_step e s) \<and> rf_max_size (retry_step e s) = rf_max_size s"
  proof (cases e)
    case (AddEvent m)
    then show ?thesis
      using assms by (cases "rf_buffer s") (auto simp: add_message_def Let_def accounted_def in_pass_def vanishes_def min_def)
  next
    case BeginEvent
    then show ?thesis using assms by (auto simp: begin_pass_def accounted_def in_pass_def vanishes_def)
  next
    case TakeEvent
    then show ?thesis
      using assms
      by (auto simp: ready_pass_def take_message_def count_failed_def accounted_def in_pass_def vanishes_def
          split: option.splits list.splits if_splits)
  next
    case (AnswerEvent d)
    then show ?thesis
      using assms
      by (cases d) (auto simp: waiting_delivery_def answer_message_def accounted_def in_pass_def vanishes_def
          split: option.splits)
  next
    case FinishEvent
    show ?thesis
    proof (cases "\<exists>p. ready_pass s = Some p \<and> rf_buffer s = []")
      case True
      then obtain p where p: "ready_pass s = Some p" "rf_buffer s = []" by blast
      obtain s' f k where put: "put_back (ps_retry p) s = (s', f, k)" by (cases "put_back (ps_retry p) s") auto
      note R = put_back_result [OF put assms]
      have "rf_pass s = Some p" "ps_current p = None" using p(1) by (auto simp: ready_pass_def split: option.splits if_splits)
      then have "in_pass s = f + k" using R(2) by (simp add: in_pass_def)
      then show ?thesis
        using R p FinishEvent put by (auto simp: finish_pass_def accounted_def vanishes_def in_pass_def)
    qed (use assms FinishEvent in \<open>auto simp: vanishes_def split: option.splits\<close>)
  qed
  then show "rf_buffered_count (retry_step e s) + accounted s = rf_buffered_count s + accounted (retry_step e s) + vanishes e s"
    "length (rf_buffer (retry_step e s)) \<le> rf_max_size (retry_step e s)" "rf_max_size (retry_step e s) = rf_max_size s"
    by blast+
qed

lemma run_accounts:
  "length (rf_buffer s) \<le> rf_max_size s \<Longrightarrow>
   rf_buffered_count (run_retry es s) + accounted s = rf_buffered_count s + accounted (run_retry es s) + vanished es s \<and>
   length (rf_buffer (run_retry es s)) \<le> rf_max_size s"
proof (induction es arbitrary: s)
  case (Cons e es)
  note S = step_accounts [OF Cons.prems, of e]
  from Cons.IH [OF S(2)] show ?case using S by simp
qed simp

text \<open>C28: However a pass is interleaved with other calls, every message that was ever buffered is delivered, counted as
  failed or dropped, in the buffer, or held by the pass - except for what vanished: all that the pass held
  when a delivery raised an exception it does not catch, and what did not fit when a pass put back more
  messages than the buffer holds; and the buffer never exceeds its size.\<close>

theorem retry_buffer_accounts:
  "let s = run_retry es (new_buffer n base longest)
   in rf_buffered_count s = rf_delivered_count s + rf_failed_count s + rf_dropped_count s + length (rf_buffer s) +
        in_pass s + vanished es (new_buffer n base longest) \<and>
      length (rf_buffer s) \<le> n"
  using run_accounts [of "new_buffer n base longest" es]
  by (simp add: new_buffer_def accounted_def in_pass_def Let_def)

section \<open>A pass that nothing interrupts\<close>

lemma run_pass_result:
  assumes "length (rf_buffer s) + length (ps_retry p) \<le> rf_max_size s" and "rf_pass s = Some p" "ps_current p = None"
    and "\<And>m w w' e. send m w = (w', Inl e) \<Longrightarrow> delivery_caught (fst e)"
    and "run_pass send p s w = ((s', w'), out)"
  shows "\<exists>r. out = Inr r \<and> rf_pass s' = None \<and> length (rf_buffer s') = pq_remaining r \<and>
    pq_delivered r + pq_failed r + pq_remaining r =
      length (rf_buffer s) + length (ps_retry p) + ps_delivered p + ps_failed p"
  using assms
proof (induction send p s w rule: run_pass.induct)
  case (1 send p s w)
  show ?case
  proof (cases "rf_buffer s")
    case Nil
    obtain t f k where put: "put_back (ps_retry p) s = (t, f, k)" by (cases "put_back (ps_retry p) s") auto
    have "length (rf_buffer s) \<le> rf_max_size s" using 1(3) by simp
    note R = put_back_result [OF put this]
    then show ?thesis
      using 1(3,7) Nil put by (subst (asm) run_pass.simps) (auto simp: finish_pass_def)
  next
    case (Cons m ms)
    show ?thesis
    proof (cases "exhausted_message m")
      case True
      then show ?thesis
        using 1(1) [OF Cons refl refl True] 1(3-7) Cons
        by (subst (asm) (2) run_pass.simps) (simp add: take_message_def count_failed_def Let_def)
    next
      case False
      obtain w1 x where x: "send m w = (w1, x)" by fastforce
      have d: "delivery_of x \<noteq> DeliveryRaised" using 1(6) x by (auto simp: delivery_of_def split: sum.split)
      then have "delivery_of x = Delivered \<or> delivery_of x = DeliveryError" by (cases "delivery_of x") auto
      then show ?thesis
        using 1(2) [OF Cons refl refl False x [symmetric] refl d] 1(3-7) Cons False x d
        by (subst (asm) (2) run_pass.simps) (auto simp: take_message_def answer_message_def Let_def)
    qed
  qed
qed

text \<open>A pass that nothing interrupts, with a producer that raises only what is caught, ends: its result counts each
  buffered message once as delivered, failed or remaining, and exactly the remaining ones are in the
  buffer.\<close>

theorem uninterrupted_pass_counts:
  assumes "process_buffer send (s, w) = ((s', w'), out)" and "rf_pass s = None" and "length (rf_buffer s) \<le> rf_max_size s"
    and "\<And>m w w' e. send m w = (w', Inl e) \<Longrightarrow> delivery_caught (fst e)"
  shows "\<exists>r. out = Inr (Some r) \<and> pq_delivered r + pq_failed r + pq_remaining r = length (rf_buffer s) \<and>
    length (rf_buffer s') = pq_remaining r \<and> rf_pass s' = None"
proof -
  let ?p = "\<lparr>ps_retry = [], ps_current = None, ps_delivered = 0, ps_failed = 0\<rparr>"
  let ?s = "s\<lparr>rf_pass := Some ?p\<rparr>"
  obtain t v x where x: "run_pass send ?p ?s w = ((t, v), x)" by (cases "run_pass send ?p ?s w") auto
  have "\<exists>r. x = Inr r \<and> rf_pass t = None \<and> length (rf_buffer t) = pq_remaining r \<and>
    pq_delivered r + pq_failed r + pq_remaining r =
      length (rf_buffer ?s) + length (ps_retry ?p) + ps_delivered ?p + ps_failed ?p"
    by (rule run_pass_result [OF _ _ _ assms(4) x]) (use assms(3) in simp_all)
  then obtain r where
    "x = Inr r" "rf_pass t = None" "length (rf_buffer t) = pq_remaining r"
    "pq_delivered r + pq_failed r + pq_remaining r = length (rf_buffer s)"
    by auto
  then show ?thesis using assms(1,2) x by (auto simp: process_buffer_def begin_pass_def)
qed

definition letter :: buffered_message where
  "letter = \<lparr>bm_id = ''m'', bm_topic = ''t'', bm_value = [], bm_key = None, bm_buffered_at = 0, bm_retry_count = 0,
     bm_max_retries = 2, bm_tenant_id = None\<rparr>"

lemma uninterrupted_pass_counts_witness:
  "\<exists>s' w' r. process_buffer (\<lambda>m. eraise OSErr ''down'') (fst (add_message letter (new_buffer 3 1 60)), ()) = ((s', w'), Inr (Some r)) \<and>
     pq_delivered r + pq_failed r + pq_remaining r = 1"
proof -
  let ?s = "fst (add_message letter (new_buffer 3 1 60))"
  have s: "rf_pass ?s = None" "length (rf_buffer ?s) \<le> rf_max_size ?s" "length (rf_buffer ?s) = 1"
    by (simp_all add: add_message_def new_buffer_def Let_def)
  obtain s' w' out where run: "process_buffer (\<lambda>m. eraise OSErr ''down'') (?s, ()) = ((s', w'), out)"
    by (cases "process_buffer (\<lambda>m. eraise OSErr ''down'') (?s, ())") auto
  from uninterrupted_pass_counts [OF run s(1,2)] show ?thesis
    using run s(3) by (auto simp: delivery_caught_def)
qed

end
