(* ===== verification/Governance_Metrics.thy ===== *)
theory Governance_Metrics
  imports Constitution_Storage
begin

text \<open>
  \<^verbatim>\<open>src/constitutional/metrics_collector.py\<close>: snapshots of the governance metrics, their comparison and their
  collector over Redis. Redis is a record of functions on a world, and so are the clock, the texts of
  numbers and the JSON text of an event. The handlers here list \<open>RuntimeError\<close>, \<open>ValueError\<close> and
  \<open>TypeError\<close> only: these are \<open>Op\<close>. An \<open>OSError\<close>, which a saga lists and these handlers do not, is \<open>Timed\<close>,
  as the \<open>TimeoutError\<close> is one; an error of the Redis client is \<open>Foreign\<close>.
\<close>

definition plain_error :: "saga_exn \<Rightarrow> bool" where
  "plain_error e = (case e of Op _ \<Rightarrow> True | _ \<Rightarrow> False)"

text \<open>\<open>try: m except (RuntimeError, ValueError, TypeError): return x\<close>\<close>

definition or_plain :: "('w, 'a) act \<Rightarrow> 'a \<Rightarrow> ('w, 'a) act" where
  "or_plain m x w = (case m w of (w', Inl e) \<Rightarrow> if plain_error e then (w', Inr x) else (w', Inl e) | r \<Rightarrow> r)"

definition clock_act :: "('w \<Rightarrow> rat) \<Rightarrow> ('w, rat) act" where
  "clock_act clock w = (w, Inr (clock w))"

definition when_act :: "bool \<Rightarrow> ('w, unit) act \<Rightarrow> ('w, unit) act" where
  "when_act b m = (if b then m else return_act ())"

section \<open>Snapshots\<close>

record metrics_snapshot =
  gs_timestamp :: rat
  gs_constitutional_hash :: string
  gs_constitutional_version :: "string option"
  gs_violations_rate :: rat
  gs_latency_p50 :: rat
  gs_latency_p95 :: rat
  gs_latency_p99 :: rat
  gs_deliberation_success_rate :: rat
  gs_maci_violations_count :: int
  gs_throughput_rps :: rat
  gs_total_requests :: int
  gs_approved_requests :: int
  gs_denied_requests :: int
  gs_escalated_requests :: int
  gs_error_rate :: rat
  gs_window_duration_seconds :: int

definition in_unit :: "rat \<Rightarrow> bool" where
  "in_unit x \<longleftrightarrow> 0 \<le> x \<and> x \<le> 1"

definition valid_snapshot :: "metrics_snapshot \<Rightarrow> bool" where
  "valid_snapshot g \<longleftrightarrow>
     (case gs_constitutional_version g of None \<Rightarrow> True | Some v \<Rightarrow> semver_pattern v) \<and>
     in_unit (gs_violations_rate g) \<and> 0 \<le> gs_latency_p50 g \<and> 0 \<le> gs_latency_p95 g \<and> 0 \<le> gs_latency_p99 g \<and>
     in_unit (gs_deliberation_success_rate g) \<and> 0 \<le> gs_maci_violations_count g \<and> 0 \<le> gs_throughput_rps g \<and>
     0 \<le> gs_total_requests g \<and> 0 \<le> gs_approved_requests g \<and> 0 \<le> gs_denied_requests g \<and>
     0 \<le> gs_escalated_requests g \<and> in_unit (gs_error_rate g) \<and> 1 \<le> gs_window_duration_seconds g"

text \<open>The constructor; \<open>None\<close> is its \<open>ValidationError\<close>, which is a \<open>ValueError\<close>.\<close>

definition make_snapshot :: "metrics_snapshot \<Rightarrow> metrics_snapshot option" where
  "make_snapshot g = (if valid_snapshot g then Some g else None)"

definition snapshot_act :: "metrics_snapshot \<Rightarrow> ('w, metrics_snapshot) act" where
  "snapshot_act g =
     (case make_snapshot g of
        None \<Rightarrow> raise_act (Op ''validation error for GovernanceMetricsSnapshot'') | Some g' \<Rightarrow> return_act g')"

definition empty_snapshot :: "rat \<Rightarrow> string option \<Rightarrow> int \<Rightarrow> metrics_snapshot" where
  "empty_snapshot t version window =
     \<lparr>gs_timestamp = t, gs_constitutional_hash = CONSTITUTIONAL_HASH, gs_constitutional_version = version,
      gs_violations_rate = 0, gs_latency_p50 = 0, gs_latency_p95 = 0, gs_latency_p99 = 0,
      gs_deliberation_success_rate = 0, gs_maci_violations_count = 0, gs_throughput_rps = 0, gs_total_requests = 0,
      gs_approved_requests = 0, gs_denied_requests = 0, gs_escalated_requests = 0, gs_error_rate = 0,
      gs_window_duration_seconds = window\<rparr>"

definition meets_targets :: "metrics_snapshot \<Rightarrow> bool" where
  "meets_targets g \<longleftrightarrow> gs_violations_rate g = 0 \<and> gs_latency_p99 g < 5 \<and> 19 / 20 < gs_deliberation_success_rate g \<and>
     gs_maci_violations_count g = 0"

definition health_score :: "metrics_snapshot \<Rightarrow> rat" where
  "health_score g =
     (let violations = min (3 / 10) (gs_violations_rate g * (3 / 10));
          latency = (if 5 < gs_latency_p99 g then min (3 / 10) ((gs_latency_p99 g - 5) / 50 * (3 / 10)) else 0);
          deliberation = (if gs_deliberation_success_rate g < 19 / 20
                          then min (2 / 10) ((19 / 20 - gs_deliberation_success_rate g) * (2 / 10)) else 0);
          maci = min (1 / 10) (of_int (gs_maci_violations_count g) * (1 / 100));
          errors = min (1 / 10) (gs_error_rate g * (1 / 10))
      in max 0 (1 - (violations + latency + deliberation + maci + errors)))"

text \<open>\<open>model_dump_json\<close> and \<open>model_validate_json\<close>, on the document that the text is of. Only documents with the
  fields the dump writes are read.\<close>

definition snapshot_document :: "metrics_snapshot \<Rightarrow> json" where
  "snapshot_document g = JObj
     [(''timestamp'', JTime (gs_timestamp g)), (''constitutional_hash'', JStr (gs_constitutional_hash g)),
      (''constitutional_version'', jstr_option (gs_constitutional_version g)),
      (''violations_rate'', JNum (gs_violations_rate g)), (''governance_latency_p50'', JNum (gs_latency_p50 g)),
      (''governance_latency_p95'', JNum (gs_latency_p95 g)), (''governance_latency_p99'', JNum (gs_latency_p99 g)),
      (''deliberation_success_rate'', JNum (gs_deliberation_success_rate g)),
      (''maci_violations_count'', JInt (gs_maci_violations_count g)), (''throughput_rps'', JNum (gs_throughput_rps g)),
      (''total_requests'', JInt (gs_total_requests g)), (''approved_requests'', JInt (gs_approved_requests g)),
      (''denied_requests'', JInt (gs_denied_requests g)), (''escalated_requests'', JInt (gs_escalated_requests g)),
      (''error_rate'', JNum (gs_error_rate g)), (''window_duration_seconds'', JInt (gs_window_duration_seconds g))]"

definition int_field :: "json_dict \<Rightarrow> string \<Rightarrow> int option" where
  "int_field d k = (case dget d k of Some (JInt i) \<Rightarrow> Some i | _ \<Rightarrow> None)"

definition num_field :: "json_dict \<Rightarrow> string \<Rightarrow> rat option" where
  "num_field d k = (case dget d k of Some (JNum x) \<Rightarrow> Some x | Some (JInt i) \<Rightarrow> Some (of_int i) | _ \<Rightarrow> None)"

definition snapshot_of_document :: "json \<Rightarrow> metrics_snapshot option" where
  "snapshot_of_document j =
     (case j of
        JObj d \<Rightarrow>
          (case (dget d ''timestamp'', json_string (dget d ''constitutional_hash''),
                 opt_string (dget d ''constitutional_version''),
                 map (num_field d) [''violations_rate'', ''governance_latency_p50'', ''governance_latency_p95'',
                    ''governance_latency_p99'', ''deliberation_success_rate'', ''throughput_rps'', ''error_rate''],
                 map (int_field d) [''maci_violations_count'', ''total_requests'', ''approved_requests'',
                    ''denied_requests'', ''escalated_requests'', ''window_duration_seconds'']) of
             (Some (JTime t), Some h, Some v, [Some vr, Some p50, Some p95, Some p99, Some sr, Some tp, Some er],
              [Some mv, Some n, Some ok, Some no, Some esc, Some win]) \<Rightarrow>
                make_snapshot \<lparr>gs_timestamp = t, gs_constitutional_hash = h, gs_constitutional_version = v,
                  gs_violations_rate = vr, gs_latency_p50 = p50, gs_latency_p95 = p95, gs_latency_p99 = p99,
                  gs_deliberation_success_rate = sr, gs_maci_violations_count = mv, gs_throughput_rps = tp,
                  gs_total_requests = n, gs_approved_requests = ok, gs_denied_requests = no,
                  gs_escalated_requests = esc, gs_error_rate = er, gs_window_duration_seconds = win\<rparr>
           | _ \<Rightarrow> None)
      | _ \<Rightarrow> None)"

section \<open>Comparisons\<close>

text \<open>A reason is named; its text with the numbers is left out.\<close>

datatype degradation_reason =
  ViolationsIncreased | LatencyIncreased | DeliberationDecreased | MaciViolationsIncreased | ErrorsIncreased | HealthDecreased

record metrics_comparison =
  cmp_baseline :: metrics_snapshot
  cmp_current :: metrics_snapshot
  cmp_violations_rate_delta :: rat
  cmp_latency_p99_delta :: rat
  cmp_deliberation_success_rate_delta :: rat
  cmp_maci_violations_delta :: int
  cmp_throughput_delta :: rat
  cmp_error_rate_delta :: rat
  cmp_health_score_delta :: rat
  cmp_has_degradation :: bool
  cmp_degradation_reasons :: "degradation_reason list"

definition check_degradation :: "metrics_comparison \<Rightarrow> metrics_comparison" where
  "check_degradation c =
     (let reasons =
        (if 1 / 100 < cmp_violations_rate_delta c then [ViolationsIncreased] else []) @
        (if max 1 (gs_latency_p99 (cmp_baseline c) * (1 / 5)) < cmp_latency_p99_delta c then [LatencyIncreased] else []) @
        (if cmp_deliberation_success_rate_delta c < - (1 / 20) then [DeliberationDecreased] else []) @
        (if 0 < cmp_maci_violations_delta c then [MaciViolationsIncreased] else []) @
        (if 1 / 20 < cmp_error_rate_delta c then [ErrorsIncreased] else []) @
        (if cmp_health_score_delta c < - (1 / 10) then [HealthDecreased] else [])
      in c\<lparr>cmp_degradation_reasons := reasons, cmp_has_degradation := (reasons \<noteq> [])\<rparr>)"

definition make_comparison :: "metrics_snapshot \<Rightarrow> metrics_snapshot \<Rightarrow> metrics_comparison" where
  "make_comparison b c = check_degradation
     \<lparr>cmp_baseline = b, cmp_current = c, cmp_violations_rate_delta = gs_violations_rate c - gs_violations_rate b,
      cmp_latency_p99_delta = gs_latency_p99 c - gs_latency_p99 b,
      cmp_deliberation_success_rate_delta = gs_deliberation_success_rate c - gs_deliberation_success_rate b,
      cmp_maci_violations_delta = gs_maci_violations_count c - gs_maci_violations_count b,
      cmp_throughput_delta = gs_throughput_rps c - gs_throughput_rps b,
      cmp_error_rate_delta = gs_error_rate c - gs_error_rate b,
      cmp_health_score_delta = health_score c - health_score b,
      cmp_has_degradation = False, cmp_degradation_reasons = []\<rparr>"

section \<open>The collector\<close>

text \<open>What the collector uses of Redis, with decoded answers; the third argument of \<open>mr_set\<close> is the expiry.\<close>

record 'w metrics_redis =
  mr_zadd :: "string \<Rightarrow> string \<Rightarrow> rat \<Rightarrow> ('w, unit) act"
  mr_hincrby :: "string \<Rightarrow> string \<Rightarrow> int \<Rightarrow> ('w, unit) act"
  mr_zremrangebyscore :: "string \<Rightarrow> rat \<Rightarrow> ('w, unit) act"
  mr_get :: "string \<Rightarrow> ('w, json option) act"
  mr_set :: "string \<Rightarrow> json \<Rightarrow> int \<Rightarrow> ('w, unit) act"
  mr_zrangebyscore :: "string \<Rightarrow> rat \<Rightarrow> rat \<Rightarrow> ('w, string list) act"
  mr_hgetall :: "string \<Rightarrow> ('w, (string, string) dict) act"
  mr_zcount :: "string \<Rightarrow> rat \<Rightarrow> rat \<Rightarrow> ('w, nat) act"

record 'w collector =
  co_redis :: "'w metrics_redis option"
  co_snapshot_retention_hours :: int
  co_measurement_window_seconds :: int
  co_clock :: "'w \<Rightarrow> rat"
  co_float_text :: "rat \<Rightarrow> string"
  co_float :: "string \<Rightarrow> rat option"
  co_int_text :: "int \<Rightarrow> string"
  co_int :: "string \<Rightarrow> int option"
  co_dumps :: "json \<Rightarrow> string"
  co_kernel :: "(rat list \<Rightarrow> rat \<times> rat \<times> rat) option"

definition LATENCIES :: string where "LATENCIES = ''governance:metrics:latencies''"
definition REQUESTS :: string where "REQUESTS = ''governance:metrics:requests''"
definition VIOLATIONS :: string where "VIOLATIONS = ''governance:metrics:violations''"
definition MACI_VIOLATIONS :: string where "MACI_VIOLATIONS = ''governance:metrics:maci_violations''"
definition DELIBERATIONS :: string where "DELIBERATIONS = ''governance:metrics:deliberations''"

definition with_metrics :: "'w collector \<Rightarrow> 'a \<Rightarrow> ('w metrics_redis \<Rightarrow> ('w, 'a) act) \<Rightarrow> ('w, 'a) act" where
  "with_metrics co x f = (case co_redis co of None \<Rightarrow> return_act x | Some r \<Rightarrow> or_plain (f r) x)"

definition record_governance_decision :: "'w collector \<Rightarrow> rat \<Rightarrow> bool \<Rightarrow> bool \<Rightarrow> bool \<Rightarrow> ('w, unit) act" where
  "record_governance_decision co latency_ms approved escalated violation =
     with_metrics co () (\<lambda>r. and_then (clock_act (co_clock co)) (\<lambda>t.
       and_then (mr_zadd r LATENCIES (co_float_text co latency_ms) t) (\<lambda>_.
       and_then (mr_hincrby r REQUESTS ''total'' 1) (\<lambda>_.
       and_then (mr_hincrby r REQUESTS (if approved then ''approved'' else ''denied'') 1) (\<lambda>_.
       and_then (when_act escalated (mr_hincrby r REQUESTS ''escalated'' 1)) (\<lambda>_.
       and_then (when_act violation (mr_zadd r VIOLATIONS (''violation_'' @ co_float_text co t) t)) (\<lambda>_.
       and_then (mr_zremrangebyscore r LATENCIES (t - 3600)) (\<lambda>_.
       mr_zremrangebyscore r VIOLATIONS (t - 3600)))))))))"

definition record_maci_violation :: "'w collector \<Rightarrow> string \<Rightarrow> string \<Rightarrow> string \<Rightarrow> ('w, unit) act" where
  "record_maci_violation co agent_id action role =
     with_metrics co () (\<lambda>r. and_then (clock_act (co_clock co)) (\<lambda>t.
       and_then (mr_zadd r MACI_VIOLATIONS
         (co_dumps co (JObj [(''agent_id'', JStr agent_id), (''action'', JStr action), (''role'', JStr role),
                             (''timestamp'', JNum t)])) t) (\<lambda>_.
       mr_zremrangebyscore r MACI_VIOLATIONS (t - 86400))))"

definition record_deliberation_outcome :: "'w collector \<Rightarrow> bool \<Rightarrow> ('w, unit) act" where
  "record_deliberation_outcome co success =
     with_metrics co () (\<lambda>r. and_then (mr_hincrby r DELIBERATIONS ''total'' 1) (\<lambda>_.
       mr_hincrby r DELIBERATIONS (if success then ''success'' else ''failed'') 1))"

text \<open>A text that is no number is the \<open>ValueError\<close> of \<open>float\<close> or \<open>int\<close>.\<close>

fun floats_of :: "'w collector \<Rightarrow> string list \<Rightarrow> rat list option" where
  "floats_of co [] = Some []"
| "floats_of co (s # ss) =
     (if s = [] then floats_of co ss
      else (case (co_float co s, floats_of co ss) of (Some x, Some xs) \<Rightarrow> Some (x # xs) | _ \<Rightarrow> None))"

definition value_act :: "'a option \<Rightarrow> ('w, 'a) act" where
  "value_act x = (case x of None \<Rightarrow> raise_act (Op ''not a number'') | Some v \<Rightarrow> return_act v)"

definition counter :: "'w collector \<Rightarrow> (string, string) dict \<Rightarrow> string \<Rightarrow> int option" where
  "counter co d k = (case dget d k of None \<Rightarrow> Some 0 | Some s \<Rightarrow> co_int co s)"

definition get_latencies :: "'w collector \<Rightarrow> rat \<Rightarrow> rat \<Rightarrow> ('w, rat list) act" where
  "get_latencies co start finish =
     with_metrics co [] (\<lambda>r. and_then (mr_zrangebyscore r LATENCIES start finish) (\<lambda>ss. value_act (floats_of co ss)))"

definition get_request_counters :: "'w collector \<Rightarrow> ('w, int \<times> int \<times> int \<times> int) act" where
  "get_request_counters co =
     with_metrics co (0, 0, 0, 0) (\<lambda>r. and_then (mr_hgetall r REQUESTS) (\<lambda>d.
       and_then (value_act (counter co d ''total'')) (\<lambda>n. and_then (value_act (counter co d ''approved'')) (\<lambda>ok.
       and_then (value_act (counter co d ''denied'')) (\<lambda>no. and_then (value_act (counter co d ''escalated'')) (\<lambda>esc.
       return_act (n, ok, no, esc)))))))"

definition get_violations_count :: "'w collector \<Rightarrow> rat \<Rightarrow> rat \<Rightarrow> ('w, nat) act" where
  "get_violations_count co start finish = with_metrics co 0 (\<lambda>r. mr_zcount r VIOLATIONS start finish)"

definition get_maci_violations_count :: "'w collector \<Rightarrow> rat \<Rightarrow> rat \<Rightarrow> ('w, nat) act" where
  "get_maci_violations_count co start finish = with_metrics co 0 (\<lambda>r. mr_zcount r MACI_VIOLATIONS start finish)"

text \<open>The counters of deliberations, and their rate of success\<close>

definition get_deliberation_metrics :: "'w collector \<Rightarrow> ('w, (int \<times> int \<times> int) \<times> rat) act" where
  "get_deliberation_metrics co =
     with_metrics co ((0, 0, 0), 1) (\<lambda>r. and_then (mr_hgetall r DELIBERATIONS) (\<lambda>d.
       and_then (value_act (counter co d ''total'')) (\<lambda>n. and_then (value_act (counter co d ''success'')) (\<lambda>ok.
       and_then (value_act (counter co d ''failed'')) (\<lambda>bad.
       return_act ((n, ok, bad), if 0 < n then of_int ok / of_int n else 1))))))"

definition compute_percentiles :: "'w collector \<Rightarrow> rat list \<Rightarrow> rat \<times> rat \<times> rat" where
  "compute_percentiles co values =
     (if values = [] then (0, 0, 0)
      else let xs = sort values; n = length xs
           in case co_kernel co of
                Some f \<Rightarrow> f xs
              | None \<Rightarrow> (xs ! min (n * 50 div 100) (n - 1), xs ! min (n * 95 div 100) (n - 1),
                         xs ! min (n * 99 div 100) (n - 1)))"

definition store_snapshot :: "'w collector \<Rightarrow> metrics_snapshot \<Rightarrow> ('w, unit) act" where
  "store_snapshot co g =
     with_metrics co () (\<lambda>r.
       let t = gs_timestamp g; key = ''governance:metrics:snapshots:'' @ co_int_text co \<lfloor>t\<rfloor>
       in and_then (mr_set r key (snapshot_document g) (3600 * co_snapshot_retention_hours co)) (\<lambda>_.
          and_then (mr_zadd r ''governance:metrics:snapshots:index'' key t) (\<lambda>_.
          mr_zremrangebyscore r ''governance:metrics:snapshots:index''
            (t - of_int (3600 * co_snapshot_retention_hours co)))))"

text \<open>The snapshot of what was measured\<close>

definition measured_snapshot ::
  "rat \<Rightarrow> string option \<Rightarrow> int \<Rightarrow> rat list \<Rightarrow> rat \<times> rat \<times> rat \<Rightarrow> int \<times> int \<times> int \<times> int \<Rightarrow> nat \<Rightarrow> nat \<Rightarrow> rat \<Rightarrow>
   metrics_snapshot" where
  "measured_snapshot t version window latencies ps counters violations maci success =
     (case (ps, counters) of ((p50, p95, p99), (n, ok, no, esc)) \<Rightarrow>
        \<lparr>gs_timestamp = t, gs_constitutional_hash = CONSTITUTIONAL_HASH, gs_constitutional_version = version,
         gs_violations_rate = of_nat violations / of_int (max 1 n), gs_latency_p50 = p50, gs_latency_p95 = p95,
         gs_latency_p99 = p99, gs_deliberation_success_rate = success, gs_maci_violations_count = int maci,
         gs_throughput_rps = (if 0 < window then of_int n / of_int window else 0), gs_total_requests = n,
         gs_approved_requests = ok, gs_denied_requests = no, gs_escalated_requests = esc,
         gs_error_rate = (if 0 < n
            then of_nat (length (filter (\<lambda>l. 100 < l) latencies) + violations) / of_int n else 0),
         gs_window_duration_seconds = window\<rparr>)"

definition collect_snapshot :: "'w collector \<Rightarrow> string option \<Rightarrow> int option \<Rightarrow> ('w, metrics_snapshot) act" where
  "collect_snapshot co version window_seconds =
     and_then (clock_act (co_clock co)) (\<lambda>t.
       let window = (case window_seconds of Some n \<Rightarrow> if n = 0 then co_measurement_window_seconds co else n
                                          | None \<Rightarrow> co_measurement_window_seconds co);
           empty = snapshot_act (empty_snapshot t version window)
       in case co_redis co of None \<Rightarrow> empty
          | Some _ \<Rightarrow> and_then (or_plain
            (and_then (get_latencies co (t - of_int window) t) (\<lambda>ls.
             and_then (get_request_counters co) (\<lambda>counters.
             and_then (get_violations_count co (t - of_int window) t) (\<lambda>violations.
             and_then (get_maci_violations_count co (t - of_int window) t) (\<lambda>maci.
             and_then (get_deliberation_metrics co) (\<lambda>(_, success).
             and_then (snapshot_act
               (measured_snapshot t version window ls (compute_percentiles co ls) counters violations maci success)) (\<lambda>g.
             and_then (store_snapshot co g) (\<lambda>_. return_act (Some g))))))))) None)
            (\<lambda>found. case found of None \<Rightarrow> empty | Some g \<Rightarrow> return_act g))"

definition compare_snapshots ::
  "'w collector \<Rightarrow> metrics_snapshot \<Rightarrow> metrics_snapshot option \<Rightarrow> ('w, metrics_comparison) act" where
  "compare_snapshots co b c =
     and_then (case c of Some g \<Rightarrow> return_act g | None \<Rightarrow> collect_snapshot co (gs_constitutional_version b) None)
       (\<lambda>g. return_act (make_comparison b g))"

definition baseline_key :: "string \<Rightarrow> string" where
  "baseline_key version = ''governance:metrics:baseline:'' @ version"

definition get_baseline_snapshot :: "'w collector \<Rightarrow> string \<Rightarrow> ('w, metrics_snapshot option) act" where
  "get_baseline_snapshot co version =
     with_metrics co None (\<lambda>r. and_then (mr_get r (baseline_key version)) (\<lambda>data. case data of
       None \<Rightarrow> return_act None
     | Some j \<Rightarrow> (case snapshot_of_document j of
         None \<Rightarrow> raise_act (Op ''validation error for GovernanceMetricsSnapshot'') | Some g \<Rightarrow> return_act (Some g))))"

definition store_baseline_snapshot :: "'w collector \<Rightarrow> metrics_snapshot \<Rightarrow> string \<Rightarrow> ('w, unit) act" where
  "store_baseline_snapshot co g version =
     with_metrics co () (\<lambda>r. mr_set r (baseline_key version) (snapshot_document g)
       (86400 * co_snapshot_retention_hours co div 24))"

end
