(* ===== verification/Degradation_Detector.thy ===== *)
theory Degradation_Detector
  imports Governance_Metrics
begin

text \<open>
  \<^verbatim>\<open>src/constitutional/degradation_detector.py\<close>. The chi-square test of SciPy is an argument: \<open>None\<close> where
  the library is not available, otherwise a function of the contingency table that answers the statistic,
  the p-value and the degrees of freedom, or \<open>None\<close> where it raises one of the listed errors. The text of a
  metric in the summary is an argument too.
\<close>

datatype time_window = ONE_HOUR | SIX_HOURS | TWELVE_HOURS | TWENTY_FOUR_HOURS

fun time_window_value :: "time_window \<Rightarrow> string" where
  "time_window_value ONE_HOUR = ''1h''"
| "time_window_value SIX_HOURS = ''6h''"
| "time_window_value TWELVE_HOURS = ''12h''"
| "time_window_value TWENTY_FOUR_HOURS = ''24h''"

definition time_windows :: "time_window list" where
  "time_windows = [ONE_HOUR, SIX_HOURS, TWELVE_HOURS, TWENTY_FOUR_HOURS]"

fun to_seconds :: "time_window \<Rightarrow> int" where
  "to_seconds ONE_HOUR = 3600"
| "to_seconds SIX_HOURS = 21600"
| "to_seconds TWELVE_HOURS = 43200"
| "to_seconds TWENTY_FOUR_HOURS = 86400"

datatype significance_level = SigVeryHigh | SigHigh | SigModerate | SigLow | SigNone

fun significance_value :: "significance_level \<Rightarrow> string" where
  "significance_value SigVeryHigh = ''very_high''"
| "significance_value SigHigh = ''high''"
| "significance_value SigModerate = ''moderate''"
| "significance_value SigLow = ''low''"
| "significance_value SigNone = ''none''"

definition from_p_value :: "rat \<Rightarrow> significance_level" where
  "from_p_value p =
     (if p < 1 / 1000 then SigVeryHigh else if p < 1 / 100 then SigHigh else if p < 1 / 20 then SigModerate
      else if p < 1 / 10 then SigLow else SigNone)"

datatype degradation_severity = SevCritical | SevHigh | SevModerate | SevLow | SevNone

fun degradation_value :: "degradation_severity \<Rightarrow> string" where
  "degradation_value SevCritical = ''critical''"
| "degradation_value SevHigh = ''high''"
| "degradation_value SevModerate = ''moderate''"
| "degradation_value SevLow = ''low''"
| "degradation_value SevNone = ''none''"

record statistical_test =
  tt_test_name :: string
  tt_statistic :: rat
  tt_p_value :: rat
  tt_significance_level :: significance_level
  tt_degrees_of_freedom :: "int option"
  tt_baseline_mean :: "rat option"
  tt_current_mean :: "rat option"

definition is_significant :: "statistical_test \<Rightarrow> bool" where
  "is_significant t \<longleftrightarrow> tt_p_value t < 1 / 20"

definition is_highly_significant :: "statistical_test \<Rightarrow> bool" where
  "is_highly_significant t \<longleftrightarrow> tt_p_value t < 1 / 100"

record metric_analysis =
  an_metric_name :: string
  an_baseline_value :: rat
  an_current_value :: rat
  an_delta :: rat
  an_percent_change :: rat
  an_threshold_exceeded :: bool
  an_configured_threshold :: rat
  an_statistical_test :: "statistical_test option"
  an_severity :: degradation_severity

record degradation_report =
  dr_report_id :: string
  dr_timestamp :: rat
  dr_constitutional_hash :: string
  dr_constitutional_version :: "string option"
  dr_amendment_id :: "string option"
  dr_time_window :: time_window
  dr_baseline_snapshot :: metrics_snapshot
  dr_current_snapshot :: metrics_snapshot
  dr_metric_analyses :: "metric_analysis list"
  dr_overall_severity :: degradation_severity
  dr_confidence_score :: rat
  dr_rollback_recommended :: bool
  dr_degradation_summary :: string
  dr_statistical_significance :: significance_level

definition has_degradation :: "degradation_report \<Rightarrow> bool" where
  "has_degradation r \<longleftrightarrow> dr_overall_severity r \<noteq> SevNone"

definition critical_metrics :: "degradation_report \<Rightarrow> metric_analysis list" where
  "critical_metrics r = filter (\<lambda>m. an_severity m = SevCritical) (dr_metric_analyses r)"

definition high_severity_metrics :: "degradation_report \<Rightarrow> metric_analysis list" where
  "high_severity_metrics r = filter (\<lambda>m. an_severity m \<in> {SevCritical, SevHigh}) (dr_metric_analyses r)"

record thresholds =
  th_violations_rate_threshold :: rat
  th_latency_p99_threshold_ms :: rat
  th_latency_p99_percent_threshold :: rat
  th_deliberation_success_rate_threshold :: rat
  th_maci_violations_threshold :: int
  th_error_rate_threshold :: rat
  th_health_score_threshold :: rat
  th_min_sample_size :: int
  th_significance_level :: rat

definition default_thresholds :: thresholds where
  "default_thresholds =
     \<lparr>th_violations_rate_threshold = 1 / 100, th_latency_p99_threshold_ms = 2, th_latency_p99_percent_threshold = 1 / 2,
      th_deliberation_success_rate_threshold = 1 / 20, th_maci_violations_threshold = 1, th_error_rate_threshold = 1 / 10,
      th_health_score_threshold = 15 / 100, th_min_sample_size = 30, th_significance_level = 1 / 20\<rparr>"

text \<open>The limits of the fields\<close>

definition valid_thresholds :: "thresholds \<Rightarrow> bool" where
  "valid_thresholds th \<longleftrightarrow>
     in_unit (th_violations_rate_threshold th) \<and> 0 \<le> th_latency_p99_threshold_ms th \<and>
     0 \<le> th_latency_p99_percent_threshold th \<and> in_unit (th_deliberation_success_rate_threshold th) \<and>
     0 \<le> th_maci_violations_threshold th \<and> in_unit (th_error_rate_threshold th) \<and>
     in_unit (th_health_score_threshold th) \<and> 1 \<le> th_min_sample_size th \<and> in_unit (th_significance_level th)"

type_synonym contingency = "(int \<times> int) \<times> (int \<times> int)"

record detector =
  dd_thresholds :: thresholds
  dd_chi_square :: "(contingency \<Rightarrow> (rat \<times> rat \<times> int) option) option"
  dd_metric_text :: "metric_analysis \<Rightarrow> string"

section \<open>The metrics\<close>

text \<open>\<open>int(x)\<close> of a number\<close>

definition py_trunc :: "rat \<Rightarrow> int" where
  "py_trunc x = (if 0 \<le> x then \<lfloor>x\<rfloor> else \<lceil>x\<rceil>)"

definition chi_square_test :: "detector \<Rightarrow> int \<Rightarrow> int \<Rightarrow> int \<Rightarrow> int \<Rightarrow> string \<Rightarrow> statistical_test option" where
  "chi_square_test D bs bt cs ct name =
     (case dd_chi_square D of
        None \<Rightarrow> None
      | Some chi \<Rightarrow> map_option (\<lambda>(stat, p, dof).
          \<lparr>tt_test_name = name, tt_statistic = stat, tt_p_value = p, tt_significance_level = from_p_value p,
           tt_degrees_of_freedom = Some dof, tt_baseline_mean = Some (of_int bs / of_int (max 1 bt)),
           tt_current_mean = Some (of_int cs / of_int (max 1 ct))\<rparr>) (chi ((bs, bt - bs), (cs, ct - cs))))"

definition percent_change :: "rat \<Rightarrow> rat \<Rightarrow> rat" where
  "percent_change delta base = (if 0 < base then delta / max (1 / 1000) base else 0)"

text \<open>The severity of a metric: \<open>alarming\<close> decides at once, then multiples of the threshold do.\<close>

definition graded :: "bool \<Rightarrow> bool \<Rightarrow> bool \<Rightarrow> bool \<Rightarrow> degradation_severity" where
  "graded exceeded alarming high moderate =
     (if \<not> exceeded then SevNone else if alarming then SevCritical else if high then SevHigh
      else if moderate then SevModerate else SevLow)"

definition analysis_of ::
  "string \<Rightarrow> rat \<Rightarrow> rat \<Rightarrow> rat \<Rightarrow> bool \<Rightarrow> rat \<Rightarrow> statistical_test option \<Rightarrow> degradation_severity \<Rightarrow> metric_analysis" where
  "analysis_of name b c change exceeded threshold test severity =
     \<lparr>an_metric_name = name, an_baseline_value = b, an_current_value = c, an_delta = c - b, an_percent_change = change,
      an_threshold_exceeded = exceeded, an_configured_threshold = threshold, an_statistical_test = test,
      an_severity = severity\<rparr>"

definition analyze_violations_rate :: "detector \<Rightarrow> metrics_snapshot \<Rightarrow> metrics_snapshot \<Rightarrow> metric_analysis" where
  "analyze_violations_rate D b c =
     (let th = th_violations_rate_threshold (dd_thresholds D);
          delta = gs_violations_rate c - gs_violations_rate b; exceeded = th < delta;
          test = (if th_min_sample_size (dd_thresholds D) \<le> gs_total_requests b
                  then chi_square_test D
                    (gs_total_requests b - py_trunc (gs_violations_rate b * of_int (gs_total_requests b))) (gs_total_requests b)
                    (gs_total_requests c - py_trunc (gs_violations_rate c * of_int (gs_total_requests c))) (gs_total_requests c)
                    ''chi_square_violations_rate''
                  else None)
      in analysis_of ''violations_rate'' (gs_violations_rate b) (gs_violations_rate c)
           (percent_change delta (gs_violations_rate b)) exceeded th test
           (graded exceeded (th * 5 < delta) (th * 3 < delta) (th * 2 < delta)))"

definition analyze_latency_p99 :: "detector \<Rightarrow> metrics_snapshot \<Rightarrow> metrics_snapshot \<Rightarrow> metric_analysis" where
  "analyze_latency_p99 D b c =
     (let th = th_latency_p99_threshold_ms (dd_thresholds D);
          delta = gs_latency_p99 c - gs_latency_p99 b; change = percent_change delta (gs_latency_p99 b);
          exceeded = (th < delta \<or> th_latency_p99_percent_threshold (dd_thresholds D) < change)
      in analysis_of ''latency_p99'' (gs_latency_p99 b) (gs_latency_p99 c) change exceeded th None
           (graded exceeded (10 < gs_latency_p99 c) (th * 3 < delta) (th * 2 < delta)))"

definition analyze_deliberation_success_rate :: "detector \<Rightarrow> metrics_snapshot \<Rightarrow> metrics_snapshot \<Rightarrow> metric_analysis" where
  "analyze_deliberation_success_rate D b c =
     (let th = th_deliberation_success_rate_threshold (dd_thresholds D);
          delta = gs_deliberation_success_rate c - gs_deliberation_success_rate b; exceeded = delta < - th;
          bt = max (gs_escalated_requests b) 1; ct = max (gs_escalated_requests c) 1;
          test = (if th_min_sample_size (dd_thresholds D) \<le> bt
                  then chi_square_test D (py_trunc (gs_deliberation_success_rate b * of_int bt)) bt
                    (py_trunc (gs_deliberation_success_rate c * of_int ct)) ct ''chi_square_deliberation_success''
                  else None)
      in analysis_of ''deliberation_success_rate'' (gs_deliberation_success_rate b) (gs_deliberation_success_rate c)
           (percent_change delta (gs_deliberation_success_rate b)) exceeded th test
           (graded exceeded (gs_deliberation_success_rate c < 85 / 100) (th * 3 < \<bar>delta\<bar>) (th * 2 < \<bar>delta\<bar>)))"

definition analyze_maci_violations :: "detector \<Rightarrow> metrics_snapshot \<Rightarrow> metrics_snapshot \<Rightarrow> metric_analysis" where
  "analyze_maci_violations D b c =
     (let th = th_maci_violations_threshold (dd_thresholds D);
          delta = gs_maci_violations_count c - gs_maci_violations_count b; exceeded = th < delta
      in analysis_of ''maci_violations_count'' (of_int (gs_maci_violations_count b)) (of_int (gs_maci_violations_count c))
           (if 0 < gs_maci_violations_count b then of_int delta / of_int (max 1 (gs_maci_violations_count b)) else 0)
           exceeded (of_int th) None (graded exceeded (10 < delta) (5 < delta) (2 < delta)))"

definition analyze_error_rate :: "detector \<Rightarrow> metrics_snapshot \<Rightarrow> metrics_snapshot \<Rightarrow> metric_analysis" where
  "analyze_error_rate D b c =
     (let th = th_error_rate_threshold (dd_thresholds D);
          delta = gs_error_rate c - gs_error_rate b; exceeded = th < delta
      in analysis_of ''error_rate'' (gs_error_rate b) (gs_error_rate c) (percent_change delta (gs_error_rate b))
           exceeded th None (graded exceeded (3 / 10 < gs_error_rate c) (th * 3 < delta) (th * 2 < delta)))"

definition analyze_health_score :: "detector \<Rightarrow> metrics_snapshot \<Rightarrow> metrics_snapshot \<Rightarrow> metric_analysis" where
  "analyze_health_score D b c =
     (let th = th_health_score_threshold (dd_thresholds D);
          delta = health_score c - health_score b; exceeded = delta < - th
      in analysis_of ''health_score'' (health_score b) (health_score c) (percent_change delta (health_score b))
           exceeded th None (graded exceeded (health_score c < 6 / 10) (th * 3 < \<bar>delta\<bar>) (th * 2 < \<bar>delta\<bar>)))"

section \<open>The report\<close>

definition metric_analyses :: "detector \<Rightarrow> metrics_snapshot \<Rightarrow> metrics_snapshot \<Rightarrow> metric_analysis list" where
  "metric_analyses D b c =
     [analyze_violations_rate D b c, analyze_latency_p99 D b c, analyze_deliberation_success_rate D b c,
      analyze_maci_violations D b c, analyze_error_rate D b c, analyze_health_score D b c]"

definition count_severity :: "degradation_severity \<Rightarrow> metric_analysis list \<Rightarrow> nat" where
  "count_severity v ms = length (filter (\<lambda>m. an_severity m = v) ms)"

definition determine_overall_severity :: "metric_analysis list \<Rightarrow> degradation_severity" where
  "determine_overall_severity ms =
     (let found = (\<lambda>v. \<exists>m \<in> set ms. an_severity m = v)
      in if found SevCritical then SevCritical
         else if 2 \<le> count_severity SevHigh ms then SevCritical
         else if found SevHigh then SevHigh
         else if 3 \<le> count_severity SevModerate ms then SevHigh
         else if 2 \<le> count_severity SevModerate ms then SevModerate
         else if found SevModerate then SevModerate
         else if found SevLow then SevLow
         else SevNone)"

definition tests_of :: "metric_analysis list \<Rightarrow> statistical_test list" where
  "tests_of ms = List.map_filter an_statistical_test ms"

definition compute_confidence_score :: "metric_analysis list \<Rightarrow> metrics_snapshot \<Rightarrow> rat" where
  "compute_confidence_score ms b =
     (let sample = min (4 / 10) (of_int (gs_total_requests b) / 1000 * (4 / 10));
          significant = length (filter is_significant (tests_of ms)); total = length (tests_of ms);
          significance = (if 0 < total then of_nat significant / of_nat (max 1 total) * (3 / 10) else 0);
          degraded = length (filter an_threshold_exceeded ms);
          consistency = of_nat degraded / of_nat (length ms) * (3 / 10)
      in min 1 (sample + significance + consistency))"

definition determine_statistical_significance :: "metric_analysis list \<Rightarrow> significance_level" where
  "determine_statistical_significance ms =
     (case map tt_p_value (tests_of ms) of [] \<Rightarrow> SigNone | p # ps \<Rightarrow> from_p_value (foldl min p ps))"

fun join_spaces :: "string list \<Rightarrow> string" where
  "join_spaces [] = []"
| "join_spaces [s] = s"
| "join_spaces (s # ss) = s @ '' '' @ join_spaces ss"

definition generate_summary :: "detector \<Rightarrow> metric_analysis list \<Rightarrow> degradation_severity \<Rightarrow> string" where
  "generate_summary D ms overall =
     (if overall = SevNone
      then ''No significant governance degradation detected. All metrics within acceptable thresholds.''
      else let degraded = filter an_threshold_exceeded ms
           in join_spaces ([''Governance degradation detected (severity: '' @ degradation_value overall @ '').'',
                nat_text (length degraded) @ '' metric(s) exceeded thresholds:''] @ map (dd_metric_text D) degraded))"

definition should_recommend_rollback :: "degradation_severity \<Rightarrow> rat \<Rightarrow> significance_level \<Rightarrow> bool" where
  "should_recommend_rollback overall confidence significance \<longleftrightarrow>
     overall = SevCritical \<or>
     overall = SevHigh \<and> 7 / 10 < confidence \<and> significance \<in> {SigVeryHigh, SigHigh}"

definition report_of ::
  "detector \<Rightarrow> string \<Rightarrow> rat \<Rightarrow> metrics_snapshot \<Rightarrow> metrics_snapshot \<Rightarrow> time_window \<Rightarrow> string option \<Rightarrow> degradation_report" where
  "report_of D rid t b c window amendment_id =
     (let ms = metric_analyses D b c; overall = determine_overall_severity ms;
          confidence = compute_confidence_score ms b; significance = determine_statistical_significance ms
      in \<lparr>dr_report_id = rid, dr_timestamp = t, dr_constitutional_hash = CONSTITUTIONAL_HASH,
          dr_constitutional_version = gs_constitutional_version b, dr_amendment_id = amendment_id, dr_time_window = window,
          dr_baseline_snapshot = b, dr_current_snapshot = c, dr_metric_analyses = ms, dr_overall_severity = overall,
          dr_confidence_score = confidence,
          dr_rollback_recommended = should_recommend_rollback overall confidence significance,
          dr_degradation_summary = generate_summary D ms overall, dr_statistical_significance = significance\<rparr>)"

definition analyze_degradation ::
  "detector \<Rightarrow> 'w collector \<Rightarrow> metrics_snapshot \<Rightarrow> metrics_snapshot option \<Rightarrow> time_window \<Rightarrow> string option \<Rightarrow>
   ('w, degradation_report) act" where
  "analyze_degradation D co b c window amendment_id =
     and_then (case c of Some g \<Rightarrow> return_act g
               | None \<Rightarrow> collect_snapshot co (gs_constitutional_version b) (Some (to_seconds window))) (\<lambda>g.
     and_then (clock_act (co_clock co)) (\<lambda>t.
     return_act (report_of D (''degradation-'' @ co_float_text co t) t b g window amendment_id)))"

fun analyze_windows ::
  "detector \<Rightarrow> 'w collector \<Rightarrow> metrics_snapshot \<Rightarrow> string option \<Rightarrow> time_window list \<Rightarrow> ('w, degradation_report list) act" where
  "analyze_windows D co b amendment_id [] = return_act []"
| "analyze_windows D co b amendment_id (v # vs) =
     and_then (analyze_degradation D co b None v amendment_id) (\<lambda>r.
     and_then (analyze_windows D co b amendment_id vs) (\<lambda>rs. return_act (r # rs)))"

definition analyze_multi_window ::
  "detector \<Rightarrow> 'w collector \<Rightarrow> metrics_snapshot \<Rightarrow> string option \<Rightarrow> time_window list option \<Rightarrow>
   ('w, degradation_report list) act" where
  "analyze_multi_window D co b amendment_id windows =
     analyze_windows D co b amendment_id
       (case windows of None \<Rightarrow> [ONE_HOUR, SIX_HOURS, TWENTY_FOUR_HOURS] | Some vs \<Rightarrow> vs)"

section \<open>The dumped report\<close>

definition jnum_opt :: "rat option \<Rightarrow> json" where
  "jnum_opt x = (case x of None \<Rightarrow> JNull | Some r \<Rightarrow> JNum r)"

definition test_document :: "statistical_test \<Rightarrow> json" where
  "test_document t = JObj
     [(''test_name'', JStr (tt_test_name t)), (''statistic'', JNum (tt_statistic t)), (''p_value'', JNum (tt_p_value t)),
      (''significance_level'', JStr (significance_value (tt_significance_level t))),
      (''degrees_of_freedom'', case tt_degrees_of_freedom t of None \<Rightarrow> JNull | Some n \<Rightarrow> JInt n),
      (''baseline_mean'', jnum_opt (tt_baseline_mean t)), (''current_mean'', jnum_opt (tt_current_mean t))]"

definition analysis_document :: "metric_analysis \<Rightarrow> json" where
  "analysis_document m = JObj
     [(''metric_name'', JStr (an_metric_name m)), (''baseline_value'', JNum (an_baseline_value m)),
      (''current_value'', JNum (an_current_value m)), (''delta'', JNum (an_delta m)),
      (''percent_change'', JNum (an_percent_change m)), (''threshold_exceeded'', JBool (an_threshold_exceeded m)),
      (''configured_threshold'', JNum (an_configured_threshold m)),
      (''statistical_test'', case an_statistical_test m of None \<Rightarrow> JNull | Some t \<Rightarrow> test_document t),
      (''severity'', JStr (degradation_value (an_severity m)))]"

definition report_document :: "degradation_report \<Rightarrow> json" where
  "report_document r = JObj
     [(''report_id'', JStr (dr_report_id r)), (''timestamp'', JTime (dr_timestamp r)),
      (''constitutional_hash'', JStr (dr_constitutional_hash r)),
      (''constitutional_version'', jstr_option (dr_constitutional_version r)),
      (''amendment_id'', jstr_option (dr_amendment_id r)), (''time_window'', JStr (time_window_value (dr_time_window r))),
      (''baseline_snapshot'', snapshot_document (dr_baseline_snapshot r)),
      (''current_snapshot'', snapshot_document (dr_current_snapshot r)),
      (''metric_analyses'', JList (map analysis_document (dr_metric_analyses r))),
      (''overall_severity'', JStr (degradation_value (dr_overall_severity r))),
      (''confidence_score'', JNum (dr_confidence_score r)), (''rollback_recommended'', JBool (dr_rollback_recommended r)),
      (''degradation_summary'', JStr (dr_degradation_summary r)),
      (''statistical_significance'', JStr (significance_value (dr_statistical_significance r)))]"

end
