(* ===== verification/Rollback_Engine.thy ===== *)
theory Rollback_Engine
  imports Degradation_Detector Activation_Saga
begin

text \<open>
  \<^verbatim>\<open>src/constitutional/rollback_engine.py\<close>: the saga that rolls the constitution back to the predecessor of its
  current version, over the storage of the facade, the collector and the detector of degradation, the
  policy agent, Redis, the audit service and the channels of the notifications, each \<open>None\<close> where it is
  not connected. A \<open>RollbackEngineError\<close> is an \<open>ACGSBaseError\<close>, which the saga does not catch: \<open>Foreign\<close>.
  Connecting and closing the clients is left out.
\<close>

record rollback_trigger_config =
  rt_enable_automatic_rollback :: bool
  rt_monitoring_interval_seconds :: int
  rt_monitoring_windows :: "time_window list"
  rt_require_hitl_approval_for_critical :: bool
  rt_auto_approve_high_confidence :: bool
  rt_min_confidence_for_auto_rollback :: rat

definition default_trigger_config :: "time_window list option \<Rightarrow> rollback_trigger_config" where
  "default_trigger_config windows =
     \<lparr>rt_enable_automatic_rollback = True, rt_monitoring_interval_seconds = 300,
      rt_monitoring_windows = (case windows of None \<Rightarrow> [ONE_HOUR, SIX_HOURS]
                                 | Some vs \<Rightarrow> if vs = [] then [ONE_HOUR, SIX_HOURS] else vs),
      rt_require_hitl_approval_for_critical = True, rt_auto_approve_high_confidence = True,
      rt_min_confidence_for_auto_rollback = 7 / 10\<rparr>"

text \<open>The two notifications of the integration, each with the keywords it is called with\<close>

record 'w hitl_channels =
  hc_slack :: "json \<Rightarrow> ('w, unit) act"
  hc_pagerduty :: "json \<Rightarrow> ('w, unit) act"

record 'w rollback_activities =
  ra_storage :: "'w storage_api"
  ra_collector :: "'w collector"
  ra_detector :: detector
  ra_opa_url :: string
  ra_http :: "(json \<Rightarrow> ('w, nat) act) option"
  ra_redis :: "(string \<Rightarrow> ('w, unit) act) option"
  ra_audit :: "(string \<Rightarrow> json \<Rightarrow> ('w, unit) act) option"
  ra_hitl :: "'w hitl_channels option"
  ra_uuid :: "'w \<Rightarrow> 'w \<times> string"
  ra_clock :: "'w \<Rightarrow> rat"

definition new_uuid :: "'w rollback_activities \<Rightarrow> ('w, string) act" where
  "new_uuid ra w = (case ra_uuid ra w of (w', u) \<Rightarrow> (w', Inr u))"

definition json_or :: "json_dict \<Rightarrow> string \<Rightarrow> json \<Rightarrow> json" where
  "json_or ctx k x = dget_default ctx k x"

text \<open>\<open>ctx.get(step, {}).get(k, x)\<close>\<close>

definition field_or :: "json_dict \<Rightarrow> string \<Rightarrow> string \<Rightarrow> json \<Rightarrow> json" where
  "field_or ctx step k x =
     (case dget_default ctx step (JObj []) of JObj d \<Rightarrow> dget_default d k x | _ \<Rightarrow> x)"

definition current_version_of :: "json_dict \<Rightarrow> string" where
  "current_version_of ctx = json_str_or_empty (dget_default ctx ''current_version_id'' JNull)"

definition amendment_option :: "json_dict \<Rightarrow> string option" where
  "amendment_option ctx = (case dget ctx ''amendment_id'' of Some (JStr s) \<Rightarrow> Some s | _ \<Rightarrow> None)"

text \<open>A window that is no member of the enumeration has no \<open>to_seconds\<close>: an \<open>AttributeError\<close>,
  which the saga lists.\<close>

definition window_of :: "json_dict \<Rightarrow> time_window option" where
  "window_of ctx =
     (case dget ctx ''time_window'' of
        None \<Rightarrow> Some ONE_HOUR
      | Some (JStr s) \<Rightarrow> enum_of time_window_value time_windows s
      | Some _ \<Rightarrow> None)"

section \<open>Step 1: the degradation\<close>

definition collect_degradation_snapshots ::
  "'w rollback_activities \<Rightarrow> string \<Rightarrow> time_window \<Rightarrow> ('w, metrics_snapshot \<times> metrics_snapshot) act" where
  "collect_degradation_snapshots ra vid window =
     (let co = ra_collector ra; collect = collect_snapshot co (Some vid) (Some (to_seconds window))
      in and_then (get_baseline_snapshot co vid) (\<lambda>stored.
         and_then (case stored of Some g \<Rightarrow> return_act g | None \<Rightarrow> collect) (\<lambda>b.
         and_then collect (\<lambda>c. return_act (b, c)))))"

definition detect_degradation :: "'w rollback_activities \<Rightarrow> step_input \<Rightarrow> ('w, json) act" where
  "detect_degradation ra i =
     (case window_of (si_context i) of
        None \<Rightarrow> raise_act (Op ''object has no attribute to_seconds'')
      | Some window \<Rightarrow>
          and_then (collect_degradation_snapshots ra (current_version_of (si_context i)) window) (\<lambda>(b, c).
          and_then (analyze_degradation (ra_detector ra) (ra_collector ra) b (Some c) window
            (amendment_option (si_context i))) (\<lambda>report.
          and_then (new_uuid ra) (\<lambda>u. and_then (clock_act (ra_clock ra)) (\<lambda>t. return_act (JObj
            [(''detection_id'', JStr u), (''report_id'', JStr (dr_report_id report)),
             (''severity'', JStr (degradation_value (dr_overall_severity report))),
             (''confidence_score'', JNum (dr_confidence_score report)),
             (''rollback_recommended'', JBool (dr_rollback_recommended report)),
             (''degradation_summary'', JStr (dr_degradation_summary report)),
             (''has_degradation'', JBool (has_degradation report)),
             (''critical_metrics'', JList (map (\<lambda>m. JStr (an_metric_name m)) (critical_metrics report))),
             (''report'', report_document report), (''timestamp'', JTime t)]))))))"

definition log_detection_failure :: "'w rollback_activities \<Rightarrow> compensation_input \<Rightarrow> ('w, bool) act" where
  "log_detection_failure ra i = return_act True"

section \<open>Step 2: the versions\<close>

record prepared_versions =
  pv_current_version_id :: string
  pv_current_version :: string
  pv_target_version_id :: string
  pv_target_version :: string
  pv_target_hash :: string
  pv_amendment_id :: "string option"

definition resolve_rollback_versions ::
  "'w rollback_activities \<Rightarrow> string \<Rightarrow> string option \<Rightarrow> ('w, prepared_versions) act" where
  "resolve_rollback_versions ra vid amendment_id =
     (let so = ra_storage ra
      in and_then (so_get_version so vid) (\<lambda>found. case found of
           None \<Rightarrow> raise_act (Foreign ''Current version not found'')
         | Some current \<Rightarrow>
             if \<not> truthy_str (cv_predecessor_version current)
             then raise_act (Foreign ''Current version has no predecessor, cannot rollback'')
             else and_then (so_get_version so (the (cv_predecessor_version current))) (\<lambda>before. case before of
               None \<Rightarrow> raise_act (Foreign ''Predecessor version not found'')
             | Some target \<Rightarrow>
                 and_then (if truthy_str amendment_id
                           then and_then (so_get_amendment so (the amendment_id)) (\<lambda>_. return_act ())
                           else return_act ()) (\<lambda>_. return_act
                   \<lparr>pv_current_version_id = cv_version_id current, pv_current_version = cv_version current,
                    pv_target_version_id = cv_version_id target, pv_target_version = cv_version target,
                    pv_target_hash = cv_constitutional_hash target, pv_amendment_id = amendment_id\<rparr>))))"

definition prepare_rollback :: "'w rollback_activities \<Rightarrow> step_input \<Rightarrow> ('w, json) act" where
  "prepare_rollback ra i =
     and_then (resolve_rollback_versions ra (current_version_of (si_context i)) (amendment_option (si_context i))) (\<lambda>v.
     and_then (new_uuid ra) (\<lambda>u. and_then (clock_act (ra_clock ra)) (\<lambda>t. return_act (JObj
       [(''preparation_id'', JStr u), (''current_version_id'', JStr (pv_current_version_id v)),
        (''current_version'', JStr (pv_current_version v)), (''target_version_id'', JStr (pv_target_version_id v)),
        (''target_version'', JStr (pv_target_version v)), (''target_hash'', JStr (pv_target_hash v)),
        (''amendment_id'', jstr_option (pv_amendment_id v)), (''is_valid'', JBool True), (''timestamp'', JTime t)]))))"

definition cancel_preparation :: "'w rollback_activities \<Rightarrow> compensation_input \<Rightarrow> ('w, bool) act" where
  "cancel_preparation ra i = return_act True"

section \<open>Step 3: the notifications\<close>

definition notified :: "('w, unit) act \<Rightarrow> string \<Rightarrow> ('w, string list) act" where
  "notified send name = or_plain (and_then send (\<lambda>_. return_act [name])) []"

definition send_hitl_notifications ::
  "'w rollback_activities \<Rightarrow> string \<Rightarrow> json \<Rightarrow> json_dict \<Rightarrow> ('w, string list) act" where
  "send_hitl_notifications ra saga_id severity ctx =
     (if severity \<noteq> JStr ''critical'' \<and> severity \<noteq> JStr ''high'' then return_act []
      else case ra_hitl ra of
        None \<Rightarrow> return_act []
      | Some h \<Rightarrow>
          and_then (notified (hc_slack h (JObj
            [(''title'', JList [JStr ''Constitutional Rollback'', severity]),
             (''message'', JList [field_or ctx ''prepare_rollback'' ''current_version'' JNull,
                json_or ctx ''rollback_reason'' (JStr ''automatic_degradation''), severity,
                field_or ctx ''prepare_rollback'' ''target_version'' JNull,
                field_or ctx ''detect_degradation'' ''degradation_summary'' (JStr ''N/A'')]),
             (''priority'', JStr ''critical''),
             (''action_url'', JStr (''#/constitutional/rollback/'' @ saga_id))])) ''slack'') (\<lambda>sent.
          if severity \<noteq> JStr ''critical'' then return_act sent
          else and_then (notified (hc_pagerduty h (JObj
            [(''title'', JStr ''Critical Constitutional Rollback''),
             (''message'', JList [JStr ''Automatic rollback from'', field_or ctx ''prepare_rollback'' ''current_version'' JNull]),
             (''severity'', JStr ''critical'')])) ''pagerduty'') (\<lambda>more. return_act (sent @ more))))"

definition notify_hitl :: "'w rollback_activities \<Rightarrow> step_input \<Rightarrow> ('w, json) act" where
  "notify_hitl ra i =
     (let ctx = si_context i; severity = field_or ctx ''detect_degradation'' ''severity'' (JStr ''unknown'')
      in and_then (new_uuid ra) (\<lambda>u.
         and_then (send_hitl_notifications ra (si_saga_id i) severity ctx) (\<lambda>sent.
         and_then (clock_act (ra_clock ra)) (\<lambda>t. return_act (JObj
           [(''notification_id'', JStr u), (''notifications_sent'', JList (map JStr sent)), (''severity'', severity),
            (''rollback_reason'', json_or ctx ''rollback_reason'' (JStr ''automatic_degradation'')),
            (''timestamp'', JTime t)])))))"

definition cancel_hitl_notification :: "'w rollback_activities \<Rightarrow> compensation_input \<Rightarrow> ('w, bool) act" where
  "cancel_hitl_notification ra i = return_act True"

section \<open>Step 4: the policy agent\<close>

definition put_hash :: "'w rollback_activities \<Rightarrow> json \<Rightarrow> json \<Rightarrow> ('w, nat option) act" where
  "put_hash ra h v =
     (case ra_http ra of
        None \<Rightarrow> return_act None
      | Some put \<Rightarrow> and_then (put (JObj [(''hash'', h), (''version'', v)])) (\<lambda>code. return_act (Some code)))"

definition update_opa_to_previous :: "'w rollback_activities \<Rightarrow> step_input \<Rightarrow> ('w, json) act" where
  "update_opa_to_previous ra i =
     (let ctx = si_context i; h = field_or ctx ''prepare_rollback'' ''target_hash'' (JStr CONSTITUTIONAL_HASH);
          v = field_or ctx ''prepare_rollback'' ''target_version'' (JStr ''unknown'')
      in and_then (new_uuid ra) (\<lambda>u.
         and_then (or_plain (put_hash ra h v) None) (\<lambda>_.
         and_then (clock_act (ra_clock ra)) (\<lambda>t. return_act (JObj
           [(''policy_update_id'', JStr u), (''opa_url'', JStr (ra_opa_url ra)), (''previous_hash'', h),
            (''previous_version'', v), (''updated'', JBool True), (''timestamp'', JTime t)])))))"

definition revert_opa_to_current :: "'w rollback_activities \<Rightarrow> compensation_input \<Rightarrow> ('w, bool) act" where
  "revert_opa_to_current ra i =
     or_plain (and_then (put_hash ra (JStr CONSTITUTIONAL_HASH)
         (field_or (ci_context i) ''prepare_rollback'' ''current_version'' (JStr ''unknown'')))
       (\<lambda>code. return_act (case code of None \<Rightarrow> True | Some c \<Rightarrow> c \<in> {200, 204}))) False"

section \<open>Step 5: the version\<close>

text \<open>The answers of \<open>activate_version\<close> and \<open>save_amendment\<close> are not looked at.\<close>

definition mark_amendment_rolled_back ::
  "'w rollback_activities \<Rightarrow> string option \<Rightarrow> string \<Rightarrow> ('w, bool) act" where
  "mark_amendment_rolled_back ra amendment_id saga_id =
     (if \<not> truthy_str amendment_id then return_act False
      else and_then (so_get_amendment (ra_storage ra) (the amendment_id)) (\<lambda>found. case found of
        None \<Rightarrow> return_act False
      | Some a \<Rightarrow> and_then (clock_act (ra_clock ra)) (\<lambda>t.
          and_then (so_save_amendment (ra_storage ra) (a\<lparr>am_status := AM_ROLLED_BACK,
            am_metadata := dset ''rollback_saga_id'' (JStr saga_id) (dset ''rolled_back_at'' (JTime t) (am_metadata a))\<rparr>))
          (\<lambda>_. return_act True))))"

definition restore_previous_version :: "'w rollback_activities \<Rightarrow> step_input \<Rightarrow> ('w, json) act" where
  "restore_previous_version ra i =
     (let ctx = si_context i; target = field_or ctx ''prepare_rollback'' ''target_version_id'' JNull
      in and_then (clock_act (ra_clock ra)) (\<lambda>t.
         and_then (so_activate_version (ra_storage ra) t (json_str_or_empty target)) (\<lambda>_.
         and_then (mark_amendment_rolled_back ra (amendment_option ctx) (si_saga_id i)) (\<lambda>marked.
         and_then (new_uuid ra) (\<lambda>u. and_then (clock_act (ra_clock ra)) (\<lambda>t'. return_act (JObj
           [(''restoration_id'', JStr u), (''restored_version_id'', target),
            (''restored_version'', field_or ctx ''prepare_rollback'' ''target_version'' JNull),
            (''previous_version_id'', field_or ctx ''prepare_rollback'' ''current_version_id'' JNull),
            (''amendment_rolled_back'', JBool marked), (''restored'', JBool True), (''timestamp'', JTime t')])))))))"

definition revert_version_restoration :: "'w rollback_activities \<Rightarrow> compensation_input \<Rightarrow> ('w, bool) act" where
  "revert_version_restoration ra i =
     or_plain (and_then (clock_act (ra_clock ra)) (\<lambda>t.
       and_then (so_activate_version (ra_storage ra) t
         (json_str_or_empty (field_or (ci_context i) ''prepare_rollback'' ''current_version_id'' JNull)))
       (\<lambda>_. return_act True))) False"

section \<open>Step 6: the cache\<close>

definition delete_active_key :: "'w rollback_activities \<Rightarrow> bool \<Rightarrow> ('w, bool) act" where
  "delete_active_key ra absent =
     (case ra_redis ra of
        None \<Rightarrow> return_act absent
      | Some delete \<Rightarrow> or_plain (and_then (delete ''constitutional:active_version'') (\<lambda>_. return_act True)) False)"

definition invalidate_cache :: "'w rollback_activities \<Rightarrow> step_input \<Rightarrow> ('w, json) act" where
  "invalidate_cache ra i =
     and_then (delete_active_key ra False) (\<lambda>invalidated.
     and_then (new_uuid ra) (\<lambda>u. and_then (clock_act (ra_clock ra)) (\<lambda>t. return_act (JObj
       [(''cache_invalidation_id'', JStr u), (''cache_invalidated'', JBool invalidated), (''timestamp'', JTime t)]))))"

definition restore_cache :: "'w rollback_activities \<Rightarrow> compensation_input \<Rightarrow> ('w, bool) act" where
  "restore_cache ra i = delete_active_key ra True"

section \<open>Step 7: the audit\<close>

definition build_rollback_audit_event :: "string \<Rightarrow> rat \<Rightarrow> string \<Rightarrow> json_dict \<Rightarrow> json" where
  "build_rollback_audit_event u t saga_id ctx = JObj
     [(''audit_id'', JStr u), (''event_type'', JStr ''constitutional_version_rolled_back''), (''saga_id'', JStr saga_id),
      (''rollback_reason'', json_or ctx ''rollback_reason'' (JStr ''automatic_degradation'')),
      (''amendment_id'', json_or ctx ''amendment_id'' JNull),
      (''previous_version'', field_or ctx ''prepare_rollback'' ''current_version'' JNull),
      (''previous_version_id'', field_or ctx ''prepare_rollback'' ''current_version_id'' JNull),
      (''restored_version'', field_or ctx ''restore_previous_version'' ''restored_version'' JNull),
      (''restored_version_id'', field_or ctx ''restore_previous_version'' ''restored_version_id'' JNull),
      (''constitutional_hash'', JStr CONSTITUTIONAL_HASH),
      (''degradation_report'', field_or ctx ''detect_degradation'' ''report'' JNull),
      (''severity'', field_or ctx ''detect_degradation'' ''severity'' JNull),
      (''confidence_score'', field_or ctx ''detect_degradation'' ''confidence_score'' JNull),
      (''degradation_summary'', field_or ctx ''detect_degradation'' ''degradation_summary'' JNull),
      (''critical_metrics'', field_or ctx ''detect_degradation'' ''critical_metrics'' (JList [])),
      (''notifications_sent'', field_or ctx ''notify_hitl'' ''notifications_sent'' (JList [])),
      (''timestamp'', JTime t),
      (''metadata'', JObj
         [(''detection'', json_or ctx ''detect_degradation'' (JObj [])),
          (''preparation'', json_or ctx ''prepare_rollback'' (JObj [])),
          (''restoration'', json_or ctx ''restore_previous_version'' (JObj [])),
          (''notification'', json_or ctx ''notify_hitl'' (JObj []))])]"

definition log_audit :: "'w rollback_activities \<Rightarrow> string \<Rightarrow> json \<Rightarrow> ('w, unit) act" where
  "log_audit ra kind event = (case ra_audit ra of None \<Rightarrow> return_act () | Some emit \<Rightarrow> or_plain (emit kind event) ())"

definition audit_rollback :: "'w rollback_activities \<Rightarrow> step_input \<Rightarrow> ('w, json) act" where
  "audit_rollback ra i =
     and_then (new_uuid ra) (\<lambda>u. and_then (clock_act (ra_clock ra)) (\<lambda>t.
       let event = build_rollback_audit_event u t (si_saga_id i) (si_context i)
       in and_then (log_audit ra ''constitutional_version_rolled_back'' event) (\<lambda>_. return_act event)))"

definition mark_rollback_audit_failed :: "'w rollback_activities \<Rightarrow> compensation_input \<Rightarrow> ('w, bool) act" where
  "mark_rollback_audit_failed ra i =
     and_then (clock_act (ra_clock ra)) (\<lambda>t.
     and_then (log_audit ra ''constitutional_rollback_compensated'' (JObj
       [(''event_type'', JStr ''constitutional_rollback_compensated''), (''saga_id'', JStr (ci_saga_id i)),
        (''original_audit_id'', field_or (ci_context i) ''audit_rollback'' ''audit_id'' (JStr ''unknown'')),
        (''reason'', JStr ''Rollback saga compensation triggered''), (''timestamp'', JTime t),
        (''constitutional_hash'', JStr CONSTITUTIONAL_HASH)])) (\<lambda>_. return_act True))"

section \<open>The saga\<close>

record step_spec =
  sp_name :: string
  sp_description :: string
  sp_execute_attr :: string
  sp_compensation_name :: string
  sp_compensation_description :: string
  sp_compensation_attr :: string
  sp_timeout_seconds :: nat
  sp_is_optional :: bool

text \<open>In this table the names of the step and of its activity agree, and so do those of the compensation.\<close>

definition step_spec_of :: "string \<Rightarrow> string \<Rightarrow> string \<Rightarrow> string \<Rightarrow> nat \<Rightarrow> bool \<Rightarrow> step_spec" where
  "step_spec_of name description cname cdescription timeout is_optional =
     \<lparr>sp_name = name, sp_description = description, sp_execute_attr = name, sp_compensation_name = cname,
      sp_compensation_description = cdescription, sp_compensation_attr = cname, sp_timeout_seconds = timeout,
      sp_is_optional = is_optional\<rparr>"

definition ROLLBACK_STEP_SPECS :: "step_spec list" where
  "ROLLBACK_STEP_SPECS =
     [step_spec_of ''detect_degradation'' ''Analyze governance metrics and detect degradation''
        ''log_detection_failure'' ''Log detection failure'' 60 False,
      step_spec_of ''prepare_rollback'' ''Identify target version and validate rollback''
        ''cancel_preparation'' ''Cancel rollback preparation'' 30 False,
      step_spec_of ''notify_hitl'' ''Send HITL notifications for critical rollbacks''
        ''cancel_hitl_notification'' ''Cancel HITL notification'' 30 True,
      step_spec_of ''update_opa_to_previous'' ''Update OPA policies to previous hash''
        ''revert_opa_to_current'' ''Revert OPA policies to current hash'' 60 True,
      step_spec_of ''restore_previous_version'' ''Restore previous constitutional version''
        ''revert_version_restoration'' ''Revert version restoration'' 30 False,
      step_spec_of ''invalidate_cache'' ''Invalidate Redis cache'' ''restore_cache'' ''Restore cache state'' 30 False,
      step_spec_of ''audit_rollback'' ''Log rollback to audit trail''
        ''mark_rollback_audit_failed'' ''Mark rollback audit as failed'' 30 True]"

text \<open>\<open>getattr\<close> of the activities, and the error of a name they do not have\<close>

definition activity_attr :: "'w rollback_activities \<Rightarrow> string \<Rightarrow> (step_input \<Rightarrow> ('w, json) act) option" where
  "activity_attr ra = map_of
     [(''detect_degradation'', detect_degradation ra), (''prepare_rollback'', prepare_rollback ra),
      (''notify_hitl'', notify_hitl ra), (''update_opa_to_previous'', update_opa_to_previous ra),
      (''restore_previous_version'', restore_previous_version ra), (''invalidate_cache'', invalidate_cache ra),
      (''audit_rollback'', audit_rollback ra)]"

definition compensation_attr :: "'w rollback_activities \<Rightarrow> string \<Rightarrow> (compensation_input \<Rightarrow> ('w, bool) act) option" where
  "compensation_attr ra = map_of
     [(''log_detection_failure'', log_detection_failure ra), (''cancel_preparation'', cancel_preparation ra),
      (''cancel_hitl_notification'', cancel_hitl_notification ra), (''revert_opa_to_current'', revert_opa_to_current ra),
      (''revert_version_restoration'', revert_version_restoration ra), (''restore_cache'', restore_cache ra),
      (''mark_rollback_audit_failed'', mark_rollback_audit_failed ra)]"

definition build_rollback_step :: "'w rollback_activities \<Rightarrow> step_spec \<Rightarrow> saga_exn + 'w saga_step" where
  "build_rollback_step ra sp =
     (case (activity_attr ra (sp_execute_attr sp), compensation_attr ra (sp_compensation_attr sp)) of
        (Some body, Some undo) \<Rightarrow>
          Inr (activation_step (sp_name sp) (sp_description sp) body (sp_compensation_name sp)
                 (sp_compensation_description sp) undo (sp_timeout_seconds sp) (sp_is_optional sp))
      | _ \<Rightarrow> Inl (Foreign ''Rollback step references missing activity''))"

fun add_rollback_steps :: "'w rollback_activities \<Rightarrow> step_spec list \<Rightarrow> 'w saga \<Rightarrow> saga_exn + 'w saga" where
  "add_rollback_steps ra [] s = Inr s"
| "add_rollback_steps ra (sp # sps) s =
     (case build_rollback_step ra sp of Inl e \<Rightarrow> Inl e | Inr st \<Rightarrow> add_rollback_steps ra sps (add_step st s))"

definition create_rollback_saga :: "'w rollback_activities \<Rightarrow> 'w \<Rightarrow> string \<Rightarrow> string \<Rightarrow> saga_exn + 'w saga" where
  "create_rollback_saga ra w vid tag =
     add_rollback_steps ra ROLLBACK_STEP_SPECS
       (init_saga w (''rollback-'' @ take 8 vid @ ''-'' @ take 8 tag) None ''1.0.0'')"

definition rollback_context :: "string \<Rightarrow> string \<Rightarrow> string option \<Rightarrow> string \<Rightarrow> time_window \<Rightarrow> saga_context" where
  "rollback_context saga_id vid amendment_id reason window =
     set_step_result ''time_window'' (JStr (time_window_value window))
       (set_step_result ''rollback_reason'' (JStr reason)
         (set_step_result ''amendment_id'' (jstr_option amendment_id)
           (set_step_result ''current_version_id'' (JStr vid) (saga_context saga_id))))"

definition rollback_amendment ::
  "(nat \<Rightarrow> string) \<Rightarrow> 'w rollback_activities \<Rightarrow> 'w \<Rightarrow> string \<Rightarrow> string \<Rightarrow> string option \<Rightarrow> string \<Rightarrow> time_window \<Rightarrow>
   saga_exn + 'w saga \<times> (saga_exn + saga_result)" where
  "rollback_amendment fmt ra w tag vid amendment_id reason window =
     (case create_rollback_saga ra w vid tag of
        Inl e \<Rightarrow> Inl e
      | Inr saga \<Rightarrow>
          Inr (execute_saga fmt (Some (rollback_context (sg_saga_id saga) vid amendment_id reason window)) saga))"

end
