(* ===== verification/Degradation_Properties.thy ===== *)
theory Degradation_Properties
  imports Degradation_Detector
begin

text \<open>
  The properties of the detection of degradation: what a report says of its metrics, the range of the health
  score and of the confidence, and what is read where metrics are missing or overcounted.
\<close>

section \<open>Severities\<close>

lemma graded_none [simp]: "graded x a h m = SevNone \<longleftrightarrow> \<not> x"
  by (simp add: graded_def)

lemma analysis_of_fields [simp]:
  "an_severity (analysis_of n b c p x th t v) = v" "an_threshold_exceeded (analysis_of n b c p x th t v) = x"
  "an_statistical_test (analysis_of n b c p x th t v) = t"
  by (simp_all add: analysis_of_def)








section \<open>Bounds\<close>

lemma unit_fraction: "n \<le> m \<Longrightarrow> 0 \<le> (of_nat n / of_nat m :: rat) \<and> (of_nat n / of_nat m :: rat) \<le> 1"
  by (cases "m = 0") (simp_all add: divide_le_eq)

lemma confidence_parts:
  assumes "0 \<le> gs_total_requests b"
  obtains x y z where "compute_confidence_score ms b = min 1 (x + y + z)" "0 \<le> x" "x \<le> 4 / 10" "0 \<le> y" "y \<le> 3 / 10"
    "0 \<le> z" "z \<le> 3 / 10" "filter is_significant (tests_of ms) = [] \<longrightarrow> y = 0"
proof
  let ?x = "min (4 / 10) (of_int (gs_total_requests b) / 1000 * (4 / 10)) :: rat"
  let ?s = "length (filter is_significant (tests_of ms))" and ?t = "length (tests_of ms)"
  let ?y = "if 0 < ?t then of_nat ?s / of_nat (max 1 ?t) * (3 / 10) else 0 :: rat"
  let ?z = "of_nat (length (filter an_threshold_exceeded ms)) / of_nat (length ms) * (3 / 10) :: rat"
  show "compute_confidence_score ms b = min 1 (?x + ?y + ?z)" by (simp add: compute_confidence_score_def Let_def)
  show "0 \<le> ?x" "?x \<le> 4 / 10" using assms by (simp_all add: min_def)
  have y: "0 \<le> of_nat ?s / (of_nat (max 1 ?t) :: rat) \<and> of_nat ?s / (of_nat (max 1 ?t) :: rat) \<le> 1"
    by (rule unit_fraction) (simp add: le_max_iff_disj)
  have scale: "0 \<le> x \<and> x \<le> 1 \<Longrightarrow> 0 \<le> x * (3 / 10) \<and> x * (3 / 10) \<le> 3 / 10" for x :: rat by simp
  show "0 \<le> ?y" "?y \<le> 3 / 10" using scale [OF y] by (simp_all del: of_nat_max)
  have "0 \<le> of_nat (length (filter an_threshold_exceeded ms)) / (of_nat (length ms) :: rat) \<and>
      of_nat (length (filter an_threshold_exceeded ms)) / (of_nat (length ms) :: rat) \<le> 1"
    by (rule unit_fraction) simp
  then show "0 \<le> ?z" "?z \<le> 3 / 10" by auto
  show "filter is_significant (tests_of ms) = [] \<longrightarrow> ?y = 0" by simp
qed

text \<open>The confidence of a report lies between 0 and 1. Without a significant test - in particular without the
  statistics library - it is at most 0.7, so that then no severity short of CRITICAL ever leads to a
  recommendation.\<close>

theorem confidence_bounds:
  assumes "valid_snapshot b" and "r = report_of D rid t b c window aid"
  shows "in_unit (dr_confidence_score r) \<and>
    (filter is_significant (tests_of (dr_metric_analyses r)) = [] \<longrightarrow>
       dr_confidence_score r \<le> 7 / 10 \<and> dr_rollback_recommended r = (dr_overall_severity r = SevCritical)) \<and>
    (dd_chi_square D = None \<longrightarrow> tests_of (dr_metric_analyses r) = [])"
proof -
  let ?ms = "metric_analyses D b c"
  have r: "dr_metric_analyses r = ?ms" "dr_confidence_score r = compute_confidence_score ?ms b"
    "dr_rollback_recommended r = should_recommend_rollback (dr_overall_severity r) (dr_confidence_score r)
       (dr_statistical_significance r)"
    unfolding assms(2) by (simp_all add: report_of_def Let_def)
  have "0 \<le> gs_total_requests b" using assms(1) by (simp add: valid_snapshot_def)
  from confidence_parts [OF this, of ?ms] obtain x y z where
    p: "compute_confidence_score ?ms b = min 1 (x + y + z)" "0 \<le> x" "x \<le> 4 / 10" "0 \<le> y" "y \<le> 3 / 10"
      "0 \<le> z" "z \<le> 3 / 10" "filter is_significant (tests_of ?ms) = [] \<longrightarrow> y = 0" .
  have unit: "in_unit (dr_confidence_score r)" using p(1-7) by (simp add: r(2) in_unit_def)
  have low: "dr_confidence_score r \<le> 7 / 10" if "filter is_significant (tests_of ?ms) = []"
    using p(1,3,7,8) that by (simp add: r(2))
  have none: "tests_of ?ms = []" if "dd_chi_square D = None"
    using that by (simp add: tests_of_def metric_analyses_def analyze_violations_rate_def analyze_latency_p99_def
        analyze_error_rate_def analyze_deliberation_success_rate_def analyze_maci_violations_def
        analyze_health_score_def Let_def chi_square_test_def List.map_filter_def)
  show ?thesis
    using unit low none by (auto simp: r(1,3) should_recommend_rollback_def)
qed

text \<open>The health score of a valid snapshot is positive, and perfect exactly within the limits of its penalties.\<close>

lemma five_penalties:
  fixes v :: rat
  assumes "0 \<le> v" "v \<le> 3 / 10" "0 \<le> l" "l \<le> 3 / 10" "0 \<le> d" "d \<le> 19 / 100" "0 \<le> m" "m \<le> 1 / 10" "0 \<le> e" "e \<le> 1 / 10"
  shows "1 / 100 \<le> max 0 (1 - (v + l + d + m + e))" "max 0 (1 - (v + l + d + m + e)) \<le> 1"
proof -
  have "v + l + d + m + e \<le> 99 / 100" "0 \<le> v + l + d + m + e" using assms by linarith+
  then show "1 / 100 \<le> max 0 (1 - (v + l + d + m + e))" "max 0 (1 - (v + l + d + m + e)) \<le> 1" by simp_all
qed

lemma health_score_range:
  assumes "valid_snapshot g"
  shows "1 / 100 \<le> health_score g" "health_score g \<le> 1"
proof -
  let ?v = "min (3 / 10) (gs_violations_rate g * (3 / 10)) :: rat"
  let ?l = "if 5 < gs_latency_p99 g then min (3 / 10) ((gs_latency_p99 g - 5) / 50 * (3 / 10)) else 0 :: rat"
  let ?d = "if gs_deliberation_success_rate g < 19 / 20
     then min (2 / 10) ((19 / 20 - gs_deliberation_success_rate g) * (2 / 10)) else 0 :: rat"
  let ?m = "min (1 / 10) (of_int (gs_maci_violations_count g) * (1 / 100)) :: rat"
  let ?e = "min (1 / 10) (gs_error_rate g * (1 / 10)) :: rat"
  have h: "health_score g = max 0 (1 - (?v + ?l + ?d + ?m + ?e))" by (simp add: health_score_def Let_def)
  have v: "0 \<le> ?v" "?v \<le> 3 / 10" using assms by (auto simp: valid_snapshot_def in_unit_def)
  have l: "0 \<le> ?l" "?l \<le> 3 / 10" by auto
  have d: "0 \<le> ?d" "?d \<le> 19 / 100" using assms by (auto simp: valid_snapshot_def in_unit_def min_def)
  have m: "0 \<le> ?m" "?m \<le> 1 / 10" using assms by (auto simp: valid_snapshot_def)
  have e: "0 \<le> ?e" "?e \<le> 1 / 10" using assms by (auto simp: valid_snapshot_def in_unit_def)
  show "1 / 100 \<le> health_score g" "health_score g \<le> 1"
    unfolding h by (rule five_penalties [OF v l d m e])+
qed

section \<open>Missing and overcounted metrics\<close>

lemma or_plain_return [simp]: "m w = (w', Inr x) \<Longrightarrow> or_plain m y w = (w', Inr x)"
  by (simp add: or_plain_def)

lemma or_plain_plain [simp]: "m w = (w', Inl e) \<Longrightarrow> plain_error e \<Longrightarrow> or_plain m y w = (w', Inr y)"
  by (simp add: or_plain_def)

lemma plain_op [simp]: "plain_error (Op s)"
  by (simp add: plain_error_def)

lemma empty_snapshot_valid:
  "valid_snapshot (empty_snapshot t version window) \<longleftrightarrow>
     (case version of None \<Rightarrow> True | Some v \<Rightarrow> semver_pattern v) \<and> 1 \<le> window"
  by (auto simp: valid_snapshot_def empty_snapshot_def in_unit_def split: option.splits)

lemma snapshot_act_valid [simp]: "valid_snapshot g \<Longrightarrow> snapshot_act g = return_act g"
  by (simp add: snapshot_act_def make_snapshot_def)

lemma snapshot_act_invalid [simp]:
  "\<not> valid_snapshot g \<Longrightarrow> snapshot_act g = raise_act (Op ''validation error for GovernanceMetricsSnapshot'')"
  by (simp add: snapshot_act_def make_snapshot_def)

lemma collect_without_redis:
  assumes "co_redis co = None" and "0 < n" and "\<And>v. version = Some v \<Longrightarrow> semver_pattern v"
  shows "collect_snapshot co version (Some n) w = (w, Inr (empty_snapshot (co_clock co w) version n))"
proof -
  have "valid_snapshot (empty_snapshot (co_clock co w) version n)"
    using assms(2,3) by (auto simp: empty_snapshot_valid split: option.splits)
  then show ?thesis using assms(1,2) by (simp add: collect_snapshot_def clock_act_def and_then_def Let_def)
qed

lemma to_seconds_positive [simp]: "0 < to_seconds v" "to_seconds v \<noteq> 0"
  by (cases v; simp)+

lemma lost_deliberations_are_critical:
  assumes "gs_deliberation_success_rate c = 0"
    and "th_deliberation_success_rate_threshold (dd_thresholds D) < gs_deliberation_success_rate b"
  shows "dr_overall_severity (report_of D rid t b c window aid) = SevCritical"
    and "dr_rollback_recommended (report_of D rid t b c window aid)"
proof -
  have "analyze_deliberation_success_rate D b c \<in> set (metric_analyses D b c)" by (simp add: metric_analyses_def)
  moreover have "an_severity (analyze_deliberation_success_rate D b c) = SevCritical"
    using assms by (simp add: analyze_deliberation_success_rate_def Let_def graded_def)
  ultimately have "\<exists>m \<in> set (metric_analyses D b c). an_severity m = SevCritical" by blast
  then have "determine_overall_severity (metric_analyses D b c) = SevCritical"
    by (simp add: determine_overall_severity_def Let_def)
  then show "dr_overall_severity (report_of D rid t b c window aid) = SevCritical"
    "dr_rollback_recommended (report_of D rid t b c window aid)"
    by (simp_all add: report_of_def Let_def should_recommend_rollback_def)
qed

text \<open>A collector that is not connected reads as a breakdown: against a baseline whose deliberations succeeded more
  often than the threshold, the analysis is CRITICAL and recommends the rollback, although nothing was
  measured.\<close>

theorem missing_metrics_recommend_rollback:
  assumes "co_redis co = None" and "valid_snapshot b"
    and "th_deliberation_success_rate_threshold (dd_thresholds D) < gs_deliberation_success_rate b"
  shows "\<exists>r. analyze_degradation D co b None window aid w = (w, Inr r) \<and>
    dr_overall_severity r = SevCritical \<and> dr_rollback_recommended r \<and> gs_total_requests (dr_current_snapshot r) = 0"
proof -
  let ?g = "empty_snapshot (co_clock co w) (gs_constitutional_version b) (to_seconds window)"
  let ?r = "report_of D (''degradation-'' @ co_float_text co (co_clock co w)) (co_clock co w) b ?g window aid"
  have "semver_pattern v" if "gs_constitutional_version b = Some v" for v
    using assms(2) that by (simp add: valid_snapshot_def)
  then have "collect_snapshot co (gs_constitutional_version b) (Some (to_seconds window)) w = (w, Inr ?g)"
    by (intro collect_without_redis [OF assms(1)]) auto
  then have run: "analyze_degradation D co b None window aid w = (w, Inr ?r)"
    by (simp add: analyze_degradation_def clock_act_def and_then_def return_act_def)
  have zero: "gs_deliberation_success_rate ?g = 0" by (simp add: empty_snapshot_def)
  have "gs_total_requests (dr_current_snapshot ?r) = 0" by (simp add: report_of_def Let_def empty_snapshot_def)
  with run lost_deliberations_are_critical [OF zero assms(3)] show ?thesis by blast
qed

text \<open>C30: Where the slow decisions of a window and its violations together outnumber the requests counted - a slow
  violation counts twice - the error rate exceeds one, the snapshot is invalid, and the empty one takes its
  place: it shows no violation and no error at all.\<close>

theorem overcounted_errors_are_hidden:
  assumes "co_redis co = Some r" and "0 < window"
    and "get_latencies co (co_clock co w - of_int window) (co_clock co w) w = (w1, Inr ls)"
    and "get_request_counters co w1 = (w2, Inr (n, ok, no, esc))" "0 < n"
    and "get_violations_count co (co_clock co w - of_int window) (co_clock co w) w2 = (w3, Inr k)"
    and "get_maci_violations_count co (co_clock co w - of_int window) (co_clock co w) w3 = (w4, Inr mv)"
    and "get_deliberation_metrics co w4 = (w5, Inr (ds, rate))"
    and "n < int (length (filter (\<lambda>l. 100 < l) ls) + k)" and "\<And>v. version = Some v \<Longrightarrow> semver_pattern v"
  shows "collect_snapshot co version (Some window) w = (w5, Inr (empty_snapshot (co_clock co w) version window))"
proof -
  let ?t = "co_clock co w"
  let ?g = "measured_snapshot ?t version window ls (compute_percentiles co ls) (n, ok, no, esc) k mv rate"
  let ?c = "length (filter (\<lambda>l. 100 < l) ls) + k"
  obtain p50 p95 p99 where p: "compute_percentiles co ls = (p50, p95, p99)" by (cases "compute_percentiles co ls") auto
  have "of_int n < (of_nat ?c :: rat)" using assms(9) by (metis of_int_less_iff of_int_of_nat_eq)
  then have "1 < of_nat ?c / (of_int n :: rat)" using assms(5) by (simp add: less_divide_eq)
  then have "1 < gs_error_rate ?g" using assms(5) by (simp add: measured_snapshot_def p)
  then have bad: "\<not> valid_snapshot ?g" by (simp add: valid_snapshot_def in_unit_def)
  have good: "valid_snapshot (empty_snapshot ?t version window)"
    using assms(2,10) by (auto simp: empty_snapshot_valid split: option.splits)
  show ?thesis
    using assms(1-8) bad good
    by (simp add: collect_snapshot_def clock_act_def and_then_def Let_def or_plain_def raise_act_def)
qed

text \<open>A Redis that is its sorted sets, its hashes of counters and its values\<close>

record metric_store =
  mt_sorted :: "(string, (string, rat) dict) dict"
  mt_hashes :: "(string, (string, nat) dict) dict"
  mt_values :: "(string, json) dict"
  mt_time :: rat

definition sorted_of :: "metric_store \<Rightarrow> string \<Rightarrow> (string, rat) dict" where
  "sorted_of s k = dget_default (mt_sorted s) k []"

definition hash_of :: "metric_store \<Rightarrow> string \<Rightarrow> (string, nat) dict" where
  "hash_of s k = dget_default (mt_hashes s) k []"

definition in_scores :: "rat \<Rightarrow> rat \<Rightarrow> (string, rat) dict \<Rightarrow> (string, rat) dict" where
  "in_scores a z d = filter (\<lambda>(m, x). a \<le> x \<and> x \<le> z) d"

definition store_redis :: "metric_store metrics_redis" where
  "store_redis =
     \<lparr>mr_zadd = (\<lambda>k m x s. (s\<lparr>mt_sorted := dset k (dset m x (sorted_of s k)) (mt_sorted s)\<rparr>, Inr ())),
      mr_hincrby = (\<lambda>k f n s. (s\<lparr>mt_hashes := dset k (dset f (dget_default (hash_of s k) f 0 + nat n) (hash_of s k)) (mt_hashes s)\<rparr>, Inr ())),
      mr_zremrangebyscore = (\<lambda>k x s. (s\<lparr>mt_sorted := dset k (filter (\<lambda>(m, y). x < y) (sorted_of s k)) (mt_sorted s)\<rparr>, Inr ())),
      mr_get = (\<lambda>k s. (s, Inr (dget (mt_values s) k))),
      mr_set = (\<lambda>k j n s. (s\<lparr>mt_values := dset k j (mt_values s)\<rparr>, Inr ())),
      mr_zrangebyscore = (\<lambda>k a z s. (s, Inr (map fst (in_scores a z (sorted_of s k))))),
      mr_hgetall = (\<lambda>k s. (s, Inr (map (\<lambda>(f, n). (f, nat_text n)) (hash_of s k)))),
      mr_zcount = (\<lambda>k a z s. (s, Inr (length (in_scores a z (sorted_of s k)))))\<rparr>"

definition store_collector :: "metric_store metrics_redis option \<Rightarrow> metric_store collector" where
  "store_collector r =
     \<lparr>co_redis = r, co_snapshot_retention_hours = 168, co_measurement_window_seconds = 60, co_clock = mt_time,
      co_float_text = (\<lambda>x. nat_text (nat \<lfloor>x\<rfloor>)), co_float = (\<lambda>s. map_option of_nat (py_int s)),
      co_int_text = (\<lambda>n. nat_text (nat n)), co_int = (\<lambda>s. map_option int (py_int s)), co_dumps = (\<lambda>j. []), co_kernel = None\<rparr>"

text \<open>One decision, slow and in violation, as the collector records it\<close>

definition one_slow_violation :: metric_store where
  "one_slow_violation = fst (record_governance_decision (store_collector (Some store_redis)) 150 False False True
     \<lparr>mt_sorted = [], mt_hashes = [], mt_values = [], mt_time = 100\<rparr>)"

lemma overcounted_errors_are_hidden_witness:
  "collect_snapshot (store_collector (Some store_redis)) None (Some 60) one_slow_violation =
     (one_slow_violation, Inr (empty_snapshot 100 None 60)) \<and>
   get_violations_count (store_collector (Some store_redis)) 40 100 one_slow_violation = (one_slow_violation, Inr 1)"
proof -
  let ?co = "store_collector (Some store_redis)"
  have t: "co_clock ?co one_slow_violation = 100" by code_simp
  have ls: "get_latencies ?co 40 100 one_slow_violation = (one_slow_violation, Inr [150])" by code_simp
  have ns: "get_request_counters ?co one_slow_violation = (one_slow_violation, Inr (1, 0, 1, 0))" by code_simp
  have vs: "get_violations_count ?co 40 100 one_slow_violation = (one_slow_violation, Inr 1)" by code_simp
  have ms: "get_maci_violations_count ?co 40 100 one_slow_violation = (one_slow_violation, Inr 0)" by code_simp
  have ds: "get_deliberation_metrics ?co one_slow_violation = (one_slow_violation, Inr ((0, 0, 0), 1))" by code_simp
  have "collect_snapshot ?co None (Some 60) one_slow_violation =
      (one_slow_violation, Inr (empty_snapshot (co_clock ?co one_slow_violation) None 60))"
    by (rule overcounted_errors_are_hidden [where r = store_redis and n = 1 and k = 1 and ls = "[150]" and
          ?w1.0 = one_slow_violation and ?w2.0 = one_slow_violation and ?w3.0 = one_slow_violation and
          ?w4.0 = one_slow_violation and ok = 0 and no = 1 and esc = 0 and mv = 0 and ds = "(0, 0, 0)" and rate = 1])
      (simp_all add: t ls ns vs ms ds, simp add: store_collector_def)
  then show ?thesis using t vs by simp
qed

definition good_snapshot :: metrics_snapshot where
  "good_snapshot = (empty_snapshot 0 (Some ''1.0.0'') 60)\<lparr>gs_deliberation_success_rate := 1, gs_total_requests := 500\<rparr>"

definition plain_detector :: detector where
  "plain_detector = \<lparr>dd_thresholds = default_thresholds, dd_chi_square = None, dd_metric_text = an_metric_name\<rparr>"

lemma good_snapshot_valid: "valid_snapshot good_snapshot"
  by code_simp

lemma missing_metrics_recommend_rollback_witness:
  "\<exists>r. analyze_degradation plain_detector (store_collector None) good_snapshot None ONE_HOUR None one_slow_violation =
     (one_slow_violation, Inr r) \<and> dr_rollback_recommended r"
  using missing_metrics_recommend_rollback [of "store_collector None" good_snapshot plain_detector ONE_HOUR None one_slow_violation]
    good_snapshot_valid
  by (auto simp: store_collector_def plain_detector_def default_thresholds_def good_snapshot_def)

lemma confidence_bounds_witness:
  "in_unit (dr_confidence_score (report_of plain_detector [] 0 good_snapshot good_snapshot ONE_HOUR None)) \<and>
   tests_of (dr_metric_analyses (report_of plain_detector [] 0 good_snapshot good_snapshot ONE_HOUR None)) = []"
  using confidence_bounds [OF good_snapshot_valid refl, of plain_detector "[]" 0 good_snapshot ONE_HOUR None]
  by (simp add: plain_detector_def)

text \<open>A baseline that is stored is read back unchanged.\<close>

lemma snapshot_document_read: "snapshot_of_document (snapshot_document g) = make_snapshot g"
  by (cases g; cases "gs_constitutional_version g")
    (simp_all add: snapshot_of_document_def snapshot_document_def json_string_def opt_string_def num_field_def int_field_def)

end
