(* ===== verification/Saga_Runs.thy ===== *)
theory Saga_Runs
  imports Saga_Theorems
begin

text \<open>
  Runs of a saga without a persistence provider whose steps all return, or return up to one that raises:
  the context and the world follow from the bodies of the steps alone.
\<close>

text \<open>The input of the first attempt of a step\<close>

definition first_input :: "string \<Rightarrow> string \<Rightarrow> json_dict \<Rightarrow> json_dict \<Rightarrow> string \<Rightarrow> step_input" where
  "first_input sid name results metadata h =
     \<lparr>si_saga_id = sid, si_step_name = name, si_attempt = 1, si_context = results, si_metadata = metadata,
      si_constitutional_hash = h\<rparr>"

text \<open>The bodies of the steps in order, each over the results of those before; \<open>None\<close> where one raises\<close>

fun bodies_return ::
  "'w saga_step list \<Rightarrow> string \<Rightarrow> json_dict \<Rightarrow> string \<Rightarrow> json_dict \<Rightarrow> 'w \<Rightarrow> (json_dict \<times> 'w) option" where
  "bodies_return [] sid metadata h results w = Some (results, w)"
| "bodies_return (st # sts) sid metadata h results w =
     (case st_execute st (first_input sid (st_name st) results metadata h) w of
        (w', Inr v) \<Rightarrow> bodies_return sts sid metadata h (dset (st_name st) v results) w'
      | (w', Inl e) \<Rightarrow> None)"

lemma execute_step_returns:
  assumes "sg_persistence s = None" and "0 < st_max_retries st"
    and "st_execute st (first_input (sg_saga_id s) (st_name st) (sc_step_results (sg_context s))
           (sc_metadata (sg_context s)) (sc_constitutional_hash (sg_context s))) (sg_world s) = (w, Inr v)"
  shows "\<exists>s1 st1. execute_step fmt st s = (s1, st1, Inr True) \<and> s1 = step_done st v ((register_compensation st s)\<lparr>sg_world := w\<rparr>)"
proof -
  from assms(2) obtain n where n: "st_max_retries st = Suc n" by (cases "st_max_retries st") auto
  have same: "sg_world (register_compensation st s) = sg_world s" "sg_context (register_compensation st s) = sg_context s"
    "sg_saga_id (register_compensation st s) = sg_saga_id s" "sg_persistence (register_compensation st s) = None"
    using assms(1) by (simp_all add: register_compensation_def split: option.splits)
  have input: "step_input_of (st\<lparr>st_status := StepExecuting\<rparr>) 0 (register_compensation st s) =
      first_input (sg_saga_id s) (st_name st) (sc_step_results (sg_context s)) (sc_metadata (sg_context s))
        (sc_constitutional_hash (sg_context s))"
    by (simp add: step_input_of_def first_input_def same)
  have "step_done (st\<lparr>st_status := StepExecuting\<rparr>) = step_done st" by (rule ext, rule ext) (simp add: step_done_def)
  moreover have "sg_persistence (step_done st v ((register_compensation st s)\<lparr>sg_world := w\<rparr>)) = None"
    using same(4) by (simp add: step_done_def)
  ultimately show ?thesis using assms(3) by (simp add: execute_step_def n input same(1) Let_def)
qed

lemma step_done_fields:
  "sg_persistence (step_done st v s) = sg_persistence s" "sg_saga_id (step_done st v s) = sg_saga_id s"
  "sg_world (step_done st v s) = sg_world s" "sg_failed_step (step_done st v s) = sg_failed_step s"
  "sg_status (step_done st v s) = sg_status s" "sg_compensated_steps (step_done st v s) = sg_compensated_steps s"
  "sg_failed_compensations (step_done st v s) = sg_failed_compensations s"
  "sc_step_results (sg_context (step_done st v s)) = dset (st_name st) v (sc_step_results (sg_context s))"
  "sc_metadata (sg_context (step_done st v s)) = sc_metadata (sg_context s)"
  "sc_constitutional_hash (sg_context (step_done st v s)) = sc_constitutional_hash (sg_context s)"
  by (simp_all add: step_done_def set_step_result_def)

lemma register_fields:
  "sg_world (register_compensation st s) = sg_world s" "sg_context (register_compensation st s) = sg_context s"
  "sg_saga_id (register_compensation st s) = sg_saga_id s"
  by (simp_all add: register_compensation_def split: option.splits)

lemma run_steps_return:
  assumes "sg_persistence s = None" and "\<forall>st \<in> set sts. 0 < st_max_retries st"
    and "bodies_return sts (sg_saga_id s) (sc_metadata (sg_context s)) (sc_constitutional_hash (sg_context s))
           (sc_step_results (sg_context s)) (sg_world s) = Some (results, w)"
  shows "\<exists>seen' s'. (\<forall>rest. run_steps fmt seen (sts @ rest) s = run_steps fmt seen' rest s') \<and>
    sg_world s' = w \<and> sc_step_results (sg_context s') = results \<and> sg_persistence s' = None \<and>
    sg_saga_id s' = sg_saga_id s \<and> sg_failed_step s' = sg_failed_step s \<and> sg_status s' = sg_status s \<and>
    sg_compensated_steps s' = sg_compensated_steps s \<and> sg_failed_compensations s' = sg_failed_compensations s \<and>
    sc_metadata (sg_context s') = sc_metadata (sg_context s) \<and>
    sc_constitutional_hash (sg_context s') = sc_constitutional_hash (sg_context s)"
  using assms
proof (induction sts arbitrary: s seen)
  case (Cons st sts)
  let ?i = "first_input (sg_saga_id s) (st_name st) (sc_step_results (sg_context s)) (sc_metadata (sg_context s))
        (sc_constitutional_hash (sg_context s))"
  obtain w1 r where body: "st_execute st ?i (sg_world s) = (w1, r)" by (cases "st_execute st ?i (sg_world s)")
  with Cons.prems(3) obtain v where r: "r = Inr v" by (cases r) auto
  from execute_step_returns [OF Cons.prems(1) _ body [unfolded r], of fmt] Cons.prems(2)
  obtain s1 st1 where one: "execute_step fmt st s = (s1, st1, Inr True)"
    "s1 = step_done st v ((register_compensation st s)\<lparr>sg_world := w1\<rparr>)"
    by auto
  have "bodies_return sts (sg_saga_id s1) (sc_metadata (sg_context s1)) (sc_constitutional_hash (sg_context s1))
      (sc_step_results (sg_context s1)) (sg_world s1) = Some (results, w)"
    using Cons.prems(3) body r by (simp add: one(2) step_done_fields register_fields)
  moreover have "sg_persistence s1 = None" using Cons.prems(1) by (simp add: one(2) step_done_fields register_frame)
  ultimately obtain seen' s' where rest:
    "\<forall>rest. run_steps fmt (seen @ [st1]) (sts @ rest) s1 = run_steps fmt seen' rest s'"
    "sg_world s' = w \<and> sc_step_results (sg_context s') = results \<and> sg_persistence s' = None \<and>
     sg_saga_id s' = sg_saga_id s1 \<and> sg_failed_step s' = sg_failed_step s1 \<and> sg_status s' = sg_status s1 \<and>
     sg_compensated_steps s' = sg_compensated_steps s1 \<and> sg_failed_compensations s' = sg_failed_compensations s1 \<and>
     sc_metadata (sg_context s') = sc_metadata (sg_context s1) \<and>
     sc_constitutional_hash (sg_context s') = sc_constitutional_hash (sg_context s1)"
    using Cons.IH [of s1 "seen @ [st1]"] Cons.prems(2) by auto
  have "\<forall>rest. run_steps fmt seen ((st # sts) @ rest) s = run_steps fmt seen' rest s'" using rest(1) one(1) by simp
  then show ?case
    using rest(2) by (intro exI [of _ seen'] exI [of _ s'])
      (simp add: one(2) step_done_fields register_fields register_frame)
qed auto

text \<open>A saga whose steps all return is completed, with their results and their world.\<close>

lemma saga_of_returning_bodies:
  assumes "sg_persistence s = None" and "\<forall>st \<in> set (sg_steps s). 0 < st_max_retries st" and "sg_failed_step s = None"
    and "bodies_return (sg_steps s) (sg_saga_id s) (sc_metadata c) (sc_constitutional_hash c) (sc_step_results c)
           (sg_world s) = Some (results, w)"
  shows "\<exists>s' r. execute_saga fmt (Some c) s = (s', Inr r) \<and> sr_status r = SagaCompleted \<and> sg_world s' = w \<and>
    sc_step_results (sr_context r) = results"
proof -
  let ?s = "s\<lparr>sg_status := SagaExecuting, sg_context := c\<rparr>"
  obtain seen' t where run: "\<forall>rest. run_steps fmt [] (sg_steps ?s @ rest) ?s = run_steps fmt seen' rest t"
    "sg_world t = w" "sc_step_results (sg_context t) = results" "sg_persistence t = None" "sg_failed_step t = None"
    using run_steps_return [of ?s "sg_steps ?s" results w fmt "[]"] assms by auto
  from run(1) have "run_steps fmt [] (sg_steps ?s) ?s = (t\<lparr>sg_steps := seen'\<rparr>, Inr ())"
    by (metis append_Nil2 run_steps.simps(1))
  then have "execute_body fmt ?s = (t\<lparr>sg_steps := seen', sg_status := SagaCompleted\<rparr>, Inr ())"
    using run(4,5) by (simp add: execute_body_def truthy_str_def)
  then show ?thesis
    using run(2,3) by (simp add: execute_without_provider [OF assms(1)] Let_def build_result_def)
qed

text \<open>A saga whose steps return up to one that raises what the saga does not catch is left as it is.\<close>

lemma saga_of_escaping_body:
  assumes "sg_persistence s = None" and "\<forall>st \<in> set (sg_steps s). 0 < st_max_retries st"
    and "sg_steps s = sts @ st # rest"
    and "bodies_return sts (sg_saga_id s) (sc_metadata c) (sc_constitutional_hash c) (sc_step_results c)
           (sg_world s) = Some (results, w)"
    and "st_execute st (first_input (sg_saga_id s) (st_name st) results (sc_metadata c) (sc_constitutional_hash c)) w =
           (w', Inl e)" "\<not> caught e"
  shows "\<exists>s'. execute_saga fmt (Some c) s = (s', Inl e) \<and> sg_world s' = w' \<and> sg_status s' = SagaExecuting \<and>
    sg_compensated_steps s' = sg_compensated_steps s \<and> sg_failed_compensations s' = sg_failed_compensations s"
proof -
  let ?s = "s\<lparr>sg_status := SagaExecuting, sg_context := c\<rparr>"
  obtain seen' t where run: "\<forall>more. run_steps fmt [] (sts @ more) ?s = run_steps fmt seen' more t"
    "sg_world t = w" "sc_step_results (sg_context t) = results" "sg_persistence t = None" "sg_saga_id t = sg_saga_id s"
    "sg_status t = SagaExecuting" "sg_compensated_steps t = sg_compensated_steps s"
    "sg_failed_compensations t = sg_failed_compensations s" "sc_metadata (sg_context t) = sc_metadata c"
    "sc_constitutional_hash (sg_context t) = sc_constitutional_hash c"
    using run_steps_return [of ?s sts results w fmt "[]"] assms(1-4) by auto
  let ?st = "st\<lparr>st_status := StepExecuting\<rparr>" and ?t = "register_compensation st t"
  obtain n where n: "st_max_retries st = Suc n" using assms(2,3) by (cases "st_max_retries st") auto
  have input: "step_input_of ?st 0 ?t =
      first_input (sg_saga_id s) (st_name st) results (sc_metadata c) (sc_constitutional_hash c)"
    by (simp add: step_input_of_def first_input_def register_fields run)
  have "execute_step fmt st t = (?t\<lparr>sg_world := w'\<rparr>, ?st, Inl e)"
    using assms(5,6) by (simp add: execute_step_def n input register_fields run(2) Let_def)
  then have "run_steps fmt [] (sg_steps ?s) ?s = (?t\<lparr>sg_world := w', sg_steps := seen' @ ?st # rest\<rparr>, Inl e)"
    using run(1) assms(3) by simp
  then have "execute_saga fmt (Some c) s = (?t\<lparr>sg_world := w', sg_steps := seen' @ ?st # rest\<rparr>, Inl e)"
    by (intro foreign_exception_escapes [OF assms(1)]) simp
  then show ?thesis using run(6-8) by (simp add: register_frame)
qed

text \<open>A step whose body never returns over the results it is given\<close>

lemma attempt_step_never:
  assumes "\<And>i w w' v. si_context i = results \<Longrightarrow> st_execute st i w \<noteq> (w', Inr v)"
    and "sc_step_results (sg_context s) = results" and "attempt_step fmt n k st s = (s', st', r)"
  shows "sg_completed_steps s' = sg_completed_steps s \<and> (case r of Inl e \<Rightarrow> \<not> caught e | Inr b \<Rightarrow> \<not> b)"
  using assms
proof (induction n arbitrary: k st s)
  case 0
  then show ?case by (auto simp: add_saga_error_def)
next
  case (Suc n)
  obtain w1 x where body: "st_execute st (step_input_of st k s) (sg_world s) = (w1, x)"
    by (cases "st_execute st (step_input_of st k s) (sg_world s)")
  have "si_context (step_input_of st k s) = results" using Suc.prems(2) by (simp add: step_input_of_def)
  then obtain e where e: "x = Inl e" using Suc.prems(1) body by (cases x) blast+
  show ?case
  proof (cases "caught e")
    case True
    have "attempt_step fmt n (Suc k) (st\<lparr>st_error := Some (step_error_text fmt st e)\<rparr>) (s\<lparr>sg_world := w1\<rparr>) = (s', st', r)"
      using Suc.prems(3) body e True by (simp add: Let_def)
    from Suc.IH [OF _ _ this] Suc.prems(1,2) show ?thesis by simp
  next
    case False
    then show ?thesis using Suc.prems(3) body e by (auto simp: Let_def)
  qed
qed

lemma saga_of_failing_first_step:
  assumes "sg_persistence s = None" and "sg_steps s = st # rest" "\<not> st_is_optional st" "st_name st \<noteq> []"
    and "st_compensation st = Some cp" "0 < cp_max_retries cp" "\<And>i w. cp_execute cp i w = (w, Inr True)"
    and "sg_compensations s = []" "sg_compensated_steps s = []" "sg_failed_compensations s = []"
    and "\<And>i w w' v. si_context i = sc_step_results c \<Longrightarrow> st_execute st i w \<noteq> (w', Inr v)"
    and "execute_saga fmt (Some c) s = (s', out)"
  shows "sg_completed_steps s' = sg_completed_steps s \<and>
    (case out of Inl e \<Rightarrow> \<not> caught e
     | Inr r \<Rightarrow> sr_status r = SagaCompensated \<and> sr_failed_step r = Some (st_name st) \<and>
         sr_compensated_steps r = [cp_name cp])"
proof -
  let ?s = "s\<lparr>sg_status := SagaExecuting, sg_context := c\<rparr>"
  let ?t = "register_compensation st ?s"
  obtain s1 st1 x where one: "execute_step fmt st ?s = (s1, st1, x)" by (cases "execute_step fmt st ?s")
  have "sc_step_results (sg_context ?t) = sc_step_results c" by (simp add: register_fields)
  from attempt_step_never [OF _ this one [unfolded execute_step_def]] assms(11)
  have never: "sg_completed_steps s1 = sg_completed_steps ?t" "case x of Inl e \<Rightarrow> \<not> caught e | Inr b \<Rightarrow> \<not> b" by auto
  have kept: "sg_completed_steps s1 = sg_completed_steps s"
    using never(1) assms(5) by (simp add: register_compensation_def)
  have frame: "same_frame ?t s1" by (rule execute_step_frame(1) [OF one])
  show ?thesis
  proof (cases x)
    case (Inl e)
    then have "run_steps fmt [] (sg_steps s) ?s = (s1\<lparr>sg_steps := st1 # rest\<rparr>, Inl e)" using one assms(2) by simp
    from foreign_exception_escapes [OF assms(1) this] show ?thesis using assms(12) kept never(2) Inl by auto
  next
    case (Inr b)
    let ?u = "s1\<lparr>sg_steps := st1 # rest, sg_failed_step := Some (st_name st)\<rparr>"
    have run: "run_steps fmt [] (sg_steps ?s) ?s = (?u, Inr ())" using one assms(2,3) Inr never(2) by simp
    have u: "sg_persistence ?u = None" "sg_compensations ?u = [cp]" "sg_compensated_steps ?u = []"
      "sg_failed_compensations ?u = []"
      using frame assms(1,5,8-10) by (simp_all add: same_frame_def register_frame register_compensations)
    obtain m where m: "cp_max_retries cp = Suc m" using assms(6) by (cases "cp_max_retries cp") auto
    have undo: "run_compensations ?u = (?u\<lparr>sg_status := SagaCompensating, sg_compensated_steps := [cp_name cp]\<rparr>, Inr ())"
      using u by (simp add: run_compensations_def execute_compensation_def m assms(7) note_compensation_def Let_def)
    have "execute_body fmt ?s =
        (?u\<lparr>sg_status := SagaCompensated, sg_compensated_steps := [cp_name cp]\<rparr>, Inr ())"
      unfolding execute_body_def run using assms(4) u by (simp add: truthy_str_def undo)
    then show ?thesis
      using assms(12) kept by (auto simp: execute_without_provider [OF assms(1)] Let_def build_result_def)
  qed
qed

end
