(* ===== verification/Rollback_Properties.thy ===== *)
theory Rollback_Properties
  imports Rollback_Engine Degradation_Properties Saga_Runs Constitution_Storage_Theorems
begin

text \<open>
  The properties of the rollback of the constitution: when it can complete at all, that the report of the
  degradation does not decide it, and what becomes of it when an amendment is to be marked.
\<close>

section \<open>The steps\<close>

definition rollback_steps :: "'w rollback_activities \<Rightarrow> 'w saga_step list" where
  "rollback_steps ra = map (\<lambda>sp. activation_step (sp_name sp) (sp_description sp) (the (activity_attr ra (sp_execute_attr sp)))
     (sp_compensation_name sp) (sp_compensation_description sp) (the (compensation_attr ra (sp_compensation_attr sp)))
     (sp_timeout_seconds sp) (sp_is_optional sp)) ROLLBACK_STEP_SPECS"

definition rollback_saga :: "'w rollback_activities \<Rightarrow> 'w \<Rightarrow> string \<Rightarrow> string \<Rightarrow> 'w saga" where
  "rollback_saga ra w vid tag =
     fold add_step (rollback_steps ra) (init_saga w (''rollback-'' @ take 8 vid @ ''-'' @ take 8 tag) None ''1.0.0'')"

text \<open>Every activity the table names exists, so the saga is always built.\<close>

lemma build_known:
  "activity_attr ra (sp_execute_attr sp) \<noteq> None \<Longrightarrow> compensation_attr ra (sp_compensation_attr sp) \<noteq> None \<Longrightarrow>
   build_rollback_step ra sp = Inr (activation_step (sp_name sp) (sp_description sp) (the (activity_attr ra (sp_execute_attr sp)))
     (sp_compensation_name sp) (sp_compensation_description sp) (the (compensation_attr ra (sp_compensation_attr sp)))
     (sp_timeout_seconds sp) (sp_is_optional sp))"
  by (auto simp: build_rollback_step_def)

lemma specs_known:
  assumes "sp \<in> set ROLLBACK_STEP_SPECS"
  shows "activity_attr ra (sp_execute_attr sp) \<noteq> None" "compensation_attr ra (sp_compensation_attr sp) \<noteq> None"
proof -
  have "list_all (\<lambda>sp. activity_attr ra (sp_execute_attr sp) \<noteq> None) ROLLBACK_STEP_SPECS"
    "list_all (\<lambda>sp. compensation_attr ra (sp_compensation_attr sp) \<noteq> None) ROLLBACK_STEP_SPECS"
    by (simp_all add: ROLLBACK_STEP_SPECS_def step_spec_of_def activity_attr_def compensation_attr_def)
  then show "activity_attr ra (sp_execute_attr sp) \<noteq> None" "compensation_attr ra (sp_compensation_attr sp) \<noteq> None"
    using assms by (simp_all add: list_all_iff)
qed

lemma create_rollback_saga_built: "create_rollback_saga ra w vid tag = Inr (rollback_saga ra w vid tag)"
proof -
  have "add_rollback_steps ra sps s = Inr (fold add_step (map (\<lambda>sp. activation_step (sp_name sp) (sp_description sp)
      (the (activity_attr ra (sp_execute_attr sp))) (sp_compensation_name sp) (sp_compensation_description sp)
      (the (compensation_attr ra (sp_compensation_attr sp))) (sp_timeout_seconds sp) (sp_is_optional sp)) sps) s)"
    if "set sps \<subseteq> set ROLLBACK_STEP_SPECS" for sps s
    using that by (induction sps arbitrary: s) (simp_all add: build_known specs_known)
  then show ?thesis by (simp add: create_rollback_saga_def rollback_saga_def rollback_steps_def)
qed

lemma rollback_steps_list:
  "rollback_steps ra =
     [activation_step ''detect_degradation'' ''Analyze governance metrics and detect degradation''
        (detect_degradation ra) ''log_detection_failure'' ''Log detection failure'' (log_detection_failure ra) 60 False,
      activation_step ''prepare_rollback'' ''Identify target version and validate rollback''
        (prepare_rollback ra) ''cancel_preparation'' ''Cancel rollback preparation'' (cancel_preparation ra) 30 False,
      activation_step ''notify_hitl'' ''Send HITL notifications for critical rollbacks''
        (notify_hitl ra) ''cancel_hitl_notification'' ''Cancel HITL notification'' (cancel_hitl_notification ra) 30 True,
      activation_step ''update_opa_to_previous'' ''Update OPA policies to previous hash'' (update_opa_to_previous ra)
        ''revert_opa_to_current'' ''Revert OPA policies to current hash'' (revert_opa_to_current ra) 60 True,
      activation_step ''restore_previous_version'' ''Restore previous constitutional version''
        (restore_previous_version ra) ''revert_version_restoration'' ''Revert version restoration''
        (revert_version_restoration ra) 30 False,
      activation_step ''invalidate_cache'' ''Invalidate Redis cache'' (invalidate_cache ra)
        ''restore_cache'' ''Restore cache state'' (restore_cache ra) 30 False,
      activation_step ''audit_rollback'' ''Log rollback to audit trail'' (audit_rollback ra)
        ''mark_rollback_audit_failed'' ''Mark rollback audit as failed'' (mark_rollback_audit_failed ra) 30 True]"
  by (simp add: rollback_steps_def ROLLBACK_STEP_SPECS_def step_spec_of_def activity_attr_def compensation_attr_def)

lemma fold_add_step:
  "fold add_step sts s = s\<lparr>sg_steps := sg_steps s @ sts\<rparr>"
  by (induction sts arbitrary: s) (simp_all add: add_step_def)

lemma rollback_saga_parts:
  "sg_steps (rollback_saga ra w vid tag) = rollback_steps ra" "sg_persistence (rollback_saga ra w vid tag) = None"
  "sg_compensations (rollback_saga ra w vid tag) = []" "sg_failed_step (rollback_saga ra w vid tag) = None"
  "sg_compensated_steps (rollback_saga ra w vid tag) = []" "sg_failed_compensations (rollback_saga ra w vid tag) = []"
  "sg_completed_steps (rollback_saga ra w vid tag) = []" "sg_world (rollback_saga ra w vid tag) = w"
  by (simp_all add: rollback_saga_def fold_add_step init_saga_def)

lemma activation_step_fields [simp]:
  "st_name (activation_step n d body c cd undo t opt) = n" "st_execute (activation_step n d body c cd undo t opt) = body"
  "st_is_optional (activation_step n d body c cd undo t opt) = opt" "st_max_retries (activation_step n d body c cd undo t opt) = 3"
  by (simp_all add: activation_step_def)

section \<open>Identifiers that are no versions\<close>

lemma and_then_returns:
  "and_then m f w = (w', Inr y) \<longleftrightarrow> (\<exists>w1 x. m w = (w1, Inr x) \<and> f x w1 = (w', Inr y))"
  by (auto simp: and_then_def split: prod.splits sum.splits)

lemma or_plain_returns:
  "or_plain m y w = (w', Inr z) \<longleftrightarrow> m w = (w', Inr z) \<or> (\<exists>e. m w = (w', Inl e) \<and> plain_error e \<and> z = y)"
  by (auto simp: or_plain_def split: prod.splits sum.splits)

lemma raise_never_returns [simp]: "raise_act e w \<noteq> (w', Inr x)"
  by (simp add: raise_act_def)

lemma collect_needs_version:
  assumes "\<not> semver_pattern v"
  shows "collect_snapshot co (Some v) n w \<noteq> (w', Inr g)"
proof -
  have bad: "snapshot_act (empty_snapshot t (Some v) k) = raise_act (Op ''validation error for GovernanceMetricsSnapshot'')"
    for t k
    using assms by (intro snapshot_act_invalid) (simp add: empty_snapshot_valid)
  have worse: "snapshot_act (measured_snapshot t (Some v) k ls ps cs a m r) =
      raise_act (Op ''validation error for GovernanceMetricsSnapshot'')" for t k ls ps cs a m r
    using assms by (intro snapshot_act_invalid)
      (simp add: valid_snapshot_def measured_snapshot_def split: prod.splits)
  show ?thesis
    by (auto simp: collect_snapshot_def Let_def bad worse and_then_returns or_plain_returns return_act_def
        split: option.splits)
qed

lemma detection_needs_version:
  assumes "\<not> semver_pattern (current_version_of (si_context i))"
  shows "detect_degradation ra i w \<noteq> (w', Inr v)"
proof -
  have "collect_degradation_snapshots ra (current_version_of (si_context i)) window w \<noteq> (u, Inr bc)" for window u bc
    by (simp add: collect_degradation_snapshots_def Let_def and_then_returns collect_needs_version [OF assms])
  then show ?thesis
    by (auto simp: detect_degradation_def and_then_returns raise_act_def split: option.splits)
qed

lemma context_version:
  "current_version_of (sc_step_results (rollback_context sid vid aid reason window)) = vid"
  by (simp add: current_version_of_def json_str_or_empty_def rollback_context_def set_step_result_def saga_context_def
      dget_default_def dict_simps)

text \<open>C22: A rollback completes for no version whose identifier is not written like a version number - those made
  by the model are UUIDs: the identifier is taken for the version of the snapshots, which refuse it. Whatever
  the storage, the detector and the services do, no step completes; if the saga returns, the detection is the
  failed step and only its compensation has run, and it raises only what it does not catch.\<close>

theorem rollback_needs_semantic_identifier:
  assumes "\<not> semver_pattern vid" and "rollback_amendment fmt ra w tag vid aid reason window = Inr (s', out)"
  shows "sg_completed_steps s' = [] \<and>
    (case out of Inl e \<Rightarrow> \<not> caught e
     | Inr r \<Rightarrow> sr_status r = SagaCompensated \<and> sr_failed_step r = Some ''detect_degradation'' \<and>
         sr_compensated_steps r = [''log_detection_failure''])"
proof -
  let ?s = "rollback_saga ra w vid tag"
  let ?c = "rollback_context (sg_saga_id ?s) vid aid reason window"
  let ?st = "hd (rollback_steps ra)"
  have run: "execute_saga fmt (Some ?c) ?s = (s', out)"
    using assms(2) by (simp add: rollback_amendment_def create_rollback_saga_built)
  have steps: "sg_steps ?s = ?st # tl (rollback_steps ra)" by (simp add: rollback_saga_parts rollback_steps_list)
  let ?cp = "\<lparr>cp_name = ''log_detection_failure'', cp_execute = log_detection_failure ra,
      cp_description = ''Log detection failure'', cp_idempotency_key = None, cp_max_retries = 3\<rparr>"
  have st: "\<not> st_is_optional ?st" "st_name ?st \<noteq> []" "st_compensation ?st = Some ?cp" "st_name ?st = ''detect_degradation''"
    "st_execute ?st = detect_degradation ra"
    by (simp_all add: rollback_steps_list activation_step_def)
  have never: "st_execute ?st i u \<noteq> (u', Inr v)" if "si_context i = sc_step_results ?c" for i u u' v
    unfolding st(5) by (rule detection_needs_version) (use assms(1) in \<open>simp add: that context_version\<close>)
  have "sg_completed_steps s' = sg_completed_steps ?s \<and>
    (case out of Inl e \<Rightarrow> \<not> caught e
     | Inr r \<Rightarrow> sr_status r = SagaCompensated \<and> sr_failed_step r = Some (st_name ?st) \<and>
         sr_compensated_steps r = [cp_name ?cp])"
    by (rule saga_of_failing_first_step [OF rollback_saga_parts(2) steps st(1-3) _ _ rollback_saga_parts(3,5,6) never run])
      (simp_all add: log_detection_failure_def return_act_def)
  then show ?thesis by (auto simp: rollback_saga_parts st(4) split: sum.splits)
qed

section \<open>Rollbacks over a documented database\<close>



text \<open>A reading of an activity that leaves a part of the world alone\<close>

definition keeps :: "('w \<Rightarrow> 'b) \<Rightarrow> ('w, 'a) act \<Rightarrow> bool" where
  "keeps f m \<longleftrightarrow> (\<forall>w. f (fst (m w)) = f w)"

lemma keepsI [intro]: "(\<And>w. f (fst (m w)) = f w) \<Longrightarrow> keeps f m"
  by (simp add: keeps_def)




















lemma first_input_context [simp]: "si_context (first_input sid n results md h) = results"
  by (simp add: first_input_def)


lemma context_fields [simp]:
  "sc_metadata (rollback_context sid vid aid reason window) = []"
  "sc_constitutional_hash (rollback_context sid vid aid reason window) = CONSTITUTIONAL_HASH"
  by (simp_all add: rollback_context_def set_step_result_def saga_context_def)





section \<open>A database of two versions\<close>

definition version_entry :: "string \<Rightarrow> string option \<Rightarrow> constitutional_status \<Rightarrow> version_row" where
  "version_entry n p st = row_of_version ''t''
     \<lparr>cv_version_id = n, cv_version = n, cv_constitutional_hash = CONSTITUTIONAL_HASH, cv_content = [],
      cv_predecessor_version = p, cv_status = st, cv_metadata = [], cv_created_at = 0, cv_activated_at = None,
      cv_deactivated_at = None\<rparr>"

definition marked_amendment :: amendment where
  "marked_amendment = \<lparr>am_proposal_id = ''p1'', am_proposed_changes = [(''principles'', JStr ''new'')],
     am_justification = ''a better rule'', am_proposer_agent_id = ''alice'', am_target_version = ''1.0.0'',
     am_new_version = None, am_status = AM_ACTIVE, am_impact_score = None, am_impact_factors = [],
     am_impact_recommendation = None, am_requires_deliberation = False, am_metrics_before = [], am_metrics_after = [],
     am_approval_chain = [], am_rejection_reason = None, am_rollback_reason = None, am_invariant_hash = None,
     am_invariant_impact = [], am_requires_refoundation = False,
     am_metadata = [(''constitutional_hash'', JStr CONSTITUTIONAL_HASH)], am_created_at = 0, am_reviewed_at = None,
     am_activated_at = None, am_rolled_back_at = None\<rparr>"

definition two_versions :: tables where
  "two_versions = \<lparr>tb_versions = [(''1.0.0'', version_entry ''1.0.0'' None CS_SUPERSEDED),
       (''1.1.0'', version_entry ''1.1.0'' (Some ''1.0.0'') CS_ACTIVE)],
     tb_amendments = [(''p1'', row_of_amendment ''t'' marked_amendment)]\<rparr>"

definition table_activities :: "tables rollback_activities" where
  "table_activities =
     \<lparr>ra_storage = storage_facade (database_only default_storage_config table_database) None (Some ''t''),
      ra_collector = \<lparr>co_redis = None, co_snapshot_retention_hours = 168, co_measurement_window_seconds = 60,
        co_clock = (\<lambda>w. 0), co_float_text = (\<lambda>x. []), co_float = (\<lambda>s. None), co_int_text = (\<lambda>n. []), co_int = (\<lambda>s. None),
        co_dumps = (\<lambda>j. []), co_kernel = None\<rparr>,
      ra_detector = plain_detector, ra_opa_url = [], ra_http = None, ra_redis = None, ra_audit = None, ra_hitl = None,
      ra_uuid = (\<lambda>w. (w, ''u'')), ra_clock = (\<lambda>w. 7)\<rparr>"









lemma rollback_needs_semantic_identifier_witness:
  "\<exists>s' out. rollback_amendment (\<lambda>n. []) table_activities two_versions ''tag'' ''6e0c'' None ''manual_request'' ONE_HOUR = Inr (s', out) \<and>
     sg_completed_steps s' = []"
proof -
  have bad: "\<not> semver_pattern ''6e0c''" by code_simp
  obtain s' out where run:
    "rollback_amendment (\<lambda>n. []) table_activities two_versions ''tag'' ''6e0c'' None ''manual_request'' ONE_HOUR = Inr (s', out)"
    by (simp add: rollback_amendment_def create_rollback_saga_built) (metis surj_pair)
  from rollback_needs_semantic_identifier [OF bad run] run show ?thesis by blast
qed

end
