(* ===== verification/Spec2Isabelle.thy ===== *)
theory Spec2Isabelle
  imports MACI_Theorems Circuit_Registry Batch_Breaker Multi_Approver_Theorems Voting_Theorems
    Workflow_Properties Deliberation_Properties Pipeline_Properties Refoundation_Properties Saga_Properties
    Proposal_Properties Storage_Properties Activation_Properties Bus_Properties
    Processor_Properties Recovery_Properties Retry_Properties Rollback_Properties
begin

text \<open>
  A verification development for the enhanced agent bus (\<^verbatim>\<open>src/\<close>): a Python service in which agents act
  under separated roles and send messages over a bus, high-impact actions wait for the approval of people or the outcome of votes,
  calls to other services go through circuit breakers, workflows run durably with compensations, messages
  pass a pipeline of policy checks, and the constitution that all of this enforces is itself amended
  through proposals, approvals and activations.

  \<^bold>\<open>The parts and how they interact.\<close> An agent's right to act is decided by the MACI enforcer over the role
  registry. A message sent over the bus is checked (shape, hash, tenant, rate, governance), processed, routed
  and queued. The processor attaches the session, passes the message through its gates and one of two
  governance cores, looks into the cache of verdicts, verifies it and gives it to a strategy that validates it
  and calls the handlers. A message is judged by the pipeline of middlewares, which reads the labels of information flow
  and of provenance and the tool privileges of the roles. What needs deliberation goes to the deliberation
  queue, to a multi-approver workflow or to an election. Long-running work is a durable workflow over a
  repository of events, or a saga with compensations. The constitution is a sequence of versions in the
  storage; an amendment is created by the proposal engine behind the change guard, reviewed through the
  approval integration, and activated by a saga over the storage; a change of its invariants themselves is
  a refoundation, which starts a new epoch.

  \<^bold>\<open>Theories and sources.\<close>
  \<^item> \<open>Prelude\<close>: dictionaries as association lists with Python's update and deletion, JSON values, strings,
    the collections of rules. \<open>Machine\<close>: locales for state machines, their invariants, frozen states and
    refinement, interpreted by the components below.
  \<^item> \<open>MACI_Models\<close>, \<open>MACI_Registry\<close>, \<open>MACI_Enforcer\<close>, \<open>MACI_Ledger\<close>, \<open>MACI_Theorems\<close>: \<^verbatim>\<open>maci/\<close>. Roles, actions
    and permissions; the registry of agents and their outputs by session; the validation of an action with
    its log.
  \<^item> \<open>Circuit_Config\<close>, \<open>Circuit_Breaker\<close>, \<open>Circuit_Automaton\<close>, \<open>Circuit_Breaker_Theorems\<close>, \<open>Circuit_Registry\<close>,
    \<open>Batch_Breaker\<close>: \<^verbatim>\<open>circuit_breaker/\<close>. The breaker of a service with its retry queue, the registry and the
    rate-based breaker of batches, refined to one automaton of three states.
  \<^item> \<open>Multi_Approver\<close>, \<open>Multi_Approver_Theorems\<close>: \<^verbatim>\<open>deliberation_layer/multi_approver.py\<close>. Policies, requests,
    decisions, time-outs and escalation.
  \<^item> \<open>Voting\<close>, \<open>Voting_Theorems\<close>: \<^verbatim>\<open>deliberation_layer/voting_service.py\<close>. Elections with weighted votes.
  \<^item> \<open>Agent_Message\<close>, \<open>Deliberation_Queue\<close>, \<open>Deliberation_Theorems\<close>, \<open>Deliberation_Properties\<close>:
    \<^verbatim>\<open>core_models.py\<close>, \<^verbatim>\<open>deliberation_layer/deliberation_queue.py\<close>, \<^verbatim>\<open>hitl_manager.py\<close>. The message, the queue
    with its monitors, storage and human decisions.
  \<^item> \<open>Workflow_Store\<close>, \<open>Workflow_Executor\<close>, \<open>Workflow_Replay\<close>, \<open>Workflow_Theorems\<close>, \<open>Workflow_Properties\<close>:
    \<^verbatim>\<open>persistence/\<close>. Instances, steps, events and compensations, their executor, and the replay of the log.
  \<^item> \<open>IFC_Labels\<close>, \<open>Prov_Labels\<close>, \<open>Tool_Privilege\<close>, \<open>Security_Scan\<close>, \<open>Pipeline_Context\<close>, \<open>Pipeline\<close>,
    \<open>Pipeline_Theorems\<close>, \<open>Pipeline_Properties\<close>: \<^verbatim>\<open>ifc/\<close>, \<^verbatim>\<open>prov/\<close>, \<^verbatim>\<open>middlewares/\<close>, \<^verbatim>\<open>pipeline/\<close>. The labels, the
    privileges, the scan for injections, and the chain of middlewares with its router.
  \<^item> \<open>Constitution_Invariants\<close>: \<^verbatim>\<open>constitutional/invariants.py\<close>, \<^verbatim>\<open>invariant_guard.py\<close>. The default invariants,
    their checks, the classification of a change and the two guards.
  \<^item> \<open>Refoundation\<close>, \<open>Refoundation_Properties\<close>: \<^verbatim>\<open>constitutional/refoundation.py\<close>. A step relation over the
    engine's operations; epochs and their approvals.
  \<^item> \<open>Saga_Workflow\<close>, \<open>Saga_Theorems\<close>, \<open>Validation_Saga\<close>, \<open>Saga_Properties\<close>:
    \<^verbatim>\<open>deliberation_layer/workflows/constitutional_saga.py\<close>. A saga over a world that its steps change; steps,
    compensations and the save of the provider are functions of that world that may raise.
  \<^item> \<open>Constitution_Versions\<close>, \<open>Constitution_Amendments\<close>: \<^verbatim>\<open>version_model.py\<close>, \<^verbatim>\<open>amendment_model.py\<close>, with the
    life cycle of an amendment as a relation on its statuses.
  \<^item> \<open>Constitution_Storage\<close>, \<open>Constitution_Service\<close>, \<open>Constitution_Storage_Theorems\<close>, \<open>Storage_Properties\<close>:
    \<^verbatim>\<open>constitutional/storage_infra/\<close>, \<^verbatim>\<open>constitutional/storage.py\<close>. Rows, cached documents, the lock, the
    service over cache and database, the facade of a tenant.
  \<^item> \<open>Proposal_Engine\<close>, \<open>Proposal_Review\<close>, \<open>Proposal_Theorems\<close>, \<open>Proposal_Properties\<close>: \<^verbatim>\<open>proposal_engine.py\<close>,
    \<^verbatim>\<open>hitl_integration.py\<close>.
  \<^item> \<open>Activation_Saga\<close>, \<open>Activation_Properties\<close>: \<^verbatim>\<open>activation_saga.py\<close>.
  \<^item> \<open>Bus_Effects\<close>: computations on a state that return or raise and keep the changes made before.
  \<^item> \<open>Agent_Registry\<close>, \<open>Agent_Registry_Laws\<close>: \<^verbatim>\<open>registry.py\<close>. The two registries as records of operations, the
    contract both keep as a locale, and the routers over any registry that keeps it.
  \<^item> \<open>Bus_Registry\<close>, \<open>Agent_Bus\<close>, \<open>Bus_Theorems\<close>, \<open>Bus_Properties\<close>: \<^verbatim>\<open>components/registry_manager.py\<close>,
    \<^verbatim>\<open>security/tenant_validator.py\<close>, \<^verbatim>\<open>security_helpers.py\<close>, \<^verbatim>\<open>bus/\<close>, \<^verbatim>\<open>components/governance.py\<close>,
    \<^verbatim>\<open>components/router.py\<close>. The agents of a bus with their index by tenant, and the sending of a message
    through every check, the processor and the router to the queue.
  \<^item> \<open>Message_Gates\<close>, \<open>Governance_Core\<close>, \<open>Processing_Strategies\<close>, \<open>Message_Processor\<close>, \<open>Processor_Theorems\<close>,
    \<open>Processor_Results\<close>, \<open>Processor_Properties\<close>: \<^verbatim>\<open>message_processor/\<close>, \<^verbatim>\<open>message_processor_components.py\<close>,
    \<^verbatim>\<open>gate_coordinator.py\<close>, \<^verbatim>\<open>governance_core.py\<close>, \<^verbatim>\<open>governance_coordinator.py\<close>, \<^verbatim>\<open>governance/danger_signal.py\<close>,
    \<^verbatim>\<open>validation_strategies.py\<close>, \<^verbatim>\<open>processing_strategies.py\<close>, \<^verbatim>\<open>result_finalizer.py\<close>, \<^verbatim>\<open>session_coordinator.py\<close>,
    \<^verbatim>\<open>verification_orchestrator.py\<close>. The processor of one message with its gates, governance cores, cache,
    strategies, retries and sinks; its message is part of its state, and the bus calls it as its processor.
  \<^item> \<open>Governance_Metrics\<close>, \<open>Degradation_Detector\<close>, \<open>Degradation_Properties\<close>: \<^verbatim>\<open>metrics_collector.py\<close>,
    \<^verbatim>\<open>degradation_detector.py\<close>. The metrics of the governance collected over Redis, and the analysis that
    compares two snapshots and recommends a rollback.
  \<^item> \<open>Rollback_Engine\<close>, \<open>Saga_Runs\<close>, \<open>Rollback_Properties\<close>: \<^verbatim>\<open>rollback_engine.py\<close>. The rollback of a version as a
    saga of seven steps over storage, detector and collector; how sagas of returning and raising steps run.
  \<^item> \<open>Task_Heap\<close>, \<open>Recovery_Orchestrator\<close>, \<open>Recovery_Properties\<close>: \<^verbatim>\<open>recovery_orchestrator.py\<close>. The heap of the
    standard library with the contract of a priority queue, and the orchestrator over a store of tasks.
  \<^item> \<open>Retry_Buffer\<close>, \<open>Retry_Properties\<close>: \<^verbatim>\<open>retry_buffer.py\<close>. The buffer, and a pass as steps between suspensions.

  \<^bold>\<open>State and errors.\<close> A class is a record of its attributes; a method takes the record and returns the
  changed one with its answer. An exception is the left side of a sum, or \<open>None\<close> where there is only one.
  Code that works on services outside the repository (a database, Redis, a policy agent, an HTTP client, an
  audit log) takes them as arguments: functions from a world to the changed world and an answer or an
  exception (the type \<open>act\<close> of \<open>Constitution_Storage\<close>). Where a property relies on what such a service does,
  its hypothesis says so by name (\<open>documented_versions\<close>, \<open>documented_amendments\<close>), and a concrete service
  shows that it can hold. Clocks, fresh identifiers, digests and the texts of numbers are arguments too.

  \<^bold>\<open>What the lemmas show.\<close> For each stateful component an invariant of every reachable state, the decision of
  its central operation on every branch, what a decided item may still do, and where the code departs from
  what it documents, the theorem that shows it. Optimised or duplicated routines are proved equal
  (\<open>approval_validators_agree\<close>, \<open>replay_agrees\<close>), automata are refined (\<open>breaker_refines_automaton\<close>), two
  implementations of one interface answer alike (\<open>registries_agree\<close>), stored forms are read back
  (\<open>message_round_trip\<close>, \<open>saga_state_round_trip\<close>, \<open>saved_amendment_loses_its_guard\<close>).

  \<^bold>\<open>Loops and bounds.\<close> All recursions terminate: on lists, on the number of attempts left (\<open>attempt_step\<close>,
  \<open>run_activity_with_retry\<close>), on the messages left (\<open>run_pass\<close>), or by a measure: on the retries left
  (\<open>retry_loop\<close>), on the heap and the open attempts (\<open>drain\<close>). No fuel is used. Python's
  integers are \<open>int\<close> or \<open>nat\<close>, scores, weights and times are rationals.

  \<^bold>\<open>Not modelled, and why.\<close> The rounding of floating-point numbers; log output, metrics and traces; the texts
  of most exceptions, which are shortened; the order in which a Python set is iterated; the interleaving of
  coroutines, but for the two operations whose suspension matters (\<open>begin_decision\<close> and \<open>finish_decision\<close>,
  \<open>store_vote\<close> and \<open>finish_vote\<close>); connecting and disconnecting services; HTTP routes, command lines,
  protocol servers, model adapters and classifiers, which are glue around third-party code; the parts that
  cannot run (the legacy pipeline wrapper, the amendment council, which call what does not exist).
\<close>

end
